(* ===== verification/Prelude.thy ===== *)
theory Prelude
  imports Main "HOL-Library.Word"
begin

text \<open>
  Shared vocabulary of the development. A Rust function that may fail returns an
  \<open>outcome\<close>: \<open>Ok\<close> and \<open>Err\<close> are the two constructors of \<open>Result\<close>, and
  \<open>Panic\<close> is the unwinding of the thread (an index out of range, a remainder by zero, an
  \<open>unwrap\<close> of nothing), which the HTTP layer turns into a 500 response. Fixed-width
  arithmetic follows the release profile of \<open>Cargo.toml\<close>, which leaves overflow checks
  off: additions wrap and shift amounts are taken modulo the width.
\<close>

unbundle bit_operations_syntax

section \<open>Lemma collections\<close>

named_theorems outcome_simps \<open>how a composed outcome comes to be a success, an error or a panic\<close>
named_theorems rust_arith \<open>fixed-width operations inside their range\<close>
named_theorems bit_view \<open>byte arrays seen as sequences of bits\<close>

section \<open>Results\<close>

datatype ('a, 'e) outcome = Ok 'a | Err 'e | Panic

text \<open>The question mark operator.\<close>

fun obind :: "('a, 'e) outcome \<Rightarrow> ('a \<Rightarrow> ('b, 'e) outcome) \<Rightarrow> ('b, 'e) outcome" where
  "obind (Ok x) f = f x"
| "obind (Err e) f = Err e"
| "obind Panic f = Panic"

text \<open>\<open>Result::map\<close>, \<open>Result::map_err\<close> and \<open>Option::ok_or\<close>.\<close>

fun omap :: "('a \<Rightarrow> 'b) \<Rightarrow> ('a, 'e) outcome \<Rightarrow> ('b, 'e) outcome" where
  "omap f (Ok x) = Ok (f x)"
| "omap f (Err e) = Err e"
| "omap f Panic = Panic"

fun map_err :: "('e \<Rightarrow> 'f) \<Rightarrow> ('a, 'e) outcome \<Rightarrow> ('a, 'f) outcome" where
  "map_err f (Ok x) = Ok x"
| "map_err f (Err e) = Err (f e)"
| "map_err f Panic = Panic"

definition ok_or :: "'a option \<Rightarrow> 'e \<Rightarrow> ('a, 'e) outcome" where
  "ok_or x e = (case x of Some y \<Rightarrow> Ok y | None \<Rightarrow> Err e)"

text \<open>\<open>iter().map(f).collect::<Result<Vec<_>, _>>()\<close>: the first failure wins.\<close>

fun collect :: "('b \<Rightarrow> ('a, 'e) outcome) \<Rightarrow> 'b list \<Rightarrow> ('a list, 'e) outcome" where
  "collect f [] = Ok []"
| "collect f (x # xs) = obind (f x) (\<lambda>y. obind (collect f xs) (\<lambda>ys. Ok (y # ys)))"

fun is_ok :: "('a, 'e) outcome \<Rightarrow> bool" where
  "is_ok (Ok x) = True"
| "is_ok (Err e) = False"
| "is_ok Panic = False"

text \<open>\<open>?\<close> and \<open>map_err\<close> on a call of the world outside, which takes and returns its state.\<close>

definition wtry :: "('w \<Rightarrow> ('e + 'a) \<times> 'w) \<Rightarrow> ('a \<Rightarrow> 'w \<Rightarrow> ('e + 'b) \<times> 'w) \<Rightarrow> 'w \<Rightarrow> ('e + 'b) \<times> 'w" where
  "wtry f k w = (case f w of (Inr x, w') \<Rightarrow> k x w' | (Inl e, w') \<Rightarrow> (Inl e, w'))"

definition wmap_err :: "('e \<Rightarrow> 'f) \<Rightarrow> ('w \<Rightarrow> ('e + 'a) \<times> 'w) \<Rightarrow> 'w \<Rightarrow> ('f + 'a) \<times> 'w" where
  "wmap_err g f w = (case f w of (r, w') \<Rightarrow> (map_sum g id r, w'))"

text \<open>The library results of code that cannot panic come as sums, the error on the left.\<close>

fun from_sum :: "'e + 'a \<Rightarrow> ('a, 'e) outcome" where
  "from_sum (Inl e) = Err e"
| "from_sum (Inr x) = Ok x"

lemma map_sum_id_Inr [simp]: "map_sum f id y = Inr x \<longleftrightarrow> y = Inr x"
  by (cases y) auto

lemma obind_eq_Ok [outcome_simps]: "obind m f = Ok y \<longleftrightarrow> (\<exists>x. m = Ok x \<and> f x = Ok y)"
  by (cases m) auto

lemma obind_eq_Err [outcome_simps]:
  "obind m f = Err e \<longleftrightarrow> m = Err e \<or> (\<exists>x. m = Ok x \<and> f x = Err e)"
  by (cases m) auto

lemma obind_eq_Panic [outcome_simps]:
  "obind m f = Panic \<longleftrightarrow> m = Panic \<or> (\<exists>x. m = Ok x \<and> f x = Panic)"
  by (cases m) auto

lemma omap_eq_Ok [outcome_simps]: "omap f m = Ok y \<longleftrightarrow> (\<exists>x. m = Ok x \<and> y = f x)"
  by (cases m) auto

lemma omap_eq_Panic [simp]: "omap f m = Panic \<longleftrightarrow> m = Panic"
  by (cases m) auto

lemma map_err_eq [outcome_simps]:
  "map_err f m = Ok x \<longleftrightarrow> m = Ok x"
  "map_err f m = Err e' \<longleftrightarrow> (\<exists>e. m = Err e \<and> e' = f e)"
  "map_err f m = Panic \<longleftrightarrow> m = Panic"
  by (cases m; auto)+

lemma ok_or_eq [outcome_simps]:
  "ok_or x e = Ok y \<longleftrightarrow> x = Some y"
  "ok_or x e = Err e' \<longleftrightarrow> x = None \<and> e' = e"
  "ok_or x e \<noteq> Panic"
  by (auto simp: ok_or_def split: option.splits)

lemma ok_or_simps [simp]: "ok_or (Some y) e = Ok y" "ok_or None e = Err e"
  by (simp_all add: ok_or_def)

lemma from_sum_eq [outcome_simps]:
  "from_sum s = Ok x \<longleftrightarrow> s = Inr x"
  "from_sum s = Err e \<longleftrightarrow> s = Inl e"
  "from_sum s \<noteq> Panic"
  by (cases s; auto)+

declare ok_or_eq(3) [simp] from_sum_eq(3) [simp] map_err_eq(3) [simp]

lemma collect_eq_Ok:
  "collect f xs = Ok ys \<longleftrightarrow> list_all2 (\<lambda>x y. f x = Ok y) xs ys"
  by (induction xs arbitrary: ys) (auto simp: outcome_simps list_all2_Cons1)

lemma collect_all_Ok:
  assumes "\<And>x. x \<in> set xs \<Longrightarrow> f x = Ok (g x)"
  shows "collect f xs = Ok (map g xs)"
  using assms by (induction xs) auto

lemma collect_cong [fundef_cong]:
  assumes "xs = ys" and "\<And>x. x \<in> set ys \<Longrightarrow> f x = g x"
  shows "collect f xs = collect g ys"
proof -
  have "collect f ys = collect g ys" using assms(2) by (induction ys) auto
  with assms(1) show ?thesis by simp
qed

lemma collect_not_Panic:
  assumes "\<And>x. x \<in> set xs \<Longrightarrow> f x \<noteq> Panic"
  shows "collect f xs \<noteq> Panic"
  using assms by (induction xs) (auto simp: outcome_simps)

lemma collect_eq_Err:
  assumes "collect f xs = Err e"
  shows "\<exists>x \<in> set xs. f x = Err e"
  using assms by (induction xs) (auto simp: outcome_simps)

section \<open>Fixed-width integers\<close>

type_synonym u8 = "8 word"
type_synonym u16 = "16 word"
type_synonym u32 = "32 word"

text \<open>
  Signed and pointer-sized integers are kept as \<open>int\<close> and \<open>nat\<close>; the operations that
  can leave the range wrap explicitly.
\<close>

definition i64_min :: int where "i64_min = - (2 ^ 63)"
definition i64_max :: int where "i64_max = 2 ^ 63 - 1"

definition wrap_i64 :: "int \<Rightarrow> int" where
  "wrap_i64 x = (x + 2 ^ 63) mod 2 ^ 64 - 2 ^ 63"

definition in_i64 :: "int \<Rightarrow> bool" where
  "in_i64 x \<longleftrightarrow> i64_min \<le> x \<and> x \<le> i64_max"

definition in_i32 :: "int \<Rightarrow> bool" where
  "in_i32 x \<longleftrightarrow> - (2 ^ 31) \<le> x \<and> x < 2 ^ 31"

text \<open>\<open>as i32\<close> on a \<open>usize\<close>.\<close>

definition usize_as_i32 :: "nat \<Rightarrow> int" where
  "usize_as_i32 n = (int n + 2 ^ 31) mod 2 ^ 32 - 2 ^ 31"

lemma usize_as_i32_id [rust_arith]: "n < 2 ^ 31 \<Longrightarrow> usize_as_i32 n = int n"
  by (simp add: usize_as_i32_def)

text \<open>\<open>as i64\<close> on a \<open>u64\<close> and \<open>as u64\<close> on an \<open>i64\<close>.\<close>

definition u64_as_i64 :: "nat \<Rightarrow> int" where
  "u64_as_i64 n = wrap_i64 (int n)"

definition i64_as_u64 :: "int \<Rightarrow> nat" where
  "i64_as_u64 x = nat (x mod 2 ^ 64)"

definition usize_sub :: "nat \<Rightarrow> nat \<Rightarrow> nat" where
  "usize_sub a b = (if b \<le> a then a - b else a + 2 ^ 64 - b)"

text \<open>\<open>u64::saturating_add\<close> and \<open>u64::checked_sub\<close>.\<close>

definition u64_saturating_add :: "nat \<Rightarrow> nat \<Rightarrow> nat" where
  "u64_saturating_add a b = min (a + b) (2 ^ 64 - 1)"

definition u64_checked_sub :: "nat \<Rightarrow> nat \<Rightarrow> nat option" where
  "u64_checked_sub a b = (if b \<le> a then Some (a - b) else None)"

lemma wrap_i64_in_range: "in_i64 (wrap_i64 x)"
  using pos_mod_bound [of "2 ^ 64" "x + 2 ^ 63"] pos_mod_sign [of "2 ^ 64" "x + 2 ^ 63"]
  by (simp add: in_i64_def i64_min_def i64_max_def wrap_i64_def)

lemma wrap_i64_id [rust_arith]: "in_i64 x \<Longrightarrow> wrap_i64 x = x"
  by (simp add: wrap_i64_def in_i64_def i64_min_def i64_max_def)

lemma u64_as_i64_id [rust_arith]: "n < 2 ^ 63 \<Longrightarrow> u64_as_i64 n = int n"
  by (simp add: u64_as_i64_def in_i64_def i64_min_def i64_max_def wrap_i64_id)

lemma i64_as_u64_id [rust_arith]: "0 \<le> x \<Longrightarrow> in_i64 x \<Longrightarrow> i64_as_u64 x = nat x"
  by (simp add: i64_as_u64_def in_i64_def i64_max_def)

lemma usize_sub_id [rust_arith]: "b \<le> a \<Longrightarrow> usize_sub a b = a - b"
  by (simp add: usize_sub_def)

text \<open>Shifts of the unsigned types: the amount is reduced modulo the width.\<close>

definition shl_u8 :: "u8 \<Rightarrow> nat \<Rightarrow> u8" where
  "shl_u8 x n = push_bit (n mod 8) x"

definition shr_u16 :: "u16 \<Rightarrow> nat \<Rightarrow> u16" where
  "shr_u16 x n = drop_bit (n mod 16) x"

definition shl_u16 :: "u16 \<Rightarrow> nat \<Rightarrow> u16" where
  "shl_u16 x n = push_bit (n mod 16) x"

definition shr_u32 :: "u32 \<Rightarrow> nat \<Rightarrow> u32" where
  "shr_u32 x n = drop_bit (n mod 32) x"

definition shl_u32 :: "u32 \<Rightarrow> nat \<Rightarrow> u32" where
  "shl_u32 x n = push_bit (n mod 32) x"

lemma shift_in_range [rust_arith]:
  "n < 8 \<Longrightarrow> shl_u8 x n = push_bit n x"
  "n < 16 \<Longrightarrow> shl_u16 y n = push_bit n y"
  "n < 16 \<Longrightarrow> shr_u16 y n = drop_bit n y"
  "n < 32 \<Longrightarrow> shl_u32 z n = push_bit n z"
  "n < 32 \<Longrightarrow> shr_u32 z n = drop_bit n z"
  by (simp_all add: shl_u8_def shl_u16_def shr_u16_def shl_u32_def shr_u32_def)

text \<open>\<open>usize::next_power_of_two\<close> and \<open>usize::trailing_zeros\<close>.\<close>

function next_power_of_two_from :: "nat \<Rightarrow> nat \<Rightarrow> nat" where
  "next_power_of_two_from p n =
     (if n \<le> p \<or> p = 0 then p else next_power_of_two_from (2 * p) n)"
  by pat_completeness auto
termination
  by (relation "measure (\<lambda>(p, n). n - p)") auto

declare next_power_of_two_from.simps [simp del]

definition next_power_of_two :: "nat \<Rightarrow> nat" where
  "next_power_of_two n = next_power_of_two_from 1 n"

fun trailing_zeros :: "nat \<Rightarrow> nat" where
  "trailing_zeros n =
     (if n = 0 then 64 else if odd n then 0 else Suc (trailing_zeros (n div 2)))"

declare trailing_zeros.simps [simp del]

lemma trailing_zeros_power: "trailing_zeros (2 ^ k) = k"
proof (induction k)
  case 0
  show ?case by (subst trailing_zeros.simps) simp
next
  case (Suc k)
  then show ?case by (subst trailing_zeros.simps) simp
qed

lemma next_power_of_two_from_power:
  assumes "n \<le> 2 ^ k" and "j \<le> k" and "j = k \<or> 2 ^ (k - 1) < n"
  shows "next_power_of_two_from (2 ^ j) n = 2 ^ k"
  using assms
proof (induction "k - j" arbitrary: j)
  case 0
  then show ?case by (subst next_power_of_two_from.simps) simp
next
  case (Suc d)
  have "(2::nat) ^ j \<le> 2 ^ (k - 1)" using Suc.hyps(2) by (intro power_increasing) auto
  moreover have "2 ^ (k - 1) < n" using Suc.prems(3) Suc.hyps(2) by auto
  ultimately have "\<not> n \<le> 2 ^ j" by linarith
  moreover have "next_power_of_two_from (2 ^ Suc j) n = 2 ^ k"
    using Suc.hyps(2) Suc.prems by (intro Suc.hyps(1)) auto
  ultimately show ?case by (subst next_power_of_two_from.simps) simp
qed

text \<open>The width the two functions compute together: the least \<open>k\<close> with \<open>n \<le> 2 ^ k\<close>.\<close>

lemma trailing_zeros_next_power_of_two:
  assumes "n \<le> 2 ^ k" and "2 ^ (k - 1) < n" and "0 < k"
  shows "trailing_zeros (next_power_of_two n) = k"
  using next_power_of_two_from_power [of n k 0] assms
  by (simp add: next_power_of_two_def trailing_zeros_power)

section \<open>Decimal text\<close>

text \<open>The \<open>Display\<close> form of the integer types.\<close>

fun show_nat :: "nat \<Rightarrow> string" where
  "show_nat n =
     (if n < 10 then [char_of (48 + n)] else show_nat (n div 10) @ [char_of (48 + n mod 10)])"

declare show_nat.simps [simp del]

lemma show_nat_value: "foldl (\<lambda>a c. 10 * a + (of_char c - 48)) 0 (show_nat n) = n"
proof (induction n rule: show_nat.induct)
  case (1 n)
  have d: "(of_char (char_of (48 + k) :: char) :: nat) - 48 = k" if "k < 10" for k
    using that by (simp add: of_char_of)
  show ?case
    using 1 d [of n] d [of "n mod 10"] by (subst show_nat.simps) auto
qed

lemma show_nat_inj [simp]: "show_nat m = show_nat n \<longleftrightarrow> m = n"
  by (metis show_nat_value)

definition show_int :: "int \<Rightarrow> string" where
  "show_int x = (if x < 0 then CHR ''-'' # show_nat (nat (- x)) else show_nat (nat x))"

section \<open>Lists\<close>

text \<open>\<open>Iterator::max\<close>: none for the empty sequence.\<close>

definition iter_max :: "'a::linorder list \<Rightarrow> 'a option" where
  "iter_max xs = (case xs of [] \<Rightarrow> None | x # xs \<Rightarrow> Some (fold max xs x))"

lemma iter_max_simps [simp]: "iter_max [] = None"
  by (simp add: iter_max_def)

lemma iter_max_eq_Max: "xs \<noteq> [] \<Longrightarrow> iter_max xs = Some (Max (set xs))"
  by (cases xs) (simp_all add: iter_max_def Max.set_eq_fold [symmetric])

lemma list_all_upt_iff: "list_all P [a..<b] \<longleftrightarrow> (\<forall>i. a \<le> i \<and> i < b \<longrightarrow> P i)"
  by (auto simp: list_all_iff)

end
