(* ===== verification/Processes.thy ===== *)
theory Processes
  imports Prelude
begin

text \<open>
  Asynchronous code as resumptions. A process is finished or is waiting at an \<open>await\<close>; in
  the second case its next atomic step reads and changes the shared state and yields the rest
  of the process. \<open>run\<close> executes a process alone, \<open>interleave\<close> lets several take turns in
  any order. Every asynchronous function of the program is one process, so the sequential and
  the concurrent theorems speak of the same definition.
\<close>

datatype ('s, 'a) proc = Ret 'a | Step "'s \<Rightarrow> ('s, 'a) proc \<times> 's"

type_synonym ('s, 'a, 'e) io = "('s, ('a, 'e) outcome) proc"

primrec run :: "('s, 'a) proc \<Rightarrow> 's \<Rightarrow> 'a \<times> 's" where
  "run (Ret x) = (\<lambda>s. (x, s))"
| "run (Step f) = (\<lambda>s. (\<lambda>(g, s'). g s') (map_prod run id (f s)))"

primrec pbind :: "('s, 'a) proc \<Rightarrow> ('a \<Rightarrow> ('s, 'b) proc) \<Rightarrow> ('s, 'b) proc" where
  "pbind (Ret x) = (\<lambda>k. k x)"
| "pbind (Step f) = (\<lambda>k. Step (\<lambda>s. map_prod (\<lambda>g. g k) id (map_prod pbind id (f s))))"

text \<open>One atomic access to the shared state.\<close>

definition call :: "('s \<Rightarrow> 'a \<times> 's) \<Rightarrow> ('s, 'a) proc" where
  "call f = Step (\<lambda>s. map_prod Ret id (f s))"

text \<open>\<open>p.await?\<close> and what follows it.\<close>

definition ptry :: "('s, 'a, 'e) io \<Rightarrow> ('a \<Rightarrow> ('s, 'b, 'e) io) \<Rightarrow> ('s, 'b, 'e) io" where
  "ptry p k = pbind p (\<lambda>r. case r of Ok x \<Rightarrow> k x | Err e \<Rightarrow> Ret (Err e) | Panic \<Rightarrow> Ret Panic)"

text \<open>\<open>p.await.map_err(f)\<close>.\<close>

definition pmap_err :: "('e \<Rightarrow> 'f) \<Rightarrow> ('s, 'a, 'e) io \<Rightarrow> ('s, 'a, 'f) io" where
  "pmap_err f p = pbind p (\<lambda>r. Ret (map_err f r))"

lemma run_Step [simp]: "run (Step f) s = run (fst (f s)) (snd (f s))"
  by (simp add: case_prod_beta)

declare run.simps(2) [simp del]

lemma pbind_Step [simp]: "pbind (Step f) k = Step (\<lambda>s. (pbind (fst (f s)) k, snd (f s)))"
  by (auto simp: case_prod_beta map_prod_def)

declare pbind.simps(2) [simp del]

lemma run_pbind [simp]: "run (pbind p k) s = (case run p s of (x, s') \<Rightarrow> run (k x) s')"
proof (induction p arbitrary: s)
  case (Step f)
  show ?case by (simp add: Step.IH [of "f s" "fst (f s)"] fsts.simps)
qed simp

lemma pbind_Ret_right: "pbind p Ret = p"
proof (induction p)
  case (Step f)
  have "pbind (fst (f s)) Ret = fst (f s)" for s by (rule Step.IH [of "f s"]) (auto simp: fsts.simps)
  then show ?case by simp
qed simp

lemma pbind_assoc: "pbind (pbind p k) l = pbind p (\<lambda>x. pbind (k x) l)"
proof (induction p)
  case (Step f)
  have "pbind (pbind (fst (f s)) k) l = pbind (fst (f s)) (\<lambda>x. pbind (k x) l)" for s
    by (rule Step.IH [of "f s"]) (auto simp: fsts.simps)
  then show ?case by simp
qed simp

lemma run_call [simp]: "run (call f) s = f s"
  by (simp add: call_def)

lemma run_ptry [simp]:
  "run (ptry p k) s =
     (case run p s of
        (Ok x, s') \<Rightarrow> run (k x) s' | (Err e, s') \<Rightarrow> (Err e, s') | (Panic, s') \<Rightarrow> (Panic, s'))"
  by (simp add: ptry_def split: prod.splits outcome.splits)

lemma ptry_Ret [simp]:
  "ptry (Ret (Ok x)) k = k x" "ptry (Ret (Err e)) k = Ret (Err e)" "ptry (Ret Panic) k = Ret Panic"
  by (simp_all add: ptry_def)

lemma run_pmap_err [simp]: "run (pmap_err f p) s = map_prod (map_err f) id (run p s)"
  by (simp add: pmap_err_def split: prod.splits)

section \<open>Interleaving\<close>

text \<open>One process of the pool takes one atomic step, to a state within the given bounds.\<close>

inductive interleave ::
  "('s \<Rightarrow> bool) \<Rightarrow> 's \<times> ('s, 'a) proc list \<Rightarrow> 's \<times> ('s, 'a) proc list \<Rightarrow> bool"
  for within :: "'s \<Rightarrow> bool" where
  interleave_step:
    "i < length ps \<Longrightarrow> ps ! i = Step f \<Longrightarrow> f s = (p, s') \<Longrightarrow> within s' \<Longrightarrow>
     interleave within (s, ps) (s', ps[i := p])"

inductive_cases interleaveE: "interleave within (s, ps) c"

text \<open>A given schedule, executed: the numbers name the processes that take the steps.\<close>

fun schedule :: "nat list \<Rightarrow> 's \<times> ('s, 'a) proc list \<Rightarrow> 's \<times> ('s, 'a) proc list" where
  "schedule [] c = c"
| "schedule (i # is) (s, ps) =
     (case ps ! i of
        Ret x \<Rightarrow> schedule is (s, ps)
      | Step f \<Rightarrow> schedule is (snd (f s), ps[i := fst (f s)]))"

fun schedule_within :: "('s \<Rightarrow> bool) \<Rightarrow> nat list \<Rightarrow> 's \<times> ('s, 'a) proc list \<Rightarrow> bool" where
  "schedule_within within [] c = True"
| "schedule_within within (i # is) (s, ps) =
     (i < length ps \<and>
      (case ps ! i of
         Ret x \<Rightarrow> schedule_within within is (s, ps)
       | Step f \<Rightarrow> within (snd (f s)) \<and> schedule_within within is (snd (f s), ps[i := fst (f s)])))"

fun proc_result :: "('s, 'a) proc \<Rightarrow> 'a option" where
  "proc_result (Ret x) = Some x"
| "proc_result (Step f) = None"

lemma schedule_interleave:
  "schedule_within within is c \<Longrightarrow> (interleave within)\<^sup>*\<^sup>* c (schedule is c)"
proof (induction "is" c rule: schedule.induct)
  case (2 i "is" s ps)
  show ?case
  proof (cases "ps ! i")
    case (Step f)
    have "interleave within (s, ps) (snd (f s), ps[i := fst (f s)])"
      using 2(3) Step by (intro interleave_step [of i ps f s]) auto
    then show ?thesis
      using 2 Step by (auto intro: converse_rtranclp_into_rtranclp)
  qed (use 2 in auto)
qed simp

text \<open>
  A process commits when it has its one visible effect. \<open>view\<close> is what can be seen of the
  state, \<open>eff\<close> the effect, \<open>ok\<close> the results that report it. \<open>commits \<dots> b p s\<close>: \<open>b\<close> tells
  whether the effect has happened; whatever the other processes do within \<open>rely\<close>, the next
  step of \<open>p\<close> keeps \<open>good\<close> and \<open>rely\<close> and either changes nothing visible or, once, has the
  effect; and \<open>p\<close> ends in a result that reports the effect exactly if it happened.
\<close>

inductive commits ::
  "('s \<Rightarrow> bool) \<Rightarrow> ('s \<Rightarrow> 's \<Rightarrow> bool) \<Rightarrow> ('s \<Rightarrow> bool) \<Rightarrow> ('s \<Rightarrow> 'v) \<Rightarrow> ('v \<Rightarrow> 'v \<Rightarrow> bool) \<Rightarrow> ('a \<Rightarrow> bool) \<Rightarrow>
   bool \<Rightarrow> ('s, 'a) proc \<Rightarrow> 's \<Rightarrow> bool"
  for within :: "'s \<Rightarrow> bool" and rely :: "'s \<Rightarrow> 's \<Rightarrow> bool" and good :: "'s \<Rightarrow> bool"
    and view :: "'s \<Rightarrow> 'v" and eff :: "'v \<Rightarrow> 'v \<Rightarrow> bool" and ok :: "'a \<Rightarrow> bool" where
  commits_Ret: "ok x = b \<Longrightarrow> commits within rely good view eff ok b (Ret x) s"
| commits_Step:
    "(\<And>s1. rely s s1 \<Longrightarrow> good s1 \<Longrightarrow> within (snd (f s1)) \<Longrightarrow>
        good (snd (f s1)) \<and> rely s1 (snd (f s1))
        \<and> (view (snd (f s1)) = view s1
             \<and> commits within rely good view eff ok b (fst (f s1)) (snd (f s1))
           \<or> \<not> b \<and> eff (view s1) (view (snd (f s1)))
             \<and> commits within rely good view eff ok True (fst (f s1)) (snd (f s1))))
     \<Longrightarrow> commits within rely good view eff ok b (Step f) s"

inductive_cases commits_StepE: "commits within rely good view eff ok b (Step f) s"
inductive_cases commits_RetE: "commits within rely good view eff ok b (Ret x) s"

lemma ptry_call: "ptry (call f) k =
    Step (\<lambda>s. (case fst (f s) of Ok x \<Rightarrow> k x | Err e \<Rightarrow> Ret (Err e) | Panic \<Rightarrow> Ret Panic, snd (f s)))"
  by (simp add: ptry_def call_def)

lemma commits_ptry_call:
  assumes "\<And>s1 res s2. rely s s1 \<Longrightarrow> good s1 \<Longrightarrow> within s2 \<Longrightarrow> f s1 = (res, s2) \<Longrightarrow>
     good s2 \<and> rely s1 s2
     \<and> (view s2 = view s1 \<and> commits within rely good view eff ok b
           (case res of Ok x \<Rightarrow> k x | Err e \<Rightarrow> Ret (Err e) | Panic \<Rightarrow> Ret Panic) s2
        \<or> \<not> b \<and> eff (view s1) (view s2) \<and> commits within rely good view eff ok True
           (case res of Ok x \<Rightarrow> k x | Err e \<Rightarrow> Ret (Err e) | Panic \<Rightarrow> Ret Panic) s2)"
  shows "commits within rely good view eff ok b (ptry (call f) k) s"
  unfolding ptry_call
  by (rule commits_Step, simp only: fst_conv snd_conv) (rule assms, auto)

lemma commits_rely:
  assumes "commits within rely good view eff ok b p s" and "rely s s'" and "transp rely"
  shows "commits within rely good view eff ok b p s'"
  using assms(1)
proof (cases rule: commits.cases)
  case (commits_Step f)
  show ?thesis unfolding commits_Step(1)
    by (rule commits.commits_Step, rule commits_Step(2)) (use assms(2,3) in \<open>auto dest: transpD\<close>)
qed (auto intro: commits.commits_Ret)

text \<open>The effects of the processes named in \<open>order\<close>, one after the other.\<close>

fun effects :: "(nat \<Rightarrow> 'v \<Rightarrow> 'v \<Rightarrow> bool) \<Rightarrow> nat list \<Rightarrow> 'v \<Rightarrow> 'v \<Rightarrow> bool" where
  "effects eff [] v w \<longleftrightarrow> v = w"
| "effects eff (i # is) v w \<longleftrightarrow> (\<exists>u. eff i v u \<and> effects eff is u w)"

lemma effects_snoc: "effects eff (is @ [i]) v w \<longleftrightarrow> (\<exists>u. effects eff is v u \<and> eff i u w)"
  by (induction "is" arbitrary: v) auto

text \<open>What an interleaving of committing processes maintains.\<close>

definition linear_state ::
  "('s \<Rightarrow> bool) \<Rightarrow> ('s \<Rightarrow> 's \<Rightarrow> bool) \<Rightarrow> ('s \<Rightarrow> bool) \<Rightarrow> ('s \<Rightarrow> 'v) \<Rightarrow> (nat \<Rightarrow> 'v \<Rightarrow> 'v \<Rightarrow> bool) \<Rightarrow> ('a \<Rightarrow> bool) \<Rightarrow>
   'v \<Rightarrow> nat list \<Rightarrow> 's \<times> ('s, 'a) proc list \<Rightarrow> bool" where
  "linear_state within rely good view eff ok v order c \<longleftrightarrow>
     good (fst c) \<and> distinct order \<and> effects eff order v (view (fst c))
     \<and> (\<forall>i < length (snd c).
          commits within rely good view (eff i) ok (i \<in> set order) (snd c ! i) (fst c))"

lemma interleave_linear:
  assumes "interleave within (s, ps) c'" and "linear_state within rely good view eff ok v order (s, ps)"
    and "transp rely" "reflp rely"
  shows "\<exists>order'. set order' \<subseteq> set order \<union> {..<length ps} \<and> length (snd c') = length ps
           \<and> linear_state within rely good view eff ok v order' c'"
proof -
  obtain i f p s' where i: "i < length ps" "ps ! i = Step f" "f s = (p, s')" "within s'" "c' = (s', ps[i := p])"
    using assms(1) by (auto elim: interleaveE)
  let ?com = "\<lambda>j b q s. commits within rely good view (eff j) ok b q s"
  have lin: "good s" "distinct order" "effects eff order v (view s)"
    and all: "\<And>j. j < length ps \<Longrightarrow> ?com j (j \<in> set order) (ps ! j) s"
    using assms(2) by (auto simp: linear_state_def)
  have "?com i (i \<in> set order) (Step f) s" using all [OF i(1)] i(2) by simp
  then have step: "good s'" "rely s s'"
    and cases: "view s' = view s \<and> ?com i (i \<in> set order) p s'
                \<or> i \<notin> set order \<and> eff i (view s) (view s') \<and> ?com i True p s'"
    using i(3,4) lin(1) reflpD [OF assms(4), of s] by (auto elim!: commits_StepE)
  have others: "?com j (j \<in> set order) (ps ! j) s'" if "j < length ps" for j
    by (rule commits_rely [OF all [OF that] step(2) assms(3)])
  from cases show ?thesis
  proof
    assume "view s' = view s \<and> ?com i (i \<in> set order) p s'"
    then show ?thesis
      using lin step others i by (intro exI [of _ order]) (auto simp: linear_state_def nth_list_update)
  next
    assume new: "i \<notin> set order \<and> eff i (view s) (view s') \<and> ?com i True p s'"
    then show ?thesis
      using lin step others i
      by (intro exI [of _ "order @ [i]"]) (auto simp: linear_state_def nth_list_update effects_snoc)
  qed
qed

theorem interleave_star_linear:
  assumes "(interleave within)\<^sup>*\<^sup>* (s, ps) (s', ps')" and "good s"
    and "\<And>i. i < length ps \<Longrightarrow> commits within rely good view (eff i) ok False (ps ! i) s"
    and "transp rely" "reflp rely"
  obtains order where "distinct order" "set order \<subseteq> {..<length ps}" "length ps' = length ps" "good s'"
    "effects eff order (view s) (view s')"
    "\<And>i x. i < length ps \<Longrightarrow> ps' ! i = Ret x \<Longrightarrow> ok x \<longleftrightarrow> i \<in> set order"
proof -
  have "\<exists>order. set order \<subseteq> {..<length ps} \<and> length (snd (s', ps')) = length ps
      \<and> linear_state within rely good view eff ok (view s) order (s', ps')"
    using assms(1)
  proof (induction "(s', ps')" arbitrary: s' ps' rule: rtranclp_induct)
    case base
    then show ?case using assms(2,3) by (intro exI [of _ "[]"]) (auto simp: linear_state_def)
  next
    case (step c)
    obtain s1 ps1 where c: "c = (s1, ps1)" by (cases c)
    from step.hyps(3) [OF c] obtain order where order: "set order \<subseteq> {..<length ps}" "length ps1 = length ps"
      "linear_state within rely good view eff ok (view s) order (s1, ps1)" by auto
    show ?case
      using interleave_linear [OF step.hyps(2) [unfolded c] order(3) assms(4,5)] order(1,2) by fastforce
  qed
  then obtain order where order: "set order \<subseteq> {..<length ps}" "length ps' = length ps"
    "linear_state within rely good view eff ok (view s) order (s', ps')" by auto
  show thesis
    using order by (intro that [of order]) (auto simp: linear_state_def elim!: commits_RetE)
qed

end
