(* ===== verification/Status_List.thy ===== *)
theory Status_List
  imports Prelude
begin

text \<open>
  Model of \<open>src/src/domain/models/status_list.rs\<close>: the domain errors, the status values, the
  list records, and the bit-packing routines behind \<open>StatusList::create\<close> and
  \<open>StatusList::update\<close>. The correctness of the packing is in \<open>Status_List_Packing\<close>.

  The crates \<open>base64url\<close> and \<open>flate2\<close> are the fields of the record \<open>codec\<close>, an argument
  of the routines that call them.
\<close>

section \<open>Data\<close>

datatype status_list_error =
    InvalidIndex
  | InvalidStatusList string
  | CorruptStoredList string
  | AlreadyExists
  | NotFound
  | HistoricalNotFound
  | InvalidHistoricalTime
  | IssuerMismatch
  | TooLarge
  | TooManyStatuses nat nat
  | IndexTooLarge int int
  | Conflict
  | Contention string
  | Unavailable
  | Backend string

datatype status = Valid | Invalid | Suspended | ApplicationSpecific u32

record status_entry =
  se_index :: int
  se_status :: status

type_synonym issuer = string

record status_list =
  sl_bits :: u8
  sl_lst :: string

record status_list_record =
  slr_list_id :: string
  slr_issuer :: issuer
  slr_status_list :: status_list
  slr_sub :: string
  slr_updated_at :: int

record status_list_snapshot =
  sn_snapshot_id :: string
  sn_list_id :: string
  sn_issuer :: issuer
  sn_status_list :: status_list
  sn_sub :: string
  sn_iat :: int
  sn_exp :: int

text \<open>The library calls of the encoder, with the text of their errors on the left.\<close>

record codec =
  base64url_encode :: "u8 list \<Rightarrow> string"
  base64url_decode :: "string \<Rightarrow> string + u8 list"
  zlib_write_all :: "u8 list \<Rightarrow> string + unit"
  zlib_finish :: "u8 list \<Rightarrow> string + u8 list"
  zlib_read_to_end :: "u8 list \<Rightarrow> string + u8 list"

type_synonym 'a sl_result = "('a, status_list_error) outcome"

section \<open>Values and widths\<close>

fun status_value :: "status \<Rightarrow> u32 sl_result" where
  "status_value Valid = Ok 0"
| "status_value Invalid = Ok 1"
| "status_value Suspended = Ok 2"
| "status_value (ApplicationSpecific value) =
     (if 256 \<le> value then Ok value
      else Err (InvalidStatusList ''ApplicationSpecific value must be >= 256''))"

definition determine_bits :: "status_entry list \<Rightarrow> nat option \<Rightarrow> nat sl_result" where
  "determine_bits status_updates original_bits =
     obind (collect (\<lambda>entry. status_value (se_status entry)) status_updates) (\<lambda>values.
     obind (ok_or (iter_max values)
              (InvalidStatusList ''Failed to determine max status value'')) (\<lambda>max_status_value.
     obind (if max_status_value \<le> 1 then Ok 1
            else if max_status_value \<le> 3 then Ok 2
            else if max_status_value \<le> 15 then Ok 4
            else if max_status_value \<le> 255 then Ok 8
            else (let bits_needed = trailing_zeros (next_power_of_two (unat max_status_value + 1))
                  in if bits_needed = 0 then Err (InvalidStatusList ''Status value too large'')
                     else Ok bits_needed)) (\<lambda>required_bits.
       Ok (max (case original_bits of Some b \<Rightarrow> b | None \<Rightarrow> required_bits) required_bits))))"

definition calculate_array_size :: "status_entry list \<Rightarrow> nat \<Rightarrow> nat sl_result" where
  "calculate_array_size status_updates bits =
     (if status_updates = [] then Ok 0
      else obind (ok_or (iter_max (map se_index status_updates))
                    (InvalidStatusList ''Failed to determine max index'')) (\<lambda>max_index.
           if max_index < 0 then Err InvalidIndex
           else let end_bit = usize_sub (nat max_index * bits + bits) 1
                in Ok (end_bit div 8 + 1)))"

section \<open>Writing statuses into the packed array\<close>

text \<open>A read-modify-write of one slice element; an index out of range panics.\<close>

definition modify_byte :: "u8 list \<Rightarrow> nat \<Rightarrow> (u8 \<Rightarrow> u8) \<Rightarrow> u8 list sl_result" where
  "modify_byte status_array i f =
     (if i < length status_array then Ok (status_array[i := f (status_array ! i)]) else Panic)"

text \<open>
  The inner \<open>for\<close> loop over the bits that go into the bytes after the first: \<open>n\<close>
  iterations, the next one writing bit \<open>global_bit\<close> of \<open>value\<close>.
\<close>

fun write_bits ::
  "nat \<Rightarrow> nat \<Rightarrow> u32 \<Rightarrow> u8 list \<times> nat \<times> nat \<Rightarrow> (u8 list \<times> nat \<times> nat) sl_result" where
  "write_bits 0 global_bit value st = Ok st"
| "write_bits (Suc n) global_bit value (status_array, cur_byte, cur_offset) =
     (let value_bit = shr_u32 value global_bit AND 1 in
      obind (modify_byte status_array cur_byte (\<lambda>b. b AND NOT (shl_u8 1 cur_offset))) (\<lambda>arr1.
      obind (modify_byte arr1 cur_byte (\<lambda>b. b OR shl_u8 (ucast value_bit) cur_offset)) (\<lambda>arr2.
        write_bits n (Suc global_bit) value
          (if 8 \<le> Suc cur_offset then (arr2, Suc cur_byte, 0)
           else (arr2, cur_byte, Suc cur_offset)))))"

text \<open>The \<open>while bits_written < bits\<close> loop around it.\<close>

function write_remaining ::
  "nat \<Rightarrow> nat \<Rightarrow> u32 \<Rightarrow> u8 list \<times> nat \<times> nat \<Rightarrow> (u8 list \<times> nat \<times> nat) sl_result" where
  "write_remaining bits bits_written value st =
     (if bits_written < bits
      then let bits_this_byte = min (bits - bits_written) 8
           in obind (write_bits bits_this_byte bits_written value st) (\<lambda>st'.
                write_remaining bits (bits_written + bits_this_byte) value st')
      else Ok st)"
  by pat_completeness auto
termination
  by (relation "measure (\<lambda>(bits, bits_written, value, st). bits - bits_written)") auto

declare write_remaining.simps [simp del]

text \<open>
  The mask of \<open>n\<close> bits from \<open>bit_offset\<close> on, computed in 32 bits and cut to a byte, and
  the pair of statements that clears the masked bits and then sets them from \<open>value\<close>.
\<close>

definition byte_mask :: "nat \<Rightarrow> nat \<Rightarrow> u8" where
  "byte_mask n bit_offset = ucast (shl_u32 (shl_u32 1 n - 1) bit_offset)"

definition store_masked :: "u8 list \<Rightarrow> nat \<Rightarrow> u32 \<Rightarrow> nat \<Rightarrow> u8 \<Rightarrow> u8 list sl_result" where
  "store_masked status_array byte_index value bit_offset m =
     obind (modify_byte status_array byte_index (\<lambda>b. b AND NOT m)) (\<lambda>arr1.
       modify_byte arr1 byte_index (\<lambda>b. b OR (shl_u8 (ucast value) bit_offset AND m)))"

text \<open>The body of the loop over the updates.\<close>

definition apply_update :: "u8 list \<Rightarrow> status_entry \<Rightarrow> nat \<Rightarrow> u8 list sl_result" where
  "apply_update status_array update bits =
     (if se_index update < 0 then Err InvalidIndex
      else
        let idx = nat (se_index update);
            bit_position = idx * bits;
            byte_index = bit_position div 8;
            bit_offset = bit_position mod 8
        in
        if length status_array \<le> byte_index
        then Err (InvalidStatusList ''Index out of bounds'')
        else obind (status_value (se_status update)) (\<lambda>value.
          if bit_offset + bits \<le> 8 then
            store_masked status_array byte_index value bit_offset (byte_mask bits bit_offset)
          else
            let first_byte_bits = 8 - bit_offset in
            obind (store_masked status_array byte_index value bit_offset
                     (byte_mask first_byte_bits bit_offset)) (\<lambda>arr2.
            obind (write_remaining bits first_byte_bits value (arr2, Suc byte_index, 0)) (\<lambda>st.
              Ok (fst st)))))"

fun apply_updates :: "u8 list \<Rightarrow> status_entry list \<Rightarrow> nat \<Rightarrow> u8 list sl_result" where
  "apply_updates status_array [] bits = Ok status_array"
| "apply_updates status_array (update # updates) bits =
     obind (apply_update status_array update bits) (\<lambda>arr. apply_updates arr updates bits)"

section \<open>Compression\<close>

definition encode_compressed :: "codec \<Rightarrow> u8 list \<Rightarrow> string sl_result" where
  "encode_compressed cx bytes =
     obind (map_err (\<lambda>err. InvalidStatusList (''Failed to compress status list: '' @ err))
              (from_sum (zlib_write_all cx bytes))) (\<lambda>_.
     omap (base64url_encode cx)
       (map_err (\<lambda>err. InvalidStatusList (''Failed to finish status list compression: '' @ err))
          (from_sum (zlib_finish cx bytes))))"

definition decode_compressed :: "codec \<Rightarrow> string \<Rightarrow> u8 list sl_result" where
  "decode_compressed cx encoded =
     obind (map_err (\<lambda>err. CorruptStoredList (''Invalid lst encoding: '' @ err))
              (from_sum (base64url_decode cx encoded))) (\<lambda>bytes.
     map_err (\<lambda>err. CorruptStoredList (''Failed to decompress status list: '' @ err))
       (from_sum (zlib_read_to_end cx bytes)))"

section \<open>Reading statuses back\<close>

text \<open>The \<open>while bits_read < bits\<close> loop, with its \<open>break\<close> at the end of the array.\<close>

function read_value :: "u8 list \<Rightarrow> nat \<Rightarrow> nat \<Rightarrow> nat \<Rightarrow> nat \<Rightarrow> u32 \<Rightarrow> nat \<Rightarrow> u32" where
  "read_value array bits cur_byte cur_offset bits_in_current_byte value bits_read =
     (if bits_read < bits \<and> cur_byte < length array
      then
        let bits_this_iter = min bits_in_current_byte (bits - bits_read);
            extracted = (ucast (shr_u16 (ucast (array ! cur_byte)) cur_offset
                                  AND (shl_u16 1 bits_this_iter - 1)) :: u32);
            value' = value OR shl_u32 extracted bits_read;
            bits_read' = bits_read + bits_this_iter;
            left = bits_in_current_byte - bits_this_iter
        in if left = 0 then read_value array bits (Suc cur_byte) 0 8 value' bits_read'
           else read_value array bits cur_byte cur_offset left value' bits_read'
      else value)"
  by pat_completeness auto
termination
  by (relation "measure (\<lambda>(array, bits, cur_byte, cur_offset, left, value, bits_read).
        (bits - bits_read) + (length array - cur_byte))") auto

declare read_value.simps [simp del]

definition status_from_value :: "u32 \<Rightarrow> status sl_result" where
  "status_from_value value =
     (if value = 0 then Ok Valid
      else if value = 1 then Ok Invalid
      else if value = 2 then Ok Suspended
      else if 256 \<le> value then Ok (ApplicationSpecific value)
      else Err (CorruptStoredList ''Invalid status value in existing list''))"

definition decode_status_array :: "u8 list \<Rightarrow> nat \<Rightarrow> status list sl_result" where
  "decode_status_array array bits =
     (if bits = 0 then Panic
      else if 8 \<le> length array * 8 mod bits
      then Err (CorruptStoredList
             (''stored status array of '' @ show_nat (length array)
              @ '' bytes leaves an unused trailing byte at '' @ show_nat bits @ ''-bit width''))
      else collect (\<lambda>i.
             let total_bit_pos = i * bits;
                 cur_byte = total_bit_pos div 8;
                 cur_offset = total_bit_pos mod 8
             in status_from_value (read_value array bits cur_byte cur_offset (8 - cur_offset) 0 0))
           [0..<length array * 8 div bits])"

section \<open>Creating and updating lists\<close>

definition create_with_bits :: "codec \<Rightarrow> status_entry list \<Rightarrow> nat \<Rightarrow> status_list sl_result" where
  "create_with_bits cx status_updates bits =
     obind (calculate_array_size status_updates bits) (\<lambda>len.
     obind (apply_updates (replicate len 0) status_updates bits) (\<lambda>status_array.
     obind (encode_compressed cx status_array) (\<lambda>encoded.
       Ok \<lparr>sl_bits = of_nat bits, sl_lst = encoded\<rparr>)))"

definition create :: "codec \<Rightarrow> status_entry list \<Rightarrow> status_list sl_result" where
  "create cx status_updates =
     (if status_updates = [] then Ok \<lparr>sl_bits = 1, sl_lst = ''''\<rparr>
      else
        obind (determine_bits status_updates None) (\<lambda>bits.
        obind (calculate_array_size status_updates bits) (\<lambda>len.
        obind (apply_updates (replicate len 0) status_updates bits) (\<lambda>status_array.
        obind (encode_compressed cx status_array) (\<lambda>encoded.
          Ok \<lparr>sl_bits = of_nat bits, sl_lst = encoded\<rparr>)))))"

text \<open>\<open>Vec::resize(len, 0)\<close> under the guard \<open>required_len > status_array.len()\<close>.\<close>

definition grow :: "u8 list \<Rightarrow> nat \<Rightarrow> u8 list" where
  "grow status_array required_len =
     (if length status_array < required_len
      then status_array @ replicate (required_len - length status_array) 0
      else status_array)"

definition entries_of_statuses :: "status list \<Rightarrow> status_entry list" where
  "entries_of_statuses statuses =
     map (\<lambda>(i, s). \<lparr>se_index = usize_as_i32 i, se_status = s\<rparr>) (enumerate 0 statuses)"

definition update :: "codec \<Rightarrow> status_list \<Rightarrow> status_entry list \<Rightarrow> status_list sl_result" where
  "update cx self status_updates =
     (if status_updates = [] then Ok self
      else
        let old_bits = unat (sl_bits self) in
        obind (determine_bits status_updates (Some old_bits)) (\<lambda>new_bits.
        obind (decode_compressed cx (sl_lst self)) (\<lambda>status_array.
        if old_bits < new_bits then
          obind (decode_status_array status_array old_bits) (\<lambda>decoded_statuses.
            create_with_bits cx (entries_of_statuses decoded_statuses @ status_updates) new_bits)
        else
          obind (calculate_array_size status_updates old_bits) (\<lambda>required_len.
          obind (apply_updates (grow status_array required_len) status_updates old_bits) (\<lambda>arr.
          obind (encode_compressed cx arr) (\<lambda>encoded.
            Ok \<lparr>sl_bits = sl_bits self, sl_lst = encoded\<rparr>))))))"

end
