(* ===== verification/Ports.thy ===== *)
theory Ports
  imports Processes Status_List
begin

text \<open>
  Model of \<open>src/src/domain/models/credential.rs\<close> and of the traits of
  \<open>src/src/domain/ports.rs\<close>, with the contracts their implementations promise.

  A trait object is a record of its operations, each a process over the shared state \<open>'s\<close>.
  The contracts are the locales below. They are stated over an abstract \<open>store\<close>: the lists by
  identifier, the snapshots by identifier, the credentials by issuer and the cached records.
  A write that reports \<open>Backend\<close> may have landed or not (a connection lost during the commit
  tells no more); every other error means that nothing was written.
\<close>

section \<open>Credentials\<close>

datatype credential_error =
    InvalidPublicJwk string
  | CredentialAlreadyExists
  | CredentialContention string
  | CredentialBackend string

type_synonym public_jwk = "u8 list"

record credential =
  cr_issuer :: issuer
  cr_public_key :: public_jwk

text \<open>
  \<open>serde_json::from_slice\<close> and \<open>Value::is_object\<close> are the first two arguments.
\<close>

definition public_jwk_try_new ::
  "(u8 list \<Rightarrow> string + 'json) \<Rightarrow> ('json \<Rightarrow> bool) \<Rightarrow> u8 list \<Rightarrow> (public_jwk, credential_error) outcome" where
  "public_jwk_try_new from_slice is_object bytes =
     obind (map_err (\<lambda>err. InvalidPublicJwk (''expected UTF-8 JSON: '' @ err))
              (from_sum (from_slice bytes))) (\<lambda>value.
       if \<not> is_object value then Err (InvalidPublicJwk ''expected a JSON object'')
       else Ok bytes)"

section \<open>The traits\<close>

record 's status_list_repo =
  repo_find :: "string \<Rightarrow> ('s, status_list_record option, status_list_error) io"
  repo_insert :: "status_list_record \<Rightarrow> ('s, unit, status_list_error) io"
  repo_update :: "status_list_record \<Rightarrow> int \<Rightarrow> ('s, bool, status_list_error) io"
  repo_update_with_snapshot ::
    "status_list_record \<Rightarrow> int \<Rightarrow> status_list_snapshot \<Rightarrow> ('s, bool, status_list_error) io"
  repo_insert_with_snapshot ::
    "status_list_record \<Rightarrow> status_list_snapshot \<Rightarrow> ('s, unit, status_list_error) io"
  repo_list_uris :: "('s, string list, status_list_error) io"

record 's credential_repo =
  cred_find :: "string \<Rightarrow> ('s, credential option, credential_error) io"
  cred_insert :: "credential \<Rightarrow> ('s, unit, credential_error) io"

record 's status_list_cache =
  cache_get :: "string \<Rightarrow> ('s, status_list_record option, status_list_error) io"
  cache_put :: "status_list_record \<Rightarrow> ('s, unit, status_list_error) io"
  cache_invalidate :: "string \<Rightarrow> ('s, unit, status_list_error) io"

record 's snapshot_repo =
  snap_insert :: "status_list_snapshot \<Rightarrow> ('s, unit, status_list_error) io"
  snap_find_valid_at ::
    "string \<Rightarrow> int \<Rightarrow> ('s, status_list_snapshot option, status_list_error) io"
  snap_delete_older_than :: "int \<Rightarrow> ('s, nat, status_list_error) io"

record signing_material =
  sm_certificate_chain :: "string list option"
  sm_signing_key_pem :: string

record 's certificate_provider =
  cert_signing_material :: "('s, signing_material, status_list_error) io"

section \<open>The abstract store\<close>

record store =
  st_lists :: "string \<rightharpoonup> status_list_record"
  st_snaps :: "string \<rightharpoonup> status_list_snapshot"
  st_creds :: "string \<rightharpoonup> credential"
  st_cache :: "string \<rightharpoonup> status_list_record"

definition put_list :: "status_list_record \<Rightarrow> store \<Rightarrow> store" where
  "put_list r st = st\<lparr>st_lists := (st_lists st)(slr_list_id r \<mapsto> r)\<rparr>"

definition put_snap :: "status_list_snapshot \<Rightarrow> store \<Rightarrow> store" where
  "put_snap sn st = st\<lparr>st_snaps := (st_snaps st)(sn_snapshot_id sn \<mapsto> sn)\<rparr>"

definition put_cred :: "credential \<Rightarrow> store \<Rightarrow> store" where
  "put_cred c st = st\<lparr>st_creds := (st_creds st)(cr_issuer c \<mapsto> c)\<rparr>"

text \<open>The guard of an optimistic update.\<close>

definition guard_matches :: "store \<Rightarrow> string \<Rightarrow> int \<Rightarrow> bool" where
  "guard_matches st list_id expected =
     (case st_lists st list_id of Some r \<Rightarrow> slr_updated_at r = expected | None \<Rightarrow> False)"

fun is_backend :: "status_list_error \<Rightarrow> bool" where
  "is_backend (Backend m) = True"
| "is_backend e = False"

text \<open>What a failed write leaves: \<open>st'\<close> is \<open>st\<close>, or after a \<open>Backend\<close> error perhaps \<open>done\<close>.\<close>

definition failed_write :: "status_list_error \<Rightarrow> store \<Rightarrow> bool \<Rightarrow> store \<Rightarrow> store \<Rightarrow> bool" where
  "failed_write e st allowed done st' \<longleftrightarrow> st' = st \<or> is_backend e \<and> allowed \<and> st' = done"

text \<open>The outcome of an insertion and of a guarded update.\<close>

definition insert_post ::
  "status_list_record \<Rightarrow> (store \<Rightarrow> store) \<Rightarrow> store \<Rightarrow> unit sl_result \<Rightarrow> store \<Rightarrow> bool" where
  "insert_post r also_put st res st' =
     (case res of
        Ok _ \<Rightarrow> st_lists st (slr_list_id r) = None \<and> st' = put_list r (also_put st)
      | Err e \<Rightarrow> failed_write e st (st_lists st (slr_list_id r) = None) (put_list r (also_put st)) st'
      | Panic \<Rightarrow> False)"

definition update_post ::
  "status_list_record \<Rightarrow> int \<Rightarrow> (store \<Rightarrow> store) \<Rightarrow> store \<Rightarrow> bool sl_result \<Rightarrow> store \<Rightarrow> bool" where
  "update_post r expected also_put st res st' =
     (case res of
        Ok True \<Rightarrow> guard_matches st (slr_list_id r) expected \<and> st' = put_list r (also_put st)
      | Ok False \<Rightarrow> \<not> guard_matches st (slr_list_id r) expected \<and> st' = st
      | Err e \<Rightarrow> failed_write e st (guard_matches st (slr_list_id r) expected) (put_list r (also_put st)) st'
      | Panic \<Rightarrow> False)"

text \<open>The snapshots of a list in force at a time, and the ones a clean-up removes.\<close>

definition in_force :: "string \<Rightarrow> int \<Rightarrow> status_list_snapshot \<Rightarrow> bool" where
  "in_force list_id t sn \<longleftrightarrow> sn_list_id sn = list_id \<and> sn_iat sn \<le> t \<and> t < sn_exp sn"

definition expired_ids :: "store \<Rightarrow> int \<Rightarrow> string set" where
  "expired_ids st cutoff = {k. \<exists>sn. st_snaps st k = Some sn \<and> sn_exp sn < cutoff}"

section \<open>The contracts\<close>

locale list_repo_contract =
  fixes repo :: "'s status_list_repo" and view :: "'s \<Rightarrow> store" and ok :: "'s \<Rightarrow> bool"
  assumes find_law: "\<And>k s res s'. ok s \<Longrightarrow> run (repo_find repo k) s = (res, s') \<Longrightarrow>
      ok s' \<and> view s' = view s \<and> res \<noteq> Panic \<and> (\<forall>x. res = Ok x \<longrightarrow> x = st_lists (view s) k)"
    and insert_law: "\<And>r s res s'. ok s \<Longrightarrow> run (repo_insert repo r) s = (res, s') \<Longrightarrow>
      ok s' \<and> insert_post r id (view s) res (view s')"
    and update_law: "\<And>r e s res s'. ok s \<Longrightarrow> run (repo_update repo r e) s = (res, s') \<Longrightarrow>
      ok s' \<and> update_post r e id (view s) res (view s')"
    and insert_with_snapshot_law:
      "\<And>r sn s res s'. ok s \<Longrightarrow> run (repo_insert_with_snapshot repo r sn) s = (res, s') \<Longrightarrow>
      ok s' \<and> insert_post r (put_snap sn) (view s) res (view s')"
    and update_with_snapshot_law:
      "\<And>r e sn s res s'. ok s \<Longrightarrow> run (repo_update_with_snapshot repo r e sn) s = (res, s') \<Longrightarrow>
      ok s' \<and> update_post r e (put_snap sn) (view s) res (view s')"
    and list_uris_law: "\<And>s res s'. ok s \<Longrightarrow> run (repo_list_uris repo) s = (res, s') \<Longrightarrow>
      ok s' \<and> view s' = view s \<and> res \<noteq> Panic
      \<and> (\<forall>us. res = Ok us \<longrightarrow> distinct us \<and> set us = slr_sub ` ran (st_lists (view s)))"

locale cache_contract =
  fixes cache :: "'s status_list_cache" and view :: "'s \<Rightarrow> store" and ok :: "'s \<Rightarrow> bool"
  assumes get_law: "\<And>k s res s'. ok s \<Longrightarrow> run (cache_get cache k) s = (res, s') \<Longrightarrow>
      ok s' \<and> (\<exists>c. c \<subseteq>\<^sub>m st_cache (view s) \<and> view s' = (view s)\<lparr>st_cache := c\<rparr>) \<and> res \<noteq> Panic
      \<and> (\<forall>r. res = Ok (Some r) \<longrightarrow> st_cache (view s) k = Some r)"
    and put_law: "\<And>r s res s'. ok s \<Longrightarrow> run (cache_put cache r) s = (res, s') \<Longrightarrow>
      ok s' \<and> (\<exists>c. c \<subseteq>\<^sub>m (st_cache (view s))(slr_list_id r \<mapsto> r) \<and> view s' = (view s)\<lparr>st_cache := c\<rparr>)
      \<and> res \<noteq> Panic"
    and invalidate_law: "\<And>k s res s'. ok s \<Longrightarrow> run (cache_invalidate cache k) s = (res, s') \<Longrightarrow>
      ok s' \<and> (\<exists>c. c \<subseteq>\<^sub>m st_cache (view s) \<and> view s' = (view s)\<lparr>st_cache := c\<rparr> \<and> (res = Ok () \<longrightarrow> c k = None))
      \<and> res \<noteq> Panic"

locale snapshot_repo_contract =
  fixes snaps :: "'s snapshot_repo" and view :: "'s \<Rightarrow> store" and ok :: "'s \<Rightarrow> bool"
  assumes find_valid_at_law: "\<And>k t s res s'. ok s \<Longrightarrow> run (snap_find_valid_at snaps k t) s = (res, s') \<Longrightarrow>
      ok s' \<and> view s' = view s \<and> res \<noteq> Panic
      \<and> (res = Ok None \<longrightarrow> (\<forall>sn \<in> ran (st_snaps (view s)). \<not> in_force k t sn))
      \<and> (\<forall>sn. res = Ok (Some sn) \<longrightarrow> sn \<in> ran (st_snaps (view s)) \<and> in_force k t sn
             \<and> (\<forall>sn' \<in> ran (st_snaps (view s)). in_force k t sn' \<longrightarrow> sn_iat sn' \<le> sn_iat sn))"
    and delete_older_than_law: "\<And>cutoff s res s'. ok s \<Longrightarrow> run (snap_delete_older_than snaps cutoff) s = (res, s') \<Longrightarrow>
      ok s' \<and> res \<noteq> Panic \<and> (\<exists>ks \<subseteq> expired_ids (view s) cutoff.
         view s' = (view s)\<lparr>st_snaps := st_snaps (view s) |` (- ks)\<rparr>
         \<and> (\<forall>n. res = Ok n \<longrightarrow> ks = expired_ids (view s) cutoff \<and> n = card ks))"

text \<open>
  A store may keep a public key in a normal form of its own; \<open>norm\<close> is that form.
\<close>

definition stored_cred :: "(public_jwk \<Rightarrow> public_jwk) \<Rightarrow> credential \<Rightarrow> credential" where
  "stored_cred norm c = c\<lparr>cr_public_key := norm (cr_public_key c)\<rparr>"

locale credential_repo_contract =
  fixes creds :: "'s credential_repo" and view :: "'s \<Rightarrow> store" and ok :: "'s \<Rightarrow> bool"
    and norm :: "public_jwk \<Rightarrow> public_jwk"
  assumes cred_find_law: "\<And>k s res s'. ok s \<Longrightarrow> run (cred_find creds k) s = (res, s') \<Longrightarrow>
      ok s' \<and> view s' = view s \<and> res \<noteq> Panic \<and> (\<forall>x. res = Ok x \<longrightarrow> x = st_creds (view s) k)"
    and cred_insert_law: "\<And>c s res s'. ok s \<Longrightarrow> run (cred_insert creds c) s = (res, s') \<Longrightarrow>
      ok s' \<and> (case res of
         Ok _ \<Rightarrow> st_creds (view s) (cr_issuer c) = None \<and> view s' = put_cred (stored_cred norm c) (view s)
       | Err e \<Rightarrow> view s' = view s
           \<or> (\<exists>m. e = CredentialBackend m) \<and> st_creds (view s) (cr_issuer c) = None
             \<and> view s' = put_cred (stored_cred norm c) (view s)
       | Panic \<Rightarrow> False)"

end
