(* ===== verification/Api_Error.thy ===== *)
theory Api_Error
  imports Ports
begin

text \<open>
  Model of \<open>src/src/server/error.rs\<close>: the error value of the HTTP layer, the mapping of the
  domain errors onto it, and the response it becomes. Logging and the contention counter are
  left out.
\<close>

type_synonym status_code = nat

datatype body =
    EmptyBody
  | TokenBody "u8 list"
  | ErrorBody string "string option"
  | AggregationBody "string list"
  | StatusBody string
  | TextBody string

record response =
  rs_status :: status_code
  rs_headers :: "(string \<times> string) list"
  rs_body :: body

record api_error =
  ae_status :: status_code
  ae_error :: string
  ae_description :: "string option"
  ae_retry_after_secs :: "nat option"

definition api_error_new :: "status_code \<Rightarrow> string \<Rightarrow> string option \<Rightarrow> api_error" where
  "api_error_new status error description =
     \<lparr>ae_status = status, ae_error = error, ae_description = description, ae_retry_after_secs = None\<rparr>"

definition retry_after :: "api_error \<Rightarrow> nat \<Rightarrow> api_error" where
  "retry_after self secs = self\<lparr>ae_retry_after_secs := Some secs\<rparr>"

definition bad_request :: "string \<Rightarrow> string \<Rightarrow> api_error" where
  "bad_request error description = api_error_new 400 error (Some description)"

definition not_found :: "string \<Rightarrow> string \<Rightarrow> api_error" where
  "not_found error description = api_error_new 404 error (Some description)"

definition conflict :: "string \<Rightarrow> string \<Rightarrow> api_error" where
  "conflict error description = api_error_new 409 error (Some description)"

definition forbidden :: "string \<Rightarrow> string \<Rightarrow> api_error" where
  "forbidden error description = api_error_new 403 error (Some description)"

definition unprocessable :: "string \<Rightarrow> string \<Rightarrow> api_error" where
  "unprocessable error description = api_error_new 422 error (Some description)"

definition write_contention :: api_error where
  "write_contention =
     retry_after
       (api_error_new 409 ''write_contention''
          (Some (''The write lost a lock race in storage and was rolled back. ''
                 @ ''Nothing was modified; retry the same request.''))) 1"

definition internal :: api_error where
  "internal = api_error_new 500 ''internal_error'' (Some ''The server encountered an unexpected error.'')"

definition api_error_into_response :: "api_error \<Rightarrow> response" where
  "api_error_into_response self =
     \<lparr>rs_status = ae_status self,
      rs_headers = (''cache-control'', ''no-store, max-age=0'')
        # (case ae_retry_after_secs self of Some secs \<Rightarrow> [(''retry-after'', show_nat secs)] | None \<Rightarrow> []),
      rs_body = ErrorBody (ae_error self) (ae_description self)\<rparr>"

fun status_list_api_error :: "status_list_error \<Rightarrow> api_error" where
  "status_list_api_error InvalidIndex = bad_request ''invalid_index'' ''Invalid status list index''"
| "status_list_api_error (InvalidStatusList msg) = bad_request ''invalid_input'' msg"
| "status_list_api_error (CorruptStoredList msg) = internal"
| "status_list_api_error AlreadyExists =
     conflict ''status_list_already_exists'' ''Status list already exists''"
| "status_list_api_error NotFound = not_found ''status_list_not_found'' ''Status list was not found''"
| "status_list_api_error HistoricalNotFound =
     not_found ''historical_status_list_not_found'' ''Historical status list token not found''"
| "status_list_api_error InvalidHistoricalTime =
     bad_request ''invalid_historical_time'' ''Invalid historical query time''"
| "status_list_api_error IssuerMismatch =
     forbidden ''issuer_mismatch'' ''Issuer does not own the status list''"
| "status_list_api_error TooLarge =
     unprocessable ''status_too_large'' ''Serialized status list size exceeds configured maximum''"
| "status_list_api_error (TooManyStatuses cnt mx) =
     bad_request ''too_many_statuses''
       (''too many statuses in request: '' @ show_nat cnt @ '' > '' @ show_nat mx)"
| "status_list_api_error (IndexTooLarge index mx) =
     bad_request ''index_too_large''
       (''status index '' @ show_int index @ '' exceeds configured maximum '' @ show_int mx)"
| "status_list_api_error Conflict =
     conflict ''update_conflict'' ''The status list was modified concurrently''"
| "status_list_api_error (Contention code) = write_contention"
| "status_list_api_error Unavailable =
     api_error_new 503 ''service_unavailable''
       (Some ''the service is currently unavailable. Please try again later'')"
| "status_list_api_error (Backend err) = internal"

fun credential_api_error :: "credential_error \<Rightarrow> api_error" where
  "credential_api_error (InvalidPublicJwk msg) = bad_request ''invalid_public_jwk'' msg"
| "credential_api_error CredentialAlreadyExists =
     conflict ''credentials_already_exist'' ''Credentials already exist for this issuer''"
| "credential_api_error (CredentialContention code) = write_contention"
| "credential_api_error (CredentialBackend err) = internal"

lemmas api_error_defs = api_error_new_def retry_after_def bad_request_def not_found_def conflict_def
  forbidden_def unprocessable_def write_contention_def internal_def

end
