(* ===== verification/Http_Conditional.thy ===== *)
theory Http_Conditional
  imports Ports
begin

text \<open>
  Model of \<open>conditional.rs\<close> and \<open>etag.rs\<close> under
  \<open>src/src/server/handlers/status_list/utils\<close>: entity tags and conditional requests. The
  date formats of the \<open>time\<close> crate and SHA-256 in hexadecimal are parameters. Header values
  are visible ASCII, so the white space \<open>trim\<close> removes is the ASCII one.
\<close>

record time_lib =
  tl_parse_imf_fixdate :: "string \<Rightarrow> int option"
  tl_parse_rfc2822 :: "string \<Rightarrow> int option"
  tl_from_unix_timestamp :: "int \<Rightarrow> int option"
  tl_format_imf_fixdate :: "int \<Rightarrow> string option"

datatype conditional_response = NotModified | Modified

section \<open>Strings\<close>

definition is_whitespace :: "char \<Rightarrow> bool" where
  "is_whitespace c \<longleftrightarrow> c \<in> {CHR '' '', CHR 0x09, CHR 0x0A, CHR 0x0B, CHR 0x0C, CHR 0x0D}"

definition trim_by :: "(char \<Rightarrow> bool) \<Rightarrow> string \<Rightarrow> string" where
  "trim_by P s = rev (dropWhile P (rev (dropWhile P s)))"

definition trim :: "string \<Rightarrow> string" where
  "trim s = trim_by is_whitespace s"

text \<open>\<open>str::split\<close>: the pieces between the separators, at least one.\<close>

fun split_on :: "char \<Rightarrow> string \<Rightarrow> string list" where
  "split_on sep [] = [[]]"
| "split_on sep (c # s) =
     (if c = sep then [] # split_on sep s
      else case split_on sep s of [] \<Rightarrow> [[c]] | p # ps \<Rightarrow> (c # p) # ps)"

text \<open>\<open>str::strip_prefix\<close>.\<close>

definition strip_prefix :: "string \<Rightarrow> string \<Rightarrow> string option" where
  "strip_prefix p s = (if take (length p) s = p then Some (drop (length p) s) else None)"

fun trim_start_weak :: "string \<Rightarrow> string" where
  "trim_start_weak (c # d # s) = (if c = CHR ''W'' \<and> d = CHR ''/'' then trim_start_weak s else c # d # s)"
| "trim_start_weak s = s"

definition quote_char :: char where
  "quote_char = CHR 0x22"

definition normalize_etag :: "string \<Rightarrow> string" where
  "normalize_etag etag = trim_by (\<lambda>c. c = quote_char) (trim_start_weak (trim etag))"

definition etag_eq_weak :: "string \<Rightarrow> string \<Rightarrow> bool" where
  "etag_eq_weak a b \<longleftrightarrow> normalize_etag a = normalize_etag b"

section \<open>Conditional requests\<close>

definition evaluate_if_none_match :: "string option \<Rightarrow> string \<Rightarrow> conditional_response" where
  "evaluate_if_none_match if_none_match current_etag =
     (case if_none_match of
        None \<Rightarrow> Modified
      | Some header_value \<Rightarrow>
          if trim header_value = ''*'' then NotModified
          else if list_ex (\<lambda>etag. trim etag \<noteq> [] \<and> etag_eq_weak (trim etag) current_etag)
                    (split_on CHR '','' header_value)
          then NotModified else Modified)"

definition parse_http_date :: "time_lib \<Rightarrow> string \<Rightarrow> int option" where
  "parse_http_date tlib date_str =
     (case tl_parse_imf_fixdate tlib date_str of
        Some t \<Rightarrow> Some t | None \<Rightarrow> tl_parse_rfc2822 tlib date_str)"

definition evaluate_if_modified_since :: "time_lib \<Rightarrow> int \<Rightarrow> string option \<Rightarrow> int \<Rightarrow> conditional_response" where
  "evaluate_if_modified_since tlib now if_modified_since updated_at =
     (case if_modified_since of
        None \<Rightarrow> Modified
      | Some header_value \<Rightarrow>
          (case parse_http_date tlib header_value of
             None \<Rightarrow> Modified
           | Some client_timestamp \<Rightarrow>
               if now < client_timestamp then Modified
               else if updated_at \<le> client_timestamp then NotModified else Modified))"

definition evaluate_conditional_request ::
  "time_lib \<Rightarrow> int \<Rightarrow> string option \<Rightarrow> string option \<Rightarrow> string \<Rightarrow> int \<Rightarrow> conditional_response" where
  "evaluate_conditional_request tlib now if_none_match if_modified_since current_etag updated_at =
     (if if_none_match \<noteq> None then evaluate_if_none_match if_none_match current_etag
      else evaluate_if_modified_since tlib now if_modified_since updated_at)"

definition format_http_date :: "time_lib \<Rightarrow> int \<Rightarrow> string" where
  "format_http_date tlib unix_timestamp =
     (let datetime = (case tl_from_unix_timestamp tlib unix_timestamp of Some t \<Rightarrow> t | None \<Rightarrow> 0)
      in case tl_format_imf_fixdate tlib datetime of
           Some s \<Rightarrow> s | None \<Rightarrow> ''Thu, 01 Jan 1970 00:00:00 GMT'')"

section \<open>Entity tags\<close>

definition etag_input :: "status_list_record \<Rightarrow> string" where
  "etag_input record =
     show_nat (unat (sl_bits (slr_status_list record))) @ sl_lst (slr_status_list record)
     @ slr_issuer record @ slr_sub record"

definition generate_etag :: "(string \<Rightarrow> string) \<Rightarrow> status_list_record \<Rightarrow> string" where
  "generate_etag sha256_hex record = ''W/'' @ [quote_char] @ sha256_hex (etag_input record) @ [quote_char]"

definition generate_historical_etag :: "(string \<Rightarrow> string) \<Rightarrow> status_list_snapshot \<Rightarrow> string" where
  "generate_historical_etag sha256_hex snapshot =
     sha256_hex (sn_snapshot_id snapshot @ show_int (sn_iat snapshot) @ show_int (sn_exp snapshot)
       @ sl_lst (sn_status_list snapshot) @ sn_issuer snapshot)"

section \<open>Facts\<close>

definition is_hex :: "string \<Rightarrow> bool" where
  "is_hex s \<longleftrightarrow> s \<noteq> [] \<and> list_all (\<lambda>c. c \<in> set ''0123456789abcdef'') s"

lemma split_on_no_sep: "sep \<notin> set s \<Longrightarrow> split_on sep s = [s]"
  by (induction s) auto

lemma dropWhile_hd: "s \<noteq> [] \<Longrightarrow> \<not> P (hd s) \<Longrightarrow> dropWhile P s = s"
  by (cases s) auto

lemma trim_by_id: "s \<noteq> [] \<Longrightarrow> \<not> P (hd s) \<Longrightarrow> \<not> P (last s) \<Longrightarrow> trim_by P s = s"
  by (simp add: trim_by_def dropWhile_hd hd_rev)

lemma trim_by_wrap:
  assumes "s \<noteq> []" "\<not> P (hd s)" "\<not> P (last s)" "P q"
  shows "trim_by P (q # s @ [q]) = s"
proof -
  have "dropWhile P (q # s @ [q]) = s @ [q]" using assms dropWhile_hd [of "s @ [q]" P] by simp
  moreover have "dropWhile P (q # rev s) = rev s" using assms dropWhile_hd [of "rev s" P] by (simp add: hd_rev)
  ultimately show ?thesis by (simp add: trim_by_def)
qed

lemma is_hexD:
  assumes "is_hex s"
  shows "s \<noteq> []" "hd s \<noteq> quote_char" "last s \<noteq> quote_char" "CHR '','' \<notin> set s"
proof -
  have all: "\<And>c. c \<in> set s \<Longrightarrow> c \<in> set ''0123456789abcdef''" and ne: "s \<noteq> []"
    using assms by (auto simp: is_hex_def list_all_iff)
  have "quote_char \<notin> set s" using all [of quote_char] by (auto simp: quote_char_def)
  then show "hd s \<noteq> quote_char" "last s \<noteq> quote_char"
    using ne by (metis hd_in_set, metis last_in_set)
  show "s \<noteq> []" by (rule ne)
  show "CHR '','' \<notin> set s" using all [of "CHR '',''"] by auto
qed

lemma trim_etag:
  assumes "is_hex h"
  shows "trim (''W/'' @ [quote_char] @ h @ [quote_char]) = ''W/'' @ [quote_char] @ h @ [quote_char]"
  unfolding trim_def by (rule trim_by_id) (auto simp: is_whitespace_def quote_char_def)

lemma normalize_own_etag:
  assumes "is_hex h"
  shows "normalize_etag (''W/'' @ [quote_char] @ h @ [quote_char]) = h"
proof -
  have "trim_start_weak (quote_char # h @ [quote_char]) = quote_char # h @ [quote_char]"
    using is_hexD(1) [OF assms] by (cases h) (auto simp: quote_char_def)
  then show ?thesis
    using trim_etag [OF assms] trim_by_wrap [OF is_hexD(1-3) [OF assms], of quote_char]
    by (simp add: normalize_etag_def)
qed

lemma if_none_match_own_etag:
  assumes "\<And>x. is_hex (sha x)"
  shows "evaluate_if_none_match (Some (generate_etag sha r)) (generate_etag sha r') = NotModified
     \<longleftrightarrow> sha (etag_input r) = sha (etag_input r')"
proof -
  let ?e = "generate_etag sha r"
  have "CHR '','' \<notin> set ?e"
    using is_hexD(4) [OF assms] by (simp add: generate_etag_def quote_char_def)
  then have "split_on CHR '','' ?e = [?e]" by (rule split_on_no_sep)
  moreover have "trim ?e = ?e" unfolding generate_etag_def by (rule trim_etag [OF assms])
  moreover have "?e \<noteq> ''*''" "?e \<noteq> []" by (auto simp: generate_etag_def)
  moreover have "etag_eq_weak ?e (generate_etag sha r') \<longleftrightarrow> sha (etag_input r) = sha (etag_input r')"
    using normalize_own_etag [OF assms] by (simp add: etag_eq_weak_def generate_etag_def)
  ultimately show ?thesis by (simp add: evaluate_if_none_match_def)
qed

text \<open>The stored text of a list starts with no digit, so the width in front of it can be read off.\<close>

definition digit :: "char \<Rightarrow> bool" where
  "digit c \<longleftrightarrow> 48 \<le> (of_char c :: nat) \<and> (of_char c :: nat) \<le> 57"

definition readable_list :: "status_list \<Rightarrow> bool" where
  "readable_list sl \<longleftrightarrow> sl_lst sl \<noteq> [] \<and> \<not> digit (hd (sl_lst sl))"

lemma show_nat_digits: "list_all digit (show_nat n)"
proof (induction n rule: show_nat.induct)
  case (1 n)
  have d: "digit (char_of (48 + k))" if "k < 10" for k :: nat
    using that by (simp add: digit_def of_char_of)
  show ?case
    using 1 d [of n] d [of "n mod 10"] by (subst show_nat.simps) simp
qed

lemma etag_input_inj:
  assumes "etag_input r = etag_input r'" "slr_issuer r = slr_issuer r'" "slr_sub r = slr_sub r'"
    and "readable_list (slr_status_list r)" "readable_list (slr_status_list r')"
  shows "slr_status_list r = slr_status_list r'"
proof -
  let ?b = "\<lambda>r. show_nat (unat (sl_bits (slr_status_list r)))" and ?l = "\<lambda>r. sl_lst (slr_status_list r)"
  have "?b r @ ?l r = ?b r' @ ?l r'" using assms(1-3) by (simp add: etag_input_def)
  moreover have "takeWhile digit (?b r @ ?l r) = ?b r" if "readable_list (slr_status_list r)" for r
    using that show_nat_digits [of "unat (sl_bits (slr_status_list r))"]
    by (cases "?l r") (auto simp: readable_list_def takeWhile_append2 list_all_iff)
  ultimately have "?b r = ?b r'" "?l r = ?l r'" using assms(4,5) by (metis, metis append_same_eq same_append_eq)
  then show ?thesis by (intro status_list.equality) (simp_all add: word_unat_eq_iff)
qed

section \<open>Properties\<close>

text \<open>
  C19. Revalidation by entity tag: a client that sends back the tag of a version of a list it
  has is told the list is unchanged exactly when the stored status list is the same, given that
  SHA-256 separates the two versions. The tag the server made is recognised through quoting,
  the weak prefix and white space.
\<close>

theorem etag_revalidation:
  assumes "\<And>x. is_hex (sha x)"
    and "slr_issuer r = slr_issuer r'" and "slr_sub r = slr_sub r'"
    and "readable_list (slr_status_list r)" and "readable_list (slr_status_list r')"
    and "sha (etag_input r) = sha (etag_input r') \<longrightarrow> etag_input r = etag_input r'"
  shows "evaluate_conditional_request tlib now (Some (generate_etag sha r)) ims
           (generate_etag sha r') (slr_updated_at r') = NotModified
     \<longleftrightarrow> slr_status_list r = slr_status_list r'"
proof -
  have "etag_input r = etag_input r' \<longleftrightarrow> slr_status_list r = slr_status_list r'"
    using etag_input_inj assms(2-5) by (auto simp: etag_input_def)
  then show ?thesis
    using assms(6) by (auto simp: evaluate_conditional_request_def if_none_match_own_etag [OF assms(1)])
qed

definition no_dates :: time_lib where
  "no_dates = \<lparr>tl_parse_imf_fixdate = (\<lambda>_. None), tl_parse_rfc2822 = (\<lambda>_. None),
     tl_from_unix_timestamp = (\<lambda>_. None), tl_format_imf_fixdate = (\<lambda>_. None)\<rparr>"

theorem etag_revalidation_witness:
  "evaluate_conditional_request no_dates 0
     (Some (generate_etag (\<lambda>x. if x = ''1eNisssub'' then ''aa'' else ''bb'')
        \<lparr>slr_list_id = ''l'', slr_issuer = ''iss'', slr_status_list = \<lparr>sl_bits = 1, sl_lst = ''eN''\<rparr>,
         slr_sub = ''sub'', slr_updated_at = 1\<rparr>)) None
     (generate_etag (\<lambda>x. if x = ''1eNisssub'' then ''aa'' else ''bb'')
        \<lparr>slr_list_id = ''l'', slr_issuer = ''iss'', slr_status_list = \<lparr>sl_bits = 2, sl_lst = ''eN''\<rparr>,
         slr_sub = ''sub'', slr_updated_at = 2\<rparr>) 2 \<noteq> NotModified"
proof -
  let ?sha = "\<lambda>x. if x = ''1eNisssub'' then ''aa'' else ''bb''"
  let ?r = "\<lambda>b t. \<lparr>slr_list_id = ''l'', slr_issuer = ''iss'', slr_status_list = \<lparr>sl_bits = b, sl_lst = ''eN''\<rparr>,
         slr_sub = ''sub'', slr_updated_at = t\<rparr>"
  have "show_nat 1 = ''1''" "show_nat 2 = ''2''" by code_simp+
  moreover have "is_hex (?sha x)" for x by (simp add: is_hex_def)
  moreover have "readable_list \<lparr>sl_bits = b, sl_lst = ''eN''\<rparr>" for b by (simp add: readable_list_def digit_def)
  ultimately show ?thesis
    using etag_revalidation [of ?sha "?r 1 1" "?r 2 2" no_dates 0 None] by (simp add: etag_input_def)
qed

end
