(* ===== verification/Service.thy ===== *)
theory Service
  imports Ports
begin

text \<open>
  Model of \<open>src/src/domain/service.rs\<close>: the \<open>Service\<close> container and its operations. Each
  operation is a process that calls the ports; the clock reading, the fresh snapshot
  identifier and the codec crates come in the record \<open>ambient\<close>. Logging is left out.
\<close>

record 's service =
  sv_status_list_repo :: "'s status_list_repo"
  sv_credential_repo :: "'s credential_repo"
  sv_status_list_cache :: "'s status_list_cache"
  sv_snapshot_repo :: "'s snapshot_repo option"
  sv_cert_provider :: "'s certificate_provider"

record ambient =
  amb_codec :: codec
  amb_now :: int
  amb_uuid :: string

definition snapshots_enabled :: "'s service \<Rightarrow> bool" where
  "snapshots_enabled self \<longleftrightarrow> sv_snapshot_repo self \<noteq> None"

definition next_updated_at :: "int \<Rightarrow> int \<Rightarrow> int" where
  "next_updated_at previous now = max now (wrap_i64 (previous + 1))"

definition build_snapshot :: "string \<Rightarrow> status_list_record \<Rightarrow> nat \<Rightarrow> status_list_snapshot" where
  "build_snapshot uuid record token_exp_secs =
     (let iat = slr_updated_at record in
      \<lparr>sn_snapshot_id = uuid, sn_list_id = slr_list_id record, sn_issuer = slr_issuer record,
       sn_status_list = slr_status_list record, sn_sub = slr_sub record,
       sn_iat = iat, sn_exp = wrap_i64 (iat + u64_as_i64 token_exp_secs)\<rparr>)"

text \<open>An invalidation that fails is logged and otherwise ignored.\<close>

definition invalidate_after_commit :: "'s status_list_cache \<Rightarrow> string \<Rightarrow> ('s, unit, status_list_error) io" where
  "invalidate_after_commit cache list_id =
     pbind (cache_invalidate cache list_id) (\<lambda>r. Ret (case r of Panic \<Rightarrow> Panic | _ \<Rightarrow> Ok ()))"

text \<open>The two limit checks that open \<open>publish_status_list\<close> and \<open>update_statuses\<close>.\<close>

definition check_limits :: "status_entry list \<Rightarrow> int \<Rightarrow> nat \<Rightarrow> unit sl_result" where
  "check_limits statuses max_status_index max_statuses_per_request =
     (if max_statuses_per_request < length statuses
      then Err (TooManyStatuses (length statuses) max_statuses_per_request)
      else case find (\<lambda>entry. max_status_index < se_index entry) statuses of
             Some entry \<Rightarrow> Err (IndexTooLarge (se_index entry) max_status_index)
           | None \<Rightarrow> Ok ())"

text \<open>The write of each operation, with the snapshot of the new state where history is kept.\<close>

definition insert_record ::
  "ambient \<Rightarrow> 's service \<Rightarrow> status_list_record \<Rightarrow> nat \<Rightarrow> ('s, unit, status_list_error) io" where
  "insert_record amb self record token_exp_secs =
     (if snapshots_enabled self
      then repo_insert_with_snapshot (sv_status_list_repo self) record
             (build_snapshot (amb_uuid amb) record token_exp_secs)
      else repo_insert (sv_status_list_repo self) record)"

definition update_record ::
  "ambient \<Rightarrow> 's service \<Rightarrow> status_list_record \<Rightarrow> int \<Rightarrow> nat \<Rightarrow> ('s, bool, status_list_error) io" where
  "update_record amb self record previous_updated_at token_exp_secs =
     (if snapshots_enabled self
      then repo_update_with_snapshot (sv_status_list_repo self) record previous_updated_at
             (build_snapshot (amb_uuid amb) record token_exp_secs)
      else repo_update (sv_status_list_repo self) record previous_updated_at)"

definition publish_status_list ::
  "ambient \<Rightarrow> 's service \<Rightarrow> string \<Rightarrow> issuer \<Rightarrow> string \<Rightarrow> status_entry list \<Rightarrow> nat \<Rightarrow> int \<Rightarrow> nat \<Rightarrow> nat
   \<Rightarrow> ('s, status_list_record, status_list_error) io" where
  "publish_status_list amb self list_id issuer sub statuses token_exp_secs
       max_status_index max_statuses_per_request max_serialized_list_size =
     ptry (Ret (check_limits statuses max_status_index max_statuses_per_request)) (\<lambda>_.
     ptry (Ret (create (amb_codec amb) statuses)) (\<lambda>status_list.
       let record = \<lparr>slr_list_id = list_id, slr_issuer = issuer, slr_status_list = status_list,
                     slr_sub = sub, slr_updated_at = amb_now amb\<rparr>
       in if max_serialized_list_size < length (sl_lst (slr_status_list record))
          then Ret (Err TooLarge)
          else ptry (insert_record amb self record token_exp_secs) (\<lambda>_. Ret (Ok record))))"

definition update_statuses ::
  "ambient \<Rightarrow> 's service \<Rightarrow> issuer \<Rightarrow> string \<Rightarrow> status_entry list \<Rightarrow> nat \<Rightarrow> int \<Rightarrow> nat \<Rightarrow> nat
   \<Rightarrow> ('s, status_list_record, status_list_error) io" where
  "update_statuses amb self issuer list_id statuses token_exp_secs
       max_status_index max_statuses_per_request max_serialized_list_size =
     ptry (Ret (check_limits statuses max_status_index max_statuses_per_request)) (\<lambda>_.
     ptry (repo_find (sv_status_list_repo self) list_id) (\<lambda>found.
     ptry (Ret (ok_or found NotFound)) (\<lambda>existing.
       if slr_issuer existing \<noteq> issuer then Ret (Err IssuerMismatch)
       else
         ptry (Ret (update (amb_codec amb) (slr_status_list existing) statuses)) (\<lambda>status_list.
           if max_serialized_list_size < length (sl_lst status_list) then Ret (Err TooLarge)
           else
             let previous_updated_at = slr_updated_at existing;
                 revised = existing\<lparr>slr_status_list := status_list,
                   slr_updated_at := next_updated_at previous_updated_at (amb_now amb)\<rparr>
             in ptry (update_record amb self revised previous_updated_at token_exp_secs) (\<lambda>landed.
             if \<not> landed then Ret (Err Conflict)
             else ptry (invalidate_after_commit (sv_status_list_cache self) (slr_list_id revised)) (\<lambda>_.
               Ret (Ok revised)))))))"

text \<open>A cache that fails to answer or to store is only logged.\<close>

definition get_status_list ::
  "'s service \<Rightarrow> string \<Rightarrow> ('s, status_list_record, status_list_error) io" where
  "get_status_list self list_id =
     (let from_repo =
        ptry (repo_find (sv_status_list_repo self) list_id) (\<lambda>found.
        ptry (Ret (ok_or found NotFound)) (\<lambda>record.
        pbind (cache_put (sv_status_list_cache self) record) (\<lambda>r.
          Ret (case r of Panic \<Rightarrow> Panic | _ \<Rightarrow> Ok record))))
      in pbind (cache_get (sv_status_list_cache self) list_id) (\<lambda>r.
           case r of
             Ok (Some record) \<Rightarrow> Ret (Ok record)
           | Ok None \<Rightarrow> from_repo
           | Err e \<Rightarrow> from_repo
           | Panic \<Rightarrow> Ret Panic))"

definition list_uris :: "'s service \<Rightarrow> ('s, string list, status_list_error) io" where
  "list_uris self = repo_list_uris (sv_status_list_repo self)"

definition get_snapshot_at ::
  "'s service \<Rightarrow> string \<Rightarrow> int \<Rightarrow> ('s, status_list_snapshot, status_list_error) io" where
  "get_snapshot_at self list_id t =
     ptry (Ret (ok_or (sv_snapshot_repo self) NotFound)) (\<lambda>snapshot_repo.
     ptry (snap_find_valid_at snapshot_repo list_id t) (\<lambda>found.
       Ret (ok_or found HistoricalNotFound)))"

definition cleanup_snapshots :: "'s service \<Rightarrow> int \<Rightarrow> ('s, nat, status_list_error) io" where
  "cleanup_snapshots self cutoff =
     (case sv_snapshot_repo self of
        None \<Rightarrow> Ret (Ok 0)
      | Some snapshot_repo \<Rightarrow> snap_delete_older_than snapshot_repo cutoff)"

definition publish_credential :: "'s service \<Rightarrow> credential \<Rightarrow> ('s, unit, credential_error) io" where
  "publish_credential self credential = cred_insert (sv_credential_repo self) credential"

definition find_credential ::
  "'s service \<Rightarrow> string \<Rightarrow> ('s, credential option, credential_error) io" where
  "find_credential self issuer = cred_find (sv_credential_repo self) issuer"

section \<open>Facts about the pure parts\<close>

lemma check_limits_Ok:
  "check_limits us mi mn = Ok () \<longleftrightarrow> length us \<le> mn \<and> list_all (\<lambda>u. se_index u \<le> mi) us"
proof (cases "find (\<lambda>entry. mi < se_index entry) us")
  case None
  then have "\<forall>u \<in> set us. se_index u \<le> mi" by (auto simp: find_None_iff not_less)
  with None show ?thesis by (simp add: check_limits_def list_all_iff)
next
  case (Some e)
  then have "\<exists>u \<in> set us. mi < se_index u" by (auto simp: find_Some_iff)
  then have "\<not> (\<forall>u \<in> set us. se_index u \<le> mi)" by (simp add: not_le)
  with Some show ?thesis by (simp add: check_limits_def list_all_iff)
qed

lemma check_limits_not_Panic [simp]: "check_limits us mi mn \<noteq> Panic"
  by (auto simp: check_limits_def split: option.splits)

lemma next_updated_at_greater:
  assumes "in_i64 p" and "p < i64_max"
  shows "p < next_updated_at p now" "now \<le> next_updated_at p now"
proof -
  have "in_i64 (p + 1)" using assms by (simp add: in_i64_def)
  then show "p < next_updated_at p now" "now \<le> next_updated_at p now"
    by (simp_all add: next_updated_at_def wrap_i64_id max_def)
qed

lemma next_updated_at_in_i64: "in_i64 now \<Longrightarrow> in_i64 (next_updated_at p now)"
  using wrap_i64_in_range [of "p + 1"] by (simp add: next_updated_at_def max_def)

lemma build_snapshot_simps [simp]:
  "sn_snapshot_id (build_snapshot u r n) = u" "sn_list_id (build_snapshot u r n) = slr_list_id r"
  "sn_issuer (build_snapshot u r n) = slr_issuer r" "sn_sub (build_snapshot u r n) = slr_sub r"
  "sn_status_list (build_snapshot u r n) = slr_status_list r"
  "sn_iat (build_snapshot u r n) = slr_updated_at r"
  by (simp_all add: build_snapshot_def Let_def)

section \<open>What the service promises over any ports that meet their contracts\<close>

definition revised_record ::
  "ambient \<Rightarrow> status_list_record \<Rightarrow> status_list \<Rightarrow> status_list_record" where
  "revised_record amb old sl =
     old\<lparr>slr_status_list := sl, slr_updated_at := next_updated_at (slr_updated_at old) (amb_now amb)\<rparr>"

lemma revised_record_simps [simp]:
  "slr_list_id (revised_record amb old sl) = slr_list_id old"
  "slr_issuer (revised_record amb old sl) = slr_issuer old"
  "slr_sub (revised_record amb old sl) = slr_sub old"
  "slr_status_list (revised_record amb old sl) = sl"
  "slr_updated_at (revised_record amb old sl) = next_updated_at (slr_updated_at old) (amb_now amb)"
  by (simp_all add: revised_record_def)

definition recorded :: "'s service \<Rightarrow> ambient \<Rightarrow> status_list_record \<Rightarrow> nat \<Rightarrow> store \<Rightarrow> store" where
  "recorded sv amb r n st =
     put_list r (if snapshots_enabled sv then put_snap (build_snapshot (amb_uuid amb) r n) st else st)"

lemma recorded_simps [simp]:
  "st_lists (recorded sv amb r n st) = (st_lists st)(slr_list_id r \<mapsto> r)"
  "st_cache (recorded sv amb r n st) = st_cache st"
  "st_creds (recorded sv amb r n st) = st_creds st"
  by (simp_all add: recorded_def put_list_def put_snap_def)

definition same_but_cache :: "store \<Rightarrow> store \<Rightarrow> bool" where
  "same_but_cache st st' \<longleftrightarrow> st\<lparr>st_cache := st_cache st'\<rparr> = st'"

lemma same_but_cache_simps:
  assumes "same_but_cache st st'"
  shows "st_lists st' = st_lists st" "st_snaps st' = st_snaps st" "st_creds st' = st_creds st"
  using assms by (auto simp: same_but_cache_def dest: arg_cong [of _ _ st_lists] arg_cong [of _ _ st_snaps]
      arg_cong [of _ _ st_creds])

lemma same_but_cacheI [intro]: "st' = st\<lparr>st_cache := c\<rparr> \<Longrightarrow> same_but_cache st st'"
  by (simp add: same_but_cache_def)

end
