(* ===== verification/Token.thy ===== *)
theory Token
  imports Service
begin

text \<open>
  Model of \<open>token.rs\<close> and \<open>constants.rs\<close> under
  \<open>src/src/server/handlers/status_list/utils\<close> and of the key pairs of
  \<open>src/src/utils/keygen.rs\<close>: the status list token as a signed JWT or CWT. The crates for
  ECDSA, JWT, COSE, CBOR, base64 and gzip are the record \<open>crypto\<close>; a panic inside the
  blocking task cannot happen and is left out with the metrics.
\<close>

section \<open>Constants\<close>

definition ACCEPT_STATUS_LISTS_HEADER_JWT :: string where
  "ACCEPT_STATUS_LISTS_HEADER_JWT = ''application/statuslist+jwt''"

definition ACCEPT_STATUS_LISTS_HEADER_CWT :: string where
  "ACCEPT_STATUS_LISTS_HEADER_CWT = ''application/statuslist+cwt''"

definition STATUS_LISTS_HEADER_JWT :: string where
  "STATUS_LISTS_HEADER_JWT = ''statuslist+jwt''"

definition STATUS_LISTS_CWT_TYPE_VALUE :: string where
  "STATUS_LISTS_CWT_TYPE_VALUE = ''application/statuslist+cwt''"

definition CWT_TYPE :: int where "CWT_TYPE = 16"
definition SUBJECT :: int where "SUBJECT = 2"
definition ISSUED_AT :: int where "ISSUED_AT = 6"
definition EXP :: int where "EXP = 4"
definition TTL :: int where "TTL = 65534"
definition STATUS_LIST :: int where "STATUS_LIST = 65533"
definition GZIP_HEADER :: string where "GZIP_HEADER = ''gzip''"

section \<open>Data\<close>

datatype cbor =
    CborInteger int
  | CborText string
  | CborBytes "u8 list"
  | CborArray "cbor list"
  | CborMap "(cbor \<times> cbor) list"

record status_list_claims =
  slc_bits :: u8
  slc_lst :: string
  slc_aggregation_uri :: "string option"

record status_list_token =
  tok_exp :: "int option"
  tok_iat :: int
  tok_status_list :: status_list_claims
  tok_sub :: string
  tok_ttl :: "int option"

text \<open>The JWT header fields the code sets, and the protected COSE header it builds.\<close>

record jwt_header =
  jh_alg :: string
  jh_typ :: "string option"
  jh_x5c :: "string list option"

record cose_header =
  ch_algorithm :: string
  ch_x5chain :: cbor
  ch_type :: "int \<times> cbor"

record ('sk, 'ek) crypto =
  cr_key_from_pkcs8_pem :: "string \<Rightarrow> string + 'sk"
  cr_key_to_pkcs8_pem :: "'sk \<Rightarrow> string + string"
  cr_key_from_slice :: "u8 list \<Rightarrow> string + 'sk"
  cr_sign :: "'sk \<Rightarrow> u8 list \<Rightarrow> u8 list"
  cr_encoding_key_from_ec_pem :: "string \<Rightarrow> string + 'ek"
  cr_jwt_encode :: "jwt_header \<Rightarrow> status_list_token \<Rightarrow> 'ek \<Rightarrow> string + string"
  cr_cbor_to_vec :: "cbor \<Rightarrow> string + u8 list"
  cr_cose_tbs :: "cose_header \<Rightarrow> u8 list \<Rightarrow> u8 list"
  cr_cose_tagged :: "cose_header \<Rightarrow> u8 list \<Rightarrow> u8 list \<Rightarrow> string + u8 list"
  cr_base64_decode :: "string \<Rightarrow> string + u8 list"
  cr_gzip_write :: "u8 list \<Rightarrow> string + unit"
  cr_gzip_finish :: "u8 list \<Rightarrow> string + u8 list"

text \<open>\<open>.map_err(|e| StatusListError::Backend(Box::new(e)))\<close>.\<close>

definition or_backend :: "string + 'a \<Rightarrow> 'a sl_result" where
  "or_backend r = map_err Backend (from_sum r)"

section \<open>Key pairs\<close>

datatype keygen_error = KeyGen string | Parsing string

definition keypair_from_pkcs8_pem :: "('sk, 'ek) crypto \<Rightarrow> string \<Rightarrow> ('sk, keygen_error) outcome" where
  "keypair_from_pkcs8_pem cr pem = map_err Parsing (from_sum (cr_key_from_pkcs8_pem cr pem))"

definition keypair_to_pkcs8_pem :: "('sk, 'ek) crypto \<Rightarrow> 'sk \<Rightarrow> (string, keygen_error) outcome" where
  "keypair_to_pkcs8_pem cr key = map_err Parsing (from_sum (cr_key_to_pkcs8_pem cr key))"

text \<open>
  The loop that fills the seed of a generated key: \<open>rng i\<close> is the result of attempt \<open>i\<close>
  and \<open>left\<close> the number of attempts left.
\<close>

definition MAX_ATTEMPTS :: nat where "MAX_ATTEMPTS = 3"

fun fill_seed :: "(nat \<Rightarrow> string + u8 list) \<Rightarrow> nat \<Rightarrow> u8 list \<Rightarrow> (u8 list, keygen_error) outcome" where
  "fill_seed rng 0 seed = Ok seed"
| "fill_seed rng (Suc left) seed =
     (case rng (MAX_ATTEMPTS - Suc left) of
        Inr bytes \<Rightarrow> Ok bytes
      | Inl err \<Rightarrow> if left = 0 then Err (KeyGen err) else fill_seed rng left seed)"

definition keypair_generate ::
  "('sk, 'ek) crypto \<Rightarrow> (nat \<Rightarrow> string + u8 list) \<Rightarrow> ('sk, keygen_error) outcome" where
  "keypair_generate cr rng =
     obind (fill_seed rng MAX_ATTEMPTS (replicate 32 0)) (\<lambda>seed.
       map_err Parsing (from_sum (cr_key_from_slice cr seed)))"

fun keygen_error_text :: "keygen_error \<Rightarrow> string" where
  "keygen_error_text (KeyGen e) = ''Failed to generate key: '' @ e"
| "keygen_error_text (Parsing e) = ''Failed to parse key: '' @ e"

section \<open>Tokens\<close>

definition build_x5chain :: "('sk, 'ek) crypto \<Rightarrow> string list \<Rightarrow> cbor sl_result" where
  "build_x5chain cr cert_chain =
     obind (collect (\<lambda>b64. or_backend (cr_base64_decode cr b64)) cert_chain) (\<lambda>certs_der.
       Ok (if length certs_der = 1 then CborBytes (hd certs_der) else CborArray (map CborBytes certs_der)))"

definition cwt_claims :: "status_list_record \<Rightarrow> u8 list \<Rightarrow> string option \<Rightarrow> int \<Rightarrow> int \<Rightarrow> nat \<Rightarrow> cbor" where
  "cwt_claims status_record lst_bytes aggregation_uri iat exp token_ttl_secs =
     CborMap
       [(CborInteger SUBJECT, CborText (slr_sub status_record)),
        (CborInteger ISSUED_AT, CborInteger iat),
        (CborInteger EXP, CborInteger exp),
        (CborInteger TTL, CborInteger (int token_ttl_secs)),
        (CborInteger STATUS_LIST,
         CborMap
           ([(CborText ''bits'', CborInteger (uint (sl_bits (slr_status_list status_record)))),
             (CborText ''lst'', CborBytes lst_bytes)]
            @ (case aggregation_uri of
                 Some uri \<Rightarrow> [(CborText ''aggregation_uri'', CborText uri)] | None \<Rightarrow> [])))]"

definition issue_cwt ::
  "('sk, 'ek) crypto \<Rightarrow> codec \<Rightarrow> status_list_record \<Rightarrow> 'sk \<Rightarrow> string list \<Rightarrow> string option \<Rightarrow> int \<Rightarrow> int \<Rightarrow> nat
   \<Rightarrow> u8 list sl_result" where
  "issue_cwt cr cx status_record keypair cert_chain aggregation_uri iat exp token_ttl_secs =
     obind (or_backend (base64url_decode cx (sl_lst (slr_status_list status_record)))) (\<lambda>lst_bytes.
     obind (or_backend (cr_cbor_to_vec cr
              (cwt_claims status_record lst_bytes aggregation_uri iat exp token_ttl_secs))) (\<lambda>payload.
     obind (build_x5chain cr cert_chain) (\<lambda>x5chain_value.
       let protected = \<lparr>ch_algorithm = ''ES256'', ch_x5chain = x5chain_value,
                        ch_type = (CWT_TYPE, CborText STATUS_LISTS_CWT_TYPE_VALUE)\<rparr>;
           signature = cr_sign cr keypair (cr_cose_tbs cr protected payload)
       in or_backend (cr_cose_tagged cr protected payload signature))))"

definition jwt_claims :: "status_list_record \<Rightarrow> string option \<Rightarrow> int \<Rightarrow> int \<Rightarrow> nat \<Rightarrow> status_list_token" where
  "jwt_claims status_record aggregation_uri iat exp token_ttl_secs =
     \<lparr>tok_exp = Some exp, tok_iat = iat,
      tok_status_list = \<lparr>slc_bits = sl_bits (slr_status_list status_record),
        slc_lst = sl_lst (slr_status_list status_record), slc_aggregation_uri = aggregation_uri\<rparr>,
      tok_sub = slr_sub status_record, tok_ttl = Some (u64_as_i64 token_ttl_secs)\<rparr>"

definition issue_jwt ::
  "('sk, 'ek) crypto \<Rightarrow> status_list_record \<Rightarrow> 'sk \<Rightarrow> string list \<Rightarrow> string option \<Rightarrow> int \<Rightarrow> int \<Rightarrow> nat \<Rightarrow> string sl_result" where
  "issue_jwt cr status_record keypair cert_chain aggregation_uri iat exp token_ttl_secs =
     obind (map_err (\<lambda>e. Backend (keygen_error_text e)) (keypair_to_pkcs8_pem cr keypair)) (\<lambda>pem.
     obind (or_backend (cr_encoding_key_from_ec_pem cr pem)) (\<lambda>signer.
       or_backend (cr_jwt_encode cr
         \<lparr>jh_alg = ''ES256'', jh_typ = Some STATUS_LISTS_HEADER_JWT, jh_x5c = Some cert_chain\<rparr>
         (jwt_claims status_record aggregation_uri iat exp token_ttl_secs) signer)))"

definition string_bytes :: "string \<Rightarrow> u8 list" where
  "string_bytes s = map (\<lambda>c. word_of_nat (of_char c)) s"

text \<open>The work of the blocking task: sign the token, then compress it if asked to.\<close>

definition sign_token ::
  "('sk, 'ek) crypto \<Rightarrow> codec \<Rightarrow> string \<Rightarrow> status_list_record \<Rightarrow> string \<Rightarrow> string list \<Rightarrow> string option \<Rightarrow>
   int \<times> int \<Rightarrow> nat \<Rightarrow> bool \<Rightarrow> (u8 list \<times> string option) sl_result" where
  "sign_token cr cx accept status_record signing_key_pem certs_parts aggregation_uri validity_window
       token_ttl_secs should_gzip =
     obind (map_err (\<lambda>e. Backend (keygen_error_text e)) (keypair_from_pkcs8_pem cr signing_key_pem)) (\<lambda>keypair.
     obind (if accept = ACCEPT_STATUS_LISTS_HEADER_CWT
            then issue_cwt cr cx status_record keypair certs_parts aggregation_uri
                   (fst validity_window) (snd validity_window) token_ttl_secs
            else omap string_bytes
                   (issue_jwt cr status_record keypair certs_parts aggregation_uri
                      (fst validity_window) (snd validity_window) token_ttl_secs)) (\<lambda>token_bytes.
       if should_gzip
       then obind (or_backend (cr_gzip_write cr token_bytes)) (\<lambda>_.
            obind (or_backend (cr_gzip_finish cr token_bytes)) (\<lambda>compressed.
              Ok (compressed, Some GZIP_HEADER)))
       else Ok (token_bytes, None)))"

fun sl_error_text :: "status_list_error \<Rightarrow> string" where
  "sl_error_text InvalidIndex = ''invalid status list index''"
| "sl_error_text (InvalidStatusList m) = m"
| "sl_error_text (CorruptStoredList m) = ''corrupt stored status list: '' @ m"
| "sl_error_text AlreadyExists = ''status list already exists''"
| "sl_error_text NotFound = ''status list was not found''"
| "sl_error_text HistoricalNotFound = ''historical status list token not found''"
| "sl_error_text InvalidHistoricalTime = ''invalid historical time''"
| "sl_error_text IssuerMismatch = ''issuer does not own the status list''"
| "sl_error_text TooLarge = ''serialized status list size exceeds configured maximum''"
| "sl_error_text (TooManyStatuses cnt mx) =
     ''too many statuses in request: '' @ show_nat cnt @ '' > '' @ show_nat mx"
| "sl_error_text (IndexTooLarge index mx) =
     ''status index '' @ show_int index @ '' exceeds configured maximum '' @ show_int mx"
| "sl_error_text Conflict = ''the status list was modified concurrently''"
| "sl_error_text (Contention code) = ''the write lost a lock race ('' @ code @ '') and can be retried unchanged''"
| "sl_error_text Unavailable = ''the service is currently unavailable. Please try again later''"
| "sl_error_text (Backend m) = ''storage error: '' @ m"

text \<open>
  \<open>build_status_list_token\<close> with the parts of the application state it reads: the certificate
  provider, the aggregation URI, the token lifetime and the time to live. \<open>now\<close> is the clock.
\<close>

definition build_status_list_token ::
  "('sk, 'ek) crypto \<Rightarrow> codec \<Rightarrow> int \<Rightarrow> 's certificate_provider \<Rightarrow> string option \<Rightarrow> nat \<Rightarrow> nat \<Rightarrow>
   string \<Rightarrow> status_list_record \<Rightarrow> (int \<times> int) option \<Rightarrow> bool
   \<Rightarrow> ('s, u8 list \<times> string option, status_list_error) io" where
  "build_status_list_token cr cx now cert_provider aggregation_uri token_exp_secs token_ttl_secs
       accept status_record validity_window client_accepts_gzip =
     ptry (pmap_err (\<lambda>e. Backend (sl_error_text e)) (cert_signing_material cert_provider)) (\<lambda>signing_material.
     ptry (Ret (ok_or (sm_certificate_chain signing_material) Unavailable)) (\<lambda>certs_parts.
       let window = (case validity_window of
                       Some w \<Rightarrow> w | None \<Rightarrow> (now, wrap_i64 (now + u64_as_i64 token_exp_secs)));
           should_gzip = client_accepts_gzip \<and> accept = ACCEPT_STATUS_LISTS_HEADER_JWT
       in Ret (sign_token cr cx accept status_record (sm_signing_key_pem signing_material) certs_parts
                 aggregation_uri window token_ttl_secs should_gzip)))"

text \<open>A set of libraries for the examples, in which keys are texts and a JWT is the subject it carries.\<close>

definition sample_crypto :: "(string, string) crypto" where
  "sample_crypto =
     \<lparr>cr_key_from_pkcs8_pem = Inr, cr_key_to_pkcs8_pem = Inr, cr_key_from_slice = (\<lambda>b. Inr ''k''),
      cr_sign = (\<lambda>k b. b), cr_encoding_key_from_ec_pem = Inr, cr_jwt_encode = (\<lambda>h c k. Inr (tok_sub c)),
      cr_cbor_to_vec = (\<lambda>c. Inr []), cr_cose_tbs = (\<lambda>h p. p), cr_cose_tagged = (\<lambda>h p sg. Inr (p @ sg)),
      cr_base64_decode = (\<lambda>t. Inr (string_bytes t)), cr_gzip_write = (\<lambda>b. Inr ()), cr_gzip_finish = Inr\<rparr>"

end
