(* ===== verification/Handlers.thy ===== *)
theory Handlers
  imports Api_Error Http_Conditional Token
begin

text \<open>
  Model of the request handlers under \<open>src/src/server/handlers\<close> and of the application state
  of \<open>src/src/server/mod.rs\<close>: publishing, updating and fetching status lists, the
  aggregation and the registration of credentials. Routing, extraction and JSON decoding are
  the framework's; the handlers start from the decoded request. A handler is a process whose
  result is the response or the error of \<open>Api_Error\<close>.
\<close>

section \<open>State and requests\<close>

record management_auth_config =
  ma_leeway_secs :: nat
  ma_max_token_lifetime_secs :: nat
  ma_audiences :: "string list"

definition default_management_auth :: management_auth_config where
  "default_management_auth = \<lparr>ma_leeway_secs = 60, ma_max_token_lifetime_secs = 3600, ma_audiences = []\<rparr>"

record 's app_state =
  app_service :: "'s service"
  app_server_domain :: string
  app_aggregation_uri :: "string option"
  app_token_exp_secs :: nat
  app_token_ttl_secs :: nat
  app_max_status_index :: int
  app_max_statuses_per_request :: nat
  app_max_serialized_list_size :: nat
  app_snapshot_retention_secs :: nat
  app_management_auth :: management_auth_config

text \<open>
  The request headers the handlers read. A value that is not visible ASCII counts as absent
  (\<open>to_str().ok()\<close>); \<open>Accept-Encoding\<close> may come several times.
\<close>

record request_headers =
  rq_accept :: "string option"
  rq_accept_encoding :: "string list"
  rq_if_none_match :: "string option"
  rq_if_modified_since :: "string option"
  rq_authorization :: "string option"

text \<open>The libraries and the surroundings of a request.\<close>

record ('sk, 'ek) http_env =
  he_ambient :: ambient
  he_crypto :: "('sk, 'ek) crypto"
  he_time :: time_lib
  he_sha256_hex :: "string \<Rightarrow> string"
  he_uuid_try_parse :: "string \<Rightarrow> string + unit"
  he_header_value :: "string \<Rightarrow> bool"
  he_header_error :: string
  he_q_positive :: "string \<Rightarrow> bool option"

section \<open>Request bodies\<close>

datatype request_status = VALID | INVALID | SUSPENDED | APPLICATION_SPECIFIC u32

fun serialize_status :: "request_status \<Rightarrow> u32" where
  "serialize_status VALID = 0"
| "serialize_status INVALID = 1"
| "serialize_status SUSPENDED = 2"
| "serialize_status (APPLICATION_SPECIFIC v) = v"

definition deserialize_status :: "u32 \<Rightarrow> (request_status, string) outcome" where
  "deserialize_status v =
     (if v = 0 then Ok VALID
      else if v = 1 then Ok INVALID
      else if v = 2 then Ok SUSPENDED
      else if 256 \<le> v then Ok (APPLICATION_SPECIFIC v)
      else Err (''status value '' @ show_nat (unat v) @ '' is reserved (only 0, 1, 2, or >= 256 allowed)''))"

record request_entry =
  re_index :: int
  re_status :: request_status

definition entry_from_request :: "request_entry \<Rightarrow> status_entry" where
  "entry_from_request entry =
     \<lparr>se_index = re_index entry,
      se_status = (case re_status entry of
        VALID \<Rightarrow> Valid | INVALID \<Rightarrow> Invalid | SUSPENDED \<Rightarrow> Suspended
      | APPLICATION_SPECIFIC v \<Rightarrow> ApplicationSpecific v)\<rparr>"

section \<open>Publishing and updating\<close>

text \<open>\<open>service_call.await?\<close> in a handler.\<close>

definition service_try ::
  "('s, 'a, status_list_error) io \<Rightarrow> ('a \<Rightarrow> ('s, 'b, api_error) io) \<Rightarrow> ('s, 'b, api_error) io" where
  "service_try p k = ptry (pmap_err status_list_api_error p) k"

definition status_response :: "status_code \<Rightarrow> response" where
  "status_response code = \<lparr>rs_status = code, rs_headers = [], rs_body = EmptyBody\<rparr>"

definition check_list_id :: "('sk, 'ek) http_env \<Rightarrow> string \<Rightarrow> (unit, api_error) outcome" where
  "check_list_id env list_id =
     map_err (\<lambda>e. bad_request ''invalid_list_id'' (''Invalid list_id format: '' @ e))
       (from_sum (he_uuid_try_parse env list_id))"

definition publish_status ::
  "('sk, 'ek) http_env \<Rightarrow> 's app_state \<Rightarrow> issuer \<Rightarrow> string \<Rightarrow> request_entry list \<Rightarrow> ('s, response, api_error) io" where
  "publish_status env appstate principal_issuer list_id payload =
     ptry (Ret (check_list_id env list_id)) (\<lambda>_.
       let statuses = map entry_from_request payload;
           sub = ''https://'' @ app_server_domain appstate @ ''/api/v1/status-lists/'' @ list_id
       in service_try
            (publish_status_list (he_ambient env) (app_service appstate) list_id principal_issuer sub statuses
               (app_token_exp_secs appstate) (app_max_status_index appstate)
               (app_max_statuses_per_request appstate) (app_max_serialized_list_size appstate)) (\<lambda>_.
          Ret (Ok (status_response 201))))"

definition update_status ::
  "('sk, 'ek) http_env \<Rightarrow> 's app_state \<Rightarrow> issuer \<Rightarrow> string \<Rightarrow> request_entry list \<Rightarrow> ('s, response, api_error) io" where
  "update_status env appstate principal_issuer list_id payload =
     ptry (Ret (check_list_id env list_id)) (\<lambda>_.
       let statuses = map entry_from_request payload
       in service_try
            (update_statuses (he_ambient env) (app_service appstate) principal_issuer list_id statuses
               (app_token_exp_secs appstate) (app_max_status_index appstate)
               (app_max_statuses_per_request appstate) (app_max_serialized_list_size appstate)) (\<lambda>_.
          Ret (Ok (status_response 200))))"

section \<open>Content coding\<close>

definition ascii_lower :: "char \<Rightarrow> char" where
  "ascii_lower c =
     (if 65 \<le> (of_char c :: nat) \<and> (of_char c :: nat) \<le> 90 then char_of ((of_char c :: nat) + 32) else c)"

definition eq_ignore_ascii_case :: "string \<Rightarrow> string \<Rightarrow> bool" where
  "eq_ignore_ascii_case a b \<longleftrightarrow> map ascii_lower a = map ascii_lower b"

text \<open>\<open>str::split_once\<close>.\<close>

fun split_once :: "char \<Rightarrow> string \<Rightarrow> (string \<times> string) option" where
  "split_once sep [] = None"
| "split_once sep (c # s) =
     (if c = sep then Some ([], s) else map_option (\<lambda>(a, b). (c # a, b)) (split_once sep s))"

fun find_map :: "('a \<Rightarrow> 'b option) \<Rightarrow> 'a list \<Rightarrow> 'b option" where
  "find_map f [] = None"
| "find_map f (x # xs) = (case f x of Some y \<Rightarrow> Some y | None \<Rightarrow> find_map f xs)"

text \<open>One member of \<open>Accept-Encoding\<close>: the coding and whether its weight, if readable, is positive.\<close>

definition coding_entry :: "(string \<Rightarrow> bool option) \<Rightarrow> string \<Rightarrow> (string \<times> bool option) option" where
  "coding_entry q_positive piece =
     (let s = trim piece in
      if s = [] then None
      else
        let (coding, params) = (case split_once CHR '';'' s of Some (c, p) \<Rightarrow> (trim c, trim p) | None \<Rightarrow> (s, []));
            q = (case find_map (\<lambda>p. map_option trim (strip_prefix ''q='' (trim p))) (split_on CHR '';'' params) of
                   Some q \<Rightarrow> q_positive q | None \<Rightarrow> None)
        in Some (coding, q))"

definition coding_entries :: "(string \<Rightarrow> bool option) \<Rightarrow> string list \<Rightarrow> (string \<times> bool option) list" where
  "coding_entries q_positive vals =
     List.map_filter (coding_entry q_positive) (concat (map (split_on CHR '','') vals))"

definition client_accepts_gzip :: "(string \<Rightarrow> bool option) \<Rightarrow> string list \<Rightarrow> bool" where
  "client_accepts_gzip q_positive vals =
     (let entries = coding_entries q_positive vals in
      case find (\<lambda>(c, q). eq_ignore_ascii_case c ''gzip'') entries of
        Some (c, None) \<Rightarrow> True
      | Some (c, Some positive) \<Rightarrow> positive
      | None \<Rightarrow> list_ex (\<lambda>(c, q). eq_ignore_ascii_case c ''*'' \<and> (q = None \<or> q = Some True)) entries)"

section \<open>Fetching\<close>

definition build_cache_control :: "nat \<Rightarrow> string" where
  "build_cache_control token_ttl_secs = ''max-age='' @ show_nat token_ttl_secs @ '', immutable''"

definition vary_value :: string where
  "vary_value = ''Accept, Accept-Encoding''"

text \<open>
  The assembly of a 200 response with its token; a header value the HTTP library refuses makes
  the \<open>unwrap\<close> panic.
\<close>

definition token_response ::
  "('sk, 'ek) http_env \<Rightarrow> string \<Rightarrow> string \<Rightarrow> string \<Rightarrow> string \<Rightarrow> u8 list \<times> string option \<Rightarrow> (response, api_error) outcome" where
  "token_response env accept_type etag last_modified cache_control tok =
     (if list_all (he_header_value env) [accept_type, etag, last_modified, cache_control]
      then Ok \<lparr>rs_status = 200,
             rs_headers = [(''content-type'', accept_type), (''etag'', etag), (''last-modified'', last_modified),
               (''cache-control'', cache_control), (''vary'', vary_value)]
               @ (case snd tok of Some enc \<Rightarrow> [(''content-encoding'', enc)] | None \<Rightarrow> []),
             rs_body = TokenBody (fst tok)\<rparr>
      else Panic)"

text \<open>
  The 304 response is built from a tuple; a header value the HTTP library refuses becomes the
  framework's 500 response, whose text is \<open>he_header_error\<close>.
\<close>

definition not_modified_response :: "('sk, 'ek) http_env \<Rightarrow> string \<Rightarrow> string \<Rightarrow> string \<Rightarrow> response" where
  "not_modified_response env etag last_modified cache_control =
     (if list_all (he_header_value env) [etag, last_modified, cache_control]
      then \<lparr>rs_status = 304,
             rs_headers = [(''etag'', etag), (''last-modified'', last_modified),
               (''cache-control'', cache_control), (''vary'', vary_value)],
             rs_body = EmptyBody\<rparr>
      else \<lparr>rs_status = 500, rs_headers = [], rs_body = TextBody (he_header_error env)\<rparr>)"

definition state_token ::
  "('sk, 'ek) http_env \<Rightarrow> 's app_state \<Rightarrow> string \<Rightarrow> status_list_record \<Rightarrow> (int \<times> int) option \<Rightarrow> bool
   \<Rightarrow> ('s, u8 list \<times> string option, status_list_error) io" where
  "state_token env state accept_type status_record window gzip =
     build_status_list_token (he_crypto env) (amb_codec (he_ambient env)) (amb_now (he_ambient env))
       (sv_cert_provider (app_service state)) (app_aggregation_uri state) (app_token_exp_secs state)
       (app_token_ttl_secs state) accept_type status_record window gzip"

definition handle_historical_request ::
  "('sk, 'ek) http_env \<Rightarrow> 's app_state \<Rightarrow> string \<Rightarrow> int \<Rightarrow> string \<Rightarrow> bool \<Rightarrow> ('s, response, api_error) io" where
  "handle_historical_request env state list_id t accept_type gzip =
     (if t \<le> 0 \<or> amb_now (he_ambient env) < t
      then Ret (Err (status_list_api_error InvalidHistoricalTime))
      else
        service_try (get_snapshot_at (app_service state) list_id t) (\<lambda>snapshot.
          let etag = generate_historical_etag (he_sha256_hex env) snapshot;
              last_modified = format_http_date (he_time env) (sn_iat snapshot);
              validity_duration = i64_as_u64 (wrap_i64 (sn_exp snapshot - sn_iat snapshot));
              cache_control = ''max-age='' @ show_nat validity_duration @ '', immutable'';
              status_record = \<lparr>slr_list_id = sn_list_id snapshot, slr_issuer = sn_issuer snapshot,
                slr_status_list = sn_status_list snapshot, slr_sub = sn_sub snapshot,
                slr_updated_at = sn_iat snapshot\<rparr>
          in service_try
               (state_token env state accept_type status_record (Some (sn_iat snapshot, sn_exp snapshot)) gzip) (\<lambda>tok.
             Ret (token_response env accept_type etag last_modified cache_control tok))))"

definition accepted_type :: "string option \<Rightarrow> (string, api_error) outcome" where
  "accepted_type accept =
     (case accept of
        None \<Rightarrow> Ok ACCEPT_STATUS_LISTS_HEADER_JWT
      | Some a \<Rightarrow>
          if a = ACCEPT_STATUS_LISTS_HEADER_JWT \<or> a = ACCEPT_STATUS_LISTS_HEADER_CWT then Ok a
          else Err (api_error_new 406 ''invalid_accept_header'' (Some ''Invalid accept header'')))"

definition get_status_list_handler ::
  "('sk, 'ek) http_env \<Rightarrow> 's app_state \<Rightarrow> string \<Rightarrow> string + int option \<Rightarrow> request_headers \<Rightarrow> ('s, response, api_error) io" where
  "get_status_list_handler env state list_id query_result headers =
     ptry (Ret (map_err (\<lambda>e. bad_request ''invalid_query'' (''Failed to parse query parameters: '' @ e))
                  (from_sum query_result))) (\<lambda>query_time.
     ptry (Ret (accepted_type (rq_accept headers))) (\<lambda>accept_type.
       let gzip = client_accepts_gzip (he_q_positive env) (rq_accept_encoding headers) in
       case query_time of
         Some t \<Rightarrow> handle_historical_request env state list_id t accept_type gzip
       | None \<Rightarrow>
           service_try (get_status_list (app_service state) list_id) (\<lambda>status_record.
             let current_etag = generate_etag (he_sha256_hex env) status_record;
                 last_modified_ts = slr_updated_at status_record;
                 last_modified = format_http_date (he_time env) last_modified_ts;
                 cache_control = build_cache_control (app_token_ttl_secs state)
             in case evaluate_conditional_request (he_time env) (amb_now (he_ambient env))
                       (rq_if_none_match headers) (rq_if_modified_since headers) current_etag last_modified_ts of
                  NotModified \<Rightarrow>
                    Ret (Ok (not_modified_response env current_etag last_modified cache_control))
                | Modified \<Rightarrow>
                    service_try (state_token env state accept_type status_record None gzip) (\<lambda>tok.
                      Ret (token_response env accept_type current_etag last_modified cache_control tok)))))"

definition get_aggregation :: "'s app_state \<Rightarrow> ('s, response, api_error) io" where
  "get_aggregation state =
     service_try (list_uris (app_service state)) (\<lambda>status_lists.
       Ret (Ok \<lparr>rs_status = 200, rs_headers = [], rs_body = AggregationBody status_lists\<rparr>))"

section \<open>Registering credentials\<close>

text \<open>The key arrives as a \<open>Jwk\<close>; \<open>serde_json\<close> writes it and reads it back as a value.\<close>

definition credential_handler ::
  "('jwk \<Rightarrow> string + u8 list) \<Rightarrow> (u8 list \<Rightarrow> string + 'json) \<Rightarrow> ('json \<Rightarrow> bool) \<Rightarrow> 's app_state \<Rightarrow> string \<Rightarrow> 'jwk
   \<Rightarrow> ('s, response, api_error) io" where
  "credential_handler to_vec from_slice is_object state issuer public_key =
     ptry (Ret (map_err (bad_request ''invalid_public_jwk'') (from_sum (to_vec public_key)))) (\<lambda>public_key_bytes.
     ptry (Ret (map_err credential_api_error (public_jwk_try_new from_slice is_object public_key_bytes))) (\<lambda>key.
     ptry (pmap_err credential_api_error
             (publish_credential (app_service state) \<lparr>cr_issuer = issuer, cr_public_key = key\<rparr>)) (\<lambda>_.
       Ret (Ok \<lparr>rs_status = 202, rs_headers = [], rs_body = StatusBody ''Credentials stored successfully''\<rparr>))))"

end
