(* ===== verification/Auth.thy ===== *)
theory Auth
  imports Handlers
begin

text \<open>
  Model of \<open>src/src/server/auth/mod.rs\<close>, \<open>src/src/server/auth/errors.rs\<close> and the key
  extractor of \<open>src/src/server/rate_limit.rs\<close>: the middleware that admits a management
  request only with a bearer token signed by a registered issuer. The JWT library and the JSON
  reader are the record \<open>jwt_lib\<close>; the middleware's own clock is an argument that is
  \<open>None\<close> when the system clock is before 1970.
\<close>

section \<open>Errors\<close>

datatype authentication_error =
    IssuerNotFound
  | InternalServer
  | InvalidAuthorizationHeader
  | InvalidClaims
  | JwtError string
  | UnsupportedAlgorithm

fun auth_error_text :: "authentication_error \<Rightarrow> string" where
  "auth_error_text IssuerNotFound = ''Issuer not registered''"
| "auth_error_text InternalServer = ''Internal server error''"
| "auth_error_text InvalidAuthorizationHeader = ''Missing or invalid Authorization header''"
| "auth_error_text InvalidClaims = ''Invalid authentication token''"
| "auth_error_text (JwtError e) = e"
| "auth_error_text UnsupportedAlgorithm = ''Unsupported algorithm''"

fun get_status :: "authentication_error \<Rightarrow> status_code" where
  "get_status InternalServer = 500"
| "get_status _ = 401"

fun get_error_code :: "authentication_error \<Rightarrow> string" where
  "get_error_code IssuerNotFound = ''issuer_not_found''"
| "get_error_code InternalServer = ''internal_error''"
| "get_error_code InvalidAuthorizationHeader = ''invalid_auth_header''"
| "get_error_code InvalidClaims = ''invalid_token''"
| "get_error_code (JwtError _) = ''jwt_error''"
| "get_error_code UnsupportedAlgorithm = ''unsupported_algorithm''"

fun get_error_message :: "authentication_error \<Rightarrow> string" where
  "get_error_message (JwtError _) = ''Invalid authentication token''"
| "get_error_message e = auth_error_text e"

definition auth_api_error :: "authentication_error \<Rightarrow> api_error" where
  "auth_api_error e = api_error_new (get_status e) (get_error_code e) (Some (get_error_message e))"

section \<open>The claims of a management token\<close>

record management_claims =
  mc_iss :: string
  mc_iat :: nat
  mc_nbf :: "nat option"
  mc_exp :: nat

definition validate_policy ::
  "management_claims \<Rightarrow> nat \<Rightarrow> nat \<Rightarrow> nat \<Rightarrow> (unit, authentication_error) outcome" where
  "validate_policy self now leeway_secs max_token_lifetime_secs =
     (if mc_exp self \<le> mc_iat self then Err InvalidClaims
      else if u64_saturating_add now leeway_secs < mc_iat self then Err InvalidClaims
      else if (case mc_nbf self of Some nbf \<Rightarrow> u64_saturating_add now leeway_secs < nbf | None \<Rightarrow> False)
      then Err InvalidClaims
      else obind (ok_or (u64_checked_sub (mc_exp self) (mc_iat self)) InvalidClaims) (\<lambda>lifetime.
        if max_token_lifetime_secs < lifetime then Err InvalidClaims else Ok ()))"

section \<open>The middleware\<close>

text \<open>The settings of a verification; \<open>jl_validation_new\<close> gives the library's defaults.\<close>

record 'alg validation =
  va_algorithm :: 'alg
  va_leeway :: nat
  va_validate_nbf :: bool
  va_iss :: "string list option"
  va_required_spec_claims :: "string list"
  va_aud :: "string list option"
  va_validate_aud :: bool

record ('alg, 'jwk, 'dk) jwt_lib =
  jl_decode_header :: "string \<Rightarrow> string + 'alg"
  jl_insecure_decode_iss :: "string \<Rightarrow> string + string"
  jl_jwk_from_slice :: "u8 list \<Rightarrow> string + 'jwk"
  jl_decoding_key :: "'jwk \<Rightarrow> string + 'dk"
  jl_validation_new :: "'alg \<Rightarrow> 'alg validation"
  jl_decode :: "string \<Rightarrow> 'dk \<Rightarrow> 'alg validation \<Rightarrow> string + management_claims"

definition JWT_REQUIRED_SPEC_CLAIMS :: "string list" where
  "JWT_REQUIRED_SPEC_CLAIMS = [''iss'', ''exp'']"

definition JWT_REQUIRED_SPEC_CLAIMS_WITH_AUDIENCE :: "string list" where
  "JWT_REQUIRED_SPEC_CLAIMS_WITH_AUDIENCE = [''iss'', ''exp'', ''aud'']"

definition bearer_token :: "string option \<Rightarrow> string option" where
  "bearer_token authorization =
     (case authorization of Some a \<Rightarrow> strip_prefix ''Bearer '' a | None \<Rightarrow> None)"

definition auth_validation ::
  "('alg, 'jwk, 'dk) jwt_lib \<Rightarrow> management_auth_config \<Rightarrow> 'alg \<Rightarrow> credential \<Rightarrow> 'alg validation" where
  "auth_validation lib cfg alg credential =
     (let validation = (jl_validation_new lib alg)
            \<lparr>va_leeway := ma_leeway_secs cfg, va_validate_nbf := True, va_iss := Some [cr_issuer credential]\<rparr>
      in if ma_audiences cfg \<noteq> []
         then validation\<lparr>va_required_spec_claims := JWT_REQUIRED_SPEC_CLAIMS_WITH_AUDIENCE,
                         va_aud := Some (ma_audiences cfg)\<rparr>
         else validation\<lparr>va_required_spec_claims := JWT_REQUIRED_SPEC_CLAIMS, va_validate_aud := False\<rparr>)"

text \<open>
  The middleware in three parts: reading the token, looking up the credential of the issuer it
  names, and verifying it against that credential. The result is the principal the middleware
  attaches to the request.
\<close>

definition read_token ::
  "('alg, 'jwk, 'dk) jwt_lib \<Rightarrow> string option \<Rightarrow> (string \<times> 'alg \<times> string, authentication_error) outcome" where
  "read_token lib authorization =
     obind (ok_or (bearer_token authorization) InvalidAuthorizationHeader) (\<lambda>token.
     obind (map_err JwtError (from_sum (jl_decode_header lib token))) (\<lambda>alg.
     obind (map_err JwtError (from_sum (jl_insecure_decode_iss lib token))) (\<lambda>issuer.
       Ok (token, alg, issuer))))"

definition verify_token ::
  "('alg, 'jwk, 'dk) jwt_lib \<Rightarrow> nat option \<Rightarrow> management_auth_config \<Rightarrow> string \<Rightarrow> 'alg \<Rightarrow> credential
   \<Rightarrow> (issuer, authentication_error) outcome" where
  "verify_token lib clock cfg token alg credential =
     obind (map_err (\<lambda>e. InternalServer) (from_sum (jl_jwk_from_slice lib (cr_public_key credential)))) (\<lambda>public_key.
     obind (map_err JwtError (from_sum (jl_decoding_key lib public_key))) (\<lambda>decoding_key.
     obind (map_err JwtError (from_sum (jl_decode lib token decoding_key (auth_validation lib cfg alg credential)))) (\<lambda>claims.
     obind (ok_or clock InternalServer) (\<lambda>now.
     obind (validate_policy claims now (ma_leeway_secs cfg) (ma_max_token_lifetime_secs cfg)) (\<lambda>_.
       Ok (mc_iss claims))))))"

definition authenticate ::
  "('alg, 'jwk, 'dk) jwt_lib \<Rightarrow> nat option \<Rightarrow> 's app_state \<Rightarrow> string option \<Rightarrow> ('s, issuer, authentication_error) io" where
  "authenticate lib clock state authorization =
     ptry (Ret (read_token lib authorization)) (\<lambda>(token, alg, issuer).
     ptry (pmap_err (\<lambda>e. InternalServer) (find_credential (app_service state) issuer)) (\<lambda>found.
     ptry (Ret (ok_or found IssuerNotFound)) (\<lambda>credential.
       Ret (verify_token lib clock (app_management_auth state) token alg credential))))"

text \<open>
  The whole middleware: the rest of the stack runs with the principal among the request's
  extensions and its response is passed through.
\<close>

definition auth ::
  "('alg, 'jwk, 'dk) jwt_lib \<Rightarrow> nat option \<Rightarrow> 's app_state \<Rightarrow> string option
   \<Rightarrow> (issuer option \<Rightarrow> ('s, response, authentication_error) io) \<Rightarrow> ('s, response, authentication_error) io" where
  "auth lib clock state authorization next_run =
     ptry (authenticate lib clock state authorization) (\<lambda>issuer. next_run (Some issuer))"

text \<open>The extractor \<open>AuthenticatedIssuer::from_request_parts\<close> of the protected handlers.\<close>

definition from_request_parts :: "issuer option \<Rightarrow> (issuer, api_error) outcome" where
  "from_request_parts extension =
     ok_or extension
       (api_error_new 401 ''missing_auth_context'' (Some ''Authenticated issuer context is missing''))"

section \<open>The key extractor of the rate limiter\<close>

text \<open>\<open>serde_json::Value\<close>.\<close>

datatype json =
    JsonNull
  | JsonBool bool
  | JsonNumber string
  | JsonString string
  | JsonArray "json list"
  | JsonObject "(string \<times> json) list"

fun json_get :: "string \<Rightarrow> json \<Rightarrow> json option" where
  "json_get key (JsonObject members) = map_of members key"
| "json_get key _ = None"

fun json_as_str :: "json \<Rightarrow> string option" where
  "json_as_str (JsonString s) = Some s"
| "json_as_str _ = None"

definition extract_issuer_from_jwt ::
  "(string \<Rightarrow> string + u8 list) \<Rightarrow> (u8 list \<Rightarrow> string + json) \<Rightarrow> string option \<Rightarrow> string option" where
  "extract_issuer_from_jwt b64_decode json_from_slice authorization =
     (case bearer_token authorization of
        None \<Rightarrow> None
      | Some token \<Rightarrow>
          (case split_on CHR ''.'' token of
             _ # payload # _ \<Rightarrow>
               (case b64_decode payload of
                  Inl _ \<Rightarrow> None
                | Inr decoded \<Rightarrow>
                    (case json_from_slice decoded of
                       Inl _ \<Rightarrow> None
                     | Inr v \<Rightarrow> Option.bind (json_get ''iss'' v) json_as_str))
           | _ \<Rightarrow> None))"

text \<open>The peer address is the text of the connection's IP address, when it is known.\<close>

datatype governor_error = UnableToExtractKey

definition issuer_key_extract ::
  "(string \<Rightarrow> string + u8 list) \<Rightarrow> (u8 list \<Rightarrow> string + json) \<Rightarrow> string option \<Rightarrow> string option
   \<Rightarrow> (string, governor_error) outcome" where
  "issuer_key_extract b64_decode json_from_slice authorization peer_ip =
     (case extract_issuer_from_jwt b64_decode json_from_slice authorization of
        Some issuer \<Rightarrow> Ok issuer
      | None \<Rightarrow> ok_or peer_ip UnableToExtractKey)"

end
