(* ===== verification/Text.thy ===== *)
theory Text
  imports Prelude "HOL-Library.Sublist"
begin

text \<open>
  The string operations of Rust's standard library that the configuration and the storage
  adapters use. A \<open>string\<close> stands for the bytes of a UTF-8 text, one \<open>char\<close> for each byte,
  so white space outside ASCII is recognised by its encoding.
\<close>

section \<open>Trimming\<close>

text \<open>The encodings of the code points with the property \<open>White_Space\<close>.\<close>

definition white_space :: "string list" where
  "white_space =
     [[CHR 0x09], [CHR 0x0A], [CHR 0x0B], [CHR 0x0C], [CHR 0x0D], [CHR 0x20],
      [CHR 0xC2, CHR 0x85], [CHR 0xC2, CHR 0xA0], [CHR 0xE1, CHR 0x9A, CHR 0x80],
      [CHR 0xE2, CHR 0x80, CHR 0x80], [CHR 0xE2, CHR 0x80, CHR 0x81], [CHR 0xE2, CHR 0x80, CHR 0x82],
      [CHR 0xE2, CHR 0x80, CHR 0x83], [CHR 0xE2, CHR 0x80, CHR 0x84], [CHR 0xE2, CHR 0x80, CHR 0x85],
      [CHR 0xE2, CHR 0x80, CHR 0x86], [CHR 0xE2, CHR 0x80, CHR 0x87], [CHR 0xE2, CHR 0x80, CHR 0x88],
      [CHR 0xE2, CHR 0x80, CHR 0x89], [CHR 0xE2, CHR 0x80, CHR 0x8A], [CHR 0xE2, CHR 0x80, CHR 0xA8],
      [CHR 0xE2, CHR 0x80, CHR 0xA9], [CHR 0xE2, CHR 0x80, CHR 0xAF], [CHR 0xE2, CHR 0x81, CHR 0x9F],
      [CHR 0xE3, CHR 0x80, CHR 0x80]]"

function strip_all :: "string list \<Rightarrow> string \<Rightarrow> string" where
  "strip_all ws s =
     (case find (\<lambda>w. w \<noteq> [] \<and> prefix w s) ws of
        Some w \<Rightarrow> strip_all ws (drop (length w) s)
      | None \<Rightarrow> s)"
  by auto
termination
  by (relation "measure (\<lambda>(ws, s). length s)") (auto simp: find_Some_iff prefix_def)

declare strip_all.simps [simp del]

definition str_trim_start :: "string \<Rightarrow> string" where
  "str_trim_start s = strip_all white_space s"

definition str_trim_end :: "string \<Rightarrow> string" where
  "str_trim_end s = rev (strip_all (map rev white_space) (rev s))"

definition str_trim :: "string \<Rightarrow> string" where
  "str_trim s = str_trim_end (str_trim_start s)"

definition trim_start_matches :: "char \<Rightarrow> string \<Rightarrow> string" where
  "trim_start_matches c s = dropWhile (\<lambda>d. d = c) s"

definition trim_end_matches :: "char \<Rightarrow> string \<Rightarrow> string" where
  "trim_end_matches c s = rev (dropWhile (\<lambda>d. d = c) (rev s))"

section \<open>Searching\<close>

definition starts_with :: "string \<Rightarrow> string \<Rightarrow> bool" where
  "starts_with p s \<longleftrightarrow> prefix p s"

definition ends_with :: "string \<Rightarrow> string \<Rightarrow> bool" where
  "ends_with p s \<longleftrightarrow> suffix p s"

definition contains :: "string \<Rightarrow> string \<Rightarrow> bool" where
  "contains p s \<longleftrightarrow> list_ex (prefix p) (suffixes s)"

definition strip_suffix :: "string \<Rightarrow> string \<Rightarrow> string option" where
  "strip_suffix p s = (if suffix p s then Some (take (length s - length p) s) else None)"

definition has_white_space :: "string \<Rightarrow> bool" where
  "has_white_space s \<longleftrightarrow> list_ex (\<lambda>w. contains w s) white_space"

fun str_join :: "string \<Rightarrow> string list \<Rightarrow> string" where
  "str_join sep [] = []"
| "str_join sep [p] = p"
| "str_join sep (p # q # ps) = p @ sep @ str_join sep (q # ps)"

section \<open>Well-formed UTF-8\<close>

text \<open>The check of \<open>String::from_utf8\<close>: no overlong forms, no surrogates, nothing above U+10FFFF.\<close>

definition byte_in :: "nat \<Rightarrow> nat \<Rightarrow> char \<Rightarrow> bool" where
  "byte_in lo hi c \<longleftrightarrow> lo \<le> of_char c \<and> of_char c \<le> hi"

fun utf8_valid :: "string \<Rightarrow> bool" where
  "utf8_valid [] = True"
| "utf8_valid (a # s) =
     (if byte_in 0 0x7F a then utf8_valid s
      else case s of
        [] \<Rightarrow> False
      | b # t \<Rightarrow>
          if byte_in 0xC2 0xDF a then byte_in 0x80 0xBF b \<and> utf8_valid t
          else case t of
            [] \<Rightarrow> False
          | c # u \<Rightarrow>
              if byte_in 0xE0 0xEF a
              then byte_in (if a = CHR 0xE0 then 0xA0 else 0x80) (if a = CHR 0xED then 0x9F else 0xBF) b
                   \<and> byte_in 0x80 0xBF c \<and> utf8_valid u
              else case u of
                [] \<Rightarrow> False
              | d # v \<Rightarrow>
                  byte_in 0xF0 0xF4 a
                  \<and> byte_in (if a = CHR 0xF0 then 0x90 else 0x80) (if a = CHR 0xF4 then 0x8F else 0xBF) b
                  \<and> byte_in 0x80 0xBF c \<and> byte_in 0x80 0xBF d \<and> utf8_valid v)"

section \<open>ASCII\<close>

definition is_ascii_digit :: "char \<Rightarrow> bool" where
  "is_ascii_digit c \<longleftrightarrow> (48 :: nat) \<le> of_char c \<and> of_char c \<le> (57 :: nat)"

definition is_ascii_upper :: "char \<Rightarrow> bool" where
  "is_ascii_upper c \<longleftrightarrow> (65 :: nat) \<le> of_char c \<and> of_char c \<le> (90 :: nat)"

definition is_ascii_lower :: "char \<Rightarrow> bool" where
  "is_ascii_lower c \<longleftrightarrow> (97 :: nat) \<le> of_char c \<and> of_char c \<le> (122 :: nat)"

definition is_ascii_alphanumeric :: "char \<Rightarrow> bool" where
  "is_ascii_alphanumeric c \<longleftrightarrow> is_ascii_digit c \<or> is_ascii_upper c \<or> is_ascii_lower c"

definition to_ascii_lowercase :: "string \<Rightarrow> string" where
  "to_ascii_lowercase s = map (\<lambda>c. if is_ascii_upper c then char_of ((of_char c :: nat) + 32) else c) s"

definition apostrophe :: char where "apostrophe = CHR 0x27"

definition quoted :: "string \<Rightarrow> string" where
  "quoted s = [apostrophe] @ s @ [apostrophe]"

section \<open>Internet addresses\<close>

text \<open>
  The parser behind \<open>str::parse::<Ipv6Addr>\<close>, reduced to whether it accepts: each reader
  gives the rest of the input, or \<open>None\<close> and leaves its caller where it was.
\<close>

definition digit_value :: "char \<Rightarrow> nat" where
  "digit_value c =
     (if is_ascii_digit c then of_char c - 48
      else if is_ascii_lower c then of_char c - 87
      else if is_ascii_upper c then of_char c - 55
      else 36)"

definition read_number :: "nat \<Rightarrow> nat \<Rightarrow> nat \<Rightarrow> bool \<Rightarrow> string \<Rightarrow> string option" where
  "read_number radix max_digits bound allow_zero_prefix s =
     (let ds = takeWhile (\<lambda>c. digit_value c < radix) s;
          result = foldl (\<lambda>n c. n * radix + digit_value c) 0 ds
      in if length ds = 0 \<or> max_digits < length ds then None
         else if bound \<le> result then None
         else if \<not> allow_zero_prefix \<and> hd ds = CHR ''0'' \<and> 1 < length ds then None
         else Some (drop (length ds) s))"

fun read_given_char :: "char \<Rightarrow> string \<Rightarrow> string option" where
  "read_given_char c (d # s) = (if c = d then Some s else None)"
| "read_given_char c [] = None"

definition read_separator :: "char \<Rightarrow> nat \<Rightarrow> (string \<Rightarrow> string option) \<Rightarrow> string \<Rightarrow> string option" where
  "read_separator sep i inner s =
     (if 0 < i then Option.bind (read_given_char sep s) inner else inner s)"

definition read_octet :: "nat \<Rightarrow> string \<Rightarrow> string option" where
  "read_octet i = read_separator CHR ''.'' i (read_number 10 3 256 False)"

definition read_ipv4_addr :: "string \<Rightarrow> string option" where
  "read_ipv4_addr s =
     Option.bind (read_octet 0 s) (\<lambda>s. Option.bind (read_octet 1 s) (\<lambda>s.
     Option.bind (read_octet 2 s) (read_octet 3)))"

text \<open>The number of groups read, whether the last two were an embedded IPv4 address, and the rest.\<close>

function read_groups :: "nat \<Rightarrow> nat \<Rightarrow> string \<Rightarrow> nat \<times> bool \<times> string" where
  "read_groups limit i s =
     (if limit \<le> i then (limit, False, s)
      else case (if i < limit - 1 then read_separator CHR '':'' i read_ipv4_addr s else None) of
        Some rest \<Rightarrow> (i + 2, True, rest)
      | None \<Rightarrow>
          (case read_separator CHR '':'' i (read_number 16 4 65536 True) s of
             Some rest \<Rightarrow> read_groups limit (i + 1) rest
           | None \<Rightarrow> (i, False, s)))"
  by auto
termination
  by (relation "measure (\<lambda>(limit, i, s). limit - i)") auto

declare read_groups.simps [simp del]

definition is_ipv6 :: "string \<Rightarrow> bool" where
  "is_ipv6 s =
     (let (head_size, head_ipv4, rest) = read_groups 8 0 s
      in if head_size = 8 then rest = []
         else if head_ipv4 then False
         else case rest of
           c # d # rest' \<Rightarrow>
             c = CHR '':'' \<and> d = CHR '':'' \<and>
               (let (_, _, left) = read_groups (8 - (head_size + 1)) 0 rest' in left = [])
         | _ \<Rightarrow> False)"

text \<open>An address is written with hexadecimal digits, colons and dots only.\<close>

definition ip_char :: "char \<Rightarrow> bool" where
  "ip_char c \<longleftrightarrow> digit_value c < 16 \<or> c = CHR '':'' \<or> c = CHR ''.''"

definition consumes :: "(string \<Rightarrow> string option) \<Rightarrow> bool" where
  "consumes r \<longleftrightarrow> (\<forall>s rest. r s = Some rest \<longrightarrow> (\<exists>u. s = u @ rest \<and> list_all ip_char u))"

lemma consumesD: "consumes r \<Longrightarrow> r s = Some rest \<Longrightarrow> \<exists>u. s = u @ rest \<and> list_all ip_char u"
  by (auto simp: consumes_def)

lemma consumes_read_number: "radix \<le> 16 \<Longrightarrow> consumes (read_number radix m b z)"
  unfolding consumes_def
proof (intro allI impI)
  fix s rest
  let ?d = "\<lambda>c. digit_value c < radix"
  assume "radix \<le> 16" and "read_number radix m b z s = Some rest"
  then have "rest = drop (length (takeWhile ?d s)) s" by (auto simp: read_number_def Let_def split: if_splits)
  then have "s = takeWhile ?d s @ rest" by (simp flip: dropWhile_eq_drop)
  moreover have "list_all ip_char (takeWhile ?d s)"
  proof -
    have "ip_char c" if "c \<in> set (takeWhile ?d s)" for c
      using set_takeWhileD [OF that] \<open>radix \<le> 16\<close> by (simp add: ip_char_def)
    then show ?thesis by (simp add: list_all_iff)
  qed
  ultimately show "\<exists>u. s = u @ rest \<and> list_all ip_char u" by blast
qed

lemma consumes_given_char: "ip_char c \<Longrightarrow> consumes (read_given_char c)"
  unfolding consumes_def
proof (intro allI impI)
  fix s rest
  assume "ip_char c" "read_given_char c s = Some rest"
  then show "\<exists>u. s = u @ rest \<and> list_all ip_char u"
    by (cases s) (auto split: if_splits intro: exI [of _ "[c]"])
qed

lemma consumes_bind:
  assumes "consumes a" and "consumes b"
  shows "consumes (\<lambda>s. Option.bind (a s) b)"
  unfolding consumes_def
proof (intro allI impI)
  fix s rest
  assume "Option.bind (a s) b = Some rest"
  then obtain t where "a s = Some t" "b t = Some rest" by (auto simp: bind_eq_Some_conv)
  with assms obtain u v where "s = u @ t" "list_all ip_char u" "t = v @ rest" "list_all ip_char v"
    by (meson consumesD)
  then show "\<exists>u. s = u @ rest \<and> list_all ip_char u" by (intro exI [of _ "u @ v"]) simp
qed

lemma consumes_separator: "ip_char sep \<Longrightarrow> consumes inner \<Longrightarrow> consumes (read_separator sep i inner)"
  using consumes_bind [OF consumes_given_char] by (cases "0 < i") (simp_all add: read_separator_def [abs_def])

lemma consumes_ipv4: "consumes read_ipv4_addr"
proof -
  have "consumes (read_octet i)" for i
    unfolding read_octet_def by (intro consumes_separator consumes_read_number) (auto simp: ip_char_def)
  then show ?thesis unfolding read_ipv4_addr_def [abs_def] by (intro consumes_bind) simp_all
qed

lemma read_groups_chars:
  assumes "read_groups limit i s = (n, v4, rest)"
  shows "\<exists>u. s = u @ rest \<and> list_all ip_char u"
  using assms
proof (induction limit i s rule: read_groups.induct)
  case (1 limit i s)
  have colon: "ip_char CHR '':''" by (simp add: ip_char_def)
  note c4 = consumesD [OF consumes_separator [OF colon consumes_ipv4]]
  note c16 = consumesD [OF consumes_separator [OF colon consumes_read_number]]
  show ?case
  proof (cases "limit \<le> i")
    case True
    then show ?thesis using 1(2) by (simp add: read_groups.simps)
  next
    case False
    show ?thesis
    proof (cases "if i < limit - 1 then read_separator CHR '':'' i read_ipv4_addr s else None")
      case (Some t)
      then show ?thesis using 1(2) False c4 [of i s t] by (subst (asm) read_groups.simps) (auto split: if_splits)
    next
      case None
      show ?thesis
      proof (cases "read_separator CHR '':'' i (read_number 16 4 65536 True) s")
        case None2: None
        then show ?thesis using 1(2) False None by (subst (asm) read_groups.simps) simp
      next
        case (Some t)
        then have "read_groups limit (i + 1) t = (n, v4, rest)"
          using 1(2) False None by (subst (asm) read_groups.simps) simp
        from 1(1) [OF False None Some this] obtain v where "t = v @ rest" "list_all ip_char v" by blast
        moreover obtain u where "s = u @ t" "list_all ip_char u" using c16 [OF _ Some] by auto
        ultimately show ?thesis by (intro exI [of _ "u @ v"]) simp
      qed
    qed
  qed
qed

lemma is_ipv6_chars:
  assumes "is_ipv6 s"
  shows "list_all ip_char s"
proof -
  obtain n v4 rest where g: "read_groups 8 0 s = (n, v4, rest)" by (metis prod_cases3)
  obtain u where u: "s = u @ rest" "list_all ip_char u" using read_groups_chars [OF g] by blast
  show ?thesis
  proof (cases "n = 8")
    case True
    then show ?thesis using assms g u by (simp add: is_ipv6_def)
  next
    case False
    then obtain rest' where r: "rest = CHR '':'' # CHR '':'' # rest'"
      and l: "snd (snd (read_groups (8 - (n + 1)) 0 rest')) = []"
      using assms g by (auto simp: is_ipv6_def case_prod_beta Let_def split: list.splits if_splits)
    obtain m w where "read_groups (8 - (n + 1)) 0 rest' = (m, w, [])" using l by (metis prod.collapse)
    from read_groups_chars [OF this] have "list_all ip_char rest'" by simp
    then show ?thesis using u r by (simp add: ip_char_def)
  qed
qed

end
