(* ===== verification/Health.thy ===== *)
theory Health
  imports Api_Error Http_Conditional Text
begin

text \<open>
  Model of \<open>src/src/server/health.rs\<close>: the liveness and readiness endpoints, the aggregator
  of readiness checks with its cached report, and the checks. What a check finds when it runs
  (the answer of the database, a timeout, a panic of its task) is an input of the probe, and so
  is the order in which the concurrent checks finish. Times are nanoseconds of the monotonic
  clock.
\<close>

section \<open>Checks and reports\<close>

text \<open>How the spawned task of a check ends: with the check's result, with a timeout, or not at all.\<close>

datatype check_run = CheckDone "string + unit" | CheckTimedOut | CheckTaskFailed string

record readiness_check =
  rc_name :: string
  rc_run :: check_run

record check_result =
  chk_name :: string
  chk_ok :: bool
  chk_reason :: "string option"

record readiness_report =
  rep_ready :: bool
  rep_checks :: "check_result list"

record cached_readiness_report =
  crr_report :: readiness_report
  crr_checked_at :: nat

record readiness =
  rd_checks :: "string list"
  rd_cache :: "cached_readiness_report option"

definition CHECK_TIMEOUT :: nat where "CHECK_TIMEOUT = 5000000000"
definition READINESS_CACHE_TTL :: nat where "READINESS_CACHE_TTL = 1000000000"

definition readiness_new :: "string list \<Rightarrow> readiness" where
  "readiness_new names = \<lparr>rd_checks = names, rd_cache = None\<rparr>"

definition with_check :: "readiness \<Rightarrow> string \<Rightarrow> readiness" where
  "with_check self name = self\<lparr>rd_checks := rd_checks self @ [name], rd_cache := None\<rparr>"

fun check_result_of :: "string \<Rightarrow> check_run \<Rightarrow> check_result" where
  "check_result_of name (CheckDone (Inr u)) = \<lparr>chk_name = name, chk_ok = True, chk_reason = None\<rparr>"
| "check_result_of name (CheckDone (Inl e)) = \<lparr>chk_name = name, chk_ok = False, chk_reason = Some e\<rparr>"
| "check_result_of name CheckTimedOut =
     \<lparr>chk_name = name, chk_ok = False, chk_reason = Some ''readiness check timed out''\<rparr>"
| "check_result_of name (CheckTaskFailed err) =
     \<lparr>chk_name = ''readiness_check_task'', chk_ok = False,
      chk_reason = Some (''readiness check task failed: '' @ err)\<rparr>"

text \<open>
  \<open>joined\<close> lists the checks in the order their tasks finish; \<open>started\<close> and \<open>finished\<close> are
  the readings of the clock before and after the checks ran.
\<close>

definition fresh_report :: "readiness \<Rightarrow> readiness_check list \<Rightarrow> readiness_report" where
  "fresh_report self joined =
     (let checks = map (\<lambda>c. check_result_of (rc_name c) (rc_run c)) joined
      in \<lparr>rep_ready = (length checks = length (rd_checks self) \<and> list_all chk_ok checks), rep_checks = checks\<rparr>)"

definition readiness_run ::
  "readiness_check list \<Rightarrow> nat \<Rightarrow> nat \<Rightarrow> readiness \<Rightarrow> readiness_report \<times> readiness" where
  "readiness_run joined started finished self =
     (case rd_cache self of
        Some cached_report \<Rightarrow>
          if started - crr_checked_at cached_report < READINESS_CACHE_TTL
          then (crr_report cached_report, self)
          else (let report = fresh_report self joined
                in (report, self\<lparr>rd_cache := Some \<lparr>crr_report = report, crr_checked_at = finished\<rparr>\<rparr>))
      | None \<Rightarrow>
          (let report = fresh_report self joined
           in (report, self\<lparr>rd_cache := Some \<lparr>crr_report = report, crr_checked_at = finished\<rparr>\<rparr>)))"

section \<open>Endpoints\<close>

definition live :: response where
  "live = \<lparr>rs_status = 200, rs_headers = [], rs_body = TextBody ''OK''\<rparr>"

definition readiness_response :: "readiness_report \<Rightarrow> response" where
  "readiness_response report =
     (if rep_ready report then \<lparr>rs_status = 200, rs_headers = [], rs_body = TextBody ''READY''\<rparr>
      else \<lparr>rs_status = 503, rs_headers = [], rs_body = TextBody ''NOT_READY''\<rparr>)"

definition ready :: "readiness_check list \<Rightarrow> nat \<Rightarrow> nat \<Rightarrow> readiness \<Rightarrow> response \<times> readiness" where
  "ready joined started finished self = map_prod readiness_response id (readiness_run joined started finished self)"

section \<open>The checks\<close>

definition always_ready_check :: "string + unit" where
  "always_ready_check = Inr ()"

definition db_check :: "string + unit \<Rightarrow> string + unit" where
  "db_check ping = (case ping of Inr u \<Rightarrow> Inr () | Inl e \<Rightarrow> Inl (''database unreachable: '' @ e))"

text \<open>The configured store, or why there is none, and whether it answers.\<close>

definition cert_store_check :: "string + 'store \<Rightarrow> ('store \<Rightarrow> string + unit) \<Rightarrow> string + unit" where
  "cert_store_check crypto_storage reachable =
     (case crypto_storage of
        Inl e \<Rightarrow> Inl (''cryptographic-material backend not configured: '' @ e)
      | Inr store \<Rightarrow>
          (case reachable store of
             Inl e \<Rightarrow> Inl (''cryptographic-material backend unreachable: '' @ e)
           | Inr u \<Rightarrow> Inr ()))"

definition kept_path :: "string option \<Rightarrow> string option" where
  "kept_path path = (case path of Some p \<Rightarrow> if str_trim p \<noteq> [] then Some p else None | None \<Rightarrow> None)"

text \<open>The file system answers \<open>metadata\<close> and opening for reading.\<close>

record file_system =
  fs_metadata :: "string \<Rightarrow> string + unit"
  fs_open_read :: "string \<Rightarrow> string + unit"

fun check_paths :: "file_system \<Rightarrow> string list \<Rightarrow> string + unit" where
  "check_paths fs [] = Inr ()"
| "check_paths fs (path # paths) =
     (case fs_metadata fs path of
        Inl e \<Rightarrow> Inl (''cert store file '' @ quoted path @ '' unavailable: '' @ e)
      | Inr u \<Rightarrow>
          (case fs_open_read fs path of
             Inl e \<Rightarrow> Inl (''cert store file '' @ quoted path @ '' not readable: '' @ e)
           | Inr u' \<Rightarrow> check_paths fs paths))"

definition filesystem_cert_check :: "file_system \<Rightarrow> string option \<Rightarrow> string option \<Rightarrow> string + unit" where
  "filesystem_cert_check fs cert_path key_path =
     check_paths fs (List.map_filter kept_path [cert_path, key_path])"


section \<open>What the readiness endpoint promises\<close>

text \<open>
  The probe holds the lock of its cache while it runs, so probes follow one another. A history
  is the list of probes with what their checks would find; \<open>clocked\<close> says that the monotonic
  clock does not run backwards.
\<close>

type_synonym probe = "readiness_check list \<times> nat \<times> nat"

fun probes :: "probe list \<Rightarrow> readiness \<Rightarrow> readiness_report list" where
  "probes [] rd = []"
| "probes ((joined, started, finished) # ps) rd =
     (let (report, rd') = readiness_run joined started finished rd in report # probes ps rd')"

fun clocked :: "nat \<Rightarrow> probe list \<Rightarrow> bool" where
  "clocked t [] = True"
| "clocked t ((joined, started, finished) # ps) = (t \<le> started \<and> started \<le> finished \<and> clocked finished ps)"

definition all_passed :: "string list \<Rightarrow> readiness_check list \<Rightarrow> bool" where
  "all_passed names joined \<longleftrightarrow>
     length joined = length names \<and> (\<forall>c \<in> set joined. \<exists>u. rc_run c = CheckDone (Inr u))"

text \<open>A report a probe may give at time \<open>t\<close>: that of a probe that ended less than one second before.\<close>

definition recent :: "string list \<Rightarrow> probe list \<Rightarrow> nat \<Rightarrow> readiness_report \<Rightarrow> bool" where
  "recent names ps t report \<longleftrightarrow>
     (\<exists>(joined, started, finished) \<in> set ps. t < finished + READINESS_CACHE_TTL
        \<and> report = fresh_report (readiness_new names) joined)"

lemma chk_ok_iff [simp]: "chk_ok (check_result_of n r) \<longleftrightarrow> (\<exists>u. r = CheckDone (Inr u))"
  by (induction n r rule: check_result_of.induct) auto

lemma fresh_ready_iff: "rep_ready (fresh_report (readiness_new names) joined) \<longleftrightarrow> all_passed names joined"
  by (auto simp: fresh_report_def all_passed_def readiness_new_def list_all_iff)

lemma fresh_report_cache [simp]: "fresh_report (rd\<lparr>rd_cache := c\<rparr>) joined = fresh_report rd joined"
  by (simp add: fresh_report_def)

text \<open>The cache of a running server: filled by an earlier probe, or empty.\<close>

definition cache_of_probe :: "string list \<Rightarrow> probe list \<Rightarrow> nat \<Rightarrow> readiness \<Rightarrow> bool" where
  "cache_of_probe names past now rd \<longleftrightarrow> rd_checks rd = names \<and>
     (\<forall>c. rd_cache rd = Some c \<longrightarrow> crr_checked_at c \<le> now \<and>
        (\<exists>joined started. (joined, started, crr_checked_at c) \<in> set past
           \<and> crr_report c = fresh_report (readiness_new names) joined))"

lemma readiness_run_step:
  assumes "cache_of_probe names past now rd" and "now \<le> started" "started \<le> finished"
    and "readiness_run joined started finished rd = (report, rd')"
  shows "report = fresh_report (readiness_new names) joined \<or> recent names past started report"
    and "cache_of_probe names (past @ [(joined, started, finished)]) finished rd'"
proof -
  have fresh: "fresh_report rd joined = fresh_report (readiness_new names) joined"
    using assms(1) by (simp add: cache_of_probe_def fresh_report_def readiness_new_def)
  show "report = fresh_report (readiness_new names) joined \<or> recent names past started report"
    using assms fresh
    by (fastforce simp: readiness_run_def cache_of_probe_def recent_def Let_def split: option.splits if_splits)
  show "cache_of_probe names (past @ [(joined, started, finished)]) finished rd'"
    using assms fresh
    by (fastforce simp: readiness_run_def cache_of_probe_def Let_def split: option.splits if_splits)
qed

lemma probes_recent:
  assumes "cache_of_probe names past now rd" and "clocked now ps" and "i < length ps"
  shows "\<exists>joined started finished. ps ! i = (joined, started, finished) \<and>
     (probes ps rd ! i = fresh_report (readiness_new names) joined
      \<or> recent names (past @ take i ps) started (probes ps rd ! i))"
  using assms
proof (induction ps arbitrary: past now rd i)
  case (Cons p ps)
  obtain joined started finished where p: "p = (joined, started, finished)" by (cases p) auto
  obtain report rd' where run: "readiness_run joined started finished rd = (report, rd')" by fastforce
  from Cons.prems p have clock: "now \<le> started" "started \<le> finished" "clocked finished ps" by auto
  note step = readiness_run_step [OF Cons.prems(1) clock(1,2) run]
  show ?case
  proof (cases i)
    case 0
    then show ?thesis using step(1) p run by simp
  next
    case (Suc j)
    then show ?thesis using Cons.IH [OF step(2) clock(3), of j] Cons.prems(3) p run by simp
  qed
qed simp

text \<open>
  C36. Every answer of the readiness endpoint is current: it is the report of the checks run for
  this very request, or of the checks of an earlier request that finished less than one second
  before this one started. Such a report is \<open>READY\<close> with status 200 exactly when as many
  checks ended as are registered and every one of them passed: a check that fails, runs into its
  timeout or dies with a panic makes it \<open>NOT_READY\<close> with status 503.
\<close>

theorem readiness_answers_are_current:
  assumes "clocked t ps" and "i < length ps"
  shows "\<exists>j joined started finished. j \<le> i \<and> ps ! j = (joined, started, finished)
     \<and> (j = i \<or> fst (snd (ps ! i)) < finished + READINESS_CACHE_TTL)
     \<and> (let response = readiness_response (probes ps (readiness_new names) ! i)
        in (rs_status response, rs_body response) =
             (if all_passed names joined then (200, TextBody ''READY'') else (503, TextBody ''NOT_READY'')))"
proof -
  let ?report = "probes ps (readiness_new names) ! i"
  have start: "cache_of_probe names [] t (readiness_new names)"
    by (simp add: cache_of_probe_def readiness_new_def)
  have response: "(rs_status (readiness_response r), rs_body (readiness_response r)) =
      (if all_passed names joined then (200, TextBody ''READY'') else (503, TextBody ''NOT_READY''))"
    if "r = fresh_report (readiness_new names) joined" for r joined
    using that by (simp add: readiness_response_def fresh_ready_iff)
  obtain joined started finished where i: "ps ! i = (joined, started, finished)"
    and c: "?report = fresh_report (readiness_new names) joined \<or> recent names (take i ps) started ?report"
    using probes_recent [OF start assms] by auto
  from c show ?thesis
  proof
    assume "?report = fresh_report (readiness_new names) joined"
    then show ?thesis using i response by (intro exI [of _ i]) (simp add: Let_def)
  next
    assume "recent names (take i ps) started ?report"
    then obtain joined' started' finished' where q: "(joined', started', finished') \<in> set (take i ps)"
      "started < finished' + READINESS_CACHE_TTL" "?report = fresh_report (readiness_new names) joined'"
      by (auto simp: recent_def)
    then obtain j where "j < i" "ps ! j = (joined', started', finished')"
      by (auto simp: in_set_conv_nth)
    then show ?thesis using q(2) i response [OF q(3)]
      by (intro exI [of _ j] exI [of _ joined'] exI [of _ started'] exI [of _ finished']) (simp add: Let_def)
  qed
qed

definition sample_probes :: "probe list" where
  "sample_probes =
     (let up = \<lparr>rc_name = ''database'', rc_run = CheckDone (Inr ())\<rparr>;
          down = \<lparr>rc_name = ''database'', rc_run = CheckTimedOut\<rparr>
      in [([up], 0, 5), ([down], 1000, 1005), ([down], 2000000000, 2000000005)])"

theorem readiness_answers_are_current_witness:
  "clocked 0 sample_probes \<and> map rep_ready (probes sample_probes (readiness_new [''database''])) = [True, True, False]
   \<and> (\<exists>j joined started finished. j \<le> 1 \<and> sample_probes ! j = (joined, started, finished)
        \<and> (j = 1 \<or> fst (snd (sample_probes ! 1)) < finished + READINESS_CACHE_TTL)
        \<and> (let response = readiness_response (probes sample_probes (readiness_new [''database'']) ! 1)
           in (rs_status response, rs_body response) =
                (if all_passed [''database''] joined then (200, TextBody ''READY'') else (503, TextBody ''NOT_READY''))))"
proof -
  have c: "clocked 0 sample_probes" "1 < length sample_probes" by (simp_all add: sample_probes_def Let_def)
  have "map rep_ready (probes sample_probes (readiness_new [''database''])) = [True, True, False]"
    by (simp add: sample_probes_def readiness_run_def fresh_report_def readiness_new_def READINESS_CACHE_TTL_def Let_def)
  then show ?thesis using readiness_answers_are_current [OF c, of "[''database'']"] c(1) by blast
qed

end
