(* ===== verification/Router.thy ===== *)
theory Router
  imports Auth Health
begin

text \<open>
  Model of the router of \<open>src/src/startup.rs\<close>: which handler answers a request, behind which
  layers. A request comes as its method, the segments of its path and what the framework's
  extractors make of its query and body. The framework's own answers, the verdicts of the rate
  limiters and the readiness probe are inputs; CORS, tracing, request metrics and the body limit
  wrap the router from outside and are left out. The answer to a method a route has no handler
  for is the framework's, whichever of the route's layers it lets see the request first.
\<close>

datatype http_method = GET | HEAD | POST | PUT | PATCH | OTHER string

record 'jwk http_request =
  hr_method :: http_method
  hr_path :: "string list"
  hr_query :: "string + int option"
  hr_headers :: request_headers
  hr_statuses :: "response + request_entry list"
  hr_credentials :: "response + string \<times> 'jwk"

record framework =
  fw_not_found :: response
  fw_method_not_allowed :: response
  fw_panicked :: response

text \<open>A rate limiter that refuses a request answers in its place.\<close>

record governors =
  gv_strict :: "response option"
  gv_issuer :: "response option"
  gv_permissive :: "response option"

record ('sk, 'ek, 'alg, 'jwk, 'dk, 'json) surroundings =
  su_env :: "('sk, 'ek) http_env"
  su_jwt :: "('alg, 'jwk, 'dk) jwt_lib"
  su_clock :: "nat option"
  su_jwk_to_vec :: "'jwk \<Rightarrow> string + u8 list"
  su_json_from_slice :: "u8 list \<Rightarrow> string + 'json"
  su_json_is_object :: "'json \<Rightarrow> bool"
  su_framework :: framework
  su_governors :: governors
  su_ready :: response
  su_metrics :: "response option"

definition into_response :: "('e \<Rightarrow> api_error) \<Rightarrow> ('s, response, 'e) io \<Rightarrow> ('s, response, 'f) io" where
  "into_response to_api_error p =
     pbind p (\<lambda>r. Ret (case r of
       Ok resp \<Rightarrow> Ok resp | Err e \<Rightarrow> Ok (api_error_into_response (to_api_error e)) | Panic \<Rightarrow> Panic))"

definition governed :: "response option \<Rightarrow> ('s, response, 'e) io \<Rightarrow> ('s, response, 'e) io" where
  "governed verdict p = (case verdict of Some refusal \<Rightarrow> Ret (Ok refusal) | None \<Rightarrow> p)"

text \<open>The extractors of a protected handler in their order, then the handler.\<close>

definition with_principal ::
  "issuer option \<Rightarrow> response + request_entry list
   \<Rightarrow> (issuer \<Rightarrow> request_entry list \<Rightarrow> ('s, response, api_error) io) \<Rightarrow> ('s, response, 'e) io" where
  "with_principal extension statuses handler =
     into_response id
       (ptry (Ret (from_request_parts extension)) (\<lambda>principal_issuer.
          case statuses of Inl rejection \<Rightarrow> Ret (Ok rejection) | Inr entries \<Rightarrow> handler principal_issuer entries))"

definition protected_route ::
  "('sk, 'ek, 'alg, 'jwk, 'dk, 'json) surroundings \<Rightarrow> 's app_state \<Rightarrow> 'jwk http_request
   \<Rightarrow> (issuer \<Rightarrow> request_entry list \<Rightarrow> ('s, response, api_error) io) \<Rightarrow> ('s, response, unit) io" where
  "protected_route su state req handler =
     into_response auth_api_error
       (auth (su_jwt su) (su_clock su) state (rq_authorization (hr_headers req)) (\<lambda>extension.
          with_principal extension (hr_statuses req) handler))"

text \<open>The method router of \<open>get\<close> also answers \<open>HEAD\<close>, without the body.\<close>

definition without_body :: "('s, response, 'e) io \<Rightarrow> ('s, response, 'e) io" where
  "without_body p = pbind p (\<lambda>r. Ret (omap (\<lambda>resp. resp\<lparr>rs_body := EmptyBody\<rparr>) r))"

definition method_get ::
  "('sk, 'ek, 'alg, 'jwk, 'dk, 'json) surroundings \<Rightarrow> http_method \<Rightarrow> ('s, response, 'e) io \<Rightarrow> ('s, response, 'e) io" where
  "method_get su meth p =
     (case meth of
        GET \<Rightarrow> p | HEAD \<Rightarrow> without_body p | _ \<Rightarrow> Ret (Ok (fw_method_not_allowed (su_framework su))))"

definition register_credentials ::
  "('sk, 'ek, 'alg, 'jwk, 'dk, 'json) surroundings \<Rightarrow> 's app_state \<Rightarrow> 'jwk http_request \<Rightarrow> ('s, response, unit) io" where
  "register_credentials su state req =
     (case hr_credentials req of
        Inl rejection \<Rightarrow> Ret (Ok rejection)
      | Inr (issuer, public_key) \<Rightarrow>
          into_response id
            (credential_handler (su_jwk_to_vec su) (su_json_from_slice su) (su_json_is_object su) state issuer public_key))"

definition statuses_route ::
  "('sk, 'ek, 'alg, 'jwk, 'dk, 'json) surroundings \<Rightarrow> 's app_state \<Rightarrow> 'jwk http_request \<Rightarrow> string
   \<Rightarrow> ('s, response, unit) io" where
  "statuses_route su state req list_id =
     governed (gv_issuer (su_governors su))
       (case hr_method req of
          PUT \<Rightarrow> protected_route su state req (\<lambda>p. publish_status (su_env su) state p list_id)
        | PATCH \<Rightarrow> protected_route su state req (\<lambda>p. update_status (su_env su) state p list_id)
        | _ \<Rightarrow> Ret (Ok (fw_method_not_allowed (su_framework su))))"

definition status_list_route ::
  "('sk, 'ek, 'alg, 'jwk, 'dk, 'json) surroundings \<Rightarrow> 's app_state \<Rightarrow> 'jwk http_request \<Rightarrow> string
   \<Rightarrow> ('s, response, unit) io" where
  "status_list_route su state req list_id =
     governed (gv_permissive (su_governors su))
       (method_get su (hr_method req)
          (into_response id
             (get_status_list_handler (su_env su) state list_id (hr_query req) (hr_headers req))))"

definition aggregation_route ::
  "('sk, 'ek, 'alg, 'jwk, 'dk, 'json) surroundings \<Rightarrow> 's app_state \<Rightarrow> 'jwk http_request \<Rightarrow> ('s, response, unit) io" where
  "aggregation_route su state req =
     governed (gv_permissive (su_governors su))
       (method_get su (hr_method req) (into_response id (get_aggregation state)))"

definition credentials_route ::
  "('sk, 'ek, 'alg, 'jwk, 'dk, 'json) surroundings \<Rightarrow> 's app_state \<Rightarrow> 'jwk http_request \<Rightarrow> ('s, response, unit) io" where
  "credentials_route su state req =
     governed (gv_strict (su_governors su))
       (case hr_method req of
          POST \<Rightarrow> register_credentials su state req
        | _ \<Rightarrow> Ret (Ok (fw_method_not_allowed (su_framework su))))"

definition api_v1_routes ::
  "('sk, 'ek, 'alg, 'jwk, 'dk, 'json) surroundings \<Rightarrow> 's app_state \<Rightarrow> 'jwk http_request \<Rightarrow> string list
   \<Rightarrow> ('s, response, unit) io" where
  "api_v1_routes su state req path =
     (let not_found = Ret (Ok (fw_not_found (su_framework su))) in
      case path of
        [a, list_id, b] \<Rightarrow>
          if a = ''status-lists'' \<and> b = ''statuses'' then statuses_route su state req list_id else not_found
      | [a, list_id] \<Rightarrow> if a = ''status-lists'' then status_list_route su state req list_id else not_found
      | [a] \<Rightarrow>
          if a = ''credentials'' then credentials_route su state req
          else if a = ''aggregation'' then aggregation_route su state req
          else not_found
      | _ \<Rightarrow> not_found)"

definition text_response :: "string \<Rightarrow> response" where
  "text_response t = \<lparr>rs_status = 200, rs_headers = [], rs_body = TextBody t\<rparr>"

definition router ::
  "('sk, 'ek, 'alg, 'jwk, 'dk, 'json) surroundings \<Rightarrow> 's app_state \<Rightarrow> 'jwk http_request \<Rightarrow> ('s, response, unit) io" where
  "router su state req =
     (let meth = hr_method req; path = hr_path req in
      if path = [] then method_get su meth (Ret (Ok (text_response ''Status list Server'')))
      else if path = [''health''] \<or> path = [''health'', ''live''] then method_get su meth (Ret (Ok live))
      else if path = [''health'', ''ready''] then method_get su meth (Ret (Ok (su_ready su)))
      else if take 2 path = [''api'', ''v1''] then api_v1_routes su state req (drop 2 path)
      else if path = [''metrics''] \<and> su_metrics su \<noteq> None then method_get su meth (Ret (Ok (the (su_metrics su))))
      else Ret (Ok (fw_not_found (su_framework su))))"

text \<open>The panic layer: every request gets a response.\<close>

definition handle_request ::
  "('sk, 'ek, 'alg, 'jwk, 'dk, 'json) surroundings \<Rightarrow> 's app_state \<Rightarrow> 'jwk http_request \<Rightarrow> ('s, response) proc" where
  "handle_request su state req =
     pbind (router su state req) (\<lambda>r. Ret (case r of
       Ok resp \<Rightarrow> resp | Err e \<Rightarrow> fw_panicked (su_framework su) | Panic \<Rightarrow> fw_panicked (su_framework su)))"

section \<open>Start-up validation\<close>

definition AGGREGATION_ROUTE_PATH :: string where
  "AGGREGATION_ROUTE_PATH = ''/api/v1/aggregation''"

text \<open>\<open>url_path\<close> is the path of the URL the URL library reads, or its complaint.\<close>

definition validate_aggregation_uri :: "(string \<Rightarrow> string + string) \<Rightarrow> string option \<Rightarrow> (unit, string) outcome" where
  "validate_aggregation_uri url_path aggregation_uri =
     (case aggregation_uri of
        None \<Rightarrow> Ok ()
      | Some raw \<Rightarrow>
          let uri = str_trim raw in
          if uri = [] then Ok ()
          else obind (map_err (\<lambda>e. ''Invalid aggregation_uri: not a valid URL'') (from_sum (url_path uri))) (\<lambda>path.
            if path \<noteq> AGGREGATION_ROUTE_PATH
            then Err (''Configured aggregation_uri path '' @ quoted path
                   @ '' does not match the actual route '' @ quoted AGGREGATION_ROUTE_PATH)
            else Ok ()))"

record rate_limit_config =
  rl_strict_burst_size :: nat
  rl_strict_period_secs :: nat
  rl_permissive_burst_size :: nat
  rl_permissive_period_secs :: nat

text \<open>\<open>finish\<close> is the governor library's check of a burst size and a period.\<close>

definition build_governor_configs ::
  "(nat \<Rightarrow> nat \<Rightarrow> 'g option) \<Rightarrow> rate_limit_config \<Rightarrow> ('g \<times> 'g \<times> 'g, string) outcome" where
  "build_governor_configs finish config =
     obind (ok_or (finish (rl_strict_burst_size config) (rl_strict_period_secs config))
              ''strict governor requires non-zero burst_size and period'') (\<lambda>strict.
     obind (ok_or (finish (rl_strict_burst_size config) (rl_strict_period_secs config))
              ''issuer governor requires non-zero burst_size and period'') (\<lambda>issuer_gov.
     obind (ok_or (finish (rl_permissive_burst_size config) (rl_permissive_period_secs config))
              ''permissive governor requires non-zero burst_size and period'') (\<lambda>permissive.
       Ok (strict, issuer_gov, permissive))))"

end
