(* ===== verification/Bit_Arrays.thy ===== *)
theory Bit_Arrays
  imports Prelude
begin

text \<open>
  Byte arrays as sequences of bits, least significant bit of each byte first, and the
  fixed-width slots of a packed array. Positions past the end read as zero. These are the
  reference notions against which the packing code is verified.
\<close>

definition abit :: "u8 list \<Rightarrow> nat \<Rightarrow> bool" where
  "abit arr k \<longleftrightarrow> k div 8 < length arr \<and> bit (arr ! (k div 8)) (k mod 8)"

text \<open>The value stored in slot \<open>i\<close> of an array of \<open>bits\<close>-bit slots.\<close>

definition slot :: "u8 list \<Rightarrow> nat \<Rightarrow> nat \<Rightarrow> u32" where
  "slot arr bits i = horner_sum of_bool 2 (map (\<lambda>n. abit arr (i * bits + n)) [0..<bits])"

lemma abit_past_end: "8 * length arr \<le> k \<Longrightarrow> \<not> abit arr k"
  unfolding abit_def by linarith

lemma abit_replicate_zero [bit_view]: "\<not> abit (replicate n 0) k"
  by (simp add: abit_def)

lemma abit_append_zeros [bit_view]: "abit (arr @ replicate n 0) k = abit arr k"
  by (auto simp: abit_def nth_append)

lemma abit_list_update [bit_view]:
  assumes "i < length arr"
  shows "abit (arr[i := b]) k = (if k div 8 = i then bit b (k mod 8) else abit arr k)"
  using assms by (auto simp: abit_def)

lemma bit_slot_iff [bit_view]:
  "bit (slot arr bits i) n \<longleftrightarrow> n < 32 \<and> n < bits \<and> abit arr (i * bits + n)"
  by (auto simp: slot_def bit_horner_sum_bit_word_iff)

lemma slot_cong:
  assumes "\<And>n. n < bits \<Longrightarrow> abit arr (i * bits + n) = abit arr' (j * bits + n)"
  shows "slot arr bits i = slot arr' bits j"
  using assms by (auto intro!: bit_word_eqI simp: bit_slot_iff)

lemma slot_past_end: "8 * length arr \<le> i * bits \<Longrightarrow> slot arr bits i = 0"
  by (rule bit_word_eqI) (simp add: bit_slot_iff abit_past_end)

lemma unat_slot_less: "unat (slot arr bits i) < 2 ^ bits"
proof -
  have "take_bit bits (slot arr bits i) = slot arr bits i"
    by (rule bit_word_eqI) (auto simp: bit_take_bit_iff bit_slot_iff)
  then have "take_bit bits (unat (slot arr bits i)) = unat (slot arr bits i)"
    by (metis unsigned_take_bit_eq)
  then show ?thesis by (metis take_bit_nat_less_exp)
qed

text \<open>A value below \<open>2 ^ bits\<close> has no bit from \<open>bits\<close> on.\<close>

lemma bit_below_exp:
  fixes v :: "'a::len word"
  assumes "unat v < 2 ^ m" and "bit v n"
  shows "n < m"
proof (rule ccontr)
  assume "\<not> n < m"
  then have "(2::nat) ^ m \<le> 2 ^ n" by (intro power_increasing) auto
  with assms(1) have "unat v < 2 ^ n" by linarith
  then have "\<not> bit (unat v) n" by (simp add: bit_iff_odd)
  with assms(2) show False by (simp add: bit_unsigned_iff)
qed

text \<open>The positions of two different slots do not meet.\<close>

lemma slot_positions_disjoint:
  fixes bits i j n :: nat
  assumes "i * bits \<le> j * bits + n" and "j * bits + n < i * bits + bits" and "n < bits"
  shows "i = j"
proof (rule ccontr)
  assume "i \<noteq> j"
  then consider "Suc i \<le> j" | "Suc j \<le> i" by linarith
  then show False
  proof cases
    case 1
    then have "Suc i * bits \<le> j * bits" by (rule mult_le_mono1)
    with assms show False by simp
  next
    case 2
    then have "Suc j * bits \<le> i * bits" by (rule mult_le_mono1)
    with assms show False by simp
  qed
qed

end
