(* ===== verification/Bit_Packing.thy ===== *)
theory Bit_Packing
  imports Bit_Arrays Status_List
begin

text \<open>
  The packing and unpacking loops of \<open>apply_update\<close> and \<open>decode_status_array\<close> against
  the bit view of \<open>Bit_Arrays\<close>: an update changes exactly the bits of its own slot, also
  when the slot crosses byte boundaries, and reading returns the slot's value.
\<close>

lemma modify_byte_Ok:
  assumes "i < length arr"
  shows "modify_byte arr i f = Ok (arr[i := f (arr ! i)])"
  using assms by (simp add: modify_byte_def)

lemma bit_value_bit:
  "g < 32 \<Longrightarrow> bit (ucast (shr_u32 v g AND 1) :: u8) n \<longleftrightarrow> n = 0 \<and> bit v g"
  by (auto simp: rust_arith bit_simps)

lemma write_bits_step:
  assumes "co < 8" and "cb < length arr" and "g < 32"
  shows "\<exists>arr2. obind (modify_byte arr cb (\<lambda>b. b AND NOT (shl_u8 1 co))) (\<lambda>arr1.
           modify_byte arr1 cb (\<lambda>b. b OR shl_u8 (ucast (shr_u32 v g AND 1)) co)) = Ok arr2
         \<and> length arr2 = length arr
         \<and> (\<forall>k. abit arr2 k = (if k = 8 * cb + co then bit v g else abit arr k))"
proof -
  define b where "b = (arr ! cb AND NOT (push_bit co 1)) OR push_bit co (ucast (shr_u32 v g AND 1))"
  have b: "n < 8 \<Longrightarrow> bit b n = (if n = co then bit v g else bit (arr ! cb) n)" for n
    using assms by (auto simp: b_def bit_simps bit_value_bit rust_arith)
  have "abit (arr[cb := b]) k = (if k = 8 * cb + co then bit v g else abit arr k)" for k
  proof (cases "k div 8 = cb")
    case True
    then have k: "k = 8 * cb + k mod 8" by presburger
    have "abit (arr[cb := b]) k = (if k mod 8 = co then bit v g else bit (arr ! cb) (k mod 8))"
      using True assms(2) by (simp add: abit_list_update b)
    with True k assms(2) show ?thesis by (auto simp: abit_def)
  next
    case False
    then have "k \<noteq> 8 * cb + co" using assms(1) by auto
    with False assms(2) show ?thesis by (simp add: abit_list_update)
  qed
  then show ?thesis
    using assms by (intro exI [of _ "arr[cb := b]"]) (simp add: modify_byte_Ok b_def rust_arith)
qed

lemma write_bits_spec:
  assumes "co < 8" and "8 * cb + co + n \<le> 8 * length arr" and "g + n \<le> 32"
  shows "\<exists>arr' cb' co'. write_bits n g v (arr, cb, co) = Ok (arr', cb', co')
         \<and> length arr' = length arr \<and> co' < 8 \<and> 8 * cb' + co' = 8 * cb + co + n
         \<and> (\<forall>k. abit arr' k =
               (if 8 * cb + co \<le> k \<and> k < 8 * cb + co + n then bit v (g + (k - (8 * cb + co)))
                else abit arr k))"
  using assms
proof (induction n arbitrary: g arr cb co)
  case 0
  then show ?case by auto
next
  case (Suc n)
  obtain arr2 where arr2: "obind (modify_byte arr cb (\<lambda>b. b AND NOT (shl_u8 1 co))) (\<lambda>arr1.
        modify_byte arr1 cb (\<lambda>b. b OR shl_u8 (ucast (shr_u32 v g AND 1)) co)) = Ok arr2"
    and len: "length arr2 = length arr"
    and bits: "\<And>k. abit arr2 k = (if k = 8 * cb + co then bit v g else abit arr k)"
    using write_bits_step [of co cb arr g v] Suc.prems by auto
  define cb1 where "cb1 = (if 8 \<le> Suc co then Suc cb else cb)"
  define co1 where "co1 = (if 8 \<le> Suc co then 0 else Suc co)"
  have pos: "8 * cb1 + co1 = Suc (8 * cb + co)" and co1: "co1 < 8"
    using Suc.prems(1) by (auto simp: cb1_def co1_def)
  have step: "write_bits (Suc n) g v (arr, cb, co) = write_bits n (Suc g) v (arr2, cb1, co1)"
    using arr2 by (auto simp: cb1_def co1_def outcome_simps Let_def)
  obtain arr' cb' co' where
    rest: "write_bits n (Suc g) v (arr2, cb1, co1) = Ok (arr', cb', co')"
    "length arr' = length arr2" "co' < 8" "8 * cb' + co' = 8 * cb1 + co1 + n"
    and tail: "\<And>k. abit arr' k =
        (if 8 * cb1 + co1 \<le> k \<and> k < 8 * cb1 + co1 + n
         then bit v (Suc g + (k - (8 * cb1 + co1))) else abit arr2 k)"
    using Suc.IH [of co1 cb1 arr2 "Suc g"] Suc.prems co1 pos len by auto
  have shift: "Suc g + (k - (8 * cb1 + co1)) = g + (k - (8 * cb + co))" if "8 * cb1 + co1 \<le> k" for k
    using that pos by linarith
  have "abit arr' k = (if 8 * cb + co \<le> k \<and> k < 8 * cb + co + Suc n
          then bit v (g + (k - (8 * cb + co))) else abit arr k)" for k
  proof (cases "8 * cb1 + co1 \<le> k")
    case True
    with pos show ?thesis unfolding tail shift [OF True] bits by auto
  next
    case False
    with pos show ?thesis unfolding tail bits by auto
  qed
  with rest pos len step show ?case by auto
qed

lemma write_remaining_spec:
  assumes "co < 8" and "8 * cb + co + (bits - w) \<le> 8 * length arr" and "w \<le> bits" and "bits \<le> 32"
  shows "\<exists>arr' cb' co'. write_remaining bits w v (arr, cb, co) = Ok (arr', cb', co')
         \<and> length arr' = length arr
         \<and> (\<forall>k. abit arr' k =
               (if 8 * cb + co \<le> k \<and> k < 8 * cb + co + (bits - w)
                then bit v (w + (k - (8 * cb + co))) else abit arr k))"
  using assms
proof (induction "bits - w" arbitrary: w arr cb co rule: less_induct)
  case less
  show ?case
  proof (cases "w < bits")
    case False
    then show ?thesis by (subst write_remaining.simps) auto
  next
    case True
    define n where "n = min (bits - w) 8"
    have n: "8 * cb + co + n \<le> 8 * length arr" "w + n \<le> 32"
      using less.prems True by (auto simp: n_def)
    obtain arr1 cb1 co1 where
      first: "write_bits n w v (arr, cb, co) = Ok (arr1, cb1, co1)"
      "length arr1 = length arr" "co1 < 8" "8 * cb1 + co1 = 8 * cb + co + n"
      and head: "\<And>k. abit arr1 k = (if 8 * cb + co \<le> k \<and> k < 8 * cb + co + n
            then bit v (w + (k - (8 * cb + co))) else abit arr k)"
      using write_bits_spec [of co cb n arr w v, OF less.prems(1) n] by blast
    obtain arr' cb' co' where
      rest: "write_remaining bits (w + n) v (arr1, cb1, co1) = Ok (arr', cb', co')"
      "length arr' = length arr1"
      and tail: "\<And>k. abit arr' k = (if 8 * cb1 + co1 \<le> k \<and> k < 8 * cb1 + co1 + (bits - (w + n))
            then bit v (w + n + (k - (8 * cb1 + co1))) else abit arr1 k)"
      using less.hyps [of "w + n" co1 cb1 arr1, OF _ first(3)] less.prems first(2,4) True
      unfolding n_def by fastforce
    have "abit arr' k = (if 8 * cb + co \<le> k \<and> k < 8 * cb + co + (bits - w)
            then bit v (w + (k - (8 * cb + co))) else abit arr k)" for k
      using first(4) True by (auto simp: tail head n_def)
    with first rest True show ?thesis
      by (subst write_remaining.simps) (simp add: n_def [symmetric] Let_def)
  qed
qed

lemma bit_byte_mask:
  assumes "n \<le> 8" and "off < 8" and "m < 8"
  shows "bit (byte_mask n off) m \<longleftrightarrow> off \<le> m \<and> m < off + n"
proof -
  have "(push_bit n 1 - 1 :: u32) = mask n"
    by (simp add: mask_eq_exp_minus_1 push_bit_eq_mult)
  with assms show ?thesis by (auto simp: byte_mask_def rust_arith bit_simps)
qed

lemma store_masked_spec:
  assumes "n \<le> 8" and "off < 8" and "i < length arr"
  shows "\<exists>arr2. store_masked arr i v off (byte_mask n off) = Ok arr2
         \<and> length arr2 = length arr
         \<and> (\<forall>k. abit arr2 k =
              (if 8 * i + off \<le> k \<and> k < 8 * i + min 8 (off + n)
               then bit v (k - (8 * i + off)) else abit arr k))"
proof -
  define b where "b = (arr ! i AND NOT (byte_mask n off)) OR (push_bit off (ucast v) AND byte_mask n off)"
  have b: "bit b m = (if off \<le> m \<and> m < off + n then bit v (m - off) else bit (arr ! i) m)"
    if "m < 8" for m
    using that assms(1,2) bit_byte_mask [OF assms(1,2) that]
    by (auto simp: b_def bit_simps)
  have "abit (arr[i := b]) k =
          (if 8 * i + off \<le> k \<and> k < 8 * i + min 8 (off + n)
           then bit v (k - (8 * i + off)) else abit arr k)" for k
  proof (cases "k div 8 = i")
    case True
    then have k: "k = 8 * i + k mod 8" by presburger
    have "k - (8 * i + off) = k mod 8 - off" using k by linarith
    moreover have "8 * i + off \<le> k \<and> k < 8 * i + min 8 (off + n) \<longleftrightarrow> off \<le> k mod 8 \<and> k mod 8 < off + n"
      using k mod_less_divisor [of 8 k] by linarith
    ultimately show ?thesis
      using True assms(3) by (auto simp: abit_list_update b) (auto simp: abit_def)
  next
    case False
    then have "\<not> (8 * i + off \<le> k \<and> k < 8 * i + min 8 (off + n))" by linarith
    then show ?thesis using False assms(3) by (subst if_not_P) (simp_all add: abit_list_update)
  qed
  then show ?thesis
    using assms by (intro exI [of _ "arr[i := b]"]) (simp add: store_masked_def modify_byte_Ok b_def rust_arith)
qed

text \<open>One update writes exactly its slot.\<close>

lemma apply_update_spec:
  assumes idx: "0 \<le> se_index u" and bits: "0 < bits" "bits \<le> 32"
    and fits: "Suc (nat (se_index u)) * bits \<le> 8 * length arr"
    and v: "status_value (se_status u) = Ok v"
  shows "\<exists>arr'. apply_update arr u bits = Ok arr' \<and> length arr' = length arr
         \<and> (\<forall>k. abit arr' k =
              (if nat (se_index u) * bits \<le> k \<and> k < Suc (nat (se_index u)) * bits
               then bit v (k - nat (se_index u) * bits) else abit arr k))"
proof -
  define p i off where "p = nat (se_index u) * bits" and "i = p div 8" and "off = p mod 8"
  have p: "8 * i + off = p" "off < 8" by (simp_all add: i_def off_def)
  have fits': "p + bits \<le> 8 * length arr" using fits by (simp add: p_def)
  then have i: "i < length arr" using bits(1) p by linarith
  show ?thesis
  proof (cases "off + bits \<le> 8")
    case True
    obtain arr2 where w: "store_masked arr i v off (byte_mask bits off) = Ok arr2"
      and len: "length arr2 = length arr"
      and view: "\<And>k. abit arr2 k = (if 8 * i + off \<le> k \<and> k < 8 * i + min 8 (off + bits)
               then bit v (k - (8 * i + off)) else abit arr k)"
      using store_masked_spec [of bits off i arr v] True p(2) i by auto
    have "apply_update arr u bits = Ok arr2"
      using idx i v w True by (simp add: apply_update_def Let_def p_def i_def off_def)
    moreover have "8 * i + min 8 (off + bits) = p + bits" using True p by simp
    ultimately show ?thesis using len p by (auto simp: view p_def)
  next
    case False
    define n where "n = 8 - off"
    obtain arr2 where w: "store_masked arr i v off (byte_mask n off) = Ok arr2"
      and len: "length arr2 = length arr"
      and view: "\<And>k. abit arr2 k = (if 8 * i + off \<le> k \<and> k < 8 * i + min 8 (off + n)
               then bit v (k - (8 * i + off)) else abit arr k)"
      using store_masked_spec [of n off i arr v] p(2) i by (auto simp: n_def)
    have n: "p + n = 8 * Suc i" "n < bits" using False p by (auto simp: n_def)
    have room: "8 * Suc i + 0 + (bits - n) \<le> 8 * length arr2"
      using fits' n len by linarith
    obtain arr3 cb co where r: "write_remaining bits n v (arr2, Suc i, 0) = Ok (arr3, cb, co)"
      and len3: "length arr3 = length arr2"
      and view3: "\<And>k. abit arr3 k = (if 8 * Suc i + 0 \<le> k \<and> k < 8 * Suc i + 0 + (bits - n)
               then bit v (n + (k - (8 * Suc i + 0))) else abit arr2 k)"
      using write_remaining_spec [of 0 "Suc i" bits n arr2 v, OF _ room] bits(2) n by auto
    have "apply_update arr u bits = Ok arr3"
      using idx i v w r False
      by (auto simp: apply_update_def Let_def p_def [symmetric] i_def [symmetric] off_def [symmetric]
          n_def [symmetric] outcome_simps)
    moreover have "abit arr3 k = (if p \<le> k \<and> k < p + bits then bit v (k - p) else abit arr k)" for k
    proof (cases "8 * Suc i \<le> k")
      case True
      then have "n + (k - 8 * Suc i) = k - p" using n by linarith
      with True n show ?thesis unfolding view3 view p(1) by auto
    next
      case False
      then show ?thesis using n p unfolding view3 view by (auto simp: n_def)
    qed
    ultimately show ?thesis using len len3 by (auto simp: p_def)
  qed
qed

lemma bit_extracted:
  fixes b :: u8
  assumes "off < 8" and "n \<le> 8 - off"
  shows "bit (ucast (shr_u16 (ucast b) off AND (shl_u16 1 n - 1)) :: u32) m
           \<longleftrightarrow> m < n \<and> bit b (off + m)"
proof -
  have "(push_bit n 1 - 1 :: u16) = mask n"
    by (simp add: mask_eq_exp_minus_1 push_bit_eq_mult)
  moreover have "n < 16" using assms by simp
  ultimately show ?thesis using assms
    by (auto simp: rust_arith bit_simps add.commute dest: bit_imp_le_length)
qed

lemma bit_shl_u32_iff: "w < 32 \<Longrightarrow> bit (shl_u32 x w) n \<longleftrightarrow> w \<le> n \<and> n < 32 \<and> bit x (n - w)"
  by (auto simp: rust_arith bit_simps)

lemma read_value_spec:
  assumes "off < 8" and "w \<le> bits" and "bits \<le> 32"
    and "8 * cb + off + (bits - w) \<le> 8 * length arr"
  shows "bit (read_value arr bits cb off (8 - off) v w) n \<longleftrightarrow>
           bit v n \<or> (w \<le> n \<and> n < bits \<and> abit arr (8 * cb + off + (n - w)))"
  using assms
proof (induction "bits - w" arbitrary: cb off v w rule: less_induct)
  case less
  show ?case
  proof (cases "w < bits")
    case False
    then show ?thesis by (subst read_value.simps) auto
  next
    case True
    define m where "m = min (8 - off) (bits - w)"
    define v' where "v' = v OR shl_u32 (ucast (shr_u16 (ucast (arr ! cb)) off AND (shl_u16 1 m - 1))) w"
    have cb: "cb < length arr" using less.prems True by linarith
    have m: "0 < m" "m \<le> 8 - off" "m \<le> bits - w" using less.prems True by (auto simp: m_def)
    have v': "bit v' n \<longleftrightarrow> bit v n \<or> (w \<le> n \<and> n < w + m \<and> abit arr (8 * cb + off + (n - w)))" for n
    proof -
      have "abit arr (8 * cb + q) \<longleftrightarrow> bit (arr ! cb) q" if "q < 8" for q
        using that cb by (simp add: abit_def)
      from this [of "off + (n - w)"]
      have "w \<le> n \<and> n < w + m \<Longrightarrow> abit arr (8 * cb + off + (n - w)) \<longleftrightarrow> bit (arr ! cb) (off + (n - w))"
        using m less.prems(1) unfolding add.assoc by linarith
      moreover have "bit v' n \<longleftrightarrow> bit v n \<or> (w \<le> n \<and> n < 32 \<and> n - w < m \<and> bit (arr ! cb) (off + (n - w)))"
        using less.prems(1,3) True m(2)
        by (simp add: v'_def bit_or_iff bit_shl_u32_iff bit_extracted)
      moreover have "n < 32" if "n < w + m" using that m less.prems by linarith
      moreover have "n - w < m \<longleftrightarrow> n < w + m" if "w \<le> n" using that by linarith
      ultimately show ?thesis by blast
    qed
    show ?thesis
    proof (cases "8 - off - m = 0")
      case left: True
      then have off: "8 * Suc cb + 0 = 8 * cb + off + m" using m less.prems(1) by arith
      have "read_value arr bits cb off (8 - off) v w = read_value arr bits (Suc cb) 0 (8 - 0) v' (w + m)"
        using True cb left
        by (subst read_value.simps) (simp add: Let_def m_def [symmetric] v'_def)
      moreover have "bit (read_value arr bits (Suc cb) 0 (8 - 0) v' (w + m)) n \<longleftrightarrow>
          bit v' n \<or> (w + m \<le> n \<and> n < bits \<and> abit arr (8 * Suc cb + 0 + (n - (w + m))))"
        using m True less.prems off by (intro less.hyps) auto
      moreover have "8 * Suc cb + 0 + (n - (w + m)) = 8 * cb + off + (n - w)" if "w + m \<le> n"
        using that off by linarith
      ultimately show ?thesis using m by (auto simp: v')
    next
      case left: False
      then have w: "w + m = bits" using True by (auto simp: m_def)
      have "read_value arr bits cb off (8 - off) v w = read_value arr bits cb off (8 - off - m) v' bits"
        using True cb left w
        by (subst read_value.simps) (simp add: Let_def m_def [symmetric] v'_def)
      also have "\<dots> = v'" by (subst read_value.simps) simp
      finally show ?thesis using v' w by simp
    qed
  qed
qed

lemma read_value_slot:
  assumes "bits \<le> 32" and "Suc i * bits \<le> 8 * length arr"
  shows "read_value arr bits (i * bits div 8) (i * bits mod 8) (8 - i * bits mod 8) 0 0 = slot arr bits i"
  using assms read_value_spec [of "i * bits mod 8" 0 bits "i * bits div 8" arr 0]
  by (intro bit_word_eqI) (auto simp: bit_slot_iff)

lemma decode_status_array_slots:
  assumes "0 < bits" and "bits \<le> 32" and "8 * length arr mod bits < 8"
  shows "decode_status_array arr bits =
           collect (\<lambda>i. status_from_value (slot arr bits i)) [0..<8 * length arr div bits]"
proof -
  have "Suc i * bits \<le> 8 * length arr" if "i < 8 * length arr div bits" for i
    using that assms(1) by (metis Suc_leI div_times_less_eq_dividend le_trans mult_le_mono1)
  then have "collect (\<lambda>i. status_from_value (read_value arr bits (i * bits div 8) (i * bits mod 8)
              (8 - i * bits mod 8) 0 0)) [0..<8 * length arr div bits] =
        collect (\<lambda>i. status_from_value (slot arr bits i)) [0..<8 * length arr div bits]"
    using read_value_slot [OF assms(2)] by (intro collect_cong) auto
  with assms show ?thesis
    by (simp add: decode_status_array_def Let_def mult.commute [of _ 8])
qed

end
