(* ===== verification/Status_List_Spec.thy ===== *)
theory Status_List_Spec
  imports Bit_Packing
begin

text \<open>
  What a status list promises. Abstractly it maps every index to a status; a stored list is
  well formed when its text decodes to a packed array whose slots hold legal values and whose
  padding is zero. \<open>create\<close> and \<open>update\<close> keep that invariant and act on the abstract
  map as the entries say, in order, whatever width the list has or needs.
\<close>

section \<open>Values\<close>

fun legal_status :: "status \<Rightarrow> bool" where
  "legal_status (ApplicationSpecific v) \<longleftrightarrow> 256 \<le> v"
| "legal_status s \<longleftrightarrow> True"

fun value_of :: "status \<Rightarrow> u32" where
  "value_of Valid = 0"
| "value_of Invalid = 1"
| "value_of Suspended = 2"
| "value_of (ApplicationSpecific v) = v"

definition legal_value :: "u32 \<Rightarrow> bool" where
  "legal_value v \<longleftrightarrow> v = 0 \<or> v = 1 \<or> v = 2 \<or> 256 \<le> v"

definition status_of :: "u32 \<Rightarrow> status" where
  "status_of v = (if v = 0 then Valid else if v = 1 then Invalid else if v = 2 then Suspended
                  else ApplicationSpecific v)"

lemma status_value_legal: "legal_status s \<Longrightarrow> status_value s = Ok (value_of s)"
  by (cases s) auto

lemma status_value_illegal:
  "\<not> legal_status s \<Longrightarrow>
     status_value s = Err (InvalidStatusList ''ApplicationSpecific value must be >= 256'')"
  by (cases s) auto

lemma legal_value_of: "legal_status s \<Longrightarrow> legal_value (value_of s)"
  by (cases s) (auto simp: legal_value_def)

lemma status_from_value_legal: "legal_value v \<Longrightarrow> status_from_value v = Ok (status_of v)"
  by (auto simp: legal_value_def status_from_value_def status_of_def)

lemma status_from_value_illegal:
  "\<not> legal_value v \<Longrightarrow>
     status_from_value v = Err (CorruptStoredList ''Invalid status value in existing list'')"
  by (auto simp: legal_value_def status_from_value_def)

lemma status_of_value_of: "legal_status s \<Longrightarrow> status_of (value_of s) = s"
  by (cases s) (auto simp: status_of_def word_le_nat_alt)

lemma value_of_status_of: "value_of (status_of v) = v"
  by (simp add: status_of_def)

lemma legal_status_of: "legal_value v \<Longrightarrow> legal_status (status_of v)"
  by (auto simp: legal_value_def status_of_def)

section \<open>Abstract status lists\<close>

text \<open>
  Abstractly a status list gives every index a status, \<open>Valid\<close> where nothing was written,
  and a request sets the statuses of its entries one after the other.
\<close>

type_synonym status_map = "nat \<Rightarrow> status"

definition set_status :: "status_entry \<Rightarrow> status_map \<Rightarrow> status_map" where
  "set_status u f = f(nat (se_index u) := se_status u)"

definition set_statuses :: "status_entry list \<Rightarrow> status_map \<Rightarrow> status_map" where
  "set_statuses us f = fold set_status us f"

definition legal_entry :: "status_entry \<Rightarrow> bool" where
  "legal_entry u \<longleftrightarrow> 0 \<le> se_index u \<and> se_index u < 2 ^ 31 \<and> legal_status (se_status u)"

section \<open>Well-formed packed arrays\<close>

definition wf_array :: "u8 list \<Rightarrow> nat \<Rightarrow> bool" where
  "wf_array arr bits \<longleftrightarrow> 0 < bits \<and> bits \<le> 32
     \<and> 8 * length arr mod bits < 8
     \<and> 8 * length arr div bits \<le> 2 ^ 31
     \<and> list_all (\<lambda>i. legal_value (slot arr bits i)) [0..<8 * length arr div bits]
     \<and> list_all (\<lambda>k. \<not> abit arr k) [8 * length arr div bits * bits..<8 * length arr]"

definition array_view :: "u8 list \<Rightarrow> nat \<Rightarrow> status_map" where
  "array_view arr bits i = status_of (slot arr bits i)"

lemma wf_arrayD:
  assumes "wf_array arr bits"
  shows "0 < bits" "bits \<le> 32" "8 * length arr mod bits < 8" "8 * length arr div bits \<le> 2 ^ 31"
    "i < 8 * length arr div bits \<Longrightarrow> legal_value (slot arr bits i)"
    "8 * length arr div bits * bits \<le> k \<Longrightarrow> \<not> abit arr k"
  using assms abit_past_end [of arr k] by (auto simp: wf_array_def list_all_iff not_le)

lemma wf_array_slot_outside:
  assumes "wf_array arr bits" and "8 * length arr div bits \<le> i"
  shows "slot arr bits i = 0"
proof (rule bit_word_eqI)
  fix n
  have "8 * length arr div bits * bits \<le> i * bits + n"
    using mult_le_mono1 [OF assms(2), of bits] by linarith
  then show "bit (slot arr bits i) n = bit 0 n"
    using wf_arrayD(6) [OF assms(1)] by (simp add: bit_slot_iff)
qed

lemma wf_array_legal: "wf_array arr bits \<Longrightarrow> legal_value (slot arr bits i)"
  using wf_arrayD(5) wf_array_slot_outside by (cases "i < 8 * length arr div bits") (auto simp: legal_value_def)

lemma decode_wf_array:
  assumes "wf_array arr bits"
  shows "decode_status_array arr bits = Ok (map (array_view arr bits) [0..<8 * length arr div bits])"
  using assms wf_arrayD [OF assms]
  by (simp add: decode_status_array_slots collect_all_Ok status_from_value_legal wf_array_legal
      array_view_def)

lemma array_view_slot: "wf_array arr bits \<Longrightarrow> value_of (array_view arr bits i) = slot arr bits i"
  by (simp add: array_view_def value_of_status_of)

lemma array_view_outside:
  "wf_array arr bits \<Longrightarrow> 8 * length arr div bits \<le> i \<Longrightarrow> array_view arr bits i = Valid"
  by (simp add: array_view_def wf_array_slot_outside status_of_def)

section \<open>Applying updates\<close>

definition write_slot :: "status_entry \<Rightarrow> (nat \<Rightarrow> u32) \<Rightarrow> nat \<Rightarrow> u32" where
  "write_slot u g = g(nat (se_index u) := value_of (se_status u))"

definition fits :: "u8 list \<Rightarrow> nat \<Rightarrow> status_entry \<Rightarrow> bool" where
  "fits arr bits u \<longleftrightarrow> Suc (nat (se_index u)) * bits \<le> 8 * length arr
     \<and> unat (value_of (se_status u)) < 2 ^ bits"

lemma apply_update_slots:
  assumes "0 < bits" "bits \<le> 32" and "0 \<le> se_index u" "legal_status (se_status u)"
    and "fits arr bits u"
  shows "\<exists>arr'. apply_update arr u bits = Ok arr' \<and> length arr' = length arr
     \<and> (\<forall>i. slot arr' bits i = (if i = nat (se_index u) then value_of (se_status u) else slot arr bits i))
     \<and> (\<forall>k. 8 * length arr div bits * bits \<le> k \<longrightarrow> abit arr' k = abit arr k)"
proof -
  let ?j = "nat (se_index u)" and ?v = "value_of (se_status u)"
  have room: "Suc ?j * bits \<le> 8 * length arr" and small: "unat ?v < 2 ^ bits"
    using assms(5) by (auto simp: fits_def)
  obtain arr' where step: "apply_update arr u bits = Ok arr'" "length arr' = length arr"
    and view: "\<And>k. abit arr' k = (if ?j * bits \<le> k \<and> k < Suc ?j * bits then bit ?v (k - ?j * bits) else abit arr k)"
    using apply_update_spec [OF assms(3,1,2) room status_value_legal [OF assms(4)]] by blast
  have "slot arr' bits i = (if i = ?j then ?v else slot arr bits i)" for i
  proof (cases "i = ?j")
    case True
    have "bit (slot arr' bits ?j) n \<longleftrightarrow> bit ?v n" if "n < 32" for n
      using that bit_below_exp [OF small, of n] by (auto simp: bit_slot_iff view)
    then show ?thesis using True by (auto intro!: bit_word_eqI)
  next
    case False
    have "\<not> (?j * bits \<le> i * bits + n \<and> i * bits + n < Suc ?j * bits)" if "n < bits" for n
      using that False slot_positions_disjoint [of ?j bits i n] by auto
    then show ?thesis using False by (auto intro!: slot_cong simp: view)
  qed
  moreover have "abit arr' k = abit arr k" if "8 * length arr div bits * bits \<le> k" for k
  proof -
    have "Suc ?j \<le> 8 * length arr div bits"
      using room assms(1) by (simp add: less_eq_div_iff_mult_less_eq)
    then have "Suc ?j * bits \<le> k"
      using that mult_le_mono1 [of "Suc ?j" "8 * length arr div bits" bits] by linarith
    then show ?thesis by (simp add: view)
  qed
  ultimately show ?thesis using step by blast
qed

lemma apply_updates_slots:
  assumes "0 < bits" "bits \<le> 32"
    and "\<And>u. u \<in> set us \<Longrightarrow> 0 \<le> se_index u \<and> legal_status (se_status u) \<and> fits arr bits u"
  shows "\<exists>arr'. apply_updates arr us bits = Ok arr' \<and> length arr' = length arr
     \<and> (\<forall>i. slot arr' bits i = fold write_slot us (slot arr bits) i)
     \<and> (\<forall>k. 8 * length arr div bits * bits \<le> k \<longrightarrow> abit arr' k = abit arr k)"
  using assms(3)
proof (induction us arbitrary: arr)
  case Nil
  then show ?case by simp
next
  case (Cons u us)
  obtain arr1 where step: "apply_update arr u bits = Ok arr1" "length arr1 = length arr"
    and slots: "slot arr1 bits = write_slot u (slot arr bits)"
    and pad: "\<And>k. 8 * length arr div bits * bits \<le> k \<Longrightarrow> abit arr1 k = abit arr k"
    using apply_update_slots [OF assms(1,2), of u arr] Cons.prems by (auto simp: fun_eq_iff write_slot_def)
  obtain arr' where "apply_updates arr1 us bits = Ok arr'" "length arr' = length arr1"
    "\<And>i. slot arr' bits i = fold write_slot us (slot arr1 bits) i"
    "\<And>k. 8 * length arr div bits * bits \<le> k \<Longrightarrow> abit arr' k = abit arr1 k"
    using Cons.IH [of arr1] Cons.prems step(2) by (auto simp: fits_def)
  with step slots pad show ?case by auto
qed

section \<open>Widths\<close>

definition width_of :: "u32 \<Rightarrow> nat" where
  "width_of v = (if v \<le> 1 then 1 else if v \<le> 3 then 2 else if v \<le> 15 then 4
     else if v \<le> 255 then 8 else trailing_zeros (next_power_of_two (unat v + 1)))"

lemma wide_value_width:
  assumes "256 \<le> unat v"
  obtains k where "trailing_zeros (next_power_of_two (unat (v :: u32) + 1)) = k"
    "9 \<le> k" "k \<le> 32" "2 ^ (k - 1) \<le> unat v" "unat v < 2 ^ k"
proof -
  have "1 \<le> unat v" using assms by simp
  then obtain n where n: "2 ^ n \<le> unat v" "unat v < 2 ^ (n + 1)"
    using ex_power_ivl1 [of 2 "unat v"] by auto
  have "8 \<le> n"
  proof (rule ccontr)
    assume "\<not> 8 \<le> n"
    then have "(2::nat) ^ (n + 1) \<le> 2 ^ 8" by (intro power_increasing) auto
    with n assms show False by simp
  qed
  have "n < 32"
  proof (rule ccontr)
    assume "\<not> n < 32"
    then have "(2::nat) ^ 32 \<le> 2 ^ n" by (intro power_increasing) auto
    moreover have "unat v < 2 ^ 32" using unsigned_less [of v] by simp
    ultimately show False using n(1) by linarith
  qed
  have "trailing_zeros (next_power_of_two (unat v + 1)) = Suc n"
    using n by (intro trailing_zeros_next_power_of_two) auto
  with n \<open>8 \<le> n\<close> \<open>n < 32\<close> show thesis by (intro that [of "Suc n"]) auto
qed

lemma width_of_bounds: "unat v < 2 ^ width_of v" "0 < width_of v" "width_of v \<le> 32"
proof -
  have "unat v < 2 ^ width_of v \<and> 0 < width_of v \<and> width_of v \<le> 32"
  proof (cases "v \<le> 255")
    case True
    then show ?thesis by (auto simp: width_of_def word_le_nat_alt)
  next
    case False
    then have "256 \<le> unat v" by (simp add: word_le_nat_alt)
    then obtain k where "trailing_zeros (next_power_of_two (unat v + 1)) = k" "9 \<le> k" "k \<le> 32" "unat v < 2 ^ k"
      by (rule wide_value_width)
    with False show ?thesis by (auto simp: width_of_def word_le_nat_alt)
  qed
  then show "unat v < 2 ^ width_of v" "0 < width_of v" "width_of v \<le> 32" by auto
qed

lemma width_of_legal:
  assumes "legal_value v"
  shows "width_of v \<in> {1, 2} \<union> {9..32}"
proof (cases "256 \<le> v")
  case True
  then have "256 \<le> unat v" by (simp add: word_le_nat_alt)
  then obtain k where "trailing_zeros (next_power_of_two (unat v + 1)) = k" "9 \<le> k" "k \<le> 32"
    by (rule wide_value_width)
  with True show ?thesis by (auto simp: width_of_def word_le_nat_alt)
next
  case False
  with assms show ?thesis by (auto simp: width_of_def legal_value_def word_le_nat_alt)
qed

definition max_value :: "status_entry list \<Rightarrow> u32" where
  "max_value us = Max (set (map (\<lambda>u. value_of (se_status u)) us))"

lemma determine_bits_legal:
  assumes "us \<noteq> []" and "\<And>u. u \<in> set us \<Longrightarrow> legal_status (se_status u)"
  shows "determine_bits us original =
           Ok (max (case original of Some b \<Rightarrow> b | None \<Rightarrow> width_of (max_value us)) (width_of (max_value us)))"
proof -
  have "collect (\<lambda>u. status_value (se_status u)) us = Ok (map (\<lambda>u. value_of (se_status u)) us)"
    using assms(2) by (intro collect_all_Ok) (simp add: status_value_legal)
  moreover have "iter_max (map (\<lambda>u. value_of (se_status u)) us) = Some (max_value us)"
    using assms(1) by (simp add: iter_max_eq_Max max_value_def)
  moreover have "trailing_zeros (next_power_of_two (unat (max_value us) + 1)) \<noteq> 0"
    if "\<not> max_value us \<le> 255"
  proof -
    have "256 \<le> unat (max_value us)" using that by (simp add: word_le_nat_alt)
    then obtain k where "trailing_zeros (next_power_of_two (unat (max_value us) + 1)) = k" "9 \<le> k"
      by (rule wide_value_width)
    then show ?thesis by simp
  qed
  ultimately show ?thesis
    by (cases original) (auto simp: determine_bits_def width_of_def Let_def)
qed

lemma determine_bits_illegal:
  assumes "u \<in> set us" and "\<not> legal_status (se_status u)"
  shows "determine_bits us original = Err (InvalidStatusList ''ApplicationSpecific value must be >= 256'')"
proof -
  have "collect (\<lambda>u. status_value (se_status u)) us =
          Err (InvalidStatusList ''ApplicationSpecific value must be >= 256'')"
    using assms
  proof (induction us)
    case (Cons w us)
    show ?case
    proof (cases "legal_status (se_status w)")
      case True
      with Cons show ?thesis by (auto simp: status_value_legal)
    next
      case False
      then show ?thesis by (simp add: status_value_illegal)
    qed
  qed simp
  then show ?thesis by (simp add: determine_bits_def)
qed

lemma value_fits_width:
  assumes "u \<in> set us" and "width_of (max_value us) \<le> b"
  shows "unat (value_of (se_status u)) < 2 ^ b"
proof -
  have "value_of (se_status u) \<le> max_value us"
    using assms(1) by (auto simp: max_value_def intro!: Max_ge)
  then have "unat (value_of (se_status u)) < 2 ^ width_of (max_value us)"
    using width_of_bounds(1) [of "max_value us"] by (simp add: word_le_nat_alt)
  also have "\<dots> \<le> 2 ^ b" using assms(2) by (intro power_increasing) auto
  finally show ?thesis .
qed

section \<open>Array sizes\<close>

definition max_index :: "status_entry list \<Rightarrow> int" where
  "max_index us = Max (set (map se_index us))"

definition array_len :: "nat \<Rightarrow> nat \<Rightarrow> nat" where
  "array_len bits m = (m * bits + bits - 1) div 8 + 1"

lemma iter_max_index: "us \<noteq> [] \<Longrightarrow> iter_max (map se_index us) = Some (max_index us)"
  by (simp add: iter_max_eq_Max max_index_def)

lemma calculate_array_size_Ok:
  assumes "us \<noteq> []" "0 \<le> max_index us" "0 < bits"
  shows "calculate_array_size us bits = Ok (array_len bits (nat (max_index us)))"
  using assms by (simp add: calculate_array_size_def iter_max_index Let_def array_len_def rust_arith)

lemma calculate_array_size_negative:
  assumes "us \<noteq> []" "max_index us < 0"
  shows "calculate_array_size us bits = Err InvalidIndex"
  using assms by (simp add: calculate_array_size_def iter_max_index)

lemma max_index_ge: "u \<in> set us \<Longrightarrow> se_index u \<le> max_index us"
  by (auto simp: max_index_def intro!: Max_ge)

lemma max_index_in: "us \<noteq> [] \<Longrightarrow> \<exists>u \<in> set us. max_index us = se_index u"
  using Max_in [of "se_index ` set us"] unfolding max_index_def by (auto simp del: Max_in)

lemma array_len_bounds:
  assumes "0 < bits"
  shows "Suc m * bits \<le> 8 * array_len bits m" "8 * array_len bits m < Suc m * bits + 8"
proof -
  define x where "x = m * bits + bits - 1"
  have "Suc m * bits = Suc x" using assms by (simp add: x_def)
  moreover have "8 * (x div 8) \<le> x" "x < 8 * (x div 8) + 8" by presburger+
  moreover have "array_len bits m = x div 8 + 1" by (simp add: array_len_def x_def)
  ultimately show "Suc m * bits \<le> 8 * array_len bits m" and "8 * array_len bits m < Suc m * bits + 8"
    by (metis Suc_leI add.commute add_mult_distrib2 mult.right_neutral less_Suc_eq_le, linarith)
qed

lemma array_len_mod:
  assumes "0 < bits"
  shows "8 * array_len bits m mod bits < 8"
proof (cases "bits \<le> 8")
  case True
  then show ?thesis using assms mod_less_divisor [of bits "8 * array_len bits m"] by linarith
next
  case False
  define r where "r = 8 * array_len bits m - Suc m * bits"
  have r: "8 * array_len bits m = r + Suc m * bits" "r < 8"
    using array_len_bounds [OF assms, of m] by (auto simp: r_def)
  then have "8 * array_len bits m mod bits = r mod bits" by (simp only: r mod_mult_self1)
  also have "\<dots> \<le> r" by simp
  finally show ?thesis using r by linarith
qed

lemma array_len_count:
  assumes "0 < bits" and "m < 2 ^ 31"
  shows "8 * array_len bits m div bits \<le> 2 ^ 31"
proof -
  define N where "N = (2::nat) ^ 28 * bits"
  have N: "2 ^ 31 * bits = 8 * N" by (simp add: N_def)
  have "Suc m * bits \<le> 2 ^ 31 * bits" using assms(2) by (intro mult_le_mono1) auto
  then have "8 * array_len bits m < 8 * N + 8"
    using array_len_bounds(2) [OF assms(1), of m] unfolding N by linarith
  then have "array_len bits m \<le> N" by linarith
  then have "8 * array_len bits m \<le> 2 ^ 31 * bits" unfolding N by linarith
  then have "8 * array_len bits m div bits \<le> (2 ^ 31 * bits) div bits" by (rule div_le_mono)
  then show ?thesis using assms(1) by (simp only: nonzero_mult_div_cancel_right neq0_conv)
qed

section \<open>Well-formed arrays under the operations\<close>

lemma fold_write_slot_legal:
  assumes "\<And>i. legal_value (g i)" and "\<And>u. u \<in> set us \<Longrightarrow> legal_status (se_status u)"
  shows "legal_value (fold write_slot us g i)"
  using assms
  by (induction us arbitrary: g) (auto simp: write_slot_def legal_value_of)

lemma status_of_fold_write_slot:
  assumes "\<And>u. u \<in> set us \<Longrightarrow> legal_status (se_status u)"
  shows "status_of (fold write_slot us g i) = set_statuses us (\<lambda>j. status_of (g j)) i"
proof -
  have step: "(\<lambda>j. status_of (write_slot u g j)) = set_status u (\<lambda>j. status_of (g j))"
    if "legal_status (se_status u)" for u g
    using that by (auto simp: write_slot_def set_status_def status_of_value_of fun_eq_iff)
  show ?thesis
    using assms
  proof (induction us arbitrary: g)
    case (Cons u us)
    then show ?case by (simp add: set_statuses_def step)
  qed (simp add: set_statuses_def)
qed

lemma apply_updates_wf:
  assumes "wf_array arr bits"
    and "\<And>u. u \<in> set us \<Longrightarrow> legal_entry u \<and> fits arr bits u"
  obtains arr' where "apply_updates arr us bits = Ok arr'" "wf_array arr' bits"
    "array_view arr' bits = set_statuses us (array_view arr bits)" "length arr' = length arr"
proof -
  have us: "\<And>u. u \<in> set us \<Longrightarrow> 0 \<le> se_index u \<and> legal_status (se_status u) \<and> fits arr bits u"
    and legal: "\<And>u. u \<in> set us \<Longrightarrow> legal_status (se_status u)"
    using assms(2) by (auto simp: legal_entry_def)
  obtain arr' where arr': "apply_updates arr us bits = Ok arr'" "length arr' = length arr"
    and slots: "\<And>i. slot arr' bits i = fold write_slot us (slot arr bits) i"
    and pad: "\<And>k. 8 * length arr div bits * bits \<le> k \<Longrightarrow> abit arr' k = abit arr k"
    using apply_updates_slots [OF wf_arrayD(1,2) [OF assms(1)] us] by blast
  have "wf_array arr' bits"
    using wf_arrayD [OF assms(1)]
    by (auto simp: wf_array_def list_all_iff arr'(2) slots pad
        intro!: fold_write_slot_legal wf_array_legal [OF assms(1)] legal)
  moreover have "array_view arr' bits = set_statuses us (array_view arr bits)"
    by (simp add: fun_eq_iff array_view_def slots status_of_fold_write_slot legal
        array_view_def [abs_def])
  ultimately show thesis using arr' that by blast
qed

text \<open>An entry with a negative index, reached after entries that fit, is refused.\<close>

lemma apply_updates_negative:
  assumes "wf_array arr bits"
    and "\<And>u. u \<in> set us \<Longrightarrow> legal_status (se_status u) \<and> (0 \<le> se_index u \<longrightarrow> fits arr bits u)"
    and "\<exists>u \<in> set us. se_index u < 0"
  shows "apply_updates arr us bits = Err InvalidIndex"
  using assms
proof (induction us arbitrary: arr)
  case (Cons u us)
  show ?case
  proof (cases "se_index u < 0")
    case True
    then show ?thesis by (simp add: apply_update_def)
  next
    case False
    obtain arr1 where step: "apply_update arr u bits = Ok arr1" "length arr1 = length arr"
      and slots: "\<And>i. slot arr1 bits i = (if i = nat (se_index u) then value_of (se_status u) else slot arr bits i)"
      and pad: "\<And>k. 8 * length arr div bits * bits \<le> k \<Longrightarrow> abit arr1 k = abit arr k"
      using apply_update_slots [OF wf_arrayD(1,2) [OF Cons.prems(1)], of u arr] False Cons.prems(2) by force
    have "legal_status (se_status u)" using Cons.prems(2) by simp
    then have "wf_array arr1 bits"
      using wf_arrayD [OF Cons.prems(1)]
      by (auto simp: wf_array_def list_all_iff step(2) slots pad legal_value_of
          wf_array_legal [OF Cons.prems(1)])
    moreover have "\<And>w. w \<in> set us \<Longrightarrow> legal_status (se_status w) \<and> (0 \<le> se_index w \<longrightarrow> fits arr1 bits w)"
      using Cons.prems(2) step(2) by (simp add: fits_def)
    moreover have "\<exists>w \<in> set us. se_index w < 0" using Cons.prems(3) False by auto
    ultimately show ?thesis using Cons.IH step(1) by simp
  qed
qed simp

lemma wf_array_zeros:
  assumes "0 < bits" "bits \<le> 32" "m < 2 ^ 31"
  shows "wf_array (replicate (array_len bits m) 0) bits"
    "array_view (replicate (array_len bits m) 0) bits = (\<lambda>_. Valid)"
proof -
  have zero: "slot (replicate n 0) bits i = 0" for n i
    by (rule bit_word_eqI) (simp add: bit_slot_iff abit_replicate_zero)
  then show "array_view (replicate (array_len bits m) 0) bits = (\<lambda>_. Valid)"
    by (simp add: array_view_def status_of_def fun_eq_iff)
  show "wf_array (replicate (array_len bits m) 0) bits"
    unfolding wf_array_def length_replicate
    using assms array_len_mod [OF assms(1), of m] array_len_count [OF assms(1,3)] zero
    by (simp add: list_all_iff abit_replicate_zero legal_value_def)
qed

lemma length_grow: "length (grow arr n) = max (length arr) n"
  by (simp add: grow_def)

lemma abit_grow [bit_view]: "abit (grow arr n) = abit arr"
  by (simp add: grow_def abit_append_zeros fun_eq_iff)

lemma wf_array_grow:
  assumes "wf_array arr bits" "m < 2 ^ 31"
  shows "wf_array (grow arr (array_len bits m)) bits"
    "array_view (grow arr (array_len bits m)) bits = array_view arr bits"
proof -
  note wf = wf_arrayD [OF assms(1)]
  let ?arr = "grow arr (array_len bits m)"
  have slots: "slot ?arr bits i = slot arr bits i" for i
    by (rule slot_cong) (simp add: abit_grow)
  then show "array_view ?arr bits = array_view arr bits"
    by (simp add: array_view_def fun_eq_iff)
  have len: "length ?arr = length arr \<or> length ?arr = array_len bits m"
    and ge: "length arr \<le> length ?arr" by (auto simp: length_grow)
  have "8 * length ?arr mod bits < 8 \<and> 8 * length ?arr div bits \<le> 2 ^ 31"
    using len wf(3,4) array_len_mod [OF wf(1), of m] array_len_count [OF wf(1) assms(2)] by (elim disjE) simp_all
  moreover have "\<not> abit ?arr k" if "8 * length ?arr div bits * bits \<le> k" for k
  proof -
    have "8 * length arr div bits * bits \<le> 8 * length ?arr div bits * bits"
      using ge by (intro mult_le_mono1 div_le_mono) simp
    then have "8 * length arr div bits * bits \<le> k" using that by (rule order_trans)
    then show ?thesis using wf(6) by (simp add: abit_grow)
  qed
  ultimately show "wf_array ?arr bits"
    using wf(1,2) by (simp add: wf_array_def list_all_iff slots wf_array_legal [OF assms(1)])
qed

lemma fits_array_len:
  assumes "0 < bits" "unat (value_of (se_status u)) < 2 ^ bits" "nat (se_index u) \<le> m"
    and "array_len bits m \<le> length arr"
  shows "fits arr bits u"
proof -
  have "Suc (nat (se_index u)) * bits \<le> Suc m * bits" using assms(3) by (intro mult_le_mono1) simp
  also have "\<dots> \<le> 8 * array_len bits m" by (rule array_len_bounds(1) [OF assms(1)])
  also have "\<dots> \<le> 8 * length arr" using assms(4) by simp
  finally show ?thesis using assms(2) by (simp add: fits_def)
qed

section \<open>Stored lists\<close>

definition codec_ok :: "codec \<Rightarrow> bool" where
  "codec_ok cx \<longleftrightarrow>
     (\<forall>bs. zlib_write_all cx bs = Inr ()
        \<and> (\<exists>z. zlib_finish cx bs = Inr z \<and> zlib_read_to_end cx z = Inr bs)
        \<and> base64url_decode cx (base64url_encode cx bs) = Inr bs)"

definition codec_empty_ok :: "codec \<Rightarrow> bool" where
  "codec_empty_ok cx \<longleftrightarrow> base64url_decode cx '''' = Inr [] \<and> zlib_read_to_end cx [] = Inr []"

lemma encode_decode:
  assumes "codec_ok cx"
  obtains s where "encode_compressed cx bs = Ok s" "decode_compressed cx s = Ok bs"
proof -
  obtain z where z: "zlib_finish cx bs = Inr z" "zlib_read_to_end cx z = Inr bs"
    using assms by (auto simp: codec_ok_def)
  then have "encode_compressed cx bs = Ok (base64url_encode cx z)"
    "decode_compressed cx (base64url_encode cx z) = Ok bs"
    using assms by (auto simp: codec_ok_def encode_compressed_def decode_compressed_def)
  then show thesis by (rule that)
qed

text \<open>The packed array a stored list decodes to, and the statuses it holds.\<close>

definition wf_list :: "codec \<Rightarrow> status_list \<Rightarrow> bool" where
  "wf_list cx sl \<longleftrightarrow>
     (case decode_compressed cx (sl_lst sl) of Ok arr \<Rightarrow> wf_array arr (unat (sl_bits sl)) | _ \<Rightarrow> False)"

definition list_view :: "codec \<Rightarrow> status_list \<Rightarrow> status_map" where
  "list_view cx sl =
     (case decode_compressed cx (sl_lst sl) of
        Ok arr \<Rightarrow> array_view arr (unat (sl_bits sl)) | _ \<Rightarrow> (\<lambda>_. Valid))"

lemma wf_listE:
  assumes "wf_list cx sl"
  obtains arr where "decode_compressed cx (sl_lst sl) = Ok arr" "wf_array arr (unat (sl_bits sl))"
    "list_view cx sl = array_view arr (unat (sl_bits sl))"
  using assms by (auto simp: wf_list_def list_view_def split: outcome.splits)

lemma wf_listI:
  assumes "decode_compressed cx s = Ok arr" "wf_array arr bits"
  shows "wf_list cx \<lparr>sl_bits = of_nat bits, sl_lst = s\<rparr>"
    "list_view cx \<lparr>sl_bits = of_nat bits, sl_lst = s\<rparr> = array_view arr bits"
  using assms wf_arrayD(2) [OF assms(2)]
  by (auto simp: wf_list_def list_view_def unat_of_nat)

lemma legal_entries_max_index:
  assumes "us \<noteq> []" and "list_all legal_entry us"
  shows "0 \<le> max_index us" "nat (max_index us) < 2 ^ 31"
  using max_index_in [OF assms(1)] assms(2) by (auto simp: legal_entry_def list_all_iff)

lemma nat_index_le: "u \<in> set us \<Longrightarrow> nat (se_index u) \<le> nat (max_index us)"
  by (intro nat_mono max_index_ge)

text \<open>Packing entries into a zeroed array of the computed size.\<close>

lemma create_with_bits_Ok:
  assumes "codec_ok cx" "us \<noteq> []" "list_all legal_entry us"
    and "0 < bits" "bits \<le> 32" "\<And>u. u \<in> set us \<Longrightarrow> unat (value_of (se_status u)) < 2 ^ bits"
  obtains sl where "create_with_bits cx us bits = Ok sl" "wf_list cx sl"
    "list_view cx sl = set_statuses us (\<lambda>_. Valid)" "sl_bits sl = of_nat bits"
    "omap length (decode_compressed cx (sl_lst sl)) = Ok (array_len bits (nat (max_index us)))"
proof -
  let ?m = "nat (max_index us)"
  note m = legal_entries_max_index [OF assms(2,3)]
  note zeros = wf_array_zeros [OF assms(4,5) m(2)]
  have "legal_entry u \<and> fits (replicate (array_len bits ?m) 0) bits u" if "u \<in> set us" for u
    using that assms(3,6) fits_array_len [OF assms(4), of u ?m] nat_index_le
    by (auto simp: list_all_iff)
  then obtain arr where arr: "apply_updates (replicate (array_len bits ?m) 0) us bits = Ok arr"
    "wf_array arr bits" "array_view arr bits = set_statuses us (\<lambda>_. Valid)" "length arr = array_len bits ?m"
    using apply_updates_wf [OF zeros(1)] unfolding zeros(2) length_replicate by blast
  obtain s where s: "encode_compressed cx arr = Ok s" "decode_compressed cx s = Ok arr"
    using encode_decode [OF assms(1)] by blast
  have "create_with_bits cx us bits = Ok \<lparr>sl_bits = of_nat bits, sl_lst = s\<rparr>"
    using arr(1) s(1) assms(2,4) m(1) by (simp add: create_with_bits_def calculate_array_size_Ok)
  from that [OF this] show thesis by (simp add: wf_listI [OF s(2) arr(2)] arr(3,4) s(2))
qed

lemma create_eq_create_with_bits:
  "us \<noteq> [] \<Longrightarrow> create cx us = obind (determine_bits us None) (create_with_bits cx us)"
  by (simp add: create_def create_with_bits_def [abs_def])

lemma legal_entries_statuses: "list_all legal_entry us \<Longrightarrow> u \<in> set us \<Longrightarrow> legal_status (se_status u)"
  by (simp add: list_all_iff legal_entry_def)

lemma create_nonempty:
  assumes "codec_ok cx" "us \<noteq> []" "list_all legal_entry us"
  obtains sl where "create cx us = Ok sl" "wf_list cx sl"
    "list_view cx sl = set_statuses us (\<lambda>_. Valid)" "sl_bits sl = of_nat (width_of (max_value us))"
    "omap length (decode_compressed cx (sl_lst sl)) =
       Ok (array_len (width_of (max_value us)) (nat (max_index us)))"
proof -
  have "determine_bits us None = Ok (width_of (max_value us))"
    using determine_bits_legal [OF assms(2) legal_entries_statuses [OF assms(3)], where original = None] by simp
  with create_eq_create_with_bits [OF assms(2)]
  have "create cx us = create_with_bits cx us (width_of (max_value us))" by simp
  moreover obtain sl where "create_with_bits cx us (width_of (max_value us)) = Ok sl" "wf_list cx sl"
    "list_view cx sl = set_statuses us (\<lambda>_. Valid)" "sl_bits sl = of_nat (width_of (max_value us))"
    "omap length (decode_compressed cx (sl_lst sl)) =
       Ok (array_len (width_of (max_value us)) (nat (max_index us)))"
    using create_with_bits_Ok [OF assms width_of_bounds(2,3), of "max_value us"] value_fits_width by blast
  ultimately show thesis by (intro that [of sl]) simp_all
qed

text \<open>Widening: the decoded statuses become entries at their positions, written first.\<close>

lemma set_entries_of_statuses:
  "u \<in> set (entries_of_statuses ss) \<longleftrightarrow>
     (\<exists>i < length ss. u = \<lparr>se_index = usize_as_i32 i, se_status = ss ! i\<rparr>)"
  by (auto simp: entries_of_statuses_def in_set_enumerate_eq image_iff Bex_def
      intro!: exI [of _ "(i, ss ! i)" for i])

lemma set_statuses_append: "set_statuses (us @ ws) f = set_statuses ws (set_statuses us f)"
  by (simp add: set_statuses_def)

lemma entries_of_statuses_snoc:
  "entries_of_statuses (ss @ [s]) =
     entries_of_statuses ss @ [\<lparr>se_index = usize_as_i32 (length ss), se_status = s\<rparr>]"
  by (simp add: entries_of_statuses_def enumerate_append_eq)

lemma set_statuses_entries:
  assumes "length ss \<le> 2 ^ 31"
  shows "set_statuses (entries_of_statuses ss) f = (\<lambda>i. if i < length ss then ss ! i else f i)"
  using assms
proof (induction ss rule: rev_induct)
  case Nil
  then show ?case by (simp add: entries_of_statuses_def set_statuses_def)
next
  case (snoc s ss)
  then have "usize_as_i32 (length ss) = int (length ss)" by (intro usize_as_i32_id) simp
  with snoc show ?case
    by (auto simp: entries_of_statuses_snoc set_statuses_append set_statuses_def [of "[_]"]
        set_status_def nth_append fun_eq_iff less_Suc_eq)
qed

lemma entries_of_array_legal:
  assumes "wf_array arr bits" "u \<in> set (entries_of_statuses (map (array_view arr bits) [0..<8 * length arr div bits]))"
  shows "legal_entry u" "unat (value_of (se_status u)) < 2 ^ bits"
proof -
  let ?c = "8 * length arr div bits"
  obtain i where i: "i < ?c" "u = \<lparr>se_index = usize_as_i32 i, se_status = array_view arr bits i\<rparr>"
    using assms(2) by (auto simp: set_entries_of_statuses)
  have "i < 2 ^ 31" using i(1) wf_arrayD(4) [OF assms(1)] by linarith
  then show "legal_entry u"
    using i by (simp add: legal_entry_def usize_as_i32_id array_view_def legal_status_of wf_array_legal [OF assms(1)])
  show "unat (value_of (se_status u)) < 2 ^ bits"
    using i(2) by (simp add: array_view_slot [OF assms(1)] unat_slot_less)
qed

definition new_width :: "status_list \<Rightarrow> status_entry list \<Rightarrow> nat" where
  "new_width sl us = max (unat (sl_bits sl)) (width_of (max_value us))"

lemma new_width_bounds:
  assumes "wf_list cx sl"
  shows "0 < new_width sl us" "new_width sl us \<le> 32" "unat (sl_bits sl) \<le> new_width sl us"
    "u \<in> set us \<Longrightarrow> unat (value_of (se_status u)) < 2 ^ new_width sl us"
proof -
  obtain arr where "wf_array arr (unat (sl_bits sl))" using assms by (rule wf_listE)
  note old = wf_arrayD(1,2) [OF this]
  show "0 < new_width sl us" "new_width sl us \<le> 32" "unat (sl_bits sl) \<le> new_width sl us"
    using old width_of_bounds(2,3) [of "max_value us"] by (simp_all add: new_width_def)
  show "u \<in> set us \<Longrightarrow> unat (value_of (se_status u)) < 2 ^ new_width sl us"
    by (rule value_fits_width [of u us]) (simp_all add: new_width_def)
qed

lemma list_view_entries:
  assumes "wf_array arr bits"
  shows "set_statuses (entries_of_statuses (map (array_view arr bits) [0..<8 * length arr div bits])) (\<lambda>_. Valid)
           = array_view arr bits"
  using wf_arrayD(4) [OF assms]
  by (auto simp: set_statuses_entries fun_eq_iff array_view_outside [OF assms] not_less)

lemma entries_value_less:
  assumes "wf_array arr bits" "bits \<le> b"
    "u \<in> set (entries_of_statuses (map (array_view arr bits) [0..<8 * length arr div bits]))"
  shows "unat (value_of (se_status u)) < 2 ^ b"
  using entries_of_array_legal(2) [OF assms(1,3)] power_increasing [OF assms(2), of "2::nat"] by linarith

lemma update_unfold:
  assumes "wf_list cx sl" "us \<noteq> []" "\<And>u. u \<in> set us \<Longrightarrow> legal_status (se_status u)"
    and "decode_compressed cx (sl_lst sl) = Ok arr"
  shows "update cx sl us =
     (if unat (sl_bits sl) < new_width sl us
      then create_with_bits cx (entries_of_statuses (map (array_view arr (unat (sl_bits sl)))
             [0..<8 * length arr div unat (sl_bits sl)]) @ us) (new_width sl us)
      else obind (calculate_array_size us (unat (sl_bits sl))) (\<lambda>n.
           obind (apply_updates (grow arr n) us (unat (sl_bits sl))) (\<lambda>arr.
           obind (encode_compressed cx arr) (\<lambda>s. Ok \<lparr>sl_bits = sl_bits sl, sl_lst = s\<rparr>))))"
proof -
  have "wf_array arr (unat (sl_bits sl))" using wf_listE [OF assms(1)] assms(4) by auto
  then show ?thesis
    using assms(2,4) determine_bits_legal [OF assms(2,3), where original = "Some (unat (sl_bits sl))"]
    by (simp add: update_def Let_def new_width_def decode_wf_array max_def)
qed

lemma update_nonempty:
  assumes "codec_ok cx" "wf_list cx sl" "us \<noteq> []" "list_all legal_entry us"
  obtains sl' where "update cx sl us = Ok sl'" "wf_list cx sl'"
    "list_view cx sl' = set_statuses us (list_view cx sl)" "unat (sl_bits sl') = new_width sl us"
proof -
  let ?old = "unat (sl_bits sl)" and ?new = "new_width sl us" and ?m = "nat (max_index us)"
  obtain arr where arr: "decode_compressed cx (sl_lst sl) = Ok arr" "wf_array arr ?old"
    "list_view cx sl = array_view arr ?old"
    using assms(2) by (rule wf_listE)
  note width = new_width_bounds [OF assms(2), where us = us]
  note m = legal_entries_max_index [OF assms(3,4)]
  note unfolded = update_unfold [OF assms(2,3) legal_entries_statuses [OF assms(4)] arr(1), OF _]
  show thesis
  proof (cases "?old < ?new")
    case True
    let ?es = "entries_of_statuses (map (array_view arr ?old) [0..<8 * length arr div ?old])"
    have "list_all legal_entry (?es @ us)"
      using assms(4) entries_of_array_legal(1) [OF arr(2)] by (auto simp: list_all_iff)
    moreover have "unat (value_of (se_status u)) < 2 ^ ?new" if "u \<in> set (?es @ us)" for u
      using that width(3,4) entries_value_less [OF arr(2)] by auto
    ultimately obtain sl' where "create_with_bits cx (?es @ us) ?new = Ok sl'" "wf_list cx sl'"
      "list_view cx sl' = set_statuses (?es @ us) (\<lambda>_. Valid)" "sl_bits sl' = of_nat ?new"
      using create_with_bits_Ok [OF assms(1) _ _ width(1,2), of "?es @ us"] assms(3) by auto
    with True show thesis
      using width(2) by (intro that [of sl'])
        (simp_all add: unfolded set_statuses_append list_view_entries [OF arr(2)] arr(3) unat_of_nat)
  next
    case False
    then have same: "?new = ?old" using width(3) by simp
    have "0 < ?old" using width(1) same by simp
    note size = calculate_array_size_Ok [OF assms(3) m(1) this]
    note grown = wf_array_grow [OF arr(2) m(2)]
    have "legal_entry u \<and> fits (grow arr (array_len ?old ?m)) ?old u" if "u \<in> set us" for u
      using that assms(4) width(4) same \<open>0 < ?old\<close> fits_array_len [OF \<open>0 < ?old\<close>, of u ?m] nat_index_le
      by (auto simp: list_all_iff length_grow)
    then obtain arr' where arr': "apply_updates (grow arr (array_len ?old ?m)) us ?old = Ok arr'"
      "wf_array arr' ?old" "array_view arr' ?old = set_statuses us (array_view arr ?old)"
      using apply_updates_wf [OF grown(1)] unfolding grown(2) by blast
    obtain s where s: "encode_compressed cx arr' = Ok s" "decode_compressed cx s = Ok arr'"
      using encode_decode [OF assms(1)] by blast
    show thesis
      using wf_listI [OF s(2) arr'(2)] arr'(1,3) s(1) size same
      by (intro that [of "\<lparr>sl_bits = sl_bits sl, sl_lst = s\<rparr>"]) (simp_all add: unfolded arr(3))
  qed
qed

lemma update_illegal_status:
  assumes "\<exists>u \<in> set us. \<not> legal_status (se_status u)"
  shows "update cx sl us = Err (InvalidStatusList ''ApplicationSpecific value must be >= 256'')"
    "create cx us = Err (InvalidStatusList ''ApplicationSpecific value must be >= 256'')"
  using assms determine_bits_illegal by (auto simp: update_def create_def Let_def)

text \<open>A negative index among legal statuses.\<close>

lemma pack_negative:
  assumes "wf_array arr bits" "us \<noteq> []" "\<And>u. u \<in> set us \<Longrightarrow> legal_status (se_status u)"
    and "\<And>u. u \<in> set us \<Longrightarrow> unat (value_of (se_status u)) < 2 ^ bits"
    and "\<And>u. u \<in> set us \<Longrightarrow> se_index u < 2 ^ 31"
    and "\<exists>u \<in> set us. se_index u < 0"
  shows "obind (calculate_array_size us bits) (\<lambda>n. obind (apply_updates (grow arr n) us bits) k)
           = Err InvalidIndex"
proof (cases "max_index us < 0")
  case True
  then show ?thesis using assms(2) by (simp add: calculate_array_size_negative)
next
  case False
  let ?m = "nat (max_index us)"
  have "max_index us < 2 ^ 31" using max_index_in [OF assms(2)] assms(5) by auto
  then have m: "?m < 2 ^ 31" by simp
  note pos = wf_arrayD(1) [OF assms(1)]
  have "legal_status (se_status u) \<and> (0 \<le> se_index u \<longrightarrow> fits (grow arr (array_len bits ?m)) bits u)"
    if "u \<in> set us" for u
    using that assms(3,4) fits_array_len [OF pos, of u ?m] nat_index_le by (auto simp: length_grow)
  then have "apply_updates (grow arr (array_len bits ?m)) us bits = Err InvalidIndex"
    using apply_updates_negative [OF wf_array_grow(1) [OF assms(1) m] _ assms(6)] by blast
  then show ?thesis using False by (simp add: calculate_array_size_Ok [OF assms(2) _ pos])
qed

lemma wf_array_Nil: "0 < bits \<Longrightarrow> bits \<le> 32 \<Longrightarrow> wf_array [] bits"
  by (simp add: wf_array_def)

lemma create_with_bits_negative:
  assumes "0 < bits" "bits \<le> 32" "us \<noteq> []" "\<And>u. u \<in> set us \<Longrightarrow> legal_status (se_status u)"
    and "\<And>u. u \<in> set us \<Longrightarrow> unat (value_of (se_status u)) < 2 ^ bits"
    and "\<And>u. u \<in> set us \<Longrightarrow> se_index u < 2 ^ 31"
    and "\<exists>u \<in> set us. se_index u < 0"
  shows "create_with_bits cx us bits = Err InvalidIndex"
proof -
  have "grow [] n = replicate n 0" for n by (simp add: grow_def)
  then show ?thesis
    using pack_negative [OF wf_array_Nil [OF assms(1,2)] assms(3-7)] by (simp add: create_with_bits_def)
qed

lemma create_negative:
  assumes "\<And>u. u \<in> set us \<Longrightarrow> legal_status (se_status u) \<and> se_index u < 2 ^ 31"
    and "\<exists>u \<in> set us. se_index u < 0"
  shows "create cx us = Err InvalidIndex"
proof -
  have us: "us \<noteq> []" using assms(2) by auto
  have "determine_bits us None = Ok (width_of (max_value us))"
    using determine_bits_legal [OF us, where original = None] assms(1) by simp
  moreover have "create_with_bits cx us (width_of (max_value us)) = Err InvalidIndex"
    using assms us by (intro create_with_bits_negative width_of_bounds(2,3)) (auto intro: value_fits_width)
  ultimately show ?thesis using us by (simp add: create_eq_create_with_bits)
qed

lemma update_negative:
  assumes "wf_list cx sl" "\<And>u. u \<in> set us \<Longrightarrow> legal_status (se_status u) \<and> se_index u < 2 ^ 31"
    and "\<exists>u \<in> set us. se_index u < 0"
  shows "update cx sl us = Err InvalidIndex"
proof -
  let ?old = "unat (sl_bits sl)" and ?new = "new_width sl us"
  have us: "us \<noteq> []" using assms(3) by auto
  obtain arr where arr: "decode_compressed cx (sl_lst sl) = Ok arr" "wf_array arr ?old"
    using assms(1) by (rule wf_listE)
  let ?es = "entries_of_statuses (map (array_view arr ?old) [0..<8 * length arr div ?old])"
  note width = new_width_bounds [OF assms(1), where us = us]
  have old: "legal_status (se_status u) \<and> se_index u < 2 ^ 31 \<and> unat (value_of (se_status u)) < 2 ^ ?new"
    if "u \<in> set ?es" for u
    using entries_of_array_legal(1) [OF arr(2) that] entries_value_less [OF arr(2) width(3) that]
    by (simp add: legal_entry_def)
  have "create_with_bits cx (?es @ us) ?new = Err InvalidIndex"
    using us assms(2,3) old width by (intro create_with_bits_negative) auto
  moreover have "obind (calculate_array_size us ?old) (\<lambda>n. obind (apply_updates (grow arr n) us ?old) k) = Err InvalidIndex"
    if "?new = ?old" for k
    using us assms(2,3) width(4) that by (intro pack_negative [OF arr(2)]) auto
  ultimately show ?thesis
    using update_unfold [OF assms(1) us _ arr(1)] assms(2) width(3) by auto
qed

lemma wf_empty_list: "codec_empty_ok cx \<Longrightarrow> wf_list cx \<lparr>sl_bits = 1, sl_lst = ''''\<rparr>"
  by (simp add: wf_list_def decode_compressed_def codec_empty_ok_def wf_array_def)

text \<open>Whatever the request, a result is well formed and there is no panic.\<close>

lemma legal_or_refused:
  assumes "list_all (\<lambda>u. in_i32 (se_index u)) us" and "\<not> list_all legal_entry us"
  shows "(\<exists>u \<in> set us. \<not> legal_status (se_status u))
     \<or> (\<forall>u \<in> set us. legal_status (se_status u) \<and> se_index u < 2 ^ 31) \<and> (\<exists>u \<in> set us. se_index u < 0)"
  using assms by (auto simp: list_all_iff legal_entry_def in_i32_def not_le)

lemma update_outcome_wf:
  assumes "codec_ok cx" "wf_list cx sl" "list_all (\<lambda>u. in_i32 (se_index u)) us"
  shows "(\<exists>sl'. update cx sl us = Ok sl' \<and> wf_list cx sl') \<or> (\<exists>e. update cx sl us = Err e)"
proof -
  consider "us = []" | "us \<noteq> []" "list_all legal_entry us" | "\<not> list_all legal_entry us" by blast
  then show ?thesis
  proof cases
    case 1
    then show ?thesis using assms(2) by (simp add: update_def)
  next
    case 2
    then show ?thesis using update_nonempty [OF assms(1,2), of us] by blast
  next
    case 3
    then show ?thesis
      using legal_or_refused [OF assms(3)] update_illegal_status(1) [of us cx sl] update_negative [OF assms(2), of us]
      by blast
  qed
qed

lemma create_outcome_wf:
  assumes "codec_ok cx" "codec_empty_ok cx" "list_all (\<lambda>u. in_i32 (se_index u)) us"
  shows "(\<exists>sl. create cx us = Ok sl \<and> wf_list cx sl) \<or> (\<exists>e. create cx us = Err e)"
proof -
  consider "us = []" | "us \<noteq> []" "list_all legal_entry us" | "\<not> list_all legal_entry us" by blast
  then show ?thesis
  proof cases
    case 1
    then show ?thesis using wf_empty_list [OF assms(2)] by (simp add: create_def)
  next
    case 2
    then show ?thesis using create_nonempty [OF assms(1), of us] by blast
  next
    case 3
    then show ?thesis
      using legal_or_refused [OF assms(3)] update_illegal_status(2) [of us cx] create_negative [of us cx] by blast
  qed
qed

lemma update_wf:
  "codec_ok cx \<Longrightarrow> wf_list cx sl \<Longrightarrow> list_all (\<lambda>u. in_i32 (se_index u)) us \<Longrightarrow>
   update cx sl us = Ok sl' \<Longrightarrow> wf_list cx sl'"
  using update_outcome_wf by fastforce

lemma update_not_Panic:
  "codec_ok cx \<Longrightarrow> wf_list cx sl \<Longrightarrow> list_all (\<lambda>u. in_i32 (se_index u)) us \<Longrightarrow> update cx sl us \<noteq> Panic"
  using update_outcome_wf by fastforce

lemma update_view:
  assumes "codec_ok cx" "wf_list cx sl" "list_all legal_entry us" "update cx sl us = Ok sl'"
  shows "wf_list cx sl' \<and> list_view cx sl' = set_statuses us (list_view cx sl)"
proof (cases "us = []")
  case True
  then show ?thesis using assms by (simp add: update_def set_statuses_def)
next
  case False
  then show ?thesis using update_nonempty [OF assms(1,2) False assms(3)] assms(4) by (metis outcome.inject(1))
qed

lemma create_wf:
  "codec_ok cx \<Longrightarrow> codec_empty_ok cx \<Longrightarrow> list_all (\<lambda>u. in_i32 (se_index u)) us \<Longrightarrow>
   create cx us = Ok sl \<Longrightarrow> wf_list cx sl"
  using create_outcome_wf by fastforce

lemma create_not_Panic:
  "codec_ok cx \<Longrightarrow> codec_empty_ok cx \<Longrightarrow> list_all (\<lambda>u. in_i32 (se_index u)) us \<Longrightarrow> create cx us \<noteq> Panic"
  using create_outcome_wf by fastforce

lemma list_view_empty: "codec_empty_ok cx \<Longrightarrow> list_view cx \<lparr>sl_bits = 1, sl_lst = ''''\<rparr> i = Valid"
  by (simp add: list_view_def decode_compressed_def codec_empty_ok_def array_view_def slot_past_end status_of_def)

lemma create_view:
  assumes "codec_ok cx" "codec_empty_ok cx" "list_all legal_entry us" "create cx us = Ok sl"
  shows "list_view cx sl = set_statuses us (\<lambda>i. Valid)"
proof (cases "us = []")
  case True
  then show ?thesis using assms(2,4) list_view_empty by (auto simp: create_def set_statuses_def)
next
  case False
  show ?thesis
    using create_nonempty [OF assms(1) False assms(3)] assms(4) by (metis outcome.inject(1))
qed

section \<open>Properties\<close>

definition is_status_width :: "nat \<Rightarrow> bool" where
  "is_status_width b \<longleftrightarrow> b = 1 \<or> b = 2 \<or> 9 \<le> b \<and> b \<le> 32"

text \<open>The entry that decides the status of an index is the last one that names it.\<close>

fun last_status :: "status_entry list \<Rightarrow> nat \<Rightarrow> status option" where
  "last_status [] i = None"
| "last_status (u # us) i =
     (case last_status us i of Some s \<Rightarrow> Some s
      | None \<Rightarrow> if nat (se_index u) = i then Some (se_status u) else None)"

lemma set_statuses_last:
  "set_statuses us f i = (case last_status us i of Some s \<Rightarrow> s | None \<Rightarrow> f i)"
proof (induction us arbitrary: f)
  case (Cons u us)
  have "set_statuses (u # us) f = set_statuses us (set_status u f)" by (simp add: set_statuses_def)
  with Cons show ?case by (auto simp: set_status_def split: option.splits)
qed (simp add: set_statuses_def)

lemma max_value_legal:
  assumes "us \<noteq> []" "\<And>u. u \<in> set us \<Longrightarrow> legal_status (se_status u)"
  shows "legal_value (max_value us)"
proof -
  have "max_value us \<in> (\<lambda>u. value_of (se_status u)) ` set us"
    using assms(1) Max_in [of "(\<lambda>u. value_of (se_status u)) ` set us"] by (simp add: max_value_def del: Max_in)
  then show ?thesis using assms(2) legal_value_of by auto
qed

lemma width_of_max_value:
  assumes "us \<noteq> []" "list_all legal_entry us"
  shows "is_status_width (width_of (max_value us))"
  using width_of_legal [OF max_value_legal [OF assms(1) legal_entries_statuses [OF assms(2)]]]
  by (auto simp: is_status_width_def)

text \<open>
  A codec for the examples: the text is the bytes themselves. It meets the contract of
  \<open>codec_ok\<close>.
\<close>

definition plain_codec :: codec where
  "plain_codec =
     \<lparr>base64url_encode = map (\<lambda>b. char_of (unat b)),
      base64url_decode = (\<lambda>s. Inr (map (\<lambda>c. word_of_nat (of_char c)) s)),
      zlib_write_all = (\<lambda>_. Inr ()), zlib_finish = Inr, zlib_read_to_end = Inr\<rparr>"

lemma word_of_nat_unat_mod: "word_of_nat (unat b mod 256) = (b :: u8)"
  using unsigned_less [of b, where ?'a = nat] by simp

lemma plain_codec_ok: "codec_ok plain_codec" "codec_empty_ok plain_codec"
  by (simp_all add: codec_ok_def codec_empty_ok_def plain_codec_def word_of_nat_unat_mod comp_def)

definition sample_entries :: "status_entry list" where
  "sample_entries =
     [\<lparr>se_index = 3, se_status = Suspended\<rparr>, \<lparr>se_index = 0, se_status = Invalid\<rparr>,
      \<lparr>se_index = 5, se_status = ApplicationSpecific 300\<rparr>]"

lemma sample_entries_legal: "list_all legal_entry sample_entries" "sample_entries \<noteq> []"
  by (simp_all add: sample_entries_def legal_entry_def)

text \<open>
  C2. An update with legal entries always succeeds on a well-formed list, leaves a well-formed
  list, and acts as specified: an index named by the request gets the status of the last entry
  that names it and every other index keeps its status, whether the list is packed in place,
  extended, or re-encoded at a larger width. The width never shrinks.
\<close>

theorem update_refines:
  assumes "codec_ok cx" and "wf_list cx sl" and "list_all legal_entry us"
  shows "\<exists>sl'. update cx sl us = Ok sl' \<and> wf_list cx sl'
           \<and> (\<forall>i. list_view cx sl' i =
                 (case last_status us i of Some s \<Rightarrow> s | None \<Rightarrow> list_view cx sl i))
           \<and> unat (sl_bits sl) \<le> unat (sl_bits sl')"
proof (cases "us = []")
  case True
  then show ?thesis using assms(2) by (simp add: update_def)
next
  case False
  obtain sl' where "update cx sl us = Ok sl'" "wf_list cx sl'"
    "list_view cx sl' = set_statuses us (list_view cx sl)" "unat (sl_bits sl') = new_width sl us"
    using update_nonempty [OF assms(1,2) False assms(3)] .
  then show ?thesis by (auto simp: set_statuses_last new_width_def)
qed

theorem update_refines_witness:
  "\<exists>sl'. update plain_codec \<lparr>sl_bits = 1, sl_lst = ''''\<rparr> sample_entries = Ok sl'
     \<and> list_view plain_codec sl' 5 = ApplicationSpecific 300"
  using update_refines [OF plain_codec_ok(1) wf_empty_list [OF plain_codec_ok(2)] sample_entries_legal(1)]
  by (auto simp: sample_entries_def)



text \<open>
  C17. Every refusal, and no panic: a request with an illegal status is refused as an invalid
  status list before anything else is looked at; otherwise one with a negative index is refused
  as an invalid index. This holds of updates to well-formed lists and of creation alike.
\<close>

theorem update_create_refusals:
  assumes "wf_list cx sl" and "list_all (\<lambda>u. in_i32 (se_index u)) us"
    and "\<not> list_all legal_entry us"
  shows "update cx sl us = create cx us
     \<and> create cx us =
         Err (if list_all (\<lambda>u. legal_status (se_status u)) us then InvalidIndex
              else InvalidStatusList ''ApplicationSpecific value must be >= 256'')"
proof (cases "list_all (\<lambda>u. legal_status (se_status u)) us")
  case True
  with legal_or_refused [OF assms(2,3)]
  have "\<exists>u \<in> set us. se_index u < 0" "\<And>u. u \<in> set us \<Longrightarrow> legal_status (se_status u) \<and> se_index u < 2 ^ 31"
    by (auto simp: list_all_iff)
  then show ?thesis using True update_negative [OF assms(1)] create_negative by simp
next
  case False
  then have "\<exists>u \<in> set us. \<not> legal_status (se_status u)" by (auto simp: list_all_iff)
  with False show ?thesis using update_illegal_status by simp
qed

theorem update_create_refusals_witness:
  "update plain_codec \<lparr>sl_bits = 1, sl_lst = ''''\<rparr> [\<lparr>se_index = 7, se_status = Invalid\<rparr>,
      \<lparr>se_index = -1, se_status = Valid\<rparr>] = Err InvalidIndex"
  using update_create_refusals [OF wf_empty_list [OF plain_codec_ok(2)],
      of "[\<lparr>se_index = 7, se_status = Invalid\<rparr>, \<lparr>se_index = -1, se_status = Valid\<rparr>]"]
  by (simp add: in_i32_def legal_entry_def)

text \<open>
  C13. Round trip: the array text a created list stores decodes, and reading it with the stored
  width returns the requested statuses in index order. The array reaches the largest index and
  has no byte more than its slots need.
\<close>

theorem create_decode_roundtrip:
  assumes "codec_ok cx" and "us \<noteq> []" and "list_all legal_entry us"
  shows "\<exists>sl arr ss. create cx us = Ok sl \<and> decode_compressed cx (sl_lst sl) = Ok arr
     \<and> decode_status_array arr (unat (sl_bits sl)) = Ok ss
     \<and> nat (max_index us) < length ss
     \<and> (\<forall>i < length ss. ss ! i = (case last_status us i of Some s \<Rightarrow> s | None \<Rightarrow> Valid))
     \<and> 8 * length arr < Suc (nat (max_index us)) * unat (sl_bits sl) + 8"
proof -
  let ?w = "width_of (max_value us)" and ?m = "nat (max_index us)"
  obtain sl where sl: "create cx us = Ok sl" "wf_list cx sl"
    "list_view cx sl = set_statuses us (\<lambda>_. Valid)" "sl_bits sl = of_nat ?w"
    "omap length (decode_compressed cx (sl_lst sl)) = Ok (array_len ?w ?m)"
    using create_nonempty [OF assms] .
  have w: "unat (sl_bits sl) = ?w"
    using width_of_bounds(3) [of "max_value us"] sl(4) by (simp add: unat_of_nat)
  obtain arr where arr: "decode_compressed cx (sl_lst sl) = Ok arr" "wf_array arr ?w"
    "list_view cx sl = array_view arr ?w"
    using wf_listE [OF sl(2)] w by metis
  have len: "length arr = array_len ?w ?m" using sl(5) arr(1) by simp
  note bounds = array_len_bounds [OF width_of_bounds(2) [of "max_value us"], of ?m]
  have "Suc ?m \<le> 8 * length arr div ?w"
    using bounds(1) width_of_bounds(2) [of "max_value us"] by (simp add: len less_eq_div_iff_mult_less_eq)
  moreover have "array_view arr ?w i = (case last_status us i of Some s \<Rightarrow> s | None \<Rightarrow> Valid)" for i
    using sl(3) arr(3) by (simp add: set_statuses_last)
  ultimately show ?thesis
    using sl(1) arr(1) decode_wf_array [OF arr(2)] bounds(2) by (auto simp: w len)
qed

theorem create_decode_roundtrip_witness:
  "\<exists>sl arr ss. create plain_codec sample_entries = Ok sl
     \<and> decode_compressed plain_codec (sl_lst sl) = Ok arr
     \<and> decode_status_array arr (unat (sl_bits sl)) = Ok ss \<and> ss ! 5 = ApplicationSpecific 300"
proof -
  have "nat (max_index sample_entries) = 5" by (simp add: max_index_def sample_entries_def)
  then show ?thesis
    using create_decode_roundtrip [OF plain_codec_ok(1) sample_entries_legal(2,1)]
    by (auto simp: sample_entries_def)
qed

text \<open>
  C18. Reading any byte array, damaged ones included, at any supported width: it never panics;
  an array with an unused trailing byte is refused, then one with a slot in the reserved range
  3 to 255; every other array yields the status of each of its slots.
\<close>

theorem decode_status_array_spec:
  assumes "0 < bits" and "bits \<le> 32"
  shows "decode_status_array arr bits =
     (if 8 \<le> 8 * length arr mod bits
      then Err (CorruptStoredList (''stored status array of '' @ show_nat (length arr)
             @ '' bytes leaves an unused trailing byte at '' @ show_nat bits @ ''-bit width''))
      else if list_all (\<lambda>i. legal_value (slot arr bits i)) [0..<8 * length arr div bits]
      then Ok (map (\<lambda>i. status_of (slot arr bits i)) [0..<8 * length arr div bits])
      else Err (CorruptStoredList ''Invalid status value in existing list''))"
proof -
  let ?f = "\<lambda>i. status_from_value (slot arr bits i)" and ?is = "[0..<8 * length arr div bits]"
  have "collect ?f is =
     (if list_all (\<lambda>i. legal_value (slot arr bits i)) is
      then Ok (map (\<lambda>i. status_of (slot arr bits i)) is)
      else Err (CorruptStoredList ''Invalid status value in existing list''))" for "is"
  proof (induction "is")
    case (Cons i "is")
    then show ?case
      by (cases "legal_value (slot arr bits i)") (simp_all add: status_from_value_legal status_from_value_illegal)
  qed simp
  note slots = this
  show ?thesis
  proof (cases "8 \<le> 8 * length arr mod bits")
    case True
    with assms(1) show ?thesis by (simp add: decode_status_array_def mult.commute)
  next
    case False
    then show ?thesis using assms slots by (simp add: decode_status_array_slots)
  qed
qed

theorem decode_status_array_spec_witness:
  "decode_status_array [3] 8 = Err (CorruptStoredList ''Invalid status value in existing list'')"
  using decode_status_array_spec [of 8 "[3]"] by (simp add: slot_def abit_def legal_value_def upt_rec)

end
