(* ===== verification/Service_Spec.thy ===== *)
theory Service_Spec
  imports Service Status_List_Spec
begin

text \<open>
  What the domain service promises over any ports that meet their contracts: the effect of
  every operation on the abstract store, what each error leaves behind, and the invariant of
  the store that all operations keep.
\<close>

definition new_record ::
  "ambient \<Rightarrow> string \<Rightarrow> issuer \<Rightarrow> string \<Rightarrow> status_list \<Rightarrow> status_list_record" where
  "new_record amb list_id issuer sub sl =
     \<lparr>slr_list_id = list_id, slr_issuer = issuer, slr_status_list = sl, slr_sub = sub,
      slr_updated_at = amb_now amb\<rparr>"

text \<open>
  The invariant of the store: lists, cached records and snapshots sit under their own
  identifiers and hold well-formed status lists.
\<close>

definition record_ok :: "codec \<Rightarrow> string \<Rightarrow> status_list_record \<Rightarrow> bool" where
  "record_ok cx k r \<longleftrightarrow> slr_list_id r = k \<and> wf_list cx (slr_status_list r)"

definition snapshot_ok :: "codec \<Rightarrow> string \<Rightarrow> status_list_snapshot \<Rightarrow> bool" where
  "snapshot_ok cx k sn \<longleftrightarrow> sn_snapshot_id sn = k \<and> wf_list cx (sn_status_list sn)"

definition store_ok :: "codec \<Rightarrow> store \<Rightarrow> bool" where
  "store_ok cx st \<longleftrightarrow>
     (\<forall>k r. st_lists st k = Some r \<longrightarrow> record_ok cx k r)
     \<and> (\<forall>k r. st_cache st k = Some r \<longrightarrow> record_ok cx k r)
     \<and> (\<forall>k sn. st_snaps st k = Some sn \<longrightarrow> snapshot_ok cx k sn)
     \<and> (\<forall>k c. st_creds st k = Some c \<longrightarrow> cr_issuer c = k)"

lemma store_okD:
  assumes "store_ok cx st"
  shows "st_lists st k = Some r \<Longrightarrow> slr_list_id r = k \<and> wf_list cx (slr_status_list r)"
    and "st_cache st k = Some r \<Longrightarrow> slr_list_id r = k \<and> wf_list cx (slr_status_list r)"
  using assms by (auto simp: store_ok_def record_ok_def)

lemma store_ok_put_list:
  "store_ok cx st \<Longrightarrow> wf_list cx (slr_status_list r) \<Longrightarrow> store_ok cx (put_list r st)"
  by (auto simp: store_ok_def put_list_def record_ok_def)

lemma store_ok_put_snap:
  "store_ok cx st \<Longrightarrow> wf_list cx (sn_status_list sn) \<Longrightarrow> store_ok cx (put_snap sn st)"
  by (auto simp: store_ok_def put_snap_def snapshot_ok_def)

lemma store_ok_recorded:
  "store_ok cx st \<Longrightarrow> wf_list cx (slr_status_list r) \<Longrightarrow> store_ok cx (recorded sv amb r n st)"
  by (simp add: recorded_def store_ok_put_list store_ok_put_snap)

lemma store_ok_cache:
  assumes "store_ok cx st" and "c \<subseteq>\<^sub>m st_cache st"
  shows "store_ok cx (st\<lparr>st_cache := c\<rparr>)"
proof -
  have "st_cache st k = Some r" if "c k = Some r" for k r
    using assms(2) that by (metis domI map_le_def)
  then show ?thesis using assms(1) by (auto simp: store_ok_def)
qed

lemma store_ok_cache_put:
  assumes "store_ok cx st" and "c \<subseteq>\<^sub>m (st_cache st)(slr_list_id r \<mapsto> r)" and "record_ok cx k r"
  shows "store_ok cx (st\<lparr>st_cache := c\<rparr>)"
proof -
  have "record_ok cx k' r'" if "c k' = Some r'" for k' r'
  proof -
    have "((st_cache st)(slr_list_id r \<mapsto> r)) k' = Some r'"
      using assms(2) that by (metis domI map_le_def)
    then show ?thesis
      using assms(1,3) by (auto simp: store_ok_def record_ok_def split: if_splits)
  qed
  then show ?thesis using assms(1) by (auto simp: store_ok_def)
qed

lemma store_ok_creds:
  "store_ok cx st \<Longrightarrow> store_ok cx (put_cred c st)"
  by (auto simp: store_ok_def put_cred_def)

lemma store_ok_restrict_snaps:
  "store_ok cx st \<Longrightarrow> store_ok cx (st\<lparr>st_snaps := st_snaps st |` ks\<rparr>)"
  by (auto simp: store_ok_def restrict_map_def split: if_splits)

section \<open>The operations over the contracts\<close>

locale service_contract =
  list_repo_contract "sv_status_list_repo sv" view ok +
  cache_contract "sv_status_list_cache sv" view ok +
  credential_repo_contract "sv_credential_repo sv" view ok norm
  for sv :: "'s service" and view :: "'s \<Rightarrow> store" and ok :: "'s \<Rightarrow> bool"
    and norm :: "public_jwk \<Rightarrow> public_jwk" +
  assumes snapshot_repo_law: "sv_snapshot_repo sv = Some sr \<Longrightarrow> snapshot_repo_contract sr view ok"
begin

lemma insert_recorded:
  assumes "ok s" "run (insert_record amb sv r n) s = (res, s')"
  shows "ok s' \<and> (case res of
      Ok _ \<Rightarrow> st_lists (view s) (slr_list_id r) = None \<and> view s' = recorded sv amb r n (view s)
    | Err e \<Rightarrow> failed_write e (view s) (st_lists (view s) (slr_list_id r) = None)
                 (recorded sv amb r n (view s)) (view s')
    | Panic \<Rightarrow> False)"
proof (cases "snapshots_enabled sv")
  case True
  with assms have "ok s' \<and> insert_post r (put_snap (build_snapshot (amb_uuid amb) r n)) (view s) res (view s')"
    using insert_with_snapshot_law by (simp add: insert_record_def)
  then show ?thesis using True by (auto simp: insert_post_def recorded_def split: outcome.splits)
next
  case False
  with assms have "ok s' \<and> insert_post r id (view s) res (view s')"
    using insert_law by (simp add: insert_record_def)
  then show ?thesis using False by (auto simp: insert_post_def recorded_def split: outcome.splits)
qed

lemma update_recorded:
  assumes "ok s" "run (update_record amb sv r e n) s = (res, s')"
  shows "ok s' \<and> (case res of
      Ok landed \<Rightarrow> landed = guard_matches (view s) (slr_list_id r) e
        \<and> view s' = (if landed then recorded sv amb r n (view s) else view s)
    | Err err \<Rightarrow> failed_write err (view s) (guard_matches (view s) (slr_list_id r) e)
                 (recorded sv amb r n (view s)) (view s')
    | Panic \<Rightarrow> False)"
proof (cases "snapshots_enabled sv")
  case True
  with assms have "ok s' \<and> update_post r e (put_snap (build_snapshot (amb_uuid amb) r n)) (view s) res (view s')"
    using update_with_snapshot_law by (simp add: update_record_def)
  then show ?thesis using True by (auto simp: update_post_def recorded_def split: outcome.splits bool.splits)
next
  case False
  with assms have "ok s' \<and> update_post r e id (view s) res (view s')"
    using update_law by (simp add: update_record_def)
  then show ?thesis using False by (auto simp: update_post_def recorded_def split: outcome.splits bool.splits)
qed

lemma publish_outcome:
  assumes "ok s" "run (publish_status_list amb sv k iss sub us n mi mn ms) s = (res, s')"
  shows "ok s' \<and> (case res of
      Ok r \<Rightarrow> check_limits us mi mn = Ok () \<and> create (amb_codec amb) us = Ok (slr_status_list r)
        \<and> length (sl_lst (slr_status_list r)) \<le> ms
        \<and> r = new_record amb k iss sub (slr_status_list r)
        \<and> st_lists (view s) k = None \<and> view s' = recorded sv amb r n (view s)
    | Err e \<Rightarrow> view s' = view s
        \<or> is_backend e \<and> st_lists (view s) k = None
          \<and> (\<exists>sl. create (amb_codec amb) us = Ok sl
               \<and> view s' = recorded sv amb (new_record amb k iss sub sl) n (view s))
    | Panic \<Rightarrow> view s' = view s \<and> create (amb_codec amb) us = Panic)"
proof (cases "\<exists>sl. check_limits us mi mn = Ok () \<and> create (amb_codec amb) us = Ok sl
    \<and> length (sl_lst sl) \<le> ms")
  case True
  then obtain sl where ok: "check_limits us mi mn = Ok ()" "create (amb_codec amb) us = Ok sl"
    "length (sl_lst sl) \<le> ms" by blast
  let ?r = "new_record amb k iss sub sl"
  obtain res0 s0 where ins: "run (insert_record amb sv ?r n) s = (res0, s0)" by fastforce
  have "(res, s') = (case res0 of Ok _ \<Rightarrow> Ok ?r | Err e \<Rightarrow> Err e | Panic \<Rightarrow> Panic, s0)"
    using assms(2) ok ins
    by (simp add: publish_status_list_def Let_def new_record_def split: outcome.splits)
  then show ?thesis
    using insert_recorded [OF assms(1) ins] ok by (auto simp: failed_write_def new_record_def split: outcome.splits)
next
  case False
  then show ?thesis
    using assms
    by (cases "check_limits us mi mn"; cases "create (amb_codec amb) us")
      (auto simp: publish_status_list_def Let_def split: if_splits)
qed

lemma update_outcome:
  assumes "ok s" "run (update_statuses amb sv iss k us n mi mn ms) s = (res, s')"
    and "store_ok cx (view s)"
  shows "ok s' \<and> (case res of
      Ok r \<Rightarrow> \<exists>old. check_limits us mi mn = Ok () \<and> st_lists (view s) k = Some old
        \<and> slr_issuer old = iss
        \<and> update (amb_codec amb) (slr_status_list old) us = Ok (slr_status_list r)
        \<and> length (sl_lst (slr_status_list r)) \<le> ms
        \<and> r = revised_record amb old (slr_status_list r)
        \<and> same_but_cache (recorded sv amb r n (view s)) (view s')
        \<and> st_cache (view s') \<subseteq>\<^sub>m st_cache (view s)
    | Err e \<Rightarrow> view s' = view s
        \<or> is_backend e \<and> (\<exists>old sl. st_lists (view s) k = Some old \<and> slr_issuer old = iss
             \<and> update (amb_codec amb) (slr_status_list old) us = Ok sl
             \<and> view s' = recorded sv amb (revised_record amb old sl) n (view s))
    | Panic \<Rightarrow> view s' = view s
        \<and> (\<exists>old. st_lists (view s) k = Some old \<and> update (amb_codec amb) (slr_status_list old) us = Panic))"
proof -
  obtain fr s1 where find: "run (repo_find (sv_status_list_repo sv) k) s = (fr, s1)" by fastforce
  note found = find_law [OF assms(1) find]
  show ?thesis
  proof (cases "\<exists>old sl. check_limits us mi mn = Ok () \<and> fr = Ok (Some old) \<and> slr_issuer old = iss
      \<and> update (amb_codec amb) (slr_status_list old) us = Ok sl \<and> length (sl_lst sl) \<le> ms")
    case True
    then obtain old sl where ok: "check_limits us mi mn = Ok ()" "fr = Ok (Some old)" "slr_issuer old = iss"
      "update (amb_codec amb) (slr_status_list old) us = Ok sl" "length (sl_lst sl) \<le> ms" by blast
    let ?r = "revised_record amb old sl"
    have old: "st_lists (view s) k = Some old" "slr_list_id ?r = k"
      using found ok(2) store_okD(1) [OF assms(3)] by (auto simp: revised_record_def)
    obtain ur s2 where upd: "run (update_record amb sv ?r (slr_updated_at old) n) s1 = (ur, s2)" by fastforce
    obtain ir s3 where inv: "run (cache_invalidate (sv_status_list_cache sv) k) s2 = (ir, s3)" by fastforce
    have "(res, s') = (case ur of
        Ok True \<Rightarrow> (case ir of Panic \<Rightarrow> (Panic, s3) | _ \<Rightarrow> (Ok ?r, s3))
      | Ok False \<Rightarrow> (Err Conflict, s2) | Err e \<Rightarrow> (Err e, s2) | Panic \<Rightarrow> (Panic, s2))"
      using assms(2) ok find upd inv old(2)
      by (simp add: update_statuses_def Let_def revised_record_def invalidate_after_commit_def
          cong: if_cong split: outcome.splits if_splits)
    moreover have "ok s1" using found by blast
    moreover note rec = update_recorded [OF this upd]
    moreover have "ok s2" using rec by blast
    moreover note invalidate_law [OF this inv]
    ultimately show ?thesis
      using found ok old
      by (auto simp: failed_write_def revised_record_def same_but_cache_def split: outcome.splits bool.splits)
  next
    case False
    then show ?thesis
      using assms(1,2) find found
      by (cases "check_limits us mi mn"; cases fr)
        (auto simp: update_statuses_def Let_def ok_or_def split: if_splits outcome.splits option.splits)
  qed
qed

lemma get_outcome:
  assumes "ok s" "run (get_status_list sv k) s = (res, s')"
  shows "ok s' \<and> res \<noteq> Panic \<and> same_but_cache (view s) (view s')
    \<and> (\<forall>r. res = Ok r \<longrightarrow> st_cache (view s) k = Some r \<or> st_lists (view s) k = Some r)
    \<and> (store_ok cx (view s) \<longrightarrow> store_ok cx (view s'))"
proof -
  obtain cr s1 where get: "run (cache_get (sv_status_list_cache sv) k) s = (cr, s1)" by fastforce
  obtain fr s2 where find: "run (repo_find (sv_status_list_repo sv) k) s1 = (fr, s2)" by fastforce
  obtain c where c: "c \<subseteq>\<^sub>m st_cache (view s)" "view s1 = (view s)\<lparr>st_cache := c\<rparr>" "cr \<noteq> Panic" "ok s1"
    and hit: "\<And>r. cr = Ok (Some r) \<Longrightarrow> st_cache (view s) k = Some r"
    using get_law [OF assms(1) get] by blast
  note found = find_law [OF c(4) find]
  show ?thesis
  proof (cases "\<exists>r. cr = Ok (Some r)")
    case True
    then show ?thesis
      using assms(2) get c hit store_ok_cache [OF _ c(1)] by (auto simp: get_status_list_def Let_def)
  next
    case miss: False
    show ?thesis
    proof (cases "\<exists>r. fr = Ok (Some r)")
      case True
      then obtain r where r: "fr = Ok (Some r)" "st_lists (view s) k = Some r" using found c(2) by auto
      obtain pr s3 where put: "run (cache_put (sv_status_list_cache sv) r) s2 = (pr, s3)" by fastforce
      obtain d where d: "d \<subseteq>\<^sub>m c(slr_list_id r \<mapsto> r)" "view s3 = (view s)\<lparr>st_cache := d\<rparr>" "pr \<noteq> Panic" "ok s3"
        using put_law [OF _ put] found c(2) by auto
      have "res = Ok r \<and> s' = s3"
        using assms(2) get find r(1) put miss c(3) d(3)
        by (auto simp: get_status_list_def Let_def split: outcome.splits option.splits)
      moreover have "store_ok cx (view s3)" if "store_ok cx (view s)"
        using store_ok_cache_put [of cx "(view s)\<lparr>st_cache := c\<rparr>" d r k] d store_ok_cache [OF that c(1)]
          store_okD(1) [OF that r(2)] by (simp add: record_ok_def)
      ultimately show ?thesis using r(2) d(2,4) by auto
    next
      case False
      then have "s' = s2 \<and> (\<forall>r. res \<noteq> Ok r) \<and> res \<noteq> Panic"
        using assms(2) get find found miss c(3)
        by (auto simp: get_status_list_def Let_def split: outcome.splits option.splits)
      then show ?thesis using found c(2) store_ok_cache [OF _ c(1)] by auto
    qed
  qed
qed

lemma get_snapshot_at_outcome:
  assumes "ok s" "run (get_snapshot_at sv k t) s = (res, s')"
  shows "ok s' \<and> view s' = view s \<and> res \<noteq> Panic
    \<and> (\<forall>sn. res = Ok sn \<longrightarrow> sn \<in> ran (st_snaps (view s)) \<and> in_force k t sn
          \<and> (\<forall>sn' \<in> ran (st_snaps (view s)). in_force k t sn' \<longrightarrow> sn_iat sn' \<le> sn_iat sn))"
proof (cases "sv_snapshot_repo sv")
  case None
  then show ?thesis using assms by (auto simp: get_snapshot_at_def)
next
  case (Some sr)
  obtain fr s1 where find: "run (snap_find_valid_at sr k t) s = (fr, s1)" by fastforce
  note found = snapshot_repo_contract.find_valid_at_law [OF snapshot_repo_law [OF Some] assms(1) find]
  have "s' = s1" "res = (case fr of Ok x \<Rightarrow> ok_or x HistoricalNotFound | Err e \<Rightarrow> Err e | Panic \<Rightarrow> Panic)"
    using assms(2) find Some by (simp_all add: get_snapshot_at_def split: outcome.splits)
  then show ?thesis using found by (cases fr) (auto simp: outcome_simps)
qed

lemma cleanup_outcome:
  assumes "ok s" "run (cleanup_snapshots sv cutoff) s = (res, s')"
  shows "ok s' \<and> (\<exists>ks \<subseteq> expired_ids (view s) cutoff.
     view s' = (view s)\<lparr>st_snaps := st_snaps (view s) |` (- ks)\<rparr>
     \<and> (\<forall>n. res = Ok n \<longrightarrow> n = card ks \<and> (snapshots_enabled sv \<longrightarrow> ks = expired_ids (view s) cutoff)))"
proof (cases "sv_snapshot_repo sv")
  case None
  then show ?thesis
    using assms by (intro conjI exI [of _ "{}"]) (auto simp: cleanup_snapshots_def snapshots_enabled_def restrict_map_def)
next
  case (Some sr)
  then show ?thesis
    using assms snapshot_repo_contract.delete_older_than_law [OF snapshot_repo_law [OF Some], of s cutoff res s']
    by (auto simp: cleanup_snapshots_def)
qed

text \<open>Every operation keeps the invariant of the store.\<close>

lemma publish_keeps_store:
  assumes "ok s" "run (publish_status_list amb sv k iss sub us n mi mn ms) s = (res, s')"
    and "codec_ok (amb_codec amb)" "codec_empty_ok (amb_codec amb)" "list_all (\<lambda>u. in_i32 (se_index u)) us"
    and "store_ok (amb_codec amb) (view s)"
  shows "ok s' \<and> store_ok (amb_codec amb) (view s') \<and> res \<noteq> Panic"
proof -
  let ?cx = "amb_codec amb"
  have new: "store_ok ?cx (recorded sv amb (new_record amb k iss sub sl) n (view s))"
    if "create ?cx us = Ok sl" for sl
    using create_wf [OF assms(3-5) that] by (intro store_ok_recorded assms(6)) (simp add: new_record_def)
  show ?thesis
  proof (cases res)
    case (Ok r)
    then have "ok s'" "create ?cx us = Ok (slr_status_list r)" "r = new_record amb k iss sub (slr_status_list r)"
      "view s' = recorded sv amb r n (view s)"
      using publish_outcome [OF assms(1,2)] by auto
    then show ?thesis using new Ok by (metis outcome.distinct(3))
  next
    case (Err e)
    then show ?thesis using publish_outcome [OF assms(1,2)] assms(6) new by auto
  next
    case Panic
    then show ?thesis using publish_outcome [OF assms(1,2)] create_not_Panic [OF assms(3-5)] by simp
  qed
qed

lemma update_keeps_store:
  assumes "ok s" "run (update_statuses amb sv iss k us n mi mn ms) s = (res, s')"
    and "codec_ok (amb_codec amb)" "list_all (\<lambda>u. in_i32 (se_index u)) us"
    and "store_ok (amb_codec amb) (view s)"
  shows "ok s' \<and> store_ok (amb_codec amb) (view s') \<and> res \<noteq> Panic"
proof -
  let ?cx = "amb_codec amb"
  have new: "store_ok ?cx (recorded sv amb (revised_record amb old sl) n (view s))"
    if "st_lists (view s) k = Some old" "update ?cx (slr_status_list old) us = Ok sl" for old sl
    using update_wf [OF assms(3) _ assms(4) that(2)] store_okD(1) [OF assms(5) that(1)]
    by (intro store_ok_recorded assms(5)) (simp add: revised_record_def)
  have noPanic: "update ?cx (slr_status_list old) us \<noteq> Panic" if "st_lists (view s) k = Some old" for old
    using update_not_Panic [OF assms(3) _ assms(4)] store_okD(1) [OF assms(5) that] by blast
  show ?thesis
  proof (cases res)
    case (Ok r)
    then obtain old where "st_lists (view s) k = Some old" "update ?cx (slr_status_list old) us = Ok (slr_status_list r)"
      "r = revised_record amb old (slr_status_list r)"
      and v: "ok s'" "same_but_cache (recorded sv amb r n (view s)) (view s')" "st_cache (view s') \<subseteq>\<^sub>m st_cache (view s)"
      using update_outcome [OF assms(1,2,5)] by auto
    then have "store_ok ?cx (recorded sv amb r n (view s))" using new by metis
    from store_ok_cache [OF this, of "st_cache (view s')"] v show ?thesis
      using Ok by (simp add: same_but_cache_def)
  next
    case (Err e)
    then show ?thesis using update_outcome [OF assms(1,2,5)] assms(5) new by auto
  next
    case Panic
    then show ?thesis using update_outcome [OF assms(1,2,5)] noPanic by auto
  qed
qed

end

end
