(* ===== verification/Memory_Store.thy ===== *)
theory Memory_Store
  imports Service_Spec "HOL-Library.AList" "HOL-Library.List_Lexorder" "HOL-Library.Char_ord"
begin

text \<open>
  Model of \<open>src/src/outbound/memory.rs\<close>: the in-memory adapters of the ports. A hash map is an
  association list with distinct keys, its order standing for the iteration order. An
  operation that holds the write lock is one atomic step. The last adapter,
  \<open>MemoryStorage\<close>, is the certificate storage of the \<open>acme\<close> feature.
\<close>

record memory =
  ms_lists :: "(string \<times> status_list_record) list"
  ms_snapshots :: "(string \<times> status_list_snapshot) list"
  ms_cache :: "(string \<times> status_list_record) list"
  ms_credentials :: "(string \<times> credential) list"
  ms_storage :: "(string \<times> string) list"

definition empty_memory :: memory where
  "empty_memory = \<lparr>ms_lists = [], ms_snapshots = [], ms_cache = [], ms_credentials = [], ms_storage = []\<rparr>"

section \<open>\<open>MemoryStatusLists\<close>\<close>

text \<open>The flag tells whether the repository was built \<open>with_snapshot\<close>.\<close>

definition require_snapshot :: "bool \<Rightarrow> unit sl_result" where
  "require_snapshot snapshot =
     (if snapshot then Ok ()
      else Err (Backend (''MemoryStatusLists was built without shared snapshot storage; ''
                  @ ''construct it with `.with_snapshot(..)`'')))"

definition mem_find :: "string \<Rightarrow> memory \<Rightarrow> status_list_record option sl_result \<times> memory" where
  "mem_find k s = (Ok (map_of (ms_lists s) k), s)"

definition mem_insert :: "status_list_record \<Rightarrow> memory \<Rightarrow> unit sl_result \<times> memory" where
  "mem_insert record s =
     (case map_of (ms_lists s) (slr_list_id record) of
        Some _ \<Rightarrow> (Err AlreadyExists, s)
      | None \<Rightarrow> (Ok (), s\<lparr>ms_lists := AList.update (slr_list_id record) record (ms_lists s)\<rparr>))"

definition mem_update :: "status_list_record \<Rightarrow> int \<Rightarrow> memory \<Rightarrow> bool sl_result \<times> memory" where
  "mem_update record expected_updated_at s =
     (case map_of (ms_lists s) (slr_list_id record) of
        None \<Rightarrow> (Ok False, s)
      | Some current \<Rightarrow>
          if slr_updated_at current = expected_updated_at
          then (Ok True, s\<lparr>ms_lists := AList.update (slr_list_id record) record (ms_lists s)\<rparr>)
          else (Ok False, s))"

definition mem_update_with_snapshot ::
  "bool \<Rightarrow> status_list_record \<Rightarrow> int \<Rightarrow> status_list_snapshot \<Rightarrow> memory \<Rightarrow> bool sl_result \<times> memory" where
  "mem_update_with_snapshot has_snapshot record expected_updated_at snapshot s =
     (case require_snapshot has_snapshot of
        Ok _ \<Rightarrow>
          (case map_of (ms_lists s) (slr_list_id record) of
             None \<Rightarrow> (Ok False, s)
           | Some current \<Rightarrow>
               if slr_updated_at current = expected_updated_at
               then (Ok True,
                     s\<lparr>ms_snapshots := AList.update (sn_snapshot_id snapshot) snapshot (ms_snapshots s),
                       ms_lists := AList.update (slr_list_id record) record (ms_lists s)\<rparr>)
               else (Ok False, s))
      | Err e \<Rightarrow> (Err e, s)
      | Panic \<Rightarrow> (Panic, s))"

definition mem_insert_with_snapshot ::
  "bool \<Rightarrow> status_list_record \<Rightarrow> status_list_snapshot \<Rightarrow> memory \<Rightarrow> unit sl_result \<times> memory" where
  "mem_insert_with_snapshot has_snapshot record snapshot s =
     (case require_snapshot has_snapshot of
        Ok _ \<Rightarrow>
          (case map_of (ms_lists s) (slr_list_id record) of
             Some _ \<Rightarrow> (Err AlreadyExists, s)
           | None \<Rightarrow>
               (Ok (),
                s\<lparr>ms_snapshots := AList.update (sn_snapshot_id snapshot) snapshot (ms_snapshots s),
                  ms_lists := AList.update (slr_list_id record) record (ms_lists s)\<rparr>))
      | Err e \<Rightarrow> (Err e, s)
      | Panic \<Rightarrow> (Panic, s))"

text \<open>Collecting into a \<open>BTreeSet\<close> sorts and drops duplicates.\<close>

definition mem_list_uris :: "memory \<Rightarrow> string list sl_result \<times> memory" where
  "mem_list_uris s = (Ok (remdups (sort (map (\<lambda>(k, r). slr_sub r) (ms_lists s)))), s)"

definition memory_status_lists :: "bool \<Rightarrow> memory status_list_repo" where
  "memory_status_lists has_snapshot =
     \<lparr>repo_find = (\<lambda>k. call (mem_find k)),
      repo_insert = (\<lambda>r. call (mem_insert r)),
      repo_update = (\<lambda>r e. call (mem_update r e)),
      repo_update_with_snapshot = (\<lambda>r e sn. call (mem_update_with_snapshot has_snapshot r e sn)),
      repo_insert_with_snapshot = (\<lambda>r sn. call (mem_insert_with_snapshot has_snapshot r sn)),
      repo_list_uris = call mem_list_uris\<rparr>"

section \<open>\<open>MemoryStatusListCache\<close>\<close>

definition mem_cache_get :: "string \<Rightarrow> memory \<Rightarrow> status_list_record option sl_result \<times> memory" where
  "mem_cache_get k s = (Ok (map_of (ms_cache s) k), s)"

definition mem_cache_put :: "status_list_record \<Rightarrow> memory \<Rightarrow> unit sl_result \<times> memory" where
  "mem_cache_put record s = (Ok (), s\<lparr>ms_cache := AList.update (slr_list_id record) record (ms_cache s)\<rparr>)"

definition mem_cache_invalidate :: "string \<Rightarrow> memory \<Rightarrow> unit sl_result \<times> memory" where
  "mem_cache_invalidate k s = (Ok (), s\<lparr>ms_cache := AList.delete k (ms_cache s)\<rparr>)"

definition memory_cache :: "memory status_list_cache" where
  "memory_cache =
     \<lparr>cache_get = (\<lambda>k. call (mem_cache_get k)), cache_put = (\<lambda>r. call (mem_cache_put r)),
      cache_invalidate = (\<lambda>k. call (mem_cache_invalidate k))\<rparr>"

section \<open>\<open>MemoryCredentials\<close>\<close>

definition mem_cred_find :: "string \<Rightarrow> memory \<Rightarrow> (credential option, credential_error) outcome \<times> memory" where
  "mem_cred_find issuer s = (Ok (map_of (ms_credentials s) issuer), s)"

definition mem_cred_insert :: "credential \<Rightarrow> memory \<Rightarrow> (unit, credential_error) outcome \<times> memory" where
  "mem_cred_insert credential s =
     (case map_of (ms_credentials s) (cr_issuer credential) of
        Some _ \<Rightarrow> (Err CredentialAlreadyExists, s)
      | None \<Rightarrow> (Ok (), s\<lparr>ms_credentials := AList.update (cr_issuer credential) credential (ms_credentials s)\<rparr>))"

definition memory_credentials :: "memory credential_repo" where
  "memory_credentials =
     \<lparr>cred_find = (\<lambda>k. call (mem_cred_find k)), cred_insert = (\<lambda>c. call (mem_cred_insert c))\<rparr>"

section \<open>\<open>MemoryStatusListSnapshotRepo\<close>\<close>

definition mem_snap_insert :: "status_list_snapshot \<Rightarrow> memory \<Rightarrow> unit sl_result \<times> memory" where
  "mem_snap_insert record s =
     (Ok (), s\<lparr>ms_snapshots := AList.update (sn_snapshot_id record) record (ms_snapshots s)\<rparr>)"

text \<open>\<open>Iterator::max_by_key\<close>: the last of the greatest elements.\<close>

fun max_by_key :: "('a \<Rightarrow> 'k::linorder) \<Rightarrow> 'a list \<Rightarrow> 'a option" where
  "max_by_key key [] = None"
| "max_by_key key (x # xs) =
     (case max_by_key key xs of
        None \<Rightarrow> Some x | Some y \<Rightarrow> if key x \<le> key y then Some y else Some x)"

definition mem_find_valid_at ::
  "string \<Rightarrow> int \<Rightarrow> memory \<Rightarrow> status_list_snapshot option sl_result \<times> memory" where
  "mem_find_valid_at list_id t s =
     (Ok (max_by_key sn_iat
        (filter (\<lambda>r. sn_list_id r = list_id \<and> sn_iat r \<le> t \<and> t < sn_exp r) (map snd (ms_snapshots s)))), s)"

definition mem_delete_older_than :: "int \<Rightarrow> memory \<Rightarrow> nat sl_result \<times> memory" where
  "mem_delete_older_than cutoff s =
     (let to_remove = map sn_snapshot_id (filter (\<lambda>r. sn_exp r < cutoff) (map snd (ms_snapshots s)))
      in (Ok (length to_remove), s\<lparr>ms_snapshots := fold AList.delete to_remove (ms_snapshots s)\<rparr>))"

definition memory_snapshots :: "memory snapshot_repo" where
  "memory_snapshots =
     \<lparr>snap_insert = (\<lambda>r. call (mem_snap_insert r)),
      snap_find_valid_at = (\<lambda>k t. call (mem_find_valid_at k t)),
      snap_delete_older_than = (\<lambda>c. call (mem_delete_older_than c))\<rparr>"

section \<open>\<open>MemoryStorage\<close>\<close>

definition mem_storage_store :: "string \<Rightarrow> string \<Rightarrow> memory \<Rightarrow> (unit, string) outcome \<times> memory" where
  "mem_storage_store key v s = (Ok (), s\<lparr>ms_storage := AList.update key v (ms_storage s)\<rparr>)"

definition mem_storage_load :: "string \<Rightarrow> memory \<Rightarrow> (string option, string) outcome \<times> memory" where
  "mem_storage_load key s = (Ok (map_of (ms_storage s) key), s)"

definition mem_storage_delete :: "string \<Rightarrow> memory \<Rightarrow> (unit, string) outcome \<times> memory" where
  "mem_storage_delete key s = (Ok (), s\<lparr>ms_storage := AList.delete key (ms_storage s)\<rparr>)"

section \<open>The memory adapters meet the contracts\<close>

definition memory_view :: "memory \<Rightarrow> store" where
  "memory_view s = \<lparr>st_lists = map_of (ms_lists s), st_snaps = map_of (ms_snapshots s),
     st_creds = map_of (ms_credentials s), st_cache = map_of (ms_cache s)\<rparr>"

lemma memory_view_simps [simp]:
  "st_lists (memory_view s) = map_of (ms_lists s)" "st_snaps (memory_view s) = map_of (ms_snapshots s)"
  "st_creds (memory_view s) = map_of (ms_credentials s)" "st_cache (memory_view s) = map_of (ms_cache s)"
  by (simp_all add: memory_view_def)

lemmas alist_simps = update_conv' delete_conv'

text \<open>Keys are distinct, as in any hash map, and a snapshot sits under its own identifier.\<close>

definition memory_ok :: "memory \<Rightarrow> bool" where
  "memory_ok s \<longleftrightarrow> distinct (map fst (ms_lists s)) \<and> distinct (map fst (ms_snapshots s))
     \<and> list_all (\<lambda>(k, sn). sn_snapshot_id sn = k) (ms_snapshots s)"

lemma list_all_alist_update:
  "list_all (\<lambda>(k, v). P k v) al \<Longrightarrow> P k v \<Longrightarrow> list_all (\<lambda>(k, v). P k v) (AList.update k v al)"
  by (induction al) auto

lemma memory_ok_update:
  assumes "memory_ok s"
  shows "memory_ok (s\<lparr>ms_lists := AList.update k r (ms_lists s)\<rparr>)"
    "memory_ok (s\<lparr>ms_snapshots := AList.update (sn_snapshot_id sn) sn (ms_snapshots s)\<rparr>)"
    "memory_ok (s\<lparr>ms_snapshots := AList.update (sn_snapshot_id sn) sn (ms_snapshots s),
                  ms_lists := AList.update k r (ms_lists s)\<rparr>)"
  using assms by (simp_all add: memory_ok_def distinct_update list_all_alist_update)

lemma memory_ok_other [simp]:
  "memory_ok (s\<lparr>ms_cache := c\<rparr>) = memory_ok s" "memory_ok (s\<lparr>ms_credentials := d\<rparr>) = memory_ok s"
  by (simp_all add: memory_ok_def)

lemma ran_map_of: "distinct (map fst al) \<Longrightarrow> ran (map_of al) = snd ` set al"
  by (rule ran_distinct)

interpretation mem_repo: list_repo_contract "memory_status_lists has_snapshot" memory_view memory_ok
  for has_snapshot
proof (unfold_locales, goal_cases)
  case 1
  then show ?case by (auto simp: memory_status_lists_def mem_find_def)
next
  case 2
  then show ?case
    by (auto simp: memory_status_lists_def mem_insert_def insert_post_def failed_write_def put_list_def
        memory_view_def alist_simps memory_ok_update split: option.splits)
next
  case 3
  then show ?case
    by (auto simp: memory_status_lists_def mem_update_def update_post_def guard_matches_def put_list_def
        memory_view_def alist_simps memory_ok_update split: option.splits if_splits)
next
  case 4
  then show ?case
    by (auto simp: memory_status_lists_def mem_insert_with_snapshot_def insert_post_def failed_write_def
        require_snapshot_def put_list_def put_snap_def memory_view_def alist_simps memory_ok_update
        split: option.splits if_splits)
next
  case 5
  then show ?case
    by (auto simp: memory_status_lists_def mem_update_with_snapshot_def update_post_def failed_write_def
        guard_matches_def require_snapshot_def put_list_def put_snap_def memory_view_def alist_simps
        memory_ok_update split: option.splits if_splits)
next
  case (6 s res s')
  then have "ran (map_of (ms_lists s)) = snd ` set (ms_lists s)" by (simp add: memory_ok_def ran_map_of)
  moreover have "slr_sub ` snd ` set (ms_lists s) = (\<lambda>(k, r). slr_sub r) ` set (ms_lists s)" by force
  moreover have "res = Ok (remdups (sort (map (\<lambda>(k, r). slr_sub r) (ms_lists s))))" "s' = s"
    using 6(2) by (auto simp: memory_status_lists_def mem_list_uris_def)
  ultimately show ?case using 6(1) by simp
qed

interpretation mem_cache: cache_contract memory_cache memory_view memory_ok
  by unfold_locales
    (auto simp: memory_cache_def mem_cache_get_def mem_cache_put_def mem_cache_invalidate_def
      memory_view_def alist_simps map_le_def)

interpretation mem_creds: credential_repo_contract memory_credentials memory_view memory_ok id
  by unfold_locales
    (auto simp: memory_credentials_def mem_cred_find_def mem_cred_insert_def put_cred_def stored_cred_def
      memory_view_def alist_simps split: option.splits)

lemma max_by_key_None: "max_by_key key xs = None \<longleftrightarrow> xs = []"
  by (cases xs) (auto split: option.splits)

lemma max_by_key_Some:
  "max_by_key key xs = Some x \<Longrightarrow> x \<in> set xs \<and> (\<forall>y \<in> set xs. key y \<le> key x)"
  by (induction xs arbitrary: x) (force simp: max_by_key_None split: option.splits if_splits)+

lemma fold_delete: "fold AList.delete ks al = filter (\<lambda>(k, v). k \<notin> set ks) al"
  by (induction ks arbitrary: al) (auto simp: AList.delete_eq intro: filter_cong)

lemma map_of_filter_snapshots:
  assumes "distinct (map fst al)"
  shows "map_of (filter (\<lambda>(k, v). k \<notin> K) al) = map_of al |` (- K)"
  using assms by (induction al) (auto simp: restrict_map_def fun_eq_iff)

lemma expired_memory:
  assumes "memory_ok s"
  shows "expired_ids (memory_view s) cutoff =
           set (map sn_snapshot_id (filter (\<lambda>r. sn_exp r < cutoff) (map snd (ms_snapshots s))))"
    "distinct (map sn_snapshot_id (filter (\<lambda>r. sn_exp r < cutoff) (map snd (ms_snapshots s))))"
proof -
  have keyed: "map (sn_snapshot_id \<circ> snd) (ms_snapshots s) = map fst (ms_snapshots s)"
    and dist: "distinct (map fst (ms_snapshots s))"
    using assms by (auto simp: memory_ok_def list_all_iff)
  show "expired_ids (memory_view s) cutoff =
           set (map sn_snapshot_id (filter (\<lambda>r. sn_exp r < cutoff) (map snd (ms_snapshots s))))"
    using assms by (fastforce simp: expired_ids_def memory_ok_def list_all_iff map_of_eq_Some_iff image_iff)
  have "distinct (map sn_snapshot_id (map snd (ms_snapshots s)))" using keyed dist by (simp only: map_map)
  then show "distinct (map sn_snapshot_id (filter (\<lambda>r. sn_exp r < cutoff) (map snd (ms_snapshots s))))"
    by (rule distinct_map_filter)
qed

interpretation mem_snaps: snapshot_repo_contract memory_snapshots memory_view memory_ok
proof (unfold_locales, goal_cases)
  case (1 k t s res s')
  let ?valid = "filter (\<lambda>r. sn_list_id r = k \<and> sn_iat r \<le> t \<and> t < sn_exp r) (map snd (ms_snapshots s))"
  have "set ?valid = {sn \<in> ran (st_snaps (memory_view s)). in_force k t sn}"
    using 1(1) by (auto simp: memory_ok_def ran_map_of in_force_def)
  moreover have "res = Ok (max_by_key sn_iat ?valid)" "s' = s"
    using 1(2) by (auto simp: memory_snapshots_def mem_find_valid_at_def)
  ultimately show ?case
    using 1(1) max_by_key_None [of sn_iat ?valid] max_by_key_Some [of sn_iat ?valid]
    by (auto simp del: set_filter)
next
  case (2 cutoff s res s')
  let ?ids = "map sn_snapshot_id (filter (\<lambda>r. sn_exp r < cutoff) (map snd (ms_snapshots s)))"
  have s': "res = Ok (length ?ids)" "s' = s\<lparr>ms_snapshots := filter (\<lambda>(k, v). k \<notin> set ?ids) (ms_snapshots s)\<rparr>"
    using 2(2) by (auto simp: memory_snapshots_def mem_delete_older_than_def fold_delete Let_def)
  have "memory_view s' = (memory_view s)\<lparr>st_snaps := st_snaps (memory_view s) |` (- set ?ids)\<rparr>"
    using 2(1) map_of_filter_snapshots [of "ms_snapshots s" "set ?ids"]
    by (simp add: s' memory_view_def memory_ok_def del: set_map set_filter)
  moreover have "memory_ok s'"
    using 2(1) by (auto simp: s' memory_ok_def distinct_map_filter list_all_iff)
  ultimately show ?case
    using expired_memory [OF 2(1), of cutoff] distinct_card [of ?ids] s'(1) by auto
qed

section \<open>The service over the memory adapters\<close>

text \<open>
  The wiring of the in-memory deployment: with history, the list repository shares the store
  of the snapshot repository.
\<close>

definition memory_service :: "bool \<Rightarrow> memory certificate_provider \<Rightarrow> memory service" where
  "memory_service history certs =
     \<lparr>sv_status_list_repo = memory_status_lists history, sv_credential_repo = memory_credentials,
      sv_status_list_cache = memory_cache,
      sv_snapshot_repo = (if history then Some memory_snapshots else None),
      sv_cert_provider = certs\<rparr>"

interpretation mem_service: service_contract "memory_service history certs" memory_view memory_ok id
  for history certs
proof -
  have "memory_service history certs =
      \<lparr>sv_status_list_repo = memory_status_lists history, sv_credential_repo = memory_credentials,
      sv_status_list_cache = memory_cache, sv_snapshot_repo = (if history then Some memory_snapshots else None),
      sv_cert_provider = certs\<rparr>" by (simp add: memory_service_def)
  then show "service_contract (memory_service history certs) memory_view memory_ok id"
    by (auto simp: service_contract_def service_contract_axioms_def mem_repo.list_repo_contract_axioms
        mem_cache.cache_contract_axioms mem_creds.credential_repo_contract_axioms
        mem_snaps.snapshot_repo_contract_axioms split: if_splits)
qed

lemma snapshots_enabled_memory [simp]: "snapshots_enabled (memory_service history certs) = history"
  by (simp add: snapshots_enabled_def memory_service_def)

lemma memory_ok_empty: "memory_ok empty_memory"
  by (simp add: memory_ok_def empty_memory_def)

lemma store_ok_empty: "store_ok cx (memory_view empty_memory)"
  by (simp add: store_ok_def memory_view_def empty_memory_def)

end
