(* ===== verification/Certificates.thy ===== *)
theory Certificates
  imports Token Memory_Store
begin

text \<open>
  Model of the certificate providers of \<open>src/src/outbound/cert.rs\<close> for builds without the
  \<open>acme\<close> feature, and of the contract the handlers rely on. The X.509 and PEM readers are the
  record \<open>x509_lib\<close>; reading a file is a function from paths.
\<close>

section \<open>The contract\<close>

locale certificate_contract =
  fixes certs :: "'s certificate_provider" and view :: "'s \<Rightarrow> store" and ok :: "'s \<Rightarrow> bool"
  assumes signing_material_law: "\<And>s res s'. ok s \<Longrightarrow> run (cert_signing_material certs) s = (res, s') \<Longrightarrow>
      ok s' \<and> view s' = view s \<and> res \<noteq> Panic"

section \<open>Reading and validating signing material\<close>

record 'sk x509_lib =
  x5_pem_blocks :: "string \<Rightarrow> (string + u8 list) list"
  x5_parse_x509_pem :: "string \<Rightarrow> string + u8 list"
  x5_certificate_public_key :: "u8 list \<Rightarrow> string + u8 list"
  x5_sec1_point :: "'sk \<Rightarrow> u8 list"
  x5_base64_encode :: "u8 list \<Rightarrow> string"

definition pem_chain_to_base64_der :: "'sk x509_lib \<Rightarrow> string \<Rightarrow> string list sl_result" where
  "pem_chain_to_base64_der xl cert_pem =
     obind (collect (\<lambda>cert. omap (x5_base64_encode xl) (or_backend cert)) (x5_pem_blocks xl cert_pem)) (\<lambda>certs.
       if certs = [] then Err (Backend ''certificate chain is empty'') else Ok certs)"

definition validate_signing_material ::
  "('sk, 'ek) crypto \<Rightarrow> 'sk x509_lib \<Rightarrow> string \<Rightarrow> string \<Rightarrow> unit sl_result" where
  "validate_signing_material cr xl cert_pem signing_key_pem =
     obind (map_err (\<lambda>e. Backend (keygen_error_text e)) (keypair_from_pkcs8_pem cr signing_key_pem)) (\<lambda>keypair.
     obind (or_backend (x5_parse_x509_pem xl cert_pem)) (\<lambda>cert_pem_block.
     obind (or_backend (x5_certificate_public_key xl cert_pem_block)) (\<lambda>cert_public_key.
       if cert_public_key \<noteq> x5_sec1_point xl keypair
       then Err (Backend ''certificate public key does not match signing key'')
       else obind (or_backend (cr_encoding_key_from_ec_pem cr signing_key_pem)) (\<lambda>_. Ok ()))))"

definition make_signing_material ::
  "('sk, 'ek) crypto \<Rightarrow> 'sk x509_lib \<Rightarrow> string \<Rightarrow> string \<Rightarrow> signing_material sl_result" where
  "make_signing_material cr xl cert_pem signing_key_pem =
     obind (validate_signing_material cr xl cert_pem signing_key_pem) (\<lambda>_.
     obind (pem_chain_to_base64_der xl cert_pem) (\<lambda>certificate_chain.
       Ok \<lparr>sm_certificate_chain = Some certificate_chain, sm_signing_key_pem = signing_key_pem\<rparr>))"

definition load_and_validate_signing_material ::
  "('sk, 'ek) crypto \<Rightarrow> 'sk x509_lib \<Rightarrow> (string \<Rightarrow> string + string) \<Rightarrow> string \<Rightarrow> string \<Rightarrow> signing_material sl_result" where
  "load_and_validate_signing_material cr xl read_to_string cert_path key_path =
     obind (or_backend (read_to_string cert_path)) (\<lambda>cert_pem.
     obind (or_backend (read_to_string key_path)) (\<lambda>signing_key_pem.
       make_signing_material cr xl cert_pem signing_key_pem))"

section \<open>The providers\<close>

definition inline_provider_new ::
  "('sk, 'ek) crypto \<Rightarrow> 'sk x509_lib \<Rightarrow> string \<Rightarrow> string \<Rightarrow> signing_material sl_result" where
  "inline_provider_new cr xl cert_pem signing_key_pem = make_signing_material cr xl cert_pem signing_key_pem"

definition inline_provider :: "signing_material \<Rightarrow> 's certificate_provider" where
  "inline_provider material = \<lparr>cert_signing_material = Ret (Ok material)\<rparr>"

text \<open>
  The reloading provider keeps its material in a cell that is swapped as a whole. The cell of
  a provider is the part \<open>active\<close> of the state.
\<close>

definition reloading_provider :: "('s \<Rightarrow> signing_material) \<Rightarrow> 's certificate_provider" where
  "reloading_provider active = \<lparr>cert_signing_material = call (\<lambda>s. (Ok (active s), s))\<rparr>"

definition provider_from_files ::
  "('sk, 'ek) crypto \<Rightarrow> 'sk x509_lib \<Rightarrow> (string \<Rightarrow> string + string) \<Rightarrow> string \<Rightarrow> string \<Rightarrow> signing_material sl_result" where
  "provider_from_files cr xl read_to_string cert_path key_path =
     load_and_validate_signing_material cr xl read_to_string cert_path key_path"

definition reload_from_files ::
  "('sk, 'ek) crypto \<Rightarrow> 'sk x509_lib \<Rightarrow> (string \<Rightarrow> string + string) \<Rightarrow> string \<Rightarrow> string
   \<Rightarrow> signing_material \<Rightarrow> unit sl_result \<times> signing_material" where
  "reload_from_files cr xl read_to_string cert_path key_path active =
     (case load_and_validate_signing_material cr xl read_to_string cert_path key_path of
        Ok material \<Rightarrow> (Ok (), material)
      | Err e \<Rightarrow> (Err e, active)
      | Panic \<Rightarrow> (Panic, active))"

interpretation inline_certs: certificate_contract "inline_provider material" memory_view memory_ok
  for material
  by unfold_locales (auto simp: inline_provider_def)

interpretation reloading_certs: certificate_contract "reloading_provider active" memory_view memory_ok
  for active
  by unfold_locales (auto simp: reloading_provider_def)

section \<open>The material in use\<close>

text \<open>
  Material is sound when its key can be read by both libraries, its chain is not empty, and the
  chain is that of a certificate over that key.
\<close>

definition sound_material :: "('sk, 'ek) crypto \<Rightarrow> 'sk x509_lib \<Rightarrow> signing_material \<Rightarrow> bool" where
  "sound_material cr xl m \<longleftrightarrow>
     (\<exists>cert_pem key block chain. cr_key_from_pkcs8_pem cr (sm_signing_key_pem m) = Inr key
        \<and> (\<exists>ek. cr_encoding_key_from_ec_pem cr (sm_signing_key_pem m) = Inr ek)
        \<and> x5_parse_x509_pem xl cert_pem = Inr block
        \<and> x5_certificate_public_key xl block = Inr (x5_sec1_point xl key)
        \<and> sm_certificate_chain m = Some chain \<and> chain \<noteq> []
        \<and> map Inr chain = map (map_sum id (x5_base64_encode xl)) (x5_pem_blocks xl cert_pem))"

lemma or_backend_Ok [outcome_simps]: "or_backend r = Ok x \<longleftrightarrow> r = Inr x"
  by (cases r) (auto simp: or_backend_def)

lemma or_backend_not_Panic [simp]: "or_backend r \<noteq> Panic"
  by (cases r) (auto simp: or_backend_def)

lemma collect_or_backend:
  "collect (\<lambda>c. omap f (or_backend c)) cs = Ok ys \<Longrightarrow> map Inr ys = map (map_sum id f) cs"
proof (induction cs arbitrary: ys)
  case (Cons c cs)
  then show ?case by (cases c) (auto simp: outcome_simps or_backend_def)
qed simp

lemma make_signing_material_sound:
  assumes "make_signing_material cr xl cert_pem key_pem = Ok m"
  shows "sound_material cr xl m \<and> sm_signing_key_pem m = key_pem"
proof -
  obtain chain where v: "validate_signing_material cr xl cert_pem key_pem = Ok ()"
    and c: "pem_chain_to_base64_der xl cert_pem = Ok chain"
    and m: "m = \<lparr>sm_certificate_chain = Some chain, sm_signing_key_pem = key_pem\<rparr>"
    using assms by (auto simp: make_signing_material_def outcome_simps)
  have "chain \<noteq> []" "map Inr chain = map (map_sum id (x5_base64_encode xl)) (x5_pem_blocks xl cert_pem)"
    using c collect_or_backend by (auto simp: pem_chain_to_base64_der_def outcome_simps split: if_splits)
  moreover obtain key where "keypair_from_pkcs8_pem cr key_pem = Ok key"
    "\<exists>block. x5_parse_x509_pem xl cert_pem = Inr block \<and> x5_certificate_public_key xl block = Inr (x5_sec1_point xl key)"
    "\<exists>ek. cr_encoding_key_from_ec_pem cr key_pem = Inr ek"
    using v by (auto simp: validate_signing_material_def outcome_simps split: if_splits)
  moreover from this(1) have "cr_key_from_pkcs8_pem cr key_pem = Inr key"
    by (cases "cr_key_from_pkcs8_pem cr key_pem") (auto simp: keypair_from_pkcs8_pem_def)
  ultimately show ?thesis using m unfolding sound_material_def by auto
qed

text \<open>
  The material in use after a sequence of reload attempts, each against the files as they are at
  that moment.
\<close>

fun reloads ::
  "('sk, 'ek) crypto \<Rightarrow> 'sk x509_lib \<Rightarrow> string \<Rightarrow> string \<Rightarrow> (string \<Rightarrow> string + string) list
   \<Rightarrow> signing_material \<Rightarrow> signing_material" where
  "reloads cr xl cert_path key_path [] active = active"
| "reloads cr xl cert_path key_path (files # fss) active =
     reloads cr xl cert_path key_path fss (snd (reload_from_files cr xl files cert_path key_path active))"

lemma load_sound:
  assumes "load_and_validate_signing_material cr xl files cert_path key_path = Ok m"
  shows "sound_material cr xl m \<and> files key_path = Inr (sm_signing_key_pem m)"
  using assms make_signing_material_sound [of cr xl]
  by (auto simp: load_and_validate_signing_material_def outcome_simps)

lemma load_not_Panic [simp]: "load_and_validate_signing_material cr xl files cert_path key_path \<noteq> Panic"
proof -
  have "collect (\<lambda>c. omap f (or_backend c)) cs \<noteq> Panic" for f :: "u8 list \<Rightarrow> string" and cs
    by (rule collect_not_Panic) (metis omap.elims or_backend_not_Panic outcome.distinct(3,5))
  then show ?thesis
    by (auto simp: load_and_validate_signing_material_def make_signing_material_def validate_signing_material_def
        pem_chain_to_base64_der_def keypair_from_pkcs8_pem_def outcome_simps split: if_splits)
qed

text \<open>The last of the file systems that holds loadable material is the one the material comes from.\<close>

definition last_loaded ::
  "('sk, 'ek) crypto \<Rightarrow> 'sk x509_lib \<Rightarrow> string \<Rightarrow> string \<Rightarrow> (string \<Rightarrow> string + string) list \<Rightarrow> signing_material \<Rightarrow> bool" where
  "last_loaded cr xl cert_path key_path fss m \<longleftrightarrow>
     (\<exists>before files after. fss = before @ files # after
        \<and> load_and_validate_signing_material cr xl files cert_path key_path = Ok m
        \<and> (\<forall>files' \<in> set after. \<exists>e. load_and_validate_signing_material cr xl files' cert_path key_path = Err e))"

lemma last_loaded_snoc:
  "load_and_validate_signing_material cr xl files cert_path key_path = Ok m \<Longrightarrow>
     last_loaded cr xl cert_path key_path (fss @ [files]) m"
  "load_and_validate_signing_material cr xl files cert_path key_path = Err e \<Longrightarrow>
     last_loaded cr xl cert_path key_path fss m \<Longrightarrow> last_loaded cr xl cert_path key_path (fss @ [files]) m"
  by (fastforce simp: last_loaded_def)+

lemma reloads_snoc:
  "reloads cr xl cert_path key_path (fss @ [files]) m =
     snd (reload_from_files cr xl files cert_path key_path (reloads cr xl cert_path key_path fss m))"
  by (induction fss arbitrary: m) auto

lemma reloads_last_loaded:
  assumes "provider_from_files cr xl files0 cert_path key_path = Ok m0"
  shows "last_loaded cr xl cert_path key_path (files0 # fss) (reloads cr xl cert_path key_path fss m0)"
proof (induction fss rule: rev_induct)
  case Nil
  then show ?case using assms last_loaded_snoc(1) [of cr xl files0 cert_path key_path m0 "[]"]
    by (simp add: provider_from_files_def)
next
  case (snoc files fss)
  then show ?case
    using last_loaded_snoc [of cr xl files cert_path key_path _ "files0 # fss"]
    by (cases "load_and_validate_signing_material cr xl files cert_path key_path")
       (auto simp: reloads_snoc reload_from_files_def)
qed

text \<open>
  C35. Certificate rotation: a provider that came up keeps serving sound material through any
  sequence of reloads, whatever the files hold meanwhile. The material in use is always the one
  of the last reload that validated (at first that of the start-up): its key was read from the
  key file by one and the same reload as its chain, the chain is not empty, and its leaf
  certificate is over that very key. A reload that fails reports an error and changes nothing.
\<close>

theorem reloads_serve_sound_material:
  assumes "provider_from_files cr xl files0 cert_path key_path = Ok m0"
  shows "last_loaded cr xl cert_path key_path (files0 # fss) (reloads cr xl cert_path key_path fss m0)
    \<and> sound_material cr xl (reloads cr xl cert_path key_path fss m0)"
  using reloads_last_loaded [OF assms, of fss] load_sound [of cr xl]
  by (auto simp: last_loaded_def)

definition sample_x509 :: "string x509_lib" where
  "sample_x509 = \<lparr>x5_pem_blocks = \<lambda>pem. [Inr (map (of_nat \<circ> of_char) pem)],
     x5_parse_x509_pem = \<lambda>pem. Inr (map (of_nat \<circ> of_char) pem), x5_certificate_public_key = Inr,
     x5_sec1_point = map (of_nat \<circ> of_char), x5_base64_encode = map (char_of \<circ> unat)\<rparr>"

theorem reloads_serve_sound_material_witness:
  "\<exists>m0. provider_from_files sample_crypto sample_x509 (\<lambda>p. Inr ''a'') ''cert'' ''key'' = Ok m0
    \<and> sm_signing_key_pem (reloads sample_crypto sample_x509 ''cert'' ''key''
         [\<lambda>p. Inr ''b'', \<lambda>p. Inr p, \<lambda>p. Inl ''gone''] m0) = ''b''
    \<and> sound_material sample_crypto sample_x509 (reloads sample_crypto sample_x509 ''cert'' ''key''
         [\<lambda>p. Inr ''b'', \<lambda>p. Inr p, \<lambda>p. Inl ''gone''] m0)"
proof -
  have "provider_from_files sample_crypto sample_x509 (\<lambda>p. Inr ''a'') ''cert'' ''key''
      = Ok \<lparr>sm_certificate_chain = Some [''a''], sm_signing_key_pem = ''a''\<rparr>"
    by code_simp
  moreover from reloads_serve_sound_material [OF this, of "[\<lambda>p. Inr ''b'', \<lambda>p. Inr p, \<lambda>p. Inl ''gone'']"]
  have "sound_material sample_crypto sample_x509 (reloads sample_crypto sample_x509 ''cert'' ''key''
         [\<lambda>p. Inr ''b'', \<lambda>p. Inr p, \<lambda>p. Inl ''gone''] \<lparr>sm_certificate_chain = Some [''a''], sm_signing_key_pem = ''a''\<rparr>)"
    by simp
  moreover have "sm_signing_key_pem (reloads sample_crypto sample_x509 ''cert'' ''key''
         [\<lambda>p. Inr ''b'', \<lambda>p. Inr p, \<lambda>p. Inl ''gone''] \<lparr>sm_certificate_chain = Some [''a''], sm_signing_key_pem = ''a''\<rparr>) = ''b''"
    by code_simp
  ultimately show ?thesis by blast
qed

end
