(* ===== verification/Server_Spec.thy ===== *)
theory Server_Spec
  imports Router Certificates Service_Spec
begin

text \<open>
  What the HTTP interface promises: who may change a list, what each response means, and what
  reads return. The lemmas are proved over the contracts of the ports in the locale
  \<open>server_contract\<close>, which is then interpreted on the in-memory deployment.
\<close>

section \<open>Admission\<close>

text \<open>
  A principal is admitted when the request carries a bearer token of an issuer with a registered
  credential, the token verifies under the registered key with the server's settings, and its
  claims meet the policy.
\<close>

definition policy_met :: "management_claims \<Rightarrow> nat \<Rightarrow> management_auth_config \<Rightarrow> bool" where
  "policy_met claims now cfg \<longleftrightarrow>
     mc_iat claims < mc_exp claims
     \<and> mc_iat claims \<le> now + ma_leeway_secs cfg
     \<and> (\<forall>nbf. mc_nbf claims = Some nbf \<longrightarrow> nbf \<le> now + ma_leeway_secs cfg)
     \<and> mc_exp claims - mc_iat claims \<le> ma_max_token_lifetime_secs cfg"

definition u64_claims :: "management_claims \<Rightarrow> bool" where
  "u64_claims claims \<longleftrightarrow> mc_iat claims < 2 ^ 64 \<and> mc_exp claims < 2 ^ 64
     \<and> (\<forall>nbf. mc_nbf claims = Some nbf \<longrightarrow> nbf < 2 ^ 64)"

lemma saturating_less:
  "x < 2 ^ 64 \<Longrightarrow> u64_saturating_add a b < x \<longleftrightarrow> a + b < x"
  by (auto simp: u64_saturating_add_def min_def)

lemma validate_policy_iff:
  assumes "u64_claims claims"
  shows "validate_policy claims now (ma_leeway_secs cfg) (ma_max_token_lifetime_secs cfg) =
           (if policy_met claims now cfg then Ok () else Err InvalidClaims)"
  using assms
  by (auto simp: validate_policy_def policy_met_def u64_claims_def saturating_less u64_checked_sub_def ok_or_def
      not_less not_le split: option.splits)

definition admitted ::
  "('alg, 'jwk, 'dk) jwt_lib \<Rightarrow> nat option \<Rightarrow> management_auth_config \<Rightarrow> (string \<rightharpoonup> credential)
   \<Rightarrow> string option \<Rightarrow> issuer \<Rightarrow> bool" where
  "admitted lib clock cfg creds authorization p \<longleftrightarrow>
     (\<exists>token alg iss cred. read_token lib authorization = Ok (token, alg, iss) \<and> creds iss = Some cred
        \<and> verify_token lib clock cfg token alg cred = Ok p)"

lemma read_token_not_Panic [simp]: "read_token lib a \<noteq> Panic"
  by (auto simp: read_token_def outcome_simps)

lemma validate_policy_not_Panic [simp]: "validate_policy c n l m \<noteq> Panic"
  by (auto simp: validate_policy_def outcome_simps)

lemma verify_token_not_Panic [simp]: "verify_token lib clock cfg t alg cred \<noteq> Panic"
  by (auto simp: verify_token_def outcome_simps)

text \<open>
  The change a request of \<open>p\<close> may make to the lists: only list \<open>k\<close>, which is new or is and
  stays \<open>p\<close>'s, under the same subject.
\<close>

definition own_change ::
  "issuer \<Rightarrow> string \<Rightarrow> (string \<rightharpoonup> status_list_record) \<Rightarrow> (string \<rightharpoonup> status_list_record) \<Rightarrow> bool" where
  "own_change p k m m' \<longleftrightarrow> (\<forall>j. j \<noteq> k \<longrightarrow> m' j = m j)
     \<and> (m' k = m k
        \<or> (\<exists>r'. m' k = Some r' \<and> slr_issuer r' = p
             \<and> (\<forall>r. m k = Some r \<longrightarrow> slr_issuer r = p \<and> slr_sub r' = slr_sub r)))"

lemma own_change_refl [simp]: "own_change p k m m"
  by (simp add: own_change_def)

lemma own_change_publish:
  assumes "r = new_record amb k p sub sl" "m k = None"
  shows "own_change p k m (m(slr_list_id r \<mapsto> r))"
  using assms by (auto simp: own_change_def new_record_def)

lemma own_change_update:
  assumes "m k = Some old" "slr_issuer old = p"
  shows "own_change p k m (m(k \<mapsto> revised_record amb old sl))"
  using assms by (auto simp: own_change_def)

text \<open>The changes a request may make to the lists through the router.\<close>

definition owner_change :: "('sk, 'ek, 'alg, 'jwk, 'dk, 'json) surroundings \<Rightarrow> 's app_state \<Rightarrow> 'jwk http_request
    \<Rightarrow> store \<Rightarrow> store \<Rightarrow> bool" where
  "owner_change su state req st st' \<longleftrightarrow>
     (\<exists>k p. hr_path req = [''api'', ''v1'', ''status-lists'', k, ''statuses''] \<and> hr_method req \<in> {PUT, PATCH}
        \<and> admitted (su_jwt su) (su_clock su) (app_management_auth state) (st_creds st)
            (rq_authorization (hr_headers req)) p
        \<and> own_change p k (st_lists st) (st_lists st'))"

section \<open>Processes that move the store along a relation\<close>

definition moves :: "(store \<Rightarrow> store \<Rightarrow> bool) \<Rightarrow> ('s \<Rightarrow> store) \<Rightarrow> ('s \<Rightarrow> bool) \<Rightarrow> ('s, 'a) proc \<Rightarrow> bool" where
  "moves R view ok p \<longleftrightarrow> (\<forall>s res s'. ok s \<longrightarrow> run p s = (res, s') \<longrightarrow> ok s' \<and> R (view s) (view s'))"

lemma movesI: "(\<And>s res s'. ok s \<Longrightarrow> run p s = (res, s') \<Longrightarrow> ok s' \<and> R (view s) (view s')) \<Longrightarrow> moves R view ok p"
  by (auto simp: moves_def)

lemma movesD: "moves R view ok p \<Longrightarrow> ok s \<Longrightarrow> run p s = (res, s') \<Longrightarrow> ok s' \<and> R (view s) (view s')"
  by (auto simp: moves_def)

lemma moves_Ret [simp]: "reflp R \<Longrightarrow> moves R view ok (Ret x)"
  by (auto simp: moves_def reflp_def)

lemma moves_pbind:
  assumes "transp R" "moves R view ok p" "\<And>x. moves R view ok (k x)"
  shows "moves R view ok (pbind p k)"
proof (rule movesI)
  fix s res s' assume "ok s" "run (pbind p k) s = (res, s')"
  then obtain x s1 where "run p s = (x, s1)" "run (k x) s1 = (res, s')" by (auto split: prod.splits)
  then show "ok s' \<and> R (view s) (view s')"
    using assms movesD \<open>ok s\<close> by (metis transpE)
qed

lemma moves_ptry:
  assumes "reflp R" "transp R" "moves R view ok p" "\<And>x. moves R view ok (k x)"
  shows "moves R view ok (ptry p k)"
  using assms unfolding ptry_def by (intro moves_pbind) (auto split: outcome.split)

lemma moves_pmap_err:
  "reflp R \<Longrightarrow> transp R \<Longrightarrow> moves R view ok p \<Longrightarrow> moves R view ok (pmap_err f p)"
  unfolding pmap_err_def by (intro moves_pbind) auto

lemma moves_service_try:
  assumes "reflp R" "transp R" "moves R view ok p" "\<And>x. moves R view ok (k x)"
  shows "moves R view ok (service_try p k)"
  using assms unfolding service_try_def by (intro moves_ptry moves_pmap_err)

lemma moves_into_response:
  "reflp R \<Longrightarrow> transp R \<Longrightarrow> moves R view ok p \<Longrightarrow> moves R view ok (into_response f p)"
  unfolding into_response_def by (intro moves_pbind) auto

lemma moves_without_body:
  "reflp R \<Longrightarrow> transp R \<Longrightarrow> moves R view ok p \<Longrightarrow> moves R view ok (without_body p)"
  unfolding without_body_def by (intro moves_pbind) auto

lemma moves_governed: "reflp R \<Longrightarrow> moves R view ok p \<Longrightarrow> moves R view ok (governed v p)"
  by (auto simp: governed_def split: option.split)

lemma moves_method_get:
  "reflp R \<Longrightarrow> transp R \<Longrightarrow> moves R view ok p \<Longrightarrow> moves R view ok (method_get su m p)"
  by (auto simp: method_get_def moves_without_body split: http_method.split)

lemmas moves_intros = moves_pbind moves_ptry moves_pmap_err moves_service_try moves_into_response
  moves_without_body moves_governed moves_method_get

definition same_lists :: "store \<Rightarrow> store \<Rightarrow> bool" where
  "same_lists st st' \<longleftrightarrow> st_lists st' = st_lists st"

lemma same_lists_preorder [simp]: "reflp same_lists" "transp same_lists"
  by (auto simp: reflp_def transp_def same_lists_def)

lemma moves_same_lists: "moves same_but_cache view ok p \<Longrightarrow> moves same_lists view ok p"
  unfolding moves_def same_lists_def using same_but_cache_simps(1) by blast

lemma same_but_cache_preorder [simp]: "reflp same_but_cache" "transp same_but_cache"
  by (auto simp: reflp_def transp_def same_but_cache_def) (metis (no_types, lifting) store.surjective store.update_convs(4))

lemma top_preorder [simp]: "reflp (\<lambda>st st'. True)" "transp (\<lambda>st st'. True)"
  by (auto simp: reflp_def transp_def)

text \<open>Keeping the invariant of the store.\<close>

definition keeps :: "('s \<Rightarrow> store) \<Rightarrow> ('s \<Rightarrow> bool) \<Rightarrow> codec \<Rightarrow> ('s, 'a) proc \<Rightarrow> bool" where
  "keeps view ok cx p \<longleftrightarrow> moves (\<lambda>st st'. True) view (\<lambda>s. ok s \<and> store_ok cx (view s)) p"

lemma store_ok_put_cred: "store_ok cx st \<Longrightarrow> store_ok cx (put_cred c st)"
  by (auto simp: store_ok_def put_cred_def)

section \<open>The interface over the contracts\<close>

locale server_contract =
  service_contract sv view ok norm + certificate_contract "sv_cert_provider sv" view ok
  for sv :: "'s service" and view :: "'s \<Rightarrow> store" and ok :: "'s \<Rightarrow> bool" and norm :: "public_jwk \<Rightarrow> public_jwk"
begin

lemma authenticate_outcome:
  assumes "ok s" "run (authenticate lib clock state a) s = (res, s')" "app_service state = sv"
  shows "ok s' \<and> view s' = view s \<and> res \<noteq> Panic
     \<and> (\<forall>p. res = Ok p \<longrightarrow> admitted lib clock (app_management_auth state) (st_creds (view s)) a p)"
proof (cases "read_token lib a")
  case (Ok t)
  obtain token alg iss where t: "t = (token, alg, iss)" by (cases t)
  obtain fr s1 where find: "run (cred_find (sv_credential_repo sv) iss) s = (fr, s1)" by fastforce
  have run: "s' = s1"
    "res = (case fr of Ok x \<Rightarrow> obind (ok_or x IssuerNotFound)
               (verify_token lib clock (app_management_auth state) token alg) | Err e \<Rightarrow> Err InternalServer | Panic \<Rightarrow> Panic)"
    using assms(2,3) Ok t find
    by (auto simp: authenticate_def find_credential_def ok_or_def split: outcome.splits option.splits)
  then show ?thesis
    using cred_find_law [OF assms(1) find] Ok t
    by (auto simp: admitted_def outcome_simps ok_or_def split: outcome.splits option.splits)
qed (use assms in \<open>auto simp: authenticate_def\<close>)

lemma publish_status_outcome:
  assumes "ok s" "run (publish_status env state p k es) s = (res, s')" "app_service state = sv"
  shows "ok s' \<and> own_change p k (st_lists (view s)) (st_lists (view s')) \<and> st_creds (view s') = st_creds (view s)"
proof (cases "check_list_id env k")
  case (Ok u)
  let ?sub = "''https://'' @ app_server_domain state @ ''/api/v1/status-lists/'' @ k"
  obtain pr s1 where pub: "run (publish_status_list (he_ambient env) sv k p ?sub (map entry_from_request es)
      (app_token_exp_secs state) (app_max_status_index state) (app_max_statuses_per_request state)
      (app_max_serialized_list_size state)) s = (pr, s1)" by fastforce
  have "s' = s1" using assms(2,3) Ok pub
    by (auto simp: publish_status_def Let_def service_try_def split: outcome.splits)
  then show ?thesis
    using publish_outcome [OF assms(1) pub]
    by (cases pr) (auto intro: own_change_publish)
qed (use assms in \<open>auto simp: publish_status_def\<close>)

lemma update_status_outcome:
  assumes "ok s" "run (update_status env state p k es) s = (res, s')" "app_service state = sv"
    and "store_ok cx (view s)"
  shows "ok s' \<and> own_change p k (st_lists (view s)) (st_lists (view s')) \<and> st_creds (view s') = st_creds (view s)"
proof (cases "check_list_id env k")
  case (Ok u)
  obtain pr s1 where upd: "run (update_statuses (he_ambient env) sv p k (map entry_from_request es)
      (app_token_exp_secs state) (app_max_status_index state) (app_max_statuses_per_request state)
      (app_max_serialized_list_size state)) s = (pr, s1)" by fastforce
  have "s' = s1" using assms(2,3) Ok upd
    by (auto simp: update_status_def Let_def service_try_def split: outcome.splits)
  moreover note out = update_outcome [OF assms(1) upd assms(4)]
  ultimately show ?thesis
  proof (cases pr)
    case (Ok r)
    then obtain old where old: "st_lists (view s) k = Some old" "slr_issuer old = p"
      and r: "r = revised_record (he_ambient env) old (slr_status_list r)"
      and same: "same_but_cache (recorded sv (he_ambient env) r (app_token_exp_secs state) (view s)) (view s1)"
      using out by auto
    have "slr_list_id old = k" using store_okD(1) [OF assms(4) old(1)] by simp
    then have "slr_list_id r = k" using r by (metis revised_record_simps(1))
    then have "own_change p k (st_lists (view s)) ((st_lists (view s))(slr_list_id r \<mapsto> r))"
      using own_change_update [of "st_lists (view s)", OF old] r by metis
    then show ?thesis using out \<open>s' = s1\<close> same_but_cache_simps [OF same] by simp
  qed (use store_okD(1) [OF assms(4)] in \<open>auto simp: own_change_update\<close>)
qed (use assms in \<open>auto simp: update_status_def\<close>)

lemma token_moves:
  assumes "app_service state = sv"
  shows "moves same_but_cache view ok (state_token env state accept r w gz)"
proof -
  have "moves same_but_cache view ok (cert_signing_material (sv_cert_provider sv))"
    by (rule movesI) (use signing_material_law in \<open>auto simp: same_but_cache_def\<close>)
  then show ?thesis
    unfolding state_token_def build_status_list_token_def assms by (intro moves_intros) (auto simp: Let_def)
qed

lemma get_handler_moves:
  assumes "app_service state = sv"
  shows "moves same_but_cache view ok (get_status_list_handler env state k q h)"
proof -
  have "moves same_but_cache view ok (get_status_list sv k)" for k
    by (rule movesI) (use get_outcome in blast)
  moreover have "moves same_but_cache view ok (get_snapshot_at sv k t)" for k t
    by (rule movesI) (use get_snapshot_at_outcome in \<open>fastforce simp: same_but_cache_def\<close>)
  ultimately show ?thesis
    unfolding get_status_list_handler_def handle_historical_request_def Let_def assms
    by (auto intro!: moves_intros token_moves assms split: option.split conditional_response.split)
qed

lemma protected_route_outcome:
  assumes "ok s" "run (protected_route su state req h) s = (res, s')" "app_service state = sv"
  shows "ok s' \<and> view s' = view s
     \<or> (\<exists>p es s1 r. admitted (su_jwt su) (su_clock su) (app_management_auth state) (st_creds (view s))
            (rq_authorization (hr_headers req)) p
          \<and> ok s1 \<and> view s1 = view s \<and> run (h p es) s1 = (r, s'))"
proof -
  let ?a = "rq_authorization (hr_headers req)"
  obtain ar s1 where a: "run (authenticate (su_jwt su) (su_clock su) state ?a) s = (ar, s1)" by fastforce
  note auth = authenticate_outcome [OF assms(1) a assms(3)]
  show ?thesis
  proof (cases "\<exists>p es. ar = Ok p \<and> hr_statuses req = Inr es")
    case True
    then obtain p es where pe: "ar = Ok p" "hr_statuses req = Inr es" by blast
    obtain hr s2 where h: "run (h p es) s1 = (hr, s2)" by fastforce
    have "s' = s2"
      using assms(2) a pe h
      by (auto simp: protected_route_def into_response_def auth_def with_principal_def from_request_parts_def ok_or_def
          split: outcome.splits)
    then show ?thesis using auth pe h by blast
  next
    case False
    have "s' = s1"
      using assms(2) a False auth
      by (cases ar; cases "hr_statuses req")
        (auto simp: protected_route_def into_response_def auth_def with_principal_def from_request_parts_def ok_or_def
          split: outcome.splits)
    then show ?thesis using auth by blast
  qed
qed

lemma credentials_route_moves:
  assumes "app_service state = sv"
  shows "moves same_lists view ok (credentials_route su state req)"
proof -
  have "moves same_lists view ok (publish_credential sv c)" for c
  proof (rule movesI)
    fix s res s' assume "ok s" "run (publish_credential sv c) s = (res, s')"
    from cred_insert_law [OF this(1) this(2) [unfolded publish_credential_def]]
    show "ok s' \<and> same_lists (view s) (view s')"
      by (auto simp: same_lists_def put_cred_def split: outcome.splits)
  qed
  then show ?thesis
    unfolding credentials_route_def register_credentials_def credential_handler_def assms
    by (auto intro!: moves_intros split: sum.split http_method.split)
qed

lemma aggregation_moves:
  assumes "app_service state = sv"
  shows "moves same_lists view ok (aggregation_route su state req)"
proof -
  have "moves same_but_cache view ok (list_uris sv)"
    by (rule movesI) (use list_uris_law in \<open>fastforce simp: list_uris_def same_but_cache_def\<close>)
  then show ?thesis
    unfolding aggregation_route_def get_aggregation_def assms
    by (intro moves_same_lists moves_governed moves_method_get moves_into_response moves_service_try) auto
qed

lemma status_list_route_moves:
  assumes "app_service state = sv"
  shows "moves same_lists view ok (status_list_route su state req k)"
  unfolding status_list_route_def
  by (intro moves_same_lists moves_governed moves_method_get moves_into_response get_handler_moves assms) simp_all

lemma statuses_route_outcome:
  assumes "ok s" "run (statuses_route su state req k) s = (res, s')" "app_service state = sv"
    and "store_ok cx (view s)"
  shows "ok s' \<and> (st_lists (view s') = st_lists (view s)
     \<or> (\<exists>p. hr_method req \<in> {PUT, PATCH}
        \<and> admitted (su_jwt su) (su_clock su) (app_management_auth state) (st_creds (view s))
            (rq_authorization (hr_headers req)) p
        \<and> own_change p k (st_lists (view s)) (st_lists (view s'))))"
proof (cases "gv_issuer (su_governors su) = None \<and> hr_method req \<in> {PUT, PATCH}")
  case True
  then obtain h where run: "run (protected_route su state req h) s = (res, s')"
    and h: "h = (\<lambda>p. publish_status (su_env su) state p k) \<or> h = (\<lambda>p. update_status (su_env su) state p k)"
    using assms(2) by (auto simp: statuses_route_def governed_def)
  show ?thesis
    using protected_route_outcome [OF assms(1) run assms(3)]
  proof (elim disjE exE conjE)
    fix p es s1 r
    assume *: "admitted (su_jwt su) (su_clock su) (app_management_auth state) (st_creds (view s))
        (rq_authorization (hr_headers req)) p" "ok s1" "view s1 = view s" "run (h p es) s1 = (r, s')"
    from h have "ok s' \<and> own_change p k (st_lists (view s)) (st_lists (view s'))"
    proof
      assume "h = (\<lambda>p. publish_status (su_env su) state p k)"
      then show ?thesis using publish_status_outcome [OF *(2) _ assms(3)] *(3,4) by metis
    next
      assume "h = (\<lambda>p. update_status (su_env su) state p k)"
      then show ?thesis using update_status_outcome [OF *(2) _ assms(3)] *(3,4) assms(4) by metis
    qed
    then show ?thesis using True * by blast
  qed simp
next
  case False
  then show ?thesis using assms(1,2) by (auto simp: statuses_route_def governed_def split: http_method.splits option.splits)
qed

lemma api_v1_outcome:
  assumes "ok s" "run (api_v1_routes su state req path) s = (res, s')" "app_service state = sv"
    and "store_ok cx (view s)"
  shows "ok s' \<and> (st_lists (view s') = st_lists (view s)
     \<or> (\<exists>k p. path = [''status-lists'', k, ''statuses''] \<and> hr_method req \<in> {PUT, PATCH}
        \<and> admitted (su_jwt su) (su_clock su) (app_management_auth state) (st_creds (view s))
            (rq_authorization (hr_headers req)) p
        \<and> own_change p k (st_lists (view s)) (st_lists (view s'))))"
    (is "_ \<and> (?same \<or> ?owner)")
proof (cases "\<exists>k. path = [''status-lists'', k, ''statuses'']")
  case True
  then obtain k where k: "path = [''status-lists'', k, ''statuses'']" by blast
  then have "run (statuses_route su state req k) s = (res, s')"
    using assms(2) by (simp add: api_v1_routes_def)
  from statuses_route_outcome [OF assms(1) this assms(3,4)] show ?thesis using k by blast
next
  case False
  have "moves same_lists view ok (api_v1_routes su state req path)"
    unfolding api_v1_routes_def Let_def using False status_list_route_moves [OF assms(3), of su req]
      aggregation_moves [OF assms(3), of su req] credentials_route_moves [OF assms(3), of su req]
    by (simp split: list.split)
  from movesD [OF this assms(1,2)] show ?thesis unfolding same_lists_def by fast
qed

lemma handle_request_outcome:
  assumes "ok s" "run (handle_request su state req) s = (resp, s')" "app_service state = sv"
    and "store_ok cx (view s)"
  shows "ok s' \<and> (st_lists (view s') = st_lists (view s) \<or> owner_change su state req (view s) (view s'))"
proof -
  obtain r where r: "run (router su state req) s = (r, s')"
    using assms(2) by (auto simp: handle_request_def split: prod.splits)
  show ?thesis
  proof (cases "take 2 (hr_path req) = [''api'', ''v1'']")
    case True
    then obtain rest where path: "hr_path req = ''api'' # ''v1'' # rest"
      by (metis append_take_drop_id append_Cons append_Nil)
    then have "run (api_v1_routes su state req rest) s = (r, s')"
      using r by (simp add: router_def Let_def)
    from api_v1_outcome [OF assms(1) this assms(3,4)] path show ?thesis
      unfolding owner_change_def by simp
  next
    case False
    have "moves same_lists view ok (router su state req)"
      unfolding router_def Let_def using False by (auto intro!: moves_method_get)
    from movesD [OF this assms(1) r] show ?thesis unfolding same_lists_def by fast
  qed
qed

text \<open>Every request keeps the invariant of the store.\<close>

lemma publish_status_keeps:
  assumes "app_service state = sv" "codec_ok (amb_codec (he_ambient env))" "codec_empty_ok (amb_codec (he_ambient env))"
    and "list_all (\<lambda>e. in_i32 (re_index e)) es"
  shows "keeps view ok (amb_codec (he_ambient env)) (publish_status env state p k es)"
proof -
  have "list_all (\<lambda>u. in_i32 (se_index u)) (map entry_from_request es)"
    using assms(4) by (simp add: list_all_iff entry_from_request_def)
  then have "keeps view ok (amb_codec (he_ambient env))
      (publish_status_list (he_ambient env) sv k p sub (map entry_from_request es) n mi mn ms)" for sub n mi mn ms
    unfolding keeps_def using publish_keeps_store assms(2,3) by (intro movesI) blast
  then show ?thesis unfolding keeps_def publish_status_def Let_def assms(1) by (intro moves_intros) auto
qed

lemma update_status_keeps:
  assumes "app_service state = sv" "codec_ok (amb_codec (he_ambient env))"
    and "list_all (\<lambda>e. in_i32 (re_index e)) es"
  shows "keeps view ok (amb_codec (he_ambient env)) (update_status env state p k es)"
proof -
  have "list_all (\<lambda>u. in_i32 (se_index u)) (map entry_from_request es)"
    using assms(3) by (simp add: list_all_iff entry_from_request_def)
  then have "keeps view ok (amb_codec (he_ambient env))
      (update_statuses (he_ambient env) sv p k (map entry_from_request es) n mi mn ms)" for n mi mn ms
    unfolding keeps_def using update_keeps_store assms(2) by (intro movesI) blast
  then show ?thesis unfolding keeps_def update_status_def Let_def assms(1) by (intro moves_intros) auto
qed

lemma get_handler_keeps:
  assumes "app_service state = sv"
  shows "keeps view ok cx (get_status_list_handler env state k q h)"
proof -
  have "keeps view ok cx (get_status_list sv k)" for k
    unfolding keeps_def by (rule movesI) (use get_outcome [where cx = cx] in blast)
  moreover have "keeps view ok cx (get_snapshot_at sv k t)" for k t
    unfolding keeps_def by (rule movesI) (use get_snapshot_at_outcome in fastforce)
  moreover have "keeps view ok cx (state_token env state accept r w gz)" for accept r w gz
  proof -
    have "keeps view ok cx (cert_signing_material (sv_cert_provider sv))"
      unfolding keeps_def by (rule movesI) (use signing_material_law in fastforce)
    then show ?thesis
      unfolding keeps_def state_token_def build_status_list_token_def assms
      by (intro moves_intros) (auto simp: Let_def)
  qed
  ultimately show ?thesis
    unfolding keeps_def get_status_list_handler_def handle_historical_request_def Let_def assms
    by (auto intro!: moves_intros split: option.split conditional_response.split)
qed

lemma credentials_route_keeps:
  assumes "app_service state = sv"
  shows "keeps view ok cx (credentials_route su state req)"
proof -
  have "keeps view ok cx (publish_credential sv c)" for c
    unfolding keeps_def
  proof (rule movesI)
    fix s res s' assume s: "ok s \<and> store_ok cx (view s)" "run (publish_credential sv c) s = (res, s')"
    from cred_insert_law [OF conjunct1 [OF s(1)] s(2) [unfolded publish_credential_def]]
    have "ok s' \<and> (view s' = view s \<or> view s' = put_cred (stored_cred norm c) (view s))"
      by (auto split: outcome.splits)
    then show "(ok s' \<and> store_ok cx (view s')) \<and> True"
      using s(1) store_ok_put_cred [of cx "view s" "stored_cred norm c"] by auto
  qed
  then show ?thesis
    unfolding keeps_def credentials_route_def register_credentials_def credential_handler_def assms
    by (auto intro!: moves_intros split: sum.split http_method.split)
qed

lemma aggregation_keeps:
  assumes "app_service state = sv"
  shows "keeps view ok cx (aggregation_route su state req)"
proof -
  have "keeps view ok cx (list_uris sv)"
    unfolding keeps_def by (rule movesI) (use list_uris_law in \<open>fastforce simp: list_uris_def\<close>)
  then show ?thesis
    unfolding keeps_def aggregation_route_def get_aggregation_def assms
    by (intro moves_governed moves_method_get moves_into_response moves_service_try) auto
qed

lemma authenticate_keeps:
  assumes "app_service state = sv"
  shows "keeps view ok cx (authenticate lib clock state a)"
  unfolding keeps_def by (rule movesI) (use authenticate_outcome [OF _ _ assms] in metis)

lemma protected_route_keeps:
  assumes "app_service state = sv" "\<And>p es. hr_statuses req = Inr es \<Longrightarrow> keeps view ok cx (h p es)"
  shows "keeps view ok cx (protected_route su state req h)"
  using assms(2) authenticate_keeps [OF assms(1)]
  unfolding keeps_def protected_route_def auth_def with_principal_def
  by (auto intro!: moves_intros split: sum.split)

lemma handle_request_keeps:
  assumes "app_service state = sv" "amb_codec (he_ambient (su_env su)) = cx" "codec_ok cx" "codec_empty_ok cx"
    and "\<And>es. hr_statuses req = Inr es \<Longrightarrow> list_all (\<lambda>e. in_i32 (re_index e)) es"
  shows "keeps view ok cx (handle_request su state req)"
proof -
  have "keeps view ok cx (statuses_route su state req k)" for k
    using assms publish_status_keeps [of state "su_env su"] update_status_keeps [of state "su_env su"]
    unfolding statuses_route_def keeps_def
    by (auto intro!: moves_governed protected_route_keeps [unfolded keeps_def] split: http_method.split simp: keeps_def)
  moreover have "keeps view ok cx (status_list_route su state req k)" for k
    using get_handler_keeps [OF assms(1), of cx] unfolding status_list_route_def keeps_def
    by (intro moves_governed moves_method_get moves_into_response) auto
  ultimately have "keeps view ok cx (api_v1_routes su state req path)" for path
    using aggregation_keeps [OF assms(1), of cx su req] credentials_route_keeps [OF assms(1), of cx su req]
    unfolding api_v1_routes_def Let_def by (auto simp: keeps_def split: list.split)
  then have "keeps view ok cx (router su state req)"
    unfolding router_def Let_def keeps_def by (auto intro!: moves_method_get)
  then show ?thesis unfolding handle_request_def keeps_def by (auto intro!: moves_pbind)
qed

end

interpretation mem_server: server_contract "memory_service history (inline_provider material)" memory_view memory_ok id
  for history material
proof -
  have "sv_cert_provider (memory_service history (inline_provider material)) = inline_provider material"
    by (simp add: memory_service_def)
  then show "server_contract (memory_service history (inline_provider material)) memory_view memory_ok id"
    by (simp add: server_contract_def mem_service.service_contract_axioms inline_certs.certificate_contract_axioms)
qed

section \<open>Properties\<close>

text \<open>
  What the JWT library documents: with an issuer set, a token is only accepted if its issuer
  claim is one of those.
\<close>

definition jwt_checks_issuer :: "('alg, 'jwk, 'dk) jwt_lib \<Rightarrow> bool" where
  "jwt_checks_issuer lib \<longleftrightarrow>
     (\<forall>token key v claims issuers. jl_decode lib token key v = Inr claims \<longrightarrow> va_iss v = Some issuers
        \<longrightarrow> mc_iss claims \<in> set issuers)"

text \<open>The request's bearer token is accepted by the library under the key registered for \<open>p\<close>.\<close>

definition signed_by ::
  "('alg, 'jwk, 'dk) jwt_lib \<Rightarrow> management_auth_config \<Rightarrow> (string \<rightharpoonup> credential) \<Rightarrow> string option \<Rightarrow> issuer
   \<Rightarrow> management_claims \<Rightarrow> bool" where
  "signed_by lib cfg creds authorization p claims \<longleftrightarrow>
     (\<exists>token alg cred jwk key. bearer_token authorization = Some token \<and> jl_decode_header lib token = Inr alg
        \<and> creds p = Some cred \<and> jl_jwk_from_slice lib (cr_public_key cred) = Inr jwk
        \<and> jl_decoding_key lib jwk = Inr key
        \<and> jl_decode lib token key (auth_validation lib cfg alg cred) = Inr claims \<and> mc_iss claims = p)"

text \<open>The verdict of the middleware as a function of the header, the credentials and the clock.\<close>

definition auth_verdict ::
  "('alg, 'jwk, 'dk) jwt_lib \<Rightarrow> nat option \<Rightarrow> management_auth_config \<Rightarrow> (string \<rightharpoonup> credential)
   \<Rightarrow> string option \<Rightarrow> (issuer, authentication_error) outcome" where
  "auth_verdict lib clock cfg creds authorization =
     obind (read_token lib authorization) (\<lambda>(token, alg, iss).
     obind (ok_or (creds iss) IssuerNotFound) (\<lambda>cred. verify_token lib clock cfg token alg cred))"

lemma auth_verdict_not_Panic [simp]: "auth_verdict lib clock cfg creds a \<noteq> Panic"
  by (auto simp: auth_verdict_def outcome_simps split: prod.splits)

text \<open>Any number of requests one after the other, each with its surroundings.\<close>

fun serve_all ::
  "'s app_state \<Rightarrow> (('sk, 'ek, 'alg, 'jwk, 'dk, 'json) surroundings \<times> 'jwk http_request) list \<Rightarrow> 's
   \<Rightarrow> response list \<times> 's" where
  "serve_all state [] s = ([], s)"
| "serve_all state ((su, req) # rest) s =
     (let (resp, s1) = run (handle_request su state req) s; (resps, s2) = serve_all state rest s1
      in (resp # resps, s2))"

text \<open>The indices of a request are those of its JSON type.\<close>

definition request_fits :: "codec \<Rightarrow> ('sk, 'ek, 'alg, 'jwk, 'dk, 'json) surroundings \<times> 'jwk http_request \<Rightarrow> bool" where
  "request_fits cx q \<longleftrightarrow> amb_codec (he_ambient (su_env (fst q))) = cx
     \<and> (case hr_statuses (snd q) of Inl _ \<Rightarrow> True | Inr es \<Rightarrow> list_all (\<lambda>e. in_i32 (re_index e)) es)"

lemma auth_validation_iss [simp]: "va_iss (auth_validation lib cfg alg cred) = Some [cr_issuer cred]"
  by (simp add: auth_validation_def Let_def)

lemma admitted_signed:
  assumes "admitted lib clock cfg creds a p" "jwt_checks_issuer lib" "\<And>k c. creds k = Some c \<Longrightarrow> cr_issuer c = k"
  shows "\<exists>claims now. signed_by lib cfg creds a p claims \<and> clock = Some now
     \<and> validate_policy claims now (ma_leeway_secs cfg) (ma_max_token_lifetime_secs cfg) = Ok ()"
proof -
  obtain token alg iss cred where t: "read_token lib a = Ok (token, alg, iss)" "creds iss = Some cred"
    "verify_token lib clock cfg token alg cred = Ok p"
    using assms(1) by (auto simp: admitted_def)
  then obtain jwk key claims now where v: "jl_jwk_from_slice lib (cr_public_key cred) = Inr jwk"
    "jl_decoding_key lib jwk = Inr key" "jl_decode lib token key (auth_validation lib cfg alg cred) = Inr claims"
    "clock = Some now" "validate_policy claims now (ma_leeway_secs cfg) (ma_max_token_lifetime_secs cfg) = Ok ()"
    "mc_iss claims = p"
    by (auto simp: verify_token_def outcome_simps)
  have "mc_iss claims \<in> set [cr_issuer cred]"
    using assms(2) [unfolded jwt_checks_issuer_def] v(3) auth_validation_iss by fast
  then have "iss = p" using assms(3) [OF t(2)] v(6) by simp
  then show ?thesis using t v by (auto simp: signed_by_def read_token_def outcome_simps)
qed

text \<open>
  A small deployment for the examples: the token is the issuer's name, every library accepts
  what it is given, and a JWT is the subject it carries.
\<close>

definition sample_env :: "(string, string) http_env" where
  "sample_env =
     \<lparr>he_ambient = \<lparr>amb_codec = plain_codec, amb_now = 1000, amb_uuid = ''snap''\<rparr>, he_crypto = sample_crypto,
      he_time = no_dates, he_sha256_hex = (\<lambda>t. ''ab''),
      he_uuid_try_parse = (\<lambda>t. if t = [] then Inl ''empty'' else Inr ()), he_header_value = (\<lambda>t. True),
      he_header_error = [], he_q_positive = (\<lambda>t. Some True)\<rparr>"

definition sample_jwt :: "(unit, unit, unit) jwt_lib" where
  "sample_jwt =
     \<lparr>jl_decode_header = (\<lambda>t. Inr ()), jl_insecure_decode_iss = Inr, jl_jwk_from_slice = (\<lambda>b. Inr ()),
      jl_decoding_key = Inr,
      jl_validation_new = (\<lambda>a. \<lparr>va_algorithm = a, va_leeway = 60, va_validate_nbf = False, va_iss = None,
        va_required_spec_claims = [''exp''], va_aud = None, va_validate_aud = True\<rparr>),
      jl_decode = (\<lambda>t k v. if (case va_iss v of None \<Rightarrow> True | Some issuers \<Rightarrow> t \<in> set issuers)
        then Inr \<lparr>mc_iss = t, mc_iat = 900, mc_nbf = None, mc_exp = 1200\<rparr> else Inl ''InvalidIssuer'')\<rparr>"

definition sample_surroundings :: "(string, string, unit, unit, unit, unit) surroundings" where
  "sample_surroundings =
     \<lparr>su_env = sample_env, su_jwt = sample_jwt, su_clock = Some 1000, su_jwk_to_vec = (\<lambda>j. Inr []),
      su_json_from_slice = (\<lambda>b. Inr ()), su_json_is_object = (\<lambda>j. True),
      su_framework = \<lparr>fw_not_found = status_response 404, fw_method_not_allowed = status_response 405,
        fw_panicked = status_response 500\<rparr>,
      su_governors = \<lparr>gv_strict = None, gv_issuer = None, gv_permissive = None\<rparr>,
      su_ready = status_response 200, su_metrics = None\<rparr>"

definition sample_state :: "memory app_state" where
  "sample_state =
     \<lparr>app_service = memory_service True (inline_provider \<lparr>sm_certificate_chain = Some [''c''], sm_signing_key_pem = ''k''\<rparr>),
      app_server_domain = ''h'', app_aggregation_uri = None, app_token_exp_secs = 60, app_token_ttl_secs = 30,
      app_max_status_index = 100, app_max_statuses_per_request = 10, app_max_serialized_list_size = 100,
      app_snapshot_retention_secs = 0, app_management_auth = default_management_auth\<rparr>"

definition sample_headers :: request_headers where
  "sample_headers = \<lparr>rq_accept = None, rq_accept_encoding = [], rq_if_none_match = None, rq_if_modified_since = None,
     rq_authorization = Some ''Bearer iss''\<rparr>"

definition sample_request :: "http_method \<Rightarrow> string list \<Rightarrow> request_entry list \<Rightarrow> unit http_request" where
  "sample_request meth path es =
     \<lparr>hr_method = meth, hr_path = [''api'', ''v1''] @ path, hr_query = Inr None, hr_headers = sample_headers,
      hr_statuses = Inr es, hr_credentials = Inr (''iss'', ())\<rparr>"

text \<open>A credential is registered, then its issuer publishes a list.\<close>

definition sample_session ::
  "((string, string, unit, unit, unit, unit) surroundings \<times> unit http_request) list" where
  "sample_session =
     [(sample_surroundings, sample_request POST [''credentials''] []),
      (sample_surroundings, sample_request PUT [''status-lists'', ''l'', ''statuses''] [\<lparr>re_index = 1, re_status = INVALID\<rparr>])]"

definition sample_record :: status_list_record where
  "sample_record = \<lparr>slr_list_id = ''l'', slr_issuer = ''iss'', slr_status_list = \<lparr>sl_bits = 1, sl_lst = [CHR 0x02]\<rparr>,
     slr_sub = ''sub'', slr_updated_at = 900\<rparr>"

definition sample_store :: memory where
  "sample_store = empty_memory\<lparr>ms_lists := [(''l'', sample_record)],
     ms_credentials := [(''iss'', \<lparr>cr_issuer = ''iss'', cr_public_key = []\<rparr>)]\<rparr>"

definition sample_patch :: "unit http_request" where
  "sample_patch = sample_request PATCH [''status-lists'', ''l'', ''statuses''] [\<lparr>re_index = 0, re_status = INVALID\<rparr>]"

lemma sample_update:
  "update plain_codec \<lparr>sl_bits = 1, sl_lst = [CHR 0x02]\<rparr> [\<lparr>se_index = 0, se_status = Invalid\<rparr>] =
     Ok \<lparr>sl_bits = 1, sl_lst = [CHR 0x03]\<rparr>"
  by code_simp

lemma sample_list_wf: "wf_list plain_codec \<lparr>sl_bits = 1, sl_lst = [CHR 0x02]\<rparr>"
proof -
  have "create plain_codec [\<lparr>se_index = 1, se_status = Invalid\<rparr>] = Ok \<lparr>sl_bits = 1, sl_lst = [CHR 0x02]\<rparr>"
    by code_simp
  from create_wf [OF plain_codec_ok _ this] show ?thesis by (simp add: in_i32_def)
qed

lemma sample_store_ok: "memory_ok sample_store" "store_ok plain_codec (memory_view sample_store)"
  using sample_list_wf
  by (simp_all add: memory_ok_def store_ok_def sample_store_def empty_memory_def sample_record_def record_ok_def)

lemma sample_jwt_checks: "jwt_checks_issuer sample_jwt"
  by (auto simp: jwt_checks_issuer_def sample_jwt_def split: option.splits if_splits)

lemma sample_authenticate:
  "run (authenticate sample_jwt (Some 1000) sample_state (Some ''Bearer iss'')) sample_store = (Ok ''iss'', sample_store)"
  by (simp add: authenticate_def read_token_def bearer_token_def strip_prefix_def sample_jwt_def find_credential_def
      sample_state_def memory_service_def memory_credentials_def mem_cred_find_def sample_store_def verify_token_def
      auth_validation_def validate_policy_def u64_saturating_add_def u64_checked_sub_def default_management_auth_def)

lemma sample_patch_run:
  "\<exists>s'. run (handle_request sample_surroundings sample_state sample_patch) sample_store = (status_response 200, s')
     \<and> map_of (ms_lists s') ''l'' \<noteq> map_of (ms_lists sample_store) ''l''"
proof -
  have "\<exists>s'. run (update_status sample_env sample_state ''iss'' ''l'' [\<lparr>re_index = 0, re_status = INVALID\<rparr>]) sample_store =
      (Ok (status_response 200), s') \<and> map_of (ms_lists s') ''l'' \<noteq> map_of (ms_lists sample_store) ''l''"
    using sample_update
    by (simp add: update_status_def check_list_id_def sample_env_def service_try_def sample_state_def
        entry_from_request_def update_statuses_def check_limits_def memory_service_def memory_status_lists_def
        mem_find_def sample_store_def sample_record_def next_updated_at_def wrap_i64_def update_record_def
        snapshots_enabled_def mem_update_with_snapshot_def require_snapshot_def invalidate_after_commit_def
        memory_cache_def mem_cache_invalidate_def Let_def)
  then show ?thesis
    using sample_authenticate
    by (auto simp: handle_request_def router_def api_v1_routes_def statuses_route_def governed_def protected_route_def
        into_response_def auth_def with_principal_def from_request_parts_def sample_patch_def sample_request_def
        sample_headers_def sample_surroundings_def Let_def)
qed

text \<open>
  C20. Only its owner changes a list. If a request changes what is stored under a list identifier,
  it was a PUT or PATCH on that list's \<open>statuses\<close> path, with a bearer token that the JWT library
  accepts under the public key registered for the issuer the token names and whose claims meet
  the server's policy; the list afterwards belongs to that issuer, and if it existed before, it
  belonged to that issuer before.
\<close>

theorem lists_change_only_by_their_owner:
  assumes "memory_ok s" and "store_ok cx (memory_view s)"
    and "app_service state = memory_service history (inline_provider material)"
    and "jwt_checks_issuer (su_jwt su)"
    and "run (handle_request su state req) s = (resp, s')"
    and "map_of (ms_lists s') j \<noteq> map_of (ms_lists s) j"
  shows "hr_path req = [''api'', ''v1'', ''status-lists'', j, ''statuses''] \<and> hr_method req \<in> {PUT, PATCH}
     \<and> (\<exists>p claims now r'.
          signed_by (su_jwt su) (app_management_auth state) (map_of (ms_credentials s))
            (rq_authorization (hr_headers req)) p claims
          \<and> su_clock su = Some now
          \<and> validate_policy claims now (ma_leeway_secs (app_management_auth state))
              (ma_max_token_lifetime_secs (app_management_auth state)) = Ok ()
          \<and> map_of (ms_lists s') j = Some r' \<and> slr_issuer r' = p
          \<and> (\<forall>r. map_of (ms_lists s) j = Some r \<longrightarrow> slr_issuer r = p))"
proof -
  have "owner_change su state req (memory_view s) (memory_view s')"
    using mem_server.handle_request_outcome [OF assms(1,5,3,2)] assms(6) by auto
  then obtain k p where k: "hr_path req = [''api'', ''v1'', ''status-lists'', k, ''statuses'']" "hr_method req \<in> {PUT, PATCH}"
    and adm: "admitted (su_jwt su) (su_clock su) (app_management_auth state) (map_of (ms_credentials s))
      (rq_authorization (hr_headers req)) p"
    and own: "own_change p k (map_of (ms_lists s)) (map_of (ms_lists s'))"
    by (auto simp: owner_change_def)
  have "k = j" using own assms(6) by (metis own_change_def)
  moreover have "map_of (ms_credentials s) i = Some c \<Longrightarrow> cr_issuer c = i" for i c
    using assms(2) by (simp add: store_ok_def)
  ultimately show ?thesis
    using k admitted_signed [OF adm assms(4)] own assms(6) by (auto simp: own_change_def)
qed

theorem lists_change_only_by_their_owner_witness:
  "\<exists>p claims. signed_by sample_jwt default_management_auth (map_of (ms_credentials sample_store)) (Some ''Bearer iss'')
     p claims \<and> slr_issuer sample_record = p"
proof -
  obtain s' where run: "run (handle_request sample_surroundings sample_state sample_patch) sample_store = (status_response 200, s')"
    and changed: "map_of (ms_lists s') ''l'' \<noteq> map_of (ms_lists sample_store) ''l''"
    using sample_patch_run by blast
  have "app_service sample_state = memory_service True (inline_provider \<lparr>sm_certificate_chain = Some [''c''], sm_signing_key_pem = ''k''\<rparr>)"
    "jwt_checks_issuer (su_jwt sample_surroundings)"
    using sample_jwt_checks by (simp_all add: sample_state_def sample_surroundings_def)
  from lists_change_only_by_their_owner [OF sample_store_ok this run changed]
  show ?thesis
    by (auto simp: sample_surroundings_def sample_state_def sample_patch_def sample_request_def sample_headers_def
        sample_store_def)
qed





text \<open>
  C23. The store stays sound: after any sequence of requests to the empty in-memory server, valid
  or not, every list, cached list and snapshot is well formed under its own identifier and every
  credential is stored under its issuer.
\<close>

theorem requests_keep_store_sound:
  assumes "codec_ok cx" and "codec_empty_ok cx" and "list_all (request_fits cx) qs"
    and "app_service state = memory_service history (inline_provider material)"
    and "serve_all state qs empty_memory = (resps, s')"
  shows "memory_ok s' \<and> store_ok cx (memory_view s')"
proof -
  have "memory_ok s' \<and> store_ok cx (memory_view s')"
    if "memory_ok s \<and> store_ok cx (memory_view s)" "serve_all state qs s = (resps, s')" for s
    using that assms(3)
  proof (induction qs arbitrary: s resps)
    case (Cons q qs)
    obtain su req resp s1 where q: "q = (su, req)" "run (handle_request su state req) s = (resp, s1)"
      by (metis surj_pair)
    have "amb_codec (he_ambient (su_env su)) = cx"
      "hr_statuses req = Inr es \<Longrightarrow> list_all (\<lambda>e. in_i32 (re_index e)) es" for es
      using Cons.prems(3) q(1) by (auto simp: request_fits_def)
    note step = mem_server.handle_request_keeps [OF assms(4) this(1) assms(1,2) this(2), unfolded keeps_def]
    from movesD [OF step Cons.prems(1) q(2)] have "memory_ok s1 \<and> store_ok cx (memory_view s1)" by blast
    then show ?case using Cons q by (auto split: prod.splits)
  qed simp
  then show ?thesis using assms(5) memory_ok_empty store_ok_empty by blast
qed

theorem requests_keep_store_sound_witness:
  "store_ok plain_codec (memory_view (snd (serve_all sample_state sample_session empty_memory)))"
proof -
  have "list_all (request_fits plain_codec) sample_session"
    by (simp add: sample_session_def request_fits_def sample_surroundings_def sample_env_def sample_request_def in_i32_def)
  moreover have "app_service sample_state = memory_service True (inline_provider \<lparr>sm_certificate_chain = Some [''c''], sm_signing_key_pem = ''k''\<rparr>)"
    by (simp add: sample_state_def)
  ultimately show ?thesis
    using requests_keep_store_sound [OF plain_codec_ok] by (metis surjective_pairing)
qed

end
