(* ===== verification/Concurrency.thy ===== *)
theory Concurrency
  imports Memory_Store
begin

text \<open>
  Concurrent requests. Any number of publish and update requests run interleaved over one
  memory store, each taking turns at its \<open>await\<close> points. They are linearizable: every
  successful request takes effect once, on the list as it then is, and a request that reports
  an error has no effect. The optimistic guard on \<open>updated_at\<close> is what rules out lost
  updates, and it is sound because \<open>next_updated_at\<close> strictly advances the stamp. The bound
  \<open>stamps_in_range\<close> keeps that addition from overflowing.
\<close>

datatype write_request =
    PublishRequest ambient string issuer string "status_entry list" nat int nat nat
  | UpdateRequest ambient issuer string "status_entry list" nat int nat nat

fun serve :: "'s service \<Rightarrow> write_request \<Rightarrow> ('s, status_list_record, status_list_error) io" where
  "serve sv (PublishRequest amb k iss sub us n mi mn ms) = publish_status_list amb sv k iss sub us n mi mn ms"
| "serve sv (UpdateRequest amb iss k us n mi mn ms) = update_statuses amb sv iss k us n mi mn ms"

text \<open>The effect of a successful request on the store.\<close>

fun request_effect :: "'s service \<Rightarrow> write_request \<Rightarrow> store \<Rightarrow> store \<Rightarrow> bool" where
  "request_effect sv (PublishRequest amb k iss sub us n mi mn ms) st st' \<longleftrightarrow>
     (\<exists>sl. st_lists st k = None \<and> create (amb_codec amb) us = Ok sl
        \<and> st' = recorded sv amb (new_record amb k iss sub sl) n st)"
| "request_effect sv (UpdateRequest amb iss k us n mi mn ms) st st' \<longleftrightarrow>
     (\<exists>old sl. st_lists st k = Some old \<and> slr_issuer old = iss
        \<and> update (amb_codec amb) (slr_status_list old) us = Ok sl
        \<and> st' = recorded sv amb (revised_record amb old sl) n st)"

fun request_ambient :: "write_request \<Rightarrow> ambient" where
  "request_ambient (PublishRequest amb k iss sub us n mi mn ms) = amb"
| "request_ambient (UpdateRequest amb iss k us n mi mn ms) = amb"

fun request_entries :: "write_request \<Rightarrow> status_entry list" where
  "request_entries (PublishRequest amb k iss sub us n mi mn ms) = us"
| "request_entries (UpdateRequest amb iss k us n mi mn ms) = us"

definition request_ok :: "codec \<Rightarrow> write_request \<Rightarrow> bool" where
  "request_ok cx q \<longleftrightarrow> amb_codec (request_ambient q) = cx \<and> in_i64 (amb_now (request_ambient q))
     \<and> amb_now (request_ambient q) < i64_max \<and> list_all (\<lambda>u. in_i32 (se_index u)) (request_entries q)"

definition stamps_in_range :: "memory \<Rightarrow> bool" where
  "stamps_in_range s \<longleftrightarrow> list_all (\<lambda>(k, r). in_i64 (slr_updated_at r) \<and> slr_updated_at r < i64_max) (ms_lists s)"

definition evolves :: "(string \<rightharpoonup> status_list_record) \<Rightarrow> (string \<rightharpoonup> status_list_record) \<Rightarrow> bool" where
  "evolves A B \<longleftrightarrow> (\<forall>k r. A k = Some r \<longrightarrow> (\<exists>r'. B k = Some r' \<and> (r' = r \<or> slr_updated_at r < slr_updated_at r')))"

definition list_rely :: "memory \<Rightarrow> memory \<Rightarrow> bool" where
  "list_rely s s' \<longleftrightarrow> evolves (map_of (ms_lists s)) (map_of (ms_lists s'))"

definition visible :: "memory \<Rightarrow> store" where
  "visible s = (memory_view s)\<lparr>st_cache := Map.empty\<rparr>"

definition sound_memory :: "codec \<Rightarrow> memory \<Rightarrow> bool" where
  "sound_memory cx s \<longleftrightarrow> memory_ok s \<and> store_ok cx (memory_view s) \<and> stamps_in_range s"

lemma evolves_refl: "evolves A A"
  by (simp add: evolves_def)

lemma evolves_trans: "evolves A B \<Longrightarrow> evolves B C \<Longrightarrow> evolves A C"
  unfolding evolves_def by (metis less_trans)

lemma list_rely_order: "transp list_rely" "reflp list_rely"
  by (auto simp: list_rely_def evolves_refl intro!: transpI reflpI intro: evolves_trans)

lemma evolves_put:
  "A k = None \<or> (\<exists>old. A k = Some old \<and> slr_updated_at old < slr_updated_at r) \<Longrightarrow> evolves A (A(k \<mapsto> r))"
  by (auto simp: evolves_def)

lemma stamps_in_rangeD:
  "stamps_in_range s \<Longrightarrow> map_of (ms_lists s) k = Some r \<Longrightarrow>
   in_i64 (slr_updated_at r) \<and> slr_updated_at r < i64_max"
  by (auto simp: stamps_in_range_def list_all_iff dest: map_of_SomeD)

text \<open>The writes of the memory service are single atomic steps that never fail.\<close>

definition mem_insert_record :: "ambient \<Rightarrow> bool \<Rightarrow> status_list_record \<Rightarrow> nat \<Rightarrow> memory \<Rightarrow> unit sl_result \<times> memory" where
  "mem_insert_record amb history r n =
     (if history then mem_insert_with_snapshot True r (build_snapshot (amb_uuid amb) r n) else mem_insert r)"

definition mem_update_record ::
  "ambient \<Rightarrow> bool \<Rightarrow> status_list_record \<Rightarrow> int \<Rightarrow> nat \<Rightarrow> memory \<Rightarrow> bool sl_result \<times> memory" where
  "mem_update_record amb history r e n =
     (if history then mem_update_with_snapshot True r e (build_snapshot (amb_uuid amb) r n) else mem_update r e)"

lemma insert_record_memory:
  "insert_record amb (memory_service history certs) r n = call (mem_insert_record amb history r n)"
  by (simp add: insert_record_def mem_insert_record_def memory_service_def memory_status_lists_def
      snapshots_enabled_def)

lemma update_record_memory:
  "update_record amb (memory_service history certs) r e n = call (mem_update_record amb history r e n)"
  by (simp add: update_record_def mem_update_record_def memory_service_def memory_status_lists_def
      snapshots_enabled_def)

lemma find_memory: "repo_find (sv_status_list_repo (memory_service history certs)) k = call (mem_find k)"
  by (simp add: memory_service_def memory_status_lists_def)

lemma mem_insert_record_cases:
  assumes "memory_ok s" and "mem_insert_record amb history r n s = (res, s')"
  shows "memory_ok s'" "map_of (ms_lists s) (slr_list_id r) = None \<Longrightarrow> res = Ok ()
       \<and> memory_view s' = recorded (memory_service history certs) amb r n (memory_view s)"
    "map_of (ms_lists s) (slr_list_id r) \<noteq> None \<Longrightarrow> res = Err AlreadyExists \<and> s' = s"
proof -
  have "run (insert_record amb (memory_service history certs) r n) s = (res, s')"
    using assms(2) by (simp add: insert_record_memory)
  note post = mem_service.insert_recorded [OF assms(1) this]
  then show "memory_ok s'" by blast
  have "res = (case map_of (ms_lists s) (slr_list_id r) of None \<Rightarrow> Ok () | Some _ \<Rightarrow> Err AlreadyExists)"
    using assms(2) by (auto simp: mem_insert_record_def mem_insert_with_snapshot_def mem_insert_def
        require_snapshot_def split: option.splits if_splits)
  with post show "map_of (ms_lists s) (slr_list_id r) = None \<Longrightarrow> res = Ok ()
       \<and> memory_view s' = recorded (memory_service history certs) amb r n (memory_view s)"
    by simp
  show "map_of (ms_lists s) (slr_list_id r) \<noteq> None \<Longrightarrow> res = Err AlreadyExists \<and> s' = s"
    using assms(2) by (auto simp: mem_insert_record_def mem_insert_with_snapshot_def mem_insert_def
        require_snapshot_def split: option.splits if_splits)
qed

lemma mem_update_record_cases:
  assumes "memory_ok s" and "mem_update_record amb history r e n s = (res, s')"
  shows "memory_ok s'"
    "map_of (ms_lists s) (slr_list_id r) = Some old \<Longrightarrow> slr_updated_at old = e \<Longrightarrow> res = Ok True
       \<and> memory_view s' = recorded (memory_service history certs) amb r n (memory_view s)"
    "\<not> guard_matches (memory_view s) (slr_list_id r) e \<Longrightarrow> res = Ok False \<and> s' = s"
proof -
  have "run (update_record amb (memory_service history certs) r e n) s = (res, s')"
    using assms(2) by (simp add: update_record_memory)
  note post = mem_service.update_recorded [OF assms(1) this]
  then show "memory_ok s'" by blast
  have "res = Ok (guard_matches (memory_view s) (slr_list_id r) e)"
    using assms(2) by (auto simp: mem_update_record_def mem_update_with_snapshot_def mem_update_def
        guard_matches_def require_snapshot_def split: option.splits if_splits)
  with post show "map_of (ms_lists s) (slr_list_id r) = Some old \<Longrightarrow> slr_updated_at old = e \<Longrightarrow> res = Ok True
       \<and> memory_view s' = recorded (memory_service history certs) amb r n (memory_view s)"
    by (simp add: guard_matches_def)
  show "\<not> guard_matches (memory_view s) (slr_list_id r) e \<Longrightarrow> res = Ok False \<and> s' = s"
    using assms(2) by (auto simp: mem_update_record_def mem_update_with_snapshot_def mem_update_def
        guard_matches_def require_snapshot_def split: option.splits if_splits)
qed

section \<open>Each request commits at most once\<close>

lemma visible_recorded:
  "memory_view s' = recorded sv amb r n (memory_view s) \<Longrightarrow> visible s' = recorded sv amb r n (visible s)"
  by (simp add: visible_def recorded_def put_list_def put_snap_def)

lemma visible_lists [simp]: "st_lists (visible s) = map_of (ms_lists s)"
  by (simp add: visible_def)

text \<open>A state after a recorded write is sound again.\<close>

lemma sound_recorded:
  assumes "sound_memory cx s" "memory_ok s'" "stamps_in_range s'"
    and "memory_view s' = recorded sv amb r n (memory_view s)" "wf_list cx (slr_status_list r)"
  shows "sound_memory cx s'"
  using assms by (simp add: sound_memory_def store_ok_recorded)

lemma lists_recorded:
  "memory_view s' = recorded sv amb r n (memory_view s) \<Longrightarrow>
   map_of (ms_lists s') = (map_of (ms_lists s))(slr_list_id r \<mapsto> r)"
  by (metis memory_view_simps(1) recorded_simps(1))

text \<open>The invalidation after the commit changes nothing visible.\<close>

lemma commits_invalidate:
  "commits stamps_in_range list_rely (sound_memory cx) visible eff is_ok True
     (ptry (invalidate_after_commit memory_cache k) (\<lambda>_. Ret (Ok r))) s"
proof -
  have shape: "ptry (invalidate_after_commit memory_cache k) (\<lambda>_. Ret (Ok r)) =
      Step (\<lambda>s. (Ret (Ok r), s\<lparr>ms_cache := AList.delete k (ms_cache s)\<rparr>))"
    by (simp add: invalidate_after_commit_def memory_cache_def mem_cache_invalidate_def ptry_def call_def)
  have "sound_memory cx (s1\<lparr>ms_cache := AList.delete k (ms_cache s1)\<rparr>)" if "sound_memory cx s1" for s1
  proof -
    have "map_of (AList.delete k (ms_cache s1)) \<subseteq>\<^sub>m map_of (ms_cache s1)"
      by (simp add: delete_conv' map_le_def)
    then show ?thesis
      using that store_ok_cache [of cx "memory_view s1"]
      by (simp add: sound_memory_def stamps_in_range_def memory_view_def)
  qed
  then show ?thesis unfolding shape
    by (intro commits_Step)
      (auto simp: visible_def memory_view_def list_rely_def evolves_refl intro!: commits_Ret)
qed

lemma commits_update_write:
  assumes "codec_ok (amb_codec amb)" "list_all (\<lambda>u. in_i32 (se_index u)) us"
    and "sound_memory (amb_codec amb) s" "map_of (ms_lists s) k = Some old" "slr_issuer old = iss"
    and "update (amb_codec amb) (slr_status_list old) us = Ok sl"
  shows "commits stamps_in_range list_rely (sound_memory (amb_codec amb)) visible
     (request_effect (memory_service history certs) (UpdateRequest amb iss k us n mi mn ms)) is_ok False
     (ptry (call (mem_update_record amb history (revised_record amb old sl) (slr_updated_at old) n)) (\<lambda>landed.
        if \<not> landed then Ret (Err Conflict)
        else ptry (invalidate_after_commit memory_cache (slr_list_id (revised_record amb old sl)))
               (\<lambda>_. Ret (Ok (revised_record amb old sl))))) s"
proof (rule commits_ptry_call, goal_cases)
  case (1 s1 res s2)
  let ?r = "revised_record amb old sl" and ?sv = "memory_service history certs"
  note rely = 1(1) and sound = 1(2) and within = 1(3) and w = 1(4)
  have ok: "memory_ok s1" and k: "slr_list_id old = k" and wf: "wf_list (amb_codec amb) sl"
    using sound store_okD(1) [of "amb_codec amb" "memory_view s" k old] assms
    by (auto simp: sound_memory_def intro: update_wf)
  note cases = mem_update_record_cases [OF ok w, unfolded revised_record_simps k]
  obtain cur where cur: "map_of (ms_lists s1) k = Some cur" "cur = old \<or> slr_updated_at old < slr_updated_at cur"
    using rely assms(4) by (auto simp: list_rely_def evolves_def)
  from cur(2) show ?case
  proof
    assume same: "cur = old"
    then have res: "res = Ok True" and view: "memory_view s2 = recorded ?sv amb ?r n (memory_view s1)"
      using cases(2) [of old] cur(1) by auto
    have "slr_updated_at old < slr_updated_at ?r"
      using stamps_in_rangeD [of s1 k old] sound cur(1) same next_updated_at_greater(1)
      by (simp add: sound_memory_def revised_record_def)
    then have "list_rely s1 s2"
      using cur(1) same by (auto simp: list_rely_def lists_recorded [OF view] k intro!: evolves_put)
    moreover have "sound_memory (amb_codec amb) s2"
      by (rule sound_recorded [OF sound cases(1) within view]) (simp add: revised_record_def wf)
    moreover have "request_effect ?sv (UpdateRequest amb iss k us n mi mn ms) (visible s1) (visible s2)"
      using cur(1) same assms(5,6) visible_recorded [OF view] by auto
    ultimately show ?case using res by (simp add: commits_invalidate)
  next
    assume "slr_updated_at old < slr_updated_at cur"
    then have "res = Ok False \<and> s2 = s1" using cases(3) cur(1) by (simp add: guard_matches_def)
    then show ?case using sound by (auto simp: list_rely_def evolves_refl intro: commits_Ret)
  qed
qed

lemma memory_service_cache: "sv_status_list_cache (memory_service history certs) = memory_cache"
  by (simp add: memory_service_def)

lemma commits_update:
  assumes "codec_ok (amb_codec amb)" "list_all (\<lambda>u. in_i32 (se_index u)) us"
  shows "commits stamps_in_range list_rely (sound_memory (amb_codec amb)) visible
     (request_effect (memory_service history certs) (UpdateRequest amb iss k us n mi mn ms)) is_ok False
     (update_statuses amb (memory_service history certs) iss k us n mi mn ms) s"
proof (cases "check_limits us mi mn")
  case (Ok u)
  show ?thesis
    unfolding update_statuses_def Ok ptry_Ret find_memory memory_service_cache
  proof (rule commits_ptry_call, goal_cases)
    case (1 s1 res s2)
    then have s2: "s2 = s1" "res = Ok (map_of (ms_lists s1) k)" by (auto simp: mem_find_def)
    have no: "update (amb_codec amb) (slr_status_list old) us \<noteq> Panic" if "map_of (ms_lists s1) k = Some old" for old
      using that 1(2) store_okD(1) [of "amb_codec amb" "memory_view s1" k old] update_not_Panic [OF assms(1) _ assms(2)]
      by (auto simp: sound_memory_def)
    have "commits stamps_in_range list_rely (sound_memory (amb_codec amb)) visible
       (request_effect (memory_service history certs) (UpdateRequest amb iss k us n mi mn ms)) is_ok False
       (ptry (Ret (update (amb_codec amb) (slr_status_list old) us)) (\<lambda>sl.
          if ms < length (sl_lst sl) then Ret (Err TooLarge)
          else let p = slr_updated_at old; r = old\<lparr>slr_status_list := sl, slr_updated_at := next_updated_at p (amb_now amb)\<rparr>
               in ptry (update_record amb (memory_service history certs) r p n) (\<lambda>landed.
                  if \<not> landed then Ret (Err Conflict)
                  else ptry (invalidate_after_commit memory_cache (slr_list_id r)) (\<lambda>_. Ret (Ok r))))) s1"
      if "map_of (ms_lists s1) k = Some old" "slr_issuer old = iss" for old
      using commits_update_write [OF assms 1(2) that] no [OF that(1)]
      by (cases "update (amb_codec amb) (slr_status_list old) us")
        (auto simp: Let_def update_record_memory revised_record_def [symmetric] cong: if_cong intro: commits_Ret)
    note written = this
    have same: "sound_memory (amb_codec amb) s2" "list_rely s1 s2" "visible s2 = visible s1"
      using 1(2) s2(1) by (auto simp: list_rely_def evolves_refl)
    show ?case
    proof (cases "map_of (ms_lists s1) k")
      case None
      then show ?thesis by (intro conjI disjI1 same) (simp add: s2 commits_Ret)
    next
      case (Some old)
      show ?thesis
      proof (cases "slr_issuer old = iss")
        case True
        show ?thesis using written [OF Some True] by (intro conjI disjI1 same) (simp add: s2 Some True)
      next
        case False
        then show ?thesis by (intro conjI disjI1 same) (simp add: s2 Some commits_Ret)
      qed
    qed
  qed
qed (auto simp: update_statuses_def intro: commits_Ret)

lemma commits_publish:
  assumes "codec_ok (amb_codec amb)" "codec_empty_ok (amb_codec amb)" "list_all (\<lambda>u. in_i32 (se_index u)) us"
  shows "commits stamps_in_range list_rely (sound_memory (amb_codec amb)) visible
     (request_effect (memory_service history certs) (PublishRequest amb k iss sub us n mi mn ms)) is_ok False
     (publish_status_list amb (memory_service history certs) k iss sub us n mi mn ms) s"
proof (cases "\<exists>sl. check_limits us mi mn = Ok () \<and> create (amb_codec amb) us = Ok sl \<and> length (sl_lst sl) \<le> ms")
  case True
  then obtain sl where ok: "check_limits us mi mn = Ok ()" "create (amb_codec amb) us = Ok sl"
    "length (sl_lst sl) \<le> ms" by blast
  let ?r = "new_record amb k iss sub sl" and ?sv = "memory_service history certs"
  have shape: "publish_status_list amb ?sv k iss sub us n mi mn ms =
      ptry (call (mem_insert_record amb history ?r n)) (\<lambda>_. Ret (Ok ?r))"
    using ok by (simp add: publish_status_list_def insert_record_memory new_record_def Let_def)
  show ?thesis
    unfolding shape
  proof (rule commits_ptry_call, goal_cases)
    case (1 s1 res s2)
    have mok: "memory_ok s1" and k: "slr_list_id ?r = k"
      using 1(2) by (auto simp: sound_memory_def new_record_def)
    note cases = mem_insert_record_cases [OF mok 1(4), unfolded k]
    show ?case
    proof (cases "map_of (ms_lists s1) k = None")
      case True
      then have res: "res = Ok ()" and view: "memory_view s2 = recorded ?sv amb ?r n (memory_view s1)"
        using cases(2) by auto
      have "list_rely s1 s2"
        using True by (auto simp: list_rely_def lists_recorded [OF view] k intro!: evolves_put)
      moreover have "sound_memory (amb_codec amb) s2"
        by (rule sound_recorded [OF 1(2) cases(1) 1(3) view]) (simp add: new_record_def create_wf [OF assms ok(2)])
      moreover have "request_effect ?sv (PublishRequest amb k iss sub us n mi mn ms) (visible s1) (visible s2)"
        using True ok(2) visible_recorded [OF view] by auto
      ultimately show ?thesis using res by (simp add: commits_Ret)
    next
      case False
      then have "res = Err AlreadyExists \<and> s2 = s1" using cases(3) by simp
      then show ?thesis using 1(2) by (auto simp: list_rely_def evolves_refl intro: commits_Ret)
    qed
  qed
next
  case False
  then have "\<exists>e. publish_status_list amb (memory_service history certs) k iss sub us n mi mn ms = Ret (Err e)"
    using create_not_Panic [OF assms]
    by (cases "check_limits us mi mn"; cases "create (amb_codec amb) us") (auto simp: publish_status_list_def Let_def)
  then show ?thesis by (elim exE) (simp add: commits_Ret)
qed

lemma commits_serve:
  assumes "codec_ok cx" "codec_empty_ok cx" "request_ok cx q"
  shows "commits stamps_in_range list_rely (sound_memory cx) visible
     (request_effect (memory_service history certs) q) is_ok False (serve (memory_service history certs) q) s"
  using assms by (cases q) (auto simp: request_ok_def intro!: commits_publish commits_update)

section \<open>The statuses after concurrent updates\<close>

definition updates_list :: "string \<Rightarrow> write_request \<Rightarrow> bool" where
  "updates_list k q = (case q of UpdateRequest amb iss k' us n mi mn ms \<Rightarrow> k' = k | _ \<Rightarrow> False)"

lemma request_effect_view:
  assumes "codec_ok cx" "request_effect sv q st st'" "updates_list k q" "amb_codec (request_ambient q) = cx"
    and "list_all legal_entry (request_entries q)" "st_lists st k = Some r" "record_ok cx k r"
  shows "\<exists>r'. st_lists st' k = Some r' \<and> record_ok cx k r'
     \<and> list_view cx (slr_status_list r') = set_statuses (request_entries q) (list_view cx (slr_status_list r))"
proof (cases q)
  case (UpdateRequest amb iss k' us n mi mn ms)
  then obtain sl where sl: "update cx (slr_status_list r) us = Ok sl"
    "st' = recorded sv amb (revised_record amb r sl) n st"
    using assms by (auto simp: updates_list_def)
  have "wf_list cx sl \<and> list_view cx sl = set_statuses us (list_view cx (slr_status_list r))"
    using update_view [OF assms(1) _ _ sl(1)] assms UpdateRequest by (simp add: record_ok_def)
  then show ?thesis using sl(2) assms(7) UpdateRequest by (auto simp: record_ok_def)
qed (use assms in \<open>simp add: updates_list_def\<close>)

lemma effects_view:
  assumes "codec_ok cx" "effects (\<lambda>i. request_effect sv (qs ! i)) order st st'"
    and "\<And>i. i \<in> set order \<Longrightarrow> updates_list k (qs ! i) \<and> amb_codec (request_ambient (qs ! i)) = cx
           \<and> list_all legal_entry (request_entries (qs ! i))"
    and "st_lists st k = Some r" "record_ok cx k r"
  shows "\<exists>r'. st_lists st' k = Some r' \<and> list_view cx (slr_status_list r') =
     fold (\<lambda>i. set_statuses (request_entries (qs ! i))) order (list_view cx (slr_status_list r))"
  using assms(2-)
proof (induction order arbitrary: st r)
  case (Cons i "is")
  then obtain st1 where st1: "request_effect sv (qs ! i) st st1"
    "effects (\<lambda>i. request_effect sv (qs ! i)) is st1 st'" by auto
  obtain r1 where r1: "st_lists st1 k = Some r1" "record_ok cx k r1"
    "list_view cx (slr_status_list r1) = set_statuses (request_entries (qs ! i)) (list_view cx (slr_status_list r))"
    using request_effect_view [OF assms(1) st1(1) _ _ _ Cons.prems(3,4)] Cons.prems(2) [of i] by auto
  show ?case using Cons.IH [OF st1(2) _ r1(1,2)] Cons.prems(2) r1(3) by simp
qed simp

section \<open>Properties\<close>

definition sample_ambient :: ambient where
  "sample_ambient = \<lparr>amb_codec = plain_codec, amb_now = 1000, amb_uuid = ''snap''\<rparr>"

lemma sound_empty: "sound_memory cx empty_memory"
  using memory_ok_empty store_ok_empty by (simp add: sound_memory_def stamps_in_range_def empty_memory_def)

lemma linear_writes:
  assumes "codec_ok cx" and "codec_empty_ok cx" and "sound_memory cx s"
    and "list_all (request_ok cx) qs"
    and "(interleave stamps_in_range)\<^sup>*\<^sup>* (s, map (serve (memory_service history certs)) qs) (s', ps')"
  shows "\<exists>order. distinct order \<and> set order \<subseteq> {..<length qs} \<and> sound_memory cx s'
     \<and> effects (\<lambda>i. request_effect (memory_service history certs) (qs ! i)) order (visible s) (visible s')
     \<and> (\<forall>i x. i < length qs \<and> ps' ! i = Ret x \<longrightarrow> (is_ok x \<longleftrightarrow> i \<in> set order))"
proof -
  let ?sv = "memory_service history certs"
  have "commits stamps_in_range list_rely (sound_memory cx) visible (request_effect ?sv (qs ! i)) is_ok False
      (map (serve ?sv) qs ! i) s" if "i < length (map (serve ?sv) qs)" for i
    using that commits_serve [OF assms(1,2)] assms(4) by (simp add: list_all_length)
  from interleave_star_linear [where eff = "\<lambda>i. request_effect ?sv (qs ! i)", OF assms(5,3) this list_rely_order]
  show ?thesis by (metis length_map)
qed

text \<open>
  C1. Linearizability of writes. Let any publish and update requests run concurrently, their
  atomic steps interleaved in any way. Then there is an order of some of the requests, each at
  most once, such that the lists and snapshots stored in the end are those obtained by applying
  the requests of that order one after the other, each to the list as its predecessors left it;
  every request that has returned success is in the order and no request that has returned an
  error is. In particular no update overwrites another.
\<close>

theorem writes_linearizable:
  assumes "codec_ok cx" and "codec_empty_ok cx" and "sound_memory cx s"
    and "list_all (request_ok cx) qs"
    and "(interleave stamps_in_range)\<^sup>*\<^sup>* (s, map (serve (memory_service history certs)) qs) (s', ps')"
  shows "\<exists>order. distinct order \<and> set order \<subseteq> {..<length qs} \<and> sound_memory cx s'
     \<and> effects (\<lambda>i. request_effect (memory_service history certs) (qs ! i)) order (visible s) (visible s')
     \<and> (\<forall>i x. i < length qs \<and> ps' ! i = Ret x \<longrightarrow> (is_ok x \<longleftrightarrow> i \<in> set order))"
  by (rule linear_writes [OF assms])

lemma sample_create:
  "create plain_codec [\<lparr>se_index = 1, se_status = Invalid\<rparr>] = Ok \<lparr>sl_bits = 1, sl_lst = [CHR 0x02]\<rparr>"
  by code_simp

definition sample_publish :: write_request where
  "sample_publish = PublishRequest sample_ambient ''l'' ''iss'' ''sub'' [\<lparr>se_index = 1, se_status = Invalid\<rparr>] 60 100 10 100"

definition no_certificates :: "memory certificate_provider" where
  "no_certificates = \<lparr>cert_signing_material = Ret (Err Unavailable)\<rparr>"

lemma sample_publish_run:
  "\<exists>s' r. (interleave stamps_in_range)\<^sup>*\<^sup>*
     (empty_memory, map (serve (memory_service True no_certificates)) [sample_publish]) (s', [Ret (Ok r)])"
proof -
  let ?r = "new_record sample_ambient ''l'' ''iss'' ''sub'' \<lparr>sl_bits = 1, sl_lst = [CHR 0x02]\<rparr>"
  let ?w = "mem_insert_record sample_ambient True ?r 60"
  have "serve (memory_service True no_certificates) sample_publish = ptry (call ?w) (\<lambda>_. Ret (Ok ?r))"
    using sample_create
    by (simp add: sample_publish_def publish_status_list_def insert_record_memory new_record_def Let_def
        check_limits_def sample_ambient_def)
  moreover obtain s' where "?w empty_memory = (Ok (), s')" "stamps_in_range s'"
    by (simp add: mem_insert_record_def mem_insert_with_snapshot_def require_snapshot_def empty_memory_def
        stamps_in_range_def new_record_def sample_ambient_def in_i64_def i64_min_def i64_max_def)
  ultimately have "interleave stamps_in_range
     (empty_memory, map (serve (memory_service True no_certificates)) [sample_publish]) (s', [Ret (Ok ?r)])"
    using interleave_step [of 0 "[ptry (call ?w) (\<lambda>_. Ret (Ok ?r))]" _ empty_memory _ s' stamps_in_range]
    by (simp add: ptry_call)
  then show ?thesis by blast
qed

theorem writes_linearizable_witness:
  "\<exists>s' r. (interleave stamps_in_range)\<^sup>*\<^sup>*
       (empty_memory, map (serve (memory_service True no_certificates)) [sample_publish]) (s', [Ret (Ok r)])
     \<and> request_effect (memory_service True no_certificates) sample_publish (visible empty_memory) (visible s')"
proof -
  obtain s' r where run: "(interleave stamps_in_range)\<^sup>*\<^sup>*
       (empty_memory, map (serve (memory_service True no_certificates)) [sample_publish]) (s', [Ret (Ok r)])"
    using sample_publish_run by blast
  have "list_all (request_ok plain_codec) [sample_publish]"
    by (simp add: sample_publish_def request_ok_def sample_ambient_def in_i32_def in_i64_def i64_min_def i64_max_def)
  then obtain order where order: "distinct order" "set order = {0}"
    "effects (\<lambda>i. request_effect (memory_service True no_certificates) ([sample_publish] ! i)) order
       (visible empty_memory) (visible s')"
    using writes_linearizable [OF plain_codec_ok sound_empty _ run] by fastforce
  then have "order = [0]" by (metis distinct_card card_1_singleton_iff card.empty card_insert_disjoint
        length_0_conv length_Suc_conv One_nat_def finite.emptyI empty_iff list.set_intros(1) singletonD)
  with order(3) run show ?thesis by auto
qed

text \<open>
  C3. No update is lost. When any number of clients concurrently update one list, the statuses
  it holds in the end are those obtained by writing the entries of some of the requests in some
  order over the statuses it held; every request answered with success is among them and no
  request answered with an error.
\<close>

theorem no_lost_updates:
  assumes "codec_ok cx" and "codec_empty_ok cx" and "sound_memory cx s"
    and "list_all (\<lambda>q. request_ok cx q \<and> updates_list k q \<and> list_all legal_entry (request_entries q)) qs"
    and "map_of (ms_lists s) k = Some r"
    and "(interleave stamps_in_range)\<^sup>*\<^sup>* (s, map (serve (memory_service history certs)) qs) (s', ps')"
  shows "\<exists>order r'. distinct order \<and> set order \<subseteq> {..<length qs}
     \<and> map_of (ms_lists s') k = Some r'
     \<and> list_view cx (slr_status_list r') =
         fold (\<lambda>i. set_statuses (request_entries (qs ! i))) order (list_view cx (slr_status_list r))
     \<and> (\<forall>i x. i < length qs \<and> ps' ! i = Ret x \<longrightarrow> (is_ok x \<longleftrightarrow> i \<in> set order))"
proof -
  have "list_all (request_ok cx) qs" using assms(4) by (simp add: list_all_iff)
  from linear_writes [OF assms(1-3) this assms(6)] obtain order where order: "distinct order"
    "set order \<subseteq> {..<length qs}"
    "effects (\<lambda>i. request_effect (memory_service history certs) (qs ! i)) order (visible s) (visible s')"
    "\<forall>i x. i < length qs \<and> ps' ! i = Ret x \<longrightarrow> (is_ok x \<longleftrightarrow> i \<in> set order)" by blast
  have "record_ok cx k r"
    using store_okD(1) [of cx "memory_view s" k r] assms(3,5) by (simp add: sound_memory_def record_ok_def)
  then obtain r' where "st_lists (visible s') k = Some r'" "list_view cx (slr_status_list r') =
      fold (\<lambda>i. set_statuses (request_entries (qs ! i))) order (list_view cx (slr_status_list r))"
    using effects_view [OF assms(1) order(3), of k r] order(2) assms(4,5)
    by (auto simp: list_all_length request_ok_def)
  then show ?thesis using order by auto
qed

text \<open>Two updates race: both read the list, the first one lands, the second is refused.\<close>

definition race_memory :: memory where
  "race_memory = empty_memory\<lparr>ms_lists := [(''l'', \<lparr>slr_list_id = ''l'', slr_issuer = ''iss'',
     slr_status_list = \<lparr>sl_bits = 1, sl_lst = ''''\<rparr>, slr_sub = ''sub'', slr_updated_at = 1000\<rparr>)]\<rparr>"

definition race_requests :: "write_request list" where
  "race_requests =
     [UpdateRequest sample_ambient ''iss'' ''l'' [\<lparr>se_index = 1, se_status = Invalid\<rparr>] 60 100 10 100,
      UpdateRequest sample_ambient ''iss'' ''l'' [\<lparr>se_index = 2, se_status = Invalid\<rparr>] 60 100 10 100]"

definition race :: "memory \<times> (memory, status_list_record sl_result) proc list" where
  "race = schedule [0, 1, 0, 1, 0] (race_memory, map (serve (memory_service True no_certificates)) race_requests)"

lemma race_within:
  "schedule_within stamps_in_range [0, 1, 0, 1, 0]
     (race_memory, map (serve (memory_service True no_certificates)) race_requests)"
  by code_simp

lemma race_results: "map (map_option is_ok \<circ> proc_result) (snd race) = [Some True, Some False]"
  by code_simp

lemma race_run: "(interleave stamps_in_range)\<^sup>*\<^sup>*
    (race_memory, map (serve (memory_service True no_certificates)) race_requests) (fst race, snd race)"
  using schedule_interleave [OF race_within] by (simp add: race_def)

lemma proc_result_eq: "proc_result p = Some x \<longleftrightarrow> p = Ret x"
  by (cases p) auto

lemma race_finished: "\<exists>x y. snd race ! 0 = Ret x \<and> is_ok x \<and> snd race ! 1 = Ret y \<and> \<not> is_ok y"
proof -
  obtain p q where "snd race = [p, q]" using race_results by (auto simp: map_eq_Cons_conv)
  then show ?thesis using race_results by (auto simp: proc_result_eq)
qed

lemma race_sound: "sound_memory plain_codec race_memory"
  using wf_empty_list [OF plain_codec_ok(2)]
  by (simp add: sound_memory_def race_memory_def empty_memory_def memory_ok_def store_ok_def memory_view_def
      record_ok_def stamps_in_range_def in_i64_def i64_min_def i64_max_def)

theorem no_lost_updates_witness:
  "\<exists>order r'. distinct order \<and> set order = {0} \<and> map_of (ms_lists (fst race)) ''l'' = Some r'
     \<and> list_view plain_codec (slr_status_list r') =
         fold (\<lambda>i. set_statuses (request_entries (race_requests ! i))) order
           (list_view plain_codec \<lparr>sl_bits = 1, sl_lst = ''''\<rparr>)"
proof -
  let ?r = "\<lparr>slr_list_id = ''l'', slr_issuer = ''iss'',
     slr_status_list = \<lparr>sl_bits = 1, sl_lst = ''''\<rparr>, slr_sub = ''sub'', slr_updated_at = 1000\<rparr>"
  have "list_all (\<lambda>q. request_ok plain_codec q \<and> updates_list ''l'' q \<and> list_all legal_entry (request_entries q))
      race_requests"
    by (simp add: race_requests_def request_ok_def sample_ambient_def updates_list_def legal_entry_def
        in_i32_def in_i64_def i64_min_def i64_max_def)
  moreover have "map_of (ms_lists race_memory) ''l'' = Some ?r" by (simp add: race_memory_def)
  ultimately obtain order r' where order: "distinct order" "set order \<subseteq> {..<length race_requests}"
    "map_of (ms_lists (fst race)) ''l'' = Some r'"
    "list_view plain_codec (slr_status_list r') =
         fold (\<lambda>i. set_statuses (request_entries (race_requests ! i))) order
           (list_view plain_codec (slr_status_list ?r))"
    "\<And>i x. i < length race_requests \<Longrightarrow> snd race ! i = Ret x \<Longrightarrow> is_ok x \<longleftrightarrow> i \<in> set order"
    using no_lost_updates [OF plain_codec_ok race_sound _ _ race_run, of "''l''" ?r] by auto
  have len: "length race_requests = 2" by (simp add: race_requests_def)
  obtain x y where "snd race ! 0 = Ret x" "is_ok x" "snd race ! 1 = Ret y" "\<not> is_ok y" using race_finished by blast
  then have "0 \<in> set order" "1 \<notin> set order" using order(5) [of 0 x] order(5) [of 1 y] len by auto
  then have "set order = {0}" using order(2) len by (auto simp: less_2_cases_iff lessThan_def)
  then show ?thesis using order(1,3,4) by auto
qed

end
