(* ===== verification/Handler_Spec.thy ===== *)
theory Handler_Spec
  imports Server_Spec Concurrency
begin

text \<open>
  The responses of the handlers over the in-memory adapters, one request at a time: which status
  code and error code a request gets, in terms of the request and the stored lists, and what the
  store holds afterwards.
\<close>

section \<open>The service, one request at a time\<close>

text \<open>The state after a recorded write and the invalidation that follows it.\<close>

definition written :: "memory \<Rightarrow> string \<Rightarrow> memory" where
  "written s k = s\<lparr>ms_cache := AList.delete k (ms_cache s)\<rparr>"

lemma memory_update_run:
  assumes "\<forall>r. map_of (ms_lists s) k = Some r \<longrightarrow> slr_list_id r = k"
  shows "run (update_statuses amb (memory_service history certs) p k us n mi mn ms) s =
    (case check_limits us mi mn of
       Err e \<Rightarrow> (Err e, s) | Panic \<Rightarrow> (Panic, s)
     | Ok _ \<Rightarrow>
         (case map_of (ms_lists s) k of
            None \<Rightarrow> (Err NotFound, s)
          | Some old \<Rightarrow>
              if slr_issuer old \<noteq> p then (Err IssuerMismatch, s)
              else case update (amb_codec amb) (slr_status_list old) us of
                     Err e \<Rightarrow> (Err e, s) | Panic \<Rightarrow> (Panic, s)
                   | Ok sl \<Rightarrow>
                       if ms < length (sl_lst sl) then (Err TooLarge, s)
                       else (Ok (revised_record amb old sl),
                             written (snd (mem_update_record amb history (revised_record amb old sl)
                                             (slr_updated_at old) n s)) k)))"
proof (cases "map_of (ms_lists s) k")
  case None
  then show ?thesis
    by (cases "check_limits us mi mn")
      (simp_all add: update_statuses_def find_memory mem_find_def)
next
  case (Some old)
  have "run (update_record amb (memory_service history certs) (revised_record amb old sl) (slr_updated_at old) n) s =
      (Ok True, snd (mem_update_record amb history (revised_record amb old sl) (slr_updated_at old) n s))" for sl
    using Some assms
    by (auto simp: update_record_memory mem_update_record_def mem_update_with_snapshot_def mem_update_def
        require_snapshot_def)
  then show ?thesis
    using Some assms
    by (cases "check_limits us mi mn"; cases "update (amb_codec amb) (slr_status_list old) us")
      (auto simp: update_statuses_def find_memory mem_find_def Let_def revised_record_def invalidate_after_commit_def
        memory_service_cache memory_cache_def mem_cache_invalidate_def written_def cong: if_cong)
qed

lemma memory_publish_run:
  "run (publish_status_list amb (memory_service history certs) k p sub us n mi mn ms) s =
    (case check_limits us mi mn of
       Err e \<Rightarrow> (Err e, s) | Panic \<Rightarrow> (Panic, s)
     | Ok _ \<Rightarrow>
         (case create (amb_codec amb) us of
            Err e \<Rightarrow> (Err e, s) | Panic \<Rightarrow> (Panic, s)
          | Ok sl \<Rightarrow>
              if ms < length (sl_lst sl) then (Err TooLarge, s)
              else if map_of (ms_lists s) k \<noteq> None then (Err AlreadyExists, s)
              else (Ok (new_record amb k p sub sl),
                    snd (mem_insert_record amb history (new_record amb k p sub sl) n s))))"
  by (auto simp: publish_status_list_def insert_record_memory mem_insert_record_def mem_insert_with_snapshot_def
      mem_insert_def require_snapshot_def new_record_def Let_def split: outcome.split option.split)

lemma memory_get_run:
  assumes "\<forall>r. map_of (ms_lists s) k = Some r \<longrightarrow> slr_list_id r = k"
  shows "run (get_status_list (memory_service history certs) k) s =
    (case map_of (ms_cache s) k of
       Some r \<Rightarrow> (Ok r, s)
     | None \<Rightarrow>
         (case map_of (ms_lists s) k of
            Some r \<Rightarrow> (Ok r, s\<lparr>ms_cache := AList.update k r (ms_cache s)\<rparr>)
          | None \<Rightarrow> (Err NotFound, s)))"
  using assms
  by (auto simp: get_status_list_def Let_def memory_service_cache memory_cache_def mem_cache_get_def mem_cache_put_def
      find_memory mem_find_def split: option.split)

lemma memory_snapshot_run:
  "run (get_snapshot_at (memory_service history certs) k t) s =
     (if history
      then (case max_by_key sn_iat (filter (in_force k t) (map snd (ms_snapshots s))) of
              Some sn \<Rightarrow> (Ok sn, s) | None \<Rightarrow> (Err HistoricalNotFound, s))
      else (Err NotFound, s))"
proof -
  have "(\<lambda>r. sn_list_id r = k \<and> sn_iat r \<le> t \<and> t < sn_exp r) = in_force k t" by (auto simp: in_force_def)
  then show ?thesis
    by (auto simp: get_snapshot_at_def memory_service_def memory_snapshots_def mem_find_valid_at_def split: option.split)
qed

lemma update_new_key: "k \<notin> fst ` set al \<Longrightarrow> AList.update k v al = al @ [(k, v)]"
  by (induction al) auto

lemma wrap_i64_add: "wrap_i64 (x + wrap_i64 y) = wrap_i64 (x + y)"
proof -
  have "(x + (y + 2 ^ 63) mod 2 ^ 64) mod 2 ^ 64 = (x + (y + 2 ^ 63)) mod (2 ^ 64 :: int)"
    by (rule mod_add_right_eq)
  then show ?thesis by (simp add: wrap_i64_def algebra_simps)
qed

lemma max_by_key_unique:
  assumes "x \<in> set xs" "\<And>y. y \<in> set xs \<Longrightarrow> y \<noteq> x \<Longrightarrow> key y < (key x :: 'k :: linorder)"
  shows "max_by_key key xs = Some x"
  using max_by_key_None [of key xs] max_by_key_Some [of key xs] assms by (metis empty_iff list.set(1) not_less option.exhaust)

section \<open>Responses\<close>

text \<open>The status code of an outcome and the code in the body of an error.\<close>

fun outcome_code :: "(response, api_error) outcome \<Rightarrow> status_code \<times> string" where
  "outcome_code (Ok r) = (rs_status r, [])"
| "outcome_code (Err e) = (ae_status e, ae_error e)"
| "outcome_code Panic = (0, [])"

lemma check_limits_cases:
  "check_limits us mi mn =
     (if mn < length us then Err (TooManyStatuses (length us) mn)
      else if \<exists>u \<in> set us. mi < se_index u
      then Err (IndexTooLarge (se_index (the (find (\<lambda>u. mi < se_index u) us))) mi)
      else Ok ())"
proof (cases "find (\<lambda>u. mi < se_index u) us")
  case None
  moreover from this have "\<not> (\<exists>u \<in> set us. mi < se_index u)" by (auto simp: find_None_iff)
  ultimately show ?thesis by (simp add: check_limits_def)
next
  case (Some u)
  moreover from this have "u \<in> set us \<and> mi < se_index u" by (auto simp: find_Some_iff)
  ultimately show ?thesis by (auto simp: check_limits_def)
qed

lemma check_list_id_cases:
  "check_list_id env k =
     (case he_uuid_try_parse env k of
        Inl e \<Rightarrow> Err (bad_request ''invalid_list_id'' (''Invalid list_id format: '' @ e)) | Inr u \<Rightarrow> Ok u)"
  by (auto simp: check_list_id_def split: sum.split)

lemma entry_index [simp]: "se_index (entry_from_request e) = re_index e"
  by (simp add: entry_from_request_def)

lemma update_classified:
  assumes "codec_ok cx" "wf_list cx sl" "list_all (\<lambda>u. in_i32 (se_index u)) us"
  shows "if \<exists>u \<in> set us. \<not> legal_status (se_status u)
         then update cx sl us = Err (InvalidStatusList ''ApplicationSpecific value must be >= 256'')
         else if \<exists>u \<in> set us. se_index u < 0 then update cx sl us = Err InvalidIndex
         else list_all legal_entry us \<and> (\<exists>sl'. update cx sl us = Ok sl')"
proof (cases "list_all legal_entry us")
  case True
  then have "\<exists>sl'. update cx sl us = Ok sl'"
    using Status_List_Spec.update_nonempty [OF assms(1,2)] by (cases "us = []") (auto simp: update_def)
  then show ?thesis using True by (auto simp: list_all_iff legal_entry_def)
next
  case False
  then show ?thesis
    using legal_or_refused [OF assms(3) False] update_illegal_status(1) [of us cx sl] update_negative [OF assms(2), of us]
    by auto
qed

lemma create_classified:
  assumes "codec_ok cx" "codec_empty_ok cx" "list_all (\<lambda>u. in_i32 (se_index u)) us"
  shows "if \<exists>u \<in> set us. \<not> legal_status (se_status u)
         then create cx us = Err (InvalidStatusList ''ApplicationSpecific value must be >= 256'')
         else if \<exists>u \<in> set us. se_index u < 0 then create cx us = Err InvalidIndex
         else list_all legal_entry us \<and> (\<exists>sl'. create cx us = Ok sl')"
proof (cases "list_all legal_entry us")
  case True
  then have "\<exists>sl'. create cx us = Ok sl'"
    using create_nonempty [OF assms(1)] by (cases "us = []") (auto simp: create_def)
  then show ?thesis using True by (auto simp: list_all_iff legal_entry_def)
next
  case False
  then show ?thesis
    using legal_or_refused [OF assms(3) False] update_illegal_status(2) [of us cx] create_negative [of us cx]
    by auto
qed

text \<open>What an accepted update leaves under its identifier.\<close>

definition updated_list ::
  "codec \<Rightarrow> int \<Rightarrow> status_entry list \<Rightarrow> status_list_record \<Rightarrow> status_list_record \<Rightarrow> bool" where
  "updated_list cx now us old r \<longleftrightarrow>
     slr_list_id r = slr_list_id old \<and> slr_issuer r = slr_issuer old \<and> slr_sub r = slr_sub old
     \<and> slr_updated_at r = next_updated_at (slr_updated_at old) now
     \<and> (\<forall>i. list_view cx (slr_status_list r) i =
          (case last_status us i of Some st \<Rightarrow> st | None \<Rightarrow> list_view cx (slr_status_list old) i))"

lemma written_lists [simp]: "ms_lists (written s k) = ms_lists s"
  by (simp add: written_def)

lemma run_service_try_const:
  "run (service_try p (\<lambda>_. Ret (Ok x))) s =
     map_prod (\<lambda>r. omap (\<lambda>_. x) (map_err status_list_api_error r)) id (run p s)"
  by (cases "run p s"; cases "fst (run p s)") (auto simp: service_try_def)

lemma run_update_status:
  "run (update_status env state p k es) s =
     (case check_list_id env k of
        Ok _ \<Rightarrow>
          map_prod (\<lambda>r. omap (\<lambda>_. status_response 200) (map_err status_list_api_error r)) id
            (run (update_statuses (he_ambient env) (app_service state) p k (map entry_from_request es)
               (app_token_exp_secs state) (app_max_status_index state) (app_max_statuses_per_request state)
               (app_max_serialized_list_size state)) s)
      | Err e \<Rightarrow> (Err e, s) | Panic \<Rightarrow> (Panic, s))"
  by (auto simp: update_status_def run_service_try_const Let_def split: outcome.split)

lemma run_publish_status:
  "run (publish_status env state p k es) s =
     (case check_list_id env k of
        Ok _ \<Rightarrow>
          map_prod (\<lambda>r. omap (\<lambda>_. status_response 201) (map_err status_list_api_error r)) id
            (run (publish_status_list (he_ambient env) (app_service state) k p
               (''https://'' @ app_server_domain state @ ''/api/v1/status-lists/'' @ k) (map entry_from_request es)
               (app_token_exp_secs state) (app_max_status_index state) (app_max_statuses_per_request state)
               (app_max_serialized_list_size state)) s)
      | Err e \<Rightarrow> (Err e, s) | Panic \<Rightarrow> (Panic, s))"
  by (auto simp: publish_status_def run_service_try_const Let_def split: outcome.split)

lemma memory_update_written:
  assumes "codec_ok cx" "store_ok cx (memory_view s)" "memory_ok s" and old: "map_of (ms_lists s) k = Some old"
    and "list_all legal_entry us" "update cx (slr_status_list old) us = Ok sl"
    and r_def: "r = revised_record amb old sl"
  shows "map_of (ms_lists (snd (mem_update_record amb history r (slr_updated_at old) n s))) = (map_of (ms_lists s))(k \<mapsto> r)"
    and "updated_list cx (amb_now amb) us old r"
proof -
  have keyed: "slr_list_id old = k" "wf_list cx (slr_status_list old)" using store_okD(1) [OF assms(2)] old by simp_all
  obtain ur s1 where upd: "mem_update_record amb history r (slr_updated_at old) n s = (ur, s1)" by fastforce
  have "memory_view s1 = recorded (memory_service history certs) amb r n (memory_view s)" for certs
    using mem_update_record_cases(2) [OF assms(3) upd, of old certs] old keyed by (simp add: r_def)
  from lists_recorded [OF this] show "map_of (ms_lists (snd (mem_update_record amb history r (slr_updated_at old) n s))) = (map_of (ms_lists s))(k \<mapsto> r)"
    using keyed upd by (simp add: r_def)
  show "updated_list cx (amb_now amb) us old r"
    using update_view [OF assms(1) keyed(2) assms(5,6)] by (simp add: r_def updated_list_def set_statuses_last)
qed

lemma memory_insert_written:
  assumes "memory_ok s" "map_of (ms_lists s) k = None"
  shows "map_of (ms_lists (snd (mem_insert_record amb history (new_record amb k p sub sl) n s))) =
    (map_of (ms_lists s))(k \<mapsto> new_record amb k p sub sl)"
proof -
  let ?r = "new_record amb k p sub sl"
  obtain ir s1 where ins: "mem_insert_record amb history ?r n s = (ir, s1)" by fastforce
  have "memory_view s1 = recorded (memory_service history certs) amb ?r n (memory_view s)" for certs
    using mem_insert_record_cases(2) [OF assms(1) ins, of certs] assms(2) by (simp add: new_record_def)
  from lists_recorded [OF this] show ?thesis using ins by (simp add: new_record_def)
qed

text \<open>The last three checks of an update, on a list that exists and belongs to the caller.\<close>

lemma update_response_owned:
  assumes cx: "codec_ok cx" "store_ok cx (memory_view s)" "memory_ok s" and i32: "list_all (\<lambda>u. in_i32 (se_index u)) us"
    and old: "map_of (ms_lists s) k = Some old"
    and run: "(res, s') = map_prod (\<lambda>r. omap (\<lambda>_. status_response 200) (map_err status_list_api_error r)) id
      (case update cx (slr_status_list old) us of
         Err e \<Rightarrow> (Err e, s) | Panic \<Rightarrow> (Panic, s)
       | Ok sl \<Rightarrow> if mx < length (sl_lst sl) then (Err TooLarge, s)
                  else (Ok (revised_record amb old sl),
                        written (snd (mem_update_record amb history (revised_record amb old sl) (slr_updated_at old) n s)) k))"
  shows "outcome_code res =
     (if \<exists>u \<in> set us. \<not> legal_status (se_status u) then (400, ''invalid_input'')
      else if \<exists>u \<in> set us. se_index u < 0 then (400, ''invalid_index'')
      else if \<exists>sl. update cx (slr_status_list old) us = Ok sl \<and> mx < length (sl_lst sl) then (422, ''status_too_large'')
      else (200, []))
     \<and> (if outcome_code res = (200, [])
        then \<exists>r. updated_list cx (amb_now amb) us old r \<and> map_of (ms_lists s') = (map_of (ms_lists s))(k \<mapsto> r)
        else s' = s)"
proof (cases "\<exists>sl. update cx (slr_status_list old) us = Ok sl \<and> length (sl_lst sl) \<le> mx")
  case False
  have "wf_list cx (slr_status_list old)" using store_okD(1) [OF cx(2)] old by simp
  from False update_classified [OF cx(1) this i32] run show ?thesis
    by (cases "update cx (slr_status_list old) us") (auto simp: api_error_defs split: if_splits)
next
  case True
  then obtain sl where sl: "update cx (slr_status_list old) us = Ok sl" "length (sl_lst sl) \<le> mx" by blast
  have "wf_list cx (slr_status_list old)" using store_okD(1) [OF cx(2)] old by simp
  from update_classified [OF cx(1) this i32] sl
  have legal: "list_all legal_entry us" "\<not> (\<exists>u \<in> set us. \<not> legal_status (se_status u))" "\<not> (\<exists>u \<in> set us. se_index u < 0)"
    by (auto split: if_splits)
  have "res = Ok (status_response 200)"
    "s' = written (snd (mem_update_record amb history (revised_record amb old sl) (slr_updated_at old) n s)) k"
    using run sl by simp_all
  then show ?thesis
    using memory_update_written(1) [OF cx old legal(1) sl(1) refl, of amb history n]
      memory_update_written(2) [OF cx old legal(1) sl(1) refl, of amb] sl legal(2,3)
    by (auto simp: status_response_def)
qed

text \<open>A read of the current list and its token, as long as the cache holds no stale copy.\<close>

lemma memory_current_get:
  assumes "store_ok cx (memory_view s)" "map_of (ms_cache s) k = None \<or> map_of (ms_cache s) k = map_of (ms_lists s) k"
  obtains s1 where "run (get_status_list (memory_service history certs) k) s =
    (case map_of (ms_lists s) k of Some r \<Rightarrow> Ok r | None \<Rightarrow> Err NotFound, s1)"
proof -
  have keyed: "\<forall>r. map_of (ms_lists s) k = Some r \<longrightarrow> slr_list_id r = k" using store_okD(1) [OF assms(1)] by simp
  show thesis
    using assms(2) that unfolding memory_get_run [OF keyed]
    by (cases "map_of (ms_lists s) k"; cases "map_of (ms_cache s) k") auto
qed

lemma memory_state_token:
  assumes "app_service state = memory_service history (inline_provider \<lparr>sm_certificate_chain = Some chain, sm_signing_key_pem = pem\<rparr>)"
  shows "run (state_token env state accept r None gzip) s =
    (sign_token (he_crypto env) (amb_codec (he_ambient env)) accept r pem chain (app_aggregation_uri state)
       (amb_now (he_ambient env), wrap_i64 (amb_now (he_ambient env) + u64_as_i64 (app_token_exp_secs state)))
       (app_token_ttl_secs state) (gzip \<and> accept = ACCEPT_STATUS_LISTS_HEADER_JWT), s)"
  by (simp add: state_token_def build_status_list_token_def assms memory_service_def inline_provider_def Let_def)

text \<open>What is signed when a JWT is asked for without compression.\<close>

lemma sign_token_jwt:
  assumes "sign_token cr cx ACCEPT_STATUS_LISTS_HEADER_JWT r pem chain uri w ttl False = Ok (bytes, enc)"
  shows "\<exists>ek tok. bytes = string_bytes tok \<and> enc = None
    \<and> cr_jwt_encode cr \<lparr>jh_alg = ''ES256'', jh_typ = Some ''statuslist+jwt'', jh_x5c = Some chain\<rparr>
        \<lparr>tok_exp = Some (snd w), tok_iat = fst w,
         tok_status_list = \<lparr>slc_bits = sl_bits (slr_status_list r), slc_lst = sl_lst (slr_status_list r),
           slc_aggregation_uri = uri\<rparr>,
         tok_sub = slr_sub r, tok_ttl = Some (u64_as_i64 ttl)\<rparr> ek = Inr tok"
  using assms
  by (auto simp: sign_token_def issue_jwt_def jwt_claims_def or_backend_def outcome_simps STATUS_LISTS_HEADER_JWT_def
      ACCEPT_STATUS_LISTS_HEADER_JWT_def ACCEPT_STATUS_LISTS_HEADER_CWT_def)

section \<open>An example\<close>

definition sample_service :: "memory service" where
  "sample_service = memory_service True (inline_provider \<lparr>sm_certificate_chain = Some [''c''], sm_signing_key_pem = ''k''\<rparr>)"

lemma sample_update_run:
  "\<exists>r s1. run (update_statuses (he_ambient sample_env) sample_service ''iss'' ''l''
       [\<lparr>se_index = 0, se_status = Invalid\<rparr>] 60 100 10 100) sample_store = (Ok r, s1)
     \<and> sl_lst (slr_status_list r) = [CHR 0x03] \<and> slr_updated_at r = 1000"
proof -
  have list: "map_of (ms_lists sample_store) ''l'' = Some sample_record" by (simp add: sample_store_def)
  then have keyed: "\<forall>r. map_of (ms_lists sample_store) ''l'' = Some r \<longrightarrow> slr_list_id r = ''l''"
    by (simp add: sample_record_def)
  show ?thesis
    unfolding sample_service_def memory_update_run [OF keyed]
    using sample_update list
    by (simp add: check_limits_def sample_record_def sample_env_def next_updated_at_def wrap_i64_def)
qed

section \<open>Properties\<close>







text \<open>
  C27. Time travel: with history enabled, an accepted update is what a historical query returns
  for the second it was made in and for every later second of its token's lifetime until the
  list changes again. It needs the identifier of its snapshot to be new and the stored stamp to
  be inside the 64-bit range.
\<close>

theorem history_replays_update:
  assumes "store_ok cx (memory_view s)" and "memory_ok s" and "stamps_in_range s" and "in_i64 (amb_now amb)"
    and "\<forall>sn \<in> set (map snd (ms_snapshots s)). sn_list_id sn = k \<longrightarrow>
           (\<forall>old. map_of (ms_lists s) k = Some old \<longrightarrow> sn_iat sn \<le> slr_updated_at old)"
    and "amb_uuid amb \<notin> set (map fst (ms_snapshots s))"
    and "run (update_statuses amb (memory_service True certs) p k us n mi mn ms) s = (Ok r, s1)"
    and "slr_updated_at r \<le> t" and "t < slr_updated_at r + int n" and "in_i64 (slr_updated_at r + int n)"
  shows "\<exists>sn. run (get_snapshot_at (memory_service True certs) k t) s1 = (Ok sn, s1)
     \<and> sn_status_list sn = slr_status_list r \<and> sn_iat sn = slr_updated_at r
     \<and> sn_exp sn = slr_updated_at r + int n \<and> sn_issuer sn = slr_issuer r \<and> sn_sub sn = slr_sub r"
proof -
  let ?sn = "build_snapshot (amb_uuid amb) r n"
  have keyed: "\<forall>r. map_of (ms_lists s) k = Some r \<longrightarrow> slr_list_id r = k"
    using store_okD(1) [OF assms(1)] by simp
  obtain old sl where old: "map_of (ms_lists s) k = Some old" "r = revised_record amb old sl"
    "s1 = written (snd (mem_update_record amb True r (slr_updated_at old) n s)) k"
    using assms(7) by (auto simp: memory_update_run [OF keyed] split: outcome.splits option.splits if_splits)
  have id: "slr_list_id r = k" using keyed old by simp
  have later: "slr_updated_at old < slr_updated_at r"
    using next_updated_at_greater(1) stamps_in_rangeD [OF assms(3) old(1)] old(2) by simp
  have snaps: "ms_snapshots s1 = AList.update (amb_uuid amb) ?sn (ms_snapshots s)"
    using old(1) id by (simp add: old(3) written_def mem_update_record_def mem_update_with_snapshot_def require_snapshot_def)
  have "set (map snd (ms_snapshots s1)) = insert ?sn (set (map snd (ms_snapshots s)))"
    using assms(6) by (simp add: snaps update_new_key)
  moreover have exp: "sn_exp ?sn = slr_updated_at r + int n"
    using assms(8-10) by (simp add: build_snapshot_def Let_def u64_as_i64_def wrap_i64_add wrap_i64_id)
  moreover have "in_force k t ?sn" using assms(8,9) exp id by (simp add: in_force_def)
  moreover have "sn_iat sn < slr_updated_at r" if "sn \<in> set (map snd (ms_snapshots s))" "in_force k t sn" for sn
    using assms(5) that old(1) later by (force simp: in_force_def)
  ultimately have "max_by_key sn_iat (filter (in_force k t) (map snd (ms_snapshots s1))) = Some ?sn"
    by (intro max_by_key_unique) auto
  then show ?thesis using exp by (simp add: memory_snapshot_run)
qed

theorem history_replays_update_witness:
  "\<exists>s1 sn. run (get_snapshot_at sample_service ''l'' 1030) s1 = (Ok sn, s1)
     \<and> sl_lst (sn_status_list sn) = [CHR 0x03] \<and> sn_exp sn = 1060"
proof -
  let ?us = "[\<lparr>se_index = 0, se_status = Invalid\<rparr>]"
  obtain r s1 where run: "run (update_statuses (he_ambient sample_env) sample_service ''iss'' ''l'' ?us 60 100 10 100)
      sample_store = (Ok r, s1)" "sl_lst (slr_status_list r) = [CHR 0x03]" "slr_updated_at r = 1000"
    using sample_update_run by blast
  have "stamps_in_range sample_store" "in_i64 (amb_now (he_ambient sample_env))" "ms_snapshots sample_store = []"
    "in_i64 (slr_updated_at r + int 60)"
    using run(3) by (simp_all add: stamps_in_range_def sample_store_def sample_record_def sample_env_def empty_memory_def
        in_i64_def i64_min_def i64_max_def)
  with history_replays_update [OF sample_store_ok(2,1) _ _ _ _ run(1) [unfolded sample_service_def], of 1030] run(2,3)
  obtain sn where "run (get_snapshot_at sample_service ''l'' 1030) s1 = (Ok sn, s1)"
    "sn_status_list sn = slr_status_list r" "sn_exp sn = 1060"
    unfolding sample_service_def by auto
  then show ?thesis using run(2) by metis
qed



end
