(* ===== verification/Config.thy ===== *)
theory Config
  imports Text Http_Conditional
begin

text \<open>
  Model of \<open>src/src/config.rs\<close>: the configuration's types, their validation, the choice of
  the DNS provider and the assembly of the database URL. Secrets and paths are strings, a
  \<open>ConfigError\<close> is its message. Reading the environment into these types is the work of the
  \<open>config\<close> and \<open>serde\<close> libraries. The key parser of \<open>form_urlencoded\<close>, the file system and
  the escapes of \<open>Debug\<close> output are parameters.
\<close>

type_synonym 'a config_result = "('a, string) outcome"

section \<open>Database backends\<close>

datatype database_backend = Memory | Postgres | MySql | Sqlite

record database_backend_scheme =
  dbs_prefixes :: "string list"
  dbs_description :: string

fun scheme :: "database_backend \<Rightarrow> database_backend_scheme" where
  "scheme Memory = \<lparr>dbs_prefixes = [''memory:'', ''memory''], dbs_description = quoted ''memory:'' @ '' or '' @ quoted ''memory''\<rparr>"
| "scheme Postgres = \<lparr>dbs_prefixes = [''postgres://'', ''postgresql://''],
     dbs_description = quoted ''postgres://'' @ '' or '' @ quoted ''postgresql://''\<rparr>"
| "scheme MySql = \<lparr>dbs_prefixes = [''mysql://''], dbs_description = quoted ''mysql://''\<rparr>"
| "scheme Sqlite = \<lparr>dbs_prefixes = [''sqlite:''], dbs_description = quoted ''sqlite:''\<rparr>"

definition expected_scheme_description :: "database_backend \<Rightarrow> string" where
  "expected_scheme_description self = dbs_description (scheme self)"

fun as_str :: "database_backend \<Rightarrow> string" where
  "as_str Memory = ''memory''"
| "as_str Postgres = ''postgres''"
| "as_str MySql = ''mysql''"
| "as_str Sqlite = ''sqlite''"

definition validate_url_scheme :: "database_backend \<Rightarrow> string \<Rightarrow> bool" where
  "validate_url_scheme self url \<longleftrightarrow> list_ex (\<lambda>p. starts_with p url) (dbs_prefixes (scheme self))"

section \<open>Small sections\<close>

definition ENV_PRODUCTION :: string where "ENV_PRODUCTION = ''production''"
definition ENV_DEVELOPMENT :: string where "ENV_DEVELOPMENT = ''development''"

record management_auth_settings =
  mas_leeway_secs :: nat
  mas_max_token_lifetime_secs :: nat
  mas_audiences :: "string list"

definition validate_management_auth :: "management_auth_settings \<Rightarrow> unit config_result" where
  "validate_management_auth self =
     (if mas_max_token_lifetime_secs self = 0
      then Err ''management_auth.max_token_lifetime_secs must be greater than 0''
      else Ok ())"

text \<open>The audiences as the deserializer leaves them; \<open>values\<close> is what the library split.\<close>

definition deserialize_audience_list :: "string list \<Rightarrow> string list" where
  "deserialize_audience_list values = filter (\<lambda>value. value \<noteq> []) (map str_trim values)"

datatype telemetry_environment = Development | Production

definition is_production :: "telemetry_environment \<Rightarrow> bool" where
  "is_production self \<longleftrightarrow> self = Production"

text \<open>\<open>Inl\<close> is the variant the deserializer does not know.\<close>

definition deserialize_telemetry_environment :: "string \<Rightarrow> string + telemetry_environment" where
  "deserialize_telemetry_environment raw =
     (let name = to_ascii_lowercase (str_trim raw)
      in if name = ''development'' \<or> name = ''dev'' then Inr Development
         else if name = ''production'' \<or> name = ''prod'' then Inr Production
         else Inl name)"

section \<open>DNS providers\<close>

datatype dns_provider_kind = Route53 | Cloudflare | Gcloud | Azure | Acmedns | Pebble

fun kind_debug :: "dns_provider_kind \<Rightarrow> string" where
  "kind_debug Route53 = ''Route53''"
| "kind_debug Cloudflare = ''Cloudflare''"
| "kind_debug Gcloud = ''Gcloud''"
| "kind_debug Azure = ''Azure''"
| "kind_debug Acmedns = ''Acmedns''"
| "kind_debug Pebble = ''Pebble''"

record gcloud_dns_config =
  gd_project_id :: string

record azure_dns_config =
  ad_subscription_id :: string
  ad_resource_group :: string

record cloudflare_dns_config =
  cd_api_token :: string

record acme_dns_account =
  aa_username :: string
  aa_password :: string
  aa_subdomain :: string

text \<open>The accounts come in the iteration order of the hash map.\<close>

record acme_dns_config =
  adc_server_url :: string
  adc_username :: "string option"
  adc_password :: "string option"
  adc_subdomain :: "string option"
  adc_accounts :: "(string \<times> acme_dns_account) list"

datatype resolved_dns_provider =
    RRoute53
  | RCloudflare cloudflare_dns_config
  | RGcloud gcloud_dns_config
  | RAzure azure_dns_config
  | RAcmedns acme_dns_config
  | RPebble

fun resolved_kind :: "resolved_dns_provider \<Rightarrow> dns_provider_kind" where
  "resolved_kind RRoute53 = Route53"
| "resolved_kind (RCloudflare _) = Cloudflare"
| "resolved_kind (RGcloud _) = Gcloud"
| "resolved_kind (RAzure _) = Azure"
| "resolved_kind (RAcmedns _) = Acmedns"
| "resolved_kind RPebble = Pebble"

record dns_config =
  dc_provider :: "dns_provider_kind option"
  dc_cloudflare :: "cloudflare_dns_config option"
  dc_gcloud :: "gcloud_dns_config option"
  dc_azure :: "azure_dns_config option"
  dc_acmedns :: "acme_dns_config option"

definition non_empty :: "string option \<Rightarrow> string option" where
  "non_empty v = (case v of Some s \<Rightarrow> if str_trim s \<noteq> [] then Some s else None | None \<Rightarrow> None)"

definition default_account :: "acme_dns_config \<Rightarrow> acme_dns_account option" where
  "default_account self =
     Option.bind (non_empty (adc_password self)) (\<lambda>password.
     Option.bind (non_empty (adc_username self)) (\<lambda>username.
     Option.bind (non_empty (adc_subdomain self)) (\<lambda>subdomain.
       Some \<lparr>aa_username = username, aa_password = password, aa_subdomain = subdomain\<rparr>)))"

text \<open>The names of the fields that are blank.\<close>

definition empty_fields :: "(string \<times> string) list \<Rightarrow> string list" where
  "empty_fields fs = map fst (filter (\<lambda>(_, value). str_trim value = []) fs)"

definition validate_account :: "(string \<Rightarrow> string) \<Rightarrow> string \<times> acme_dns_account \<Rightarrow> unit config_result" where
  "validate_account fmt_debug entry =
     (let (domain, account) = entry;
          trimmed = str_trim domain;
          name = (case strip_prefix ''*.'' trimmed of Some n \<Rightarrow> n | None \<Rightarrow> trimmed);
          empty = empty_fields [(''username'', aa_username account), (''password'', aa_password account),
                                (''subdomain'', aa_subdomain account)]
      in if trim_end_matches CHR ''.'' name = []
         then Err (''ACME-DNS accounts entry '' @ fmt_debug domain @ '' does not name a domain'')
         else if empty \<noteq> []
         then Err (''ACME-DNS account for '' @ domain @ '' has empty required fields: '' @ str_join '', '' empty)
         else Ok ())"

fun validate_accounts :: "(string \<Rightarrow> string) \<Rightarrow> (string \<times> acme_dns_account) list \<Rightarrow> unit config_result" where
  "validate_accounts fmt_debug [] = Ok ()"
| "validate_accounts fmt_debug (entry # entries) =
     obind (validate_account fmt_debug entry) (\<lambda>_. validate_accounts fmt_debug entries)"

definition validate_acme_dns :: "(string \<Rightarrow> string) \<Rightarrow> acme_dns_config \<Rightarrow> unit config_result" where
  "validate_acme_dns fmt_debug self =
     (let is_set = [non_empty (adc_username self) \<noteq> None, non_empty (adc_password self) \<noteq> None,
                    non_empty (adc_subdomain self) \<noteq> None]
      in if str_trim (adc_server_url self) = [] then Err ''ACME-DNS settings have an empty server_url''
         else if list_ex id is_set \<and> \<not> list_all id is_set
         then Err ''Incomplete ACME-DNS default account: username, password and subdomain must be set together''
         else if default_account self = None \<and> adc_accounts self = []
         then Err (''ACME-DNS settings need a default account (username/password/subdomain) ''
                @ ''or a non-empty accounts map'')
         else validate_accounts fmt_debug (adc_accounts self))"

text \<open>What the visitor makes of a string: \<open>from_str\<close> is the JSON reader.\<close>

definition accounts_from_str :: "(string \<Rightarrow> string + 'm) \<Rightarrow> 'm \<Rightarrow> string \<Rightarrow> string + 'm" where
  "accounts_from_str from_str empty_map raw = (if str_trim raw = [] then Inr empty_map else from_str raw)"

definition validate_azure_dns :: "azure_dns_config \<Rightarrow> unit config_result" where
  "validate_azure_dns self =
     (let empty = empty_fields [(''subscription_id'', ad_subscription_id self), (''resource_group'', ad_resource_group self)]
      in if empty \<noteq> []
         then Err (''Azure DNS settings have empty required fields: '' @ str_join '', '' empty)
         else Ok ())"

definition validate_gcloud_dns :: "gcloud_dns_config \<Rightarrow> unit config_result" where
  "validate_gcloud_dns self =
     (if str_trim (gd_project_id self) = [] then Err ''Google Cloud DNS settings have an empty project_id'' else Ok ())"

definition validate_cloudflare_dns :: "cloudflare_dns_config \<Rightarrow> unit config_result" where
  "validate_cloudflare_dns self =
     (if str_trim (cd_api_token self) = [] then Err ''Cloudflare DNS settings have an empty api_token'' else Ok ())"

definition dns_kind :: "dns_config \<Rightarrow> string \<Rightarrow> dns_provider_kind" where
  "dns_kind self app_env =
     (case dc_provider self of
        Some kind \<Rightarrow> kind
      | None \<Rightarrow> if app_env = ENV_PRODUCTION then Route53 else Pebble)"

definition missing_section :: "dns_provider_kind \<Rightarrow> string \<Rightarrow> string" where
  "missing_section kind section =
     ''DNS provider '' @ kind_debug kind @ '' selected but the server.cert.'' @ section @ '' settings are missing''"

definition resolve :: "(string \<Rightarrow> string) \<Rightarrow> dns_config \<Rightarrow> string \<Rightarrow> resolved_dns_provider config_result" where
  "resolve fmt_debug self app_env =
     (let kind = dns_kind self app_env; missing = missing_section kind in
      case kind of
        Route53 \<Rightarrow> Ok RRoute53
      | Pebble \<Rightarrow> Ok RPebble
      | Cloudflare \<Rightarrow>
          obind (ok_or (dc_cloudflare self) (missing ''dns.cloudflare'')) (\<lambda>cloudflare.
          obind (validate_cloudflare_dns cloudflare) (\<lambda>_. Ok (RCloudflare cloudflare)))
      | Gcloud \<Rightarrow>
          obind (ok_or (dc_gcloud self) (missing ''dns.gcloud'')) (\<lambda>gcloud.
          obind (validate_gcloud_dns gcloud) (\<lambda>_. Ok (RGcloud gcloud)))
      | Azure \<Rightarrow>
          obind (ok_or (dc_azure self) (missing ''dns.azure'')) (\<lambda>azure.
          obind (validate_azure_dns azure) (\<lambda>_. Ok (RAzure azure)))
      | Acmedns \<Rightarrow>
          obind (ok_or (dc_acmedns self) (missing ''dns.acmedns'')) (\<lambda>acmedns.
          obind (validate_acme_dns fmt_debug acmedns) (\<lambda>_. Ok (RAcmedns acmedns))))"

section \<open>The database URL\<close>

record database_pool_config =
  dp_max_connections :: nat
  dp_min_connections :: nat
  dp_acquire_timeout_secs :: nat
  dp_connect_timeout_secs :: nat
  dp_idle_timeout_secs :: nat
  dp_max_lifetime_secs :: nat

record database_config =
  db_url :: "string option"
  db_host :: "string option"
  db_port :: "nat option"
  db_username :: "string option"
  db_password :: "string option"
  db_password_file :: "string option"
  db_name :: "string option"
  db_query :: "string option"
  db_kind :: database_backend
  db_pool :: database_pool_config

definition trim_non_empty :: "string option \<Rightarrow> string option" where
  "trim_non_empty v =
     (case v of Some s \<Rightarrow> let t = str_trim s in if t \<noteq> [] then Some t else None | None \<Rightarrow> None)"

definition hex_digit :: "nat \<Rightarrow> char" where
  "hex_digit n = (if n < 10 then char_of (48 + n) else char_of (55 + n))"

definition unreserved :: "char \<Rightarrow> bool" where
  "unreserved c \<longleftrightarrow> is_ascii_alphanumeric c \<or> c \<in> {CHR ''-'', CHR ''.'', CHR ''_'', CHR ''~''}"

definition encode_byte :: "char \<Rightarrow> string" where
  "encode_byte c =
     (if unreserved c then [c] else [CHR ''%'', hex_digit (of_char c div 16), hex_digit (of_char c mod 16)])"

definition encode_url_part :: "string \<Rightarrow> string" where
  "encode_url_part value = foldl (\<lambda>encoded byte. encoded @ encode_byte byte) [] value"

definition format_database_url_host :: "string \<Rightarrow> string" where
  "format_database_url_host host = (if is_ipv6 host then ''['' @ host @ '']'' else host)"

definition database_host_is_ipv6 :: "string \<Rightarrow> bool" where
  "database_host_is_ipv6 host \<longleftrightarrow>
     is_ipv6 host \<or>
     (case Option.bind (strip_prefix ''['' host) (strip_suffix '']'') of
        Some inner \<Rightarrow> is_ipv6 inner | None \<Rightarrow> False)"

definition required_config_field :: "string option \<Rightarrow> string \<Rightarrow> string config_result" where
  "required_config_field v field = ok_or (trim_non_empty v) (''Missing required config field: '' @ field)"

definition required_secret_field :: "string option \<Rightarrow> string \<Rightarrow> string config_result" where
  "required_secret_field v field =
     ok_or (case v of Some s \<Rightarrow> if s \<noteq> [] then Some s else None | None \<Rightarrow> None)
       (''Missing required config field: '' @ field)"

text \<open>\<open>form_keys\<close> gives the keys of a query string, decoded, in order.\<close>

definition key_char :: "char \<Rightarrow> bool" where
  "key_char c \<longleftrightarrow> is_ascii_alphanumeric c \<or> c \<in> {CHR ''_'', CHR ''-'', CHR ''.''}"

definition credential_like :: "string \<Rightarrow> bool" where
  "credential_like key \<longleftrightarrow>
     contains ''password'' key \<or> contains ''passwd'' key \<or> contains ''secret'' key \<or> contains ''token'' key
     \<or> key = ''user'' \<or> key = ''username''"

definition validate_query_key :: "string \<Rightarrow> unit config_result" where
  "validate_query_key key =
     (if key = [] \<or> \<not> list_all key_char key
      then Err (''Invalid database.query: query parameter keys must be non-empty and contain only ASCII letters, digits, ''
             @ quoted ''.'' @ '', '' @ quoted ''_'' @ '' or '' @ quoted ''-'')
      else if credential_like (to_ascii_lowercase key)
      then Err (''Invalid database.query: credential-like query parameter key ''
             @ quoted (to_ascii_lowercase key) @ '' is not allowed'')
      else Ok ())"

fun validate_query_keys :: "string list \<Rightarrow> unit config_result" where
  "validate_query_keys [] = Ok ()"
| "validate_query_keys (key # keys) = obind (validate_query_key key) (\<lambda>_. validate_query_keys keys)"

definition validate_database_query :: "(string \<Rightarrow> string list) \<Rightarrow> string \<Rightarrow> unit config_result" where
  "validate_database_query form_keys raw =
     (let query = trim_start_matches CHR ''?'' raw
      in if query = [] then Ok () else validate_query_keys (form_keys query))"

definition backslash :: char where "backslash = CHR 0x5C"

definition invalid_host :: "string \<Rightarrow> bool" where
  "invalid_host host \<longleftrightarrow>
     has_white_space host \<or> CHR ''/'' \<in> set host \<or> CHR ''@'' \<in> set host \<or> CHR ''?'' \<in> set host
     \<or> CHR ''#'' \<in> set host \<or> CHR '':'' \<in> set host \<or> backslash \<in> set host
     \<or> starts_with ''-'' host \<or> ends_with ''-'' host \<or> starts_with ''.'' host
     \<or> trim_end_matches CHR ''.'' host = []"

definition validate_database_host :: "string \<Rightarrow> unit config_result" where
  "validate_database_host host =
     (if database_host_is_ipv6 host then Ok ()
      else if invalid_host host
      then Err (''Invalid database.host: expected a hostname or IP address without scheme, port, path, ''
             @ ''userinfo, query, or fragment'')
      else Ok ())"

definition is_blank :: "string option \<Rightarrow> bool" where
  "is_blank v \<longleftrightarrow> trim_non_empty v = None"

definition has_split_connection_fields :: "database_config \<Rightarrow> bool" where
  "has_split_connection_fields self \<longleftrightarrow>
     \<not> is_blank (db_host self) \<or> \<not> is_blank (db_username self)
     \<or> (case db_password self of Some p \<Rightarrow> p \<noteq> [] | None \<Rightarrow> False)
     \<or> (case db_password_file self of Some p \<Rightarrow> p \<noteq> [] | None \<Rightarrow> False)
     \<or> \<not> is_blank (db_name self)"

fun url_scheme :: "database_backend \<Rightarrow> string config_result" where
  "url_scheme Postgres = Ok ''postgres''"
| "url_scheme MySql = Ok ''mysql''"
| "url_scheme b =
     Err (''Split database connection fields are only supported for postgres/mysql; configured backend is ''
       @ quoted (as_str b))"

fun default_port :: "database_backend \<Rightarrow> nat config_result" where
  "default_port Postgres = Ok 5432"
| "default_port MySql = Ok 3306"
| "default_port _ = Panic"

definition query_suffix :: "(string \<Rightarrow> string list) \<Rightarrow> string option \<Rightarrow> string config_result" where
  "query_suffix form_keys query =
     (case trim_non_empty query of
        None \<Rightarrow> Ok []
      | Some q \<Rightarrow> obind (validate_database_query form_keys q) (\<lambda>_. Ok (''?'' @ trim_start_matches CHR ''?'' q)))"

definition resolved_url :: "(string \<Rightarrow> string list) \<Rightarrow> database_config \<Rightarrow> string config_result" where
  "resolved_url form_keys self =
     (if \<not> has_split_connection_fields self
      then ok_or (db_url self) ''Missing required config field: database.url or split database fields''
      else if db_url self \<noteq> None
      then Err (''Ambiguous database configuration: use either database.url or split database fields, '' @ ''not both'')
      else
        obind (url_scheme (db_kind self)) (\<lambda>scheme.
        obind (default_port (db_kind self)) (\<lambda>dflt.
        obind (required_config_field (db_host self) ''database.host'') (\<lambda>host.
        obind (validate_database_host host) (\<lambda>_.
        let url_host = format_database_url_host host in
        obind (required_config_field (db_username self) ''database.username'') (\<lambda>username.
        obind (required_secret_field (db_password self) ''database.password'') (\<lambda>password.
        let password = str_trim password in
        obind (required_config_field (db_name self) ''database.name'') (\<lambda>name.
        let port = (case db_port self of Some p \<Rightarrow> p | None \<Rightarrow> dflt) in
        obind (query_suffix form_keys (db_query self)) (\<lambda>query.
          Ok (scheme @ ''://'' @ encode_url_part username @ '':'' @ encode_url_part password @ ''@''
              @ url_host @ '':'' @ show_nat port @ ''/'' @ encode_url_part name @ query))))))))))"

definition load_resolved_url ::
  "(string \<Rightarrow> string list) \<Rightarrow> (string \<Rightarrow> string + string) \<Rightarrow> database_config \<Rightarrow> string config_result" where
  "load_resolved_url form_keys read_to_string self =
     (case db_password_file self of
        None \<Rightarrow> resolved_url form_keys self
      | Some path \<Rightarrow>
          obind (map_err (\<lambda>err. ''Failed to read database.password_file '' @ quoted path @ '': '' @ err)
                   (from_sum (read_to_string path))) (\<lambda>password.
            resolved_url form_keys (self\<lparr>db_password := Some (str_trim password)\<rparr>)))"

definition redacted_target :: "database_config \<Rightarrow> string" where
  "redacted_target self =
     (case (has_split_connection_fields self, db_kind self, trim_non_empty (db_host self), trim_non_empty (db_name self)) of
        (True, Postgres, Some host, Some name) \<Rightarrow>
          ''backend=postgres, host='' @ host @ '', port=''
            @ show_nat (case db_port self of Some p \<Rightarrow> p | None \<Rightarrow> 5432) @ '', database='' @ name
      | (True, MySql, Some host, Some name) \<Rightarrow>
          ''backend=mysql, host='' @ host @ '', port=''
            @ show_nat (case db_port self of Some p \<Rightarrow> p | None \<Rightarrow> 3306) @ '', database='' @ name
      | _ \<Rightarrow> ''backend='' @ as_str (db_kind self))"

section \<open>Secrets of the Vault adapter\<close>

datatype vault_auth_method = Approle | Kubernetes

record vault_config =
  vc_auth_method :: vault_auth_method
  vc_addr :: string
  vc_role_id :: string
  vc_secret_id :: "string option"
  vc_secret_id_path :: "string option"
  vc_auth_mount :: string
  vc_k8s_role :: "string option"
  vc_k8s_token_path :: string
  vc_k8s_auth_mount :: string
  vc_mount :: string
  vc_path_prefix :: string
  vc_namespace :: "string option"
  vc_timeout_secs :: nat

definition resolve_secret_id ::
  "(string \<Rightarrow> string) \<Rightarrow> (string \<Rightarrow> string + string) \<Rightarrow> vault_config \<Rightarrow> string config_result" where
  "resolve_secret_id fmt_debug read_to_string self =
     (case non_empty (vc_secret_id self) of
        Some secret_id \<Rightarrow> Ok secret_id
      | None \<Rightarrow>
          (case vc_secret_id_path self of
             Some path \<Rightarrow>
               obind (map_err (\<lambda>e. ''Failed to read Vault secret_id from file '' @ fmt_debug path @ '': '' @ e)
                        (from_sum (read_to_string path))) (\<lambda>content.
                 let trimmed = str_trim content
                 in if trimmed = [] then Err (''Vault secret_id file '' @ fmt_debug path @ '' is empty'')
                    else Ok trimmed)
           | None \<Rightarrow>
               Err (''Vault configuration missing secret_id: provide '' @ quoted ''secret_id'' @ '' or ''
                 @ quoted ''secret_id_path'')))"

section \<open>The other sections\<close>

record cert_store_config =
  cs_certificate_path :: "string option"
  cs_signing_key_path :: "string option"
  cs_certificate :: "string option"
  cs_signing_key :: "string option"

record cert_config =
  cc_email :: string
  cc_organization :: "string option"
  cc_eku :: "nat list"
  cc_acme_directory_url :: string
  cc_signing_key_cache_ttl :: nat
  cc_renewal_cron_schedule :: string
  cc_dns_challenge_server_url :: "string option"
  cc_store :: cert_store_config
  cc_dns :: dns_config

record server_config =
  sc_host :: string
  sc_domain :: string
  sc_port :: nat
  sc_cert :: cert_config
  sc_enable_metrics :: bool
  sc_aggregation_uri :: "string option"

record limits_config =
  lc_max_body_size_bytes :: nat
  lc_max_status_index :: int
  lc_max_statuses_per_request :: nat
  lc_max_serialized_list_size :: nat

record cache_config =
  cac_ttl :: nat
  cac_max_capacity :: nat

record status_list_config =
  slc_token_exp_secs :: nat
  slc_token_ttl_secs :: nat
  slc_snapshot_retention_secs :: nat

record watcher_config =
  wc_poll_interval_secs :: nat

text \<open>The sections the composition root reads.\<close>

record app_config =
  ac_server :: server_config
  ac_database :: database_config
  ac_vault :: vault_config
  ac_cache :: cache_config
  ac_status_list :: status_list_config
  ac_management_auth :: management_auth_settings
  ac_limits :: limits_config
  ac_watcher :: watcher_config

section \<open>Checks after loading\<close>

definition validate_loaded ::
  "(string \<Rightarrow> string list) \<Rightarrow> app_config \<Rightarrow> unit config_result" where
  "validate_loaded form_keys config =
     obind (case trim_non_empty (db_host (ac_database config)) of Some host \<Rightarrow> validate_database_host host | None \<Rightarrow> Ok ()) (\<lambda>_.
     obind (case trim_non_empty (db_query (ac_database config)) of
              Some query \<Rightarrow> validate_database_query form_keys query | None \<Rightarrow> Ok ()) (\<lambda>_.
       validate_management_auth (ac_management_auth config)))"

end
