(* ===== verification/Sql_Store.thy ===== *)
theory Sql_Store
  imports Service_Spec
begin

text \<open>
  Model of \<open>src/src/outbound/sql\<close>: the error tables of \<open>error.rs\<close>, the rows of
  \<open>models.rs\<close>, the statements and transactions of \<open>store.rs\<close> and the adapters of
  \<open>mod.rs\<close>. The database with its driver is the record \<open>database\<close>, an argument of every
  definition; its statements are the values the query builder is given. Metrics and logging
  are left out.
\<close>

section \<open>The database\<close>

datatype database_backend = Postgres | MySql | OtherBackend

datatype isolation_level = ReadCommitted

text \<open>What the store looks at in a driver error: its shape, its code, its text.\<close>

datatype driver_error = MySqlError nat | PostgresError string | OtherDriverError

datatype db_err_shape = ExecError driver_error | QueryError driver_error | OtherShape

record db_err =
  de_shape :: db_err_shape
  de_unique_violation :: bool
  de_text :: string

section \<open>Rows\<close>

record stored_list =
  jl_bits :: u8
  jl_lst :: string

record list_row =
  lr_list_id :: string
  lr_issuer :: string
  lr_status_list :: stored_list
  lr_sub :: string
  lr_updated_at :: int

record history_row =
  hr_snapshot_id :: string
  hr_list_id :: string
  hr_issuer :: string
  hr_status_list :: stored_list
  hr_sub :: string
  hr_iat :: int
  hr_exp :: int

record 'jwk credentials_row =
  cw_issuer :: string
  cw_public_key :: 'jwk

definition stored_list_from :: "status_list \<Rightarrow> stored_list" where
  "stored_list_from sl = \<lparr>jl_bits = sl_bits sl, jl_lst = sl_lst sl\<rparr>"

definition status_list_from :: "stored_list \<Rightarrow> status_list" where
  "status_list_from jl = \<lparr>sl_bits = jl_bits jl, sl_lst = jl_lst jl\<rparr>"

definition record_of_row :: "list_row \<Rightarrow> status_list_record" where
  "record_of_row row =
     \<lparr>slr_list_id = lr_list_id row, slr_issuer = lr_issuer row,
      slr_status_list = status_list_from (lr_status_list row), slr_sub = lr_sub row,
      slr_updated_at = lr_updated_at row\<rparr>"

definition row_of_record :: "status_list_record \<Rightarrow> list_row" where
  "row_of_record r =
     \<lparr>lr_list_id = slr_list_id r, lr_issuer = slr_issuer r,
      lr_status_list = stored_list_from (slr_status_list r), lr_sub = slr_sub r,
      lr_updated_at = slr_updated_at r\<rparr>"

definition snapshot_of_row :: "history_row \<Rightarrow> status_list_snapshot" where
  "snapshot_of_row row =
     \<lparr>sn_snapshot_id = hr_snapshot_id row, sn_list_id = hr_list_id row, sn_issuer = hr_issuer row,
      sn_status_list = status_list_from (hr_status_list row), sn_sub = hr_sub row,
      sn_iat = hr_iat row, sn_exp = hr_exp row\<rparr>"

definition row_of_snapshot :: "status_list_snapshot \<Rightarrow> history_row" where
  "row_of_snapshot sn =
     \<lparr>hr_snapshot_id = sn_snapshot_id sn, hr_list_id = sn_list_id sn, hr_issuer = sn_issuer sn,
      hr_status_list = stored_list_from (sn_status_list sn), hr_sub = sn_sub sn,
      hr_iat = sn_iat sn, hr_exp = sn_exp sn\<rparr>"

section \<open>Statements\<close>

datatype 'jwk statement =
    InsertList list_row
  | InsertHistory history_row
  | InsertCredential "'jwk credentials_row"
  | GuardedUpdate string list_row int
  | DeleteListById string
  | DeleteCredentialById string
  | UpdateCredential "'jwk credentials_row"
  | DeleteExpired string int nat

datatype list_filter = NoFilter | IssuerEq string | SubEq string

record ('s, 'jwk) database =
  db_backend :: "'s \<Rightarrow> database_backend"
  db_begin :: "isolation_level option \<Rightarrow> 's \<Rightarrow> (db_err + nat) \<times> 's"
  db_commit :: "nat \<Rightarrow> 's \<Rightarrow> (db_err + unit) \<times> 's"
  db_rollback :: "nat \<Rightarrow> 's \<Rightarrow> (db_err + unit) \<times> 's"
  db_exec :: "nat option \<Rightarrow> 'jwk statement \<Rightarrow> 's \<Rightarrow> (db_err + nat) \<times> 's"
  db_find_list :: "string \<Rightarrow> 's \<Rightarrow> (db_err + list_row option) \<times> 's"
  db_select_lists :: "list_filter \<Rightarrow> 's \<Rightarrow> (db_err + list_row list) \<times> 's"
  db_select_subs :: "'s \<Rightarrow> (db_err + string list) \<times> 's"
  db_select_history :: "string \<Rightarrow> int \<Rightarrow> 's \<Rightarrow> (db_err + history_row option) \<times> 's"
  db_find_credential :: "string \<Rightarrow> 's \<Rightarrow> (db_err + 'jwk credentials_row option) \<times> 's"

definition dbcall :: "('s \<Rightarrow> (db_err + 'a) \<times> 's) \<Rightarrow> ('s, 'a, db_err) io" where
  "dbcall f = call (\<lambda>s. map_prod from_sum id (f s))"

section \<open>Errors\<close>

datatype repository_error =
    InsertError string
  | FindError string
  | UpdateError string
  | DeleteError string
  | CouldNotStoreEntity
  | RepositoryNotSet
  | DuplicateEntry
  | RepoContention string

fun repository_error_text :: "repository_error \<Rightarrow> string" where
  "repository_error_text (InsertError m) = ''Insert error: '' @ m"
| "repository_error_text (FindError m) = ''Find error: '' @ m"
| "repository_error_text (UpdateError m) = ''Update error: '' @ m"
| "repository_error_text (DeleteError m) = ''Delete error: '' @ m"
| "repository_error_text CouldNotStoreEntity = ''Could not store entity''"
| "repository_error_text RepositoryNotSet = ''Repository not set''"
| "repository_error_text DuplicateEntry = ''Duplicate entry''"
| "repository_error_text (RepoContention code) =
     ''Write contention ('' @ code @ ''): the transaction lost a lock race and may be retried''"

definition classify_postgres :: "string \<Rightarrow> string option" where
  "classify_postgres sqlstate =
     (if sqlstate = ''40001'' then Some ''40001''
      else if sqlstate = ''40P01'' then Some ''40P01'' else None)"

definition classify_mysql :: "nat \<Rightarrow> string option" where
  "classify_mysql number =
     (if number = 1205 then Some ''1205'' else if number = 1213 then Some ''1213'' else None)"

fun driver_code :: "driver_error \<Rightarrow> string option" where
  "driver_code (MySqlError number) = classify_mysql number"
| "driver_code (PostgresError code) = classify_postgres code"
| "driver_code OtherDriverError = None"

definition contention_code :: "db_err \<Rightarrow> string option" where
  "contention_code err =
     (case de_shape err of
        ExecError db \<Rightarrow> driver_code db | QueryError db \<Rightarrow> driver_code db | OtherShape \<Rightarrow> None)"

definition contention_err :: "db_err \<Rightarrow> repository_error option" where
  "contention_err err = map_option RepoContention (contention_code err)"

definition map_insert_err :: "db_err \<Rightarrow> repository_error" where
  "map_insert_err e =
     (if de_unique_violation e then DuplicateEntry
      else case contention_err e of Some r \<Rightarrow> r | None \<Rightarrow> InsertError (de_text e))"

definition map_update_err :: "db_err \<Rightarrow> repository_error" where
  "map_update_err e = (case contention_err e of Some r \<Rightarrow> r | None \<Rightarrow> UpdateError (de_text e))"

definition map_snapshot_insert_err :: "db_err \<Rightarrow> repository_error" where
  "map_snapshot_insert_err e = (case contention_err e of Some r \<Rightarrow> r | None \<Rightarrow> InsertError (de_text e))"

definition map_delete_err :: "db_err \<Rightarrow> repository_error" where
  "map_delete_err e = (case contention_err e of Some r \<Rightarrow> r | None \<Rightarrow> DeleteError (de_text e))"

definition find_err :: "db_err \<Rightarrow> repository_error" where
  "find_err e = FindError (de_text e)"

fun credential_error_from :: "repository_error \<Rightarrow> credential_error" where
  "credential_error_from DuplicateEntry = CredentialAlreadyExists"
| "credential_error_from (RepoContention code) = CredentialContention code"
| "credential_error_from other = CredentialBackend (repository_error_text other)"

fun status_list_error_from :: "repository_error \<Rightarrow> status_list_error" where
  "status_list_error_from DuplicateEntry = AlreadyExists"
| "status_list_error_from (RepoContention code) = Contention code"
| "status_list_error_from other = Backend (repository_error_text other)"

section \<open>The connection handle\<close>

record 'c swappable_connection =
  active :: 'c

definition current_connection :: "'c swappable_connection \<Rightarrow> 'c" where
  "current_connection h = active h"

definition swap_connection :: "'c swappable_connection \<Rightarrow> 'c \<Rightarrow> 'c \<times> 'c swappable_connection" where
  "swap_connection h c = (active h, h\<lparr>active := c\<rparr>)"

section \<open>Transactions\<close>

definition begin_read_committed :: "('s, 'jwk) database \<Rightarrow> ('s, nat, db_err) io" where
  "begin_read_committed db =
     dbcall (\<lambda>s. case db_backend db s of
        Postgres \<Rightarrow> db_begin db (Some ReadCommitted) s
      | MySql \<Rightarrow> db_begin db (Some ReadCommitted) s
      | OtherBackend \<Rightarrow> db_begin db None s)"

text \<open>
  The handling of a failed statement inside a transaction: roll back, then report the
  statement's own error; a failed rollback is reported instead, with both texts.
\<close>

definition rollback_with ::
  "('s, 'jwk) database \<Rightarrow> nat \<Rightarrow> (string \<Rightarrow> repository_error) \<Rightarrow> string \<Rightarrow> string \<Rightarrow> db_err \<Rightarrow> repository_error
   \<Rightarrow> ('s, 'a, repository_error) io" where
  "rollback_with db txn wrap what undo stmt_err result =
     ptry (pmap_err (\<lambda>rollback_err.
             wrap (what @ '' failed ('' @ de_text stmt_err @ ''); '' @ undo @ '' also failed: '' @ de_text rollback_err))
             (dbcall (db_rollback db txn))) (\<lambda>_.
       Ret (Err result))"

definition rolling_back :: string where
  "rolling_back = ''rolling the transaction back''"

section \<open>\<open>SeaOrmStore<StatusListRecord>\<close>\<close>

definition sql_insert_one :: "('s, 'jwk) database \<Rightarrow> list_row \<Rightarrow> ('s, unit, repository_error) io" where
  "sql_insert_one db entity =
     ptry (pmap_err map_insert_err (begin_read_committed db)) (\<lambda>txn.
     pbind (dbcall (db_exec db (Some txn) (InsertList entity))) (\<lambda>r. case r of
       Err insert_err \<Rightarrow>
         rollback_with db txn InsertError ''status list insert'' rolling_back insert_err (map_insert_err insert_err)
     | Ok _ \<Rightarrow> pmap_err map_insert_err (dbcall (db_commit db txn))
     | Panic \<Rightarrow> Ret Panic))"

definition sql_insert_one_with_snapshot ::
  "('s, 'jwk) database \<Rightarrow> list_row \<Rightarrow> history_row \<Rightarrow> ('s, unit, repository_error) io" where
  "sql_insert_one_with_snapshot db entity snapshot =
     (if hr_list_id snapshot \<noteq> lr_list_id entity
      then Ret (Err (InsertError (''snapshot list_id ('' @ hr_list_id snapshot
             @ '') does not match entity list_id ('' @ lr_list_id entity @ '')'')))
      else
        ptry (pmap_err map_insert_err (begin_read_committed db)) (\<lambda>txn.
        pbind (dbcall (db_exec db (Some txn) (InsertList entity))) (\<lambda>r. case r of
          Err insert_err \<Rightarrow>
            rollback_with db txn InsertError ''status list insert'' rolling_back insert_err (map_insert_err insert_err)
        | Ok _ \<Rightarrow>
            pbind (dbcall (db_exec db (Some txn) (InsertHistory snapshot))) (\<lambda>r. case r of
              Err insert_err \<Rightarrow>
                rollback_with db txn InsertError ''history snapshot insert''
                  ''rolling back the status list insert'' insert_err (map_snapshot_insert_err insert_err)
            | Ok _ \<Rightarrow> pmap_err map_insert_err (dbcall (db_commit db txn))
            | Panic \<Rightarrow> Ret Panic)
        | Panic \<Rightarrow> Ret Panic)))"

definition sql_find_one_by :: "('s, 'jwk) database \<Rightarrow> string \<Rightarrow> ('s, list_row option, repository_error) io" where
  "sql_find_one_by db v = pmap_err find_err (dbcall (db_find_list db v))"

definition sql_find_all_by :: "('s, 'jwk) database \<Rightarrow> string \<Rightarrow> ('s, list_row list, repository_error) io" where
  "sql_find_all_by db issuer = pmap_err find_err (dbcall (db_select_lists db (IssuerEq issuer)))"

text \<open>The refusal of a stamp that does not advance.\<close>

definition stale_stamp_error :: "int \<Rightarrow> int \<Rightarrow> repository_error" where
  "stale_stamp_error new expected =
     UpdateError (''guarded update requires a strictly newer updated_at (new='' @ show_int new
       @ '', expected-guard='' @ show_int expected
       @ ''); a non-advancing stamp would silently reintroduce the same-second lost update'')"

definition sql_update_one ::
  "('s, 'jwk) database \<Rightarrow> string \<Rightarrow> list_row \<Rightarrow> int \<Rightarrow> ('s, bool, repository_error) io" where
  "sql_update_one db list_id entity expected_updated_at =
     (if lr_updated_at entity \<le> expected_updated_at
      then Ret (Err (stale_stamp_error (lr_updated_at entity) expected_updated_at))
      else
        ptry (pmap_err map_update_err (begin_read_committed db)) (\<lambda>txn.
        pbind (dbcall (db_exec db (Some txn) (GuardedUpdate list_id entity expected_updated_at))) (\<lambda>r. case r of
          Err update_err \<Rightarrow>
            rollback_with db txn UpdateError ''guarded update'' rolling_back update_err (map_update_err update_err)
        | Ok rows_affected \<Rightarrow>
            ptry (pmap_err map_update_err (dbcall (db_commit db txn))) (\<lambda>_. Ret (Ok (0 < rows_affected)))
        | Panic \<Rightarrow> Ret Panic)))"

definition sql_update_one_with_snapshot ::
  "('s, 'jwk) database \<Rightarrow> string \<Rightarrow> list_row \<Rightarrow> int \<Rightarrow> history_row \<Rightarrow> ('s, bool, repository_error) io" where
  "sql_update_one_with_snapshot db list_id entity expected_updated_at snapshot =
     (if hr_list_id snapshot \<noteq> list_id \<or> lr_list_id entity \<noteq> list_id
      then Ret (Err (UpdateError (''snapshot list_id ('' @ hr_list_id snapshot @ '') or entity list_id (''
             @ lr_list_id entity @ '') does not match list_id ('' @ list_id @ '')'')))
      else if lr_updated_at entity \<le> expected_updated_at
      then Ret (Err (stale_stamp_error (lr_updated_at entity) expected_updated_at))
      else
        ptry (pmap_err map_update_err (begin_read_committed db)) (\<lambda>txn.
        pbind (dbcall (db_exec db (Some txn) (GuardedUpdate list_id entity expected_updated_at))) (\<lambda>r. case r of
          Err update_err \<Rightarrow>
            rollback_with db txn UpdateError ''guarded update'' rolling_back update_err (map_update_err update_err)
        | Ok rows_affected \<Rightarrow>
            if rows_affected = 0
            then pbind (dbcall (db_rollback db txn)) (\<lambda>r. case r of Panic \<Rightarrow> Ret Panic | _ \<Rightarrow> Ret (Ok False))
            else
              pbind (dbcall (db_exec db (Some txn) (InsertHistory snapshot))) (\<lambda>r. case r of
                Err insert_err \<Rightarrow>
                  rollback_with db txn InsertError ''history snapshot insert''
                    ''rolling back the row update'' insert_err (map_snapshot_insert_err insert_err)
              | Ok _ \<Rightarrow> ptry (pmap_err map_update_err (dbcall (db_commit db txn))) (\<lambda>_. Ret (Ok True))
              | Panic \<Rightarrow> Ret Panic)
        | Panic \<Rightarrow> Ret Panic)))"

definition sql_delete_by :: "('s, 'jwk) database \<Rightarrow> string \<Rightarrow> ('s, bool, repository_error) io" where
  "sql_delete_by db v =
     ptry (pmap_err map_delete_err (dbcall (db_exec db None (DeleteListById v)))) (\<lambda>rows_affected.
       Ret (Ok (0 < rows_affected)))"

definition sql_find_by_issuer :: "('s, 'jwk) database \<Rightarrow> string \<Rightarrow> ('s, list_row list, repository_error) io" where
  "sql_find_by_issuer db issuer = pmap_err find_err (dbcall (db_select_lists db (SubEq issuer)))"

definition sql_find_all :: "('s, 'jwk) database \<Rightarrow> ('s, list_row list, repository_error) io" where
  "sql_find_all db = pmap_err find_err (dbcall (db_select_lists db NoFilter))"

definition sql_find_all_status_list_uris :: "('s, 'jwk) database \<Rightarrow> ('s, string list, repository_error) io" where
  "sql_find_all_status_list_uris db = pmap_err find_err (dbcall (db_select_subs db))"

section \<open>\<open>SeaOrmStore<StatusListHistoryRecord>\<close>\<close>

definition sql_history_insert_one :: "('s, 'jwk) database \<Rightarrow> history_row \<Rightarrow> ('s, unit, repository_error) io" where
  "sql_history_insert_one db entity =
     ptry (pmap_err map_snapshot_insert_err (dbcall (db_exec db None (InsertHistory entity)))) (\<lambda>_. Ret (Ok ()))"

definition sql_find_valid_at ::
  "('s, 'jwk) database \<Rightarrow> string \<Rightarrow> int \<Rightarrow> ('s, history_row option, repository_error) io" where
  "sql_find_valid_at db list_id t = pmap_err find_err (dbcall (db_select_history db list_id t))"

definition BATCH_SIZE :: nat where "BATCH_SIZE = 500"

definition delete_sql :: "database_backend \<Rightarrow> string" where
  "delete_sql backend =
     (case backend of
        Postgres \<Rightarrow> ''DELETE FROM status_list_history WHERE snapshot_id IN ''
          @ ''(SELECT snapshot_id FROM status_list_history WHERE exp < $1 LIMIT $2)''
      | MySql \<Rightarrow> ''DELETE FROM status_list_history WHERE exp < ? LIMIT ?''
      | OtherBackend \<Rightarrow> ''DELETE FROM status_list_history WHERE snapshot_id IN ''
          @ ''(SELECT snapshot_id FROM status_list_history WHERE exp < ? LIMIT ?)'')"

text \<open>
  The batch loop, with at most \<open>fuel\<close> statements; running out of fuel is the value
  \<open>Panic\<close>. \<open>rows\<close> bounds the number of rows the history table has when the loop starts;
  a batch that removes a full \<open>BATCH_SIZE\<close> rows leaves fewer, so \<open>rows + 1\<close> statements
  are enough.
\<close>

fun delete_batches ::
  "('s, 'jwk) database \<Rightarrow> nat \<Rightarrow> int \<Rightarrow> nat \<Rightarrow> ('s, nat, repository_error) io" where
  "delete_batches db 0 cutoff total_deleted = Ret Panic"
| "delete_batches db (Suc fuel) cutoff total_deleted =
     ptry (pmap_err map_delete_err
             (dbcall (\<lambda>s. db_exec db None (DeleteExpired (delete_sql (db_backend db s)) cutoff BATCH_SIZE) s)))
       (\<lambda>count.
         if count < BATCH_SIZE then Ret (Ok (total_deleted + count))
         else delete_batches db fuel cutoff (total_deleted + count))"

definition sql_delete_older_than ::
  "('s, 'jwk) database \<Rightarrow> ('s \<Rightarrow> nat) \<Rightarrow> int \<Rightarrow> ('s, nat, repository_error) io" where
  "sql_delete_older_than db rows cutoff =
     Step (\<lambda>s. (delete_batches db (Suc (rows s)) cutoff 0, s))"

section \<open>\<open>SeaOrmStore<Credentials>\<close>\<close>

definition sql_credential_insert_one ::
  "('s, 'jwk) database \<Rightarrow> 'jwk credentials_row \<Rightarrow> ('s, unit, repository_error) io" where
  "sql_credential_insert_one db entity =
     ptry (pmap_err map_insert_err (begin_read_committed db)) (\<lambda>txn.
     pbind (dbcall (db_exec db (Some txn) (InsertCredential entity))) (\<lambda>r. case r of
       Err insert_err \<Rightarrow>
         rollback_with db txn InsertError ''credential insert'' rolling_back insert_err (map_insert_err insert_err)
     | Ok _ \<Rightarrow> pmap_err map_insert_err (dbcall (db_commit db txn))
     | Panic \<Rightarrow> Ret Panic))"

definition sql_credential_find_one_by ::
  "('s, 'jwk) database \<Rightarrow> string \<Rightarrow> ('s, 'jwk credentials_row option, repository_error) io" where
  "sql_credential_find_one_by db v = pmap_err find_err (dbcall (db_find_credential db v))"

definition sql_credential_update_one ::
  "('s, 'jwk) database \<Rightarrow> string \<Rightarrow> 'jwk credentials_row \<Rightarrow> ('s, bool, repository_error) io" where
  "sql_credential_update_one db issuer entity =
     ptry (pmap_err find_err (dbcall (db_find_credential db issuer))) (\<lambda>existing.
       if existing = None then Ret (Ok False)
       else ptry (pmap_err map_update_err (dbcall (db_exec db None (UpdateCredential entity)))) (\<lambda>_.
         Ret (Ok True)))"

definition sql_credential_delete_by :: "('s, 'jwk) database \<Rightarrow> string \<Rightarrow> ('s, bool, repository_error) io" where
  "sql_credential_delete_by db v =
     ptry (pmap_err map_delete_err (dbcall (db_exec db None (DeleteCredentialById v)))) (\<lambda>rows_affected.
       Ret (Ok (0 < rows_affected)))"

section \<open>The adapters\<close>

definition sql_status_list_repo :: "('s, 'jwk) database \<Rightarrow> 's status_list_repo" where
  "sql_status_list_repo db =
     \<lparr>repo_find = (\<lambda>list_id.
        pbind (sql_find_one_by db list_id) (\<lambda>r.
          Ret (map_err status_list_error_from (omap (map_option record_of_row) r)))),
      repo_insert = (\<lambda>record. pmap_err status_list_error_from (sql_insert_one db (row_of_record record))),
      repo_update = (\<lambda>record expected_updated_at.
        pmap_err status_list_error_from
          (sql_update_one db (slr_list_id record) (row_of_record record) expected_updated_at)),
      repo_update_with_snapshot = (\<lambda>record expected_updated_at snapshot.
        pmap_err status_list_error_from
          (sql_update_one_with_snapshot db (slr_list_id record) (row_of_record record)
             expected_updated_at (row_of_snapshot snapshot))),
      repo_insert_with_snapshot = (\<lambda>record snapshot.
        pmap_err status_list_error_from
          (sql_insert_one_with_snapshot db (row_of_record record) (row_of_snapshot snapshot))),
      repo_list_uris = pmap_err status_list_error_from (sql_find_all_status_list_uris db)\<rparr>"

definition sql_snapshot_repo :: "('s, 'jwk) database \<Rightarrow> ('s \<Rightarrow> nat) \<Rightarrow> 's snapshot_repo" where
  "sql_snapshot_repo db rows =
     \<lparr>snap_insert = (\<lambda>record.
        pmap_err status_list_error_from (sql_history_insert_one db (row_of_snapshot record))),
      snap_find_valid_at = (\<lambda>list_id t.
        pbind (sql_find_valid_at db list_id t) (\<lambda>r.
          Ret (map_err status_list_error_from (omap (map_option snapshot_of_row) r)))),
      snap_delete_older_than = (\<lambda>cutoff.
        pmap_err status_list_error_from (sql_delete_older_than db rows cutoff))\<rparr>"

text \<open>
  The credential adapter keeps the key as a parsed \<open>Jwk\<close>. The record holds the JSON calls of
  \<open>serde_json\<close> it makes: from and to the bytes of a \<open>Jwk\<close>, and the parse of \<open>PublicJwk\<close>.
\<close>

record ('jwk, 'json) jwk_json =
  jwk_from_slice :: "u8 list \<Rightarrow> string + 'jwk"
  jwk_to_vec :: "'jwk \<Rightarrow> string + u8 list"
  value_from_slice :: "u8 list \<Rightarrow> string + 'json"
  value_is_object :: "'json \<Rightarrow> bool"

definition sql_credential_repo :: "('jwk, 'json) jwk_json \<Rightarrow> ('s, 'jwk) database \<Rightarrow> 's credential_repo" where
  "sql_credential_repo jx db =
     \<lparr>cred_find = (\<lambda>issuer.
        ptry (pmap_err credential_error_from (sql_credential_find_one_by db issuer)) (\<lambda>found.
          case found of
            None \<Rightarrow> Ret (Ok None)
          | Some record \<Rightarrow>
              Ret (obind (map_err (\<lambda>e. InvalidPublicJwk (''serialization failed: '' @ e))
                            (from_sum (jwk_to_vec jx (cw_public_key record)))) (\<lambda>public_key_bytes.
                   obind (public_jwk_try_new (value_from_slice jx) (value_is_object jx) public_key_bytes) (\<lambda>public_key.
                     Ok (Some \<lparr>cr_issuer = cw_issuer record, cr_public_key = public_key\<rparr>)))))),
      cred_insert = (\<lambda>credential.
        ptry (Ret (map_err (\<lambda>e. InvalidPublicJwk (''parse failed: '' @ e))
                     (from_sum (jwk_from_slice jx (cr_public_key credential))))) (\<lambda>public_key.
          pmap_err credential_error_from
            (sql_credential_insert_one db \<lparr>cw_issuer = cr_issuer credential, cw_public_key = public_key\<rparr>)))\<rparr>"

end
