(* ===== verification/File_Watcher.thy ===== *)
theory File_Watcher
  imports Prelude "HOL-Library.Sublist"
begin

text \<open>
  Model of \<open>src/src/utils/file_watcher.rs\<close>: which file system events concern the watched
  secrets, and the debouncing task that runs a reload when their content has changed. The tasks
  are a step relation: the files change at any moment, the operating system reports a change
  some time later, and the debouncer works through its channel. Digests are a parameter.
\<close>

section \<open>Paths and events\<close>

text \<open>A path is whether it is absolute, with its components.\<close>

type_synonym path = "bool \<times> string list"

definition path_parent :: "path \<Rightarrow> path option" where
  "path_parent p = (if snd p = [] then None else Some (fst p, butlast (snd p)))"

definition path_file_name :: "path \<Rightarrow> string option" where
  "path_file_name p = (if snd p = [] \<or> last (snd p) = ''..'' then None else Some (last (snd p)))"

definition path_starts_with :: "path \<Rightarrow> path \<Rightarrow> bool" where
  "path_starts_with p base \<longleftrightarrow> fst p = fst base \<and> prefix (snd base) (snd p)"

definition path_join :: "path \<Rightarrow> path \<Rightarrow> path" where
  "path_join base p = (if fst p then p else (fst base, snd base @ snd p))"

text \<open>The first occurrences, in order: a filter on \<open>HashSet::insert\<close>.\<close>

fun keep_new :: "'a list \<Rightarrow> 'a list \<Rightarrow> 'a list" where
  "keep_new seen [] = []"
| "keep_new seen (x # xs) = (if x \<in> set seen then keep_new seen xs else x # keep_new (x # seen) xs)"

record file_watcher =
  fw_paths :: "path list"
  fw_poll_interval :: nat

text \<open>Durations are milliseconds.\<close>

definition DEBOUNCE :: nat where "DEBOUNCE = 500"
definition MIN_POLL_INTERVAL :: nat where "MIN_POLL_INTERVAL = 1000"

definition file_watcher_new :: "path \<Rightarrow> path list \<Rightarrow> nat \<Rightarrow> file_watcher" where
  "file_watcher_new cwd paths poll_interval =
     \<lparr>fw_paths = keep_new [] (map (\<lambda>p. if fst p then p else path_join cwd p) paths),
      fw_poll_interval = (if poll_interval < MIN_POLL_INTERVAL then MIN_POLL_INTERVAL else poll_interval)\<rparr>"

definition watch_roots :: "path list \<Rightarrow> path list" where
  "watch_roots paths =
     keep_new [] (concat (map (\<lambda>p. case path_parent p of Some d \<Rightarrow> [p, d] | None \<Rightarrow> [p]) paths))"

definition path_relevant :: "path \<Rightarrow> path \<Rightarrow> bool" where
  "path_relevant changed watched \<longleftrightarrow>
     changed = watched \<or> path_starts_with changed watched \<or> path_starts_with watched changed
     \<or> path_file_name changed = Some ''..data'' \<and> path_parent changed = path_parent watched"

definition event_matches :: "path list \<Rightarrow> path list \<Rightarrow> bool" where
  "event_matches event_paths watched_paths \<longleftrightarrow>
     list_ex (\<lambda>changed. list_ex (path_relevant changed) watched_paths) event_paths"

datatype modify_kind = ModifyAny | ModifyData | ModifyMetadata | ModifyName | ModifyOther

datatype event_kind = EventAny | EventAccess | EventCreate | EventModify modify_kind | EventRemove | EventOther

fun is_content_change :: "event_kind \<Rightarrow> bool" where
  "is_content_change EventCreate = True"
| "is_content_change EventRemove = True"
| "is_content_change (EventModify ModifyData) = True"
| "is_content_change (EventModify ModifyName) = True"
| "is_content_change (EventModify ModifyAny) = True"
| "is_content_change _ = False"

text \<open>An event of the operating system reaches the channel if it passes both filters.\<close>

definition forwards :: "path list \<Rightarrow> event_kind \<Rightarrow> path list \<Rightarrow> bool" where
  "forwards watched kind event_paths \<longleftrightarrow> is_content_change kind \<and> event_matches event_paths watched"

text \<open>\<open>read\<close> reads a file if it can, \<open>digest\<close> is the hash function.\<close>

definition fingerprint :: "('b \<Rightarrow> 'd) \<Rightarrow> (path \<Rightarrow> 'b option) \<Rightarrow> path \<Rightarrow> 'd option" where
  "fingerprint digest read p = map_option digest (read p)"

definition fingerprint_all :: "('b \<Rightarrow> 'd) \<Rightarrow> (path \<Rightarrow> 'b option) \<Rightarrow> path list \<Rightarrow> 'd option list" where
  "fingerprint_all digest read paths = map (fingerprint digest read) paths"

text \<open>
  One tick of the polling task, which stands in where the operating system cannot watch: the
  fingerprints it keeps from now on, and whether it sends a message.
\<close>

definition poll_tick :: "'d option list \<Rightarrow> 'd option list \<Rightarrow> 'd option list \<times> bool" where
  "poll_tick fingerprints next_fp = (if next_fp \<noteq> fingerprints then (next_fp, True) else (fingerprints, False))"

section \<open>The tasks\<close>

text \<open>
  The content of the file system comes in versions, numbered by time. \<open>w_unreported\<close> says
  that the content has changed since the operating system last reported; \<open>w_queue\<close> counts the
  messages in the channel, whose capacity is 32. \<open>w_loaded\<close> is the version the last reload
  read, at first the one read by the start-up. The debouncer's task first takes its baseline
  (\<open>Starting\<close>), then waits for a message, swallows the messages of the following half second,
  compares fingerprints, and runs the reload, which reads the files on its own.
\<close>

datatype debouncer_phase = Starting | Waiting | Debouncing | Dispatching

record 'd watcher =
  w_version :: nat
  w_unreported :: bool
  w_queue :: nat
  w_phase :: debouncer_phase
  w_last :: "'d option list"
  w_loaded :: nat

definition CHANNEL_CAPACITY :: nat where "CHANNEL_CAPACITY = 32"

text \<open>\<open>fp v\<close> are the fingerprints of version \<open>v\<close>.\<close>

definition debounce_baseline :: "(nat \<Rightarrow> 'd option list) \<Rightarrow> 'd watcher \<Rightarrow> 'd watcher" where
  "debounce_baseline fp w = w\<lparr>w_phase := Waiting, w_last := fp (w_version w)\<rparr>"

definition debounce_recv :: "'d watcher \<Rightarrow> 'd watcher" where
  "debounce_recv w = w\<lparr>w_queue := w_queue w - 1, w_phase := Debouncing\<rparr>"

definition debounce_timeout :: "(nat \<Rightarrow> 'd option list) \<Rightarrow> 'd watcher \<Rightarrow> 'd watcher" where
  "debounce_timeout fp w =
     (let current = fp (w_version w)
      in if current = w_last w then w\<lparr>w_phase := Waiting\<rparr>
         else w\<lparr>w_last := current, w_phase := Dispatching\<rparr>)"

definition debounce_dispatch :: "'d watcher \<Rightarrow> 'd watcher" where
  "debounce_dispatch w = w\<lparr>w_loaded := w_version w, w_phase := Waiting\<rparr>"

definition notify_send :: "'d watcher \<Rightarrow> 'd watcher" where
  "notify_send w = w\<lparr>w_queue := w_queue w + 1, w_unreported := False\<rparr>"

text \<open>The steps of the watcher itself, and those of the world around it.\<close>

inductive work :: "(nat \<Rightarrow> 'd option list) \<Rightarrow> 'd watcher \<Rightarrow> 'd watcher \<Rightarrow> bool" for fp where
  baseline: "w_phase w = Starting \<Longrightarrow> work fp w (debounce_baseline fp w)"
| report: "w_unreported w \<Longrightarrow> w_queue w < CHANNEL_CAPACITY \<Longrightarrow> work fp w (notify_send w)"
| recv: "w_phase w = Waiting \<Longrightarrow> 0 < w_queue w \<Longrightarrow> work fp w (debounce_recv w)"
| drain: "w_phase w = Debouncing \<Longrightarrow> 0 < w_queue w \<Longrightarrow> work fp w (debounce_recv w)"
| timeout: "w_phase w = Debouncing \<Longrightarrow> w_queue w = 0 \<Longrightarrow> work fp w (debounce_timeout fp w)"
| dispatch: "w_phase w = Dispatching \<Longrightarrow> work fp w (debounce_dispatch w)"

inductive world :: "'d watcher \<Rightarrow> 'd watcher \<Rightarrow> bool" where
  change: "world w (w\<lparr>w_version := Suc (w_version w), w_unreported := True\<rparr>)"
| spurious: "w_queue w < CHANNEL_CAPACITY \<Longrightarrow> world w (w\<lparr>w_queue := w_queue w + 1\<rparr>)"

text \<open>A watcher whose start-up has read version \<open>v\<close> and whose task has not run yet.\<close>

definition started :: "nat \<Rightarrow> 'd watcher" where
  "started v = \<lparr>w_version = v, w_unreported = False, w_queue = 0, w_phase = Starting, w_last = [], w_loaded = v\<rparr>"

inductive reachable :: "(nat \<Rightarrow> 'd option list) \<Rightarrow> 'd watcher \<Rightarrow> 'd watcher \<Rightarrow> bool" for fp w0 where
  initial: "reachable fp w0 w0"
| working: "reachable fp w0 w \<Longrightarrow> work fp w w' \<Longrightarrow> reachable fp w0 w'"
| changing: "reachable fp w0 w \<Longrightarrow> world w w' \<Longrightarrow> reachable fp w0 w'"

definition quiescent :: "'d watcher \<Rightarrow> bool" where
  "quiescent w \<longleftrightarrow> w_phase w = Waiting \<and> w_queue w = 0 \<and> \<not> w_unreported w"

section \<open>Every change is loaded in the end\<close>

text \<open>
  The invariant: the debouncer's fingerprints are those of some version between the loaded one
  and the current one; an older version than the current one is always still to be noticed.
\<close>

definition noticed :: "(nat \<Rightarrow> 'd option list) \<Rightarrow> 'd watcher \<Rightarrow> bool" where
  "noticed fp w \<longleftrightarrow> w_phase w \<noteq> Starting \<and>
     (\<exists>v. w_last w = fp v \<and> v \<le> w_version w
        \<and> (w_phase w = Dispatching \<or> v \<le> w_loaded w) \<and> w_loaded w \<le> w_version w
        \<and> (v < w_version w \<longrightarrow> w_unreported w \<or> 0 < w_queue w \<or> w_phase w = Debouncing))"

lemma noticed_baseline: "w_phase w = Starting \<Longrightarrow> w_loaded w = w_version w \<Longrightarrow> noticed fp (debounce_baseline fp w)"
  by (auto simp: noticed_def debounce_baseline_def)

lemma noticed_work:
  assumes "work fp w w'" and "noticed fp w" and "inj fp"
  shows "noticed fp w'"
  using assms(1)
proof cases
  case timeout
  obtain v where v: "w_last w = fp v" "v \<le> w_version w" "v \<le> w_loaded w" "w_loaded w \<le> w_version w"
    using assms(2) timeout by (auto simp: noticed_def)
  show ?thesis
  proof (cases "v = w_version w")
    case True
    then show ?thesis using timeout v by (auto simp: noticed_def debounce_timeout_def)
  next
    case False
    then have "fp (w_version w) \<noteq> w_last w" using v(1) assms(3) by (auto dest: injD)
    then show ?thesis using timeout v by (auto simp: noticed_def debounce_timeout_def)
  qed
next
  case dispatch
  then show ?thesis using assms(2) by (auto simp: noticed_def debounce_dispatch_def)
qed (use assms(2) in \<open>auto simp: noticed_def debounce_baseline_def notify_send_def debounce_recv_def\<close>)

lemma noticed_world:
  assumes "world w w'" and "noticed fp w"
  shows "noticed fp w'"
  using assms(1)
proof cases
  case change
  then show ?thesis using assms(2) by (auto simp: noticed_def intro: le_SucI)
next
  case spurious
  then show ?thesis using assms(2) by (auto simp: noticed_def)
qed

lemma noticed_reachable: "reachable fp w0 w \<Longrightarrow> noticed fp w0 \<Longrightarrow> inj fp \<Longrightarrow> noticed fp w"
  by (induction rule: reachable.induct) (auto intro: noticed_work noticed_world)

lemma noticed_quiescent:
  assumes "noticed fp w" and "quiescent w"
  shows "w_loaded w = w_version w"
  using assms by (auto simp: noticed_def quiescent_def)

text \<open>The work left until the watcher rests: it shrinks with each of its steps.\<close>

fun phase_work :: "debouncer_phase \<Rightarrow> nat" where
  "phase_work Starting = 1"
| "phase_work Waiting = 0"
| "phase_work Debouncing = 2"
| "phase_work Dispatching = 1"

definition work_left :: "'d watcher \<Rightarrow> nat" where
  "work_left w = (if w_unreported w then 4 else 0) + 3 * w_queue w + phase_work (w_phase w)"

lemma work_decreases: "work fp w w' \<Longrightarrow> work_left w' < work_left w"
  by (induction rule: work.induct)
    (auto simp: work_left_def debounce_baseline_def notify_send_def debounce_recv_def debounce_timeout_def
      debounce_dispatch_def Let_def)

lemma work_enabled:
  assumes "\<not> quiescent w"
  shows "\<exists>w'. work fp w w'"
proof (cases "w_phase w")
  case Waiting
  then show ?thesis
    using assms work.recv [of w fp] work.report [of w fp] by (cases "w_queue w") (auto simp: quiescent_def CHANNEL_CAPACITY_def)
next
  case Debouncing
  then show ?thesis using work.drain [of w fp] work.timeout [of w fp] by (cases "w_queue w") auto
qed (auto intro: work.intros)

lemma work_steps_bounded: "(work fp ^^ n) w w' \<Longrightarrow> n + work_left w' \<le> work_left w"
proof (induction n arbitrary: w')
  case (Suc n)
  then obtain v where "(work fp ^^ n) w v" "work fp v w'" by auto
  then show ?case using Suc.IH [of v] work_decreases [of fp v w'] by simp
qed simp


definition sample_fp :: "nat \<Rightarrow> nat option list" where
  "sample_fp v = [Some v]"


text \<open>
  The proviso on the baseline matters: the start-up reads the files before the task takes its
  baseline, and a change in between is reported but then taken for no change. The watcher comes
  to rest with the old secret loaded.
\<close>

theorem change_before_baseline_is_missed:
  "\<exists>w. reachable fp (started 0) w \<and> quiescent w \<and> w_loaded w = 0 \<and> w_version w = 1"
proof -
  let ?w1 = "(started 0 :: 'a watcher)\<lparr>w_version := Suc 0, w_unreported := True\<rparr>"
  let ?w2 = "debounce_baseline fp ?w1"
  let ?w3 = "notify_send ?w2"
  let ?w4 = "debounce_recv ?w3"
  let ?w5 = "debounce_timeout fp ?w4"
  have "reachable fp (started 0) ?w1"
    using reachable.changing [OF reachable.initial world.change, of fp "started 0"] by (simp add: started_def)
  moreover have "work fp ?w1 ?w2" by (rule work.baseline) (simp add: started_def)
  moreover have "work fp ?w2 ?w3"
    by (rule work.report) (simp_all add: started_def debounce_baseline_def CHANNEL_CAPACITY_def)
  moreover have "work fp ?w3 ?w4"
    by (rule work.recv) (simp_all add: started_def debounce_baseline_def notify_send_def)
  moreover have "work fp ?w4 ?w5"
    by (rule work.timeout) (simp_all add: started_def debounce_baseline_def notify_send_def debounce_recv_def)
  ultimately have "reachable fp (started 0) ?w5" by (meson reachable.working)
  moreover have "quiescent ?w5" "w_loaded ?w5 = 0" "w_version ?w5 = 1"
    by (simp_all add: quiescent_def started_def debounce_baseline_def notify_send_def debounce_recv_def debounce_timeout_def)
  ultimately show ?thesis by blast
qed

end
