(* ===== verification/Setup.thy ===== *)
theory Setup
  imports Config Router Certificates Sql_Store File_Watcher
begin

text \<open>
  Model of the composition root \<open>src/src/setup.rs\<close> and of the cache adapter
  \<open>src/src/outbound/cache.rs\<close>: opening and rotating the database pool, the choice of the
  certificate source, the assembly of the service and of the application state, and the snapshot
  clean-up job. The database driver and the \<open>moka\<close> cache are parameters; tracing and metrics
  are left out.
\<close>

section \<open>The database pool\<close>

datatype connect_error =
    ConnectionAcquire | Conn | Exec | Query | TryIntoErr | ConvertFromU64 | UnpackInsertId | UpdateGetPrimaryKey
  | RecordNotFound | AttrNotSet | Custom | TypeError | JsonError | MigrationError | RecordNotInserted | RecordNotUpdated

fun classify_db_connect_error :: "connect_error \<Rightarrow> string" where
  "classify_db_connect_error ConnectionAcquire = ''connection_acquire''"
| "classify_db_connect_error Conn = ''connection''"
| "classify_db_connect_error Exec = ''execution''"
| "classify_db_connect_error Query = ''query''"
| "classify_db_connect_error TryIntoErr = ''conversion''"
| "classify_db_connect_error ConvertFromU64 = ''conversion''"
| "classify_db_connect_error UnpackInsertId = ''last_insert_id''"
| "classify_db_connect_error UpdateGetPrimaryKey = ''missing_primary_key''"
| "classify_db_connect_error RecordNotFound = ''record_not_found''"
| "classify_db_connect_error AttrNotSet = ''attribute_not_set''"
| "classify_db_connect_error Custom = ''custom''"
| "classify_db_connect_error TypeError = ''type''"
| "classify_db_connect_error JsonError = ''json''"
| "classify_db_connect_error MigrationError = ''migration''"
| "classify_db_connect_error RecordNotInserted = ''record_not_inserted''"
| "classify_db_connect_error RecordNotUpdated = ''record_not_updated''"

text \<open>The options of the pool; \<open>None\<close> leaves the driver's default. Times are seconds.\<close>

record connect_options =
  co_url :: string
  co_max_connections :: "nat option"
  co_min_connections :: "nat option"
  co_acquire_timeout :: "nat option"
  co_connect_timeout :: "nat option"
  co_idle_timeout :: "nat option"
  co_max_lifetime :: "nat option"

definition connect_options_new :: "string \<Rightarrow> connect_options" where
  "connect_options_new url =
     \<lparr>co_url = url, co_max_connections = None, co_min_connections = None, co_acquire_timeout = None,
      co_connect_timeout = None, co_idle_timeout = None, co_max_lifetime = None\<rparr>"

definition pool_options :: "database_config \<Rightarrow> string \<Rightarrow> connect_options" where
  "pool_options cfg url =
     (let opt = connect_options_new url; pool = db_pool cfg in
      if db_kind cfg = Sqlite \<or> db_kind cfg = Memory then opt\<lparr>co_max_connections := Some 1\<rparr>
      else opt\<lparr>co_max_connections := Some (dp_max_connections pool), co_min_connections := Some (dp_min_connections pool),
               co_acquire_timeout := Some (dp_acquire_timeout_secs pool),
               co_connect_timeout := Some (dp_connect_timeout_secs pool),
               co_idle_timeout := Some (dp_idle_timeout_secs pool), co_max_lifetime := Some (dp_max_lifetime_secs pool)\<rparr>)"

text \<open>
  The result is an error report: the context on top of the cause. \<open>connect\<close> opens a pool.
\<close>

definition connect_database_pool ::
  "(string \<Rightarrow> string list) \<Rightarrow> (string \<Rightarrow> string + string) \<Rightarrow> (connect_options \<Rightarrow> connect_error + 'conn)
   \<Rightarrow> database_config \<Rightarrow> ('conn, string list) outcome" where
  "connect_database_pool form_keys read_to_string connect cfg =
     obind (map_err (\<lambda>e. [''Invalid database connection configuration'', e])
              (load_resolved_url form_keys read_to_string cfg)) (\<lambda>url.
       if \<not> validate_url_scheme (db_kind cfg) url
       then Err [''URL scheme does not match configured backend '' @ quoted (as_str (db_kind cfg))
              @ ''. Expected URL starting with '' @ expected_scheme_description (db_kind cfg)]
       else map_err (\<lambda>err. [''Failed to connect to database (kind='' @ classify_db_connect_error err @ '', ''
                         @ redacted_target cfg @ '')''])
              (from_sum (connect (pool_options cfg url))))"

text \<open>
  The callback of the database rotation: the connection handle afterwards, and whether its pool
  was replaced. The previous pool is closed once nobody uses it any more.
\<close>

definition rotate_database ::
  "(string \<Rightarrow> string list) \<Rightarrow> (string \<Rightarrow> string + string) \<Rightarrow> (connect_options \<Rightarrow> connect_error + 'conn)
   \<Rightarrow> ('conn \<Rightarrow> connect_error + unit) \<Rightarrow> database_config \<Rightarrow> 'conn swappable_connection
   \<Rightarrow> 'conn swappable_connection \<times> bool" where
  "rotate_database form_keys read_to_string connect ping cfg db =
     (case connect_database_pool form_keys read_to_string connect cfg of
        Ok new_db \<Rightarrow>
          (case ping new_db of
             Inl err \<Rightarrow> (db, False)
           | Inr _ \<Rightarrow> (snd (swap_connection db new_db), True))
      | _ \<Rightarrow> (db, False))"

section \<open>The certificate source\<close>

datatype cert_source = FromFiles string string | FromValues string string

definition select_cert_source :: "cert_store_config \<Rightarrow> (cert_source, string) outcome" where
  "select_cert_source store =
     (let cert_path = non_empty (cs_certificate_path store); key_path = non_empty (cs_signing_key_path store);
          cert_inline = non_empty (cs_certificate store); key_inline = non_empty (cs_signing_key store);
          has_fs = (cert_path \<noteq> None \<or> key_path \<noteq> None); has_inline = (cert_inline \<noteq> None \<or> key_inline \<noteq> None)
      in case (cert_path, key_path, cert_inline, key_inline) of
           (Some cp, Some kp, None, None) \<Rightarrow> Ok (FromFiles cp kp)
         | (None, None, Some ci, Some ki) \<Rightarrow> Ok (FromValues ci ki)
         | _ \<Rightarrow>
             if has_fs \<and> has_inline
             then Err (''certificate and signing key must both come from the same source; ''
                    @ ''do not mix filesystem paths with inline (env var) values'')
             else Err (''static certificate mode requires both certificate and signing key; ''
                    @ ''set APP_SERVER__CERT__STORE__CERTIFICATE_PATH + APP_SERVER__CERT__STORE__SIGNING_KEY_PATH ''
                    @ ''(filesystem) OR APP_SERVER__CERT__STORE__CERTIFICATE + APP_SERVER__CERT__STORE__SIGNING_KEY ''
                    @ ''(inline PEM)''))"

definition initial_signing_material ::
  "('sk, 'ek) crypto \<Rightarrow> 'sk x509_lib \<Rightarrow> (string \<Rightarrow> string + string) \<Rightarrow> cert_store_config
   \<Rightarrow> (signing_material, string) outcome" where
  "initial_signing_material cr xl read_to_string store =
     obind (select_cert_source store) (\<lambda>source.
       map_err sl_error_text
         (case source of
            FromFiles cert_path key_path \<Rightarrow> provider_from_files cr xl read_to_string cert_path key_path
          | FromValues cert key \<Rightarrow> inline_provider_new cr xl cert key))"

section \<open>The cache adapter\<close>

text \<open>What the \<open>moka\<close> cache offers: it may forget entries at any call.\<close>

record 's moka =
  mk_get :: "string \<Rightarrow> 's \<Rightarrow> status_list_record option \<times> 's"
  mk_insert :: "string \<Rightarrow> status_list_record \<Rightarrow> 's \<Rightarrow> 's"
  mk_invalidate :: "string \<Rightarrow> 's \<Rightarrow> 's"

definition moka_cache :: "'s moka \<Rightarrow> 's status_list_cache" where
  "moka_cache inner =
     \<lparr>cache_get = (\<lambda>key. call (\<lambda>s. let (cached, s') = mk_get inner key s in (Ok cached, s'))),
      cache_put = (\<lambda>record. call (\<lambda>s. (Ok (), mk_insert inner (slr_list_id record) record s))),
      cache_invalidate = (\<lambda>key. call (\<lambda>s. (Ok (), mk_invalidate inner key s)))\<rparr>"

section \<open>The application state\<close>

definition build_service ::
  "app_config \<Rightarrow> 's status_list_repo \<Rightarrow> 's credential_repo \<Rightarrow> 's status_list_cache \<Rightarrow> 's snapshot_repo
   \<Rightarrow> 's certificate_provider \<Rightarrow> 's service" where
  "build_service config status_list_repo credential_repo status_list_cache status_list_snapshot cert_provider =
     \<lparr>sv_status_list_repo = status_list_repo, sv_credential_repo = credential_repo,
      sv_status_list_cache = status_list_cache,
      sv_snapshot_repo =
        (if slc_snapshot_retention_secs (ac_status_list config) = 0 then None else Some status_list_snapshot),
      sv_cert_provider = cert_provider\<rparr>"

text \<open>The service of a server with an SQL backend.\<close>

definition sql_service ::
  "app_config \<Rightarrow> ('jwk, 'json) jwk_json \<Rightarrow> ('s, 'jwk) database \<Rightarrow> ('s \<Rightarrow> nat) \<Rightarrow> 's moka
   \<Rightarrow> 's certificate_provider \<Rightarrow> 's service" where
  "sql_service config jx db rows inner certs =
     build_service config (sql_status_list_repo db) (sql_credential_repo jx db) (moka_cache inner)
       (sql_snapshot_repo db rows) certs"

definition empty_to_none :: "string option \<Rightarrow> string option" where
  "empty_to_none value = (case value of Some v \<Rightarrow> if str_trim v \<noteq> [] then Some v else None | None \<Rightarrow> None)"

definition management_auth_from :: "management_auth_settings \<Rightarrow> management_auth_config" where
  "management_auth_from c =
     \<lparr>ma_leeway_secs = mas_leeway_secs c, ma_max_token_lifetime_secs = mas_max_token_lifetime_secs c,
      ma_audiences = mas_audiences c\<rparr>"

definition build_app_state :: "app_config \<Rightarrow> 's service \<Rightarrow> 's app_state" where
  "build_app_state config service =
     \<lparr>app_service = service, app_server_domain = sc_domain (ac_server config),
      app_aggregation_uri = empty_to_none (sc_aggregation_uri (ac_server config)),
      app_token_exp_secs = slc_token_exp_secs (ac_status_list config),
      app_token_ttl_secs = slc_token_ttl_secs (ac_status_list config),
      app_max_status_index = lc_max_status_index (ac_limits config),
      app_max_statuses_per_request = lc_max_statuses_per_request (ac_limits config),
      app_max_serialized_list_size = lc_max_serialized_list_size (ac_limits config),
      app_snapshot_retention_secs = slc_snapshot_retention_secs (ac_status_list config),
      app_management_auth = management_auth_from (ac_management_auth config)\<rparr>"

text \<open>The readiness checks of a build without the \<open>acme\<close> feature, by name.\<close>

definition build_readiness :: readiness where
  "build_readiness = with_check (with_check (readiness_new []) ''database'') ''cert_store''"

section \<open>The snapshot clean-up job\<close>

datatype cleanup_report = Cleaned nat int | LostLockRace string | CleanupFailed

definition cleanup_job :: "int \<Rightarrow> 's app_state \<Rightarrow> ('s, cleanup_report) proc" where
  "cleanup_job now state =
     (let cutoff = wrap_i64 (now - u64_as_i64 (app_snapshot_retention_secs state)) in
      pbind (cleanup_snapshots (app_service state) cutoff) (\<lambda>r. Ret (case r of
          Ok deleted \<Rightarrow> Cleaned deleted cutoff
        | Err (Contention code) \<Rightarrow> LostLockRace code
        | _ \<Rightarrow> CleanupFailed)))"

definition cleanup_enabled :: "'s app_state \<Rightarrow> bool" where
  "cleanup_enabled state \<longleftrightarrow> app_snapshot_retention_secs state \<noteq> 0"

end
