(* ===== verification/Sql_Spec.thy ===== *)
theory Sql_Spec
  imports Sql_Store
begin

text \<open>
  The SQL adapters meet the contracts of the ports, whatever the database, as long as the
  database keeps to what its documentation says of transactions and of the statements used
  (\<open>database_ok\<close>). \<open>view\<close> is the committed content of the tables, \<open>pending s tx\<close> what the
  open transaction \<open>tx\<close> would commit. A commit that fails with a classified error was rolled
  back; one that fails otherwise may have taken effect.
\<close>

section \<open>What is assumed of the database\<close>

definition classified :: "db_err \<Rightarrow> bool" where
  "classified e \<longleftrightarrow> de_unique_violation e \<or> contention_code e \<noteq> None"

definition cred_of_row :: "('jwk, 'json) jwk_json \<Rightarrow> 'jwk credentials_row \<Rightarrow> credential" where
  "cred_of_row jx row = \<lparr>cr_issuer = cw_issuer row, cr_public_key = projr (jwk_to_vec jx (cw_public_key row))\<rparr>"

text \<open>The effect of a statement on the content a transaction would commit.\<close>

fun exec_effect :: "('jwk, 'json) jwk_json \<Rightarrow> 'jwk statement \<Rightarrow> store \<Rightarrow> nat \<Rightarrow> store \<Rightarrow> bool" where
  "exec_effect jx (InsertList row) p n p' \<longleftrightarrow>
     st_lists p (lr_list_id row) = None \<and> p' = put_list (record_of_row row) p"
| "exec_effect jx (InsertHistory row) p n p' \<longleftrightarrow> p' = put_snap (snapshot_of_row row) p"
| "exec_effect jx (InsertCredential row) p n p' \<longleftrightarrow>
     st_creds p (cw_issuer row) = None \<and> p' = put_cred (cred_of_row jx row) p"
| "exec_effect jx (GuardedUpdate k row e) p n p' \<longleftrightarrow>
     (if guard_matches p k e then 0 < n \<and> p' = put_list ((record_of_row row)\<lparr>slr_list_id := k\<rparr>) p
      else n = 0 \<and> p' = p)"
| "exec_effect jx _ p n p' \<longleftrightarrow> True"

definition txn_laws ::
  "('s, 'jwk) database \<Rightarrow> ('jwk, 'json) jwk_json \<Rightarrow> ('s \<Rightarrow> store) \<Rightarrow> ('s \<Rightarrow> nat \<Rightarrow> store) \<Rightarrow> ('s \<Rightarrow> bool) \<Rightarrow> bool" where
  "txn_laws db jx view pending ok \<longleftrightarrow>
     (\<forall>lvl s r s'. ok s \<and> db_begin db lvl s = (r, s') \<longrightarrow>
        ok s' \<and> view s' = view s \<and> (\<forall>tx. r = Inr tx \<longrightarrow> pending s' tx = view s))
     \<and> (\<forall>tx st s r s'. ok s \<and> db_exec db (Some tx) st s = (r, s') \<longrightarrow>
        ok s' \<and> view s' = view s \<and> (\<forall>n. r = Inr n \<longrightarrow> exec_effect jx st (pending s tx) n (pending s' tx)))
     \<and> (\<forall>tx s r s'. ok s \<and> db_rollback db tx s = (r, s') \<longrightarrow> ok s' \<and> view s' = view s)
     \<and> (\<forall>tx s r s'. ok s \<and> db_commit db tx s = (r, s') \<longrightarrow>
        ok s' \<and> (case r of Inr _ \<Rightarrow> view s' = pending s tx
                 | Inl e \<Rightarrow> view s' = view s \<or> \<not> classified e \<and> view s' = pending s tx))"

definition read_laws ::
  "('s, 'jwk) database \<Rightarrow> ('jwk, 'json) jwk_json \<Rightarrow> ('s \<Rightarrow> store) \<Rightarrow> ('s \<Rightarrow> bool) \<Rightarrow> bool" where
  "read_laws db jx view ok \<longleftrightarrow>
     (\<forall>k s r s'. ok s \<and> db_find_list db k s = (r, s') \<longrightarrow>
        ok s' \<and> view s' = view s \<and> (\<forall>x. r = Inr x \<longrightarrow> map_option record_of_row x = st_lists (view s) k))
     \<and> (\<forall>s r s'. ok s \<and> db_select_subs db s = (r, s') \<longrightarrow>
        ok s' \<and> view s' = view s
        \<and> (\<forall>us. r = Inr us \<longrightarrow> distinct us \<and> set us = slr_sub ` ran (st_lists (view s))))
     \<and> (\<forall>k t s r s'. ok s \<and> db_select_history db k t s = (r, s') \<longrightarrow>
        ok s' \<and> view s' = view s
        \<and> (r = Inr None \<longrightarrow> (\<forall>sn \<in> ran (st_snaps (view s)). \<not> in_force k t sn))
        \<and> (\<forall>row. r = Inr (Some row) \<longrightarrow>
              snapshot_of_row row \<in> ran (st_snaps (view s)) \<and> in_force k t (snapshot_of_row row)
              \<and> (\<forall>sn \<in> ran (st_snaps (view s)). in_force k t sn \<longrightarrow> sn_iat sn \<le> hr_iat row)))
     \<and> (\<forall>k s r s'. ok s \<and> db_find_credential db k s = (r, s') \<longrightarrow>
        ok s' \<and> view s' = view s \<and> (\<forall>x. r = Inr x \<longrightarrow> map_option (cred_of_row jx) x = st_creds (view s) k))"

text \<open>A batch delete removes as many expired rows as there are, up to its limit.\<close>

definition delete_laws :: "('s, 'jwk) database \<Rightarrow> ('s \<Rightarrow> store) \<Rightarrow> ('s \<Rightarrow> bool) \<Rightarrow> ('s \<Rightarrow> nat) \<Rightarrow> bool" where
  "delete_laws db view ok rows \<longleftrightarrow>
     (\<forall>s. ok s \<longrightarrow> finite (dom (st_snaps (view s))) \<and> card (dom (st_snaps (view s))) \<le> rows s)
     \<and> (\<forall>b c l s r s'. ok s \<and> db_exec db None (DeleteExpired (delete_sql b) c l) s = (r, s') \<longrightarrow>
        ok s' \<and> (\<exists>ks \<subseteq> expired_ids (view s) c.
            view s' = (view s)\<lparr>st_snaps := st_snaps (view s) |` (- ks)\<rparr>
            \<and> (\<forall>n. r = Inr n \<longrightarrow> n = card ks \<and> card ks = min l (card (expired_ids (view s) c)))))"

definition json_laws :: "('jwk, 'json) jwk_json \<Rightarrow> bool" where
  "json_laws jx \<longleftrightarrow>
     (\<forall>j. \<exists>b v. jwk_to_vec jx j = Inr b \<and> value_from_slice jx b = Inr v \<and> value_is_object jx v)"

definition database_ok ::
  "('s, 'jwk) database \<Rightarrow> ('jwk, 'json) jwk_json \<Rightarrow> ('s \<Rightarrow> store) \<Rightarrow> ('s \<Rightarrow> nat \<Rightarrow> store) \<Rightarrow> ('s \<Rightarrow> bool) \<Rightarrow> ('s \<Rightarrow> nat) \<Rightarrow> bool" where
  "database_ok db jx view pending ok rows \<longleftrightarrow>
     txn_laws db jx view pending ok \<and> read_laws db jx view ok \<and> delete_laws db view ok rows \<and> json_laws jx"

section \<open>Error mapping\<close>

lemma map_err_backend:
  "is_backend (status_list_error_from (map_insert_err e)) \<longleftrightarrow> \<not> classified e"
  "is_backend (status_list_error_from (map_update_err e)) \<longleftrightarrow> contention_code e = None"
  by (auto simp: map_insert_err_def map_update_err_def contention_err_def classified_def split: option.splits)

lemma record_of_row_of_record [simp]: "record_of_row (row_of_record r) = r"
  by (simp add: record_of_row_def row_of_record_def status_list_from_def stored_list_from_def)

lemma snapshot_of_row_of_snapshot [simp]: "snapshot_of_row (row_of_snapshot sn) = sn"
  by (simp add: snapshot_of_row_def row_of_snapshot_def status_list_from_def stored_list_from_def)

lemma row_of_record_simps [simp]:
  "lr_list_id (row_of_record r) = slr_list_id r" "lr_updated_at (row_of_record r) = slr_updated_at r"
  "hr_list_id (row_of_snapshot sn) = sn_list_id sn"
  by (simp_all add: row_of_record_def row_of_snapshot_def)

lemma run_dbcall [simp]: "run (dbcall f) s = map_prod from_sum id (f s)"
  by (simp add: dbcall_def)

section \<open>Transactions\<close>

lemma db_begin_law:
  assumes "txn_laws db jx view pending ok" "ok s" "db_begin db lvl s = (r, s')"
  shows "ok s' \<and> view s' = view s \<and> (\<forall>tx. r = Inr tx \<longrightarrow> pending s' tx = view s)"
  using assms(2,3) assms(1) [unfolded txn_laws_def, THEN conjunct1] by blast

lemma exec_law:
  assumes "txn_laws db jx view pending ok" "ok s" "db_exec db (Some tx) st s = (r, s')"
  shows "ok s' \<and> view s' = view s \<and> (\<forall>n. r = Inr n \<longrightarrow> exec_effect jx st (pending s tx) n (pending s' tx))"
  using assms(2,3) assms(1) [unfolded txn_laws_def, THEN conjunct2, THEN conjunct1] by blast

lemma db_rollback_law:
  assumes "txn_laws db jx view pending ok" "ok s" "db_rollback db tx s = (r, s')"
  shows "ok s' \<and> view s' = view s"
  using assms(2,3) assms(1) [unfolded txn_laws_def, THEN conjunct2, THEN conjunct2, THEN conjunct1] by blast

lemma commit_law:
  assumes "txn_laws db jx view pending ok" "ok s" "db_commit db tx s = (r, s')"
  shows "ok s' \<and> (case r of Inr _ \<Rightarrow> view s' = pending s tx
                 | Inl e \<Rightarrow> view s' = view s \<or> \<not> classified e \<and> view s' = pending s tx)"
  using assms(2,3) assms(1) [unfolded txn_laws_def, THEN conjunct2, THEN conjunct2, THEN conjunct2] by blast

lemma begin_law:
  assumes "txn_laws db jx view pending ok" "ok s" "run (begin_read_committed db) s = (r, s')"
  shows "ok s' \<and> view s' = view s \<and> r \<noteq> Panic \<and> (\<forall>tx. r = Ok tx \<longrightarrow> pending s' tx = view s)"
proof -
  obtain lvl q where "db_begin db lvl s = (q, s')" "r = from_sum q"
    using assms(3) by (auto simp: begin_read_committed_def map_prod_def split: database_backend.splits prod.splits)
  then show ?thesis using db_begin_law [OF assms(1,2)] by (cases q) auto
qed

lemma rollback_with_law:
  assumes "txn_laws db jx view pending ok" "ok s"
    and "run (rollback_with db txn wrap what undo stmt_err result) s = (r, s')"
  shows "ok s' \<and> view s' = view s \<and> (\<exists>e. r = Err e)"
proof -
  obtain q s1 where rb: "db_rollback db txn s = (q, s1)" by fastforce
  then show ?thesis using assms(3) db_rollback_law [OF assms(1,2) rb] by (cases q) (auto simp: rollback_with_def)
qed

text \<open>
  The shape all writes share: one or two statements in a transaction that commits if they
  succeed. \<open>done\<close> is what the statements leave pending.
\<close>

definition write_post :: "('e \<Rightarrow> bool) \<Rightarrow> store \<Rightarrow> bool \<Rightarrow> store \<Rightarrow> ('a, 'e) outcome \<Rightarrow> store \<Rightarrow> bool" where
  "write_post unsure st allowed done res st' =
     (case res of
        Ok _ \<Rightarrow> allowed \<and> st' = done
      | Err e \<Rightarrow> st' = st \<or> unsure e \<and> allowed \<and> st' = done
      | Panic \<Rightarrow> False)"

definition unsure :: "repository_error \<Rightarrow> bool" where
  "unsure e \<longleftrightarrow> is_backend (status_list_error_from e)"

lemma unsure_map_err:
  "\<not> classified e \<Longrightarrow> unsure (map_insert_err e)" "\<not> classified e \<Longrightarrow> unsure (map_update_err e)"
  by (simp_all add: unsure_def map_err_backend classified_def)

text \<open>
  Running a statement in a transaction: the failure rolls back, the success goes on. \<open>Q\<close> is
  the postcondition of the whole write; every error that leaves the tables alone meets it.
\<close>

lemma exec_write:
  assumes "txn_laws db jx view pending ok" "ok s" "\<And>e. Q (Err e) (view s)"
    and "run (pbind (dbcall (db_exec db (Some tx) st)) (\<lambda>r. case r of
           Err e \<Rightarrow> rollback_with db tx wrap what undo e (f e) | Ok n \<Rightarrow> k n | Panic \<Rightarrow> Ret Panic)) s = (r, s')"
    and "\<And>n s1. ok s1 \<Longrightarrow> view s1 = view s \<Longrightarrow> exec_effect jx st (pending s tx) n (pending s1 tx) \<Longrightarrow>
           run (k n) s1 = (r, s') \<Longrightarrow> ok s' \<and> Q r (view s')"
  shows "ok s' \<and> Q r (view s')"
proof -
  obtain q s1 where q: "db_exec db (Some tx) st s = (q, s1)" by fastforce
  note ex = exec_law [OF assms(1,2) q]
  show ?thesis
  proof (cases q)
    case (Inl e)
    then have "run (rollback_with db tx wrap what undo e (f e)) s1 = (r, s')" using assms(4) q by simp
    from rollback_with_law [OF assms(1) _ this] show ?thesis using ex assms(3) by auto
  next
    case (Inr n)
    then show ?thesis using assms(4) q ex by (intro assms(5) [of s1 n]) auto
  qed
qed

lemma begin_write:
  assumes "txn_laws db jx view pending ok" "ok s" "\<And>e. Q (Err e) (view s)"
    and "run (ptry (pmap_err f (begin_read_committed db)) k) s = (r, s')"
    and "\<And>tx s1. ok s1 \<Longrightarrow> view s1 = view s \<Longrightarrow> pending s1 tx = view s \<Longrightarrow> run (k tx) s1 = (r, s') \<Longrightarrow>
           ok s' \<and> Q r (view s')"
  shows "ok s' \<and> Q r (view s')"
proof -
  obtain q s1 where q: "run (begin_read_committed db) s = (q, s1)" by fastforce
  note bg = begin_law [OF assms(1,2) q]
  show ?thesis
  proof (cases q)
    case (Ok tx)
    then show ?thesis using assms(4) q bg by (intro assms(5) [of s1 tx]) auto
  next
    case (Err e)
    then have "s' = s1" "r = Err (f e)" using assms(4) q by auto
    then show ?thesis using bg assms(3) by simp
  qed (use bg in blast)
qed

lemma commit_then:
  assumes "txn_laws db jx view pending ok" "ok s"
    and "run (ptry (pmap_err f (dbcall (db_commit db tx))) (\<lambda>_. Ret (Ok x))) s = (r, s')"
    and "Q (Ok x) (pending s tx)" "\<And>e. Q (Err e) (view s)" "\<And>e. \<not> classified e \<Longrightarrow> Q (Err (f e)) (pending s tx)"
  shows "ok s' \<and> Q r (view s')"
proof -
  obtain q s1 where c: "db_commit db tx s = (q, s1)" by fastforce
  then show ?thesis
    using assms(3-) commit_law [OF assms(1,2) c] by (cases q) auto
qed

lemma commit_now:
  assumes "txn_laws db jx view pending ok" "ok s"
    and "run (pmap_err f (dbcall (db_commit db tx))) s = (r, s')"
    and "Q (Ok ()) (pending s tx)" "\<And>e. Q (Err e) (view s)" "\<And>e. \<not> classified e \<Longrightarrow> Q (Err (f e)) (pending s tx)"
  shows "ok s' \<and> Q r (view s')"
proof -
  obtain q s1 where c: "db_commit db tx s = (q, s1)" by fastforce
  then show ?thesis
    using assms(3-) commit_law [OF assms(1,2) c] by (cases q) auto
qed

lemma write_post_simps [simp]:
  "write_post u st a d (Err e) st" "write_post u st a d (Ok x) st' \<longleftrightarrow> a \<and> st' = d"
  "u e \<Longrightarrow> a \<Longrightarrow> write_post u st a d (Err e) d"
  by (simp_all add: write_post_def)

lemma sql_insert_one_law:
  assumes "txn_laws db jx view pending ok" "ok s" "run (sql_insert_one db row) s = (r, s')"
  shows "ok s' \<and> write_post unsure (view s) (st_lists (view s) (lr_list_id row) = None)
           (put_list (record_of_row row) (view s)) r (view s')"
  using assms(3) unfolding sql_insert_one_def
proof (rule begin_write [OF assms(1,2), rotated], goal_cases)
  case b: (1 tx s1)
  show ?case
  proof (rule exec_write [OF assms(1) b(1) _ b(4)], goal_cases)
    case e: (2 n s2)
    show ?case by (rule commit_now [OF assms(1) e(1,4)]) (use e b in \<open>auto simp: unsure_map_err\<close>)
  qed (simp add: b)
qed simp

lemma sql_insert_one_with_snapshot_law:
  assumes "txn_laws db jx view pending ok" "ok s" "run (sql_insert_one_with_snapshot db row hrow) s = (r, s')"
  shows "ok s' \<and> write_post unsure (view s) (st_lists (view s) (lr_list_id row) = None)
           (put_list (record_of_row row) (put_snap (snapshot_of_row hrow) (view s))) r (view s')"
proof (cases "hr_list_id hrow = lr_list_id row")
  case False
  then show ?thesis using assms(2,3) by (auto simp: sql_insert_one_with_snapshot_def)
next
  case True
  then have "\<not> hr_list_id hrow \<noteq> lr_list_id row" by simp
  note run = assms(3) [unfolded sql_insert_one_with_snapshot_def if_not_P [OF this]]
  show ?thesis
  proof (rule begin_write [OF assms(1,2) _ run], goal_cases)
    case b: (2 tx s1)
    show ?case
    proof (rule exec_write [OF assms(1) b(1) _ b(4)], goal_cases)
      case e: (2 n s2)
      show ?case
      proof (rule exec_write [OF assms(1) e(1) _ e(4)], goal_cases)
        case h: (2 n s3)
        have "pending s3 tx = put_list (record_of_row row) (put_snap (snapshot_of_row hrow) (view s))"
          using h e b by (simp add: put_list_def put_snap_def)
        then show ?case using e b h
          by (intro commit_now [OF assms(1) h(1,4)]) (auto simp: unsure_map_err)
      qed (simp add: b e)
    qed (simp add: b)
  qed simp
qed

text \<open>The guarded updates.\<close>

definition guarded_post ::
  "store \<Rightarrow> bool \<Rightarrow> store \<Rightarrow> (bool, repository_error) outcome \<Rightarrow> store \<Rightarrow> bool" where
  "guarded_post st matches done res st' =
     (case res of
        Ok landed \<Rightarrow> landed = matches \<and> st' = (if matches then done else st)
      | Err e \<Rightarrow> st' = st \<or> unsure e \<and> matches \<and> st' = done
      | Panic \<Rightarrow> False)"

lemma guarded_post_simps [simp]:
  "guarded_post st m d (Err e) st" "guarded_post st True d (Ok True) d" "guarded_post st False d (Ok False) st"
  "unsure e \<Longrightarrow> guarded_post st True d (Err e) d"
  by (simp_all add: guarded_post_def)

lemma sql_update_one_law:
  assumes "txn_laws db jx view pending ok" "ok s" "run (sql_update_one db k row e) s = (r, s')"
  shows "ok s' \<and> guarded_post (view s) (guard_matches (view s) k e)
           (put_list ((record_of_row row)\<lparr>slr_list_id := k\<rparr>) (view s)) r (view s')"
proof (cases "lr_updated_at row \<le> e")
  case True
  then show ?thesis using assms(2,3) by (auto simp: sql_update_one_def)
next
  case False
  note run = assms(3) [unfolded sql_update_one_def if_not_P [OF False]]
  show ?thesis
  proof (rule begin_write [OF assms(1,2) _ run], goal_cases)
    case b: (2 tx s1)
    show ?case
    proof (rule exec_write [OF assms(1) b(1) _ b(4)], goal_cases)
      case x: (2 n s2)
      show ?case
        by (rule commit_then [OF assms(1) x(1,4)])
          (use x b in \<open>auto simp: unsure_map_err split: if_splits\<close>)
    qed (simp add: b)
  qed simp
qed

lemma sql_update_one_with_snapshot_law:
  assumes "txn_laws db jx view pending ok" "ok s" "run (sql_update_one_with_snapshot db k row e hrow) s = (r, s')"
  shows "ok s' \<and> guarded_post (view s) (guard_matches (view s) k e)
           (put_list (record_of_row row) (put_snap (snapshot_of_row hrow) (view s))) r (view s')"
proof (cases "hr_list_id hrow \<noteq> k \<or> lr_list_id row \<noteq> k \<or> lr_updated_at row \<le> e")
  case True
  then have "\<exists>err. sql_update_one_with_snapshot db k row e hrow = Ret (Err err)"
    by (simp add: sql_update_one_with_snapshot_def)
  then show ?thesis using assms(2,3) by auto
next
  case False
  then have c: "\<not> (hr_list_id hrow \<noteq> k \<or> lr_list_id row \<noteq> k)" "\<not> lr_updated_at row \<le> e" by auto
  have id: "(record_of_row row)\<lparr>slr_list_id := k\<rparr> = record_of_row row"
    using c(1) by (simp add: record_of_row_def)
  note run = assms(3) [unfolded sql_update_one_with_snapshot_def if_not_P [OF c(1)] if_not_P [OF c(2)]]
  show ?thesis
  proof (rule begin_write [OF assms(1,2) _ run], goal_cases)
    case b: (2 tx s1)
    show ?case
    proof (rule exec_write [OF assms(1) b(1) _ b(4)], goal_cases)
      case x: (2 n s2)
      show ?case
      proof (cases "n = 0")
        case True
        then have miss: "\<not> guard_matches (view s) k e" using x(3) b by (auto split: if_splits)
        obtain q s3 where rb: "db_rollback db tx s2 = (q, s3)" by fastforce
        have "s' = s3" "r = Ok False" using x(4) True rb by (cases q; simp)+
        then show ?thesis using db_rollback_law [OF assms(1) x(1) rb] miss x(2) b(2) by (simp add: guarded_post_def)
      next
        case n: False
        then have hit: "guard_matches (view s) k e" using x(3) b by (auto split: if_splits)
        show ?thesis
        proof (rule exec_write [OF assms(1) x(1) _ x(4) [unfolded if_not_P [OF n]]], goal_cases)
          case h: (2 n s3)
          have "pending s3 tx = put_list (record_of_row row) (put_snap (snapshot_of_row hrow) (view s))"
            using h(3) x(3) b(3) hit id by (simp add: put_list_def put_snap_def)
          then show ?case using x b h hit
            by (intro commit_then [OF assms(1) h(1,4)]) (auto simp: unsure_map_err)
        qed (simp add: b x)
      qed
    qed (simp add: b)
  qed simp
qed

lemma sql_credential_insert_one_law:
  assumes "txn_laws db jx view pending ok" "ok s" "run (sql_credential_insert_one db row) s = (r, s')"
  shows "ok s' \<and> write_post unsure (view s) (st_creds (view s) (cw_issuer row) = None)
           (put_cred (cred_of_row jx row) (view s)) r (view s')"
proof (rule begin_write [OF assms(1,2) _ assms(3) [unfolded sql_credential_insert_one_def]], goal_cases)
  case b: (2 tx s1)
  show ?case
  proof (rule exec_write [OF assms(1) b(1) _ b(4)], goal_cases)
    case e: (2 n s2)
    show ?case by (rule commit_now [OF assms(1) e(1,4)]) (use e b in \<open>auto simp: unsure_map_err\<close>)
  qed (simp add: b)
qed simp

section \<open>The batched delete\<close>

lemma expired_ids_restrict:
  "expired_ids (st\<lparr>st_snaps := st_snaps st |` (- ks)\<rparr>) c = expired_ids st c - ks"
  by (auto simp: expired_ids_def restrict_map_def split: if_splits)

lemma expired_ids_finite:
  assumes "delete_laws db view ok rows" "ok s"
  shows "finite (expired_ids (view s) c)" "card (expired_ids (view s) c) \<le> rows s"
proof -
  have sub: "expired_ids (view s) c \<subseteq> dom (st_snaps (view s))" by (auto simp: expired_ids_def)
  have fin: "finite (dom (st_snaps (view s)))" "card (dom (st_snaps (view s))) \<le> rows s"
    using assms unfolding delete_laws_def by blast+
  show "finite (expired_ids (view s) c)" using sub fin(1) by (rule finite_subset)
  show "card (expired_ids (view s) c) \<le> rows s" using card_mono [OF fin(1) sub] fin(2) by linarith
qed

lemma delete_exec_law:
  assumes "delete_laws db view ok rows" "ok s" "db_exec db None (DeleteExpired (delete_sql b) c l) s = (r, s')"
  obtains ks where "ok s'" "ks \<subseteq> expired_ids (view s) c"
    "view s' = (view s)\<lparr>st_snaps := st_snaps (view s) |` (- ks)\<rparr>"
    "\<And>n. r = Inr n \<Longrightarrow> n = card ks \<and> card ks = min l (card (expired_ids (view s) c))"
proof -
  have "\<exists>ks \<subseteq> expired_ids (view s) c. view s' = (view s)\<lparr>st_snaps := st_snaps (view s) |` (- ks)\<rparr>
      \<and> (\<forall>n. r = Inr n \<longrightarrow> n = card ks \<and> card ks = min l (card (expired_ids (view s) c)))" "ok s'"
    using assms(1) [unfolded delete_laws_def, THEN conjunct2, THEN spec [of _ b], THEN spec [of _ c],
        THEN spec [of _ l], THEN spec [of _ s], THEN spec [of _ r], THEN spec [of _ s'], THEN mp, OF conjI [OF assms(2,3)]]
    by simp_all
  then show thesis by (elim exE conjE) (rule that, auto)
qed

lemma delete_batches_law:
  assumes "delete_laws db view ok rows"
  shows "ok s \<Longrightarrow> card (expired_ids (view s) c) < fuel \<Longrightarrow> run (delete_batches db fuel c tot) s = (r, s') \<Longrightarrow>
     ok s' \<and> r \<noteq> Panic \<and> (\<exists>ks \<subseteq> expired_ids (view s) c.
         view s' = (view s)\<lparr>st_snaps := st_snaps (view s) |` (- ks)\<rparr>
         \<and> (\<forall>n. r = Ok n \<longrightarrow> ks = expired_ids (view s) c \<and> n = tot + card ks))"
proof (induction fuel arbitrary: s tot)
  case (Suc fuel)
  let ?E = "expired_ids (view s) c"
  note fin = expired_ids_finite(1) [OF assms Suc.prems(1), of c]
  obtain q s1 where q: "db_exec db None (DeleteExpired (delete_sql (db_backend db s)) c BATCH_SIZE) s = (q, s1)"
    by fastforce
  obtain ks where ks: "ok s1" "ks \<subseteq> ?E" "view s1 = (view s)\<lparr>st_snaps := st_snaps (view s) |` (- ks)\<rparr>"
    and count: "\<And>n. q = Inr n \<Longrightarrow> n = card ks \<and> card ks = min BATCH_SIZE (card ?E)"
    using delete_exec_law [OF assms Suc.prems(1) q] by metis
  show ?case
  proof (cases q)
    case (Inl e)
    then have "r = Err (map_delete_err e)" "s' = s1" using Suc.prems(3) q by auto
    then show ?thesis using ks by auto
  next
    case (Inr n)
    show ?thesis
    proof (cases "n < BATCH_SIZE")
      case True
      then have "card ks = card ?E" using count [OF Inr] by simp
      then have "ks = ?E" using card_subset_eq [OF fin ks(2)] by simp
      moreover have "r = Ok (tot + n)" "s' = s1" using Suc.prems(3) q Inr True by auto
      ultimately show ?thesis using ks count [OF Inr] by auto
    next
      case False
      have rest: "expired_ids (view s1) c = ?E - ks" unfolding ks(3) by (rule expired_ids_restrict)
      have "0 < card ks" using False count [OF Inr] by (simp add: BATCH_SIZE_def)
      then have "card (?E - ks) < fuel"
        using Suc.prems(2) card_Diff_subset [OF finite_subset [OF ks(2) fin] ks(2)] card_mono [OF fin ks(2)] by linarith
      moreover have "run (delete_batches db fuel c (tot + n)) s1 = (r, s')"
        using Suc.prems(3) q Inr False by simp
      ultimately obtain ks' where ks': "ok s'" "r \<noteq> Panic" "ks' \<subseteq> ?E - ks"
        "view s' = (view s1)\<lparr>st_snaps := st_snaps (view s1) |` (- ks')\<rparr>"
        "\<And>m. r = Ok m \<Longrightarrow> ks' = ?E - ks \<and> m = tot + n + card ks'"
        using Suc.IH [OF ks(1), of "tot + n"] unfolding rest by blast
      have "view s' = (view s)\<lparr>st_snaps := st_snaps (view s) |` (- (ks \<union> ks'))\<rparr>"
        using ks'(4) ks(3) by (simp add: Int_commute)
      moreover have "m = tot + card (ks \<union> ks') \<and> ks \<union> ks' = ?E" if "r = Ok m" for m
      proof -
        have whole: "ks \<union> ks' = ?E" using ks'(5) [OF that] ks(2) by blast
        have "card ks + card (?E - ks) = card ?E"
          using card_Diff_subset [OF finite_subset [OF ks(2) fin] ks(2)] card_mono [OF fin ks(2)] by linarith
        moreover have "n = card ks" "m = tot + n + card (?E - ks)"
          using ks'(5) [OF that] count [OF Inr] by blast+
        ultimately show ?thesis using whole by simp
      qed
      ultimately show ?thesis using ks'(1-3) ks(2) by (intro conjI exI [of _ "ks \<union> ks'"]) auto
    qed
  qed
qed simp

section \<open>The contracts\<close>

lemma read_lawsD:
  assumes "read_laws db jx view ok" "ok s"
  shows "db_find_list db k s = (r1, s') \<Longrightarrow>
        ok s' \<and> view s' = view s \<and> (\<forall>x. r1 = Inr x \<longrightarrow> map_option record_of_row x = st_lists (view s) k)"
    "db_select_subs db s = (r2, s') \<Longrightarrow>
        ok s' \<and> view s' = view s
        \<and> (\<forall>us. r2 = Inr us \<longrightarrow> distinct us \<and> set us = slr_sub ` ran (st_lists (view s)))"
    "db_select_history db k t s = (r3, s') \<Longrightarrow>
        ok s' \<and> view s' = view s
        \<and> (r3 = Inr None \<longrightarrow> (\<forall>sn \<in> ran (st_snaps (view s)). \<not> in_force k t sn))
        \<and> (\<forall>row. r3 = Inr (Some row) \<longrightarrow>
              snapshot_of_row row \<in> ran (st_snaps (view s)) \<and> in_force k t (snapshot_of_row row)
              \<and> (\<forall>sn \<in> ran (st_snaps (view s)). in_force k t sn \<longrightarrow> sn_iat sn \<le> hr_iat row))"
    "db_find_credential db k s = (r4, s') \<Longrightarrow>
        ok s' \<and> view s' = view s \<and> (\<forall>x. r4 = Inr x \<longrightarrow> map_option (cred_of_row jx) x = st_creds (view s) k)"
  using assms(2)
    assms(1) [unfolded read_laws_def, THEN conjunct1, THEN spec [of _ k], THEN spec [of _ s], THEN spec [of _ r1],
      THEN spec [of _ s']]
    assms(1) [unfolded read_laws_def, THEN conjunct2, THEN conjunct1, THEN spec [of _ s], THEN spec [of _ r2],
      THEN spec [of _ s']]
    assms(1) [unfolded read_laws_def, THEN conjunct2, THEN conjunct2, THEN conjunct1, THEN spec [of _ k],
      THEN spec [of _ t], THEN spec [of _ s], THEN spec [of _ r3], THEN spec [of _ s']]
    assms(1) [unfolded read_laws_def, THEN conjunct2, THEN conjunct2, THEN conjunct2, THEN spec [of _ k],
      THEN spec [of _ s], THEN spec [of _ r4], THEN spec [of _ s']]
  by simp_all

lemma insert_post_write:
  assumes "write_post unsure st (st_lists st (slr_list_id r) = None) (put_list r (f st)) res st'"
  shows "insert_post r f st (map_err status_list_error_from res) st'"
  using assms by (cases res) (auto simp: write_post_def insert_post_def failed_write_def unsure_def)

lemma update_post_guarded:
  assumes "guarded_post st (guard_matches st (slr_list_id r) e) (put_list r (f st)) res st'"
  shows "update_post r e f st (map_err status_list_error_from res) st'"
  using assms
  by (cases res) (auto simp: guarded_post_def update_post_def failed_write_def unsure_def split: bool.splits)

lemma run_pmap_errE:
  assumes "run (pmap_err f p) s = (res, s')"
  obtains q where "run p s = (q, s')" "res = map_err f q"
  using assms by (cases "run p s") auto

lemma sql_list_repo:
  assumes "txn_laws db jx view pending ok" "read_laws db jx view ok"
  shows "list_repo_contract (sql_status_list_repo db) view ok"
proof (unfold_locales, goal_cases)
  case (1 k s res s')
  obtain q where q: "db_find_list db k s = (q, s')" "res = map_err status_list_error_from
      (omap (map_option record_of_row) (map_err find_err (from_sum q)))"
    using 1(2) by (cases "db_find_list db k s") (auto simp: sql_status_list_repo_def sql_find_one_by_def)
  then show ?case using read_lawsD(1) [OF assms(2) 1(1) q(1)] by (cases q) auto
next
  case (2 r s res s')
  then obtain q where "run (sql_insert_one db (row_of_record r)) s = (q, s')" "res = map_err status_list_error_from q"
    by (auto simp: sql_status_list_repo_def simp del: run_pmap_err elim: run_pmap_errE)
  then show ?case using sql_insert_one_law [OF assms(1) 2(1)] insert_post_write [of "view s" r id] by fastforce
next
  case (3 r e s res s')
  then obtain q where "run (sql_update_one db (slr_list_id r) (row_of_record r) e) s = (q, s')"
    "res = map_err status_list_error_from q"
    by (auto simp: sql_status_list_repo_def simp del: run_pmap_err elim: run_pmap_errE)
  then show ?case
    using sql_update_one_law [OF assms(1) 3(1)] update_post_guarded [of "view s" r e id] by fastforce
next
  case (4 r sn s res s')
  then obtain q where "run (sql_insert_one_with_snapshot db (row_of_record r) (row_of_snapshot sn)) s = (q, s')"
    "res = map_err status_list_error_from q"
    by (auto simp: sql_status_list_repo_def simp del: run_pmap_err elim: run_pmap_errE)
  then show ?case
    using sql_insert_one_with_snapshot_law [OF assms(1) 4(1)] insert_post_write [of "view s" r "put_snap sn"] by fastforce
next
  case (5 r e sn s res s')
  then obtain q where
    "run (sql_update_one_with_snapshot db (slr_list_id r) (row_of_record r) e (row_of_snapshot sn)) s = (q, s')"
    "res = map_err status_list_error_from q"
    by (auto simp: sql_status_list_repo_def simp del: run_pmap_err elim: run_pmap_errE)
  then show ?case
    using sql_update_one_with_snapshot_law [OF assms(1) 5(1)] update_post_guarded [of "view s" r e "put_snap sn"]
    by fastforce
next
  case (6 s res s')
  obtain q where q: "db_select_subs db s = (q, s')" "res = map_err status_list_error_from (map_err find_err (from_sum q))"
    using 6(2) by (cases "db_select_subs db s") (auto simp: sql_status_list_repo_def sql_find_all_status_list_uris_def)
  then show ?case using read_lawsD(2) [OF assms(2) 6(1) q(1)] by (cases q) auto
qed

lemma sql_snapshot_repo:
  assumes "read_laws db jx view ok" "delete_laws db view ok rows"
  shows "snapshot_repo_contract (sql_snapshot_repo db rows) view ok"
proof (unfold_locales, goal_cases)
  case (1 k t s res s')
  obtain q where q: "db_select_history db k t s = (q, s')" "res = map_err status_list_error_from
      (omap (map_option snapshot_of_row) (map_err find_err (from_sum q)))"
    using 1(2) by (cases "db_select_history db k t s") (auto simp: sql_snapshot_repo_def sql_find_valid_at_def)
  have iat: "sn_iat (snapshot_of_row row) = hr_iat row" for row by (simp add: snapshot_of_row_def)
  show ?case using read_lawsD(3) [OF assms(1) 1(1) q(1)] q(2) by (cases q) (auto simp: iat)
next
  case (2 c s res s')
  then obtain q where q: "run (delete_batches db (Suc (rows s)) c 0) s = (q, s')" "res = map_err status_list_error_from q"
    by (auto simp: sql_snapshot_repo_def sql_delete_older_than_def simp del: run_pmap_err delete_batches.simps
        elim!: run_pmap_errE)
  have "card (expired_ids (view s) c) < Suc (rows s)" using expired_ids_finite(2) [OF assms(2) 2(1), of c] by simp
  from delete_batches_law [OF assms(2) 2(1) this q(1)] show ?case
    using q(2) by (auto simp: outcome_simps)
qed

lemma sql_credential_repo:
  assumes "txn_laws db jx view pending ok" "read_laws db jx view ok" "json_laws jx"
  shows "credential_repo_contract (sql_credential_repo jx db) view ok
     (\<lambda>b. projr (jwk_to_vec jx (projr (jwk_from_slice jx b))))"
proof (unfold_locales, goal_cases)
  case (1 k s res s')
  obtain q s1 where q: "db_find_credential db k s = (q, s1)" by fastforce
  note law = read_lawsD(4) [OF assms(2) 1(1) q]
  have row: "\<exists>b v. jwk_to_vec jx (cw_public_key row) = Inr b \<and> value_from_slice jx b = Inr v \<and> value_is_object jx v"
    for row using assms(3) unfolding json_laws_def by blast
  show ?case
  proof (cases q)
    case (Inl e)
    then show ?thesis using 1(2) q law by (auto simp: sql_credential_repo_def sql_credential_find_one_by_def)
  next
    case (Inr x)
    show ?thesis
    proof (cases x)
      case None
      then show ?thesis
        using 1(2) q law Inr by (auto simp: sql_credential_repo_def sql_credential_find_one_by_def)
    next
      case (Some r)
      obtain b v where "jwk_to_vec jx (cw_public_key r) = Inr b" "value_from_slice jx b = Inr v" "value_is_object jx v"
        using row by blast
      then have "res = Ok (Some (cred_of_row jx r))" "s' = s1"
        using 1(2) q Inr Some
        by (auto simp: sql_credential_repo_def sql_credential_find_one_by_def public_jwk_try_new_def cred_of_row_def)
      then show ?thesis using law Inr Some by auto
    qed
  qed
next
  case (2 c s res s')
  show ?case
  proof (cases "jwk_from_slice jx (cr_public_key c)")
    case (Inl e)
    then show ?thesis using 2 by (auto simp: sql_credential_repo_def)
  next
    case (Inr j)
    let ?row = "\<lparr>cw_issuer = cr_issuer c, cw_public_key = j\<rparr>"
    obtain q where q: "run (sql_credential_insert_one db ?row) s = (q, s')" "res = map_err credential_error_from q"
      using 2(2) Inr by (auto simp: sql_credential_repo_def simp del: run_pmap_err elim: run_pmap_errE)
    have "cred_of_row jx ?row = stored_cred (\<lambda>b. projr (jwk_to_vec jx (projr (jwk_from_slice jx b)))) c"
      using Inr by (simp add: cred_of_row_def stored_cred_def)
    moreover have "\<exists>m. credential_error_from e = CredentialBackend m" if "unsure e" for e
      using that by (cases e) (auto simp: unsure_def)
    ultimately show ?thesis
      using sql_credential_insert_one_law [OF assms(1) 2(1) q(1)] q(2)
      by (cases q) (auto simp: write_post_def)
  qed
qed

section \<open>An example database\<close>

text \<open>
  A database in the sense of \<open>database_ok\<close>: the committed tables and, for each transaction,
  the tables it would commit. Queries it does not support fail.
\<close>

record tables =
  tb_committed :: store
  tb_pending :: "nat \<Rightarrow> store"

definition unsupported :: db_err where
  "unsupported = \<lparr>de_shape = OtherShape, de_unique_violation = False, de_text = ''unsupported''\<rparr>"

definition duplicate_key :: db_err where
  "duplicate_key = \<lparr>de_shape = OtherShape, de_unique_violation = True, de_text = ''duplicate key''\<rparr>"

fun tables_stmt :: "u8 list statement \<Rightarrow> store \<Rightarrow> db_err + nat \<times> store" where
  "tables_stmt (InsertList row) p =
     (if st_lists p (lr_list_id row) = None then Inr (1, put_list (record_of_row row) p) else Inl duplicate_key)"
| "tables_stmt (InsertHistory row) p = Inr (1, put_snap (snapshot_of_row row) p)"
| "tables_stmt (InsertCredential row) p =
     (if st_creds p (cw_issuer row) = None
      then Inr (1, put_cred \<lparr>cr_issuer = cw_issuer row, cr_public_key = cw_public_key row\<rparr> p)
      else Inl duplicate_key)"
| "tables_stmt (GuardedUpdate k row e) p =
     (if guard_matches p k e then Inr (1, put_list ((record_of_row row)\<lparr>slr_list_id := k\<rparr>) p) else Inr (0, p))"
| "tables_stmt _ p = Inl unsupported"

definition tables_db :: "(tables, u8 list) database" where
  "tables_db =
     \<lparr>db_backend = (\<lambda>_. OtherBackend),
      db_begin = (\<lambda>_ s. (Inr 0, s\<lparr>tb_pending := (tb_pending s)(0 := tb_committed s)\<rparr>)),
      db_commit = (\<lambda>tx s. (Inr (), s\<lparr>tb_committed := tb_pending s tx\<rparr>)),
      db_rollback = (\<lambda>_ s. (Inr (), s)),
      db_exec = (\<lambda>t st s.
        case t of
          None \<Rightarrow> (Inl unsupported, s)
        | Some tx \<Rightarrow>
            (case tables_stmt st (tb_pending s tx) of
               Inl e \<Rightarrow> (Inl e, s)
             | Inr (n, p) \<Rightarrow> (Inr n, s\<lparr>tb_pending := (tb_pending s)(tx := p)\<rparr>))),
      db_find_list = (\<lambda>k s. (Inr (map_option row_of_record (st_lists (tb_committed s) k)), s)),
      db_select_lists = (\<lambda>_ s. (Inl unsupported, s)),
      db_select_subs = (\<lambda>s. (Inl unsupported, s)),
      db_select_history = (\<lambda>_ _ s. (Inl unsupported, s)),
      db_find_credential = (\<lambda>k s.
        (Inr (map_option (\<lambda>c. \<lparr>cw_issuer = cr_issuer c, cw_public_key = cr_public_key c\<rparr>)
               (st_creds (tb_committed s) k)), s))\<rparr>"

definition bytes_json :: "(u8 list, unit) jwk_json" where
  "bytes_json = \<lparr>jwk_from_slice = Inr, jwk_to_vec = Inr, value_from_slice = (\<lambda>_. Inr ()), value_is_object = (\<lambda>_. True)\<rparr>"

definition tables_ok :: "tables \<Rightarrow> bool" where
  "tables_ok s \<longleftrightarrow> finite (dom (st_snaps (tb_committed s))) \<and> (\<forall>tx. finite (dom (st_snaps (tb_pending s tx))))"

lemma tables_stmt_effect:
  assumes "tables_stmt st p = Inr (n, p')"
  shows "exec_effect bytes_json st p n p'" "finite (dom (st_snaps p)) \<Longrightarrow> finite (dom (st_snaps p'))"
  using assms
  by (cases st; auto simp: cred_of_row_def bytes_json_def put_list_def put_snap_def put_cred_def split: if_splits)+

lemma map_option_row [simp]: "map_option record_of_row (map_option row_of_record x) = x"
  by (cases x) auto

lemma credential_eta [simp]: "\<lparr>cr_issuer = cr_issuer c, cr_public_key = cr_public_key c\<rparr> = c"
  by (rule credential.equality) simp_all

lemma tables_db_ok:
  "database_ok tables_db bytes_json tb_committed tb_pending tables_ok (\<lambda>s. card (dom (st_snaps (tb_committed s))))"
proof -
  have "txn_laws tables_db bytes_json tb_committed tb_pending tables_ok"
    unfolding txn_laws_def
    by (intro conjI allI impI; elim conjE)
      (auto simp: tables_db_def tables_ok_def dest: tables_stmt_effect split: sum.splits)
  moreover have "read_laws tables_db bytes_json tb_committed tables_ok"
    by (auto simp: read_laws_def tables_db_def cred_of_row_def bytes_json_def option.map_comp comp_def option.map_ident)
  moreover have "delete_laws tables_db tb_committed tables_ok (\<lambda>s. card (dom (st_snaps (tb_committed s))))"
    by (auto simp: delete_laws_def tables_db_def tables_ok_def restrict_map_def intro: exI [of _ "{}"])
  ultimately show ?thesis by (simp add: database_ok_def json_laws_def bytes_json_def)
qed

section \<open>Properties\<close>

definition sample_tables :: tables where
  "sample_tables =
     (let st = \<lparr>st_lists = [''l'' \<mapsto> \<lparr>slr_list_id = ''l'', slr_issuer = ''iss'',
                  slr_status_list = \<lparr>sl_bits = 1, sl_lst = ''''\<rparr>, slr_sub = ''sub'', slr_updated_at = 5\<rparr>],
                st_snaps = Map.empty, st_creds = Map.empty, st_cache = Map.empty\<rparr>
      in \<lparr>tb_committed = st, tb_pending = (\<lambda>_. st)\<rparr>)"

lemma sample_tables_ok: "tables_ok sample_tables"
  by (simp add: tables_ok_def sample_tables_def Let_def)



text \<open>
  C12. The SQL adapters meet the same contracts as the in-memory ones: on any database that
  keeps to its documentation the three of them implement the lists, the snapshots and the
  credentials of the abstract store, so every theorem about the service over its ports holds
  of the SQL deployment too.
\<close>

theorem sql_adapters_meet_contracts:
  assumes "database_ok db jx view pending ok rows"
  shows "list_repo_contract (sql_status_list_repo db) view ok
     \<and> snapshot_repo_contract (sql_snapshot_repo db rows) view ok
     \<and> credential_repo_contract (sql_credential_repo jx db) view ok
         (\<lambda>b. projr (jwk_to_vec jx (projr (jwk_from_slice jx b))))"
  using assms sql_list_repo sql_snapshot_repo sql_credential_repo unfolding database_ok_def by blast

theorem sql_adapters_meet_contracts_witness:
  "list_repo_contract (sql_status_list_repo tables_db) tb_committed tables_ok
     \<and> snapshot_repo_contract (sql_snapshot_repo tables_db (\<lambda>s. card (dom (st_snaps (tb_committed s)))))
         tb_committed tables_ok"
  using sql_adapters_meet_contracts [OF tables_db_ok] by blast

end
