(* ===== verification/Config_Spec.thy ===== *)
theory Config_Spec
  imports Config
begin

text \<open>
  What the configuration promises: the assembled database URL names exactly the configured
  target, and the DNS provider the server starts with has every setting it needs.
\<close>

section \<open>Reading a URL\<close>

text \<open>
  A reference reader for database URLs, after RFC 3986: the authority ends at the first slash,
  question mark or hash, the user information at its last at sign, the host at the last colon.
\<close>

definition before :: "char \<Rightarrow> string \<Rightarrow> string" where
  "before c s = takeWhile (\<lambda>d. d \<noteq> c) s"

definition after :: "char \<Rightarrow> string \<Rightarrow> string" where
  "after c s = drop 1 (dropWhile (\<lambda>d. d \<noteq> c) s)"

definition before_last :: "char \<Rightarrow> string \<Rightarrow> string" where
  "before_last c s = rev (after c (rev s))"

definition after_last :: "char \<Rightarrow> string \<Rightarrow> string" where
  "after_last c s = rev (before c (rev s))"

fun percent_decode :: "string \<Rightarrow> string" where
  "percent_decode [] = []"
| "percent_decode (c # s) =
     (if c = CHR ''%'' then
        (case s of a # b # r \<Rightarrow> char_of (digit_value a * 16 + digit_value b) # percent_decode r | _ \<Rightarrow> c # s)
      else c # percent_decode s)"

record target =
  tg_scheme :: string
  tg_username :: string
  tg_password :: string
  tg_host :: string
  tg_port :: string
  tg_name :: string
  tg_query :: string

definition ends_authority :: "char \<Rightarrow> bool" where
  "ends_authority c \<longleftrightarrow> c = CHR ''/'' \<or> c = CHR ''?'' \<or> c = CHR ''#''"

definition ends_path :: "char \<Rightarrow> bool" where
  "ends_path c \<longleftrightarrow> c = CHR ''?'' \<or> c = CHR ''#''"

definition url_target :: "string \<Rightarrow> target" where
  "url_target url =
     (let hier = drop 2 (after CHR '':'' url);
          authority = takeWhile (\<lambda>c. \<not> ends_authority c) hier;
          path = drop 1 (dropWhile (\<lambda>c. \<not> ends_authority c) hier);
          userinfo = before_last CHR ''@'' authority;
          hostport = after_last CHR ''@'' authority
      in \<lparr>tg_scheme = before CHR '':'' url,
          tg_username = percent_decode (before CHR '':'' userinfo),
          tg_password = percent_decode (after CHR '':'' userinfo),
          tg_host = before_last CHR '':'' hostport,
          tg_port = after_last CHR '':'' hostport,
          tg_name = percent_decode (takeWhile (\<lambda>c. \<not> ends_path c) path),
          tg_query = dropWhile (\<lambda>c. \<not> ends_path c) path\<rparr>)"

lemma before_after [simp]:
  assumes "c \<notin> set a"
  shows "before c (a @ c # b) = a" "after c (a @ c # b) = b"
proof -
  have "\<forall>d \<in> set a. d \<noteq> c" using assms by auto
  then show "before c (a @ c # b) = a" "after c (a @ c # b) = b"
    by (simp_all add: before_def after_def takeWhile_append2 dropWhile_append2)
qed

lemma before_after_last [simp]:
  assumes "c \<notin> set b"
  shows "before_last c (a @ c # b) = a" "after_last c (a @ c # b) = b"
  using before_after [of c "rev b" "rev a"] assms by (simp_all add: before_last_def after_last_def)

section \<open>Percent encoding\<close>

lemma encode_url_part_concat: "encode_url_part s = concat (map encode_byte s)"
proof -
  have "foldl (\<lambda>e b. e @ encode_byte b) acc s = acc @ concat (map encode_byte s)" for acc
    by (induction s arbitrary: acc) auto
  then show ?thesis by (simp add: encode_url_part_def)
qed

lemma digit_value_hex_digit: "n < 16 \<Longrightarrow> digit_value (hex_digit n) = n"
  by (auto simp: hex_digit_def digit_value_def is_ascii_digit_def is_ascii_upper_def is_ascii_lower_def)

text \<open>The characters the encoding writes: none of them separates the parts of a URL.\<close>

definition url_safe :: "char \<Rightarrow> bool" where
  "url_safe c \<longleftrightarrow> unreserved c \<or> c = CHR ''%''"

lemma url_safe_hex_digit: "n < 16 \<Longrightarrow> url_safe (hex_digit n)"
  by (auto simp: hex_digit_def url_safe_def unreserved_def is_ascii_alphanumeric_def is_ascii_digit_def
      is_ascii_upper_def is_ascii_lower_def)

lemma of_char_div_16: "(of_char c :: nat) div 16 < 16"
  using nat_of_char_less_256 [of c] by linarith

lemma url_safe_separators [simp]:
  "\<not> url_safe CHR '':''" "\<not> url_safe CHR ''@''" "\<not> url_safe CHR ''/''" "\<not> url_safe CHR ''?''" "\<not> url_safe CHR ''#''"
  by code_simp+

lemma encode_safe: "list_all url_safe (encode_url_part s)"
proof -
  have "list_all url_safe (encode_byte c)" for c
    by (cases "unreserved c") (simp_all add: encode_byte_def url_safe_hex_digit of_char_div_16, simp_all add: url_safe_def)
  then show ?thesis by (auto simp: encode_url_part_concat list_all_iff)
qed

lemma percent_decode_encode [simp]: "percent_decode (encode_url_part s) = s"
proof -
  have percent: "\<not> unreserved CHR ''%''" by code_simp
  have byte: "percent_decode (encode_byte c @ t) = c # percent_decode t" for c t
  proof (cases "unreserved c")
    case True
    then show ?thesis using percent by (auto simp: encode_byte_def)
  next
    case False
    have "char_of (digit_value (hex_digit (of_char c div 16)) * 16 + digit_value (hex_digit (of_char c mod 16))) = c"
      by (simp add: digit_value_hex_digit of_char_div_16)
    then show ?thesis using False by (simp add: encode_byte_def)
  qed
  then show ?thesis unfolding encode_url_part_concat by (induction s) simp_all
qed

section \<open>The assembled URL\<close>

definition host_char :: "char \<Rightarrow> bool" where
  "host_char c \<longleftrightarrow> \<not> ends_authority c \<and> c \<noteq> CHR ''@''"

lemma ip_char_host_char: "ip_char c \<Longrightarrow> host_char c"
  by (auto simp: host_char_def ip_char_def ends_authority_def digit_value_def is_ascii_digit_def
      is_ascii_upper_def is_ascii_lower_def)

lemma url_safe_host_char: "url_safe c \<Longrightarrow> host_char c"
  unfolding host_char_def ends_authority_def using url_safe_separators by metis

lemma ipv6_host_char: "is_ipv6 s \<Longrightarrow> list_all host_char s"
  using is_ipv6_chars ip_char_host_char by (auto simp: list_all_iff)

lemma valid_host_chars:
  assumes "validate_database_host host = Ok ()"
  shows "list_all host_char (format_database_url_host host)"
proof (cases "is_ipv6 host")
  case True
  then show ?thesis
    using ipv6_host_char by (simp add: format_database_url_host_def) (simp add: host_char_def ends_authority_def)
next
  case False
  have "list_all host_char host"
  proof (cases "database_host_is_ipv6 host")
    case True
    with False obtain rest inner where "strip_prefix ''['' host = Some rest" "strip_suffix '']'' rest = Some inner"
      and v6: "is_ipv6 inner"
      by (auto simp: database_host_is_ipv6_def bind_eq_Some_conv split: option.splits)
    then have "host = ''['' @ rest" "rest = inner @ '']''"
      by (auto simp: strip_prefix_def strip_suffix_def suffix_def split: if_splits) (cases host; simp)
    then show ?thesis using ipv6_host_char [OF v6] by (simp add: host_char_def ends_authority_def)
  next
    case False
    then have "\<not> invalid_host host" using assms by (auto simp: validate_database_host_def split: if_splits)
    then show ?thesis by (auto simp: invalid_host_def host_char_def ends_authority_def list_all_iff)
  qed
  then show ?thesis using False by (simp add: format_database_url_host_def)
qed

lemma show_nat_no_colon: "CHR '':'' \<notin> set (show_nat n)" "list_all host_char (show_nat n)"
proof -
  have d: "list_all digit (show_nat n)" by (rule show_nat_digits)
  have "digit c \<Longrightarrow> c \<noteq> CHR '':'' \<and> host_char c" for c
    by (auto simp: digit_def host_char_def ends_authority_def)
  with d show "CHR '':'' \<notin> set (show_nat n)" "list_all host_char (show_nat n)" by (auto simp: list_all_iff)
qed

lemma span_append:
  assumes "\<forall>c \<in> set a. \<not> P c" and "P d"
  shows "takeWhile (\<lambda>c. \<not> P c) (a @ d # b) = a" "dropWhile (\<lambda>c. \<not> P c) (a @ d # b) = d # b"
  using assms by (simp_all add: takeWhile_append2 dropWhile_append2)

lemma url_target_assembled:
  assumes "CHR '':'' \<notin> set sch" and "list_all host_char host" and "query = [] \<or> hd query = CHR ''?''"
  shows "url_target (sch @ ''://'' @ encode_url_part user @ '':'' @ encode_url_part pw @ ''@'' @ host @ '':''
            @ show_nat port @ ''/'' @ encode_url_part name @ query)
       = \<lparr>tg_scheme = sch, tg_username = user, tg_password = pw, tg_host = host, tg_port = show_nat port,
          tg_name = name, tg_query = query\<rparr>"
proof -
  let ?u = "encode_url_part user" and ?p = "encode_url_part pw" and ?n = "encode_url_part name"
  let ?port = "show_nat port"
  let ?authority = "?u @ '':'' @ ?p @ ''@'' @ host @ '':'' @ ?port"
  have safe: "list_all url_safe (encode_url_part x)" for x by (rule encode_safe)
  have no: "CHR '':'' \<notin> set (encode_url_part x)" for x using safe [of x] by (auto simp: list_all_iff)
  have at: "CHR ''@'' \<notin> set (host @ '':'' @ ?port)"
    using assms(2) show_nat_no_colon(2) [of port] by (auto simp: list_all_iff host_char_def)
  have auth: "\<forall>c \<in> set ?authority. \<not> ends_authority c"
    using safe [of user] safe [of pw] assms(2) show_nat_no_colon(2) [of port]
    by (auto simp: list_all_iff host_char_def ends_authority_def dest: url_safe_host_char)
  have path: "\<forall>c \<in> set ?n. \<not> ends_path c"
    using safe [of name] by (auto simp: list_all_iff ends_path_def)
  have q: "takeWhile (\<lambda>c. \<not> ends_path c) (?n @ query) = ?n" "dropWhile (\<lambda>c. \<not> ends_path c) (?n @ query) = query"
    using path assms(3) by (cases query; simp add: takeWhile_append2 dropWhile_append2 ends_path_def)+
  note a = span_append [of ?authority ends_authority "CHR ''/''" "?n @ query", OF auth]
  have last: "before_last CHR ''@'' ?authority = ?u @ '':'' @ ?p" "after_last CHR ''@'' ?authority = host @ '':'' @ ?port"
    using before_after_last [OF at, of "?u @ '':'' @ ?p"] by simp_all
  have "url_target (sch @ CHR '':'' # ''//'' @ ?authority @ ''/'' @ ?n @ query)
       = \<lparr>tg_scheme = sch, tg_username = user, tg_password = pw, tg_host = host, tg_port = ?port,
          tg_name = name, tg_query = query\<rparr>"
    unfolding url_target_def Let_def before_after [OF assms(1)]
    using a last q no [of user] show_nat_no_colon(1) [of port] by (simp add: ends_authority_def)
  then show ?thesis by simp
qed

text \<open>How the parts of a configuration reach its URL.\<close>

lemma resolved_url_split:
  assumes "resolved_url form_keys cfg = Ok url" and "has_split_connection_fields cfg"
  obtains sch dflt host user pw name query where
    "url_scheme (db_kind cfg) = Ok sch" "default_port (db_kind cfg) = Ok dflt"
    "trim_non_empty (db_host cfg) = Some host" "validate_database_host host = Ok ()"
    "trim_non_empty (db_username cfg) = Some user" "db_password cfg = Some pw" "pw \<noteq> []"
    "trim_non_empty (db_name cfg) = Some name" "query_suffix form_keys (db_query cfg) = Ok query"
    "url = sch @ ''://'' @ encode_url_part user @ '':'' @ encode_url_part (str_trim pw) @ ''@''
           @ format_database_url_host host @ '':'' @ show_nat (case db_port cfg of Some p \<Rightarrow> p | None \<Rightarrow> dflt)
           @ ''/'' @ encode_url_part name @ query"
  using assms
  by (auto simp: resolved_url_def Let_def outcome_simps required_config_field_def required_secret_field_def
      split: if_splits option.splits)

lemma query_suffix_shape:
  "query_suffix form_keys q = Ok s \<Longrightarrow> s = (case trim_non_empty q of None \<Rightarrow> [] | Some t \<Rightarrow> ''?'' @ trim_start_matches CHR ''?'' t)"
  by (auto simp: query_suffix_def outcome_simps split: option.splits)

lemma url_scheme_cases:
  "url_scheme b = Ok sch \<Longrightarrow> b = Postgres \<and> sch = ''postgres'' \<or> b = MySql \<and> sch = ''mysql''"
  by (cases b) auto

lemma resolved_url_target:
  assumes "resolved_url form_keys cfg = Ok url" and "has_split_connection_fields cfg"
  shows "url_target url =
     \<lparr>tg_scheme = as_str (db_kind cfg),
      tg_username = the (trim_non_empty (db_username cfg)),
      tg_password = str_trim (the (db_password cfg)),
      tg_host = format_database_url_host (the (trim_non_empty (db_host cfg))),
      tg_port = show_nat (case db_port cfg of Some p \<Rightarrow> p | None \<Rightarrow> if db_kind cfg = Postgres then 5432 else 3306),
      tg_name = the (trim_non_empty (db_name cfg)),
      tg_query = (case trim_non_empty (db_query cfg) of
                    None \<Rightarrow> [] | Some q \<Rightarrow> ''?'' @ trim_start_matches CHR ''?'' q)\<rparr>"
    and "validate_url_scheme (db_kind cfg) url"
proof -
  obtain sch dflt host user pw name query where
    p: "url_scheme (db_kind cfg) = Ok sch" "default_port (db_kind cfg) = Ok dflt"
    "trim_non_empty (db_host cfg) = Some host" "validate_database_host host = Ok ()"
    "trim_non_empty (db_username cfg) = Some user" "db_password cfg = Some pw"
    "trim_non_empty (db_name cfg) = Some name" "query_suffix form_keys (db_query cfg) = Ok query"
    and url: "url = sch @ ''://'' @ encode_url_part user @ '':'' @ encode_url_part (str_trim pw) @ ''@''
           @ format_database_url_host host @ '':'' @ show_nat (case db_port cfg of Some p \<Rightarrow> p | None \<Rightarrow> dflt)
           @ ''/'' @ encode_url_part name @ query"
    using resolved_url_split [OF assms] by metis
  have q: "query = [] \<or> hd query = CHR ''?''" using query_suffix_shape [OF p(8)] by (auto split: option.splits)
  have colon: "CHR '':'' \<notin> set sch" using url_scheme_cases [OF p(1)] by auto
  show "url_target url =
     \<lparr>tg_scheme = as_str (db_kind cfg),
      tg_username = the (trim_non_empty (db_username cfg)),
      tg_password = str_trim (the (db_password cfg)),
      tg_host = format_database_url_host (the (trim_non_empty (db_host cfg))),
      tg_port = show_nat (case db_port cfg of Some p \<Rightarrow> p | None \<Rightarrow> if db_kind cfg = Postgres then 5432 else 3306),
      tg_name = the (trim_non_empty (db_name cfg)),
      tg_query = (case trim_non_empty (db_query cfg) of
                    None \<Rightarrow> [] | Some q \<Rightarrow> ''?'' @ trim_start_matches CHR ''?'' q)\<rparr>"
    using url_target_assembled [OF colon valid_host_chars [OF p(4)] q] url_scheme_cases [OF p(1)] p(2,3,5,6,7)
      query_suffix_shape [OF p(8)] unfolding url by auto
  show "validate_url_scheme (db_kind cfg) url"
    using url_scheme_cases [OF p(1)] unfolding url by (auto simp: validate_url_scheme_def starts_with_def)
qed

section \<open>Properties\<close>


definition sample_database :: database_config where
  "sample_database =
     \<lparr>db_url = None, db_host = Some ''::1'', db_port = None, db_username = Some ''app@eu'',
      db_password = Some ''p:/?#%'', db_password_file = None, db_name = Some ''status'', db_query = Some ''?sslmode=require'',
      db_kind = Postgres,
      db_pool = \<lparr>dp_max_connections = 5, dp_min_connections = 1, dp_acquire_timeout_secs = 5,
        dp_connect_timeout_secs = 10, dp_idle_timeout_secs = 600, dp_max_lifetime_secs = 1800\<rparr>\<rparr>"

lemma sample_trims:
  "str_trim ''::1'' = ''::1''" "str_trim ''app@eu'' = ''app@eu''" "str_trim ''p:/?#%'' = ''p:/?#%''"
  "str_trim ''status'' = ''status''" "str_trim ''?sslmode=require'' = ''?sslmode=require''"
  by code_simp+

lemma sample_ipv6: "is_ipv6 ''::1''"
  by (simp add: is_ipv6_def read_groups.simps read_separator_def read_number_def read_ipv4_addr_def read_octet_def
      digit_value_def is_ascii_digit_def is_ascii_upper_def is_ascii_lower_def)

lemma sample_query: "validate_query_key ''sslmode'' = Ok ()"
  by code_simp


text \<open>What a DNS provider needs to be used.\<close>

definition configured_dns :: "dns_config \<Rightarrow> string \<Rightarrow> resolved_dns_provider option" where
  "configured_dns cfg app_env =
     (case dns_kind cfg app_env of
        Route53 \<Rightarrow> Some RRoute53
      | Pebble \<Rightarrow> Some RPebble
      | Cloudflare \<Rightarrow> map_option RCloudflare (dc_cloudflare cfg)
      | Gcloud \<Rightarrow> map_option RGcloud (dc_gcloud cfg)
      | Azure \<Rightarrow> map_option RAzure (dc_azure cfg)
      | Acmedns \<Rightarrow> map_option RAcmedns (dc_acmedns cfg))"

definition filled :: "string \<Rightarrow> bool" where
  "filled s \<longleftrightarrow> str_trim s \<noteq> []"

definition account_complete :: "acme_dns_account \<Rightarrow> bool" where
  "account_complete a \<longleftrightarrow> filled (aa_username a) \<and> filled (aa_password a) \<and> filled (aa_subdomain a)"

definition names_domain :: "string \<Rightarrow> bool" where
  "names_domain d \<longleftrightarrow> list_ex (\<lambda>c. c \<noteq> CHR ''.'')
     (if take 2 (str_trim d) = ''*.'' then drop 2 (str_trim d) else str_trim d)"

fun usable_dns :: "resolved_dns_provider \<Rightarrow> bool" where
  "usable_dns RRoute53 = True"
| "usable_dns RPebble = True"
| "usable_dns (RCloudflare c) = filled (cd_api_token c)"
| "usable_dns (RGcloud g) = filled (gd_project_id g)"
| "usable_dns (RAzure a) = (filled (ad_subscription_id a) \<and> filled (ad_resource_group a))"
| "usable_dns (RAcmedns a) =
     (filled (adc_server_url a)
      \<and> (case default_account a of
           Some acc \<Rightarrow> account_complete acc
         | None \<Rightarrow> list_all (\<lambda>f. \<not> list_ex filled (case f of Some v \<Rightarrow> [v] | None \<Rightarrow> []))
                     [adc_username a, adc_password a, adc_subdomain a] \<and> adc_accounts a \<noteq> [])
      \<and> list_all (\<lambda>(domain, acc). names_domain domain \<and> account_complete acc) (adc_accounts a))"

lemma trim_end_matches_empty: "trim_end_matches c s = [] \<longleftrightarrow> \<not> list_ex (\<lambda>d. d \<noteq> c) s"
  by (auto simp: trim_end_matches_def dropWhile_eq_Nil_conv list_ex_iff)

lemma validate_account_Ok:
  "validate_account f (domain, a) = Ok () \<longleftrightarrow> names_domain domain \<and> account_complete a"
  by (auto simp: validate_account_def Let_def strip_prefix_def trim_end_matches_empty names_domain_def
      account_complete_def filled_def empty_fields_def numeral_2_eq_2)

lemma validate_accounts_Ok:
  "validate_accounts f es = Ok () \<longleftrightarrow> list_all (\<lambda>(domain, acc). names_domain domain \<and> account_complete acc) es"
proof (induction es)
  case (Cons e es)
  then show ?case by (cases e) (auto simp: outcome_simps validate_account_Ok)
qed simp

lemma validate_dns_not_Panic [simp]:
  "validate_accounts f es \<noteq> Panic" "validate_acme_dns f c \<noteq> Panic" "validate_azure_dns a \<noteq> Panic"
  "validate_gcloud_dns g \<noteq> Panic" "validate_cloudflare_dns cl \<noteq> Panic"
proof -
  show accs: "validate_accounts f es \<noteq> Panic" for f es
    by (induction es) (auto simp: outcome_simps validate_account_def Let_def split: if_splits)
  show "validate_acme_dns f c \<noteq> Panic" using accs by (simp add: validate_acme_dns_def Let_def)
qed (simp_all add: validate_azure_dns_def validate_gcloud_dns_def validate_cloudflare_dns_def Let_def)

lemma validate_acme_dns_Ok: "validate_acme_dns f c = Ok () \<longleftrightarrow> usable_dns (RAcmedns c)"
proof -
  have ne: "non_empty v = None \<longleftrightarrow> \<not> list_ex filled (case v of Some s \<Rightarrow> [s] | None \<Rightarrow> [])"
    "non_empty v = Some s \<longleftrightarrow> v = Some s \<and> filled s" for v s
    by (auto simp: non_empty_def filled_def split: option.splits)
  have blank: "str_trim s = [] \<longleftrightarrow> \<not> filled s" for s by (simp add: filled_def)
  show ?thesis
    by (cases "default_account c")
      (auto simp: validate_acme_dns_def default_account_def Let_def validate_accounts_Ok ne account_complete_def
        blank bind_eq_None_conv bind_eq_Some_conv split: option.splits)
qed

text \<open>
  The server starts with a DNS provider exactly when the selected one (by name, or Route 53 in
  production and Pebble elsewhere) has its settings and they are complete: no blank token,
  project, subscription or group; for ACME-DNS a server, a default account that is complete or
  wholly absent, some account at all, and per-domain accounts that name a domain and have all
  three fields. What it starts with is the selected provider with its own settings.
\<close>

theorem resolve_gives_usable_provider:
  "(resolve fmt_debug cfg app_env = Ok p) = (configured_dns cfg app_env = Some p \<and> usable_dns p)
   \<and> resolve fmt_debug cfg app_env \<noteq> Panic"
proof
  show "resolve fmt_debug cfg app_env \<noteq> Panic"
    unfolding resolve_def Let_def by (cases "dns_kind cfg app_env") (auto simp: outcome_simps)
  have simple: "validate_azure_dns a = Ok () \<longleftrightarrow> usable_dns (RAzure a)"
    "validate_gcloud_dns g = Ok () \<longleftrightarrow> usable_dns (RGcloud g)"
    "validate_cloudflare_dns c = Ok () \<longleftrightarrow> usable_dns (RCloudflare c)" for a g c
    by (auto simp: validate_azure_dns_def validate_gcloud_dns_def validate_cloudflare_dns_def empty_fields_def
        Let_def filled_def)
  show "(resolve fmt_debug cfg app_env = Ok p) = (configured_dns cfg app_env = Some p \<and> usable_dns p)"
    unfolding resolve_def configured_dns_def Let_def
    by (cases "dns_kind cfg app_env")
      (auto simp: outcome_simps simple validate_acme_dns_Ok simp del: usable_dns.simps(3-6))
qed

text \<open>
  A password of white space only: as \<open>database.password\<close> it counts as present, is trimmed
  afterwards and ends up as an empty password in the URL; as the content of
  \<open>database.password_file\<close> it is trimmed first and refused as missing.
\<close>

definition blank_password :: "bool \<Rightarrow> database_config" where
  "blank_password in_file =
     (if in_file then sample_database\<lparr>db_password := None, db_password_file := Some ''/run/db''\<rparr>
      else sample_database\<lparr>db_password := Some '' ''\<rparr>)"

theorem blank_password_divergence:
  "(\<exists>url. load_resolved_url (\<lambda>_. [''sslmode'']) (\<lambda>_. Inr '' '') (blank_password False) = Ok url
      \<and> tg_password (url_target url) = [])
   \<and> load_resolved_url (\<lambda>_. [''sslmode'']) (\<lambda>_. Inr '' '') (blank_password True)
      = Err ''Missing required config field: database.password''"
proof -
  have blank: "str_trim '' '' = []" by code_simp
  note eval = sample_database_def required_config_field_def required_secret_field_def
        trim_non_empty_def sample_trims validate_database_host_def database_host_is_ipv6_def query_suffix_def
        validate_database_query_def trim_start_matches_def load_resolved_url_def blank_password_def blank
  have split: "has_split_connection_fields (blank_password b)" for b
    by (simp add: has_split_connection_fields_def sample_database_def blank_password_def)
  obtain url where url: "resolved_url (\<lambda>_. [''sslmode'']) (blank_password False) = Ok url"
    using split [of False] sample_query sample_ipv6 by (simp add: resolved_url_def eval)
  have "tg_password (url_target url) = []"
    unfolding resolved_url_target(1) [OF url split] by (simp add: eval)
  moreover have "resolved_url (\<lambda>_. [''sslmode'']) ((blank_password True)\<lparr>db_password := Some []\<rparr>)
      = Err ''Missing required config field: database.password''"
    using sample_ipv6 by (simp add: resolved_url_def has_split_connection_fields_def eval is_blank_def)
  ultimately show ?thesis using url by (simp add: load_resolved_url_def blank_password_def sample_database_def blank)
qed

end
