(* ===== verification/Setup_Spec.thy ===== *)
theory Setup_Spec
  imports Setup Server_Spec Sql_Spec Config_Spec
begin

text \<open>
  What the assembled server promises: the SQL deployment meets the contracts of the request
  layer, start-up errors do not disclose the database password, the server only starts with
  sound signing material, and the clean-up job removes what has outlived its retention.
\<close>

section \<open>The cache adapter\<close>

text \<open>
  What \<open>moka\<close> documents, on the cached records of the view: a lookup returns what was inserted
  last under the key, an invalidated key is gone, and entries may be evicted at any time.
\<close>

definition moka_ok :: "'s moka \<Rightarrow> ('s \<Rightarrow> store) \<Rightarrow> ('s \<Rightarrow> bool) \<Rightarrow> bool" where
  "moka_ok inner view ok \<longleftrightarrow>
     (\<forall>k s r s'. ok s \<and> mk_get inner k s = (r, s') \<longrightarrow>
        ok s' \<and> (\<exists>c. c \<subseteq>\<^sub>m st_cache (view s) \<and> view s' = (view s)\<lparr>st_cache := c\<rparr>)
        \<and> (\<forall>x. r = Some x \<longrightarrow> st_cache (view s) k = Some x))
     \<and> (\<forall>k x s. ok s \<longrightarrow> ok (mk_insert inner k x s)
        \<and> (\<exists>c. c \<subseteq>\<^sub>m (st_cache (view s))(k \<mapsto> x) \<and> view (mk_insert inner k x s) = (view s)\<lparr>st_cache := c\<rparr>))
     \<and> (\<forall>k s. ok s \<longrightarrow> ok (mk_invalidate inner k s)
        \<and> (\<exists>c. c \<subseteq>\<^sub>m st_cache (view s) \<and> c k = None \<and> view (mk_invalidate inner k s) = (view s)\<lparr>st_cache := c\<rparr>))"

lemma moka_cache_contract:
  assumes "moka_ok inner view ok"
  shows "cache_contract (moka_cache inner) view ok"
proof (unfold_locales, goal_cases)
  case (1 k s res s')
  obtain r s1 where r: "mk_get inner k s = (r, s1)" by fastforce
  then have "res = Ok r" "s' = s1" using 1(2) by (auto simp: moka_cache_def)
  moreover have "ok s1 \<and> (\<exists>c. c \<subseteq>\<^sub>m st_cache (view s) \<and> view s1 = (view s)\<lparr>st_cache := c\<rparr>)
        \<and> (\<forall>x. r = Some x \<longrightarrow> st_cache (view s) k = Some x)"
    using assms 1(1) r unfolding moka_ok_def by blast
  ultimately show ?case by auto
next
  case (2 r s res s')
  then have "res = Ok ()" "s' = mk_insert inner (slr_list_id r) r s" by (auto simp: moka_cache_def)
  then show ?case using assms 2(1) unfolding moka_ok_def by auto
next
  case (3 k s res s')
  then have "res = Ok ()" "s' = mk_invalidate inner k s" by (auto simp: moka_cache_def)
  moreover have "ok (mk_invalidate inner k s) \<and> (\<exists>c. c \<subseteq>\<^sub>m st_cache (view s) \<and> c k = None
        \<and> view (mk_invalidate inner k s) = (view s)\<lparr>st_cache := c\<rparr>)"
    using assms 3(1) unfolding moka_ok_def by blast
  ultimately show ?case by auto
qed

section \<open>The SQL deployment\<close>

lemma inline_contract: "certificate_contract (inline_provider material) view ok"
  by unfold_locales (auto simp: inline_provider_def)

abbreviation sql_norm :: "('jwk, 'json) jwk_json \<Rightarrow> public_jwk \<Rightarrow> public_jwk" where
  "sql_norm jx \<equiv> \<lambda>b. projr (jwk_to_vec jx (projr (jwk_from_slice jx b)))"

lemma sql_service_contract:
  assumes "database_ok db jx view pending ok rows" and "moka_ok inner view ok"
  shows "server_contract (sql_service config jx db rows inner (inline_provider material)) view ok (sql_norm jx)"
proof -
  have "list_repo_contract (sql_status_list_repo db) view ok" "snapshot_repo_contract (sql_snapshot_repo db rows) view ok"
    "credential_repo_contract (sql_credential_repo jx db) view ok (sql_norm jx)"
    using assms(1) sql_list_repo sql_snapshot_repo sql_credential_repo unfolding database_ok_def by blast+
  then show ?thesis
    using moka_cache_contract [OF assms(2)] inline_contract [of material view ok]
    by (auto simp: server_contract_def service_contract_def service_contract_axioms_def sql_service_def
        build_service_def split: if_splits)
qed

lemma build_app_state_service [simp]: "app_service (build_app_state config sv) = sv"
  by (simp add: build_app_state_def)

text \<open>The database of \<open>Sql_Spec\<close> with a cache beside it.\<close>

definition tables_moka :: "tables moka" where
  "tables_moka =
     \<lparr>mk_get = (\<lambda>k s. (st_cache (tb_committed s) k, s)),
      mk_insert = (\<lambda>k x s. s\<lparr>tb_committed := (tb_committed s)\<lparr>st_cache := (st_cache (tb_committed s))(k \<mapsto> x)\<rparr>\<rparr>),
      mk_invalidate = (\<lambda>k s. s\<lparr>tb_committed := (tb_committed s)\<lparr>st_cache := (st_cache (tb_committed s))(k := None)\<rparr>\<rparr>)\<rparr>"

lemma tables_moka_ok: "moka_ok tables_moka tb_committed tables_ok"
proof -
  have le: "(m :: string \<rightharpoonup> status_list_record)(k := None) \<subseteq>\<^sub>m m" for m k by (auto simp: map_le_def)
  have get: "\<exists>c. c \<subseteq>\<^sub>m st_cache st \<and> st = st\<lparr>st_cache := c\<rparr>" for st :: store
    by (rule exI [of _ "st_cache st"]) simp
  have ins: "\<exists>c. c \<subseteq>\<^sub>m (st_cache st)(k \<mapsto> x) \<and> st\<lparr>st_cache := (st_cache st)(k \<mapsto> x)\<rparr> = st\<lparr>st_cache := c\<rparr>"
    for st :: store and k x by (rule exI [of _ "(st_cache st)(k \<mapsto> x)"]) simp
  have inv: "\<exists>c. c \<subseteq>\<^sub>m st_cache st \<and> c k = None \<and> st\<lparr>st_cache := (st_cache st)(k := None)\<rparr> = st\<lparr>st_cache := c\<rparr>"
    for st :: store and k by (rule exI [of _ "(st_cache st)(k := None)"]) (simp add: le)
  show ?thesis
    unfolding moka_ok_def using get ins inv by (simp add: tables_moka_def tables_ok_def)
qed

text \<open>A deployment for the examples: retention of an hour, the sample limits.\<close>

definition sample_config :: app_config where
  "sample_config =
     \<lparr>ac_server = \<lparr>sc_host = ''localhost'', sc_domain = ''h'', sc_port = 8000,
        sc_cert = \<lparr>cc_email = [], cc_organization = None, cc_eku = [], cc_acme_directory_url = [],
          cc_signing_key_cache_ttl = 0, cc_renewal_cron_schedule = [], cc_dns_challenge_server_url = None,
          cc_store = \<lparr>cs_certificate_path = None, cs_signing_key_path = None, cs_certificate = Some ''a'', cs_signing_key = Some ''a''\<rparr>,
          cc_dns = \<lparr>dc_provider = None, dc_cloudflare = None, dc_gcloud = None, dc_azure = None, dc_acmedns = None\<rparr>\<rparr>,
        sc_enable_metrics = False, sc_aggregation_uri = None\<rparr>,
      ac_database = sample_database,
      ac_vault = \<lparr>vc_auth_method = Approle, vc_addr = [], vc_role_id = [], vc_secret_id = None, vc_secret_id_path = None,
        vc_auth_mount = [], vc_k8s_role = None, vc_k8s_token_path = [], vc_k8s_auth_mount = [], vc_mount = [],
        vc_path_prefix = [], vc_namespace = None, vc_timeout_secs = 30\<rparr>,
      ac_cache = \<lparr>cac_ttl = 300, cac_max_capacity = 100\<rparr>,
      ac_status_list = \<lparr>slc_token_exp_secs = 60, slc_token_ttl_secs = 30, slc_snapshot_retention_secs = 3600\<rparr>,
      ac_management_auth = \<lparr>mas_leeway_secs = 60, mas_max_token_lifetime_secs = 3600, mas_audiences = []\<rparr>,
      ac_limits = \<lparr>lc_max_body_size_bytes = 1000, lc_max_status_index = 100, lc_max_statuses_per_request = 10,
        lc_max_serialized_list_size = 100\<rparr>,
      ac_watcher = \<lparr>wc_poll_interval_secs = 30\<rparr>\<rparr>"

abbreviation sample_rows :: "tables \<Rightarrow> nat" where
  "sample_rows \<equiv> \<lambda>s. card (dom (st_snaps (tb_committed s)))"

abbreviation sample_sql :: "tables service" where
  "sample_sql \<equiv> sql_service sample_config bytes_json tables_db sample_rows tables_moka
     (inline_provider \<lparr>sm_certificate_chain = Some [''c''], sm_signing_key_pem = ''k''\<rparr>)"

definition sample_sql_state :: tables where
  "sample_sql_state = \<lparr>tb_committed = memory_view sample_store, tb_pending = (\<lambda>_. memory_view sample_store)\<rparr>"

lemma sample_sql_ok: "tables_ok sample_sql_state" "store_ok plain_codec (tb_committed sample_sql_state)"
  using sample_store_ok(2)
  by (simp_all add: tables_ok_def sample_sql_state_def sample_store_def memory_view_def empty_memory_def)

section \<open>Properties\<close>

text \<open>
  C29. The SQL deployment is sound and protects its lists like the in-memory one: on every database
  that keeps to its documentation, with every cache that may forget but not invent, a request
  leaves the store sound, whether it succeeds or not, and if it changes what is stored under a
  list identifier it was a PUT or PATCH on that list, its token was accepted under the key
  registered for the issuer it names and met the policy, and the list belongs to that issuer
  afterwards and did so before, if it existed.
\<close>

theorem sql_server_protects_lists:
  assumes "database_ok db jx view pending ok rows" and "moka_ok inner view ok"
    and "codec_ok cx" and "codec_empty_ok cx" and "request_fits cx (su, req)" and "jwt_checks_issuer (su_jwt su)"
    and "ok s" and "store_ok cx (view s)"
    and "run (handle_request su (build_app_state config
           (sql_service config jx db rows inner (inline_provider material))) req) s = (resp, s')"
  defines "cfg \<equiv> management_auth_from (ac_management_auth config)"
  shows "ok s' \<and> store_ok cx (view s')
     \<and> (\<forall>j. st_lists (view s') j \<noteq> st_lists (view s) j \<longrightarrow>
          hr_path req = [''api'', ''v1'', ''status-lists'', j, ''statuses''] \<and> hr_method req \<in> {PUT, PATCH}
          \<and> (\<exists>p claims now r'. signed_by (su_jwt su) cfg (st_creds (view s)) (rq_authorization (hr_headers req)) p claims
               \<and> su_clock su = Some now
               \<and> validate_policy claims now (ma_leeway_secs cfg) (ma_max_token_lifetime_secs cfg) = Ok ()
               \<and> st_lists (view s') j = Some r' \<and> slr_issuer r' = p
               \<and> (\<forall>r. st_lists (view s) j = Some r \<longrightarrow> slr_issuer r = p)))"
proof -
  let ?sv = "sql_service config jx db rows inner (inline_provider material)"
  let ?state = "build_app_state config ?sv"
  note contract = sql_service_contract [OF assms(1,2), of config material]
  have cfg: "app_management_auth ?state = cfg" by (simp add: build_app_state_def cfg_def)
  have fits: "amb_codec (he_ambient (su_env su)) = cx"
    "hr_statuses req = Inr es \<Longrightarrow> list_all (\<lambda>e. in_i32 (re_index e)) es" for es
    using assms(5) by (auto simp: request_fits_def)
  have keeps: "keeps view ok cx (handle_request su ?state req)"
    by (rule server_contract.handle_request_keeps [OF contract _ fits(1) assms(3,4)]) (auto dest: fits(2))
  have sound: "ok s' \<and> store_ok cx (view s')"
    using movesD [OF keeps [unfolded keeps_def] _ assms(9)] assms(7,8) by blast
  have creds: "st_creds (view s) i = Some c \<Longrightarrow> cr_issuer c = i" for i c
    using assms(8) by (simp add: store_ok_def)
  have "hr_path req = [''api'', ''v1'', ''status-lists'', j, ''statuses''] \<and> hr_method req \<in> {PUT, PATCH}
          \<and> (\<exists>p claims now r'. signed_by (su_jwt su) cfg (st_creds (view s)) (rq_authorization (hr_headers req)) p claims
               \<and> su_clock su = Some now
               \<and> validate_policy claims now (ma_leeway_secs cfg) (ma_max_token_lifetime_secs cfg) = Ok ()
               \<and> st_lists (view s') j = Some r' \<and> slr_issuer r' = p
               \<and> (\<forall>r. st_lists (view s) j = Some r \<longrightarrow> slr_issuer r = p))"
    if changed: "st_lists (view s') j \<noteq> st_lists (view s) j" for j
  proof -
    have "owner_change su ?state req (view s) (view s')"
      using server_contract.handle_request_outcome [OF contract assms(7,9) _ assms(8)] changed by auto
    then obtain k p where k: "hr_path req = [''api'', ''v1'', ''status-lists'', k, ''statuses'']" "hr_method req \<in> {PUT, PATCH}"
      and adm: "admitted (su_jwt su) (su_clock su) cfg (st_creds (view s)) (rq_authorization (hr_headers req)) p"
      and own: "own_change p k (st_lists (view s)) (st_lists (view s'))"
      unfolding owner_change_def cfg by blast
    have "k = j" using own changed by (metis own_change_def)
    then show ?thesis using k admitted_signed [OF adm assms(6) creds] own changed by (auto simp: own_change_def)
  qed
  then show ?thesis using sound by blast
qed

theorem sql_server_protects_lists_witness:
  "store_ok plain_codec (tb_committed (snd (run (handle_request sample_surroundings
     (build_app_state sample_config sample_sql) sample_patch) sample_sql_state)))"
proof -
  have "request_fits plain_codec (sample_surroundings, sample_patch)"
    by (simp add: request_fits_def sample_surroundings_def sample_env_def sample_patch_def sample_request_def in_i32_def)
  moreover have "jwt_checks_issuer (su_jwt sample_surroundings)"
    using sample_jwt_checks by (simp add: sample_surroundings_def)
  ultimately show ?thesis
    using sql_server_protects_lists [OF tables_db_ok tables_moka_ok plain_codec_ok _ _ sample_sql_ok surjective_pairing]
    by blast
qed

section \<open>Secrets in error reports\<close>

lemma redacted_target_cong:
  assumes "has_split_connection_fields c = has_split_connection_fields c'" "db_kind c = db_kind c'"
    "db_host c = db_host c'" "db_name c = db_name c'" "db_port c = db_port c'"
  shows "redacted_target c = redacted_target c'"
  unfolding redacted_target_def assms ..

lemma resolved_url_password:
  assumes "p \<noteq> []" "p' \<noteq> []"
  shows "(case resolved_url fk (cfg\<lparr>db_password := Some p\<rparr>) of
            Ok u \<Rightarrow> \<exists>u'. resolved_url fk (cfg\<lparr>db_password := Some p'\<rparr>) = Ok u'
                      \<and> validate_url_scheme (db_kind cfg) u \<and> validate_url_scheme (db_kind cfg) u'
          | Err e \<Rightarrow> resolved_url fk (cfg\<lparr>db_password := Some p'\<rparr>) = Err e
          | Panic \<Rightarrow> resolved_url fk (cfg\<lparr>db_password := Some p'\<rparr>) = Panic)"
proof -
  let ?c = "\<lambda>p. cfg\<lparr>db_password := Some p\<rparr>"
  have split: "has_split_connection_fields (?c q)" if "q \<noteq> []" for q
    using that by (simp add: has_split_connection_fields_def)
  have valid: "validate_url_scheme (db_kind cfg) u" if "resolved_url fk (?c q) = Ok u" "q \<noteq> []" for u q
    using resolved_url_target(2) [OF that(1) split [OF that(2)]] by simp
  have cong: "(case resolved_url fk (?c p) of Ok u \<Rightarrow> \<exists>u'. resolved_url fk (?c p') = Ok u'
        | Err e \<Rightarrow> resolved_url fk (?c p') = Err e | Panic \<Rightarrow> resolved_url fk (?c p') = Panic)"
    using assms split [OF assms(1)] split [OF assms(2)]
    by (auto simp: resolved_url_def required_secret_field_def Let_def outcome_simps split: outcome.splits)
  then show ?thesis using valid assms by (auto split: outcome.splits)
qed

lemma resolved_given_url:
  "db_url c = Some q \<Longrightarrow> resolved_url fk c =
     (if has_split_connection_fields c
      then Err (''Ambiguous database configuration: use either database.url or split database fields, '' @ ''not both'')
      else Ok q)"
  by (simp add: resolved_url_def)

text \<open>What a failed connection with a complete URL reports.\<close>

definition connect_report ::
  "(string \<Rightarrow> string list) \<Rightarrow> connect_error \<Rightarrow> database_config \<Rightarrow> bool \<Rightarrow> ('conn, string list) outcome" where
  "connect_report fk kind cfg ambiguous =
     (if ambiguous
      then Err [''Invalid database connection configuration'',
             ''Ambiguous database configuration: use either database.url or split database fields, '' @ ''not both'']
      else Err [''Failed to connect to database (kind='' @ classify_db_connect_error kind @ '', ''
             @ redacted_target cfg @ '')''])"

text \<open>
  C33. A database password never reaches an error report. When the connection fails with some
  error kind, the report is the same whatever the password: for two passwords in the
  configuration, for two contents of the password file, and for two complete URLs of the
  configured scheme. The report can depend on the kind of the driver's error only, not on its
  text.
\<close>

theorem connect_errors_hide_the_password:
  assumes "p \<noteq> []" and "p' \<noteq> []"
  shows "connect_database_pool fk files (\<lambda>_. Inl kind) (cfg\<lparr>db_password_file := None, db_password := Some p\<rparr>)
       = connect_database_pool fk files (\<lambda>_. Inl kind :: connect_error + 'conn)
           (cfg\<lparr>db_password_file := None, db_password := Some p'\<rparr>)
     \<and> (str_trim p \<noteq> [] \<longrightarrow> str_trim p' \<noteq> [] \<longrightarrow>
         connect_database_pool fk (files(path := Inr p)) (\<lambda>_. Inl kind) (cfg\<lparr>db_password_file := Some path\<rparr>)
       = connect_database_pool fk (files(path := Inr p')) (\<lambda>_. Inl kind :: connect_error + 'conn)
           (cfg\<lparr>db_password_file := Some path\<rparr>))
     \<and> (validate_url_scheme (db_kind cfg) p \<longrightarrow> validate_url_scheme (db_kind cfg) p' \<longrightarrow>
         connect_database_pool fk files (\<lambda>_. Inl kind) (cfg\<lparr>db_url := Some p\<rparr>)
       = connect_database_pool fk files (\<lambda>_. Inl kind :: connect_error + 'conn) (cfg\<lparr>db_url := Some p'\<rparr>))"
proof -
  have red: "redacted_target (c\<lparr>db_password := Some q\<rparr>) = redacted_target (c\<lparr>db_password := Some q'\<rparr>)"
    if "q \<noteq> []" "q' \<noteq> []" for c q q'
    using that by (intro redacted_target_cong) (simp_all add: has_split_connection_fields_def)
  have inline: "connect_database_pool fk files (\<lambda>_. Inl kind) (c\<lparr>db_password := Some p\<rparr>)
       = connect_database_pool fk files (\<lambda>_. Inl kind :: connect_error + 'conn) (c\<lparr>db_password := Some p'\<rparr>)"
    if "db_password_file c = None" for c
    using resolved_url_password [OF assms, of fk c] red [OF assms, of c] that
    by (auto simp: connect_database_pool_def load_resolved_url_def split: outcome.splits)
  have from_file: "connect_database_pool fk (files(path := Inr p)) (\<lambda>_. Inl kind) (cfg\<lparr>db_password_file := Some path\<rparr>)
       = connect_database_pool fk (files(path := Inr p')) (\<lambda>_. Inl kind :: connect_error + 'conn)
           (cfg\<lparr>db_password_file := Some path\<rparr>)"
    if "str_trim p \<noteq> []" "str_trim p' \<noteq> []"
    using resolved_url_password [OF that, of fk "cfg\<lparr>db_password_file := Some path\<rparr>"]
    by (auto simp: connect_database_pool_def load_resolved_url_def split: outcome.splits)
  have red_url: "redacted_target (cfg\<lparr>db_url := Some q\<rparr>) = redacted_target cfg" for q
    by (intro redacted_target_cong) (simp_all add: has_split_connection_fields_def)
  have same: "has_split_connection_fields (cfg\<lparr>db_url := Some q, db_password := w\<rparr>)
      = has_split_connection_fields (cfg\<lparr>db_password := w\<rparr>)"
    "has_split_connection_fields (cfg\<lparr>db_url := Some q\<rparr>) = has_split_connection_fields cfg" for q w
    by (simp_all add: has_split_connection_fields_def)
  have report: "connect_database_pool fk files (\<lambda>_. Inl kind :: connect_error + 'conn) (cfg\<lparr>db_url := Some q\<rparr>) =
      (case db_password_file cfg of
         None \<Rightarrow> connect_report fk kind cfg (has_split_connection_fields cfg)
       | Some path \<Rightarrow>
           (case files path of
              Inl err \<Rightarrow> Err [''Invalid database connection configuration'',
                  ''Failed to read database.password_file '' @ quoted path @ '': '' @ err]
            | Inr w \<Rightarrow> connect_report fk kind cfg (has_split_connection_fields (cfg\<lparr>db_password := Some (str_trim w)\<rparr>))))"
    if "validate_url_scheme (db_kind cfg) q" for q
    using that
    by (cases "db_password_file cfg"; cases "files (the (db_password_file cfg))")
      (simp_all add: connect_database_pool_def load_resolved_url_def resolved_given_url same red_url connect_report_def)
  have url: "connect_database_pool fk files (\<lambda>_. Inl kind) (cfg\<lparr>db_url := Some p\<rparr>)
       = connect_database_pool fk files (\<lambda>_. Inl kind :: connect_error + 'conn) (cfg\<lparr>db_url := Some p'\<rparr>)"
    if "validate_url_scheme (db_kind cfg) p" "validate_url_scheme (db_kind cfg) p'"
    using report [OF that(1)] report [OF that(2)] by simp
  show ?thesis using inline [of "cfg\<lparr>db_password_file := None\<rparr>"] from_file url by simp
qed

theorem connect_errors_hide_the_password_witness:
  "connect_database_pool (\<lambda>_. [''sslmode'']) Inr (\<lambda>_. Inl Conn :: connect_error + unit)
     (sample_database\<lparr>db_password_file := None, db_password := Some ''secret''\<rparr>)
   = connect_database_pool (\<lambda>_. [''sslmode'']) Inr (\<lambda>_. Inl Conn)
     (sample_database\<lparr>db_password_file := None, db_password := Some ''other''\<rparr>)
   \<and> connect_database_pool (\<lambda>_. [''sslmode'']) (Inr(''/f'' := Inr ''secret'')) (\<lambda>_. Inl Conn :: connect_error + unit)
       (sample_database\<lparr>db_password_file := Some ''/f''\<rparr>)
   = connect_database_pool (\<lambda>_. [''sslmode'']) (Inr(''/f'' := Inr ''other'')) (\<lambda>_. Inl Conn)
       (sample_database\<lparr>db_password_file := Some ''/f''\<rparr>)"
proof -
  have "str_trim ''secret'' \<noteq> []" "str_trim ''other'' \<noteq> []" by code_simp+
  then show ?thesis
    using connect_errors_hide_the_password [of "''secret''" "''other''" "\<lambda>_. [''sslmode'']" Inr Conn sample_database "''/f''",
        where 'conn = unit]
    by simp
qed

text \<open>
  A server without ACME only starts with sound signing material from one source: it starts
  exactly when either both file paths are set and neither value, or both values and neither path,
  and the certificate and key found there load and validate; the material it starts with has a
  non-empty chain whose leaf is over its own key. Blank settings count as absent.
\<close>

theorem startup_material_sound:
  "(initial_signing_material cr xl files store = Ok m) =
     (sound_material cr xl m
      \<and> (\<exists>cert_pem key_pem.
        make_signing_material cr xl cert_pem key_pem = Ok m
        \<and> (case (non_empty (cs_certificate_path store), non_empty (cs_signing_key_path store),
                 non_empty (cs_certificate store), non_empty (cs_signing_key store)) of
             (Some cp, Some kp, None, None) \<Rightarrow> files cp = Inr cert_pem \<and> files kp = Inr key_pem
           | (None, None, Some ci, Some ki) \<Rightarrow> ci = cert_pem \<and> ki = key_pem
           | _ \<Rightarrow> False)))"
  using make_signing_material_sound [of cr xl]
  by (auto simp: initial_signing_material_def select_cert_source_def Let_def outcome_simps inline_provider_new_def
      provider_from_files_def load_and_validate_signing_material_def split: option.splits)

section \<open>The clean-up job\<close>



text \<open>
  A retention beyond the signed range turns into its opposite: the largest value of the setting,
  the obvious way to keep snapshots forever, makes the cut-off one second after now, so that
  every snapshot goes as soon as it has expired.
\<close>

theorem largest_retention_keeps_nothing:
  assumes "app_snapshot_retention_secs state = 2 ^ 64 - 1" and "in_i64 (now + 1)"
  shows "cleanup_job now state = pbind (cleanup_snapshots (app_service state) (now + 1)) (\<lambda>r. Ret (case r of
          Ok deleted \<Rightarrow> Cleaned deleted (now + 1)
        | Err (Contention code) \<Rightarrow> LostLockRace code
        | _ \<Rightarrow> CleanupFailed))"
proof -
  have "u64_as_i64 (2 ^ 64 - 1) = - 1" by (simp add: u64_as_i64_def wrap_i64_def)
  then have "wrap_i64 (now - u64_as_i64 (2 ^ 64 - 1)) = now + 1" using assms(2) by (simp add: rust_arith)
  then show ?thesis using assms(1) by (simp add: cleanup_job_def Let_def)
qed

section \<open>Database errors\<close>

text \<open>The four codes with which a database reports that a transaction lost a lock race.\<close>

fun lost_race :: "db_err_shape \<Rightarrow> bool" where
  "lost_race (ExecError (PostgresError code)) = (code = ''40001'' \<or> code = ''40P01'')"
| "lost_race (QueryError (PostgresError code)) = (code = ''40001'' \<or> code = ''40P01'')"
| "lost_race (ExecError (MySqlError number)) = (number = 1205 \<or> number = 1213)"
| "lost_race (QueryError (MySqlError number)) = (number = 1205 \<or> number = 1213)"
| "lost_race _ = False"

lemma contention_code_lost_race: "(\<exists>code. contention_code e = Some code) = lost_race (de_shape e)"
  by (cases "de_shape e" rule: lost_race.cases)
    (auto simp: contention_code_def classify_postgres_def classify_mysql_def)

definition error_response :: "repository_error \<Rightarrow> response" where
  "error_response e = api_error_into_response (status_list_api_error (status_list_error_from e))"

lemma api_error_responses [simp]:
  "api_error_into_response internal \<noteq> api_error_into_response write_contention"
  by (simp add: api_error_into_response_def api_error_defs)

text \<open>
  What a client sees of a database error. A unique violation on an insert is 409
  \<open>status_list_already_exists\<close>, and only there; a deadlock or serialization failure (PostgreSQL
  40001 and 40P01, MySQL 1205 and 1213, from a statement or a query, nothing else) is 409
  \<open>write_contention\<close> with \<open>Retry-After: 1\<close>; every other error, and every error of a read, is
  500 \<open>internal_error\<close>. The response depends on nothing else of the error, so the driver's text
  does not reach the client.
\<close>

lemma database_error_responses:
  "error_response (map_insert_err e) =
     (if de_unique_violation e
      then api_error_into_response (conflict ''status_list_already_exists'' ''Status list already exists'')
      else if lost_race (de_shape e) then api_error_into_response write_contention
      else api_error_into_response internal)
   \<and> error_response (map_update_err e) =
     (if lost_race (de_shape e) then api_error_into_response write_contention else api_error_into_response internal)
   \<and> error_response (map_snapshot_insert_err e) = error_response (map_update_err e)
   \<and> error_response (map_delete_err e) = error_response (map_update_err e)
   \<and> error_response (find_err e) = api_error_into_response internal
   \<and> (rs_status (api_error_into_response write_contention), rs_status (api_error_into_response internal)) = (409, 500)
   \<and> (''retry-after'', ''1'') \<in> set (rs_headers (api_error_into_response write_contention))"
proof -
  have one: "show_nat 1 = ''1''" by code_simp
  have contention: "contention_err e = None \<or> (\<exists>code. contention_err e = Some (RepoContention code))"
    by (auto simp: contention_err_def)
  have race: "lost_race (de_shape e) = (contention_err e \<noteq> None)"
    unfolding contention_code_lost_race [symmetric] contention_err_def by auto
  show ?thesis
    unfolding race using contention one
    by (auto simp: error_response_def map_insert_err_def map_update_err_def map_snapshot_insert_err_def map_delete_err_def
        find_err_def api_error_into_response_def api_error_defs)
qed



end
