(* ===== verification/Crypto_Storage.thy ===== *)
theory Crypto_Storage
  imports Text Processes
begin

text \<open>
  Model of \<open>src/src/utils/cert_manager/storage.rs\<close>: the storage trait of the certificate manager as
  a record of operations on the outside world \<open>'w\<close> and as a contract, the normalisation of keys, the
  in-memory storage, and \<open>CryptoStorage\<close>, which puts a cache before the certificate and, if the
  policy says so, before the signing key. SHA-256 is a parameter. A \<open>moka\<close> cache may forget an entry
  at any time: \<open>kept key w\<close> tells whether it still has the entry when it is asked in world \<open>w\<close>.
\<close>

section \<open>The storage trait\<close>

datatype storage_error = StorageBackend string | InvalidData string

fun storage_error_text :: "storage_error \<Rightarrow> string" where
  "storage_error_text (StorageBackend e) = ''storage backend error: '' @ e"
| "storage_error_text (InvalidData e) = ''The data is invalid: '' @ e"

record 'w storage =
  st_store :: "string \<Rightarrow> string \<Rightarrow> 'w \<Rightarrow> (storage_error + unit) \<times> 'w"
  st_load :: "string \<Rightarrow> 'w \<Rightarrow> (storage_error + string option) \<times> 'w"
  st_update :: "string \<Rightarrow> string \<Rightarrow> 'w \<Rightarrow> (storage_error + unit) \<times> 'w"
  st_delete :: "string \<Rightarrow> 'w \<Rightarrow> (storage_error + unit) \<times> 'w"
  st_reachable :: "'w \<Rightarrow> (storage_error + unit) \<times> 'w"

text \<open>The methods with a default body in the trait.\<close>

definition default_update :: "(string \<Rightarrow> string \<Rightarrow> 'w \<Rightarrow> (storage_error + unit) \<times> 'w)
   \<Rightarrow> string \<Rightarrow> string \<Rightarrow> 'w \<Rightarrow> (storage_error + unit) \<times> 'w" where
  "default_update store key v = store key v"

definition default_reachable :: "'w \<Rightarrow> (storage_error + unit) \<times> 'w" where
  "default_reachable w = (Inr (), w)"

section \<open>Keys\<close>

text \<open>
  A character outside ASCII is one lead byte with its continuation bytes, so it becomes a single
  hyphen. \<open>sha256\<close> is the lower-case hexadecimal digest.
\<close>

definition utf8_continuation :: "char \<Rightarrow> bool" where
  "utf8_continuation c \<longleftrightarrow> (128 :: nat) \<le> of_char c \<and> of_char c < (192 :: nat)"

definition storage_key_char :: "char \<Rightarrow> bool" where
  "storage_key_char c \<longleftrightarrow> is_ascii_alphanumeric c \<or> c = CHR ''-''"

definition normalize_key :: "(string \<Rightarrow> string) \<Rightarrow> string \<Rightarrow> string" where
  "normalize_key sha256 key =
     (let sanitized = map (\<lambda>c. if storage_key_char c then c else CHR ''-'') (filter (\<lambda>c. \<not> utf8_continuation c) key) in
      if length sanitized > 127
      then take 110 sanitized @ ''-'' @ take 16 (sha256 key)
      else sanitized)"

text \<open>What is documented of the digest: 64 hexadecimal digits.\<close>

definition hex_digest :: "(string \<Rightarrow> string) \<Rightarrow> bool" where
  "hex_digest sha256 \<longleftrightarrow> (\<forall>x. length (sha256 x) = 64 \<and> list_all storage_key_char (sha256 x))"

lemmas storage_key_char_defs =
  storage_key_char_def is_ascii_alphanumeric_def is_ascii_digit_def is_ascii_upper_def is_ascii_lower_def

lemma storage_key_char_ascii: "storage_key_char c \<Longrightarrow> \<not> utf8_continuation c"
  by (auto simp: storage_key_char_def is_ascii_alphanumeric_def is_ascii_digit_def is_ascii_upper_def
      is_ascii_lower_def utf8_continuation_def)

lemma normalize_key_fixes:
  "list_all storage_key_char key \<Longrightarrow> length key \<le> 127 \<Longrightarrow> normalize_key sha256 key = key"
  by (simp add: normalize_key_def Let_def storage_key_char_ascii list_all_iff filter_id_conv map_idI)

lemma normalize_key_shape:
  assumes "hex_digest sha256"
  shows "list_all storage_key_char (normalize_key sha256 key)" and "length (normalize_key sha256 key) \<le> 127"
  using assms
  by (auto simp: normalize_key_def Let_def hex_digest_def list_all_iff storage_key_char_def
      dest!: in_set_takeD)

lemma normalize_key_idem:
  "hex_digest sha256 \<Longrightarrow> normalize_key sha256 (normalize_key sha256 key) = normalize_key sha256 key"
  by (intro normalize_key_fixes normalize_key_shape)

text \<open>A short prefix of valid characters survives.\<close>

lemma normalize_key_prefix:
  assumes "list_all storage_key_char p" and "length p \<le> 110"
  shows "prefix p (normalize_key sha256 (p @ key))"
proof -
  have p: "map (\<lambda>c. if storage_key_char c then c else CHR ''-'') (filter (\<lambda>c. \<not> utf8_continuation c) p) = p"
    using assms(1) by (simp add: storage_key_char_ascii list_all_iff filter_id_conv map_idI)
  show ?thesis using assms(2) by (auto simp: normalize_key_def Let_def p take_append)
qed

section \<open>\<open>MemoryStorage\<close>\<close>

type_synonym memory_values = "string \<rightharpoonup> string"

definition memory_storage_store ::
  "(string \<Rightarrow> string) \<Rightarrow> string \<Rightarrow> string \<Rightarrow> memory_values \<Rightarrow> (storage_error + unit) \<times> memory_values" where
  "memory_storage_store sha256 key v values =
     (let normalized = normalize_key sha256 key in (Inr (), values(normalized \<mapsto> v)))"

definition memory_storage_load ::
  "(string \<Rightarrow> string) \<Rightarrow> string \<Rightarrow> memory_values \<Rightarrow> (storage_error + string option) \<times> memory_values" where
  "memory_storage_load sha256 key values =
     (let normalized = normalize_key sha256 key in (Inr (values normalized), values))"

definition memory_storage_delete ::
  "(string \<Rightarrow> string) \<Rightarrow> string \<Rightarrow> memory_values \<Rightarrow> (storage_error + unit) \<times> memory_values" where
  "memory_storage_delete sha256 key values =
     (let normalized = normalize_key sha256 key in (Inr (), values(normalized := None)))"

definition memory_storage :: "(string \<Rightarrow> string) \<Rightarrow> memory_values storage" where
  "memory_storage sha256 =
     \<lparr>st_store = memory_storage_store sha256, st_load = memory_storage_load sha256,
      st_update = default_update (memory_storage_store sha256), st_delete = memory_storage_delete sha256,
      st_reachable = default_reachable\<rparr>"

section \<open>The contract of a storage\<close>

text \<open>
  The keys of the manager are normalised before they reach a storage; \<open>normal\<close> are the keys the
  contract speaks about and \<open>contents\<close> is what the backend keeps under them. The frame says that an
  operation touches its own key only and that a lookup tells the truth: a write that reports an
  error may or may not have reached the backend. The contract adds what a reported success means:
  an absent key can be stored, a present one updated, and a deleted one is gone.
\<close>

locale storage_frame =
  fixes st :: "'w storage" and normal :: "string \<Rightarrow> bool" and contents :: "'w \<Rightarrow> (string \<rightharpoonup> string)"
    and ok :: "'w \<Rightarrow> bool"
  assumes store_frame: "\<And>key v w r w'. ok w \<Longrightarrow> normal key \<Longrightarrow> st_store st key v w = (r, w') \<Longrightarrow>
      ok w' \<and> contents w' \<in> {contents w, (contents w)(key \<mapsto> v)}"
    and update_frame: "\<And>key v w r w'. ok w \<Longrightarrow> normal key \<Longrightarrow> st_update st key v w = (r, w') \<Longrightarrow>
      ok w' \<and> contents w' \<in> {contents w, (contents w)(key \<mapsto> v)}"
    and delete_frame: "\<And>key w r w'. ok w \<Longrightarrow> normal key \<Longrightarrow> st_delete st key w = (r, w') \<Longrightarrow>
      ok w' \<and> contents w' \<in> {contents w, (contents w)(key := None)}"
    and load_frame: "\<And>key w r w'. ok w \<Longrightarrow> normal key \<Longrightarrow> st_load st key w = (r, w') \<Longrightarrow>
      ok w' \<and> contents w' = contents w \<and> (\<forall>x. r = Inr x \<longrightarrow> x = contents w key)"

locale storage_contract = storage_frame +
  assumes store_ok: "\<And>key v w w'. ok w \<Longrightarrow> normal key \<Longrightarrow> contents w key = None \<Longrightarrow>
      st_store st key v w = (Inr (), w') \<Longrightarrow> contents w' = (contents w)(key \<mapsto> v)"
    and update_ok: "\<And>key v w w'. ok w \<Longrightarrow> normal key \<Longrightarrow> contents w key \<noteq> None \<Longrightarrow>
      st_update st key v w = (Inr (), w') \<Longrightarrow> contents w' = (contents w)(key \<mapsto> v)"
    and delete_ok: "\<And>key w w'. ok w \<Longrightarrow> normal key \<Longrightarrow> st_delete st key w = (Inr (), w') \<Longrightarrow>
      contents w' key = None"

definition normal_key :: "(string \<Rightarrow> string) \<Rightarrow> string \<Rightarrow> bool" where
  "normal_key sha256 key \<longleftrightarrow> normalize_key sha256 key = key"

lemmas memory_storage_defs =
  memory_storage_def memory_storage_store_def memory_storage_load_def memory_storage_delete_def
  default_update_def default_reachable_def normal_key_def Let_def

interpretation memory_backend: storage_contract "memory_storage sha256" "normal_key sha256" id "\<lambda>_. True"
  for sha256
  by unfold_locales (auto simp: memory_storage_defs)

section \<open>\<open>CryptoStorage\<close>\<close>

text \<open>The state of the storage and its caches. A \<open>Duration\<close> is a number of nanoseconds.\<close>

record 'w crypto_state =
  cs_world :: 'w
  cs_certificate_cache :: "string \<rightharpoonup> string"
  cs_signing_key_cache :: "string \<rightharpoonup> string"

type_synonym 'w kept = "string \<Rightarrow> 'w \<Rightarrow> bool"

datatype crypto_cache = CertificateCache | SigningKeyCache

fun cache_of :: "crypto_cache \<Rightarrow> ('w, 'z) crypto_state_scheme \<Rightarrow> (string \<rightharpoonup> string)" where
  "cache_of CertificateCache s = cs_certificate_cache s"
| "cache_of SigningKeyCache s = cs_signing_key_cache s"

fun set_cache :: "crypto_cache \<Rightarrow> (string \<rightharpoonup> string) \<Rightarrow> ('w, 'z) crypto_state_scheme \<Rightarrow> ('w, 'z) crypto_state_scheme" where
  "set_cache CertificateCache m s = s\<lparr>cs_certificate_cache := m\<rparr>"
| "set_cache SigningKeyCache m s = s\<lparr>cs_signing_key_cache := m\<rparr>"

definition cache_lookup ::
  "crypto_cache \<Rightarrow> 'w kept \<Rightarrow> string \<Rightarrow> (('w, 'z) crypto_state_scheme, string option) proc" where
  "cache_lookup c kept key = call (\<lambda>s.
     if kept key (cs_world s) then (cache_of c s key, s)
     else (None, set_cache c ((cache_of c s)(key := None)) s))"

definition cache_insert ::
  "crypto_cache \<Rightarrow> string \<Rightarrow> string \<Rightarrow> (('w, 'z) crypto_state_scheme, unit) proc" where
  "cache_insert c key v = call (\<lambda>s. ((), set_cache c ((cache_of c s)(key \<mapsto> v)) s))"

definition cache_remove :: "crypto_cache \<Rightarrow> string \<Rightarrow> (('w, 'z) crypto_state_scheme, unit) proc" where
  "cache_remove c key = call (\<lambda>s. ((), set_cache c ((cache_of c s)(key := None)) s))"

text \<open>A call of the outside world.\<close>

definition outside :: "('w \<Rightarrow> ('e + 'a) \<times> 'w) \<Rightarrow> (('w, 'z) crypto_state_scheme, 'a, 'e) io" where
  "outside f = call (\<lambda>s. case f (cs_world s) of (r, w) \<Rightarrow> (from_sum r, s\<lparr>cs_world := w\<rparr>))"

record crypto_cache_policy =
  cp_signing_key_ttl :: nat

definition NO_PRIVATE_KEY_CACHE :: crypto_cache_policy where
  "NO_PRIVATE_KEY_CACHE = \<lparr>cp_signing_key_ttl = 0\<rparr>"

text \<open>The storage, with the \<open>moka\<close> behaviour of its two caches.\<close>

record 'w crypto_storage =
  cy_backend :: "'w storage"
  cy_certificate_cache :: "'w kept"
  cy_signing_key_cache :: "'w kept option"

text \<open>\<open>moka capacity ttl\<close> is what the builder of the cache library returns.\<close>

definition cache_for_ttl :: "(nat \<Rightarrow> nat option \<Rightarrow> 'w kept) \<Rightarrow> nat \<Rightarrow> 'w kept option" where
  "cache_for_ttl moka ttl = (if ttl \<noteq> 0 then Some (moka 1 (Some ttl)) else None)"

definition with_cache_policy ::
  "(nat \<Rightarrow> nat option \<Rightarrow> 'w kept) \<Rightarrow> 'w storage \<Rightarrow> crypto_cache_policy \<Rightarrow> 'w crypto_storage" where
  "with_cache_policy moka backend policy =
     \<lparr>cy_backend = backend, cy_certificate_cache = moka 1 None,
      cy_signing_key_cache = cache_for_ttl moka (cp_signing_key_ttl policy)\<rparr>"

definition crypto_storage_new :: "(nat \<Rightarrow> nat option \<Rightarrow> 'w kept) \<Rightarrow> 'w storage \<Rightarrow> 'w crypto_storage" where
  "crypto_storage_new moka backend = with_cache_policy moka backend NO_PRIVATE_KEY_CACHE"

definition load_with_cache ::
  "'w crypto_storage \<Rightarrow> string \<Rightarrow> (crypto_cache \<times> 'w kept) option
   \<Rightarrow> (('w, 'z) crypto_state_scheme, string option, storage_error) io" where
  "load_with_cache cy key cache =
     (let fetch = ptry (outside (st_load (cy_backend cy) key)) (\<lambda>loaded.
            case (cache, loaded) of
              (Some (c, _), Some v) \<Rightarrow> pbind (cache_insert c key v) (\<lambda>_. Ret (Ok loaded))
            | _ \<Rightarrow> Ret (Ok loaded))
      in case cache of
           Some (c, kept) \<Rightarrow> pbind (cache_lookup c kept key) (\<lambda>cached.
             case cached of Some v \<Rightarrow> Ret (Ok (Some v)) | None \<Rightarrow> fetch)
         | None \<Rightarrow> fetch)"

definition store_certificate_data ::
  "'w crypto_storage \<Rightarrow> string \<Rightarrow> string \<Rightarrow> (('w, 'z) crypto_state_scheme, unit, storage_error) io" where
  "store_certificate_data cy key v =
     ptry (outside (st_store (cy_backend cy) key v)) (\<lambda>_.
       pbind (cache_insert CertificateCache key v) (\<lambda>_. Ret (Ok ())))"

definition update_certificate_data ::
  "'w crypto_storage \<Rightarrow> string \<Rightarrow> string \<Rightarrow> (('w, 'z) crypto_state_scheme, unit, storage_error) io" where
  "update_certificate_data cy key v =
     ptry (outside (st_update (cy_backend cy) key v)) (\<lambda>_.
       pbind (cache_insert CertificateCache key v) (\<lambda>_. Ret (Ok ())))"

definition load_certificate_data ::
  "'w crypto_storage \<Rightarrow> string \<Rightarrow> (('w, 'z) crypto_state_scheme, string option, storage_error) io" where
  "load_certificate_data cy key = load_with_cache cy key (Some (CertificateCache, cy_certificate_cache cy))"

definition cache_signing_key ::
  "'w crypto_storage \<Rightarrow> string \<Rightarrow> string \<Rightarrow> (('w, 'z) crypto_state_scheme, unit, storage_error) io" where
  "cache_signing_key cy key v =
     (case cy_signing_key_cache cy of
        Some _ \<Rightarrow> pbind (cache_insert SigningKeyCache key v) (\<lambda>_. Ret (Ok ()))
      | None \<Rightarrow> Ret (Ok ()))"

definition store_signing_key ::
  "'w crypto_storage \<Rightarrow> string \<Rightarrow> string \<Rightarrow> (('w, 'z) crypto_state_scheme, unit, storage_error) io" where
  "store_signing_key cy key v =
     ptry (outside (st_store (cy_backend cy) key v)) (\<lambda>_. cache_signing_key cy key v)"

definition load_signing_key ::
  "'w crypto_storage \<Rightarrow> string \<Rightarrow> (('w, 'z) crypto_state_scheme, string option, storage_error) io" where
  "load_signing_key cy key = load_with_cache cy key (map_option (Pair SigningKeyCache) (cy_signing_key_cache cy))"

definition update_signing_key ::
  "'w crypto_storage \<Rightarrow> string \<Rightarrow> string \<Rightarrow> (('w, 'z) crypto_state_scheme, unit, storage_error) io" where
  "update_signing_key cy key v =
     ptry (outside (st_update (cy_backend cy) key v)) (\<lambda>_. cache_signing_key cy key v)"

definition load_secret ::
  "'w crypto_storage \<Rightarrow> string \<Rightarrow> (('w, 'z) crypto_state_scheme, string option, storage_error) io" where
  "load_secret cy key = outside (st_load (cy_backend cy) key)"

definition store_secret ::
  "'w crypto_storage \<Rightarrow> string \<Rightarrow> string \<Rightarrow> (('w, 'z) crypto_state_scheme, unit, storage_error) io" where
  "store_secret cy key v = outside (st_store (cy_backend cy) key v)"

definition delete_secret ::
  "'w crypto_storage \<Rightarrow> string \<Rightarrow> (('w, 'z) crypto_state_scheme, unit, storage_error) io" where
  "delete_secret cy key = outside (st_delete (cy_backend cy) key)"

definition invalidate_signing_key ::
  "'w crypto_storage \<Rightarrow> string \<Rightarrow> (('w, 'z) crypto_state_scheme, unit, storage_error) io" where
  "invalidate_signing_key cy key =
     (case cy_signing_key_cache cy of
        Some _ \<Rightarrow> pbind (cache_remove SigningKeyCache key) (\<lambda>_. Ret (Ok ()))
      | None \<Rightarrow> Ret (Ok ()))"

definition crypto_storage_reachable ::
  "'w crypto_storage \<Rightarrow> (('w, 'z) crypto_state_scheme, unit, storage_error) io" where
  "crypto_storage_reachable cy = outside (st_reachable (cy_backend cy))"

end
