(* ===== verification/Acme_Challenge.thy ===== *)
theory Acme_Challenge
  imports Crypto_Storage
begin

text \<open>
  Model of \<open>src/src/utils/cert_manager/challenge.rs\<close>, \<open>challenge/http01.rs\<close> and
  \<open>challenge/dns01/mod.rs\<close>: how a pending ACME authorization is answered, and the choice of the DNS
  zone for a domain. The ACME client library and the DNS services are parameters: what a call does
  to the outside world is a function on \<open>'w\<close>. A clean-up future is the call it makes when it is run.
\<close>

section \<open>Errors and authorizations\<close>

datatype challenge_error =
    ChallengeDns string string
  | ZoneNotFound string
  | ChallengeStorage storage_error
  | ChallengeIo string
  | AwsSdk string
  | ChallengeOther string

fun challenge_error_text :: "challenge_error \<Rightarrow> string" where
  "challenge_error_text (ChallengeDns provider source) = ''DNS provider '' @ provider @ '' error: '' @ source"
| "challenge_error_text (ZoneNotFound domain) = ''No hosted zone found for domain '' @ domain"
| "challenge_error_text (ChallengeStorage e) = ''Storage error: '' @ storage_error_text e"
| "challenge_error_text (ChallengeIo e) = ''I/O error: '' @ e"
| "challenge_error_text (AwsSdk e) = ''AWS SDK error: '' @ e"
| "challenge_error_text (ChallengeOther e) = ''Another error occurred: '' @ e"

datatype challenge_type = Http01 | Dns01 | TlsAlpn01

record acme_challenge =
  ch_type :: challenge_type
  ch_url :: string
  ch_token :: string
  ch_key_authorization :: string
  ch_dns_value :: string

datatype authorization_status = AuthzPending | AuthzValid | AuthzInvalid | AuthzRevoked | AuthzExpired | AuthzDeactivated

record authorization =
  az_identifier :: string
  az_status :: authorization_status
  az_challenges :: "acme_challenge list"

type_synonym 'w cleanup_future = "'w \<Rightarrow> (challenge_error + unit) \<times> 'w"
type_synonym 'w challenge_handler = "authorization \<Rightarrow> 'w \<Rightarrow> (challenge_error + 'w cleanup_future) \<times> 'w"

definition find_challenge :: "challenge_type \<Rightarrow> authorization \<Rightarrow> acme_challenge option" where
  "find_challenge t authz = find (\<lambda>c. ch_type c = t) (az_challenges authz)"

section \<open>DNS-01\<close>

record 'w dns_provider =
  dp_create_txt_record :: "string \<Rightarrow> string \<Rightarrow> 'w \<Rightarrow> (challenge_error + unit) \<times> 'w"
  dp_delete_txt_record :: "string \<Rightarrow> string \<Rightarrow> 'w \<Rightarrow> (challenge_error + unit) \<times> 'w"

definition dns01_handle_authorization ::
  "(string \<Rightarrow> 'w \<Rightarrow> (string + unit) \<times> 'w) \<Rightarrow> 'w dns_provider \<Rightarrow> 'w challenge_handler" where
  "dns01_handle_authorization set_ready dns_provider authz =
     (case find_challenge Dns01 authz of
        None \<Rightarrow> (\<lambda>w. (Inl (ChallengeOther ''No DNS-01 challenge found''), w))
      | Some challenge \<Rightarrow>
          (let digest = ch_dns_value challenge; domain = az_identifier authz in
           wtry (dp_create_txt_record dns_provider domain digest) (\<lambda>_.
           wtry (wmap_err ChallengeOther (set_ready (ch_url challenge))) (\<lambda>_ w.
             (Inr (dp_delete_txt_record dns_provider domain digest), w)))))"

section \<open>HTTP-01\<close>

text \<open>
  The state of the handler inside the world: whether its server runs. Binding the port and
  spawning the server is a call of the runtime, which starts the server or reports why not.
\<close>

record 'w http01_handler =
  h1_storage :: "'w storage"
  h1_running :: "'w \<Rightarrow> bool"
  h1_set_running :: "bool \<Rightarrow> 'w \<Rightarrow> 'w"
  h1_bind :: "'w \<Rightarrow> (string + unit) \<times> 'w"

definition start_server :: "'w http01_handler \<Rightarrow> 'w \<Rightarrow> (challenge_error + unit) \<times> 'w" where
  "start_server h w =
     (if h1_running h w then (Inr (), w)
      else wtry (wmap_err ChallengeIo (h1_bind h)) (\<lambda>_ w. (Inr (), h1_set_running h True w)) w)"

datatype challenge_response = ChallengeBody string string | ChallengeStatus nat

definition serve_challenge :: "'w storage \<Rightarrow> string \<Rightarrow> 'w \<Rightarrow> challenge_response \<times> 'w" where
  "serve_challenge challenge_store token w =
     (case st_load challenge_store token w of
        (Inr (Some challenge), w') \<Rightarrow> (ChallengeBody ''application/octet-stream'' challenge, w')
      | (Inr None, w') \<Rightarrow> (ChallengeStatus 404, w')
      | (Inl _, w') \<Rightarrow> (ChallengeStatus 500, w'))"

definition http01_cleanup :: "'w http01_handler \<Rightarrow> string \<Rightarrow> 'w cleanup_future" where
  "http01_cleanup h token w =
     (case wmap_err ChallengeStorage (st_delete (h1_storage h) token) w of
        (result, w') \<Rightarrow> (result, h1_set_running h False w'))"

definition http01_handle_authorization ::
  "(string \<Rightarrow> 'w \<Rightarrow> (string + unit) \<times> 'w) \<Rightarrow> 'w http01_handler \<Rightarrow> 'w challenge_handler" where
  "http01_handle_authorization set_ready h authz =
     (case find_challenge Http01 authz of
        None \<Rightarrow> (\<lambda>w. (Inl (ChallengeOther ''No HTTP-01 challenge found''), w))
      | Some challenge \<Rightarrow>
          (let token = ch_token challenge; proof_text = ch_key_authorization challenge in
           wtry (start_server h) (\<lambda>_.
           wtry (wmap_err ChallengeStorage (st_store (h1_storage h) token proof_text)) (\<lambda>_.
           wtry (wmap_err ChallengeOther (set_ready (ch_url challenge))) (\<lambda>_ w.
             (Inr (http01_cleanup h token), w))))))"

section \<open>Zones\<close>

record zone_info =
  zi_name :: string
  zi_id :: string

definition zone_info_new :: "string \<Rightarrow> string \<Rightarrow> zone_info" where
  "zone_info_new name ident = \<lparr>zi_name = trim_end_matches CHR ''.'' name, zi_id = ident\<rparr>"

definition zone_matches :: "string \<Rightarrow> string \<Rightarrow> bool" where
  "zone_matches lookup zone_name =
     (if prefix ''*.'' zone_name then
        (let stripped = drop 2 zone_name in
         if ends_with stripped lookup
         then (let diff = length lookup - length stripped in CHR ''.'' \<in> set (take diff lookup))
         else False)
      else if lookup = zone_name then True
      else if length lookup > length zone_name then
        (let idx = length lookup - length zone_name - 1 in
         lookup ! idx = CHR ''.'' \<and> drop (idx + 1) lookup = zone_name)
      else False)"

fun best_match_loop :: "string \<Rightarrow> zone_info list \<Rightarrow> (string \<times> string \<times> nat) option \<Rightarrow> (string \<times> string \<times> nat) option" where
  "best_match_loop lookup [] best_match = best_match"
| "best_match_loop lookup (zone # zones) best_match =
     best_match_loop lookup zones
       (if zone_matches lookup (zi_name zone)
        then (let len = length (zi_name zone) in
              case best_match of
                None \<Rightarrow> Some (zi_id zone, zi_name zone, len)
              | Some (_, _, curr_len) \<Rightarrow>
                  if len > curr_len then Some (zi_id zone, zi_name zone, len) else best_match)
        else best_match)"

definition find_best_match :: "string \<Rightarrow> zone_info list \<Rightarrow> (string \<times> string) option" where
  "find_best_match lookup zones =
     map_option (\<lambda>(zone_id, zone_name, _). (zone_id, zone_name)) (best_match_loop lookup zones None)"

text \<open>A zone that is not a wildcard matches its own name and the names below it, label by label.\<close>

lemma zone_matches_plain:
  assumes "\<not> prefix ''*.'' zone"
  shows "zone_matches lookup zone \<longleftrightarrow> lookup = zone \<or> suffix (CHR ''.'' # zone) lookup"
proof (cases "length lookup > length zone")
  case True
  define i where "i = length lookup - length zone - 1"
  have i: "i < length lookup" "length (drop (i + 1) lookup) = length zone" using True by (auto simp: i_def)
  have "suffix (CHR ''.'' # zone) lookup \<longleftrightarrow> drop i lookup = CHR ''.'' # zone"
  proof
    assume "suffix (CHR ''.'' # zone) lookup"
    then show "drop i lookup = CHR ''.'' # zone" by (auto simp: suffix_def i_def)
  next
    assume "drop i lookup = CHR ''.'' # zone"
    then show "suffix (CHR ''.'' # zone) lookup" by (metis suffix_drop)
  qed
  also have "\<dots> \<longleftrightarrow> lookup ! i = CHR ''.'' \<and> drop (i + 1) lookup = zone"
    using i(1) by (simp add: Cons_nth_drop_Suc [symmetric])
  finally show ?thesis using assms True by (auto simp: zone_matches_def i_def Let_def)
next
  case False
  then show ?thesis using assms by (auto simp: zone_matches_def suffix_def)
qed

text \<open>The zone a lookup selects: the first of the longest that match.\<close>

definition best_zone :: "string \<Rightarrow> zone_info list \<Rightarrow> zone_info \<Rightarrow> bool" where
  "best_zone lookup zones z \<longleftrightarrow>
     zone_matches lookup (zi_name z)
     \<and> (\<exists>before after. zones = before @ z # after
          \<and> (\<forall>y \<in> set before. zone_matches lookup (zi_name y) \<longrightarrow> length (zi_name y) < length (zi_name z))
          \<and> (\<forall>y \<in> set after. zone_matches lookup (zi_name y) \<longrightarrow> length (zi_name y) \<le> length (zi_name z)))"

lemma best_match_loop_append:
  "best_match_loop lookup (xs @ ys) b = best_match_loop lookup ys (best_match_loop lookup xs b)"
  by (induction xs arbitrary: b) auto

lemma best_zoneI:
  assumes "zone_matches lookup (zi_name z)" "zones = before @ z # after"
    "\<And>y. y \<in> set before \<Longrightarrow> zone_matches lookup (zi_name y) \<Longrightarrow> length (zi_name y) < length (zi_name z)"
    "\<And>y. y \<in> set after \<Longrightarrow> zone_matches lookup (zi_name y) \<Longrightarrow> length (zi_name y) \<le> length (zi_name z)"
  shows "best_zone lookup zones z"
  using assms unfolding best_zone_def by blast

lemma best_zone_keep:
  assumes "best_zone lookup zones z"
    and "\<not> zone_matches lookup (zi_name y) \<or> length (zi_name y) \<le> length (zi_name z)"
  shows "best_zone lookup (zones @ [y]) z"
proof -
  from assms(1) obtain before after where "zone_matches lookup (zi_name z)" "zones = before @ z # after"
    "\<forall>y \<in> set before. zone_matches lookup (zi_name y) \<longrightarrow> length (zi_name y) < length (zi_name z)"
    "\<forall>y \<in> set after. zone_matches lookup (zi_name y) \<longrightarrow> length (zi_name y) \<le> length (zi_name z)"
    unfolding best_zone_def by blast
  then show ?thesis using assms(2) by (intro best_zoneI [where before = before and after = "after @ [y]"]) auto
qed

lemma best_zone_longest:
  "best_zone lookup zones z \<Longrightarrow> y \<in> set zones \<Longrightarrow> zone_matches lookup (zi_name y) \<Longrightarrow> length (zi_name y) \<le> length (zi_name z)"
  unfolding best_zone_def by (auto, fastforce)

lemma best_zone_new:
  assumes "zone_matches lookup (zi_name y)"
    and "\<And>x. x \<in> set zones \<Longrightarrow> zone_matches lookup (zi_name x) \<Longrightarrow> length (zi_name x) < length (zi_name y)"
  shows "best_zone lookup (zones @ [y]) y"
  using assms by (intro best_zoneI [where before = zones and after = "[]"]) auto

lemma best_match_loop_spec:
  "case best_match_loop lookup zones None of
     None \<Rightarrow> \<forall>z \<in> set zones. \<not> zone_matches lookup (zi_name z)
   | Some (i, n, l) \<Rightarrow> l = length n \<and> (\<exists>z. best_zone lookup zones z \<and> zi_id z = i \<and> zi_name z = n)"
proof (induction zones rule: rev_induct)
  case (snoc y zones)
  show ?case
  proof (cases "best_match_loop lookup zones None")
    case None
    then show ?thesis using snoc best_zone_new [of lookup y zones]
      by (auto simp: best_match_loop_append Let_def)
  next
    case (Some b)
    then obtain i n l where b: "best_match_loop lookup zones None = Some (i, n, l)" by (cases b) auto
    then obtain z where "best_zone lookup zones z" "zi_id z = i" "zi_name z = n" "l = length n" using snoc by auto
    moreover from this(1) have "zone_matches lookup (zi_name y) \<Longrightarrow> length (zi_name z) < length (zi_name y) \<Longrightarrow>
        best_zone lookup (zones @ [y]) y"
      by (auto intro!: best_zone_new dest: best_zone_longest)
    ultimately show ?thesis using best_zone_keep [of lookup zones z y] b
      by (auto simp: best_match_loop_append Let_def not_less)
  qed
qed simp

text \<open>The reference: the first zone that matches and is not shorter than any other that does.\<close>

definition first_longest :: "string \<Rightarrow> zone_info list \<Rightarrow> zone_info option" where
  "first_longest lookup zones =
     find (\<lambda>z. zone_matches lookup (zi_name z)
       \<and> list_all (\<lambda>y. zone_matches lookup (zi_name y) \<longrightarrow> length (zi_name y) \<le> length (zi_name z)) zones) zones"

lemma find_append_None: "find P xs = None \<Longrightarrow> find P (xs @ ys) = find P ys"
  by (induction xs) (auto split: if_splits)

lemma first_longest_best: "best_zone lookup zones z \<Longrightarrow> first_longest lookup zones = Some z"
proof -
  let ?P = "\<lambda>z. zone_matches lookup (zi_name z)
       \<and> list_all (\<lambda>y. zone_matches lookup (zi_name y) \<longrightarrow> length (zi_name y) \<le> length (zi_name z)) zones"
  assume b: "best_zone lookup zones z"
  then obtain before after where z: "zone_matches lookup (zi_name z)" "zones = before @ z # after"
    "\<forall>y \<in> set before. zone_matches lookup (zi_name y) \<longrightarrow> length (zi_name y) < length (zi_name z)"
    unfolding best_zone_def by blast
  have "?P z" using z(1) best_zone_longest [OF b] by (auto simp: list_all_iff)
  moreover have "find ?P before = None" using z by (auto simp: find_None_iff list_all_iff)
  ultimately show ?thesis unfolding first_longest_def using z(2) find_append_None [of ?P before "z # after"] by simp
qed

text \<open>
  C38. The zone for a domain: the single pass of \<open>find_best_match\<close> finds what the reference definition
  describes, the first of the longest zones that match the name, and nothing exactly if none matches.
  A zone that is not a wildcard matches exactly its own name and the names that end in a dot and the
  zone, so no such zone is ever chosen for a name that only shares its last letters.
\<close>

theorem find_best_match_spec:
  "find_best_match lookup zones = map_option (\<lambda>z. (zi_id z, zi_name z)) (first_longest lookup zones)
   \<and> (\<forall>zone. \<not> prefix ''*.'' zone \<longrightarrow>
        (zone_matches lookup zone \<longleftrightarrow> lookup = zone \<or> suffix (CHR ''.'' # zone) lookup))"
proof
  show "find_best_match lookup zones = map_option (\<lambda>z. (zi_id z, zi_name z)) (first_longest lookup zones)"
  proof (cases "best_match_loop lookup zones None")
    case None
    then show ?thesis using best_match_loop_spec [where lookup = lookup and zones = zones]
      by (auto simp: find_best_match_def first_longest_def find_None_iff)
  next
    case (Some b)
    then show ?thesis
      using best_match_loop_spec [where lookup = lookup and zones = zones] first_longest_best [of lookup zones]
      by (auto simp: find_best_match_def)
  qed
qed (use zone_matches_plain in blast)

theorem find_best_match_spec_witness:
  "find_best_match ''www.example.com'' [zone_info_new ''ample.com'' ''Z1'', zone_info_new ''example.com'' ''Z2''] =
     map_option (\<lambda>z. (zi_id z, zi_name z))
       (first_longest ''www.example.com'' [zone_info_new ''ample.com'' ''Z1'', zone_info_new ''example.com'' ''Z2''])
   \<and> zone_matches ''www.example.com'' ''example.com'' \<and> \<not> zone_matches ''www.example.com'' ''ample.com''"
proof -
  note spec = find_best_match_spec [where lookup = "''www.example.com''"
      and zones = "[zone_info_new ''ample.com'' ''Z1'', zone_info_new ''example.com'' ''Z2'']"]
  have "\<not> zone_matches ''www.example.com'' ''ample.com''" "zone_matches ''www.example.com'' ''example.com''"
    using spec by (simp_all add: suffix_def)
  with spec show ?thesis by blast
qed

text \<open>
  A wildcard zone has no such boundary: \<open>*.example.com\<close> is chosen for a name below
  \<open>notexample.com\<close>.
\<close>

lemma wildcard_zone_ignores_labels:
  "find_best_match ''www.notexample.com'' [zone_info_new ''*.example.com'' ''Z''] = Some (''Z'', ''*.example.com'')"
  by code_simp

end
