(* ===== verification/Floats.thy ===== *)
theory Floats
  imports Complex_Main Prelude "HOL-Library.Log_Nat"
begin

text \<open>
  The binary floating point arithmetic the code uses, on rational numbers: rounding to a given
  number of significant bits, to nearest and ties to even. The code converts 64-bit integers and
  divides or multiplies them, which stays far from overflow and from subnormal numbers in both
  formats, so a finite value is its rational number; a division by zero gives an infinity or no
  number.
\<close>

section \<open>Rounding\<close>

text \<open>The exponent of the binade of a positive number: \<open>2\<^sup>e \<le> q < 2\<^sup>e\<^sup>+\<^sup>1\<close>.\<close>

definition binade :: "rat \<Rightarrow> int" where
  "binade q =
     (let (a, b) = quotient_of q; k = bitlen a - bitlen b
      in if 2 powi k \<le> q then k else k - 1)"

definition round_half_even :: "rat \<Rightarrow> int" where
  "round_half_even q =
     (let n = \<lfloor>q\<rfloor>; d = q - of_int n
      in if d < 1 / 2 then n else if 1 / 2 < d then n + 1 else if even n then n else n + 1)"

definition round_pos :: "nat \<Rightarrow> rat \<Rightarrow> rat" where
  "round_pos p q = (let u = 2 powi (binade q - (int p - 1)) in u * of_int (round_half_even (q / u)))"

definition float_round :: "nat \<Rightarrow> rat \<Rightarrow> rat" where
  "float_round p q = (if q = 0 then 0 else if 0 < q then round_pos p q else - round_pos p (- q))"

lemma round_half_even_mono: "q \<le> r \<Longrightarrow> round_half_even q \<le> round_half_even r"
proof -
  assume le: "q \<le> r"
  have f: "\<lfloor>q\<rfloor> \<le> \<lfloor>r\<rfloor>" using le by (rule floor_mono)
  have b: "round_half_even x \<in> {\<lfloor>x\<rfloor>, \<lfloor>x\<rfloor> + 1}" for x by (auto simp: round_half_even_def Let_def)
  show ?thesis
  proof (cases "\<lfloor>q\<rfloor> = \<lfloor>r\<rfloor>")
    case True
    then show ?thesis using le by (auto simp: round_half_even_def Let_def)
  next
    case False
    then show ?thesis using f b [of q] b [of r] by auto
  qed
qed

lemma round_half_even_of_int [simp]: "round_half_even (of_int n) = n"
  by (simp add: round_half_even_def)

lemma binade_bounds:
  assumes "0 < q"
  shows "2 powi binade q \<le> q" and "q < 2 powi (binade q + 1)"
proof -
  obtain a b where ab: "quotient_of q = (a, b)" by force
  then have b: "0 < b" and q: "q = of_int a / of_int b"
    using quotient_of_denom_pos quotient_of_div by auto
  then have a: "0 < a" using assms by (simp add: zero_less_divide_iff)
  define k where "k = bitlen a - bitlen b"
  have up: "of_int x < (2 :: rat) powi bitlen x" and lo: "(2 :: rat) powi (bitlen x - 1) \<le> of_int x"
    if "0 < x" for x :: int
  proof -
    have n: "0 < bitlen x" "0 \<le> bitlen x"
      using that bitlen_nonneg [of x] bitlen_eq_zero_iff [of x] by auto
    have "x < 2 ^ nat (bitlen x)" "2 ^ nat (bitlen x - 1) \<le> x"
      using that bitlen_bounds [of x] by auto
    then have "of_int x < (of_int (2 ^ nat (bitlen x)) :: rat)" "of_int (2 ^ nat (bitlen x - 1)) \<le> (of_int x :: rat)"
      by (simp_all only: of_int_less_iff of_int_le_iff)
    then show "of_int x < (2 :: rat) powi bitlen x" "(2 :: rat) powi (bitlen x - 1) \<le> of_int x"
      using n by (simp_all add: power_int_def)
  qed
  have lt: "q < 2 powi (k + 1)"
  proof -
    have "of_int a < (2 :: rat) powi (bitlen a) " using up a by blast
    also have "\<dots> = 2 powi (k + 1) * 2 powi (bitlen b - 1)"
      by (simp add: k_def flip: power_int_add)
    also have "\<dots> \<le> 2 powi (k + 1) * of_int b" using lo [OF b] by simp
    finally show ?thesis using b by (simp add: q pos_divide_less_eq)
  qed
  have ge: "2 powi (k - 1) \<le> q"
  proof -
    have "(2 :: rat) powi (k - 1) * of_int b \<le> 2 powi (k - 1) * 2 powi bitlen b" using up [OF b] by simp
    also have "\<dots> = 2 powi (bitlen a - 1)" by (simp add: k_def flip: power_int_add)
    also have "\<dots> \<le> of_int a" using lo [OF a] .
    finally show ?thesis using b by (simp add: q pos_le_divide_eq)
  qed
  show "2 powi binade q \<le> q" "q < 2 powi (binade q + 1)"
    using lt ge by (auto simp: binade_def ab k_def [symmetric])
qed

lemma binade_mono:
  assumes "0 < q" "q \<le> r" shows "binade q \<le> binade r"
proof -
  have "(2 :: rat) powi binade q < 2 powi (binade r + 1)"
    using binade_bounds [of q] binade_bounds [of r] assms by auto
  then show ?thesis using power_int_increasing [of "binade r + 1" "binade q" "2 :: rat"] by force
qed

text \<open>The rounded number stays in the closed binade.\<close>

lemma round_pos_bounds:
  assumes "0 < q" "1 \<le> p"
  shows "2 powi binade q \<le> round_pos p q" and "round_pos p q \<le> 2 powi (binade q + 1)"
proof -
  define u :: rat where "u = 2 powi (binade q - (int p - 1))"
  have u: "0 < u" by (simp add: u_def)
  have e: "2 powi binade q = u * of_int (2 ^ (p - 1))" "2 powi (binade q + 1) = u * of_int (2 ^ p)"
    using assms(2) by (simp_all add: u_def of_nat_diff power_int_of_nat [symmetric] del: power_int_of_nat flip: power_int_add)
  have "of_int (2 ^ (p - 1)) \<le> q / u" "q / u \<le> of_int (2 ^ p)"
    using binade_bounds [OF assms(1)] u unfolding e by (simp_all add: field_simps)
  then have "round_half_even (of_int (2 ^ (p - 1))) \<le> round_half_even (q / u)"
    "round_half_even (q / u) \<le> round_half_even (of_int (2 ^ p))"
    by (blast intro: round_half_even_mono)+
  then have "2 ^ (p - 1) \<le> round_half_even (q / u)" "round_half_even (q / u) \<le> 2 ^ p" by (simp_all only: round_half_even_of_int)
  then have "(of_int (2 ^ (p - 1)) :: rat) \<le> of_int (round_half_even (q / u))"
    "of_int (round_half_even (q / u)) \<le> (of_int (2 ^ p) :: rat)" by (simp_all only: of_int_le_iff)
  then show "2 powi binade q \<le> round_pos p q" "round_pos p q \<le> 2 powi (binade q + 1)"
    using u unfolding e by (simp_all add: round_pos_def Let_def u_def [symmetric] mult_left_mono)
qed

lemma round_pos_mono:
  assumes "0 < q" "q \<le> r" "1 \<le> p"
  shows "round_pos p q \<le> round_pos p r"
proof (cases "binade q = binade r")
  case True
  have "round_half_even (q / u) \<le> round_half_even (r / u)" if "0 < u" for u
    using that assms(2) by (intro round_half_even_mono) (simp add: divide_right_mono)
  then show ?thesis using True by (simp add: round_pos_def Let_def mult_left_mono)
next
  case False
  then have "binade q + 1 \<le> binade r" using binade_mono [OF assms(1,2)] by simp
  then have "(2 :: rat) powi (binade q + 1) \<le> 2 powi binade r" by (simp add: power_int_increasing)
  then show ?thesis using round_pos_bounds [of q p] round_pos_bounds [of r p] assms by linarith
qed

lemma float_round_pos: "0 < q \<Longrightarrow> 1 \<le> p \<Longrightarrow> 0 < float_round p q"
  using round_pos_bounds(1) [of q p] by (auto simp: float_round_def intro: less_le_trans [rotated])

lemma float_round_mono: "q \<le> r \<Longrightarrow> 1 \<le> p \<Longrightarrow> float_round p q \<le> float_round p r"
proof -
  assume le: "q \<le> r" and p: "1 \<le> p"
  have pos: "0 < x \<Longrightarrow> 0 < round_pos p x" for x
    using float_round_pos [of x p] p by (simp add: float_round_def)
  consider "0 < q" | "r < 0" | "q \<le> 0" "0 \<le> r" by linarith
  then show ?thesis
  proof cases
    case 1
    then show ?thesis using le p by (simp add: float_round_def round_pos_mono)
  next
    case 2
    then show ?thesis using le p round_pos_mono [of "- r" "- q" p] by (simp add: float_round_def)
  next
    case 3
    then show ?thesis using pos [of r] pos [of "- q"] by (auto simp: float_round_def)
  qed
qed

text \<open>The error of rounding is at most half a unit in the last place.\<close>

lemma round_half_even_error: "\<bar>of_int (round_half_even q) - q\<bar> \<le> (1 / 2 :: rat)"
proof -
  have "of_int \<lfloor>q\<rfloor> \<le> q" "q < of_int \<lfloor>q\<rfloor> + 1" by linarith+
  then show ?thesis unfolding round_half_even_def Let_def abs_if
    by (split if_split)+ (simp only: of_int_add of_int_1, linarith)
qed

lemma float_round_error:
  assumes "0 < q" "1 \<le> p" shows "\<bar>float_round p q - q\<bar> \<le> q / 2 ^ p"
proof -
  define u :: rat where "u = 2 powi (binade q - (int p - 1))"
  have u: "0 < u" by (simp add: u_def)
  have "u * 2 ^ (p - 1) = 2 powi binade q"
    using assms(2) by (simp add: u_def of_nat_diff power_int_of_nat [symmetric] del: power_int_of_nat flip: power_int_add)
  moreover have "(2 :: rat) ^ p = 2 * 2 ^ (p - 1)" using assms(2) by (cases p) auto
  ultimately have small: "u / 2 \<le> q / 2 ^ p" using binade_bounds(1) [OF assms(1)] by (simp add: field_simps)
  have "\<bar>float_round p q - q\<bar> = u * \<bar>of_int (round_half_even (q / u)) - q / u\<bar>"
    using assms(1) u by (simp add: float_round_def round_pos_def Let_def u_def [symmetric] abs_mult_pos' right_diff_distrib)
  also have "\<dots> \<le> u * (1 / 2)" using round_half_even_error u by (intro mult_left_mono) auto
  finally show ?thesis using small by linarith
qed

lemma binade_1 [simp]: "binade 1 = 0"
  by (simp add: binade_def bitlen_def)

lemma float_round_1 [simp]: "1 \<le> p \<Longrightarrow> float_round p 1 = 1"
proof -
  assume p: "1 \<le> p"
  define u :: rat where "u = 2 powi - (int p - 1)"
  have u: "0 < u" "1 / u = of_int (2 ^ (p - 1))"
    using p by (simp_all add: u_def power_int_minus power_int_def field_simps nat_diff_distrib')
  have "round_pos p 1 = u * of_int (round_half_even (1 / u))" by (simp add: round_pos_def Let_def u_def)
  also have "\<dots> = u * of_int (2 ^ (p - 1))" by (simp only: u round_half_even_of_int)
  also have "\<dots> = 1" using u by (simp add: field_simps)
  finally show ?thesis by (simp add: float_round_def)
qed

section \<open>Single precision\<close>

datatype f32 = F32 rat | F32_inf | F32_neg_inf | F32_nan

definition i64_as_f32 :: "int \<Rightarrow> f32" where
  "i64_as_f32 i = F32 (float_round 24 (of_int i))"

text \<open>The zeros of the dividends and divisors that occur are positive.\<close>

fun f32_div :: "f32 \<Rightarrow> f32 \<Rightarrow> f32" where
  "f32_div (F32 x) (F32 y) =
     (if y \<noteq> 0 then F32 (float_round 24 (x / y))
      else if 0 < x then F32_inf else if x < 0 then F32_neg_inf else F32_nan)"
| "f32_div F32_nan _ = F32_nan"
| "f32_div _ F32_nan = F32_nan"
| "f32_div (F32 x) F32_inf = F32 0"
| "f32_div (F32 x) F32_neg_inf = F32 0"
| "f32_div F32_inf (F32 y) = (if 0 \<le> y then F32_inf else F32_neg_inf)"
| "f32_div F32_neg_inf (F32 y) = (if 0 \<le> y then F32_neg_inf else F32_inf)"
| "f32_div _ _ = F32_nan"

fun f32_ge :: "f32 \<Rightarrow> f32 \<Rightarrow> bool" where
  "f32_ge F32_nan _ = False"
| "f32_ge _ F32_nan = False"
| "f32_ge (F32 x) (F32 y) = (y \<le> x)"
| "f32_ge F32_inf _ = True"
| "f32_ge _ F32_neg_inf = True"
| "f32_ge _ _ = False"

end
