(* ===== verification/Cert_Manager.thy ===== *)
theory Cert_Manager
  imports Acme_Challenge Floats Certificates
begin

text \<open>
  Model of \<open>src/src/utils/cert_manager.rs\<close> with its builder (\<open>builder.rs\<close>), the provisioning
  strategies (\<open>strategy.rs\<close>), the cache of parsed chains (\<open>utils/cache/cert_chain.rs\<close>) and the ACME
  HTTP client (\<open>http_client.rs\<close>). The ACME client library, the X.509, PEM, JSON and CSR libraries, the
  list of public suffixes, the clock, the random source and the file system are parameters; handles
  of the ACME library (accounts, credentials, orders) are texts. A vector of bytes is written as a
  \<open>string\<close>. What runs under the provisioning lock is one step for everything else that takes the lock
  or reads the active material.
\<close>

section \<open>Data\<close>

datatype cert_error =
    CertAcme string
  | CertStorage storage_error
  | CertChallenge challenge_error
  | CertParsing string
  | CertCron string
  | CertSerde string
  | CertKeyOp keygen_error
  | CertValidation string
  | CertOther string

fun cert_error_text :: "cert_error \<Rightarrow> string" where
  "cert_error_text (CertAcme e) = ''ACME error: '' @ e"
| "cert_error_text (CertStorage e) = ''Storage error: '' @ storage_error_text e"
| "cert_error_text (CertChallenge e) = ''Challenge error: '' @ challenge_error_text e"
| "cert_error_text (CertParsing e) = ''Certificate parsing error: '' @ e"
| "cert_error_text (CertCron e) = ''Cron error: '' @ e"
| "cert_error_text (CertSerde e) = ''Serialization error: '' @ e"
| "cert_error_text (CertKeyOp e) = ''Key operation error: '' @ keygen_error_text e"
| "cert_error_text (CertValidation e) = ''Configuration validation error: '' @ e"
| "cert_error_text (CertOther e) = ''Uncategorized error: '' @ e"

record certificate_data =
  cd_certificate :: string
  cd_valid_from :: int
  cd_expires_at :: int
  cd_updated_at :: int

datatype renewal_strategy =
    FixedInterval "u32 option"
  | DaysBeforeExpiry "u32 option"
  | PercentageOfLifetime "f32 option"

datatype material_source = Filesystem string | FromStorage string

datatype provisioning_strategy =
    AcmeProvisioning
  | StoreProvisioning (certificate_source: material_source) (signing_key_source: material_source)

fun strategy_name :: "provisioning_strategy \<Rightarrow> string" where
  "strategy_name AcmeProvisioning = ''acme''"
| "strategy_name (StoreProvisioning c k) = ''store''"

type_synonym http_client = "string list"

record 'w cert_manager =
  mg_crypto_storage :: "'w crypto_storage option"
  mg_challenge_handler :: "'w challenge_handler option"
  mg_acme_http_client :: "http_client option"
  mg_provisioning_strategy :: provisioning_strategy
  mg_renewal_strategy :: renewal_strategy
  mg_domains :: "string list"
  mg_email :: string
  mg_organization :: "string option"
  mg_eku :: "nat list option"
  mg_acme_directory_url :: string

text \<open>The mutable part of a manager, on top of the state of its storage.\<close>

record 'w manager_state = "'w crypto_state" +
  cm_chain_cache :: "string \<rightharpoonup> string list"
  cm_acme_client :: "string option"
  cm_active :: "signing_material option"
  cm_attempts :: nat
  cm_successes :: nat
  cm_failures :: nat
  cm_time_to_expiry :: "int option"
  cm_last_successful_renewal :: "int option"
  cm_chain_hits :: nat
  cm_chain_misses :: nat
  cm_chain_replacements :: nat

section \<open>Libraries\<close>

datatype order_status = OrderPending | OrderReady | OrderProcessing | OrderValid | OrderInvalid

record 'w acme_lib =
  ac_parse_credentials :: "string \<Rightarrow> string + string"
  ac_show_credentials :: "string \<Rightarrow> string + string"
  ac_from_credentials :: "http_client \<Rightarrow> string \<Rightarrow> 'w \<Rightarrow> (string + string) \<times> 'w"
  ac_create :: "http_client \<Rightarrow> string \<Rightarrow> string \<Rightarrow> 'w \<Rightarrow> (string + string \<times> string) \<times> 'w"
  ac_new_order :: "string \<Rightarrow> string list \<Rightarrow> 'w \<Rightarrow> (string + string) \<times> 'w"
  ac_authorizations :: "string \<Rightarrow> 'w \<Rightarrow> string list"
  ac_authorization :: "string \<Rightarrow> string \<Rightarrow> 'w \<Rightarrow> (string + authorization) \<times> 'w"
  ac_poll_ready :: "string \<Rightarrow> 'w \<Rightarrow> (string + order_status) \<times> 'w"
  ac_finalize_csr :: "string \<Rightarrow> string \<Rightarrow> 'w \<Rightarrow> (string + unit) \<times> 'w"
  ac_poll_certificate :: "string \<Rightarrow> 'w \<Rightarrow> (string + string) \<times> 'w"

text \<open>The parameters of a certificate signing request.\<close>

record csr_params =
  csr_subject_alt_names :: "string list"
  csr_common_name :: string
  csr_organization :: "string option"
  csr_extended_key_usages :: "nat list list"
  csr_key_usages :: "string list"

record 'sk cert_lib =
  cl_parse_x509_pem :: "string \<Rightarrow> string + string \<times> string"
  cl_parse_x509 :: "string \<Rightarrow> string + int \<times> int"
  cl_parse_x509_certificate :: "string \<Rightarrow> string + string \<times> int \<times> int"
  cl_pem_encode_many :: "(string \<times> string) list \<Rightarrow> string"
  cl_params_new :: "string list \<Rightarrow> string + unit"
  cl_rcgen_key :: "string \<Rightarrow> string + string"
  cl_serialize_request :: "csr_params \<Rightarrow> string \<Rightarrow> string + string"
  cl_to_json :: "certificate_data \<Rightarrow> string + string"
  cl_from_json :: "string \<Rightarrow> string + certificate_data"
  cl_base64_engines :: "(string \<Rightarrow> string option) list"
  cl_key_from_pkcs8_der :: "string \<Rightarrow> string + 'sk"
  cl_utf8_error :: "string \<Rightarrow> string"

record ('w, 'sk, 'ek) cert_env =
  ev_acme :: "'w acme_lib"
  ev_cert :: "'sk cert_lib"
  ev_crypto :: "('sk, 'ek) crypto"
  ev_x509 :: "'sk x509_lib"
  ev_sha256 :: "string \<Rightarrow> string"
  ev_tld_plus_one :: "string \<Rightarrow> string option"
  ev_now :: "'w \<Rightarrow> int"
  ev_read_file :: "string \<Rightarrow> 'w \<Rightarrow> (string + string) \<times> 'w"
  ev_rng :: "'w \<Rightarrow> nat \<Rightarrow> string + u8 list"
  ev_chain_kept :: "'w kept"

section \<open>The HTTP client\<close>

text \<open>A client is its list of trust anchors; \<open>pem_slice\<close> reads certificates from PEM text.\<close>

definition client_inner_try_new ::
  "(string \<Rightarrow> (string + string) list) \<Rightarrow> string list \<Rightarrow> (string + unit) \<Rightarrow> string option
   \<Rightarrow> (http_client, cert_error) outcome" where
  "client_inner_try_new pem_slice webpki_roots protocol_versions root_cert_pem =
     obind (case root_cert_pem of
              Some root_pem \<Rightarrow> map_err CertParsing (collect from_sum (pem_slice root_pem))
            | None \<Rightarrow> Ok []) (\<lambda>certs_der.
     obind (map_err CertValidation (from_sum protocol_versions)) (\<lambda>_.
       Ok (certs_der @ webpki_roots)))"

section \<open>Reading certificates\<close>

definition certificate_data_new :: "string \<Rightarrow> int \<Rightarrow> int \<Rightarrow> int \<Rightarrow> certificate_data" where
  "certificate_data_new certificate valid_from expires_at now =
     \<lparr>cd_certificate = certificate, cd_valid_from = valid_from, cd_expires_at = expires_at, cd_updated_at = now\<rparr>"

definition parse_cert_pem :: "'sk cert_lib \<Rightarrow> string \<Rightarrow> (string, cert_error) outcome" where
  "parse_cert_pem cl cert_pem =
     obind (map_err CertParsing (from_sum (cl_parse_x509_pem cl cert_pem))) (\<lambda>(label, contents).
       if label \<noteq> ''CERTIFICATE'' \<or> contents = [] then Err (CertParsing ''Invalid X509 certificate'')
       else Ok contents)"

definition certificate_data_from_pem ::
  "'sk cert_lib \<Rightarrow> int \<Rightarrow> string \<Rightarrow> (certificate_data, cert_error) outcome" where
  "certificate_data_from_pem cl now certificate_pem =
     obind (parse_cert_pem cl certificate_pem) (\<lambda>contents.
     obind (map_err CertParsing (from_sum (cl_parse_x509 cl contents))) (\<lambda>(not_before, not_after).
       Ok (certificate_data_new certificate_pem not_before not_after now)))"

definition is_pem_certificate :: "string \<Rightarrow> bool" where
  "is_pem_certificate bytes \<longleftrightarrow> contains ''-----BEGIN CERTIFICATE-----'' bytes"

text \<open>The loop over a chain of DER certificates, with the certificates and the validity so far.\<close>

function der_chain_loop ::
  "'sk cert_lib \<Rightarrow> string \<Rightarrow> (string \<times> string) list \<Rightarrow> (int \<times> int) option
   \<Rightarrow> ((string \<times> string) list \<times> (int \<times> int) option, cert_error) outcome" where
  "der_chain_loop cl remaining certs validity =
     (if remaining = [] then Ok (certs, validity)
      else
        case cl_parse_x509_certificate cl remaining of
          Inl e \<Rightarrow> Err (CertParsing (''invalid DER certificate chain: '' @ e))
        | Inr (rest, not_before, not_after) \<Rightarrow>
            if length remaining \<le> length rest
            then Err (CertParsing ''invalid DER certificate chain: parser made no progress'')
            else der_chain_loop cl rest
                   (certs @ [(''CERTIFICATE'', take (length remaining - length rest) remaining)])
                   (case validity of None \<Rightarrow> Some (not_before, not_after) | Some v \<Rightarrow> Some v))"
  by auto
termination
  by (relation "measure (\<lambda>(cl, remaining, certs, validity). length remaining)") auto

declare der_chain_loop.simps [simp del]

definition cert_der_chain_to_pem :: "'sk cert_lib \<Rightarrow> string \<Rightarrow> (string \<times> int \<times> int, cert_error) outcome" where
  "cert_der_chain_to_pem cl certificate_der =
     obind (der_chain_loop cl certificate_der [] None) (\<lambda>(certs, validity).
     obind (ok_or validity (CertParsing ''empty DER certificate chain'')) (\<lambda>(valid_from, expires_at).
       Ok (cl_pem_encode_many cl certs, valid_from, expires_at)))"

definition certificate_data_from_der_or_pem ::
  "'sk cert_lib \<Rightarrow> int \<Rightarrow> string \<Rightarrow> (certificate_data, cert_error) outcome" where
  "certificate_data_from_der_or_pem cl now certificate =
     (if is_pem_certificate certificate
      then (if utf8_valid certificate then certificate_data_from_pem cl now certificate
            else Err (CertValidation (''certificate PEM is not valid UTF-8: '' @ cl_utf8_error cl certificate)))
      else obind (cert_der_chain_to_pem cl certificate) (\<lambda>(certificate_pem, valid_from, expires_at).
             Ok (certificate_data_new certificate_pem valid_from expires_at now)))"

definition parse_cert_chain_parts :: "'sk x509_lib \<Rightarrow> string \<Rightarrow> (string list, cert_error) outcome" where
  "parse_cert_chain_parts xl cert_pem =
     collect (\<lambda>cert. map_err CertParsing (omap (x5_base64_encode xl) (from_sum cert))) (x5_pem_blocks xl cert_pem)"

section \<open>Keys of the storage\<close>

definition tld_plus_one :: "(string \<Rightarrow> string option) \<Rightarrow> string list \<Rightarrow> string" where
  "tld_plus_one effective_tld_plus_one domains =
     (case domains of
        [] \<Rightarrow> []
      | first # _ \<Rightarrow> (case effective_tld_plus_one first of Some d \<Rightarrow> d | None \<Rightarrow> first))"

definition cert_key :: "('w, 'sk, 'ek) cert_env \<Rightarrow> 'w cert_manager \<Rightarrow> string" where
  "cert_key ev mg =
     normalize_key (ev_sha256 ev)
       (''certs-'' @ tld_plus_one (ev_tld_plus_one ev) (mg_domains mg) @ ''-cert_data.json'')"

definition acme_account_id :: "('w, 'sk, 'ek) cert_env \<Rightarrow> 'w cert_manager \<Rightarrow> string" where
  "acme_account_id ev mg =
     normalize_key (ev_sha256 ev) (''acme_accounts-'' @ tld_plus_one (ev_tld_plus_one ev) (mg_domains mg))"

definition signing_secret_id :: "('w, 'sk, 'ek) cert_env \<Rightarrow> 'w cert_manager \<Rightarrow> string" where
  "signing_secret_id ev mg = normalize_key (ev_sha256 ev) (''keys-'' @ str_join ''-'' (mg_domains mg))"

section \<open>Renewal\<close>

definition days_to_secs :: "u32 \<Rightarrow> int" where
  "days_to_secs days = uint days * 24 * 60 * 60"

definition two_thirds :: f32 where
  "two_thirds = f32_div (F32 2) (F32 3)"

definition should_renew_cert :: "renewal_strategy \<Rightarrow> int \<Rightarrow> certificate_data \<Rightarrow> bool" where
  "should_renew_cert strategy now cert_data =
     (case strategy of
        DaysBeforeExpiry v \<Rightarrow>
          (let days_before = (case v of Some d \<Rightarrow> d | None \<Rightarrow> 30);
               renewal_time = wrap_i64 (cd_expires_at cert_data - days_to_secs days_before)
           in now \<ge> renewal_time)
      | PercentageOfLifetime v \<Rightarrow>
          (let percentage = (case v of Some p \<Rightarrow> p | None \<Rightarrow> two_thirds);
               lifetime = wrap_i64 (cd_expires_at cert_data - cd_valid_from cert_data);
               elapsed = wrap_i64 (now - cd_valid_from cert_data)
           in f32_ge (f32_div (i64_as_f32 elapsed) (i64_as_f32 lifetime)) percentage)
      | FixedInterval v \<Rightarrow>
          (let interval = (case v of Some d \<Rightarrow> d | None \<Rightarrow> 60);
               renewal_time = wrap_i64 (cd_valid_from cert_data + days_to_secs interval)
           in now \<ge> renewal_time))"

definition should_provision_existing :: "'w cert_manager \<Rightarrow> int \<Rightarrow> certificate_data \<Rightarrow> bool" where
  "should_provision_existing mg now certificate =
     (case mg_provisioning_strategy mg of
        AcmeProvisioning \<Rightarrow> should_renew_cert (mg_renewal_strategy mg) now certificate
      | StoreProvisioning _ _ \<Rightarrow> True)"

section \<open>Storage of the material\<close>

type_synonym ('w, 'z, 'a) cm_io = "(('w, 'z) manager_state_scheme, 'a, cert_error) io"

definition crypto_storage_of :: "'w cert_manager \<Rightarrow> ('w crypto_storage, cert_error) outcome" where
  "crypto_storage_of mg = ok_or (mg_crypto_storage mg) (CertOther ''Cryptographic-material backend not set'')"

definition with_storage :: "'w cert_manager \<Rightarrow> ('w crypto_storage \<Rightarrow> ('w, 'z, 'a) cm_io) \<Rightarrow> ('w, 'z, 'a) cm_io" where
  "with_storage mg k = ptry (Ret (crypto_storage_of mg)) k"

definition read_clock :: "('w, 'sk, 'ek) cert_env \<Rightarrow> ('w, 'z, int) cm_io" where
  "read_clock ev = call (\<lambda>s. (Ok (ev_now ev (cs_world s)), s))"

definition set_active :: "signing_material \<Rightarrow> ('w, 'z, unit) cm_io" where
  "set_active material = call (\<lambda>s. (Ok (), s\<lparr>cm_active := Some material\<rparr>))"

definition load_active :: "(('w, 'z) manager_state_scheme, signing_material option) proc" where
  "load_active = call (\<lambda>s. (cm_active s, s))"

text \<open>A section under the provisioning lock.\<close>

definition locked :: "('s, 'a) proc \<Rightarrow> ('s, 'a) proc" where
  "locked p = call (run p)"

definition chain_cache_get ::
  "('w, 'sk, 'ek) cert_env \<Rightarrow> string \<Rightarrow> (('w, 'z) manager_state_scheme, string list option) proc" where
  "chain_cache_get ev key = call (\<lambda>s.
     let cached = (if ev_chain_kept ev key (cs_world s) then cm_chain_cache s key else None) in
     (cached,
      case cached of
        Some _ \<Rightarrow> s\<lparr>cm_chain_hits := cm_chain_hits s + 1\<rparr>
      | None \<Rightarrow> s\<lparr>cm_chain_cache := (cm_chain_cache s)(key := None), cm_chain_misses := cm_chain_misses s + 1\<rparr>))"

definition chain_cache_insert :: "string \<Rightarrow> string list \<Rightarrow> ('w, 'z, unit) cm_io" where
  "chain_cache_insert key chain = call (\<lambda>s. (Ok (), s\<lparr>cm_chain_cache := (cm_chain_cache s)(key \<mapsto> chain)\<rparr>))"

definition chain_cache_replace :: "string \<Rightarrow> string list \<Rightarrow> ('w, 'z, unit) cm_io" where
  "chain_cache_replace key chain = call (\<lambda>s.
     (Ok (), s\<lparr>cm_chain_replacements := cm_chain_replacements s + 1,
               cm_chain_cache := (cm_chain_cache s)(key \<mapsto> chain)\<rparr>))"

function store_key_loop :: "'w crypto_storage \<Rightarrow> string \<Rightarrow> string \<Rightarrow> nat \<Rightarrow> ('w, 'z, string) cm_io" where
  "store_key_loop cy secret_id key_pem retries =
     pbind (store_signing_key cy secret_id key_pem) (\<lambda>r.
       case r of
         Ok _ \<Rightarrow> Ret (Ok key_pem)
       | Err e \<Rightarrow>
           if retries + 1 \<ge> 3 then Ret (Err (CertStorage e))
           else store_key_loop cy secret_id key_pem (retries + 1)
       | Panic \<Rightarrow> Ret Panic)"
  by auto
termination
  by (relation "measure (\<lambda>(cy, secret_id, key_pem, retries). 3 - retries)") auto

declare store_key_loop.simps [simp del]

definition signing_key_pem :: "('w, 'sk, 'ek) cert_env \<Rightarrow> 'w cert_manager \<Rightarrow> ('w, 'z, string) cm_io" where
  "signing_key_pem ev mg =
     with_storage mg (\<lambda>material_storage.
       (let secret_id = signing_secret_id ev mg in
        ptry (pmap_err CertStorage (load_signing_key material_storage secret_id)) (\<lambda>existing.
          case existing of
            Some secret \<Rightarrow> Ret (Ok secret)
          | None \<Rightarrow>
              ptry (call (\<lambda>s. (map_err CertKeyOp (keypair_generate (ev_crypto ev) (ev_rng ev (cs_world s))), s))) (\<lambda>keypair.
              ptry (Ret (map_err CertKeyOp (keypair_to_pkcs8_pem (ev_crypto ev) keypair))) (\<lambda>key_pem.
                store_key_loop material_storage secret_id key_pem 0)))))"

definition certificate :: "('w, 'sk, 'ek) cert_env \<Rightarrow> 'w cert_manager \<Rightarrow> ('w, 'z, certificate_data option) cm_io" where
  "certificate ev mg =
     with_storage mg (\<lambda>material_storage.
       ptry (pmap_err CertStorage (load_certificate_data material_storage (cert_key ev mg))) (\<lambda>loaded.
         case loaded of
           Some cert_data \<Rightarrow>
             Ret (omap Some (map_err CertSerde (from_sum (cl_from_json (ev_cert ev) cert_data))))
         | None \<Rightarrow> Ret (Ok None)))"

definition cert_chain_parts :: "('w, 'sk, 'ek) cert_env \<Rightarrow> 'w cert_manager \<Rightarrow> ('w, 'z, string list option) cm_io" where
  "cert_chain_parts ev mg =
     (let key = cert_key ev mg in
      pbind (chain_cache_get ev key) (\<lambda>cached.
        case cached of
          Some certs \<Rightarrow> Ret (Ok (Some certs))
        | None \<Rightarrow>
            ptry (certificate ev mg) (\<lambda>cert_data.
              case cert_data of
                Some cd \<Rightarrow>
                  ptry (Ret (parse_cert_chain_parts (ev_x509 ev) (cd_certificate cd))) (\<lambda>certs.
                  ptry (chain_cache_insert key certs) (\<lambda>_.
                    Ret (Ok (Some certs))))
              | None \<Rightarrow> Ret (Ok None))))"

definition load_signing_material ::
  "('w, 'sk, 'ek) cert_env \<Rightarrow> 'w cert_manager \<Rightarrow> ('w, 'z, signing_material) cm_io" where
  "load_signing_material ev mg =
     pbind load_active (\<lambda>active.
       case active of
         Some material \<Rightarrow> Ret (Ok material)
       | None \<Rightarrow>
           ptry (signing_key_pem ev mg) (\<lambda>key_pem.
           ptry (cert_chain_parts ev mg) (\<lambda>certificate_chain.
             (let material = \<lparr>sm_certificate_chain = certificate_chain, sm_signing_key_pem = key_pem\<rparr> in
              ptry (set_active material) (\<lambda>_. Ret (Ok material))))))"

definition manager_signing_material ::
  "('w, 'sk, 'ek) cert_env \<Rightarrow> 'w cert_manager \<Rightarrow> ('w, 'z, signing_material) cm_io" where
  "manager_signing_material ev mg =
     pbind load_active (\<lambda>active.
       case active of
         Some material \<Rightarrow> Ret (Ok material)
       | None \<Rightarrow> locked (load_signing_material ev mg))"

definition signing_key_from_storage ::
  "('w, 'sk, 'ek) cert_env \<Rightarrow> 'w cert_manager \<Rightarrow> ('w, 'z, string option) cm_io" where
  "signing_key_from_storage ev mg =
     with_storage mg (\<lambda>material_storage.
       pmap_err CertStorage (load_signing_key material_storage (signing_secret_id ev mg)))"

definition persist_certificate_data ::
  "('w, 'sk, 'ek) cert_env \<Rightarrow> 'w cert_manager \<Rightarrow> certificate_data \<Rightarrow> ('w, 'z, unit) cm_io" where
  "persist_certificate_data ev mg cert_data =
     ptry (Ret (map_err CertSerde (from_sum (cl_to_json (ev_cert ev) cert_data)))) (\<lambda>serialized_cert_data.
     with_storage mg (\<lambda>material_storage.
       (let key = cert_key ev mg in
        ptry (pmap_err CertStorage (load_certificate_data material_storage key)) (\<lambda>existing.
          case existing of
            Some _ \<Rightarrow> pmap_err CertStorage (update_certificate_data material_storage key serialized_cert_data)
          | None \<Rightarrow> pmap_err CertStorage (store_certificate_data material_storage key serialized_cert_data)))))"

definition persist_signing_key ::
  "('w, 'sk, 'ek) cert_env \<Rightarrow> 'w cert_manager \<Rightarrow> string \<Rightarrow> ('w, 'z, unit) cm_io" where
  "persist_signing_key ev mg signing_key =
     with_storage mg (\<lambda>material_storage.
       (let secret_id = signing_secret_id ev mg in
        ptry (pmap_err CertStorage (load_signing_key material_storage secret_id)) (\<lambda>existing.
          case existing of
            Some _ \<Rightarrow> pmap_err CertStorage (update_signing_key material_storage secret_id signing_key)
          | None \<Rightarrow> pmap_err CertStorage (store_signing_key material_storage secret_id signing_key))))"

definition cache_provisioned_chain ::
  "('w, 'sk, 'ek) cert_env \<Rightarrow> 'w cert_manager \<Rightarrow> string \<Rightarrow> ('w, 'z, unit) cm_io" where
  "cache_provisioned_chain ev mg cert_pem =
     ptry (Ret (parse_cert_chain_parts (ev_x509 ev) cert_pem)) (\<lambda>parts.
       chain_cache_replace (cert_key ev mg) parts)"

definition store_active_signing_material ::
  "('w, 'sk, 'ek) cert_env \<Rightarrow> string \<Rightarrow> string \<Rightarrow> ('w, 'z, unit) cm_io" where
  "store_active_signing_material ev cert_pem key_pem =
     ptry (Ret (parse_cert_chain_parts (ev_x509 ev) cert_pem)) (\<lambda>certs.
       set_active \<lparr>sm_certificate_chain = Some certs, sm_signing_key_pem = key_pem\<rparr>)"

definition persist_crypto_material ::
  "('w, 'sk, 'ek) cert_env \<Rightarrow> 'w cert_manager \<Rightarrow> certificate_data \<Rightarrow> string \<Rightarrow> ('w, 'z, unit) cm_io" where
  "persist_crypto_material ev mg cert_data signing_key =
     ptry (persist_certificate_data ev mg cert_data) (\<lambda>_.
     ptry (persist_signing_key ev mg signing_key) (\<lambda>_.
     ptry (cache_provisioned_chain ev mg (cd_certificate cert_data)) (\<lambda>_.
       store_active_signing_material ev (cd_certificate cert_data) signing_key)))"

section \<open>Provisioning by ACME\<close>

definition create_http_client :: "'w cert_manager \<Rightarrow> (http_client, cert_error) outcome" where
  "create_http_client mg = ok_or (mg_acme_http_client mg) (CertOther ''ACME HTTP client factory not set'')"

definition acme_call :: "('w \<Rightarrow> (string + 'a) \<times> 'w) \<Rightarrow> ('w, 'z, 'a) cm_io" where
  "acme_call f = pmap_err CertAcme (outside f)"

definition set_acme_client :: "string \<Rightarrow> ('w, 'z, unit) cm_io" where
  "set_acme_client account = call (\<lambda>s. (Ok (), s\<lparr>cm_acme_client := Some account\<rparr>))"

definition create_acme_account ::
  "('w, 'sk, 'ek) cert_env \<Rightarrow> 'w cert_manager \<Rightarrow> 'w crypto_storage \<Rightarrow> string \<Rightarrow> ('w, 'z, string) cm_io" where
  "create_acme_account ev mg material_storage account_id =
     ptry (Ret (create_http_client mg)) (\<lambda>http_client.
     ptry (acme_call (ac_create (ev_acme ev) http_client (''mailto:'' @ mg_email mg) (mg_acme_directory_url mg)))
       (\<lambda>(account, credentials).
     ptry (Ret (map_err CertSerde (from_sum (ac_show_credentials (ev_acme ev) credentials)))) (\<lambda>json.
     ptry (pmap_err CertStorage (store_secret material_storage account_id json)) (\<lambda>_.
     ptry (set_acme_client account) (\<lambda>_.
       Ret (Ok account))))))"

definition acme_account :: "('w, 'sk, 'ek) cert_env \<Rightarrow> 'w cert_manager \<Rightarrow> ('w, 'z, string) cm_io" where
  "acme_account ev mg =
     with_storage mg (\<lambda>material_storage.
       pbind (call (\<lambda>s. (cm_acme_client s, s))) (\<lambda>client.
         case client of
           Some account \<Rightarrow> Ret (Ok account)
         | None \<Rightarrow>
             (let account_id = acme_account_id ev mg in
              ptry (pmap_err CertStorage (load_secret material_storage account_id)) (\<lambda>stored.
                case stored of
                  None \<Rightarrow> create_acme_account ev mg material_storage account_id
                | Some text \<Rightarrow>
                    ptry (Ret (map_err CertSerde (from_sum (ac_parse_credentials (ev_acme ev) text)))) (\<lambda>credentials.
                    ptry (Ret (create_http_client mg)) (\<lambda>http_client.
                    pbind (acme_call (ac_from_credentials (ev_acme ev) http_client credentials)) (\<lambda>loaded.
                      case loaded of
                        Ok account \<Rightarrow> ptry (set_acme_client account) (\<lambda>_. Ret (Ok account))
                      | Err _ \<Rightarrow>
                          ptry (pmap_err CertStorage (delete_secret material_storage account_id)) (\<lambda>_.
                            create_acme_account ev mg material_storage account_id)
                      | Panic \<Rightarrow> Ret Panic)))))))"

definition generate_csr :: "('w, 'sk, 'ek) cert_env \<Rightarrow> 'w cert_manager \<Rightarrow> string \<Rightarrow> (string, cert_error) outcome" where
  "generate_csr ev mg signing_key =
     obind (map_err CertParsing (from_sum (cl_params_new (ev_cert ev) (mg_domains mg)))) (\<lambda>_.
       case mg_domains mg of
         [] \<Rightarrow> Panic
       | common_name # _ \<Rightarrow>
           (let params = \<lparr>csr_subject_alt_names = mg_domains mg, csr_common_name = common_name,
                          csr_organization = mg_organization mg,
                          csr_extended_key_usages = (case mg_eku mg of Some eku \<Rightarrow> [eku] | None \<Rightarrow> []),
                          csr_key_usages = [''digitalSignature'']\<rparr> in
            obind (map_err CertParsing (from_sum (cl_rcgen_key (ev_cert ev) signing_key))) (\<lambda>keypair.
              map_err CertParsing (from_sum (cl_serialize_request (ev_cert ev) params keypair)))))"

fun process_authorizations ::
  "('w, 'sk, 'ek) cert_env \<Rightarrow> 'w challenge_handler \<Rightarrow> string \<Rightarrow> string list \<Rightarrow> 'w cleanup_future list
   \<Rightarrow> ('w, 'z, 'w cleanup_future list) cm_io" where
  "process_authorizations ev handler order [] cleanup_futures = Ret (Ok cleanup_futures)"
| "process_authorizations ev handler order (url # urls) cleanup_futures =
     ptry (acme_call (ac_authorization (ev_acme ev) order url)) (\<lambda>authz.
       if az_status authz = AuthzValid then process_authorizations ev handler order urls cleanup_futures
       else ptry (pmap_err CertChallenge (outside (handler authz))) (\<lambda>cleanup_future.
              process_authorizations ev handler order urls (cleanup_futures @ [cleanup_future])))"

fun run_cleanups :: "'w cleanup_future list \<Rightarrow> (('w, 'z) manager_state_scheme, unit) proc" where
  "run_cleanups [] = Ret ()"
| "run_cleanups (c # cs) = pbind (outside c) (\<lambda>_. run_cleanups cs)"

text \<open>The debug form of a list of names, none of which needs an escape.\<close>

definition debug_names :: "string list \<Rightarrow> string" where
  "debug_names names = ''['' @ str_join '', '' (map (\<lambda>n. [CHR 0x22] @ n @ [CHR 0x22]) names) @ '']''"

definition poll_order ::
  "('w, 'sk, 'ek) cert_env \<Rightarrow> 'w cert_manager \<Rightarrow> string \<Rightarrow> 'w cleanup_future list \<Rightarrow> ('w, 'z, unit) cm_io" where
  "poll_order ev mg order cleanup_futures =
     ptry (acme_call (ac_poll_ready (ev_acme ev) order)) (\<lambda>state.
       pbind (run_cleanups cleanup_futures) (\<lambda>_.
         Ret (if state \<noteq> OrderReady then 
              Err (CertOther (''Order with url '' @ order @ '' for domains '' @ debug_names (mg_domains mg) @ '' has been invalidated''))
             
              else Ok ())))"

definition request_acme_certificate ::
  "('w, 'sk, 'ek) cert_env \<Rightarrow> 'w cert_manager \<Rightarrow> ('w, 'z, certificate_data) cm_io" where
  "request_acme_certificate ev mg =
     with_storage mg (\<lambda>_.
     ptry (Ret (ok_or (mg_challenge_handler mg) (CertOther ''Challenge handler not set''))) (\<lambda>challenge_handler.
       if mg_domains mg = [] then Ret (Err (CertOther ''No domain(s) provided to request a certificate for''))
       else
         ptry (acme_account ev mg) (\<lambda>account.
         ptry (acme_call (ac_new_order (ev_acme ev) account (mg_domains mg))) (\<lambda>order.
         pbind (call (\<lambda>s. (ac_authorizations (ev_acme ev) order (cs_world s), s))) (\<lambda>urls.
         ptry (process_authorizations ev challenge_handler order urls []) (\<lambda>cleanup_futures.
         ptry (poll_order ev mg order cleanup_futures) (\<lambda>_.
         ptry (signing_key_pem ev mg) (\<lambda>server_key_pem.
         ptry (Ret (generate_csr ev mg server_key_pem)) (\<lambda>csr_der_bytes.
         ptry (acme_call (ac_finalize_csr (ev_acme ev) order csr_der_bytes)) (\<lambda>_.
         ptry (acme_call (ac_poll_certificate (ev_acme ev) order)) (\<lambda>cert_chain_pem.
         ptry (read_clock ev) (\<lambda>now.
         ptry (Ret (certificate_data_from_pem (ev_cert ev) now cert_chain_pem)) (\<lambda>cert_data.
         ptry (persist_certificate_data ev mg cert_data) (\<lambda>_.
         ptry (cache_provisioned_chain ev mg (cd_certificate cert_data)) (\<lambda>_.
         ptry (store_active_signing_material ev (cd_certificate cert_data) server_key_pem) (\<lambda>_.
           Ret (Ok cert_data)))))))))))))))))"

section \<open>Provisioning from a store\<close>

text \<open>Dropping the white space of a text, character by character.\<close>

function drop_white_space :: "string \<Rightarrow> string" where
  "drop_white_space [] = []"
| "drop_white_space (c # s) =
     (case find (\<lambda>w. w \<noteq> [] \<and> prefix w (c # s)) white_space of
        Some w \<Rightarrow> drop_white_space (drop (length w) (c # s))
      | None \<Rightarrow> c # drop_white_space s)"
  by pat_completeness auto
termination
  by (relation "measure length") (auto simp: find_Some_iff prefix_def)

fun decode_base64_text :: "(string \<Rightarrow> string option) list \<Rightarrow> string \<Rightarrow> string option" where
  "decode_base64_text [] v = None"
| "decode_base64_text (engine # engines) v =
     (case engine v of Some bytes \<Rightarrow> Some bytes | None \<Rightarrow> decode_base64_text engines v)"

definition decode_text_material :: "'sk cert_lib \<Rightarrow> string \<Rightarrow> string \<Rightarrow> (string, cert_error) outcome" where
  "decode_text_material cl v label =
     (if contains ''-----BEGIN '' v then Ok v
      else
        let compact = drop_white_space v in
        if compact = [] then Err (CertValidation (label @ '' material is empty''))
        else ok_or (decode_base64_text (cl_base64_engines cl) compact)
               (CertValidation (label @ '' material must be PEM text or base64/base64url-encoded DER'')))"

definition load_source ::
  "('w, 'sk, 'ek) cert_env \<Rightarrow> 'w cert_manager \<Rightarrow> material_source \<Rightarrow> string \<Rightarrow> ('w, 'z, string) cm_io" where
  "load_source ev mg source label =
     (case source of
        Filesystem path \<Rightarrow>
          pmap_err (\<lambda>e. CertValidation (''failed to read '' @ label @ '' file '' @ quoted path @ '': '' @ e))
            (outside (ev_read_file ev path))
      | FromStorage key \<Rightarrow>
          with_storage mg (\<lambda>material_storage.
          ptry (pmap_err CertStorage (load_secret material_storage key)) (\<lambda>loaded.
          ptry (Ret (ok_or loaded (CertValidation (''store '' @ label @ '' key '' @ quoted key @ '' was not found'')))) (\<lambda>secret.
            Ret (decode_text_material (ev_cert ev) secret label)))))"

definition is_pem_private_key :: "string \<Rightarrow> bool" where
  "is_pem_private_key bytes \<longleftrightarrow> contains ''-----BEGIN '' bytes"

definition normalize_pkcs8_key :: "('w, 'sk, 'ek) cert_env \<Rightarrow> string \<Rightarrow> (string, cert_error) outcome" where
  "normalize_pkcs8_key ev signing_key =
     (if is_pem_private_key signing_key
      then (if utf8_valid signing_key
            then obind (map_err CertKeyOp (keypair_from_pkcs8_pem (ev_crypto ev) signing_key)) (\<lambda>_. Ok signing_key)
            else Err (CertValidation (''signing key PEM is not valid UTF-8: '' @ cl_utf8_error (ev_cert ev) signing_key)))
      else obind (map_err (CertKeyOp \<circ> Parsing) (from_sum (cl_key_from_pkcs8_der (ev_cert ev) signing_key))) (\<lambda>keypair.
             map_err CertKeyOp (keypair_to_pkcs8_pem (ev_crypto ev) keypair)))"

definition provision_from_store ::
  "('w, 'sk, 'ek) cert_env \<Rightarrow> 'w cert_manager \<Rightarrow> material_source \<Rightarrow> material_source \<Rightarrow> ('w, 'z, certificate_data) cm_io" where
  "provision_from_store ev mg cert_source key_source =
     ptry (load_source ev mg cert_source ''certificate'') (\<lambda>certificate_bytes.
     ptry (load_source ev mg key_source ''signing key'') (\<lambda>signing_key.
     ptry (Ret (normalize_pkcs8_key ev signing_key)) (\<lambda>key_pem.
     ptry (read_clock ev) (\<lambda>now.
     ptry (Ret (certificate_data_from_der_or_pem (ev_cert ev) now certificate_bytes)) (\<lambda>certificate_data.
     ptry (Ret (map_err (CertValidation \<circ> sl_error_text)
             (validate_signing_material (ev_crypto ev) (ev_x509 ev) (cd_certificate certificate_data) key_pem))) (\<lambda>_.
     ptry (certificate ev mg) (\<lambda>current_certificate.
     ptry (signing_key_from_storage ev mg) (\<lambda>current_signing_key.
       case current_certificate of
         Some current \<Rightarrow>
           if cd_certificate current = cd_certificate certificate_data \<and> current_signing_key = Some key_pem
           then Ret (Ok current)
           else ptry (persist_crypto_material ev mg certificate_data key_pem) (\<lambda>_. Ret (Ok certificate_data))
       | None \<Rightarrow> ptry (persist_crypto_material ev mg certificate_data key_pem) (\<lambda>_. Ret (Ok certificate_data))))))))))"

section \<open>The manager\<close>

definition provision :: "('w, 'sk, 'ek) cert_env \<Rightarrow> 'w cert_manager \<Rightarrow> ('w, 'z, certificate_data) cm_io" where
  "provision ev mg =
     (case mg_provisioning_strategy mg of
        AcmeProvisioning \<Rightarrow> request_acme_certificate ev mg
      | StoreProvisioning c k \<Rightarrow> provision_from_store ev mg c k)"

definition request_certificate :: "('w, 'sk, 'ek) cert_env \<Rightarrow> 'w cert_manager \<Rightarrow> ('w, 'z, certificate_data) cm_io" where
  "request_certificate ev mg = locked (provision ev mg)"

definition i64_saturating_sub :: "int \<Rightarrow> int \<Rightarrow> int" where
  "i64_saturating_sub a b = max i64_min (min i64_max (a - b))"

definition update_time_to_expiry ::
  "('w, 'sk, 'ek) cert_env \<Rightarrow> certificate_data \<Rightarrow> (('w, 'z) manager_state_scheme, unit) proc" where
  "update_time_to_expiry ev cert_data = call (\<lambda>s.
     ((), s\<lparr>cm_time_to_expiry := Some (i64_saturating_sub (cd_expires_at cert_data) (ev_now ev (cs_world s)))\<rparr>))"

definition record_attempt :: "(('w, 'z) manager_state_scheme, unit) proc" where
  "record_attempt = call (\<lambda>s. ((), s\<lparr>cm_attempts := cm_attempts s + 1\<rparr>))"

definition record_successful_renewal ::
  "('w, 'sk, 'ek) cert_env \<Rightarrow> (('w, 'z) manager_state_scheme, unit) proc" where
  "record_successful_renewal ev = call (\<lambda>s.
     ((), s\<lparr>cm_successes := cm_successes s + 1, cm_last_successful_renewal := Some (ev_now ev (cs_world s))\<rparr>))"

definition record_failed_renewal :: "(('w, 'z) manager_state_scheme, unit) proc" where
  "record_failed_renewal = call (\<lambda>s. ((), s\<lparr>cm_failures := cm_failures s + 1\<rparr>))"

definition provision_and_record :: "('w, 'sk, 'ek) cert_env \<Rightarrow> 'w cert_manager \<Rightarrow> ('w, 'z, unit) cm_io" where
  "provision_and_record ev mg =
     pbind (request_certificate ev mg) (\<lambda>r.
       case r of
         Ok cert_data \<Rightarrow>
           pbind (record_successful_renewal ev) (\<lambda>_.
           pbind (update_time_to_expiry ev cert_data) (\<lambda>_. Ret (Ok ())))
       | Err e \<Rightarrow> pbind record_failed_renewal (\<lambda>_. Ret (Err e))
       | Panic \<Rightarrow> Ret Panic)"

definition renew_cert_if_needed :: "('w, 'sk, 'ek) cert_env \<Rightarrow> 'w cert_manager \<Rightarrow> ('w, 'z, unit) cm_io" where
  "renew_cert_if_needed ev mg =
     pbind record_attempt (\<lambda>_.
     ptry (certificate ev mg) (\<lambda>existing.
       case existing of
         Some cert_data \<Rightarrow>
           pbind (update_time_to_expiry ev cert_data) (\<lambda>_.
           ptry (read_clock ev) (\<lambda>now.
             if should_provision_existing mg now cert_data then provision_and_record ev mg
             else Ret (Ok ())))
       | None \<Rightarrow> provision_and_record ev mg))"

text \<open>The scheduled job reports a failure and ends.\<close>

definition renewal_job :: "('w, 'sk, 'ek) cert_env \<Rightarrow> 'w cert_manager \<Rightarrow> (('w, 'z) manager_state_scheme, cert_error option) proc" where
  "renewal_job ev mg =
     pbind (renew_cert_if_needed ev mg) (\<lambda>r. Ret (case r of Err e \<Rightarrow> Some e | _ \<Rightarrow> None))"

definition acme_certificate_provider ::
  "('w, 'sk, 'ek) cert_env \<Rightarrow> 'w cert_manager \<Rightarrow> ('w, 'z) manager_state_scheme certificate_provider" where
  "acme_certificate_provider ev mg =
     \<lparr>cert_signing_material = pmap_err (Backend \<circ> cert_error_text) (manager_signing_material ev mg)\<rparr>"

section \<open>The builder\<close>

record 'w manager_builder =
  bl_crypto_storage :: "'w storage option"
  bl_cache_policy :: crypto_cache_policy
  bl_challenge_handler :: "'w challenge_handler option"
  bl_acme_http_client :: "http_client option"
  bl_provisioning_strategy :: "provisioning_strategy option"
  bl_renewal_strategy :: renewal_strategy
  bl_domains :: "string list"
  bl_email :: "string option"
  bl_organization :: "string option"
  bl_eku :: "nat list option"
  bl_acme_directory_url :: "string option"

definition builder_default :: "'w manager_builder" where
  "builder_default =
     \<lparr>bl_crypto_storage = None, bl_cache_policy = NO_PRIVATE_KEY_CACHE, bl_challenge_handler = None,
      bl_acme_http_client = None, bl_provisioning_strategy = None,
      bl_renewal_strategy = PercentageOfLifetime None, bl_domains = [], bl_email = None,
      bl_organization = None, bl_eku = None, bl_acme_directory_url = None\<rparr>"

text \<open>\<open>default_client\<close> is the result of \<open>DefaultHttpClient::new(None)\<close>.\<close>

definition builder_build ::
  "(nat \<Rightarrow> nat option \<Rightarrow> 'w kept) \<Rightarrow> (http_client, cert_error) outcome \<Rightarrow> 'w manager_builder
   \<Rightarrow> ('w cert_manager, cert_error) outcome" where
  "builder_build moka default_client b =
     (if bl_domains b = [] then Err (CertValidation ''at least one certificate domain must be configured'')
      else
        obind (ok_or (bl_crypto_storage b) (CertValidation ''cryptographic-material backend must be configured'')) (\<lambda>backend.
        let crypto_storage = with_cache_policy moka backend (bl_cache_policy b);
            strategy = (case bl_provisioning_strategy b of Some st \<Rightarrow> st | None \<Rightarrow> AcmeProvisioning);
            strategy_uses_acme = (strategy_name strategy = ''acme'')
        in
          if strategy_uses_acme \<and> bl_challenge_handler b = None
          then Err (CertValidation ''ACME provisioning requires a challenge handler'')
          else if strategy_uses_acme \<and> (case bl_acme_directory_url b of Some u \<Rightarrow> u | None \<Rightarrow> []) = []
          then Err (CertValidation ''ACME provisioning requires an ACME directory URL'')
          else
            obind (case bl_acme_http_client b of
                     Some client \<Rightarrow> Ok (Some client)
                   | None \<Rightarrow> if strategy_uses_acme then omap Some default_client else Ok None) (\<lambda>http_client.
              Ok \<lparr>mg_crypto_storage = Some crypto_storage, mg_challenge_handler = bl_challenge_handler b,
                  mg_acme_http_client = http_client, mg_provisioning_strategy = strategy,
                  mg_renewal_strategy = bl_renewal_strategy b, mg_domains = bl_domains b,
                  mg_email = (case bl_email b of Some e \<Rightarrow> e | None \<Rightarrow> []),
                  mg_organization = bl_organization b, mg_eku = bl_eku b,
                  mg_acme_directory_url = (case bl_acme_directory_url b of Some u \<Rightarrow> u | None \<Rightarrow> [])\<rparr>)))"

text \<open>\<open>CertManager::new\<close> and the methods that complete it.\<close>

definition cert_manager_new ::
  "(http_client, cert_error) outcome \<Rightarrow> string list \<Rightarrow> string \<Rightarrow> string option \<Rightarrow> string
   \<Rightarrow> ('w cert_manager, cert_error) outcome" where
  "cert_manager_new default_client domains email organization acme_directory_url =
     obind default_client (\<lambda>http_client.
       Ok \<lparr>mg_crypto_storage = None, mg_challenge_handler = None, mg_acme_http_client = Some http_client,
           mg_provisioning_strategy = AcmeProvisioning, mg_renewal_strategy = PercentageOfLifetime None,
           mg_domains = domains, mg_email = email, mg_organization = organization, mg_eku = None,
           mg_acme_directory_url = acme_directory_url\<rparr>)"

definition new_manager_state :: "'w \<Rightarrow> 'w manager_state" where
  "new_manager_state w =
     \<lparr>cs_world = w, cs_certificate_cache = Map.empty, cs_signing_key_cache = Map.empty,
      cm_chain_cache = Map.empty, cm_acme_client = None, cm_active = None, cm_attempts = 0, cm_successes = 0,
      cm_failures = 0, cm_time_to_expiry = None, cm_last_successful_renewal = None, cm_chain_hits = 0,
      cm_chain_misses = 0, cm_chain_replacements = 0\<rparr>"

end
