(* ===== verification/Process_Logic.thy ===== *)
theory Process_Logic
  imports Processes
begin

text \<open>
  Reasoning about a process that runs alone: \<open>triple P p Q\<close> says that from a state with \<open>P\<close> the
  process ends with a result and a state in \<open>Q\<close>. \<open>steady I p\<close> is the special case of an invariant
  that the process keeps while it never panics. The rules follow the composition of the code, so
  that a proof about a composed operation is the application of its parts.
\<close>

named_theorems steady_rules \<open>invariants through the composition of processes\<close>

definition triple :: "('s \<Rightarrow> bool) \<Rightarrow> ('s, 'a) proc \<Rightarrow> ('a \<Rightarrow> 's \<Rightarrow> bool) \<Rightarrow> bool" where
  "triple P p Q \<longleftrightarrow> (\<forall>s. P s \<longrightarrow> (case run p s of (x, s') \<Rightarrow> Q x s'))"

definition steady :: "('s \<Rightarrow> bool) \<Rightarrow> ('s, ('a, 'e) outcome) proc \<Rightarrow> bool" where
  "steady I p \<longleftrightarrow> triple I p (\<lambda>r s. I s \<and> r \<noteq> Panic)"

lemma tripleD: "triple P p Q \<Longrightarrow> P s \<Longrightarrow> run p s = (x, s') \<Longrightarrow> Q x s'"
  by (fastforce simp: triple_def)

lemma tripleI: "(\<And>s x s'. P s \<Longrightarrow> run p s = (x, s') \<Longrightarrow> Q x s') \<Longrightarrow> triple P p Q"
  by (auto simp: triple_def)

lemma triple_weaken:
  "triple P p Q \<Longrightarrow> (\<And>s. P' s \<Longrightarrow> P s) \<Longrightarrow> (\<And>x s. Q x s \<Longrightarrow> Q' x s) \<Longrightarrow> triple P' p Q'"
  by (auto simp: triple_def case_prod_beta)

lemma triple_Ret: "(\<And>s. P s \<Longrightarrow> Q x s) \<Longrightarrow> triple P (Ret x) Q"
  by (simp add: triple_def)

lemma triple_call: "(\<And>s x s'. P s \<Longrightarrow> f s = (x, s') \<Longrightarrow> Q x s') \<Longrightarrow> triple P (call f) Q"
  by (auto simp: triple_def)

lemma triple_pbind:
  "triple P p R \<Longrightarrow> (\<And>x. triple (R x) (k x) Q) \<Longrightarrow> triple P (pbind p k) Q"
  by (fastforce simp: triple_def case_prod_beta)

lemma triple_ptry:
  assumes "triple P p (\<lambda>r s. case r of Ok x \<Rightarrow> R x s | Err e \<Rightarrow> Q (Err e) s | Panic \<Rightarrow> Q Panic s)"
    and "\<And>x. triple (R x) (k x) Q"
  shows "triple P (ptry p k) Q"
proof (rule tripleI)
  fix s x s'
  assume P: "P s" and r: "run (ptry p k) s = (x, s')"
  obtain y t where y: "run p s = (y, t)" by fastforce
  show "Q x s'"
    using tripleD [OF assms(1) P y] r y tripleD [OF assms(2)] by (cases y) auto
qed

lemma triple_pmap_err:
  "triple P p (\<lambda>r s. Q (map_err f r) s) \<Longrightarrow> triple P (pmap_err f p) Q"
  by (auto simp: triple_def case_prod_beta)

lemma steadyD:
  assumes "steady I p" "I s" "run p s = (r, s')"
  shows "I s'" and "r \<noteq> Panic"
  using tripleD [OF assms(1) [unfolded steady_def] assms(2,3)] by auto

lemma steadyI: "(\<And>s r s'. I s \<Longrightarrow> run p s = (r, s') \<Longrightarrow> I s' \<and> r \<noteq> Panic) \<Longrightarrow> steady I p"
  by (auto simp: steady_def triple_def)

lemma steady_triple: "steady I p \<Longrightarrow> triple I p (\<lambda>r s. I s \<and> r \<noteq> Panic)"
  by (simp add: steady_def)

lemma steady_Ret [steady_rules]: "r \<noteq> Panic \<Longrightarrow> steady I (Ret r)"
  by (simp add: steady_def triple_def)

lemma steady_pbind: "triple I p (\<lambda>_. I) \<Longrightarrow> (\<And>x. steady I (k x)) \<Longrightarrow> steady I (pbind p k)"
  unfolding steady_def by (rule triple_pbind)

lemma steady_ptry [steady_rules]: "steady I p \<Longrightarrow> (\<And>x. steady I (k x)) \<Longrightarrow> steady I (ptry p k)"
  unfolding steady_def
  by (rule triple_ptry [where R = "\<lambda>_. I"]) (auto elim!: triple_weaken split: outcome.splits)

lemma steady_pmap_err [steady_rules]: "steady I p \<Longrightarrow> steady I (pmap_err f p)"
  unfolding steady_def by (rule triple_pmap_err) (auto elim!: triple_weaken)

lemma steady_option [steady_rules]:
  "(x = None \<Longrightarrow> steady I p) \<Longrightarrow> (\<And>y. x = Some y \<Longrightarrow> steady I (q y)) \<Longrightarrow> steady I (case x of None \<Rightarrow> p | Some y \<Rightarrow> q y)"
  by (cases x) auto

lemma steady_if [steady_rules]:
  "(b \<Longrightarrow> steady I p) \<Longrightarrow> (\<not> b \<Longrightarrow> steady I q) \<Longrightarrow> steady I (if b then p else q)"
  by simp

lemma triple_pure: "(A \<Longrightarrow> triple P p Q) \<Longrightarrow> triple (\<lambda>s. A \<and> P s) p Q"
  by (auto simp: triple_def)

lemma triple_ptry_steady:
  assumes "steady I p" and "\<And>x. triple I (k x) Q" and "\<And>e s. I s \<Longrightarrow> Q (Err e) s"
  shows "triple I (ptry p k) Q"
  using steady_triple [OF assms(1)] assms(2,3)
  by (intro triple_ptry [where R = "\<lambda>_. I"]) (auto elim!: triple_weaken split: outcome.splits)

lemma triple_ptry_value:
  assumes "\<And>x. r = Ok x \<Longrightarrow> triple P (k x) Q" and "\<And>e s. r = Err e \<Longrightarrow> P s \<Longrightarrow> Q (Err e) s" and "r \<noteq> Panic"
  shows "triple P (ptry (Ret r) k) Q"
  using assms by (cases r) (auto intro: triple_Ret)

lemma steady_ptry_value [steady_rules]:
  assumes "r \<noteq> Panic" and "\<And>x. r = Ok x \<Longrightarrow> steady I (k x)"
  shows "steady I (ptry (Ret r) k)"
  using assms by (cases r) (auto intro: steady_Ret)

lemma ptry_assoc: "ptry (ptry p k) l = ptry p (\<lambda>x. ptry (k x) l)"
  by (auto simp: ptry_def pbind_assoc intro!: arg_cong [where f = "pbind p"] split: outcome.splits)

end
