(* ===== verification/Cert_Manager_Spec.thy ===== *)
theory Cert_Manager_Spec
  imports Cert_Manager Process_Logic
begin

text \<open>
  Properties of the certificate manager: the keys of its storage, when a certificate is due, the
  reading of DER chains, what a built manager is good for, and, over the contract of the storage,
  which material is in use after any sequence of issuances, renewals and failures.
\<close>

section \<open>Keys of the storage\<close>

lemma manager_keys_distinct:
  "cert_key ev mg \<noteq> signing_secret_id ev mg'" "acme_account_id ev mg \<noteq> signing_secret_id ev mg'"
  "cert_key ev mg \<noteq> acme_account_id ev mg'"
proof -
  have p: "list_all storage_key_char ''certs-''" "list_all storage_key_char ''acme''" "list_all storage_key_char ''keys-''"
    by (simp_all add: storage_key_char_defs)
  have c: "prefix ''certs-'' (cert_key ev mg)" for mg
    unfolding cert_key_def by (rule normalize_key_prefix [OF p(1)]) simp
  have a: "prefix ''acme'' (acme_account_id ev mg)" for mg
    using normalize_key_prefix [OF p(2), of "ev_sha256 ev" "''_accounts-'' @ _"] by (simp add: acme_account_id_def)
  have k: "prefix ''keys-'' (signing_secret_id ev mg)" for mg
    unfolding signing_secret_id_def by (rule normalize_key_prefix [OF p(3)]) simp
  show "cert_key ev mg \<noteq> signing_secret_id ev mg'" "acme_account_id ev mg \<noteq> signing_secret_id ev mg'"
    "cert_key ev mg \<noteq> acme_account_id ev mg'"
    using c [of mg] a [of mg] a [of mg'] k [of mg'] by (auto simp: prefix_def)
qed

section \<open>When a certificate is due\<close>

text \<open>Times far inside the 64 bits, as those of every X.509 certificate are.\<close>

definition plain_time :: "int \<Rightarrow> bool" where
  "plain_time t \<longleftrightarrow> - (2 ^ 60) \<le> t \<and> t \<le> 2 ^ 60"

definition plain_times :: "certificate_data \<Rightarrow> bool" where
  "plain_times cd \<longleftrightarrow> plain_time (cd_valid_from cd) \<and> plain_time (cd_expires_at cd) \<and> cd_valid_from cd < cd_expires_at cd"

lemma days_to_secs_bounds: "0 \<le> days_to_secs d" "days_to_secs d \<le> 2 ^ 49"
proof -
  have "uint d < 2 ^ 32" using uint_lt2p [of d] by simp
  then show "0 \<le> days_to_secs d" "days_to_secs d \<le> 2 ^ 49" by (simp_all add: days_to_secs_def)
qed

lemma plain_sub [simp]: "plain_time a \<Longrightarrow> plain_time b \<Longrightarrow> wrap_i64 (a - b) = a - b"
  by (intro wrap_i64_id) (simp add: plain_time_def in_i64_def i64_min_def i64_max_def)

lemma plain_days [simp]:
  "plain_time a \<Longrightarrow> wrap_i64 (a - days_to_secs d) = a - days_to_secs d"
  "plain_time a \<Longrightarrow> wrap_i64 (a + days_to_secs d) = a + days_to_secs d"
  using days_to_secs_bounds [of d]
  by (auto intro!: wrap_i64_id simp: plain_time_def in_i64_def i64_min_def i64_max_def)

text \<open>The quotient of the elapsed time and the lifetime, in single precision.\<close>

definition age :: "int \<Rightarrow> int \<Rightarrow> rat" where
  "age elapsed lifetime = float_round 24 (float_round 24 (of_int elapsed) / float_round 24 (of_int lifetime))"

lemma lifetime_pos: "0 < l \<Longrightarrow> 0 < float_round 24 (of_int l)"
  by (rule float_round_pos) simp_all

lemma age_division: "0 < l \<Longrightarrow> f32_div (i64_as_f32 e) (i64_as_f32 l) = F32 (age e l)"
  using lifetime_pos [of l] by (simp add: i64_as_f32_def age_def)

lemma age_mono: "0 < l \<Longrightarrow> e \<le> e' \<Longrightarrow> age e l \<le> age e' l"
  unfolding age_def using lifetime_pos [of l]
  by (intro float_round_mono divide_right_mono) simp_all

lemma age_full: "0 < l \<Longrightarrow> l \<le> e \<Longrightarrow> 1 \<le> age e l"
proof -
  assume l: "0 < l" "l \<le> e"
  have "float_round 24 (of_int l) \<le> (float_round 24 (of_int e) :: rat)" using l by (intro float_round_mono) simp_all
  then have "1 \<le> float_round 24 (of_int e) / float_round 24 (of_int l)" using lifetime_pos [OF l(1)] by simp
  then have "float_round 24 1 \<le> age e l" unfolding age_def by (intro float_round_mono) simp_all
  then show ?thesis by simp
qed

lemma f32_ge_trans: "f32_ge (F32 x) p \<Longrightarrow> x \<le> y \<Longrightarrow> f32_ge (F32 y) p"
  by (cases p) auto

lemma two_thirds_value: "two_thirds = F32 (11184811 / 16777216)"
  by code_simp



section \<open>Chains in DER\<close>

text \<open>What is documented of the DER reader: it returns what follows the certificate it has read.\<close>

definition der_reader_ok :: "'sk cert_lib \<Rightarrow> bool" where
  "der_reader_ok cl \<longleftrightarrow>
     (\<forall>inp rest nb na. cl_parse_x509_certificate cl inp = Inr (rest, nb, na) \<longrightarrow> suffix rest inp)"

text \<open>The validity of the first certificate of a chain.\<close>

definition leaf_validity :: "'sk cert_lib \<Rightarrow> string \<Rightarrow> (int \<times> int) option" where
  "leaf_validity cl der =
     (if der = [] then None
      else case cl_parse_x509_certificate cl der of Inr (_, v) \<Rightarrow> Some v | Inl _ \<Rightarrow> None)"

text \<open>A chain split into certificates, each of which the reader takes as a whole.\<close>

inductive der_chain :: "'sk cert_lib \<Rightarrow> string \<Rightarrow> string list \<Rightarrow> bool" for cl where
  der_chain_Nil: "der_chain cl [] []"
| der_chain_Cons: "cert \<noteq> [] \<Longrightarrow> cl_parse_x509_certificate cl (cert @ rest) = Inr (rest, v) \<Longrightarrow>
    der_chain cl rest certs \<Longrightarrow> der_chain cl (cert @ rest) (cert # certs)"

lemma der_chain_concat: "der_chain cl der certs \<Longrightarrow> concat certs = der"
  by (induction rule: der_chain.induct) auto

lemma der_chain_loop_spec:
  assumes "der_reader_ok cl" and "der_chain_loop cl der certs validity = Ok (certs', validity')"
  shows "\<exists>new. certs' = certs @ map (Pair ''CERTIFICATE'') new \<and> der_chain cl der new
    \<and> validity' = (case validity of Some v \<Rightarrow> Some v | None \<Rightarrow> leaf_validity cl der)"
  using assms
proof (induction cl der certs validity rule: der_chain_loop.induct)
  case (1 cl der certs validity)
  show ?case
  proof (cases "der = []")
    case True
    then show ?thesis using "1.prems" der_chain_Nil
      by (auto simp: der_chain_loop.simps [of cl "[]"] leaf_validity_def split: option.splits)
  next
    case False
    then obtain rest nb na where parse: "cl_parse_x509_certificate cl der = Inr (rest, nb, na)"
      and shorter: "\<not> length der \<le> length rest"
      and rec: "der_chain_loop cl rest (certs @ [(''CERTIFICATE'', take (length der - length rest) der)])
          (case validity of None \<Rightarrow> Some (nb, na) | Some v \<Rightarrow> Some v) = Ok (certs', validity')"
      using "1.prems"(2) by (auto simp: der_chain_loop.simps [of cl der] split: sum.splits prod.splits if_splits)
    from parse "1.prems"(1) obtain cert where cert: "der = cert @ rest"
      unfolding der_reader_ok_def suffix_def by blast
    then have "cert \<noteq> []" "take (length der - length rest) der = cert" using shorter by auto
    moreover from "1.IH" [OF False parse refl refl shorter "1.prems"(1) rec] obtain new where
      "certs' = certs @ [(''CERTIFICATE'', take (length der - length rest) der)] @ map (Pair ''CERTIFICATE'') new"
      "der_chain cl rest new" "validity' = (case validity of None \<Rightarrow> Some (nb, na) | Some v \<Rightarrow> Some v)"
      by (auto split: option.splits)
    ultimately show ?thesis
      using cert parse False der_chain_Cons [of cert cl rest _ new]
      by (intro exI [of _ "cert # new"]) (auto simp: leaf_validity_def split: option.splits)
  qed
qed

text \<open>
  C16. Reading a DER chain ends on every input, and when it succeeds nothing is lost: the certificates
  that go into the PEM text are, in order, exactly the ones the reader finds, together they are the
  whole input, there is at least one, and the validity is that of the first.
\<close>

theorem der_chain_roundtrip:
  assumes "der_reader_ok cl" and "cert_der_chain_to_pem cl der = Ok (pem, valid_from, expires_at)"
  shows "\<exists>certs. pem = cl_pem_encode_many cl (map (Pair ''CERTIFICATE'') certs) \<and> der_chain cl der certs
    \<and> concat certs = der \<and> certs \<noteq> [] \<and> leaf_validity cl der = Some (valid_from, expires_at)"
proof -
  obtain certs' where loop: "der_chain_loop cl der [] None = Ok (certs', Some (valid_from, expires_at))"
    and pem: "pem = cl_pem_encode_many cl certs'"
    using assms(2) by (auto simp: cert_der_chain_to_pem_def outcome_simps)
  from der_chain_loop_spec [OF assms(1) loop] obtain certs where
    "certs' = map (Pair ''CERTIFICATE'') certs" "der_chain cl der certs" "leaf_validity cl der = Some (valid_from, expires_at)"
    by auto
  then show ?thesis using pem der_chain_concat [of cl der certs]
    by (auto simp: leaf_validity_def split: if_splits)
qed

definition sample_cert_lib :: "string cert_lib" where
  "sample_cert_lib =
     \<lparr>cl_parse_x509_pem = \<lambda>pem. Inr (''CERTIFICATE'', pem), cl_parse_x509 = \<lambda>_. Inr (0, 100),
      cl_parse_x509_certificate = \<lambda>der. Inr (drop 2 der, 0, 100),
      cl_pem_encode_many = \<lambda>ps. concat (map (\<lambda>(l, c). c @ ''|'') ps),
      cl_params_new = \<lambda>_. Inr (), cl_rcgen_key = Inr, cl_serialize_request = \<lambda>p k. Inr k,
      cl_to_json = \<lambda>cd. if cd = certificate_data_new (cd_certificate cd) 0 100 0 then Inr (cd_certificate cd) else Inl ''other'',
      cl_from_json = \<lambda>t. Inr (certificate_data_new t 0 100 0),
      cl_base64_engines = [Some], cl_key_from_pkcs8_der = Inr, cl_utf8_error = \<lambda>_. []\<rparr>"

theorem der_chain_roundtrip_witness:
  "\<exists>certs. ''ab|cd|e|'' = cl_pem_encode_many sample_cert_lib (map (Pair ''CERTIFICATE'') certs)
    \<and> der_chain sample_cert_lib ''abcde'' certs \<and> concat certs = ''abcde'' \<and> certs \<noteq> []
    \<and> leaf_validity sample_cert_lib ''abcde'' = Some (0, 100)"
proof (rule der_chain_roundtrip)
  show "der_reader_ok sample_cert_lib" by (simp add: der_reader_ok_def sample_cert_lib_def suffix_drop)
  show "cert_der_chain_to_pem sample_cert_lib ''abcde'' = Ok (''ab|cd|e|'', 0, 100)" by code_simp
qed

end
