(* ===== verification/Cert_Manager_Laws.thy ===== *)
theory Cert_Manager_Laws
  imports Cert_Manager_Spec
begin

text \<open>
  What every operation of the certificate manager keeps. The locale \<open>steady_manager\<close> lifts an
  invariant of the primitive operations to the composed ones; it is used for the material in use,
  for the stored signing key and for the part of the state that belongs to the rest of the server.
\<close>

section \<open>Invariants of the composed operations\<close>

lemma steady_with_storage [steady_rules]:
  assumes "\<And>cy. mg_crypto_storage mg = Some cy \<Longrightarrow> steady I (k cy)"
  shows "steady I (with_storage mg k)"
  using assms by (cases "mg_crypto_storage mg") (auto simp: with_storage_def crypto_storage_of_def intro: steady_Ret)

lemma parse_chain_not_Panic [simp]: "parse_cert_chain_parts xl pem \<noteq> Panic"
  unfolding parse_cert_chain_parts_def by (rule collect_not_Panic) simp

lemma data_from_pem_not_Panic [simp]: "certificate_data_from_pem cl now pem \<noteq> Panic"
  by (auto simp: certificate_data_from_pem_def parse_cert_pem_def outcome_simps split: if_splits)

lemma data_from_pem_certificate:
  "certificate_data_from_pem cl now pem = Ok cd \<Longrightarrow> cd_certificate cd = pem"
  by (auto simp: certificate_data_from_pem_def certificate_data_new_def outcome_simps)

lemma generate_csr_not_Panic: "mg_domains mg \<noteq> [] \<Longrightarrow> generate_csr ev mg key \<noteq> Panic"
  by (auto simp: generate_csr_def outcome_simps Let_def split: list.splits)

lemma create_http_client_not_Panic [simp]: "create_http_client mg \<noteq> Panic"
  by (simp add: create_http_client_def)

text \<open>
  The state after new material was put in use: everything but the material keeps \<open>I\<close>, and \<open>K\<close> is
  known of the key.
\<close>

definition swapped ::
  "('w, 'sk, 'ek) cert_env \<Rightarrow> (('w, 'z) manager_state_scheme \<Rightarrow> bool) \<Rightarrow> (string \<Rightarrow> bool) \<Rightarrow> certificate_data
   \<Rightarrow> ('w, 'z) manager_state_scheme \<Rightarrow> bool" where
  "swapped ev I K cd s \<longleftrightarrow>
     (\<exists>t key certs. I t \<and> K key \<and> parse_cert_chain_parts (ev_x509 ev) (cd_certificate cd) = Ok certs
        \<and> s = t\<lparr>cm_active := Some \<lparr>sm_certificate_chain = Some certs, sm_signing_key_pem = key\<rparr>\<rparr>)"

lemma set_material:
  assumes "K key"
  shows "triple I (ptry (store_active_signing_material ev (cd_certificate cd) key) (\<lambda>_. Ret (Ok cd)))
    (\<lambda>r s. r \<noteq> Panic \<and> (case r of Ok cd \<Rightarrow> swapped ev I K cd s | _ \<Rightarrow> I s))"
  using assms unfolding store_active_signing_material_def swapped_def
  by (cases "parse_cert_chain_parts (ev_x509 ev) (cd_certificate cd)")
     (auto simp: triple_def set_active_def case_prod_beta)

lemma keypair_not_Panic [simp]:
  "keypair_generate cr rng \<noteq> Panic" "keypair_to_pkcs8_pem cr key \<noteq> Panic" "keypair_from_pkcs8_pem cr pem \<noteq> Panic"
proof -
  have "fill_seed rng left seed \<noteq> Panic" for left seed
    by (induction rng left seed rule: fill_seed.induct) (auto split: sum.splits)
  then show "keypair_generate cr rng \<noteq> Panic" by (auto simp: keypair_generate_def outcome_simps)
qed (simp_all add: keypair_to_pkcs8_pem_def keypair_from_pkcs8_pem_def)

lemma store_key_loop_steady:
  assumes "steady I (store_signing_key cy secret_id key_pem)"
  shows "steady I (store_key_loop cy secret_id key_pem retries)"
  using assms
proof (induction cy secret_id key_pem retries rule: store_key_loop.induct)
  case (1 cy secret_id key_pem retries)
  show ?case
    unfolding store_key_loop.simps [of cy secret_id key_pem retries] steady_def
    by (rule triple_pbind [OF "1.prems" [unfolded steady_def]])
       (use 1 in \<open>auto split: outcome.splits intro!: triple_Ret simp: triple_pure steady_def elim: triple_weaken\<close>)
qed

lemma signing_key_steady:
  assumes "\<And>cy. mg_crypto_storage mg = Some cy \<Longrightarrow> steady I (load_signing_key cy (signing_secret_id ev mg))"
    and "\<And>cy v. mg_crypto_storage mg = Some cy \<Longrightarrow> steady I (store_signing_key cy (signing_secret_id ev mg) v)"
  shows "steady I (signing_key_pem ev mg)"
  unfolding signing_key_pem_def Let_def
  by (intro steady_rules store_key_loop_steady assms) (auto intro!: steadyI)

lemma persist_steady:
  assumes "\<And>cy. mg_crypto_storage mg = Some cy \<Longrightarrow> steady I (load_certificate_data cy (cert_key ev mg))"
    and "\<And>cy v. mg_crypto_storage mg = Some cy \<Longrightarrow> steady I (store_certificate_data cy (cert_key ev mg) v)"
    and "\<And>cy v. mg_crypto_storage mg = Some cy \<Longrightarrow> steady I (update_certificate_data cy (cert_key ev mg) v)"
  shows "steady I (persist_certificate_data ev mg cd)"
  unfolding persist_certificate_data_def Let_def by (intro steady_rules assms) simp_all

text \<open>What an issuance does once it has the signing request.\<close>

abbreviation acme_finish ::
  "('w, 'sk, 'ek) cert_env \<Rightarrow> 'w cert_manager \<Rightarrow> string \<Rightarrow> string \<Rightarrow> string \<Rightarrow> ('w, 'z, certificate_data) cm_io" where
  "acme_finish ev mg ord csr key \<equiv>
     ptry (acme_call (ac_finalize_csr (ev_acme ev) ord csr)) (\<lambda>_.
     ptry (acme_call (ac_poll_certificate (ev_acme ev) ord)) (\<lambda>cert_chain_pem.
     ptry (read_clock ev) (\<lambda>now.
     ptry (Ret (certificate_data_from_pem (ev_cert ev) now cert_chain_pem)) (\<lambda>cd.
     ptry (persist_certificate_data ev mg cd) (\<lambda>_.
     ptry (cache_provisioned_chain ev mg (cd_certificate cd)) (\<lambda>_.
     ptry (store_active_signing_material ev (cd_certificate cd) key) (\<lambda>_.
       Ret (Ok cd))))))))"

text \<open>
  \<open>K\<close> is what is known of a signing key the manager hands out.
\<close>

locale steady_manager =
  fixes ev :: "('w, 'sk, 'ek) cert_env" and mg :: "'w cert_manager"
    and I :: "('w, 'z) manager_state_scheme \<Rightarrow> bool" and K :: "string \<Rightarrow> bool"
  assumes key_steady: "triple I (signing_key_pem ev mg) (\<lambda>r s. I s \<and> r \<noteq> Panic \<and> (\<forall>k. r = Ok k \<longrightarrow> K k))"
    and load_cert_steady: "\<And>cy. mg_crypto_storage mg = Some cy \<Longrightarrow> steady I (load_certificate_data cy (cert_key ev mg))"
    and persist_certificate_steady [steady_rules]: "\<And>cd. steady I (persist_certificate_data ev mg cd)"
    and load_account_steady: "\<And>cy. mg_crypto_storage mg = Some cy \<Longrightarrow> steady I (load_secret cy (acme_account_id ev mg))"
    and store_account_steady: "\<And>cy v. mg_crypto_storage mg = Some cy \<Longrightarrow> steady I (store_secret cy (acme_account_id ev mg) v)"
    and delete_account_steady: "\<And>cy. mg_crypto_storage mg = Some cy \<Longrightarrow> steady I (delete_secret cy (acme_account_id ev mg))"
    and from_credentials_steady: "\<And>h c. steady I (outside (ac_from_credentials (ev_acme ev) h c))"
    and create_steady: "\<And>h c u. steady I (outside (ac_create (ev_acme ev) h c u))"
    and new_order_steady: "\<And>a ds. steady I (outside (ac_new_order (ev_acme ev) a ds))"
    and authorization_steady: "\<And>ord u. steady I (outside (ac_authorization (ev_acme ev) ord u))"
    and poll_ready_steady: "\<And>ord. steady I (outside (ac_poll_ready (ev_acme ev) ord))"
    and finalize_steady: "\<And>ord csr. steady I (outside (ac_finalize_csr (ev_acme ev) ord csr))"
    and poll_certificate_steady: "\<And>ord. steady I (outside (ac_poll_certificate (ev_acme ev) ord))"
    and handler_steady: "\<And>h authz. mg_challenge_handler mg = Some h \<Longrightarrow> steady I (outside (h authz))"
    and cleanup_steady: "\<And>h authz w c w'. mg_challenge_handler mg = Some h \<Longrightarrow> h authz w = (Inr c, w') \<Longrightarrow> steady I (outside c)"
    and chain_get_steady: "triple I (chain_cache_get ev (cert_key ev mg)) (\<lambda>_. I)"
    and fields_steady: "\<And>s s'. I s \<Longrightarrow> cs_world s' = cs_world s \<Longrightarrow> cs_certificate_cache s' = cs_certificate_cache s \<Longrightarrow>
      cs_signing_key_cache s' = cs_signing_key_cache s \<Longrightarrow> cm_active s' = cm_active s \<Longrightarrow>
      manager_state.more s' = manager_state.more s \<Longrightarrow> I s'"
begin

lemma key_pem_steady [steady_rules]: "steady I (signing_key_pem ev mg)"
  using key_steady by (auto simp: steady_def elim: triple_weaken)

lemma primitive_steady [steady_rules]:
  "steady I (chain_cache_insert key chain)" "steady I (chain_cache_replace key chain)"
  "steady I (set_acme_client account)" "steady I (read_clock ev)"
  by (auto intro!: steadyI simp: chain_cache_insert_def chain_cache_replace_def set_acme_client_def read_clock_def
      elim!: fields_steady)

lemmas acme_calls_steady [steady_rules] =
  from_credentials_steady create_steady new_order_steady authorization_steady poll_ready_steady finalize_steady
  poll_certificate_steady handler_steady

lemmas storage_steady [steady_rules] =
  load_cert_steady load_account_steady store_account_steady delete_account_steady

lemma certificate_steady [steady_rules]: "steady I (certificate ev mg)"
  unfolding certificate_def by (intro steady_rules) simp_all

lemma cert_chain_parts_steady [steady_rules]: "steady I (cert_chain_parts ev mg)"
  unfolding cert_chain_parts_def Let_def
  by (intro steady_pbind chain_get_steady steady_rules) simp_all

lemma cache_chain_steady [steady_rules]: "steady I (cache_provisioned_chain ev mg pem)"
  unfolding cache_provisioned_chain_def by (intro steady_rules) simp_all

lemma create_account_steady [steady_rules]:
  "mg_crypto_storage mg = Some cy \<Longrightarrow> steady I (create_acme_account ev mg cy (acme_account_id ev mg))"
  unfolding create_acme_account_def acme_call_def case_prod_beta by (intro steady_rules) simp_all

lemma acme_account_steady [steady_rules]: "steady I (acme_account ev mg)"
proof -
  have load: "steady I (pbind (acme_call (ac_from_credentials (ev_acme ev) h c)) k)"
    if "\<And>r. r \<noteq> Panic \<Longrightarrow> steady I (k r)" for h c and k :: "(string, cert_error) outcome \<Rightarrow> ('w, 'z, string) cm_io"
    using that steady_pmap_err [OF from_credentials_steady, of CertAcme h c]
    by (auto simp: acme_call_def steady_def triple_def case_prod_beta)
  show ?thesis
    unfolding acme_account_def Let_def
    by (intro steady_rules steady_pbind triple_call load) (auto intro!: steady_rules split: outcome.splits)
qed

lemma process_steady:
  assumes h: "mg_challenge_handler mg = Some h" and cs: "\<And>c. c \<in> set cs \<Longrightarrow> steady I (outside c)"
  shows "triple I (process_authorizations ev h ord urls cs)
    (\<lambda>r s. I s \<and> r \<noteq> Panic \<and> (\<forall>cs'. r = Ok cs' \<longrightarrow> (\<forall>c \<in> set cs'. steady I (outside c))))"
  using cs
proof (induction urls arbitrary: cs)
  case Nil
  then show ?case by (auto intro: triple_Ret)
next
  case (Cons u urls)
  let ?Q = "\<lambda>r s. I s \<and> r \<noteq> Panic \<and> (\<forall>cs'. r = Ok cs' \<longrightarrow> (\<forall>c \<in> set cs'. steady I (outside c)))"
  have handled: "triple I (pmap_err CertChallenge (outside (h authz)))
      (\<lambda>r s. case r of Ok c \<Rightarrow> steady I (outside c) \<and> I s | Err e \<Rightarrow> ?Q (Err e) s | Panic \<Rightarrow> ?Q Panic s)" for authz
  proof (rule tripleI)
    fix s r s'
    assume I: "I s" and r: "run (pmap_err CertChallenge (outside (h authz))) s = (r, s')"
    obtain r0 w' where w: "h authz (cs_world s) = (r0, w')" by fastforce
    then have "run (outside (h authz)) s = (from_sum r0, s\<lparr>cs_world := w'\<rparr>)" by (simp add: outside_def)
    from steadyD(1) [OF handler_steady [OF h] I this] show
      "case r of Ok c \<Rightarrow> steady I (outside c) \<and> I s' | Err e \<Rightarrow> ?Q (Err e) s' | Panic \<Rightarrow> ?Q Panic s'"
      using r w cleanup_steady [OF h, of authz "cs_world s"] by (cases r0) (auto simp: outside_def)
  qed
  show ?case
    by (auto intro!: triple_ptry_steady triple_ptry [OF handled] steady_rules triple_pure Cons.IH
        simp: acme_call_def Cons.prems)
qed

lemma cleanups_steady: "(\<And>c. c \<in> set cs \<Longrightarrow> steady I (outside c)) \<Longrightarrow> triple I (run_cleanups cs) (\<lambda>_. I)"
proof (induction cs)
  case (Cons c cs)
  then have "triple I (outside c) (\<lambda>_. I)" by (fastforce simp: steady_def triple_def)
  then show ?case using Cons by (auto intro: triple_pbind)
qed (auto intro: triple_Ret)

lemma poll_order_steady:
  "(\<And>c. c \<in> set cs \<Longrightarrow> steady I (outside c)) \<Longrightarrow> steady I (poll_order ev mg ord cs)"
  unfolding poll_order_def acme_call_def by (intro steady_rules steady_pbind cleanups_steady) simp_all

text \<open>
  An issuance over ACME: the order and its challenges, then the signing key, then the rest.
\<close>

lemma acme_certificate_via:
  assumes finish: "\<And>ord csr key. K key \<Longrightarrow> triple I (acme_finish ev mg ord csr key) Q"
    and errors: "\<And>e s. I s \<Longrightarrow> Q (Err e) s"
  shows "triple I (request_acme_certificate ev mg) Q"
proof -
  have key: "triple I (ptry (signing_key_pem ev mg) k) Q" if "\<And>key. K key \<Longrightarrow> triple I (k key) Q" for k
  proof (rule triple_ptry [where R = "\<lambda>key s. K key \<and> I s"])
    show "triple I (signing_key_pem ev mg)
        (\<lambda>r s. case r of Ok key \<Rightarrow> K key \<and> I s | Err e \<Rightarrow> Q (Err e) s | Panic \<Rightarrow> Q Panic s)"
      using key_steady errors by (auto elim!: triple_weaken split: outcome.splits)
  qed (intro triple_pure that)
  have authz: "triple I (ptry (process_authorizations ev h ord urls []) k) Q"
    if "mg_challenge_handler mg = Some h" "\<And>cs. (\<forall>c \<in> set cs. steady I (outside c)) \<Longrightarrow> triple I (k cs) Q" for h ord urls k
  proof (rule triple_ptry [where R = "\<lambda>cs s. (\<forall>c \<in> set cs. steady I (outside c)) \<and> I s"])
    show "triple I (process_authorizations ev h ord urls []) (\<lambda>r s. case r of
        Ok cs \<Rightarrow> (\<forall>c \<in> set cs. steady I (outside c)) \<and> I s | Err e \<Rightarrow> Q (Err e) s | Panic \<Rightarrow> Q Panic s)"
      using process_steady [OF that(1), of "[]" ord urls] errors by (auto elim!: triple_weaken split: outcome.splits)
  qed (intro triple_pure that(2))
  have order: "triple I (ptry (acme_account ev mg) (\<lambda>account.
         ptry (acme_call (ac_new_order (ev_acme ev) account (mg_domains mg))) (\<lambda>ord.
         pbind (call (\<lambda>s. (ac_authorizations (ev_acme ev) ord (cs_world s), s))) (\<lambda>urls.
         ptry (process_authorizations ev h ord urls []) (\<lambda>cs.
         ptry (poll_order ev mg ord cs) (\<lambda>_. rest ord)))))) Q"
    if "mg_challenge_handler mg = Some h" "\<And>ord. triple I (rest ord) Q" for h rest
    unfolding acme_call_def
    by (intro triple_ptry_steady triple_pbind [where R = "\<lambda>_. I"] triple_call authz that steady_rules poll_order_steady errors) auto
  show ?thesis
    unfolding request_acme_certificate_def with_storage_def
    by (intro triple_ptry_value) (auto intro!: order triple_Ret triple_ptry_value key finish errors
        simp: crypto_storage_of_def generate_csr_not_Panic ok_or_eq)
qed

text \<open>It ends in an error with the invariant, or it has swapped the material in use, as its last step.\<close>

lemma acme_certificate_triple:
  "triple I (request_acme_certificate ev mg)
     (\<lambda>r s. r \<noteq> Panic \<and> (case r of Ok cd \<Rightarrow> swapped ev I K cd s | _ \<Rightarrow> I s))"
  by (rule acme_certificate_via)
     (auto simp: acme_call_def intro!: triple_ptry_steady triple_ptry_value set_material steady_rules)

end

section \<open>Managers whose material keeps an invariant\<close>

locale keyed_manager = steady_manager +
  assumes set_active_keeps: "\<And>s m. I s \<Longrightarrow> K (sm_signing_key_pem m) \<Longrightarrow> I (s\<lparr>cm_active := Some m\<rparr>)"
    and active_known: "\<And>s m. I s \<Longrightarrow> cm_active s = Some m \<Longrightarrow> K (sm_signing_key_pem m)"
begin

lemma load_material_triple:
  "triple I (load_signing_material ev mg) (\<lambda>r s. I s \<and> r \<noteq> Panic \<and> (\<forall>m. r = Ok m \<longrightarrow> K (sm_signing_key_pem m)))"
proof -
  let ?Q = "\<lambda>r s. I s \<and> r \<noteq> Panic \<and> (\<forall>m. r = Ok m \<longrightarrow> K (sm_signing_key_pem m))"
  have chain: "triple I (ptry (cert_chain_parts ev mg) (\<lambda>c.
      ptry (set_active \<lparr>sm_certificate_chain = c, sm_signing_key_pem = key\<rparr>) (\<lambda>_.
        Ret (Ok \<lparr>sm_certificate_chain = c, sm_signing_key_pem = key\<rparr>)))) ?Q" if "K key" for key
    by (rule triple_ptry_steady [OF cert_chain_parts_steady])
       (use that set_active_keeps in \<open>auto simp: triple_def set_active_def\<close>)
  have "triple I (ptry (signing_key_pem ev mg) (\<lambda>key. ptry (cert_chain_parts ev mg) (\<lambda>c.
      ptry (set_active \<lparr>sm_certificate_chain = c, sm_signing_key_pem = key\<rparr>) (\<lambda>_.
        Ret (Ok \<lparr>sm_certificate_chain = c, sm_signing_key_pem = key\<rparr>))))) ?Q"
  proof (rule triple_ptry [where R = "\<lambda>key s. K key \<and> I s"])
    show "triple I (signing_key_pem ev mg)
        (\<lambda>r s. case r of Ok key \<Rightarrow> K key \<and> I s | Err e \<Rightarrow> ?Q (Err e) s | Panic \<Rightarrow> ?Q Panic s)"
      using key_steady by (auto elim!: triple_weaken split: outcome.splits)
  qed (intro triple_pure chain)
  then show ?thesis
    using active_known unfolding load_signing_material_def Let_def
    by (intro triple_pbind [where R = "\<lambda>a s. I s \<and> cm_active s = a"])
       (auto simp: load_active_def intro!: triple_call elim: triple_weaken split: option.splits intro: triple_Ret)
qed

lemma signing_material_triple:
  "triple I (manager_signing_material ev mg) (\<lambda>r s. I s \<and> r \<noteq> Panic \<and> (\<forall>m. r = Ok m \<longrightarrow> K (sm_signing_key_pem m)))"
proof -
  let ?Q = "\<lambda>r s. I s \<and> r \<noteq> Panic \<and> (\<forall>m. r = Ok m \<longrightarrow> K (sm_signing_key_pem m))"
  have "triple I (locked (load_signing_material ev mg)) ?Q"
    using load_material_triple unfolding locked_def by (simp add: triple_def)
  then show ?thesis
    using active_known unfolding manager_signing_material_def
    by (intro triple_pbind [where R = "\<lambda>a s. I s \<and> cm_active s = a"])
       (auto simp: load_active_def intro!: triple_call elim: triple_weaken split: option.splits intro: triple_Ret)
qed

lemma request_certificate_keeps:
  assumes "mg_provisioning_strategy mg = AcmeProvisioning"
  shows "steady I (request_certificate ev mg)"
proof -
  have "steady I (request_acme_certificate ev mg)"
    unfolding steady_def
    by (rule triple_weaken [OF acme_certificate_triple])
       (auto simp: swapped_def intro: set_active_keeps split: outcome.splits)
  then show ?thesis using assms by (simp add: request_certificate_def provision_def locked_def steady_def triple_def)
qed

lemma renewal_keeps:
  assumes "mg_provisioning_strategy mg = AcmeProvisioning"
  shows "steady I (renew_cert_if_needed ev mg)"
proof -
  have m: "triple I record_attempt (\<lambda>_. I)" "triple I record_failed_renewal (\<lambda>_. I)"
    "triple I (record_successful_renewal ev) (\<lambda>_. I)" "triple I (update_time_to_expiry ev cd) (\<lambda>_. I)" for cd
    by (auto simp: record_attempt_def record_failed_renewal_def record_successful_renewal_def
        update_time_to_expiry_def intro!: triple_call elim!: fields_steady)
  have "steady I (provision_and_record ev mg)"
    unfolding provision_and_record_def steady_def
    by (rule triple_pbind [OF request_certificate_keeps [OF assms, unfolded steady_def]])
       (auto split: outcome.splits intro!: triple_pbind [OF m(2)] triple_pbind [OF m(3)] triple_pbind [OF m(4)] triple_Ret
         simp: triple_pure)
  then show ?thesis
    unfolding renew_cert_if_needed_def by (intro steady_pbind m steady_rules) simp_all
qed

end

section \<open>Storage and library calls touch neither the active material nor the rest of the server\<close>

abbreviation apart :: "(signing_material option \<Rightarrow> 'z \<Rightarrow> bool) \<Rightarrow> ('w, 'z) manager_state_scheme \<Rightarrow> bool" where
  "apart J s \<equiv> J (cm_active s) (manager_state.more s)"

lemma set_cache_apart [simp]:
  "cm_active (set_cache c m s) = cm_active s" "manager_state.more (set_cache c m s) = manager_state.more s"
  by (cases c; simp)+

lemma outside_apart [steady_rules]: "steady (apart J) (outside f)"
  by (rule steadyI) (auto simp: outside_def split: prod.splits)

lemma caches_apart [steady_rules]:
  "triple (apart J) (cache_lookup c kept key) (\<lambda>_. apart J)" "triple (apart J) (cache_insert c key v) (\<lambda>_. apart J)"
  by (auto simp: cache_lookup_def cache_insert_def intro!: triple_call split: if_splits)

lemma load_with_cache_apart [steady_rules]: "steady (apart J) (load_with_cache cy key cache)"
proof -
  have f: "steady (apart J) (ptry (outside (st_load (cy_backend cy) key)) (\<lambda>loaded.
            case (cache, loaded) of
              (Some (c, _), Some v) \<Rightarrow> pbind (cache_insert c key v) (\<lambda>_. Ret (Ok loaded))
            | _ \<Rightarrow> Ret (Ok loaded)))"
    by (auto intro!: steady_rules steady_pbind caches_apart split: option.splits prod.splits)
  show ?thesis
    unfolding load_with_cache_def Let_def
    by (auto split: option.splits intro!: f steady_pbind caches_apart steady_rules)
qed

lemma storage_calls_apart [steady_rules]:
  "steady (apart J) (load_certificate_data cy key)" "steady (apart J) (store_certificate_data cy key v)"
  "steady (apart J) (update_certificate_data cy key v)" "steady (apart J) (load_signing_key cy key)"
  "steady (apart J) (store_signing_key cy key v)" "steady (apart J) (update_signing_key cy key v)"
  "steady (apart J) (load_secret cy key)" "steady (apart J) (store_secret cy key v)" "steady (apart J) (delete_secret cy key)"
  unfolding load_certificate_data_def store_certificate_data_def update_certificate_data_def load_signing_key_def
    store_signing_key_def update_signing_key_def load_secret_def store_secret_def delete_secret_def cache_signing_key_def
  by (intro steady_rules steady_pbind caches_apart; simp)+

lemma signing_key_apart: "steady (apart J) (signing_key_pem ev mg)"
  by (intro signing_key_steady steady_rules)

interpretation apart: steady_manager ev mg "apart J" "\<lambda>_. True" for ev mg J
proof unfold_locales
  show "triple (apart J) (signing_key_pem ev mg) (\<lambda>r s. apart J s \<and> r \<noteq> Panic \<and> (\<forall>k. r = Ok k \<longrightarrow> True))"
    using signing_key_apart by (simp add: steady_def)
  show "triple (apart J) (chain_cache_get ev (cert_key ev mg)) (\<lambda>_. apart J)"
    by (auto simp: chain_cache_get_def Let_def intro!: triple_call split: option.splits)
qed (intro steady_rules persist_steady | simp)+

section \<open>Provisioning from a store\<close>

lemma status_validation_not_Panic [simp]: "validate_signing_material cr xl pem key \<noteq> Panic"
  by (auto simp: validate_signing_material_def outcome_simps split: if_splits)

lemma der_chain_loop_not_Panic: "der_chain_loop cl der certs validity \<noteq> Panic"
proof (induction cl der certs validity rule: der_chain_loop.induct)
  case (1 cl der certs validity)
  then show ?case by (auto simp: der_chain_loop.simps [of cl der] split: sum.splits prod.splits if_splits)
qed

lemma material_not_Panic [simp]:
  "decode_text_material cl v label \<noteq> Panic" "normalize_pkcs8_key ev v \<noteq> Panic"
  "certificate_data_from_der_or_pem cl now v \<noteq> Panic"
  using der_chain_loop_not_Panic
  by (auto simp: decode_text_material_def normalize_pkcs8_key_def certificate_data_from_der_or_pem_def
      cert_der_chain_to_pem_def Let_def outcome_simps)

lemma load_source_apart [steady_rules]: "steady (apart J) (load_source ev mg source label)"
  unfolding load_source_def
  by (cases source) (auto intro!: steady_rules simp: outcome_simps)

lemma store_provisioning_apart [steady_rules]:
  "steady (apart J) (signing_key_from_storage ev mg)" "steady (apart J) (persist_signing_key ev mg key)"
  unfolding signing_key_from_storage_def persist_signing_key_def Let_def
  by (intro steady_rules; simp)+

lemma persist_material_apart:
  assumes "K key"
  shows "triple (apart J) (ptry (persist_crypto_material ev mg cd key) (\<lambda>_. Ret (Ok cd)))
    (\<lambda>r s. r \<noteq> Panic \<and> (case r of Ok cd \<Rightarrow> swapped ev (apart J) K cd s | _ \<Rightarrow> apart J s))"
proof -
  have eq: "ptry (persist_crypto_material ev mg cd key) (\<lambda>_. Ret (Ok cd)) =
      ptry (persist_certificate_data ev mg cd) (\<lambda>_. ptry (persist_signing_key ev mg key) (\<lambda>_.
      ptry (cache_provisioned_chain ev mg (cd_certificate cd)) (\<lambda>_.
      ptry (store_active_signing_material ev (cd_certificate cd) key) (\<lambda>_. Ret (Ok cd)))))"
    by (simp add: persist_crypto_material_def ptry_assoc)
  show ?thesis
    unfolding eq
    by (intro triple_ptry_steady set_material assms steady_rules apart.persist_certificate_steady apart.cache_chain_steady)
       simp_all
qed

text \<open>
  Whatever the strategy: a provisioning that fails leaves the material in use as it was. One that
  succeeds has put the new material in use as a whole; from a store, the key was validated against the
  certificate, and if the store held the same material already, nothing changed.
\<close>

definition key_checked :: "('w, 'sk, 'ek) cert_env \<Rightarrow> 'w cert_manager \<Rightarrow> certificate_data \<Rightarrow> string \<Rightarrow> bool" where
  "key_checked ev mg cd key \<longleftrightarrow>
     (mg_provisioning_strategy mg \<noteq> AcmeProvisioning \<longrightarrow>
        validate_signing_material (ev_crypto ev) (ev_x509 ev) (cd_certificate cd) key = Ok ())"

definition provisioned ::
  "('w, 'sk, 'ek) cert_env \<Rightarrow> 'w cert_manager \<Rightarrow> (('w, 'z) manager_state_scheme \<Rightarrow> bool)
   \<Rightarrow> (certificate_data, cert_error) outcome \<Rightarrow> ('w, 'z) manager_state_scheme \<Rightarrow> bool" where
  "provisioned ev mg I r s \<longleftrightarrow>
     r \<noteq> Panic
     \<and> (case r of
          Ok cd \<Rightarrow> swapped ev I (key_checked ev mg cd) cd s \<or> mg_provisioning_strategy mg \<noteq> AcmeProvisioning \<and> I s
        | _ \<Rightarrow> I s)"

lemma provision_apart: "triple (apart J) (provision ev mg) (provisioned ev mg (apart J))"
proof (cases "mg_provisioning_strategy mg")
  case AcmeProvisioning
  then show ?thesis
    using apart.acme_certificate_triple [of J ev mg]
    by (auto simp: provision_def provisioned_def swapped_def key_checked_def elim!: triple_weaken split: outcome.splits)
next
  case (StoreProvisioning c k)
  have p: "triple (apart J) (ptry (persist_crypto_material ev mg cd key) (\<lambda>_. Ret (Ok cd))) (provisioned ev mg (apart J))"
    if "validate_signing_material (ev_crypto ev) (ev_x509 ev) (cd_certificate cd) key = Ok ()" for cd key
  proof -
    have checked: "key_checked ev mg cd key" using that by (simp add: key_checked_def)
    let ?K = "\<lambda>k. k = key"
    have "triple (apart J) (ptry (persist_crypto_material ev mg cd key) (\<lambda>_. Ret (Ok cd)))
        (\<lambda>r s. (r \<noteq> Panic \<and> (case r of Ok cd \<Rightarrow> swapped ev (apart J) ?K cd s | _ \<Rightarrow> apart J s))
          \<and> (\<forall>cd'. r = Ok cd' \<longrightarrow> cd' = cd))"
      using persist_material_apart [of ?K key J ev mg cd]
      by (fastforce simp: triple_def split: prod.splits outcome.splits)
    then show ?thesis
      by (rule triple_weaken) (use checked in \<open>auto simp: provisioned_def swapped_def split: outcome.splits\<close>)
  qed
  have "triple (apart J) (provision_from_store ev mg c k) (provisioned ev mg (apart J))"
    unfolding provision_from_store_def
    by (intro triple_ptry_steady triple_ptry_value steady_rules apart.certificate_steady apart.primitive_steady)
       (use StoreProvisioning in \<open>auto intro!: p triple_Ret simp: outcome_simps provisioned_def split: option.splits if_splits\<close>)
  then show ?thesis using StoreProvisioning by (simp add: provision_def)
qed

interpretation rest: keyed_manager ev mg "apart (\<lambda>_. J)" "\<lambda>_. True" for ev mg J
  by unfold_locales simp_all

interpretation acme_certs: certificate_contract "acme_certificate_provider ev mg"
    "\<lambda>s. view (manager_state.more s)" "\<lambda>s. ok (manager_state.more s)" for ev mg view ok
proof unfold_locales
  fix s res s'
  assume ok: "ok (manager_state.more s)" and r: "run (cert_signing_material (acme_certificate_provider ev mg)) s = (res, s')"
  obtain m where m: "run (manager_signing_material ev mg) s = (m, s')" "res = map_err (Backend \<circ> cert_error_text) m"
    using r by (cases "run (manager_signing_material ev mg) s") (auto simp: acme_certificate_provider_def)
  show "ok (manager_state.more s') \<and> view (manager_state.more s') = view (manager_state.more s) \<and> res \<noteq> Panic"
    using tripleD [OF rest.signing_material_triple [where J = "(=) (manager_state.more s)"] _ m(1)] ok m(2) by auto
qed

end
