(* ===== verification/Signing_Keys.thy ===== *)
theory Signing_Keys
  imports Cert_Manager_Laws
begin

text \<open>
  The certificate manager on a storage that meets its contract: which signing key and which
  certificate are in use, stored and cached after any sequence of issuances, renewals and requests,
  whatever the ACME server, the challenge handler and the storage answer.
\<close>

section \<open>The world around the manager\<close>

text \<open>Calls that do not touch the secrets under the keys of the manager.\<close>

definition leaves :: "('w \<Rightarrow> bool) \<Rightarrow> ('w \<Rightarrow> (string \<rightharpoonup> string)) \<Rightarrow> ('w \<Rightarrow> 'r \<times> 'w) \<Rightarrow> bool" where
  "leaves ok contents f \<longleftrightarrow> (\<forall>w r w'. ok w \<longrightarrow> f w = (r, w') \<longrightarrow> ok w' \<and> contents w' = contents w)"

definition acme_leaves :: "('w \<Rightarrow> bool) \<Rightarrow> ('w \<Rightarrow> (string \<rightharpoonup> string)) \<Rightarrow> 'w acme_lib \<Rightarrow> bool" where
  "acme_leaves ok contents ac \<longleftrightarrow>
     (\<forall>h c. leaves ok contents (ac_from_credentials ac h c)) \<and> (\<forall>h c u. leaves ok contents (ac_create ac h c u))
     \<and> (\<forall>a ds. leaves ok contents (ac_new_order ac a ds)) \<and> (\<forall>ord u. leaves ok contents (ac_authorization ac ord u))
     \<and> (\<forall>ord. leaves ok contents (ac_poll_ready ac ord)) \<and> (\<forall>ord csr. leaves ok contents (ac_finalize_csr ac ord csr))
     \<and> (\<forall>ord. leaves ok contents (ac_poll_certificate ac ord))"

definition handler_leaves :: "('w \<Rightarrow> bool) \<Rightarrow> ('w \<Rightarrow> (string \<rightharpoonup> string)) \<Rightarrow> 'w challenge_handler \<Rightarrow> bool" where
  "handler_leaves ok contents h \<longleftrightarrow>
     (\<forall>authz. leaves ok contents (h authz) \<and> (\<forall>w c w'. h authz w = (Inr c, w') \<longrightarrow> leaves ok contents c))"

locale manager_world = storage_contract "cy_backend cy" "normal_key (ev_sha256 ev)" contents ok
  for cy :: "'w crypto_storage" and ev :: "('w, 'sk, 'ek) cert_env"
    and contents :: "'w \<Rightarrow> (string \<rightharpoonup> string)" and ok :: "'w \<Rightarrow> bool" +
  fixes mg :: "'w cert_manager"
  assumes backend: "mg_crypto_storage mg = Some cy"
    and digest: "hex_digest (ev_sha256 ev)"
    and acme: "acme_leaves ok contents (ev_acme ev)"
    and handler: "\<And>h. mg_challenge_handler mg = Some h \<Longrightarrow> handler_leaves ok contents h"
begin

text \<open>The signing key \<open>k\<close> is the stored one and no other is cached or in use.\<close>

definition pinned :: "string \<Rightarrow> ('w, 'z) manager_state_scheme \<Rightarrow> bool" where
  "pinned k s \<longleftrightarrow>
     ok (cs_world s) \<and> contents (cs_world s) (signing_secret_id ev mg) = Some k
     \<and> (\<forall>v. cs_signing_key_cache s (signing_secret_id ev mg) = Some v \<longrightarrow> v = k)
     \<and> (\<forall>m. cm_active s = Some m \<longrightarrow> sm_signing_key_pem m = k)"

text \<open>Before the first key: a cached key is the stored one, and no material is in use.\<close>

definition unpinned :: "('w, 'z) manager_state_scheme \<Rightarrow> bool" where
  "unpinned s \<longleftrightarrow>
     ok (cs_world s) \<and> cm_active s = None
     \<and> (\<forall>v. cs_signing_key_cache s (signing_secret_id ev mg) = Some v \<longrightarrow>
           contents (cs_world s) (signing_secret_id ev mg) = Some v)"

lemma normal_keys:
  "normal_key (ev_sha256 ev) (signing_secret_id ev mg)" "normal_key (ev_sha256 ev) (cert_key ev mg)"
  "normal_key (ev_sha256 ev) (acme_account_id ev mg)"
  by (simp_all add: normal_key_def signing_secret_id_def cert_key_def acme_account_id_def normalize_key_idem digest)

lemma outside_pinnedI:
  assumes "\<And>w r w'. ok w \<Longrightarrow> f w = (r, w') \<Longrightarrow>
    ok w' \<and> contents w' (signing_secret_id ev mg) = contents w (signing_secret_id ev mg)"
  shows "steady (pinned k) (outside f)"
proof (rule steadyI)
  fix s r s'
  assume s: "pinned k s" "run (outside f) s = (r, s')"
  obtain r0 w' where "f (cs_world s) = (r0, w')" by fastforce
  then show "pinned k s' \<and> r \<noteq> Panic"
    using s assms [of "cs_world s" r0 w'] by (auto simp: outside_def pinned_def)
qed

lemma outside_pinned: "leaves ok contents f \<Longrightarrow> steady (pinned k) (outside f)"
  by (rule outside_pinnedI) (metis leaves_def)

lemma other_keys_pinned:
  assumes "key \<in> {cert_key ev mg, acme_account_id ev mg}"
  shows "steady (pinned k) (outside (st_store (cy_backend cy) key v))"
    "steady (pinned k) (outside (st_update (cy_backend cy) key v))"
    "steady (pinned k) (outside (st_delete (cy_backend cy) key))"
    "steady (pinned k) (outside (st_load (cy_backend cy) key))"
proof -
  have key: "normal_key (ev_sha256 ev) key" "key \<noteq> signing_secret_id ev mg"
    using assms normal_keys manager_keys_distinct [of ev mg mg] by auto
  show "steady (pinned k) (outside (st_store (cy_backend cy) key v))"
    by (rule outside_pinnedI, drule (1) store_frame [OF _ key(1)]) (use key(2) in auto)
  show "steady (pinned k) (outside (st_update (cy_backend cy) key v))"
    by (rule outside_pinnedI, drule (1) update_frame [OF _ key(1)]) (use key(2) in auto)
  show "steady (pinned k) (outside (st_delete (cy_backend cy) key))"
    by (rule outside_pinnedI, drule (1) delete_frame [OF _ key(1)]) (use key(2) in auto)
  show "steady (pinned k) (outside (st_load (cy_backend cy) key))"
    by (rule outside_pinnedI, drule (1) load_frame [OF _ key(1)]) auto
qed

lemma certificate_cache_pinned:
  "triple (pinned k) (cache_lookup CertificateCache kept key) (\<lambda>_. pinned k)"
  "triple (pinned k) (cache_insert CertificateCache key v) (\<lambda>_. pinned k)"
  by (auto simp: cache_lookup_def cache_insert_def pinned_def intro!: triple_call split: if_splits)

lemma certificate_storage_pinned:
  "steady (pinned k) (load_certificate_data cy (cert_key ev mg))"
  "steady (pinned k) (store_certificate_data cy (cert_key ev mg) v)"
  "steady (pinned k) (update_certificate_data cy (cert_key ev mg) v)"
  unfolding load_certificate_data_def store_certificate_data_def update_certificate_data_def load_with_cache_def Let_def
  by (auto intro!: steady_rules steady_pbind certificate_cache_pinned other_keys_pinned split: option.splits)

text \<open>Looking the key up, with or without a cache.\<close>

definition key_known :: "('w, 'z) manager_state_scheme \<Rightarrow> bool" where
  "key_known s \<longleftrightarrow> ok (cs_world s) \<and>
     (\<forall>v. cs_signing_key_cache s (signing_secret_id ev mg) = Some v \<longrightarrow>
        contents (cs_world s) (signing_secret_id ev mg) = Some v)"

lemma load_key:
  assumes "key_known s" and "run (load_signing_key cy (signing_secret_id ev mg)) s = (r, s')"
  shows "key_known s' \<and> cm_active s' = cm_active s \<and> r \<noteq> Panic
    \<and> contents (cs_world s') = contents (cs_world s)
    \<and> (\<forall>x. r = Ok x \<longrightarrow> x = contents (cs_world s) (signing_secret_id ev mg))"
proof -
  obtain r0 w' where l: "st_load (cy_backend cy) (signing_secret_id ev mg) (cs_world s) = (r0, w')" by fastforce
  have ok: "ok (cs_world s)" using assms(1) by (simp add: key_known_def)
  note law = load_frame [OF ok normal_keys(1) l]
  show ?thesis
    using assms law l
    by (cases r0; cases "cy_signing_key_cache cy")
       (auto simp: load_signing_key_def load_with_cache_def Let_def outside_def cache_lookup_def cache_insert_def
         key_known_def split: if_splits option.splits)
qed

lemma pinned_known: "pinned k s \<Longrightarrow> key_known s"
  by (auto simp: pinned_def key_known_def)

lemma key_pinned:
  "triple (pinned k) (signing_key_pem ev mg) (\<lambda>r s. pinned k s \<and> r \<noteq> Panic \<and> (\<forall>k'. r = Ok k' \<longrightarrow> k = k'))"
proof (rule tripleI)
  fix s r s'
  assume s: "pinned k s" and r: "run (signing_key_pem ev mg) s = (r, s')"
  obtain r0 t where l: "run (load_signing_key cy (signing_secret_id ev mg)) s = (r0, t)" by fastforce
  have law: "key_known t" "cm_active t = cm_active s" "r0 \<noteq> Panic" "contents (cs_world t) = contents (cs_world s)"
    "\<And>x. r0 = Ok x \<Longrightarrow> x = Some k"
    using load_key [OF pinned_known [OF s] l] s by (auto simp: pinned_def)
  then have "pinned k t" using s by (auto simp: pinned_def key_known_def)
  then show "pinned k s' \<and> r \<noteq> Panic \<and> (\<forall>k'. r = Ok k' \<longrightarrow> k = k')"
    using r l law(3,5) by (cases r0) (auto simp: signing_key_pem_def with_storage_def crypto_storage_of_def backend Let_def)
qed

sublocale pinned: keyed_manager ev mg "pinned k" "(=) k" for k
proof unfold_locales
  show "triple (pinned k) (chain_cache_get ev (cert_key ev mg)) (\<lambda>_. pinned k)"
    by (auto simp: chain_cache_get_def Let_def pinned_def intro!: triple_call split: option.splits)
  show "triple (pinned k) (signing_key_pem ev mg) (\<lambda>r s. pinned k s \<and> r \<noteq> Panic \<and> (\<forall>k'. r = Ok k' \<longrightarrow> k = k'))"
    by (rule key_pinned)
  show "steady (pinned k) (outside (h authz))" if "mg_challenge_handler mg = Some h" for h authz
    using handler [OF that] by (simp add: handler_leaves_def outside_pinned)
  show "steady (pinned k) (outside c)" if "mg_challenge_handler mg = Some h" "h authz w = (Inr c, w')" for h authz w c w'
    using handler [OF that(1)] that(2) unfolding handler_leaves_def by (blast intro: outside_pinned)
qed (use acme backend in \<open>auto simp: acme_leaves_def load_secret_def store_secret_def delete_secret_def pinned_def
       intro!: outside_pinned other_keys_pinned certificate_storage_pinned persist_steady\<close>)

text \<open>Storing a fresh key, at most three times.\<close>

lemma store_key:
  assumes "ok (cs_world s)" "cm_active s = None" "contents (cs_world s) (signing_secret_id ev mg) \<in> {None, Some pem}"
    "\<forall>v. cs_signing_key_cache s (signing_secret_id ev mg) = Some v \<longrightarrow> v = pem"
    and "run (store_signing_key cy (signing_secret_id ev mg) pem) s = (r, s')"
  shows "ok (cs_world s') \<and> cm_active s' = None \<and> contents (cs_world s') (signing_secret_id ev mg) \<in> {None, Some pem}
    \<and> (\<forall>v. cs_signing_key_cache s' (signing_secret_id ev mg) = Some v \<longrightarrow> v = pem)
    \<and> (r = Ok () \<longrightarrow> pinned pem s')"
proof -
  obtain r0 w' where st: "st_store (cy_backend cy) (signing_secret_id ev mg) pem (cs_world s) = (r0, w')" by fastforce
  have f: "ok w'" "contents w' (signing_secret_id ev mg) \<in> {None, Some pem}"
    using store_frame [OF assms(1) normal_keys(1) st] assms(3) by auto
  have "contents w' (signing_secret_id ev mg) = Some pem" if "r0 = Inr ()"
    using store_ok [OF assms(1) normal_keys(1)] store_frame [OF assms(1) normal_keys(1) st] st that assms(3)
    by (cases "contents (cs_world s) (signing_secret_id ev mg)") auto
  then show ?thesis
    using f assms st
    by (cases r0; cases "cy_signing_key_cache cy")
       (auto simp: store_signing_key_def cache_signing_key_def outside_def cache_insert_def pinned_def)
qed

lemma store_key_loop_pins:
  assumes "ok (cs_world s)" "cm_active s = None" "contents (cs_world s) (signing_secret_id ev mg) \<in> {None, Some pem}"
    "\<forall>v. cs_signing_key_cache s (signing_secret_id ev mg) = Some v \<longrightarrow> v = pem"
    and "run (store_key_loop cy (signing_secret_id ev mg) pem n) s = (Ok k, s')"
  shows "k = pem \<and> pinned k s'"
  using assms
proof (induction m \<equiv> "3 - n" arbitrary: n s rule: less_induct)
  case less
  obtain r t where st: "run (store_signing_key cy (signing_secret_id ev mg) pem) s = (r, t)" by fastforce
  note law = store_key [OF less.prems(1-4) st]
  show ?case
  proof (cases r)
    case (Err e)
    then have "\<not> n + 1 \<ge> 3" "run (store_key_loop cy (signing_secret_id ev mg) pem (n + 1)) t = (Ok k, s')"
      using less.prems(5) st by (auto simp: store_key_loop.simps [of cy _ pem n] split: if_splits)
    note again = this
    have "3 - (n + 1) < 3 - n" using again(1) by simp
    from less.hyps [OF this _ _ _ _ again(2)] law show ?thesis by auto
  qed (use less.prems st law in \<open>auto simp: store_key_loop.simps [of cy _ pem n]\<close>)
qed

lemma first_key:
  assumes s: "key_known s" "cm_active s = None" and r: "run (signing_key_pem ev mg) s = (Ok k, s')"
  shows "pinned k s'"
proof -
  obtain r0 t where l: "run (load_signing_key cy (signing_secret_id ev mg)) s = (r0, t)" by fastforce
  note law = load_key [OF s(1) l]
  obtain x where x: "r0 = Ok x" using r l law
    by (cases r0) (auto simp: signing_key_pem_def with_storage_def crypto_storage_of_def backend Let_def)
  show ?thesis
  proof (cases x)
    case None
    then obtain pem where "run (store_key_loop cy (signing_secret_id ev mg) pem 0) t = (Ok k, s')"
      using r l x
      by (auto simp: signing_key_pem_def with_storage_def crypto_storage_of_def backend Let_def
          split: outcome.splits prod.splits)
    then show ?thesis using store_key_loop_pins [of t pem 0 k s'] law x None s(2) by (auto simp: key_known_def)
  next
    case (Some k')
    then show ?thesis using r l x law s(2)
      by (auto simp: signing_key_pem_def with_storage_def crypto_storage_of_def backend Let_def pinned_def key_known_def)
  qed
qed

section \<open>The stored certificate\<close>

text \<open>A certificate is cached only if one is stored.\<close>

definition cert_known :: "('w, 'z) manager_state_scheme \<Rightarrow> bool" where
  "cert_known s \<longleftrightarrow> ok (cs_world s) \<and>
     (cs_certificate_cache s (cert_key ev mg) \<noteq> None \<longrightarrow> contents (cs_world s) (cert_key ev mg) \<noteq> None)"

lemma outside_certI:
  assumes "\<And>w r w'. ok w \<Longrightarrow> f w = (r, w') \<Longrightarrow> ok w' \<and> (contents w (cert_key ev mg) \<noteq> None \<longrightarrow> contents w' (cert_key ev mg) \<noteq> None)"
  shows "steady cert_known (outside f)"
proof (rule steadyI)
  fix s r s'
  assume s: "cert_known s" "run (outside f) s = (r, s')"
  obtain r0 w' where "f (cs_world s) = (r0, w')" by fastforce
  then show "cert_known s' \<and> r \<noteq> Panic"
    using s assms [of "cs_world s" r0 w'] by (auto simp: outside_def cert_known_def)
qed

lemma outside_cert: "leaves ok contents f \<Longrightarrow> steady cert_known (outside f)"
  by (rule outside_certI) (metis leaves_def)

lemma other_keys_cert:
  assumes "key \<in> {signing_secret_id ev mg, acme_account_id ev mg}"
  shows "steady cert_known (outside (st_store (cy_backend cy) key v))"
    "steady cert_known (outside (st_delete (cy_backend cy) key))"
    "steady cert_known (outside (st_load (cy_backend cy) key))"
proof -
  have key: "normal_key (ev_sha256 ev) key" "key \<noteq> cert_key ev mg"
    using assms normal_keys manager_keys_distinct [of ev mg mg] by auto
  show "steady cert_known (outside (st_store (cy_backend cy) key v))"
    by (rule outside_certI, drule (1) store_frame [OF _ key(1)]) (use key(2) in auto)
  show "steady cert_known (outside (st_delete (cy_backend cy) key))"
    by (rule outside_certI, drule (1) delete_frame [OF _ key(1)]) (use key(2) in auto)
  show "steady cert_known (outside (st_load (cy_backend cy) key))"
    by (rule outside_certI, drule (1) load_frame [OF _ key(1)]) auto
qed

lemma key_cache_cert:
  "triple cert_known (cache_lookup SigningKeyCache kept key) (\<lambda>_. cert_known)"
  "triple cert_known (cache_insert SigningKeyCache key v) (\<lambda>_. cert_known)"
  by (auto simp: cache_lookup_def cache_insert_def cert_known_def intro!: triple_call split: if_splits)

lemma signing_key_cert: "steady cert_known (signing_key_pem ev mg)"
  by (rule signing_key_steady)
     (auto simp: backend load_signing_key_def store_signing_key_def cache_signing_key_def load_with_cache_def Let_def
       intro!: steady_rules steady_pbind key_cache_cert other_keys_cert split: option.splits)

lemma load_cert:
  assumes "cert_known s" and "run (load_certificate_data cy (cert_key ev mg)) s = (r, s')"
  shows "cert_known s' \<and> r \<noteq> Panic \<and> contents (cs_world s') = contents (cs_world s)
    \<and> (\<forall>x. r = Ok x \<longrightarrow> (x = None \<longleftrightarrow> contents (cs_world s) (cert_key ev mg) = None))
    \<and> (\<forall>x. r = Ok x \<longrightarrow> x = contents (cs_world s) (cert_key ev mg) \<or> x = cs_certificate_cache s (cert_key ev mg))"
proof -
  obtain r0 w' where l: "st_load (cy_backend cy) (cert_key ev mg) (cs_world s) = (r0, w')" by fastforce
  have ok: "ok (cs_world s)" using assms(1) by (simp add: cert_known_def)
  note law = load_frame [OF ok normal_keys(2) l]
  show ?thesis
    using assms law l
    by (cases r0)
       (auto simp: load_certificate_data_def load_with_cache_def Let_def outside_def cache_lookup_def cache_insert_def
         cert_known_def split: if_splits option.splits)
qed

text \<open>The certificate text \<open>j\<close> is stored and cached.\<close>

definition cert_stored :: "string \<Rightarrow> ('w, 'z) manager_state_scheme \<Rightarrow> bool" where
  "cert_stored j s \<longleftrightarrow> ok (cs_world s) \<and> contents (cs_world s) (cert_key ev mg) = Some j
     \<and> cs_certificate_cache s (cert_key ev mg) = Some j"

lemma write_cert:
  assumes "cert_known s"
    and "run (if contents (cs_world s) (cert_key ev mg) = None then store_certificate_data cy (cert_key ev mg) j
              else update_certificate_data cy (cert_key ev mg) j) s = (r, s')"
  shows "cert_known s' \<and> r \<noteq> Panic \<and> (r = Ok () \<longrightarrow> cert_stored j s')"
proof -
  have ok: "ok (cs_world s)" using assms by (simp add: cert_known_def)
  obtain r1 w1 r2 w2 where st: "st_store (cy_backend cy) (cert_key ev mg) j (cs_world s) = (r1, w1)"
    and up: "st_update (cy_backend cy) (cert_key ev mg) j (cs_world s) = (r2, w2)" by fastforce
  show ?thesis
  proof (cases "contents (cs_world s) (cert_key ev mg) = None")
    case True
    then show ?thesis
      using assms st store_frame [OF ok normal_keys(2) st] store_ok [OF ok normal_keys(2), of j w1]
      by (cases r1) (auto simp: store_certificate_data_def outside_def cache_insert_def cert_known_def cert_stored_def)
  next
    case False
    then show ?thesis
      using assms up update_frame [OF ok normal_keys(2) up] update_ok [OF ok normal_keys(2), of j w2]
      by (cases r2) (auto simp: update_certificate_data_def outside_def cache_insert_def cert_known_def cert_stored_def)
  qed
qed

lemma persist_certificate:
  "triple cert_known (persist_certificate_data ev mg cd)
     (\<lambda>r s. cert_known s \<and> r \<noteq> Panic \<and> (r = Ok () \<longrightarrow> (\<exists>j. cl_to_json (ev_cert ev) cd = Inr j \<and> cert_stored j s)))"
proof (rule tripleI)
  fix s r s'
  assume s: "cert_known s" and r: "run (persist_certificate_data ev mg cd) s = (r, s')"
  obtain r0 t where l: "run (load_certificate_data cy (cert_key ev mg)) s = (r0, t)" by fastforce
  note law = load_cert [OF s l]
  note run_persist = persist_certificate_data_def with_storage_def crypto_storage_of_def backend Let_def
  show "cert_known s' \<and> r \<noteq> Panic \<and> (r = Ok () \<longrightarrow> (\<exists>j. cl_to_json (ev_cert ev) cd = Inr j \<and> cert_stored j s'))"
  proof (cases "cl_to_json (ev_cert ev) cd")
    case (Inr j)
    show ?thesis
    proof (cases r0)
      case (Ok x)
      let ?save = "if contents (cs_world t) (cert_key ev mg) = None then store_certificate_data cy (cert_key ev mg) j
              else update_certificate_data cy (cert_key ev mg) j"
      obtain r1 u where w: "run ?save t = (r1, u)" by fastforce
      then have "r = map_err CertStorage r1" "s' = u"
        using r l Ok Inr law by (auto simp: run_persist split: option.splits if_splits)
      then show ?thesis using write_cert [OF _ w] law Inr by (auto simp: outcome_simps)
    qed (use r l Inr law in \<open>auto simp: run_persist\<close>)
  qed (use s r in \<open>auto simp: run_persist\<close>)
qed

lemma certificate_storage_cert:
  "steady cert_known (load_certificate_data cy (cert_key ev mg))" "steady cert_known (persist_certificate_data ev mg cd)"
proof -
  show "steady cert_known (load_certificate_data cy (cert_key ev mg))"
    by (rule steadyI, drule (1) load_cert, blast)
  show "steady cert_known (persist_certificate_data ev mg cd)"
    unfolding steady_def by (rule triple_weaken [OF persist_certificate]) auto
qed

sublocale stored: steady_manager ev mg cert_known "\<lambda>_. True"
proof unfold_locales
  show "triple cert_known (signing_key_pem ev mg) (\<lambda>r s. cert_known s \<and> r \<noteq> Panic \<and> (\<forall>k. r = Ok k \<longrightarrow> True))"
    using signing_key_cert by (simp add: steady_def)
  show "triple cert_known (chain_cache_get ev (cert_key ev mg)) (\<lambda>_. cert_known)"
    by (auto simp: chain_cache_get_def Let_def cert_known_def intro!: triple_call split: option.splits)
  show "steady cert_known (outside (h authz))" if "mg_challenge_handler mg = Some h" for h authz
    using handler [OF that] by (simp add: handler_leaves_def outside_cert)
  show "steady cert_known (outside c)" if "mg_challenge_handler mg = Some h" "h authz w = (Inr c, w')" for h authz w c w'
    using handler [OF that(1)] that(2) unfolding handler_leaves_def by (blast intro: outside_cert)
qed (use acme backend in \<open>auto simp: acme_leaves_def load_secret_def store_secret_def delete_secret_def cert_known_def
       intro!: outside_cert other_keys_cert certificate_storage_cert\<close>)

lemma issued_certificate_stored:
  "triple cert_known (request_acme_certificate ev mg)
     (\<lambda>r s. \<forall>cd. r = Ok cd \<longrightarrow> (\<exists>j. cl_to_json (ev_cert ev) cd = Inr j \<and> cert_stored j s))"
proof -
  let ?Q = "\<lambda>r s. \<forall>cd. r = Ok cd \<longrightarrow> (\<exists>j. cl_to_json (ev_cert ev) cd = Inr j \<and> cert_stored j s)"
  have chain: "steady (cert_stored j) (cache_provisioned_chain ev mg pem)" for j pem
    by (cases "parse_cert_chain_parts (ev_x509 ev) pem")
       (auto simp: cache_provisioned_chain_def chain_cache_replace_def cert_stored_def intro!: steadyI)
  have active: "triple (cert_stored j) (ptry (store_active_signing_material ev (cd_certificate cd) key) (\<lambda>_. Ret (Ok cd))) ?Q"
    if "cl_to_json (ev_cert ev) cd = Inr j" for j cd key
    using that by (cases "parse_cert_chain_parts (ev_x509 ev) (cd_certificate cd)")
      (auto simp: triple_def store_active_signing_material_def set_active_def cert_stored_def)
  have persist: "triple cert_known (ptry (persist_certificate_data ev mg cd) (\<lambda>_.
      ptry (cache_provisioned_chain ev mg (cd_certificate cd)) (\<lambda>_.
      ptry (store_active_signing_material ev (cd_certificate cd) key) (\<lambda>_. Ret (Ok cd))))) ?Q" for cd key
  proof (rule triple_ptry [where R = "\<lambda>_ s. \<exists>j. cl_to_json (ev_cert ev) cd = Inr j \<and> cert_stored j s"])
    show "triple (\<lambda>s. \<exists>j. cl_to_json (ev_cert ev) cd = Inr j \<and> cert_stored j s)
      (ptry (cache_provisioned_chain ev mg (cd_certificate cd)) (\<lambda>_.
        ptry (store_active_signing_material ev (cd_certificate cd) key) (\<lambda>_. Ret (Ok cd)))) ?Q"
    proof (cases "cl_to_json (ev_cert ev) cd")
      case (Inr j)
      have "triple (cert_stored j) (ptry (cache_provisioned_chain ev mg (cd_certificate cd)) (\<lambda>_.
        ptry (store_active_signing_material ev (cd_certificate cd) key) (\<lambda>_. Ret (Ok cd)))) ?Q"
        by (intro triple_ptry_steady chain active Inr) simp
      then show ?thesis using Inr by (auto elim: triple_weaken)
    qed (simp add: triple_def)
  qed (use persist_certificate [of cd] in \<open>auto elim!: triple_weaken split: outcome.splits\<close>)
  show ?thesis
    by (rule stored.acme_certificate_via)
       (auto simp: acme_call_def intro!: triple_ptry_steady triple_ptry_value steady_rules persist)
qed

end

end
