(* ===== verification/Signing_Keys_Spec.thy ===== *)
theory Signing_Keys_Spec
  imports Signing_Keys
begin

text \<open>
  The theorems about the certificate manager in operation, and the deployment without a secret
  service, whose secrets live in the memory of the process while the ACME server and the DNS service
  are outside of it.
\<close>

section \<open>Secrets in memory\<close>

definition on_memory :: "(memory_values \<Rightarrow> 'r \<times> memory_values) \<Rightarrow> 'x \<times> memory_values \<Rightarrow> 'r \<times> 'x \<times> memory_values" where
  "on_memory f w = (case f (snd w) of (r, values) \<Rightarrow> (r, fst w, values))"

definition on_outside :: "('x \<Rightarrow> 'r \<times> 'x) \<Rightarrow> 'x \<times> memory_values \<Rightarrow> 'r \<times> 'x \<times> memory_values" where
  "on_outside f w = (case f (fst w) of (r, x) \<Rightarrow> (r, x, snd w))"

definition process_storage :: "(string \<Rightarrow> string) \<Rightarrow> ('x \<times> memory_values) storage" where
  "process_storage sha256 =
     (let st = memory_storage sha256 in
      \<lparr>st_store = \<lambda>key v. on_memory (st_store st key v), st_load = \<lambda>key. on_memory (st_load st key),
       st_update = \<lambda>key v. on_memory (st_update st key v), st_delete = \<lambda>key. on_memory (st_delete st key),
       st_reachable = on_memory (st_reachable st)\<rparr>)"

definition outside_acme :: "'x acme_lib \<Rightarrow> ('x \<times> memory_values) acme_lib" where
  "outside_acme ac =
     \<lparr>ac_parse_credentials = ac_parse_credentials ac, ac_show_credentials = ac_show_credentials ac,
      ac_from_credentials = \<lambda>h c. on_outside (ac_from_credentials ac h c),
      ac_create = \<lambda>h c u. on_outside (ac_create ac h c u),
      ac_new_order = \<lambda>a ds. on_outside (ac_new_order ac a ds),
      ac_authorizations = \<lambda>ord w. ac_authorizations ac ord (fst w),
      ac_authorization = \<lambda>ord u. on_outside (ac_authorization ac ord u),
      ac_poll_ready = \<lambda>ord. on_outside (ac_poll_ready ac ord),
      ac_finalize_csr = \<lambda>ord csr. on_outside (ac_finalize_csr ac ord csr),
      ac_poll_certificate = \<lambda>ord. on_outside (ac_poll_certificate ac ord)\<rparr>"

definition outside_handler :: "'x challenge_handler \<Rightarrow> ('x \<times> memory_values) challenge_handler" where
  "outside_handler h authz w =
     (case h authz (fst w) of (r, x) \<Rightarrow> (map_sum id on_outside r, x, snd w))"

lemma on_outside_leaves: "leaves (\<lambda>_. True) snd (on_outside f)"
  by (auto simp: leaves_def on_outside_def split: prod.splits)

lemma outside_acme_leaves: "acme_leaves (\<lambda>_. True) snd (outside_acme ac)"
  by (simp add: acme_leaves_def outside_acme_def on_outside_leaves)

lemma outside_handler_leaves: "handler_leaves (\<lambda>_. True) snd (outside_handler h)"
proof -
  have "leaves (\<lambda>_. True) snd c" if c: "outside_handler h authz w = (Inr c, w')" for authz w c w'
  proof -
    obtain r x where "h authz (fst w) = (r, x)" by fastforce
    then show ?thesis using c on_outside_leaves by (cases r) (auto simp: outside_handler_def)
  qed
  then show ?thesis
    by (auto simp: handler_leaves_def leaves_def outside_handler_def split: prod.splits)
qed

text \<open>The environment and the manager of such a process.\<close>

definition process_env ::
  "(string \<Rightarrow> string) \<Rightarrow> 'x acme_lib \<Rightarrow> ('x \<times> memory_values, 'sk, 'ek) cert_env \<Rightarrow> ('x \<times> memory_values, 'sk, 'ek) cert_env" where
  "process_env sha256 ac ev = ev\<lparr>ev_sha256 := sha256, ev_acme := outside_acme ac\<rparr>"

definition process_manager ::
  "('x \<times> memory_values) crypto_storage \<Rightarrow> 'x challenge_handler option \<Rightarrow> ('x \<times> memory_values) cert_manager
   \<Rightarrow> ('x \<times> memory_values) cert_manager" where
  "process_manager cy handler mg =
     mg\<lparr>mg_crypto_storage := Some cy, mg_challenge_handler := map_option outside_handler handler\<rparr>"

lemma process_manager_world:
  assumes "hex_digest sha256"
  shows "manager_world (with_cache_policy moka (process_storage sha256) policy) (process_env sha256 ac ev) snd (\<lambda>_. True)
    (process_manager (with_cache_policy moka (process_storage sha256) policy) handler mg)"
  using assms
  by unfold_locales
     (auto simp: process_storage_def process_env_def process_manager_def with_cache_policy_def on_memory_def
       memory_storage_defs outside_acme_leaves outside_handler_leaves)

definition zero_digest :: "string \<Rightarrow> string" where
  "zero_digest x = replicate 64 CHR ''0''"

lemma zero_digest_hex: "hex_digest zero_digest"
  by (simp add: hex_digest_def zero_digest_def list_all_iff storage_key_char_defs)

interpretation process: manager_world "with_cache_policy moka (process_storage zero_digest) policy"
    "process_env zero_digest ac ev" snd "\<lambda>_. True"
    "process_manager (with_cache_policy moka (process_storage zero_digest) policy) handler mg"
  for moka :: "nat \<Rightarrow> nat option \<Rightarrow> ('x \<times> memory_values) kept" and policy and ac :: "'x acme_lib"
    and ev :: "('x \<times> memory_values, 'sk, 'ek) cert_env" and handler and mg
  by (rule process_manager_world [OF zero_digest_hex])

section \<open>One signing key\<close>

text \<open>
  What happens to a manager in operation: the scheduled renewal, a request for the signing material,
  and anything elsewhere that leaves the stored signing key alone.
\<close>

inductive manager_step ::
  "('w, 'sk, 'ek) cert_env \<Rightarrow> 'w cert_manager \<Rightarrow> ('w \<Rightarrow> (string \<rightharpoonup> string)) \<Rightarrow> ('w \<Rightarrow> bool)
   \<Rightarrow> 'w manager_state \<Rightarrow> 'w manager_state \<Rightarrow> bool" for ev mg contents ok where
  renewal_runs: "run (renewal_job ev mg) s = (r, s') \<Longrightarrow> manager_step ev mg contents ok s s'"
| material_read: "run (manager_signing_material ev mg) s = (r, s') \<Longrightarrow> manager_step ev mg contents ok s s'"
| elsewhere: "ok w' \<Longrightarrow> contents w' (signing_secret_id ev mg) = contents (cs_world s) (signing_secret_id ev mg) \<Longrightarrow>
    manager_step ev mg contents ok s (s\<lparr>cs_world := w'\<rparr>)"

context manager_world
begin

lemma step_pinned:
  assumes "mg_provisioning_strategy mg = AcmeProvisioning"
    and "manager_step ev mg contents ok s s'" and "pinned k s"
  shows "pinned k s'"
  using assms(2,3)
proof (induction rule: manager_step.induct)
  case (renewal_runs s r s')
  then obtain r0 where "run (renew_cert_if_needed ev mg) s = (r0, s')"
    by (auto simp: renewal_job_def split: prod.splits)
  then show ?case using steadyD(1) [OF pinned.renewal_keeps [OF assms(1)] renewal_runs(2)] by blast
next
  case (material_read s r s')
  then show ?case using tripleD [OF pinned.signing_material_triple material_read(2,1)] by blast
qed (simp add: pinned_def)

lemma steps_pinned:
  assumes "mg_provisioning_strategy mg = AcmeProvisioning"
    and "(manager_step ev mg contents ok)\<^sup>*\<^sup>* s s'" and "pinned k s"
  shows "pinned k s'"
  using assms(2,3) by (induction rule: rtranclp_induct) (auto dest: step_pinned [OF assms(1)])

lemma fresh_key_known: "ok w \<Longrightarrow> key_known (new_manager_state w)" "ok w \<Longrightarrow> cert_known (new_manager_state w)"
  by (simp_all add: key_known_def cert_known_def new_manager_state_def)

lemma key_stable:
  assumes "mg_provisioning_strategy mg = AcmeProvisioning" and "ok w"
    and "run (signing_key_pem ev mg) (new_manager_state w) = (Ok k, s)"
    and "(manager_step ev mg contents ok)\<^sup>*\<^sup>* s s'"
  shows "contents (cs_world s') (signing_secret_id ev mg) = Some k
    \<and> (\<forall>k' t. run (signing_key_pem ev mg) s' = (Ok k', t) \<longrightarrow> k' = k)
    \<and> (\<forall>m t. run (manager_signing_material ev mg) s' = (Ok m, t) \<longrightarrow> sm_signing_key_pem m = k)"
proof -
  have "pinned k s"
    by (rule first_key [OF fresh_key_known(1) [OF assms(2)] _ assms(3)]) (simp add: new_manager_state_def)
  then have p: "pinned k s'" by (rule steps_pinned [OF assms(1,4)])
  show ?thesis
    using tripleD [OF key_pinned p] tripleD [OF pinned.signing_material_triple p] p by (auto simp: pinned_def)
qed

text \<open>What an issuance over ACME leaves behind.\<close>

lemma issuance_takes_effect:
  assumes "mg_provisioning_strategy mg = AcmeProvisioning" and "cert_known s"
    and "run (request_certificate ev mg) s = (Ok cd, s')"
  shows "\<exists>j. cl_to_json (ev_cert ev) cd = Inr j \<and> contents (cs_world s') (cert_key ev mg) = Some j
    \<and> (\<forall>r t. run (certificate ev mg) s' = (r, t) \<longrightarrow>
         r = map_err CertSerde (omap Some (from_sum (cl_from_json (ev_cert ev) j))) \<or> (\<exists>e. r = Err (CertStorage e)))"
proof -
  have "run (request_acme_certificate ev mg) s = (Ok cd, s')"
    using assms(1,3) by (simp add: request_certificate_def provision_def locked_def)
  from tripleD [OF issued_certificate_stored assms(2) this] obtain j where
    j: "cl_to_json (ev_cert ev) cd = Inr j" and st: "cert_stored j s'" by blast
  have "r = map_err CertSerde (omap Some (from_sum (cl_from_json (ev_cert ev) j))) \<or> (\<exists>e. r = Err (CertStorage e))"
    if r: "run (certificate ev mg) s' = (r, t)" for r t
  proof -
    obtain r0 u where l: "run (load_certificate_data cy (cert_key ev mg)) s' = (r0, u)" by fastforce
    have "cert_known s'" using st by (simp add: cert_stored_def cert_known_def)
    from load_cert [OF this l] have "r0 \<noteq> Panic" "\<And>x. r0 = Ok x \<Longrightarrow> x = Some j" using st by (auto simp: cert_stored_def)
    then show ?thesis
      using r l by (cases r0; cases "cl_from_json (ev_cert ev) j")
        (auto simp: certificate_def with_storage_def crypto_storage_of_def backend)
  qed
  then show ?thesis using j st by (auto simp: cert_stored_def)
qed

end

text \<open>
  C5. The signing key is stable. After a fresh manager has obtained its first key, through any
  sequence of renewals, requests for the material and events elsewhere, whatever the ACME server, the
  challenge handler and the storage answer meanwhile, that key stays the stored one, every later
  request for the key returns it, and every signing material handed out carries it. So tokens signed
  before a renewal verify with the certificate issued by it.
\<close>

theorem signing_key_is_stable:
  assumes "manager_world cy ev contents ok mg" and "mg_provisioning_strategy mg = AcmeProvisioning" and "ok w"
    and "run (signing_key_pem ev mg) (new_manager_state w) = (Ok k, s)"
    and "(manager_step ev mg contents ok)\<^sup>*\<^sup>* s s'"
  shows "contents (cs_world s') (signing_secret_id ev mg) = Some k
    \<and> (\<forall>k' t. run (signing_key_pem ev mg) s' = (Ok k', t) \<longrightarrow> k' = k)
    \<and> (\<forall>m t. run (manager_signing_material ev mg) s' = (Ok m, t) \<longrightarrow> sm_signing_key_pem m = k)"
  using manager_world.key_stable [OF assms] .

text \<open>A small deployment: one domain, no challenges to answer, a CA that certifies what it is given.\<close>

definition sample_acme :: "unit acme_lib" where
  "sample_acme =
     \<lparr>ac_parse_credentials = Inr, ac_show_credentials = Inr, ac_from_credentials = \<lambda>h c w. (Inr c, w),
      ac_create = \<lambda>h c u w. (Inr (''acct'', ''creds''), w), ac_new_order = \<lambda>a ds w. (Inr ''order'', w),
      ac_authorizations = \<lambda>ord w. [], ac_authorization = \<lambda>ord u w. (Inl ''none'', w),
      ac_poll_ready = \<lambda>ord w. (Inr OrderReady, w), ac_finalize_csr = \<lambda>ord csr w. (Inr (), w),
      ac_poll_certificate = \<lambda>ord w. (Inr ''chain'', w)\<rparr>"

definition sample_cert_env :: "(unit \<times> memory_values, string, string) cert_env" where
  "sample_cert_env =
     process_env zero_digest sample_acme
       \<lparr>ev_acme = outside_acme sample_acme, ev_cert = sample_cert_lib, ev_crypto = sample_crypto, ev_x509 = sample_x509,
        ev_sha256 = zero_digest, ev_tld_plus_one = \<lambda>_. None, ev_now = \<lambda>_. 0, ev_read_file = \<lambda>p w. (Inl ''none'', w),
        ev_rng = \<lambda>w i. Inr [], ev_chain_kept = \<lambda>k w. True\<rparr>"

definition sample_manager :: "(unit \<times> memory_values) cert_manager" where
  "sample_manager =
     process_manager (with_cache_policy (\<lambda>c ttl k w. True) (process_storage zero_digest) NO_PRIVATE_KEY_CACHE)
       (Some (\<lambda>authz w. (Inl (ChallengeOther ''none''), w)))
       \<lparr>mg_crypto_storage = None, mg_challenge_handler = None, mg_acme_http_client = Some [],
        mg_provisioning_strategy = AcmeProvisioning, mg_renewal_strategy = PercentageOfLifetime None,
        mg_domains = [''d''], mg_email = ''e'', mg_organization = None, mg_eku = None, mg_acme_directory_url = ''u''\<rparr>"

lemma sample_manager_world:
  "manager_world (with_cache_policy (\<lambda>c ttl k w. True) (process_storage zero_digest) NO_PRIVATE_KEY_CACHE)
     sample_cert_env snd (\<lambda>_. True) sample_manager"
  unfolding sample_cert_env_def sample_manager_def by (rule process_manager_world [OF zero_digest_hex])

lemma sample_strategy [simp]: "mg_provisioning_strategy sample_manager = AcmeProvisioning"
  by (simp add: sample_manager_def process_manager_def)

lemma storage_keys_sample: "hex_digest (ev_sha256 sample_cert_env)"
  by (simp add: sample_cert_env_def process_env_def zero_digest_hex)

theorem signing_key_is_stable_witness:
  "\<exists>s s'. run (signing_key_pem sample_cert_env sample_manager) (new_manager_state ((), Map.empty)) = (Ok ''k'', s)
    \<and> run (renewal_job sample_cert_env sample_manager) s = (None, s')
    \<and> (\<forall>m t. run (manager_signing_material sample_cert_env sample_manager) s' = (Ok m, t) \<longrightarrow> sm_signing_key_pem m = ''k'')"
proof -
  let ?s0 = "new_manager_state ((), Map.empty)"
  obtain s where s: "run (signing_key_pem sample_cert_env sample_manager) ?s0 = (Ok ''k'', s)"
    and j: "fst (run (renewal_job sample_cert_env sample_manager) s) = None"
  proof -
    have "fst (run (signing_key_pem sample_cert_env sample_manager) ?s0) = Ok ''k''" by code_simp
    moreover have "fst (run (renewal_job sample_cert_env sample_manager)
        (snd (run (signing_key_pem sample_cert_env sample_manager) ?s0))) = None" by code_simp
    ultimately show thesis using that by (cases "run (signing_key_pem sample_cert_env sample_manager) ?s0") auto
  qed
  then obtain s' where s': "run (renewal_job sample_cert_env sample_manager) s = (None, s')"
    by (cases "run (renewal_job sample_cert_env sample_manager) s") auto
  then have "(manager_step sample_cert_env sample_manager snd (\<lambda>_. True))\<^sup>*\<^sup>* s s'"
    by (blast intro: manager_step.renewal_runs)
  from signing_key_is_stable [OF sample_manager_world sample_strategy _ s this] show ?thesis using s s' by blast
qed

section \<open>Issuance\<close>

text \<open>
  The state before an issuance: the storage is as its contract says, and a certificate is cached only
  if one is stored.
\<close>

definition cert_cache_sound ::
  "('w, 'sk, 'ek) cert_env \<Rightarrow> 'w cert_manager \<Rightarrow> ('w \<Rightarrow> (string \<rightharpoonup> string)) \<Rightarrow> ('w \<Rightarrow> bool) \<Rightarrow> 'w manager_state \<Rightarrow> bool" where
  "cert_cache_sound ev mg contents ok s \<longleftrightarrow> ok (cs_world s) \<and>
     (cs_certificate_cache s (cert_key ev mg) \<noteq> None \<longrightarrow> contents (cs_world s) (cert_key ev mg) \<noteq> None)"

lemma request_certificate_active:
  assumes "run (request_certificate ev mg) s = (r, s')"
  shows "r \<noteq> Panic \<and> (\<forall>e. r = Err e \<longrightarrow> cm_active s' = cm_active s)
    \<and> (\<forall>cd. r = Ok cd \<longrightarrow>
         (\<exists>certs key. parse_cert_chain_parts (ev_x509 ev) (cd_certificate cd) = Ok certs \<and> key_checked ev mg cd key
            \<and> cm_active s' = Some \<lparr>sm_certificate_chain = Some certs, sm_signing_key_pem = key\<rparr>)
         \<or> mg_provisioning_strategy mg \<noteq> AcmeProvisioning \<and> cm_active s' = cm_active s)"
proof -
  have "run (provision ev mg) s = (r, s')" using assms by (simp add: request_certificate_def locked_def)
  from tripleD [OF provision_apart [where J = "\<lambda>a _. a = cm_active s"] _ this] show ?thesis
    by (auto simp: provisioned_def swapped_def split: outcome.splits)
qed

text \<open>
  C6. An issuance over ACME takes effect as a whole or not at all for the signer. If it fails, at
  whatever point, the material in use is the one from before. If it succeeds, the next signature uses
  the issued chain, the storage holds the issued certificate, and reading the certificate back gives
  exactly the issued data (or an error of the storage). It never panics.
\<close>

theorem issuance_takes_effect_or_not:
  assumes "manager_world cy ev contents ok mg" and "mg_provisioning_strategy mg = AcmeProvisioning"
    and "cert_cache_sound ev mg contents ok s"
    and "\<And>cd j. cl_to_json (ev_cert ev) cd = Inr j \<Longrightarrow> cl_from_json (ev_cert ev) j = Inr cd"
    and "run (request_certificate ev mg) s = (r, s')"
  shows "case r of
      Ok cd \<Rightarrow>
        (\<exists>certs key. parse_cert_chain_parts (ev_x509 ev) (cd_certificate cd) = Ok certs
           \<and> run (manager_signing_material ev mg) s' = (Ok \<lparr>sm_certificate_chain = Some certs, sm_signing_key_pem = key\<rparr>, s'))
        \<and> (\<exists>j. cl_to_json (ev_cert ev) cd = Inr j \<and> contents (cs_world s') (cert_key ev mg) = Some j)
        \<and> fst (run (certificate ev mg) s') \<in> {Ok (Some cd)} \<union> range (Err \<circ> CertStorage)
    | Err e \<Rightarrow> cm_active s' = cm_active s
    | Panic \<Rightarrow> False"
proof (cases r)
  case (Ok cd)
  have known: "manager_world.cert_known ev contents ok mg s"
    using assms(3) by (simp add: cert_cache_sound_def manager_world.cert_known_def [OF assms(1)])
  from manager_world.issuance_takes_effect [OF assms(1,2) known] assms(5) Ok obtain j where
    j: "cl_to_json (ev_cert ev) cd = Inr j" "contents (cs_world s') (cert_key ev mg) = Some j"
      "\<forall>r t. run (certificate ev mg) s' = (r, t) \<longrightarrow>
         r = map_err CertSerde (omap Some (from_sum (cl_from_json (ev_cert ev) j))) \<or> (\<exists>e. r = Err (CertStorage e))"
    by blast
  then have "fst (run (certificate ev mg) s') \<in> {Ok (Some cd)} \<union> range (Err \<circ> CertStorage)"
    using assms(4) [OF j(1)] by (cases "run (certificate ev mg) s'") auto
  then show ?thesis
    using request_certificate_active [OF assms(5)] assms(2) Ok j
    by (auto simp: manager_signing_material_def load_active_def)
qed (use request_certificate_active [OF assms(5)] in auto)

lemma sample_json:
  "cl_to_json (ev_cert sample_cert_env) cd = Inr j \<Longrightarrow> cl_from_json (ev_cert sample_cert_env) j = Inr cd"
  by (auto simp: sample_cert_env_def process_env_def sample_cert_lib_def split: if_splits)

theorem issuance_takes_effect_or_not_witness:
  "\<exists>cd s'. run (request_certificate sample_cert_env sample_manager) (new_manager_state ((), Map.empty)) = (Ok cd, s')
    \<and> cd_certificate cd = ''chain''
    \<and> (\<exists>certs key. run (manager_signing_material sample_cert_env sample_manager) s' =
          (Ok \<lparr>sm_certificate_chain = Some certs, sm_signing_key_pem = key\<rparr>, s'))
    \<and> snd (cs_world s') (cert_key sample_cert_env sample_manager) = Some ''chain''"
proof -
  let ?run = "run (request_certificate sample_cert_env sample_manager) (new_manager_state ((), Map.empty))"
  have r: "fst ?run = Ok (certificate_data_new ''chain'' 0 100 0)" by code_simp
  then obtain s' where s': "?run = (Ok (certificate_data_new ''chain'' 0 100 0), s')" by (cases ?run) auto
  have sound: "cert_cache_sound sample_cert_env sample_manager snd (\<lambda>_. True) (new_manager_state ((), Map.empty))"
    by (simp add: cert_cache_sound_def new_manager_state_def)
  have "cl_to_json (ev_cert sample_cert_env) (certificate_data_new ''chain'' 0 100 0) = Inr ''chain''" by code_simp
  then show ?thesis
    using issuance_takes_effect_or_not [OF sample_manager_world sample_strategy sound sample_json s'] s'
    by (auto simp: certificate_data_new_def)
qed

section \<open>Material from a store\<close>

text \<open>The two readers of PEM text agree that there is a block.\<close>

definition pem_readers_agree :: "'sk x509_lib \<Rightarrow> bool" where
  "pem_readers_agree xl \<longleftrightarrow> (\<forall>pem b. x5_parse_x509_pem xl pem = Inr b \<longrightarrow> x5_pem_blocks xl pem \<noteq> [])"

lemma checked_material_sound:
  assumes "pem_readers_agree xl" and "validate_signing_material cr xl pem key = Ok ()"
    and "parse_cert_chain_parts xl pem = Ok certs"
  shows "sound_material cr xl \<lparr>sm_certificate_chain = Some certs, sm_signing_key_pem = key\<rparr>"
proof -
  have "list_all2 (\<lambda>c d. c = Inr d) (map (map_sum id (x5_base64_encode xl)) (x5_pem_blocks xl pem)) certs"
    using assms(3) by (auto simp: parse_cert_chain_parts_def collect_eq_Ok list_all2_map1 outcome_simps elim!: list_all2_mono)
  then have chain: "map Inr certs = map (map_sum id (x5_base64_encode xl)) (x5_pem_blocks xl pem)"
    by (auto simp: list_all2_conv_all_nth intro: nth_equalityI)
  obtain sk block where "keypair_from_pkcs8_pem cr key = Ok sk" "x5_parse_x509_pem xl pem = Inr block"
    "x5_certificate_public_key xl block = Inr (x5_sec1_point xl sk)" "\<exists>ek. cr_encoding_key_from_ec_pem cr key = Inr ek"
    using assms(2) by (auto simp: validate_signing_material_def outcome_simps split: if_splits)
  moreover have "certs \<noteq> []" using chain assms(1) calculation(2) by (auto simp: pem_readers_agree_def)
  moreover have "cr_key_from_pkcs8_pem cr key = Inr sk"
    using calculation(1) by (auto simp: keypair_from_pkcs8_pem_def outcome_simps)
  ultimately show ?thesis using chain unfolding sound_material_def by auto
qed

text \<open>
  C14. Material from a store is validated before it is used: whatever the files and the storage hold
  and whatever fails, a provisioning leaves the material in use as it was or replaces it, in one step,
  by a certificate chain and the key the certificate is over.
\<close>

theorem store_provisioning_sound:
  assumes "pem_readers_agree (ev_x509 ev)" and "mg_provisioning_strategy mg \<noteq> AcmeProvisioning"
    and "run (request_certificate ev mg) s = (r, s')" and "cm_active s' \<noteq> cm_active s"
  shows "\<exists>m cd. r = Ok cd \<and> cm_active s' = Some m \<and> sound_material (ev_crypto ev) (ev_x509 ev) m
    \<and> parse_cert_chain_parts (ev_x509 ev) (cd_certificate cd) = Ok (the (sm_certificate_chain m))"
  using request_certificate_active [OF assms(3)] assms(2,4) checked_material_sound [OF assms(1)]
  by (cases r) (auto simp: key_checked_def)

definition sample_store_env :: "(unit \<times> memory_values, string, string) cert_env" where
  "sample_store_env = sample_cert_env\<lparr>ev_read_file := \<lambda>p w. (Inr (if p = ''cert'' then ''x'' else ''x|''), w)\<rparr>"

definition sample_store_manager :: "(unit \<times> memory_values) cert_manager" where
  "sample_store_manager =
     sample_manager\<lparr>mg_provisioning_strategy := StoreProvisioning (Filesystem ''cert'') (Filesystem ''key'')\<rparr>"

theorem store_provisioning_sound_witness:
  "\<exists>m s'. cm_active s' = Some m \<and> sm_signing_key_pem m = ''x|'' \<and> sound_material sample_crypto sample_x509 m
    \<and> snd (run (request_certificate sample_store_env sample_store_manager) (new_manager_state ((), Map.empty))) = s'"
proof -
  let ?run = "run (request_certificate sample_store_env sample_store_manager) (new_manager_state ((), Map.empty))"
  have agree: "pem_readers_agree (ev_x509 sample_store_env)"
    by (simp add: pem_readers_agree_def sample_store_env_def sample_cert_env_def process_env_def sample_x509_def)
  have libs: "ev_crypto sample_store_env = sample_crypto" "ev_x509 sample_store_env = sample_x509"
    by (simp_all add: sample_store_env_def sample_cert_env_def process_env_def)
  have strategy: "mg_provisioning_strategy sample_store_manager \<noteq> AcmeProvisioning" by (simp add: sample_store_manager_def)
  have active: "cm_active (snd ?run) = Some \<lparr>sm_certificate_chain = Some [''x|''], sm_signing_key_pem = ''x|''\<rparr>" by code_simp
  then have "cm_active (snd ?run) \<noteq> cm_active (new_manager_state ((), Map.empty))" by (simp add: new_manager_state_def)
  from store_provisioning_sound [OF agree strategy _ this, of "fst ?run"] show ?thesis
    using active by (auto simp: libs)
qed

text \<open>
  The two writes of \<open>persist_crypto_material\<close> are not one. When the second fails, a manager without
  material in use loads the new certificate together with the old key and signs with the pair.
\<close>

definition interrupted_manager :: "(unit \<times> memory_values) cert_manager" where
  "interrupted_manager =
     sample_store_manager\<lparr>mg_crypto_storage := Some (with_cache_policy (\<lambda>c ttl k w. True)
       ((process_storage zero_digest)\<lparr>st_update := \<lambda>key v w.
          if prefix ''keys'' key then (Inl (StorageBackend ''down''), w)
          else st_update (process_storage zero_digest) key v w\<rparr>) NO_PRIVATE_KEY_CACHE)\<rparr>"

lemma interrupted_persist_mixes_material:
  "let start = new_manager_state ((), [''certs-d-cert-data-json'' \<mapsto> ''old|'', ''keys-d'' \<mapsto> ''old|'']);
       (r, s) = run (request_certificate sample_store_env interrupted_manager) start
   in r = Err (CertStorage (StorageBackend ''down''))
      \<and> fst (run (manager_signing_material sample_store_env interrupted_manager) s)
          = Ok \<lparr>sm_certificate_chain = Some [''x|''], sm_signing_key_pem = ''old|''\<rparr>
      \<and> validate_signing_material sample_crypto sample_x509 ''x|'' ''old|''
          = Err (Backend ''certificate public key does not match signing key'')"
  by code_simp

section \<open>Challenges are cleaned up when the order answers\<close>

text \<open>
  Once the state of the order is known, every clean-up is run, in order, whatever the others return.
  If asking for the state fails, none is.
\<close>

definition run_all :: "('w \<Rightarrow> 'r \<times> 'w) list \<Rightarrow> 'w \<Rightarrow> 'w" where
  "run_all fs w = foldl (\<lambda>w f. snd (f w)) w fs"

lemma run_cleanups_all: "run (run_cleanups cs) s = ((), s\<lparr>cs_world := run_all cs (cs_world s)\<rparr>)"
  by (induction cs arbitrary: s) (auto simp: run_all_def outside_def split: prod.splits)

lemma poll_order_cleans_up:
  "ac_poll_ready (ev_acme ev) ord (cs_world s) = (Inr state, w) \<Longrightarrow>
     snd (run (poll_order ev mg ord cs) s) = s\<lparr>cs_world := run_all cs w\<rparr>"
  "ac_poll_ready (ev_acme ev) ord (cs_world s) = (Inl e, w) \<Longrightarrow>
     run (poll_order ev mg ord cs) s = (Err (CertAcme e), s\<lparr>cs_world := w\<rparr>)"
  by (simp_all add: poll_order_def acme_call_def outside_def run_cleanups_all)

section \<open>The builder\<close>

text \<open>What a manager needs for its strategy.\<close>

definition complete_manager :: "'w cert_manager \<Rightarrow> bool" where
  "complete_manager mg \<longleftrightarrow>
     mg_domains mg \<noteq> [] \<and> mg_crypto_storage mg \<noteq> None
     \<and> (mg_provisioning_strategy mg = AcmeProvisioning \<longrightarrow>
          mg_challenge_handler mg \<noteq> None \<and> mg_acme_http_client mg \<noteq> None \<and> mg_acme_directory_url mg \<noteq> [])"

definition chosen_strategy :: "'w manager_builder \<Rightarrow> provisioning_strategy" where
  "chosen_strategy b = (case bl_provisioning_strategy b of Some st \<Rightarrow> st | None \<Rightarrow> AcmeProvisioning)"

lemma strategy_name_acme [simp]: "strategy_name st = ''acme'' \<longleftrightarrow> st = AcmeProvisioning"
  by (cases st) auto

text \<open>
  C37. The builder accepts exactly the complete configurations: at least one domain, a backend, and for
  ACME (the default strategy) a challenge handler, a directory URL and an HTTP client, given or the
  default one. What it accepts is a complete manager with the settings of the builder, and its private
  keys are cached exactly if the configured time to live is not zero. Everything else is a validation
  error or the failure to make the default HTTP client, never a panic.
\<close>

theorem builder_builds_complete_managers:
  "(case builder_build moka default_client b of
       Ok mg \<Rightarrow> complete_manager mg \<and> mg_domains mg = bl_domains b \<and> mg_provisioning_strategy mg = chosen_strategy b
         \<and> (cy_signing_key_cache (the (mg_crypto_storage mg)) = None \<longleftrightarrow> cp_signing_key_ttl (bl_cache_policy b) = 0)
     | Err e \<Rightarrow> e \<in> range CertValidation \<or> default_client = Err e
     | Panic \<Rightarrow> default_client = Panic)
    \<and> (is_ok (builder_build moka default_client b) \<longleftrightarrow>
         bl_domains b \<noteq> [] \<and> bl_crypto_storage b \<noteq> None
         \<and> (chosen_strategy b = AcmeProvisioning \<longrightarrow> bl_challenge_handler b \<noteq> None \<and> bl_acme_directory_url b \<notin> {None, Some []}
              \<and> (bl_acme_http_client b = None \<longrightarrow> is_ok default_client)))"
  unfolding chosen_strategy_def builder_build_def with_cache_policy_def cache_for_ttl_def
  by (cases "bl_crypto_storage b"; cases "bl_acme_http_client b"; cases default_client; cases "bl_acme_directory_url b")
     (auto simp: complete_manager_def Let_def split: option.splits)

theorem builder_builds_complete_managers_witness:
  "\<exists>mg. builder_build (\<lambda>c ttl k w. True) (Ok []) (builder_default
       \<lparr>bl_domains := [''d''], bl_crypto_storage := Some (memory_storage zero_digest),
        bl_challenge_handler := Some (\<lambda>authz w. (Inl (ChallengeOther ''none''), w)), bl_acme_directory_url := Some ''u''\<rparr>)
       = Ok mg \<and> complete_manager mg \<and> mg_provisioning_strategy mg = AcmeProvisioning"
proof -
  let ?b = "builder_default
       \<lparr>bl_domains := [''d''], bl_crypto_storage := Some (memory_storage zero_digest),
        bl_challenge_handler := Some (\<lambda>authz w. (Inl (ChallengeOther ''none''), w)), bl_acme_directory_url := Some ''u''\<rparr>"
  have "is_ok (builder_build (\<lambda>c ttl k w. True) (Ok []) ?b)"
    using builder_builds_complete_managers [where moka = "\<lambda>c ttl k w. True" and default_client = "Ok []" and b = ?b] by (simp add: builder_default_def)
  moreover have "chosen_strategy ?b = AcmeProvisioning" by (simp add: chosen_strategy_def builder_default_def)
  ultimately show ?thesis
    using builder_builds_complete_managers [where moka = "\<lambda>c ttl k w. True" and default_client = "Ok []" and b = ?b]
    by (cases "builder_build (\<lambda>c ttl k w. True) (Ok []) ?b") auto
qed

section \<open>The names of the secrets\<close>

text \<open>
  C39. Every key the manager uses is a valid name for each of the secret services: between 1 and 127
  characters, letters, digits and hyphens only, and unchanged by a second normalisation, so the
  caches and the backend speak of the same entry. The keys of certificates, signing keys and ACME
  accounts never collide, not even between managers of different domains.
\<close>

theorem storage_keys_valid:
  assumes "hex_digest (ev_sha256 ev)" and "key \<in> {cert_key ev mg, signing_secret_id ev mg, acme_account_id ev mg}"
  shows "1 \<le> length key \<and> length key \<le> 127 \<and> list_all storage_key_char key \<and> normalize_key (ev_sha256 ev) key = key
    \<and> cert_key ev mg \<noteq> signing_secret_id ev mg' \<and> acme_account_id ev mg \<noteq> signing_secret_id ev mg'
    \<and> cert_key ev mg \<noteq> acme_account_id ev mg'"
proof -
  obtain c k where k: "key = normalize_key (ev_sha256 ev) (c # k)" "c \<in> {CHR ''c'', CHR ''k'', CHR ''a''}"
    using assms(2) by (auto simp: cert_key_def signing_secret_id_def acme_account_id_def)
  have "list_all storage_key_char [c]" using k(2) by (auto simp: storage_key_char_defs)
  then have "prefix [c] key" using normalize_key_prefix [of "[c]" "ev_sha256 ev" k] k(1) by simp
  then have "1 \<le> length key" by (auto simp: prefix_def)
  then show ?thesis
    using k(1) assms(1) normalize_key_shape [OF assms(1)] by (simp add: normalize_key_idem manager_keys_distinct)
qed

theorem storage_keys_valid_witness:
  "1 \<le> length (cert_key sample_cert_env sample_manager) \<and> length (cert_key sample_cert_env sample_manager) \<le> 127
   \<and> cert_key sample_cert_env sample_manager \<noteq> signing_secret_id sample_cert_env sample_manager"
  using storage_keys_valid [OF storage_keys_sample, of "cert_key sample_cert_env sample_manager" sample_manager sample_manager]
  by simp

end
