(* ===== verification/Secret_Stores.thy ===== *)
theory Secret_Stores
  imports Acme_Challenge
begin

text \<open>
  Model of \<open>src/src/outbound/aws.rs\<close>, \<open>azure_kv.rs\<close>, \<open>azure_identity.rs\<close> and \<open>gcp_secret.rs\<close>: the
  storage trait over the secret services of AWS, Azure and Google, each with its optional cache. The
  client libraries are records of calls on the remote state \<open>'r\<close>; \<open>kept\<close> is the behaviour of the cache
  library, \<open>None\<close> when the cache is disabled.
\<close>

section \<open>The cache of an adapter\<close>

record 'r secret_world =
  sw_remote :: 'r
  sw_cache :: "string \<rightharpoonup> string"

definition secrets_cache :: "(nat \<Rightarrow> nat option \<Rightarrow> 'r kept) \<Rightarrow> nat \<Rightarrow> 'r kept option" where
  "secrets_cache moka secrets_cache_ttl =
     (if secrets_cache_ttl \<noteq> 0 then Some (moka 100 (Some secrets_cache_ttl)) else None)"

definition cached_secret :: "'r kept option \<Rightarrow> string \<Rightarrow> 'r secret_world \<Rightarrow> string option" where
  "cached_secret cache key w =
     (case cache of
        Some kept \<Rightarrow> if kept key (sw_remote w) then sw_cache w key else None
      | None \<Rightarrow> None)"

definition cache_secret :: "'r kept option \<Rightarrow> string \<Rightarrow> string \<Rightarrow> 'r secret_world \<Rightarrow> 'r secret_world" where
  "cache_secret cache key v w =
     (case cache of Some _ \<Rightarrow> w\<lparr>sw_cache := (sw_cache w)(key \<mapsto> v)\<rparr> | None \<Rightarrow> w)"

definition uncache_secret :: "'r kept option \<Rightarrow> string \<Rightarrow> 'r secret_world \<Rightarrow> 'r secret_world" where
  "uncache_secret cache key w =
     (case cache of Some _ \<Rightarrow> w\<lparr>sw_cache := (sw_cache w)(key := None)\<rparr> | None \<Rightarrow> w)"

definition remote :: "('r \<Rightarrow> 'a \<times> 'r) \<Rightarrow> 'r secret_world \<Rightarrow> 'a \<times> 'r secret_world" where
  "remote f w = (case f (sw_remote w) of (r, x) \<Rightarrow> (r, w\<lparr>sw_remote := x\<rparr>))"

section \<open>AWS Secrets Manager\<close>

datatype aws_error = ResourceNotFound | AwsFailure string

fun aws_text :: "aws_error \<Rightarrow> string" where
  "aws_text ResourceNotFound = ''resource not found''"
| "aws_text (AwsFailure e) = e"

record 'r aws_client =
  aw_describe_secret :: "string \<Rightarrow> 'r \<Rightarrow> (aws_error + unit) \<times> 'r"
  aw_create_secret :: "string \<Rightarrow> string \<Rightarrow> 'r \<Rightarrow> (aws_error + unit) \<times> 'r"
  aw_get_secret_value :: "string \<Rightarrow> 'r \<Rightarrow> (aws_error + string option) \<times> 'r"
  aw_put_secret_value :: "string \<Rightarrow> string \<Rightarrow> 'r \<Rightarrow> (aws_error + unit) \<times> 'r"
  aw_delete_secret :: "string \<Rightarrow> 'r \<Rightarrow> (aws_error + unit) \<times> 'r"

definition aws_store ::
  "(string \<Rightarrow> string) \<Rightarrow> 'r aws_client \<Rightarrow> string \<Rightarrow> string \<Rightarrow> 'r secret_world \<Rightarrow> (storage_error + unit) \<times> 'r secret_world" where
  "aws_store sha256 client name v w =
     (let secret_name = normalize_key sha256 name in
      case remote (aw_describe_secret client secret_name) w of
        (Inr _, w) \<Rightarrow> (Inr (), w)
      | (Inl ResourceNotFound, w) \<Rightarrow>
          wmap_err (StorageBackend \<circ> aws_text) (remote (aw_create_secret client secret_name v)) w
      | (Inl (AwsFailure e), w) \<Rightarrow> (Inl (StorageBackend e), w))"

definition aws_load ::
  "(string \<Rightarrow> string) \<Rightarrow> 'r aws_client \<Rightarrow> 'r kept option \<Rightarrow> string \<Rightarrow> 'r secret_world
   \<Rightarrow> (storage_error + string option) \<times> 'r secret_world" where
  "aws_load sha256 client cache name w =
     (let secret_name = normalize_key sha256 name in
      case cached_secret cache name w of
        Some v \<Rightarrow> (Inr (Some v), w)
      | None \<Rightarrow>
          (case remote (aw_get_secret_value client secret_name) w of
             (Inr (Some secret_string), w) \<Rightarrow> (Inr (Some secret_string), cache_secret cache name secret_string w)
           | (Inr None, w) \<Rightarrow> (Inr None, w)
           | (Inl ResourceNotFound, w) \<Rightarrow> (Inr None, w)
           | (Inl (AwsFailure e), w) \<Rightarrow> (Inl (StorageBackend e), w)))"

definition aws_update ::
  "(string \<Rightarrow> string) \<Rightarrow> 'r aws_client \<Rightarrow> 'r kept option \<Rightarrow> string \<Rightarrow> string \<Rightarrow> 'r secret_world
   \<Rightarrow> (storage_error + unit) \<times> 'r secret_world" where
  "aws_update sha256 client cache name v =
     wtry (wmap_err (StorageBackend \<circ> aws_text) (remote (aw_put_secret_value client (normalize_key sha256 name) v)))
       (\<lambda>_ w. (Inr (), cache_secret cache name v w))"

definition aws_delete ::
  "(string \<Rightarrow> string) \<Rightarrow> 'r aws_client \<Rightarrow> 'r kept option \<Rightarrow> string \<Rightarrow> 'r secret_world
   \<Rightarrow> (storage_error + unit) \<times> 'r secret_world" where
  "aws_delete sha256 client cache name =
     wtry (wmap_err (StorageBackend \<circ> aws_text) (remote (aw_delete_secret client (normalize_key sha256 name))))
       (\<lambda>_ w. (Inr (), uncache_secret cache name w))"

definition aws_reachable :: "'r aws_client \<Rightarrow> 'r secret_world \<Rightarrow> (storage_error + unit) \<times> 'r secret_world" where
  "aws_reachable client w =
     (case remote (aw_describe_secret client ''health-probe-do-not-create'') w of
        (Inl ResourceNotFound, w) \<Rightarrow> (Inr (), w)
      | (Inl (AwsFailure e), w) \<Rightarrow> (Inl (StorageBackend e), w)
      | (Inr _, w) \<Rightarrow> (Inr (), w))"

definition aws_storage :: "(string \<Rightarrow> string) \<Rightarrow> 'r aws_client \<Rightarrow> 'r kept option \<Rightarrow> 'r secret_world storage" where
  "aws_storage sha256 client cache =
     \<lparr>st_store = aws_store sha256 client, st_load = aws_load sha256 client cache,
      st_update = aws_update sha256 client cache, st_delete = aws_delete sha256 client cache,
      st_reachable = aws_reachable client\<rparr>"

section \<open>Azure Key Vault\<close>

record azure_error =
  ae_http_status :: "nat option"
  ae_text :: string

record 'r azure_client =
  ak_parameters :: "string \<Rightarrow> string + unit"
  ak_set_secret :: "string \<Rightarrow> string \<Rightarrow> 'r \<Rightarrow> (azure_error + unit) \<times> 'r"
  ak_recover_deleted_secret :: "string \<Rightarrow> 'r \<Rightarrow> (azure_error + unit) \<times> 'r"
  ak_get_secret :: "string \<Rightarrow> 'r \<Rightarrow> (azure_error + (string + string option)) \<times> 'r"
  ak_delete_secret :: "string \<Rightarrow> 'r \<Rightarrow> (azure_error + unit) \<times> 'r"
  ak_purge_deleted_secret :: "string \<Rightarrow> 'r \<Rightarrow> (azure_error + unit) \<times> 'r"

definition azure_parameters :: "'r azure_client \<Rightarrow> string \<Rightarrow> storage_error + unit" where
  "azure_parameters client v =
     map_sum (\<lambda>e. StorageBackend (''failed to serialize Azure secret parameters: '' @ e)) id (ak_parameters client v)"

text \<open>
  The attempts after a recovery was started; \<open>left\<close> are the attempts left. Between them the code
  sleeps.
\<close>

primrec azure_set_loop ::
  "'r azure_client \<Rightarrow> string \<Rightarrow> string \<Rightarrow> string \<Rightarrow> nat \<Rightarrow> 'r secret_world \<Rightarrow> (storage_error + unit) \<times> 'r secret_world" where
  "azure_set_loop client key secret_name v 0 w =
     (Inl (StorageBackend (''timeout waiting for Azure secret '' @ quoted key @ '' recovery to complete'')), w)"
| "azure_set_loop client key secret_name v (Suc left) w =
     (case azure_parameters client v of
        Inl e \<Rightarrow> (Inl e, w)
      | Inr _ \<Rightarrow>
          (case remote (ak_set_secret client secret_name v) w of
             (Inr _, w) \<Rightarrow> (Inr (), w)
           | (Inl e, w) \<Rightarrow>
               if ae_http_status e = Some 409 then azure_set_loop client key secret_name v left w
               else (Inl (StorageBackend (''failed to set Azure secret '' @ quoted key @ '' after recovery: '' @ ae_text e)), w)))"

definition azure_store ::
  "(string \<Rightarrow> string) \<Rightarrow> 'r azure_client \<Rightarrow> 'r kept option \<Rightarrow> string \<Rightarrow> string \<Rightarrow> 'r secret_world
   \<Rightarrow> (storage_error + unit) \<times> 'r secret_world" where
  "azure_store sha256 client cache key v =
     (let secret_name = normalize_key sha256 key in
      wtry (\<lambda>w. (azure_parameters client v, w)) (\<lambda>_.
      wtry (\<lambda>w.
        case remote (ak_set_secret client secret_name v) w of
          (Inr _, w) \<Rightarrow> (Inr (), w)
        | (Inl e, w) \<Rightarrow>
            if ae_http_status e = Some 409
            then wtry (wmap_err (\<lambda>e. StorageBackend
                   (''failed to initiate recovery of soft-deleted Azure secret '' @ quoted key @ '': '' @ ae_text e))
                   (remote (ak_recover_deleted_secret client secret_name)))
                   (\<lambda>_. azure_set_loop client key secret_name v 10) w
            else (Inl (StorageBackend (''failed to set Azure secret '' @ quoted key @ '': '' @ ae_text e)), w))
      (\<lambda>_ w. (Inr (), cache_secret cache key v w))))"

definition azure_load ::
  "(string \<Rightarrow> string) \<Rightarrow> 'r azure_client \<Rightarrow> 'r kept option \<Rightarrow> string \<Rightarrow> 'r secret_world
   \<Rightarrow> (storage_error + string option) \<times> 'r secret_world" where
  "azure_load sha256 client cache key w =
     (case cached_secret cache key w of
        Some v \<Rightarrow> (Inr (Some v), w)
      | None \<Rightarrow>
          (case remote (ak_get_secret client (normalize_key sha256 key)) w of
             (Inr (Inl e), w) \<Rightarrow>
               (Inl (StorageBackend (''failed to parse Azure secret response model for '' @ quoted key @ '': '' @ e)), w)
           | (Inr (Inr v), w) \<Rightarrow>
               (Inr v, case v of Some v \<Rightarrow> cache_secret cache key v w | None \<Rightarrow> w)
           | (Inl e, w) \<Rightarrow>
               if ae_http_status e = Some 404 then (Inr None, w)
               else (Inl (StorageBackend (''Azure secret load failed for key '' @ quoted key @ '': '' @ ae_text e)), w)))"

definition azure_delete ::
  "(string \<Rightarrow> string) \<Rightarrow> 'r azure_client \<Rightarrow> 'r kept option \<Rightarrow> string \<Rightarrow> 'r secret_world
   \<Rightarrow> (storage_error + unit) \<times> 'r secret_world" where
  "azure_delete sha256 client cache key w =
     (let secret_name = normalize_key sha256 key in
      case remote (ak_delete_secret client secret_name) w of
        (Inr _, w) \<Rightarrow> (Inr (), snd (remote (ak_purge_deleted_secret client secret_name) (uncache_secret cache key w)))
      | (Inl e, w) \<Rightarrow>
          if ae_http_status e = Some 404 then (Inr (), uncache_secret cache key w)
          else (Inl (StorageBackend (''Azure secret delete failed for key '' @ quoted key @ '': '' @ ae_text e)), w))"

definition azure_reachable :: "'r azure_client \<Rightarrow> 'r secret_world \<Rightarrow> (storage_error + unit) \<times> 'r secret_world" where
  "azure_reachable client w =
     (case remote (ak_get_secret client ''health-probe-do-not-create'') w of
        (Inr _, w) \<Rightarrow> (Inr (), w)
      | (Inl e, w) \<Rightarrow>
          if ae_http_status e = Some 404 then (Inr (), w)
          else (Inl (StorageBackend (''Azure Key Vault readiness check failed: '' @ ae_text e)), w))"

definition azure_storage :: "(string \<Rightarrow> string) \<Rightarrow> 'r azure_client \<Rightarrow> 'r kept option \<Rightarrow> 'r secret_world storage" where
  "azure_storage sha256 client cache =
     \<lparr>st_store = azure_store sha256 client cache, st_load = azure_load sha256 client cache,
      st_update = azure_store sha256 client cache, st_delete = azure_delete sha256 client cache,
      st_reachable = azure_reachable client\<rparr>"

text \<open>
  The chain of credentials: the sources that could be constructed, in their order. The first that
  gives a token wins; the last error is reported.
\<close>

definition azure_credential_sources ::
  "(string option \<times> string option \<times> string option) \<Rightarrow> (string \<Rightarrow> string \<Rightarrow> string \<Rightarrow> string + 'c)
   \<Rightarrow> (string + 'c) \<Rightarrow> (string + 'c) \<Rightarrow> (string + 'c) \<Rightarrow> (string \<times> 'c) list" where
  "azure_credential_sources env client_secret workload managed developer =
     (case env of
        (Some tenant_id, Some client_id, Some secret) \<Rightarrow>
          (case client_secret tenant_id client_id secret of
             Inr c \<Rightarrow> [(''EnvironmentClientSecretCredential'', c)] | Inl _ \<Rightarrow> [])
      | _ \<Rightarrow> [])
     @ (case workload of Inr c \<Rightarrow> [(''WorkloadIdentityCredential'', c)] | Inl _ \<Rightarrow> [])
     @ (case managed of Inr c \<Rightarrow> [(''ManagedIdentityCredential'', c)] | Inl _ \<Rightarrow> [])
     @ (case developer of Inr c \<Rightarrow> [(''DeveloperToolsCredential'', c)] | Inl _ \<Rightarrow> [])"

definition azure_default_credential :: "(string \<times> 'c) list \<Rightarrow> string + (string \<times> 'c) list" where
  "azure_default_credential sources =
     (if sources = [] then Inl ''no Azure credential sources could be constructed'' else Inr sources)"

fun azure_get_token ::
  "('c \<Rightarrow> 'r \<Rightarrow> (string + string) \<times> 'r) \<Rightarrow> (string \<times> 'c) list \<Rightarrow> string option \<Rightarrow> 'r \<Rightarrow> (string + string) \<times> 'r" where
  "azure_get_token get_token [] last_error w =
     (Inl (case last_error of Some e \<Rightarrow> e
           | None \<Rightarrow> ''all Azure credentials in default chain failed to acquire a token''), w)"
| "azure_get_token get_token ((name, cred) # sources) last_error w =
     (case get_token cred w of
        (Inr token, w) \<Rightarrow> (Inr token, w)
      | (Inl e, w) \<Rightarrow> azure_get_token get_token sources (Some e) w)"

section \<open>Google Secret Manager\<close>

record gcp_error =
  ge_http_status_code :: "nat option"
  ge_status :: "(int \<times> string) option"
  ge_text :: string

definition gcp_is_not_found :: "gcp_error \<Rightarrow> bool" where
  "gcp_is_not_found err \<longleftrightarrow>
     ge_http_status_code err = Some 404
     \<or> (case ge_status err of Some (code, name) \<Rightarrow> code = 5 \<or> name = ''NOT_FOUND'' | None \<Rightarrow> False)"

definition gcp_is_already_exists :: "gcp_error \<Rightarrow> bool" where
  "gcp_is_already_exists err \<longleftrightarrow>
     ge_http_status_code err = Some 409
     \<or> (case ge_status err of Some (code, name) \<Rightarrow> code = 6 \<or> name = ''ALREADY_EXISTS'' | None \<Rightarrow> False)"

record 'r gcp_client =
  gc_add_secret_version :: "string \<Rightarrow> string \<Rightarrow> 'r \<Rightarrow> (gcp_error + unit) \<times> 'r"
  gc_create_secret :: "string \<Rightarrow> string \<Rightarrow> 'r \<Rightarrow> (gcp_error + unit) \<times> 'r"
  gc_access_secret_version :: "string \<Rightarrow> 'r \<Rightarrow> (gcp_error + string option) \<times> 'r"
  gc_delete_secret :: "string \<Rightarrow> 'r \<Rightarrow> (gcp_error + unit) \<times> 'r"
  gc_get_secret :: "string \<Rightarrow> 'r \<Rightarrow> (gcp_error + unit) \<times> 'r"

definition gcp_project_parent :: "string \<Rightarrow> string" where
  "gcp_project_parent project_id = ''projects/'' @ project_id"

definition gcp_secret_name :: "(string \<Rightarrow> string) \<Rightarrow> string \<Rightarrow> string \<Rightarrow> string" where
  "gcp_secret_name sha256 project_id key = ''projects/'' @ project_id @ ''/secrets/'' @ normalize_key sha256 key"

definition gcp_secret_version_name :: "(string \<Rightarrow> string) \<Rightarrow> string \<Rightarrow> string \<Rightarrow> string \<Rightarrow> string" where
  "gcp_secret_version_name sha256 project_id key version =
     ''projects/'' @ project_id @ ''/secrets/'' @ normalize_key sha256 key @ ''/versions/'' @ version"

definition ensure_secret_and_add_version ::
  "(string \<Rightarrow> string) \<Rightarrow> 'r gcp_client \<Rightarrow> string \<Rightarrow> 'r kept option \<Rightarrow> string \<Rightarrow> string \<Rightarrow> 'r secret_world
   \<Rightarrow> (storage_error + unit) \<times> 'r secret_world" where
  "ensure_secret_and_add_version sha256 client project_id cache key v w =
     (let secret_id = normalize_key sha256 key; secret_name = gcp_secret_name sha256 project_id key in
      case remote (gc_add_secret_version client secret_name v) w of
        (Inr _, w) \<Rightarrow> (Inr (), cache_secret cache key v w)
      | (Inl e, w) \<Rightarrow>
          if gcp_is_not_found e
          then
            wtry (\<lambda>w. case remote (gc_create_secret client (gcp_project_parent project_id) secret_id) w of
                (Inr _, w) \<Rightarrow> (Inr (), w)
              | (Inl err, w) \<Rightarrow>
                  if gcp_is_already_exists err then (Inr (), w) else (Inl (StorageBackend (ge_text err)), w))
            (\<lambda>_. wtry (wmap_err (StorageBackend \<circ> ge_text) (remote (gc_add_secret_version client secret_name v)))
            (\<lambda>_ w. (Inr (), cache_secret cache key v w))) w
          else (Inl (StorageBackend (ge_text e)), w))"

text \<open>\<open>utf8_text\<close> is the text of the error of \<open>String::from_utf8\<close>.\<close>

definition gcp_load ::
  "(string \<Rightarrow> string) \<Rightarrow> (string \<Rightarrow> string) \<Rightarrow> 'r gcp_client \<Rightarrow> string \<Rightarrow> 'r kept option \<Rightarrow> string \<Rightarrow> 'r secret_world
   \<Rightarrow> (storage_error + string option) \<times> 'r secret_world" where
  "gcp_load sha256 utf8_text client project_id cache key w =
     (case cached_secret cache key w of
        Some v \<Rightarrow> (Inr (Some v), w)
      | None \<Rightarrow>
          (case remote (gc_access_secret_version client (gcp_secret_version_name sha256 project_id key ''latest'')) w of
             (Inr None, w) \<Rightarrow> (Inl (InvalidData ''missing payload in GCP secret response''), w)
           | (Inr (Some bytes), w) \<Rightarrow>
               if utf8_valid bytes then (Inr (Some bytes), cache_secret cache key bytes w)
               else (Inl (InvalidData (utf8_text bytes)), w)
           | (Inl e, w) \<Rightarrow>
               if gcp_is_not_found e then (Inr None, w)
               else (Inl (StorageBackend (''GCP secret load failed for key '' @ quoted key @ '': '' @ ge_text e)), w)))"

definition gcp_delete ::
  "(string \<Rightarrow> string) \<Rightarrow> 'r gcp_client \<Rightarrow> string \<Rightarrow> 'r kept option \<Rightarrow> string \<Rightarrow> 'r secret_world
   \<Rightarrow> (storage_error + unit) \<times> 'r secret_world" where
  "gcp_delete sha256 client project_id cache key w =
     (case remote (gc_delete_secret client (gcp_secret_name sha256 project_id key)) w of
        (Inr _, w) \<Rightarrow> (Inr (), uncache_secret cache key w)
      | (Inl e, w) \<Rightarrow>
          if gcp_is_not_found e then (Inr (), uncache_secret cache key w)
          else (Inl (StorageBackend (''GCP secret delete failed for key '' @ quoted key @ '': '' @ ge_text e)), w))"

definition gcp_reachable ::
  "(string \<Rightarrow> string) \<Rightarrow> 'r gcp_client \<Rightarrow> string \<Rightarrow> 'r secret_world \<Rightarrow> (storage_error + unit) \<times> 'r secret_world" where
  "gcp_reachable sha256 client project_id w =
     (case remote (gc_get_secret client (gcp_secret_name sha256 project_id ''health-probe-do-not-create'')) w of
        (Inr _, w) \<Rightarrow> (Inr (), w)
      | (Inl e, w) \<Rightarrow>
          if gcp_is_not_found e then (Inr (), w)
          else (Inl (StorageBackend (''GCP Secret Manager readiness check failed: '' @ ge_text e)), w))"

definition gcp_storage ::
  "(string \<Rightarrow> string) \<Rightarrow> (string \<Rightarrow> string) \<Rightarrow> 'r gcp_client \<Rightarrow> string \<Rightarrow> 'r kept option \<Rightarrow> 'r secret_world storage" where
  "gcp_storage sha256 utf8_text client project_id cache =
     \<lparr>st_store = ensure_secret_and_add_version sha256 client project_id cache,
      st_load = gcp_load sha256 utf8_text client project_id cache,
      st_update = ensure_secret_and_add_version sha256 client project_id cache,
      st_delete = gcp_delete sha256 client project_id cache,
      st_reachable = gcp_reachable sha256 client project_id\<rparr>"

datatype gcp_credentials = GcpAmbient | GcpAnonymous | GcpServiceAccount string

text \<open>Which credentials the builder installs; \<open>service_account\<close> reads the key.\<close>

record gcp_builder =
  gb_project_id :: string
  gb_service_account_key :: "string option"
  gb_service_account_key_path :: "string option"
  gb_endpoint :: "string option"
  gb_allow_anonymous_credentials :: bool
  gb_secrets_cache_ttl :: nat

definition gcp_builder_credentials ::
  "(string \<Rightarrow> storage_error + string) \<Rightarrow> (string \<Rightarrow> string + string) \<Rightarrow> gcp_builder \<Rightarrow> storage_error + gcp_credentials" where
  "gcp_builder_credentials service_account read_to_string b =
     (if str_trim (gb_project_id b) = []
      then Inl (StorageBackend ''GCP Secret Manager configuration error: project_id must not be empty'')
      else if gb_allow_anonymous_credentials b then Inr GcpAnonymous
      else case gb_service_account_key b of
             Some key \<Rightarrow> map_sum id GcpServiceAccount (service_account key)
           | None \<Rightarrow>
               (case gb_service_account_key_path b of
                  Some path \<Rightarrow>
                    (case read_to_string path of
                       Inl e \<Rightarrow> Inl (StorageBackend (''failed to read GCP service account key file '' @ quoted path @ '': '' @ e))
                     | Inr contents \<Rightarrow> map_sum id GcpServiceAccount (service_account contents))
                | None \<Rightarrow> Inr GcpAmbient))"

text \<open>\<open>connect\<close> makes the client of the service for an endpoint and credentials.\<close>

definition gcp_build ::
  "(string \<Rightarrow> storage_error + string) \<Rightarrow> (string \<Rightarrow> string + string) \<Rightarrow> (string option \<Rightarrow> gcp_credentials \<Rightarrow> string + 'r gcp_client)
   \<Rightarrow> (nat \<Rightarrow> nat option \<Rightarrow> 'r kept) \<Rightarrow> gcp_builder \<Rightarrow> storage_error + 'r gcp_client \<times> string \<times> 'r kept option" where
  "gcp_build service_account read_to_string connect moka b =
     (case gcp_builder_credentials service_account read_to_string b of
        Inl e \<Rightarrow> Inl e
      | Inr credentials \<Rightarrow>
          (case connect (gb_endpoint b) credentials of
             Inl e \<Rightarrow> Inl (StorageBackend (''failed to create GCP Secret Manager client: '' @ e))
           | Inr client \<Rightarrow> Inr (client, gb_project_id b, secrets_cache moka (gb_secrets_cache_ttl b))))"

record 'c azure_builder =
  ab_vault_url :: string
  ab_tenant_id :: "string option"
  ab_client_id :: "string option"
  ab_client_secret :: "string option"
  ab_custom_credential :: "'c option"
  ab_verify_challenge_resource :: bool
  ab_secrets_cache_ttl :: nat

definition azure_builder_new :: "string \<Rightarrow> 'c azure_builder" where
  "azure_builder_new vault_url =
     \<lparr>ab_vault_url = vault_url, ab_tenant_id = None, ab_client_id = None, ab_client_secret = None, ab_custom_credential = None,
      ab_verify_challenge_resource = True, ab_secrets_cache_ttl = 300 * 10 ^ 9\<rparr>"

definition azure_builder_credential ::
  "(string \<Rightarrow> string \<Rightarrow> string \<Rightarrow> string + 'c) \<Rightarrow> (string + 'c) \<Rightarrow> 'c azure_builder \<Rightarrow> storage_error + 'c" where
  "azure_builder_credential client_secret_credential default_credential b =
     (case ab_custom_credential b of
        Some cred \<Rightarrow> Inr cred
      | None \<Rightarrow>
          (case (ab_tenant_id b, ab_client_id b, ab_client_secret b) of
             (Some tenant_id, Some client_id, Some client_secret) \<Rightarrow>
               map_sum (\<lambda>e. StorageBackend (''failed to create Azure ClientSecretCredential: '' @ e)) id
                 (client_secret_credential tenant_id client_id client_secret)
           | _ \<Rightarrow> map_sum (\<lambda>e. StorageBackend (''failed to create DefaultAzureCredential: '' @ e)) id default_credential))"

definition azure_build ::
  "(string \<Rightarrow> string \<Rightarrow> string \<Rightarrow> string + 'c) \<Rightarrow> (string + 'c) \<Rightarrow> (string \<Rightarrow> 'c \<Rightarrow> bool \<Rightarrow> string + 'r azure_client)
   \<Rightarrow> (nat \<Rightarrow> nat option \<Rightarrow> 'r kept) \<Rightarrow> 'c azure_builder \<Rightarrow> storage_error + 'r azure_client \<times> 'r kept option" where
  "azure_build client_secret_credential default_credential secret_client moka b =
     (case azure_builder_credential client_secret_credential default_credential b of
        Inl e \<Rightarrow> Inl e
      | Inr credential \<Rightarrow>
          (case secret_client (ab_vault_url b) credential (ab_verify_challenge_resource b) of
             Inl e \<Rightarrow> Inl (StorageBackend (''failed to create Azure SecretClient: '' @ e))
           | Inr client \<Rightarrow> Inr (client, secrets_cache moka (ab_secrets_cache_ttl b))))"

end
