(* ===== verification/Vault.thy ===== *)
theory Vault
  imports Secret_Stores Floats Config Http_Conditional
begin

text \<open>
  Model of \<open>src/src/outbound/vault.rs\<close>: the storage adapter of Vault and OpenBao. The HTTP client is
  the record \<open>vault_http\<close>: a request is sent as a whole and answered with a status and what the
  decoders make of the body. Token management is a process over \<open>vault_tokens\<close>, one step per lock
  taken, so that concurrent requests can be interleaved; the mutex is a counter that the bound
  \<open>one_holder\<close> keeps at most 1, which disables the step that would take a mutex that is held. Time is
  in nanoseconds of the monotonic clock.
\<close>

section \<open>Paths\<close>

definition segment_char :: "char \<Rightarrow> bool" where
  "segment_char c \<longleftrightarrow> is_ascii_alphanumeric c \<or> c \<in> set ''-_.~!$&()*+,;=:@'' \<or> c = apostrophe"

definition encode_segment_byte :: "char \<Rightarrow> string" where
  "encode_segment_byte b =
     (if segment_char b then [b] else [CHR ''%'', hex_digit (of_char b div 16), hex_digit (of_char b mod 16)])"

definition encode_path_segment :: "string \<Rightarrow> string" where
  "encode_path_segment segment = foldl (\<lambda>out b. out @ encode_segment_byte b) [] segment"

record vault_client =
  vk_addr :: string
  vk_mount :: string
  vk_path_prefix :: string
  vk_namespace :: "string option"

definition qualify_key :: "(string \<Rightarrow> string) \<Rightarrow> vault_client \<Rightarrow> string \<Rightarrow> string" where
  "qualify_key sha256 vc key =
     (let normalized = normalize_key sha256 key;
          raw = (if vk_path_prefix vc = [] then normalized
                 else if ends_with ''/'' (vk_path_prefix vc) then vk_path_prefix vc @ normalized
                 else vk_path_prefix vc @ ''/'' @ normalized)
      in str_join ''/'' (map encode_path_segment (split_on CHR ''/'' raw)))"

definition data_url :: "(string \<Rightarrow> string) \<Rightarrow> vault_client \<Rightarrow> string \<Rightarrow> string" where
  "data_url sha256 vc key =
     vk_addr vc @ ''/v1/'' @ encode_path_segment (vk_mount vc) @ ''/data/'' @ qualify_key sha256 vc key"

definition metadata_url :: "(string \<Rightarrow> string) \<Rightarrow> vault_client \<Rightarrow> string \<Rightarrow> string" where
  "metadata_url sha256 vc key =
     vk_addr vc @ ''/v1/'' @ encode_path_segment (vk_mount vc) @ ''/metadata/'' @ qualify_key sha256 vc key"

section \<open>Requests\<close>

datatype vault_method = VaultGet | VaultPost | VaultDelete

datatype vault_body = NoBody | AppRoleLogin string string | KubernetesLogin string string | KvEnvelope string

record vault_request =
  vq_method :: vault_method
  vq_url :: string
  vq_token :: "string option"
  vq_namespace :: "string option"
  vq_body :: vault_body

record auth_data =
  ad_client_token :: string
  ad_lease_duration :: nat
  ad_renewable :: bool

text \<open>The body of a response as each decoder reads it: \<open>LoginOrRenewResponse\<close>, \<open>KvReadResponse\<close>, text.\<close>

record vault_response =
  vr_status :: nat
  vr_auth :: "string + auth_data"
  vr_kv :: "string + string"
  vr_text :: string

record 'w vault_http =
  vh_send :: "vault_request \<Rightarrow> 'w \<Rightarrow> (string + vault_response) \<times> 'w"
  vh_read_to_string :: "string \<Rightarrow> 'w \<Rightarrow> (string + string) \<times> 'w"
  vh_now :: "'w \<Rightarrow> nat"
  vh_status_text :: "nat \<Rightarrow> string"
  vh_fmt_debug :: "string \<Rightarrow> string"

definition is_success :: "nat \<Rightarrow> bool" where
  "is_success status \<longleftrightarrow> 200 \<le> status \<and> status < 300"

section \<open>Login\<close>

datatype auth_backend =
    AppRoleBackend string string string
  | KubernetesBackend string string string

fun method_name :: "auth_backend \<Rightarrow> string" where
  "method_name (AppRoleBackend _ _ _) = ''approle''"
| "method_name (KubernetesBackend _ _ _) = ''kubernetes''"

fun backend_auth_mount :: "auth_backend \<Rightarrow> string" where
  "backend_auth_mount (AppRoleBackend _ _ auth_mount) = auth_mount"
| "backend_auth_mount (KubernetesBackend _ _ auth_mount) = auth_mount"

definition method_label :: "string \<Rightarrow> string" where
  "method_label m = (if m = ''approle'' then ''AppRole'' else if m = ''kubernetes'' then ''Kubernetes'' else m)"

type_synonym grant = "string \<times> nat \<times> bool"

text \<open>\<open>p.await?\<close> for results that are sums.\<close>

definition stry :: "('s, 'e + 'a) proc \<Rightarrow> ('a \<Rightarrow> ('s, 'e + 'b) proc) \<Rightarrow> ('s, 'e + 'b) proc" where
  "stry p k = pbind p (\<lambda>r. case r of Inl e \<Rightarrow> Ret (Inl e) | Inr x \<Rightarrow> k x)"

definition perform_login ::
  "'w vault_http \<Rightarrow> string \<Rightarrow> vault_body \<Rightarrow> string option \<Rightarrow> string \<Rightarrow> ('w, storage_error + grant) proc" where
  "perform_login http url body namespace m =
     pbind (call (vh_send http \<lparr>vq_method = VaultPost, vq_url = url, vq_token = None, vq_namespace = namespace, vq_body = body\<rparr>))
     (\<lambda>sent. Ret (case sent of
        Inl e \<Rightarrow> Inl (StorageBackend e)
      | Inr resp \<Rightarrow>
          let status = vr_status resp in
          if is_success status
          then (case vr_auth resp of
                  Inl e \<Rightarrow> Inl (StorageBackend e)
                | Inr auth \<Rightarrow> Inr (ad_client_token auth, ad_lease_duration auth, ad_renewable auth))
          else if status = 403
          then Inl (StorageBackend (''vault '' @ method_label m @ '' login denied (HTTP 403)''))
          else Inl (StorageBackend (''vault '' @ method_label m @ '' login failed: HTTP '' @ vh_status_text http status
                      @ '': '' @ vr_text resp))))"

definition login_body :: "'w vault_http \<Rightarrow> auth_backend \<Rightarrow> ('w, storage_error + vault_body) proc" where
  "login_body http backend =
     (case backend of
        AppRoleBackend role_id secret_id _ \<Rightarrow> Ret (Inr (AppRoleLogin role_id secret_id))
      | KubernetesBackend role token_path _ \<Rightarrow>
          pbind (call (vh_read_to_string http token_path)) (\<lambda>content. Ret (case content of
            Inl e \<Rightarrow> Inl (StorageBackend
                (''failed to read Kubernetes service account token from '' @ vh_fmt_debug http token_path @ '': '' @ e))
          | Inr token_content \<Rightarrow>
              let trimmed = str_trim token_content in
              if trimmed = []
              then Inl (StorageBackend (''Kubernetes service account token in '' @ vh_fmt_debug http token_path @ '' is empty''))
              else Inr (KubernetesLogin role trimmed))))"

definition backend_login ::
  "'w vault_http \<Rightarrow> string \<Rightarrow> string option \<Rightarrow> auth_backend \<Rightarrow> ('w, storage_error + grant) proc" where
  "backend_login http addr namespace backend =
     (let url = addr @ ''/v1/auth/'' @ encode_path_segment (backend_auth_mount backend) @ ''/login'' in
      stry (login_body http backend) (\<lambda>body. perform_login http url body namespace (method_name backend)))"

section \<open>The token manager\<close>

record 'w vault_tokens =
  tm_world :: 'w
  tm_token :: string
  tm_issued_at :: nat
  tm_lease_duration :: nat
  tm_renewable :: bool
  tm_renewal_lock :: nat
  tm_last_failure :: "nat option"

type_synonym ('w, 'a) vault_io = "('w vault_tokens, storage_error + 'a) proc"

definition one_holder :: "'w vault_tokens \<Rightarrow> bool" where
  "one_holder s \<longleftrightarrow> tm_renewal_lock s \<le> 1"

text \<open>A process on the world outside the manager.\<close>

primrec on_world :: "('w, 'a) proc \<Rightarrow> ('w vault_tokens, 'a) proc" where
  "on_world (Ret x) = Ret x"
| "on_world (Step f) = Step (\<lambda>s. map_prod id (\<lambda>w. s\<lparr>tm_world := w\<rparr>) (map_prod on_world id (f (tm_world s))))"

text \<open>The margin is the double precision number nearest to 0.8; \<open>Duration::from_secs_f64\<close> rounds to nanoseconds.\<close>

definition RENEW_MARGIN :: rat where
  "RENEW_MARGIN = float_round 53 (8 / 10)"

definition FAILURE_COOLDOWN :: nat where
  "FAILURE_COOLDOWN = 5 * 10 ^ 9"

definition safe_window :: "nat \<Rightarrow> nat" where
  "safe_window ttl =
     nat (round_half_even (float_round 53 (float_round 53 (of_nat ttl) * RENEW_MARGIN) * 10 ^ 9))"

definition token_manager_login ::
  "'w vault_http \<Rightarrow> string \<Rightarrow> auth_backend \<Rightarrow> string option \<Rightarrow> 'w \<Rightarrow> (storage_error + 'w vault_tokens) \<times> 'w" where
  "token_manager_login http addr backend namespace w =
     (case run (backend_login http addr namespace backend) w of
        (Inl e, w') \<Rightarrow> (Inl e, w')
      | (Inr (token, lease_duration, renewable), w') \<Rightarrow>
          (Inr \<lparr>tm_world = w', tm_token = token, tm_issued_at = vh_now http w', tm_lease_duration = lease_duration,
                tm_renewable = renewable, tm_renewal_lock = 0, tm_last_failure = None\<rparr>, w'))"

definition read_elapsed :: "'w vault_http \<Rightarrow> ('w vault_tokens, nat) proc" where
  "read_elapsed http = call (\<lambda>s. (vh_now http (tm_world s) - tm_issued_at s, s))"

definition read_now :: "'w vault_http \<Rightarrow> ('w vault_tokens, nat) proc" where
  "read_now http = call (\<lambda>s. (vh_now http (tm_world s), s))"

text \<open>The four fields of a new token, each under its own lock; the clock is read before the second.\<close>

definition install_token :: "'w vault_http \<Rightarrow> grant \<Rightarrow> ('w, unit) vault_io" where
  "install_token http g =
     (case g of (token, lease_duration, renewable) \<Rightarrow>
        pbind (call (\<lambda>s. ((), s\<lparr>tm_token := token\<rparr>))) (\<lambda>_.
        pbind (read_now http) (\<lambda>now.
        pbind (call (\<lambda>s. ((), s\<lparr>tm_issued_at := now\<rparr>))) (\<lambda>_.
        pbind (call (\<lambda>s. ((), s\<lparr>tm_lease_duration := lease_duration\<rparr>))) (\<lambda>_.
        pbind (call (\<lambda>s. ((), s\<lparr>tm_renewable := renewable\<rparr>))) (\<lambda>_. Ret (Inr ())))))))"

definition try_renew :: "'w vault_http \<Rightarrow> string \<Rightarrow> string option \<Rightarrow> ('w, unit) vault_io" where
  "try_renew http addr namespace =
     pbind (call (\<lambda>s. (tm_token s, s))) (\<lambda>token.
     pbind (on_world (call (vh_send http
       \<lparr>vq_method = VaultPost, vq_url = addr @ ''/v1/auth/token/renew-self'', vq_token = Some token,
        vq_namespace = namespace, vq_body = NoBody\<rparr>)))
     (\<lambda>sent. case sent of
        Inl e \<Rightarrow> Ret (Inl (StorageBackend e))
      | Inr resp \<Rightarrow>
          if is_success (vr_status resp)
          then (case vr_auth resp of
                  Inl e \<Rightarrow> Ret (Inl (StorageBackend e))
                | Inr auth \<Rightarrow> install_token http (ad_client_token auth, ad_lease_duration auth, ad_renewable auth))
          else Ret (Inl (StorageBackend
                 (''token renewal failed: HTTP '' @ vh_status_text http (vr_status resp) @ '': '' @ vr_text resp)))))"

definition re_login :: "'w vault_http \<Rightarrow> string \<Rightarrow> string option \<Rightarrow> auth_backend \<Rightarrow> ('w, unit) vault_io" where
  "re_login http addr namespace backend =
     stry (on_world (backend_login http addr namespace backend)) (install_token http)"

definition set_last_failure :: "nat option \<Rightarrow> ('w vault_tokens, unit) proc" where
  "set_last_failure f = call (\<lambda>s. ((), s\<lparr>tm_last_failure := f\<rparr>))"

definition login_again :: "'w vault_http \<Rightarrow> string \<Rightarrow> string option \<Rightarrow> auth_backend \<Rightarrow> ('w, unit) vault_io" where
  "login_again http addr namespace backend =
     pbind (re_login http addr namespace backend) (\<lambda>r. case r of
       Inr _ \<Rightarrow> pbind (set_last_failure None) (\<lambda>_. Ret (Inr ()))
     | Inl e \<Rightarrow> pbind (read_now http) (\<lambda>now. pbind (set_last_failure (Some now)) (\<lambda>_. Ret (Inl e))))"

definition renew_token :: "'w vault_http \<Rightarrow> string \<Rightarrow> string option \<Rightarrow> auth_backend \<Rightarrow> ('w, unit) vault_io" where
  "renew_token http addr namespace backend =
     pbind (call (\<lambda>s. (tm_renewable s, s))) (\<lambda>renewable.
       if renewable
       then pbind (try_renew http addr namespace) (\<lambda>r. case r of
              Inr _ \<Rightarrow> pbind (set_last_failure None) (\<lambda>_. Ret (Inr ()))
            | Inl _ \<Rightarrow> login_again http addr namespace backend)
       else login_again http addr namespace backend)"

text \<open>The check of the token; \<open>k\<close> is what follows when it is not in its safe window.\<close>

definition unless_safe :: "'w vault_http \<Rightarrow> ('w, unit) vault_io \<Rightarrow> ('w, unit) vault_io" where
  "unless_safe http k =
     pbind (read_elapsed http) (\<lambda>elapsed.
     pbind (call (\<lambda>s. (tm_lease_duration s, s))) (\<lambda>ttl.
       if ttl = 0 \<or> elapsed < safe_window ttl then Ret (Inr ()) else k))"

definition unless_cooling :: "'w vault_http \<Rightarrow> ('w, unit) vault_io \<Rightarrow> ('w, unit) vault_io" where
  "unless_cooling http k =
     pbind (call (\<lambda>s. (case tm_last_failure s of
         None \<Rightarrow> False
       | Some last_fail \<Rightarrow> vh_now http (tm_world s) - last_fail < FAILURE_COOLDOWN, s)))
     (\<lambda>cooling. if cooling
        then Ret (Inl (StorageBackend ''vault authentication in cooldown backoff after recent failure''))
        else k)"

definition with_renewal_lock :: "('w vault_tokens, 'a) proc \<Rightarrow> ('w vault_tokens, 'a) proc" where
  "with_renewal_lock p =
     pbind (call (\<lambda>s. ((), s\<lparr>tm_renewal_lock := tm_renewal_lock s + 1\<rparr>))) (\<lambda>_.
     pbind p (\<lambda>r.
     pbind (call (\<lambda>s. ((), s\<lparr>tm_renewal_lock := tm_renewal_lock s - 1\<rparr>))) (\<lambda>_. Ret r)))"

definition ensure_valid :: "'w vault_http \<Rightarrow> string \<Rightarrow> string option \<Rightarrow> auth_backend \<Rightarrow> ('w, unit) vault_io" where
  "ensure_valid http addr namespace backend =
     unless_safe http (with_renewal_lock (unless_safe http (unless_cooling http (renew_token http addr namespace backend))))"

section \<open>The storage trait\<close>

text \<open>\<open>add_auth_headers\<close> followed by \<open>send\<close>.\<close>

definition send_authorized ::
  "'w vault_http \<Rightarrow> vault_client \<Rightarrow> auth_backend \<Rightarrow> vault_method \<Rightarrow> string \<Rightarrow> vault_body
   \<Rightarrow> 'w vault_tokens secret_world \<Rightarrow> (storage_error + vault_response) \<times> 'w vault_tokens secret_world" where
  "send_authorized http vc backend m url body =
     wtry (remote (run (ensure_valid http (vk_addr vc) (vk_namespace vc) backend))) (\<lambda>_.
     wtry (remote (\<lambda>s. (Inr (tm_token s), s))) (\<lambda>token.
     wmap_err StorageBackend (remote (run (on_world (call (vh_send http
       \<lparr>vq_method = m, vq_url = url, vq_token = Some token, vq_namespace = vk_namespace vc, vq_body = body\<rparr>)))))))"

definition vault_refused :: "'w vault_http \<Rightarrow> string \<Rightarrow> string \<Rightarrow> nat \<Rightarrow> storage_error" where
  "vault_refused http operation path status =
     StorageBackend (if status = 403 then ''vault access denied for '' @ path
       else ''vault '' @ operation @ '' failed for '' @ path @ '': HTTP '' @ vh_status_text http status)"

definition vault_store ::
  "(string \<Rightarrow> string) \<Rightarrow> 'w vault_http \<Rightarrow> vault_client \<Rightarrow> auth_backend \<Rightarrow> 'w vault_tokens kept option \<Rightarrow> string \<Rightarrow> string
   \<Rightarrow> 'w vault_tokens secret_world \<Rightarrow> (storage_error + unit) \<times> 'w vault_tokens secret_world" where
  "vault_store sha256 http vc backend cache key v =
     wtry (send_authorized http vc backend VaultPost (data_url sha256 vc key) (KvEnvelope v)) (\<lambda>resp w.
       let status = vr_status resp in
       if is_success status then (Inr (), cache_secret cache key v w)
       else (Inl (vault_refused http ''store'' (''path '' @ quoted (qualify_key sha256 vc key)) status), w))"

definition vault_load ::
  "(string \<Rightarrow> string) \<Rightarrow> 'w vault_http \<Rightarrow> vault_client \<Rightarrow> auth_backend \<Rightarrow> 'w vault_tokens kept option \<Rightarrow> string
   \<Rightarrow> 'w vault_tokens secret_world \<Rightarrow> (storage_error + string option) \<times> 'w vault_tokens secret_world" where
  "vault_load sha256 http vc backend cache key w =
     (case cached_secret cache key w of
        Some v \<Rightarrow> (Inr (Some v), w)
      | None \<Rightarrow>
          wtry (send_authorized http vc backend VaultGet (data_url sha256 vc key) NoBody) (\<lambda>resp w.
            let status = vr_status resp in
            if status = 200
            then (case vr_kv resp of
                    Inl e \<Rightarrow> (Inl (StorageBackend e), w)
                  | Inr secret_value \<Rightarrow> (Inr (Some secret_value), cache_secret cache key secret_value w))
            else if status = 404 then (Inr None, w)
            else (Inl (vault_refused http ''load'' (''path '' @ quoted (qualify_key sha256 vc key)) status), w)) w)"

definition vault_delete ::
  "(string \<Rightarrow> string) \<Rightarrow> 'w vault_http \<Rightarrow> vault_client \<Rightarrow> auth_backend \<Rightarrow> 'w vault_tokens kept option \<Rightarrow> string
   \<Rightarrow> 'w vault_tokens secret_world \<Rightarrow> (storage_error + unit) \<times> 'w vault_tokens secret_world" where
  "vault_delete sha256 http vc backend cache key =
     wtry (send_authorized http vc backend VaultDelete (metadata_url sha256 vc key) NoBody) (\<lambda>resp w.
       let status = vr_status resp in
       if is_success status \<or> status = 404 then (Inr (), uncache_secret cache key w)
       else (Inl (vault_refused http ''delete'' (''path '' @ quoted (qualify_key sha256 vc key)) status), w))"

definition vault_reachable ::
  "'w vault_http \<Rightarrow> vault_client \<Rightarrow> auth_backend
   \<Rightarrow> 'w vault_tokens secret_world \<Rightarrow> (storage_error + unit) \<times> 'w vault_tokens secret_world" where
  "vault_reachable http vc backend =
     wtry (send_authorized http vc backend VaultGet
             (vk_addr vc @ ''/v1/'' @ encode_path_segment (vk_mount vc) @ ''/config'') NoBody) (\<lambda>resp w.
       let status = vr_status resp in
       if is_success status then (Inr (), w)
       else (Inl (vault_refused http ''readiness check'' (''mount '' @ quoted (vk_mount vc)) status), w))"

definition vault_storage ::
  "(string \<Rightarrow> string) \<Rightarrow> 'w vault_http \<Rightarrow> vault_client \<Rightarrow> auth_backend \<Rightarrow> 'w vault_tokens kept option
   \<Rightarrow> 'w vault_tokens secret_world storage" where
  "vault_storage sha256 http vc backend cache =
     \<lparr>st_store = vault_store sha256 http vc backend cache, st_load = vault_load sha256 http vc backend cache,
      st_update = default_update (vault_store sha256 http vc backend cache),
      st_delete = vault_delete sha256 http vc backend cache, st_reachable = vault_reachable http vc backend\<rparr>"

section \<open>The builder\<close>

datatype auth_config = AppRoleConfig string string | KubernetesConfig string string

record vault_builder =
  vb_addr :: string
  vb_auth :: auth_config
  vb_auth_mount :: "string option"
  vb_mount :: string
  vb_path_prefix :: string
  vb_namespace :: "string option"
  vb_secrets_cache_ttl :: nat
  vb_timeout :: nat

definition vault_builder_new :: "string \<Rightarrow> auth_config \<Rightarrow> vault_builder" where
  "vault_builder_new addr auth =
     \<lparr>vb_addr = addr, vb_auth = auth, vb_auth_mount = None, vb_mount = ''secret'', vb_path_prefix = [],
      vb_namespace = None, vb_secrets_cache_ttl = 300 * 10 ^ 9, vb_timeout = 30 * 10 ^ 9\<rparr>"

definition vault_builder_approle :: "string \<Rightarrow> string \<Rightarrow> string \<Rightarrow> vault_builder" where
  "vault_builder_approle addr role_id secret_id = vault_builder_new addr (AppRoleConfig role_id secret_id)"

definition vault_builder_kubernetes :: "string \<Rightarrow> string \<Rightarrow> string \<Rightarrow> vault_builder" where
  "vault_builder_kubernetes addr role token_path = vault_builder_new addr (KubernetesConfig role token_path)"

definition vault_config_error :: "string \<Rightarrow> storage_error" where
  "vault_config_error e = StorageBackend (''Vault configuration error: '' @ e)"

definition builder_auth_mount :: "vault_builder \<Rightarrow> string" where
  "builder_auth_mount b =
     (case vb_auth_mount b of
        Some m \<Rightarrow> str_trim m
      | None \<Rightarrow> (case vb_auth b of AppRoleConfig _ _ \<Rightarrow> ''approle'' | KubernetesConfig _ _ \<Rightarrow> ''kubernetes''))"

definition builder_backend :: "auth_config \<Rightarrow> string \<Rightarrow> storage_error + auth_backend" where
  "builder_backend auth auth_mount =
     (case auth of
        AppRoleConfig role_id secret_id \<Rightarrow>
          let role_id = str_trim role_id in
          if role_id = [] then Inl (vault_config_error ''role_id must not be empty'')
          else if str_trim secret_id = [] then Inl (vault_config_error ''secret_id must not be empty'')
          else Inr (AppRoleBackend role_id secret_id auth_mount)
      | KubernetesConfig role token_path \<Rightarrow>
          let role = str_trim role in
          if role = [] then Inl (vault_config_error ''role must not be empty'')
          else Inr (KubernetesBackend role token_path auth_mount))"

text \<open>
  \<open>url_parse\<close> is the URL parser, \<open>client_build\<close> makes the HTTP client with a timeout, \<open>moka\<close> a cache.
\<close>

definition vault_build ::
  "(string \<Rightarrow> string + unit) \<Rightarrow> (nat \<Rightarrow> string + 'w vault_http) \<Rightarrow> (nat \<Rightarrow> nat option \<Rightarrow> 'w vault_tokens kept) \<Rightarrow> vault_builder
   \<Rightarrow> 'w \<Rightarrow> (storage_error + vault_client \<times> auth_backend \<times> 'w vault_tokens kept option \<times> 'w vault_tokens) \<times> 'w" where
  "vault_build url_parse client_build moka b w =
     (let addr = trim_end_matches CHR ''/'' (str_trim (vb_addr b));
          mount = str_trim (vb_mount b);
          path_prefix = str_trim (vb_path_prefix b);
          auth_mount = builder_auth_mount b in
      if addr = [] then (Inl (vault_config_error ''address must not be empty''), w)
      else case url_parse addr of
        Inl e \<Rightarrow> (Inl (vault_config_error (''invalid address: '' @ e)), w)
      | Inr _ \<Rightarrow>
          if mount = [] then (Inl (vault_config_error ''mount path must not be empty''), w)
          else if auth_mount = [] then (Inl (vault_config_error ''auth_mount must not be empty''), w)
          else case builder_backend (vb_auth b) auth_mount of
            Inl e \<Rightarrow> (Inl e, w)
          | Inr backend \<Rightarrow>
              (case client_build (vb_timeout b) of
                 Inl e \<Rightarrow> (Inl (StorageBackend e), w)
               | Inr http \<Rightarrow>
                   (case token_manager_login http addr backend (vb_namespace b) w of
                      (Inl e, w') \<Rightarrow> (Inl e, w')
                    | (Inr auth, w') \<Rightarrow>
                        (Inr (\<lparr>vk_addr = addr, vk_mount = mount, vk_path_prefix = path_prefix, vk_namespace = vb_namespace b\<rparr>,
                              backend, secrets_cache moka (vb_secrets_cache_ttl b), auth), w'))))"

end
