(* ===== verification/Secret_Stores_Spec.thy ===== *)
theory Secret_Stores_Spec
  imports Secret_Stores
begin

text \<open>
  What the adapters of the secret services make of services that behave as documented. The Google
  adapter meets the contract of the storage trait; the AWS adapter does not, because storing under a
  name that is taken or scheduled for deletion reports success and stores nothing; the Azure adapter
  can bring a deleted value back.
\<close>

section \<open>Caches in front of a service\<close>

text \<open>
  \<open>definite\<close>: an error answer of the service means that the write was not done. Without it, a cache
  could keep a value that a failed write has replaced.
\<close>

definition coherent :: "(string \<Rightarrow> bool) \<Rightarrow> ('r \<Rightarrow> (string \<rightharpoonup> string)) \<Rightarrow> 'r secret_world \<Rightarrow> bool" where
  "coherent normal secrets w \<longleftrightarrow>
     (\<forall>k v. normal k \<longrightarrow> sw_cache w k = Some v \<longrightarrow> secrets (sw_remote w) k = Some v)"

definition adapter_ok ::
  "(string \<Rightarrow> bool) \<Rightarrow> ('r \<Rightarrow> (string \<rightharpoonup> string)) \<Rightarrow> ('r \<Rightarrow> bool) \<Rightarrow> 'r kept option \<Rightarrow> 'r secret_world \<Rightarrow> bool" where
  "adapter_ok normal secrets rok cache w \<longleftrightarrow>
     rok (sw_remote w) \<and> (cache \<noteq> None \<longrightarrow> coherent normal secrets w)"

text \<open>The outcome of a write of \<open>new\<close> under \<open>key\<close>.\<close>

definition written :: "bool \<Rightarrow> 'e + 'a \<Rightarrow> (string \<rightharpoonup> string) \<Rightarrow> string \<Rightarrow> string option \<Rightarrow> (string \<rightharpoonup> string) \<Rightarrow> bool" where
  "written definite r m key new m' \<longleftrightarrow>
     (case r of Inr _ \<Rightarrow> m' = m(key := new) | Inl _ \<Rightarrow> m' = m \<or> \<not> definite \<and> m' = m(key := new))"

lemma cached_secret_coherent:
  assumes "adapter_ok normal secrets rok cache w" "normal key" "cached_secret cache key w = Some v"
  shows "secrets (sw_remote w) key = Some v"
  using assms by (auto simp: cached_secret_def adapter_ok_def coherent_def split: option.splits if_splits)

lemma cache_secret_ok:
  assumes "rok x" "normal key" "secrets x key = Some v"
    and "cache \<noteq> None \<Longrightarrow> \<forall>k u. normal k \<longrightarrow> k \<noteq> key \<longrightarrow> sw_cache w k = Some u \<longrightarrow> secrets x k = Some u"
  shows "adapter_ok normal secrets rok cache (cache_secret cache key v (w\<lparr>sw_remote := x\<rparr>))"
  using assms by (cases cache) (auto simp: adapter_ok_def coherent_def cache_secret_def)

lemma uncache_secret_ok:
  assumes "rok x"
    and "cache \<noteq> None \<Longrightarrow> \<forall>k u. normal k \<longrightarrow> k \<noteq> key \<longrightarrow> sw_cache w k = Some u \<longrightarrow> secrets x k = Some u"
  shows "adapter_ok normal secrets rok cache (uncache_secret cache key (w\<lparr>sw_remote := x\<rparr>))"
  using assms by (cases cache) (auto simp: adapter_ok_def coherent_def uncache_secret_def)

lemma failed_write_ok:
  assumes "adapter_ok normal secrets rok cache w" "rok x" "cache = None \<or> definite"
    and "secrets x = secrets (sw_remote w) \<or> \<not> definite \<and> m"
  shows "adapter_ok normal secrets rok cache (w\<lparr>sw_remote := x\<rparr>)"
  using assms by (auto simp: adapter_ok_def coherent_def)

lemma remote_of_cached [simp]:
  "sw_remote (cache_secret cache key v w) = sw_remote w" "sw_remote (uncache_secret cache key w) = sw_remote w"
  by (simp_all add: cache_secret_def uncache_secret_def split: option.splits)

text \<open>
  An adapter in terms of what its calls do to the secrets of the service: this is what every adapter
  has to establish to meet the contract.
\<close>

locale adapter_laws =
  fixes st :: "'r secret_world storage" and normal :: "string \<Rightarrow> bool" and secrets :: "'r \<Rightarrow> (string \<rightharpoonup> string)"
    and rok :: "'r \<Rightarrow> bool" and cache :: "'r kept option" and definite :: bool
  assumes cache_definite: "cache = None \<or> definite"
    and store_law: "\<And>key v w r w'. rok (sw_remote w) \<Longrightarrow> normal key \<Longrightarrow> st_store st key v w = (r, w') \<Longrightarrow>
      rok (sw_remote w') \<and> written definite r (secrets (sw_remote w)) key (Some v) (secrets (sw_remote w'))
      \<and> sw_cache w' = (if cache \<noteq> None \<and> \<not> isl r then (sw_cache w)(key \<mapsto> v) else sw_cache w)"
    and update_law: "\<And>key v w r w'. rok (sw_remote w) \<Longrightarrow> normal key \<Longrightarrow> st_update st key v w = (r, w') \<Longrightarrow>
      rok (sw_remote w') \<and> written definite r (secrets (sw_remote w)) key (Some v) (secrets (sw_remote w'))
      \<and> sw_cache w' = (if cache \<noteq> None \<and> \<not> isl r then (sw_cache w)(key \<mapsto> v) else sw_cache w)"
    and delete_law: "\<And>key w r w'. rok (sw_remote w) \<Longrightarrow> normal key \<Longrightarrow> st_delete st key w = (r, w') \<Longrightarrow>
      rok (sw_remote w') \<and> written definite r (secrets (sw_remote w)) key None (secrets (sw_remote w'))
      \<and> sw_cache w' = (if cache \<noteq> None \<and> \<not> isl r then (sw_cache w)(key := None) else sw_cache w)"
    and load_law: "\<And>key w r w'. rok (sw_remote w) \<Longrightarrow> normal key \<Longrightarrow> st_load st key w = (r, w') \<Longrightarrow>
      (case cached_secret cache key w of
         Some v \<Rightarrow> r = Inr (Some v) \<and> w' = w
       | None \<Rightarrow> rok (sw_remote w') \<and> secrets (sw_remote w') = secrets (sw_remote w)
           \<and> (\<forall>x. r = Inr x \<longrightarrow> x = secrets (sw_remote w) key)
           \<and> sw_cache w' = (case r of Inr (Some v) \<Rightarrow> if cache \<noteq> None then (sw_cache w)(key \<mapsto> v) else sw_cache w
                             | _ \<Rightarrow> sw_cache w))"
begin

lemma adapter_meets_contract:
  "storage_contract st normal (\<lambda>w. secrets (sw_remote w)) (adapter_ok normal secrets rok cache)"
proof unfold_locales
  fix key v w r w'
  assume ok: "adapter_ok normal secrets rok cache w" and n: "normal key"
  then have rok: "rok (sw_remote w)" by (simp add: adapter_ok_def)
  have w: "adapter_ok normal secrets rok cache w' \<and> secrets (sw_remote w') \<in> {secrets (sw_remote w), (secrets (sw_remote w))(key := new)}"
    if "rok (sw_remote w') \<and> written definite r (secrets (sw_remote w)) key new (secrets (sw_remote w'))
      \<and> sw_cache w' = (if cache \<noteq> None \<and> \<not> isl r then (sw_cache w)(key := new) else sw_cache w)" for r :: "storage_error + unit" and new
    using that ok cache_definite by (cases r) (auto simp: adapter_ok_def coherent_def written_def split: if_splits)
  show "st_store st key v w = (r, w') \<Longrightarrow> adapter_ok normal secrets rok cache w' \<and> secrets (sw_remote w') \<in> {secrets (sw_remote w), (secrets (sw_remote w))(key \<mapsto> v)}"
    "st_update st key v w = (r, w') \<Longrightarrow> adapter_ok normal secrets rok cache w' \<and> secrets (sw_remote w') \<in> {secrets (sw_remote w), (secrets (sw_remote w))(key \<mapsto> v)}"
    "st_delete st key w = (r, w') \<Longrightarrow> adapter_ok normal secrets rok cache w' \<and> secrets (sw_remote w') \<in> {secrets (sw_remote w), (secrets (sw_remote w))(key := None)}"
    using store_law [OF rok n] update_law [OF rok n] delete_law [OF rok n] w by blast+
next
  fix key w and r :: "storage_error + string option" and w'
  assume ok: "adapter_ok normal secrets rok cache w" and n: "normal key" and l: "st_load st key w = (r, w')"
  then have rok: "rok (sw_remote w)" by (simp add: adapter_ok_def)
  show "adapter_ok normal secrets rok cache w' \<and> secrets (sw_remote w') = secrets (sw_remote w) \<and> (\<forall>x. r = Inr x \<longrightarrow> x = secrets (sw_remote w) key)"
    using load_law [OF rok n l] ok n cached_secret_coherent [OF ok n]
    by (auto simp: adapter_ok_def coherent_def split: option.splits sum.splits if_splits)
next
  fix key v and w w' :: "'r secret_world"
  assume ok: "adapter_ok normal secrets rok cache w" and n: "normal key"
  then have rok: "rok (sw_remote w)" by (simp add: adapter_ok_def)
  have w: "secrets (sw_remote w') = (secrets (sw_remote w))(key := new)"
    if "rok (sw_remote w') \<and> written definite (Inr ()) (secrets (sw_remote w)) key new (secrets (sw_remote w')) \<and> C" for C new
    using that by (simp add: written_def)
  show "st_store st key v w = (Inr (), w') \<Longrightarrow> secrets (sw_remote w') = (secrets (sw_remote w))(key \<mapsto> v)"
    by (rule w [OF store_law [OF rok n]])
  show "st_update st key v w = (Inr (), w') \<Longrightarrow> secrets (sw_remote w') = (secrets (sw_remote w))(key \<mapsto> v)"
    by (rule w [OF update_law [OF rok n]])
  show "secrets (sw_remote w') key = None" if d: "st_delete st key w = (Inr (), w')"
    using w [OF delete_law [OF rok n d]] by simp
qed

end

section \<open>Google Secret Manager\<close>

text \<open>
  The documented behaviour of the service, by full name of a secret: no secret, a secret without a
  version, or the value of its latest version. A version can only be added to a secret that exists,
  creating takes a free name, a call that answers \<open>NOT_FOUND\<close> or \<open>ALREADY_EXISTS\<close> has changed
  nothing. Any other failed write may have been done unless failures are \<open>definite\<close>.
\<close>

type_synonym 'r gcp_view = "'r \<Rightarrow> string \<rightharpoonup> string option"

definition gcp_add_ok :: "bool \<Rightarrow> 'r gcp_client \<Rightarrow> 'r gcp_view \<Rightarrow> ('r \<Rightarrow> bool) \<Rightarrow> bool" where
  "gcp_add_ok definite client view rok \<longleftrightarrow>
     (\<forall>n v x r x'. rok x \<longrightarrow> gc_add_secret_version client n v x = (r, x') \<longrightarrow> rok x' \<and>
        (case r of
           Inr _ \<Rightarrow> view x n \<noteq> None \<and> view x' = (view x)(n \<mapsto> Some v)
         | Inl e \<Rightarrow>
             if gcp_is_not_found e then view x n = None \<and> view x' = view x
             else view x' = view x \<or> \<not> definite \<and> view x' = (view x)(n \<mapsto> Some v)))"

definition gcp_create_ok :: "bool \<Rightarrow> 'r gcp_client \<Rightarrow> 'r gcp_view \<Rightarrow> ('r \<Rightarrow> bool) \<Rightarrow> bool" where
  "gcp_create_ok definite client view rok \<longleftrightarrow>
     (\<forall>parent i x r x'. rok x \<longrightarrow> gc_create_secret client parent i x = (r, x') \<longrightarrow> rok x' \<and>
        (case r of
           Inr _ \<Rightarrow> view x (parent @ ''/secrets/'' @ i) = None \<and> view x' = (view x)(parent @ ''/secrets/'' @ i \<mapsto> None)
         | Inl e \<Rightarrow>
             view x' = view x \<or> \<not> gcp_is_already_exists e
               \<and> view x (parent @ ''/secrets/'' @ i) = None \<and> view x' = (view x)(parent @ ''/secrets/'' @ i \<mapsto> None)))"

definition gcp_access_ok :: "'r gcp_client \<Rightarrow> 'r gcp_view \<Rightarrow> ('r \<Rightarrow> bool) \<Rightarrow> bool" where
  "gcp_access_ok client view rok \<longleftrightarrow>
     (\<forall>n x r x'. rok x \<longrightarrow> gc_access_secret_version client (n @ ''/versions/latest'') x = (r, x') \<longrightarrow>
        rok x' \<and> view x' = view x \<and>
        (case r of
           Inr (Some v) \<Rightarrow> view x n = Some (Some v)
         | Inr None \<Rightarrow> True
         | Inl e \<Rightarrow> gcp_is_not_found e \<longrightarrow> view x n \<in> {None, Some None}))"

definition gcp_delete_ok :: "bool \<Rightarrow> 'r gcp_client \<Rightarrow> 'r gcp_view \<Rightarrow> ('r \<Rightarrow> bool) \<Rightarrow> bool" where
  "gcp_delete_ok definite client view rok \<longleftrightarrow>
     (\<forall>n x r x'. rok x \<longrightarrow> gc_delete_secret client n x = (r, x') \<longrightarrow> rok x' \<and>
        (case r of
           Inr _ \<Rightarrow> view x' = (view x)(n := None)
         | Inl e \<Rightarrow>
             if gcp_is_not_found e then view x n = None \<and> view x' = view x
             else view x' = view x \<or> \<not> definite \<and> view x' = (view x)(n := None)))"

definition gcp_service_ok :: "bool \<Rightarrow> 'r gcp_client \<Rightarrow> 'r gcp_view \<Rightarrow> ('r \<Rightarrow> bool) \<Rightarrow> bool" where
  "gcp_service_ok definite client view rok \<longleftrightarrow>
     gcp_add_ok definite client view rok \<and> gcp_create_ok definite client view rok
     \<and> gcp_access_ok client view rok \<and> gcp_delete_ok definite client view rok"

text \<open>What the adapter keeps under a key: the latest version of the secret of that name.\<close>

definition gcp_secrets ::
  "(string \<Rightarrow> string) \<Rightarrow> string \<Rightarrow> 'r gcp_view \<Rightarrow> 'r \<Rightarrow> (string \<rightharpoonup> string)" where
  "gcp_secrets sha256 project_id view x k =
     (if normal_key sha256 k then case_option None id (view x (gcp_secret_name sha256 project_id k)) else None)"

lemma gcp_secret_name_inj:
  "normal_key sha256 k \<Longrightarrow> normal_key sha256 l \<Longrightarrow>
   gcp_secret_name sha256 p k = gcp_secret_name sha256 p l \<longleftrightarrow> k = l"
  by (simp add: gcp_secret_name_def normal_key_def)

lemma gcp_secrets_upd:
  assumes "normal_key sha256 k"
  shows "view x' = (view x)(gcp_secret_name sha256 p k := u) \<Longrightarrow>
    gcp_secrets sha256 p view x' = (gcp_secrets sha256 p view x)(k := case_option None id u)"
  using assms by (auto simp: gcp_secrets_def fun_eq_iff gcp_secret_name_inj)

lemma gcp_secrets_cong: "view x' = view x \<Longrightarrow> gcp_secrets sha256 p view x' = gcp_secrets sha256 p view x"
  by (simp add: gcp_secrets_def fun_eq_iff)

lemma gcp_secrets_at:
  "normal_key sha256 k \<Longrightarrow> gcp_secrets sha256 p view x k = case_option None id (view x (gcp_secret_name sha256 p k))"
  by (simp add: gcp_secrets_def)

lemma gcp_add_step:
  assumes "gcp_add_ok definite client view rok" "rok x" "normal_key sha256 k"
    and "gc_add_secret_version client (gcp_secret_name sha256 p k) v x = (r, x')"
  shows "rok x' \<and> (case r of
      Inr _ \<Rightarrow> gcp_secrets sha256 p view x' = (gcp_secrets sha256 p view x)(k \<mapsto> v)
    | Inl e \<Rightarrow> gcp_secrets sha256 p view x' = gcp_secrets sha256 p view x
        \<or> \<not> definite \<and> \<not> gcp_is_not_found e \<and> gcp_secrets sha256 p view x' = (gcp_secrets sha256 p view x)(k \<mapsto> v))"
proof -
  have "rok x' \<and> (case r of
      Inr _ \<Rightarrow> view x (gcp_secret_name sha256 p k) \<noteq> None \<and> view x' = (view x)(gcp_secret_name sha256 p k \<mapsto> Some v)
    | Inl e \<Rightarrow>
        if gcp_is_not_found e then view x (gcp_secret_name sha256 p k) = None \<and> view x' = view x
        else view x' = view x \<or> \<not> definite \<and> view x' = (view x)(gcp_secret_name sha256 p k \<mapsto> Some v))"
    using assms(1,2,4) unfolding gcp_add_ok_def by blast
  then show ?thesis
    using gcp_secrets_upd [OF assms(3), of view x' x p "Some (Some v)"] gcp_secrets_cong [of view x' x sha256 p]
    by (auto split: sum.splits if_splits)
qed

lemma gcp_create_step:
  assumes "gcp_create_ok definite client view rok" "rok x" "normal_key sha256 k"
    and "gc_create_secret client (gcp_project_parent p) (normalize_key sha256 k) x = (r, x')"
  shows "rok x' \<and> gcp_secrets sha256 p view x' = gcp_secrets sha256 p view x"
proof -
  have n: "gcp_project_parent p @ ''/secrets/'' @ normalize_key sha256 k = gcp_secret_name sha256 p k"
    by (simp add: gcp_project_parent_def gcp_secret_name_def)
  have same: "gcp_secrets sha256 p view x' = gcp_secrets sha256 p view x"
    if "view x (gcp_secret_name sha256 p k) = None" "view x' = (view x)(gcp_secret_name sha256 p k \<mapsto> None)"
    using gcp_secrets_upd [OF assms(3) that(2)] that(1) assms(3) by (auto simp: gcp_secrets_at fun_eq_iff)
  have "rok x' \<and> (case r of
      Inr _ \<Rightarrow> view x (gcp_secret_name sha256 p k) = None \<and> view x' = (view x)(gcp_secret_name sha256 p k \<mapsto> None)
    | Inl e \<Rightarrow> view x' = view x \<or> \<not> gcp_is_already_exists e
        \<and> view x (gcp_secret_name sha256 p k) = None \<and> view x' = (view x)(gcp_secret_name sha256 p k \<mapsto> None))"
    using assms(1,2,4) unfolding gcp_create_ok_def n [symmetric] by blast
  then show ?thesis using same gcp_secrets_cong [of view x' x sha256 p] by (auto split: sum.splits)
qed

lemma gcp_access_step:
  assumes "gcp_access_ok client view rok" "rok x" "normal_key sha256 k"
    and "gc_access_secret_version client (gcp_secret_version_name sha256 p k ''latest'') x = (r, x')"
  shows "rok x' \<and> gcp_secrets sha256 p view x' = gcp_secrets sha256 p view x
    \<and> (\<forall>v. r = Inr (Some v) \<longrightarrow> gcp_secrets sha256 p view x k = Some v)
    \<and> (\<forall>e. r = Inl e \<longrightarrow> gcp_is_not_found e \<longrightarrow> gcp_secrets sha256 p view x k = None)"
proof -
  have n: "gcp_secret_version_name sha256 p k ''latest'' = gcp_secret_name sha256 p k @ ''/versions/latest''"
    by (simp add: gcp_secret_version_name_def gcp_secret_name_def)
  have "rok x' \<and> view x' = view x \<and>
     (case r of Inr (Some v) \<Rightarrow> view x (gcp_secret_name sha256 p k) = Some (Some v) | Inr None \<Rightarrow> True
      | Inl e \<Rightarrow> gcp_is_not_found e \<longrightarrow> view x (gcp_secret_name sha256 p k) \<in> {None, Some None})"
    using assms(1,2,4) unfolding gcp_access_ok_def n by blast
  then show ?thesis
    using gcp_secrets_cong [of view x' x sha256 p] assms(3) by (auto simp: gcp_secrets_at)
qed

lemma gcp_delete_step:
  assumes "gcp_delete_ok definite client view rok" "rok x" "normal_key sha256 k"
    and "gc_delete_secret client (gcp_secret_name sha256 p k) x = (r, x')"
  shows "rok x' \<and> (case r of
      Inr _ \<Rightarrow> gcp_secrets sha256 p view x' = (gcp_secrets sha256 p view x)(k := None)
    | Inl e \<Rightarrow>
        if gcp_is_not_found e then gcp_secrets sha256 p view x' = (gcp_secrets sha256 p view x)(k := None)
        else gcp_secrets sha256 p view x' = gcp_secrets sha256 p view x
          \<or> \<not> definite \<and> gcp_secrets sha256 p view x' = (gcp_secrets sha256 p view x)(k := None))"
proof -
  have gone: "(gcp_secrets sha256 p view x)(k := None) = gcp_secrets sha256 p view x"
    if "view x (gcp_secret_name sha256 p k) = None"
    using that assms(3) by (auto simp: gcp_secrets_at fun_eq_iff)
  have "rok x' \<and> (case r of
      Inr _ \<Rightarrow> view x' = (view x)(gcp_secret_name sha256 p k := None)
    | Inl e \<Rightarrow> if gcp_is_not_found e then view x (gcp_secret_name sha256 p k) = None \<and> view x' = view x
        else view x' = view x \<or> \<not> definite \<and> view x' = (view x)(gcp_secret_name sha256 p k := None))"
    using assms(1,2,4) unfolding gcp_delete_ok_def by blast
  then show ?thesis
    using gcp_secrets_upd [OF assms(3), of view x' x p None] gcp_secrets_cong [of view x' x sha256 p] gone
    by (auto split: sum.splits if_splits)
qed

text \<open>The two attempts of a write, with the creation of the secret between them.\<close>

lemma gcp_write_law:
  assumes svc: "gcp_add_ok definite client view rok" "gcp_create_ok definite client view rok"
    and w: "rok (sw_remote w)" and n: "normal_key sha256 key"
    and run: "ensure_secret_and_add_version sha256 client project_id cache key v w = (r, w')"
  shows "rok (sw_remote w')
    \<and> written definite r (gcp_secrets sha256 project_id view (sw_remote w)) key (Some v)
        (gcp_secrets sha256 project_id view (sw_remote w'))
    \<and> sw_cache w' = (if cache \<noteq> None \<and> \<not> isl r then (sw_cache w)(key \<mapsto> v) else sw_cache w)"
proof -
  let ?name = "gcp_secret_name sha256 project_id key" and ?S = "gcp_secrets sha256 project_id view"
  obtain r1 x1 where one: "gc_add_secret_version client ?name v (sw_remote w) = (r1, x1)" by fastforce
  obtain r2 x2 where two: "gc_create_secret client (gcp_project_parent project_id) (normalize_key sha256 key) x1 = (r2, x2)"
    by fastforce
  obtain r3 x3 where three: "gc_add_secret_version client ?name v x2 = (r3, x3)" by fastforce
  note s1 = gcp_add_step [OF svc(1) w n one]
  have x1: "rok x1" using s1 by blast
  note s2 = gcp_create_step [OF svc(2) x1 n two]
  have x2: "rok x2" using s2 by blast
  note s3 = gcp_add_step [OF svc(1) x2 n three]
  show ?thesis
  proof (cases r1)
    case (Inr u)
    then show ?thesis using run one s1
      by (auto simp: ensure_secret_and_add_version_def remote_def written_def cache_secret_def split: option.splits)
  next
    case (Inl e)
    have S1: "?S x1 = ?S (sw_remote w)" if "gcp_is_not_found e" using s1 that Inl by simp
    show ?thesis
    proof (cases "gcp_is_not_found e \<and> (\<forall>err. r2 = Inl err \<longrightarrow> gcp_is_already_exists err)")
      case True
      then have "ensure_secret_and_add_version sha256 client project_id cache key v w =
          (case r3 of Inr _ \<Rightarrow> (Inr (), cache_secret cache key v (w\<lparr>sw_remote := x3\<rparr>))
           | Inl err \<Rightarrow> (Inl (StorageBackend (ge_text err)), w\<lparr>sw_remote := x3\<rparr>))"
        using one two three Inl
        by (cases r2; cases r3) (simp_all add: ensure_secret_and_add_version_def remote_def wtry_def wmap_err_def)
      then show ?thesis using run s2 s3 S1 True
        by (cases r3) (auto simp: written_def cache_secret_def split: option.splits)
    next
      case False
      then show ?thesis using run one two Inl s1 s2 S1
        by (cases r2) (auto simp: ensure_secret_and_add_version_def remote_def wtry_def written_def split: if_splits)
    qed
  qed
qed

lemma gcp_adapter_laws:
  fixes client :: "'r gcp_client"
  assumes svc: "gcp_service_ok definite client view rok" and c: "cache = None \<or> definite"
  shows "adapter_laws (gcp_storage sha256 utf8_text client project_id cache) (normal_key sha256)
    (gcp_secrets sha256 project_id view) rok cache definite"
proof unfold_locales
  note ok = svc [unfolded gcp_service_ok_def, THEN conjunct1]
    svc [unfolded gcp_service_ok_def, THEN conjunct2, THEN conjunct1]
    svc [unfolded gcp_service_ok_def, THEN conjunct2, THEN conjunct2, THEN conjunct1]
    svc [unfolded gcp_service_ok_def, THEN conjunct2, THEN conjunct2, THEN conjunct2]
  let ?S = "gcp_secrets sha256 project_id view" and ?st = "gcp_storage sha256 utf8_text client project_id cache"
  show "cache = None \<or> definite" by (fact c)
  fix key v and r :: "storage_error + unit" and w w' :: "'r secret_world"
  assume w: "rok (sw_remote w)" and n: "normal_key sha256 key"
  note add = gcp_write_law [OF ok(1,2) w n]
  show "st_store ?st key v w = (r, w') \<Longrightarrow>
      rok (sw_remote w') \<and> written definite r (?S (sw_remote w)) key (Some v) (?S (sw_remote w'))
      \<and> sw_cache w' = (if cache \<noteq> None \<and> \<not> isl r then (sw_cache w)(key \<mapsto> v) else sw_cache w)"
    by (rule add) (simp add: gcp_storage_def)
  show "st_update ?st key v w = (r, w') \<Longrightarrow>
      rok (sw_remote w') \<and> written definite r (?S (sw_remote w)) key (Some v) (?S (sw_remote w'))
      \<and> sw_cache w' = (if cache \<noteq> None \<and> \<not> isl r then (sw_cache w)(key \<mapsto> v) else sw_cache w)"
    by (rule add) (simp add: gcp_storage_def)
  obtain d x where d: "gc_delete_secret client (gcp_secret_name sha256 project_id key) (sw_remote w) = (d, x)" by fastforce
  show "rok (sw_remote w') \<and> written definite r (?S (sw_remote w)) key None (?S (sw_remote w'))
      \<and> sw_cache w' = (if cache \<noteq> None \<and> \<not> isl r then (sw_cache w)(key := None) else sw_cache w)"
    if "st_delete ?st key w = (r, w')"
    using that gcp_delete_step [OF ok(4) w n d] d
    by (cases d) (auto simp: gcp_storage_def gcp_delete_def remote_def written_def uncache_secret_def split: if_splits option.splits)
next
  let ?S = "gcp_secrets sha256 project_id view" and ?st = "gcp_storage sha256 utf8_text client project_id cache"
  fix key and r :: "storage_error + string option" and w w' :: "'r secret_world"
  assume w: "rok (sw_remote w)" and n: "normal_key sha256 key" and l: "st_load ?st key w = (r, w')"
  obtain d x where d: "gc_access_secret_version client (gcp_secret_version_name sha256 project_id key ''latest'') (sw_remote w) = (d, x)"
    by fastforce
  show "case cached_secret cache key w of
         Some v \<Rightarrow> r = Inr (Some v) \<and> w' = w
       | None \<Rightarrow> rok (sw_remote w') \<and> ?S (sw_remote w') = ?S (sw_remote w)
           \<and> (\<forall>x. r = Inr x \<longrightarrow> x = ?S (sw_remote w) key)
           \<and> sw_cache w' = (case r of Inr (Some v) \<Rightarrow> if cache \<noteq> None then (sw_cache w)(key \<mapsto> v) else sw_cache w
                             | _ \<Rightarrow> sw_cache w)"
    using l d gcp_access_step [OF svc [unfolded gcp_service_ok_def, THEN conjunct2, THEN conjunct2, THEN conjunct1] w n d]
    by (cases "cached_secret cache key w"; cases d)
      (auto simp: gcp_storage_def gcp_load_def remote_def cache_secret_def split: if_splits option.splits)
qed

text \<open>A small service that keeps to the documentation.\<close>

definition gcp_answer :: "nat \<Rightarrow> gcp_error" where
  "gcp_answer status = \<lparr>ge_http_status_code = Some status, ge_status = None, ge_text = ''refused''\<rparr>"

definition without_latest :: "string \<Rightarrow> string" where
  "without_latest n = take (length n - length ''/versions/latest'') n"

definition gcp_table :: "(string \<rightharpoonup> string option) gcp_client" where
  "gcp_table =
     \<lparr>gc_add_secret_version = (\<lambda>n v x. if x n = None then (Inl (gcp_answer 404), x) else (Inr (), x(n \<mapsto> Some v))),
      gc_create_secret = (\<lambda>parent i x. let n = parent @ ''/secrets/'' @ i in
        if x n = None then (Inr (), x(n \<mapsto> None)) else (Inl (gcp_answer 409), x)),
      gc_access_secret_version = (\<lambda>n x. case x (without_latest n) of
        Some (Some v) \<Rightarrow> (Inr (Some v), x) | _ \<Rightarrow> (Inl (gcp_answer 404), x)),
      gc_delete_secret = (\<lambda>n x. if x n = None then (Inl (gcp_answer 404), x) else (Inr (), x(n := None))),
      gc_get_secret = (\<lambda>n x. (if x n = None then Inl (gcp_answer 404) else Inr (), x))\<rparr>"

lemma gcp_table_ok: "gcp_service_ok definite gcp_table id (\<lambda>_. True)"
  by (auto simp: gcp_service_ok_def gcp_add_ok_def gcp_create_ok_def gcp_access_ok_def gcp_delete_ok_def gcp_table_def
      gcp_answer_def gcp_is_not_found_def gcp_is_already_exists_def without_latest_def Let_def split: option.splits if_splits)

interpretation gcp_backend: adapter_laws "gcp_storage sha256 utf8_text gcp_table project_id cache" "normal_key sha256"
  "gcp_secrets sha256 project_id id" "\<lambda>_. True" cache True
  for sha256 utf8_text project_id cache
  using gcp_table_ok by (rule gcp_adapter_laws) simp

section \<open>AWS Secrets Manager\<close>

text \<open>
  The service keeps a deleted secret for a recovery window: until it is purged, the name stays
  taken, \<open>DescribeSecret\<close> still answers with the secret, and reading or writing its value is refused.
\<close>

definition aws_table :: "(string \<rightharpoonup> string \<times> bool) aws_client" where
  "aws_table =
     \<lparr>aw_describe_secret = (\<lambda>n x. (if x n = None then Inl ResourceNotFound else Inr (), x)),
      aw_create_secret = (\<lambda>n v x. if x n = None then (Inr (), x(n \<mapsto> (v, False)))
        else (Inl (AwsFailure ''the secret exists or is scheduled for deletion''), x)),
      aw_get_secret_value = (\<lambda>n x. (case x n of
          None \<Rightarrow> Inl ResourceNotFound
        | Some (v, scheduled) \<Rightarrow> if scheduled then Inl (AwsFailure ''scheduled for deletion'') else Inr (Some v), x)),
      aw_put_secret_value = (\<lambda>n v x. case x n of
          None \<Rightarrow> (Inl ResourceNotFound, x)
        | Some (_, scheduled) \<Rightarrow>
            if scheduled then (Inl (AwsFailure ''scheduled for deletion''), x) else (Inr (), x(n \<mapsto> (v, False)))),
      aw_delete_secret = (\<lambda>n x. case x n of
          None \<Rightarrow> (Inl ResourceNotFound, x) | Some (v, _) \<Rightarrow> (Inr (), x(n \<mapsto> (v, True))))\<rparr>"

text \<open>
  A key that was deleted cannot be stored again: the adapter reports success, but the value is lost
  and later lookups fail. The renewal of the ACME account deletes and stores the same key this way.
\<close>

lemma aws_store_after_delete_is_lost:
  assumes "x (normalize_key sha256 k) = Some (v, b)"
  obtains w w' where "st_delete (aws_storage sha256 aws_table cache) k \<lparr>sw_remote = x, sw_cache = c\<rparr> = (Inr (), w)"
    and "st_store (aws_storage sha256 aws_table cache) k v' w = (Inr (), w')"
    and "fst (st_load (aws_storage sha256 aws_table cache) k w') = Inl (StorageBackend ''scheduled for deletion'')"
proof
  let ?w = "uncache_secret cache k \<lparr>sw_remote = x(normalize_key sha256 k \<mapsto> (v, True)), sw_cache = c\<rparr>"
  show "st_delete (aws_storage sha256 aws_table cache) k \<lparr>sw_remote = x, sw_cache = c\<rparr> = (Inr (), ?w)"
    using assms by (simp add: aws_storage_def aws_delete_def aws_table_def wtry_def wmap_err_def remote_def)
  show "st_store (aws_storage sha256 aws_table cache) k v' ?w = (Inr (), ?w)"
    by (simp add: aws_storage_def aws_store_def aws_table_def remote_def uncache_secret_def split: option.splits)
  show "fst (st_load (aws_storage sha256 aws_table cache) k ?w) = Inl (StorageBackend ''scheduled for deletion'')"
    by (simp add: aws_storage_def aws_load_def aws_table_def remote_def uncache_secret_def cached_secret_def
        split: option.splits)
qed

section \<open>Azure Key Vault\<close>

text \<open>
  A store that finds the name soft-deleted and recovers it can still fail; the recovered secret then
  has its old value. So a failed store may bring back what was deleted, which the frame of the
  storage contract excludes: here the service accepts no write during the ten attempts.
\<close>

definition azure_recovering :: "(string option \<times> bool) azure_client" where
  "azure_recovering =
     \<lparr>ak_parameters = (\<lambda>_. Inr ()),
      ak_set_secret = (\<lambda>_ _ x. (Inl \<lparr>ae_http_status = Some 409, ae_text = ''conflict''\<rparr>, x)),
      ak_recover_deleted_secret = (\<lambda>_ (v, deleted). (Inr (), (v, False))),
      ak_get_secret = (\<lambda>_ (v, deleted).
        (if deleted then Inl \<lparr>ae_http_status = Some 404, ae_text = ''not found''\<rparr> else Inr (Inr v), (v, deleted))),
      ak_delete_secret = (\<lambda>_ (v, deleted). (Inr (), (v, True))),
      ak_purge_deleted_secret = (\<lambda>_ x. (Inr (), x))\<rparr>"

lemma azure_set_loop_conflicts:
  "azure_set_loop azure_recovering key n v left w =
     (Inl (StorageBackend (''timeout waiting for Azure secret '' @ quoted key @ '' recovery to complete'')), w)"
  by (induction left) (simp_all add: azure_recovering_def azure_parameters_def remote_def)

lemma azure_failed_store_restores_old_value:
  fixes sha256 :: "string \<Rightarrow> string"
  defines "st \<equiv> azure_storage sha256 azure_recovering None"
  obtains w where "fst (st_load st k \<lparr>sw_remote = (Some old, True), sw_cache = c\<rparr>) = Inr None"
    and "st_store st k v \<lparr>sw_remote = (Some old, True), sw_cache = c\<rparr> =
      (Inl (StorageBackend (''timeout waiting for Azure secret '' @ quoted k @ '' recovery to complete'')), w)"
    and "fst (st_load st k w) = Inr (Some old)"
proof
  let ?w = "\<lparr>sw_remote = (Some old, False), sw_cache = c\<rparr>"
  show "fst (st_load st k \<lparr>sw_remote = (Some old, True), sw_cache = c\<rparr>) = Inr None" "fst (st_load st k ?w) = Inr (Some old)"
    by (simp_all add: st_def azure_storage_def azure_load_def cached_secret_def remote_def azure_recovering_def)
  have "ak_set_secret azure_recovering n v x = (Inl \<lparr>ae_http_status = Some 409, ae_text = ''conflict''\<rparr>, x)"
    "ak_recover_deleted_secret azure_recovering n (Some old, True) = (Inr (), (Some old, False))"
    "azure_parameters azure_recovering v = Inr ()" for n v x
    by (simp_all add: azure_recovering_def azure_parameters_def)
  then show "st_store st k v \<lparr>sw_remote = (Some old, True), sw_cache = c\<rparr> =
      (Inl (StorageBackend (''timeout waiting for Azure secret '' @ quoted k @ '' recovery to complete'')), ?w)"
    by (simp add: st_def azure_storage_def azure_store_def Let_def wtry_def wmap_err_def remote_def azure_set_loop_conflicts)
qed

end
