(* ===== verification/Vault_Spec.thy ===== *)
theory Vault_Spec
  imports Vault Secret_Stores_Spec Signing_Keys_Spec
begin

text \<open>
  What the Vault adapter guarantees: its paths, the window in which a token is used, and the contract
  of the storage trait on a server that keeps to its documentation.
\<close>

section \<open>The safe window of a token\<close>

lemma RENEW_MARGIN_value: "RENEW_MARGIN = 3602879701896397 / 4503599627370496"
  by code_simp

lemma safe_window_error:
  assumes "0 < ttl"
  shows "79 / 100 * (of_nat ttl * 10 ^ 9) \<le> (of_nat (safe_window ttl) :: rat)"
    and "of_nat (safe_window ttl) \<le> (81 / 100 * (of_nat ttl * 10 ^ 9) :: rat)"
proof -
  define x where "x = float_round 53 (of_nat ttl)"
  define y where "y = float_round 53 (x * RENEW_MARGIN)"
  have t: "(1 :: rat) \<le> of_nat ttl" using assms by simp
  have x: "\<bar>x - of_nat ttl\<bar> \<le> of_nat ttl / 9007199254740992"
    unfolding x_def using float_round_error [of "of_nat ttl" 53] t by simp
  have x0: "0 < x" unfolding x_def using t by (intro float_round_pos) auto
  have y: "\<bar>y - x * (3602879701896397 / 4503599627370496)\<bar> \<le> x * (3602879701896397 / 4503599627370496) / 9007199254740992"
    unfolding y_def using float_round_error [of "x * RENEW_MARGIN" 53] x0 by (simp add: RENEW_MARGIN_value)
  have r: "\<bar>of_int (round_half_even (y * 10 ^ 9)) - y * 1000000000\<bar> \<le> (1 / 2 :: rat)"
    using round_half_even_error [of "y * 10 ^ 9"] by simp
  have lo: "79 / 100 * (of_nat ttl * 1000000000) \<le> (of_int (round_half_even (y * 10 ^ 9)) :: rat)"
    using x y r t by linarith
  have hi: "of_int (round_half_even (y * 10 ^ 9)) \<le> (81 / 100 * (of_nat ttl * 1000000000) :: rat)"
    using x y r t by linarith
  have "0 \<le> (of_int (round_half_even (y * 10 ^ 9)) :: rat)" using lo t by linarith
  then have n: "of_nat (safe_window ttl) = (of_int (round_half_even (y * 10 ^ 9)) :: rat)"
    by (simp add: safe_window_def x_def y_def)
  show "79 / 100 * (of_nat ttl * 10 ^ 9) \<le> (of_nat (safe_window ttl) :: rat)"
    "of_nat (safe_window ttl) \<le> (81 / 100 * (of_nat ttl * 10 ^ 9) :: rat)"
    using lo hi unfolding n by auto
qed

lemma safe_window_before_expiry: "0 < ttl \<Longrightarrow> safe_window ttl < ttl * 10 ^ 9"
proof -
  assume t: "0 < ttl"
  have "of_nat (safe_window ttl) \<le> (81 / 100 * (of_nat ttl * 10 ^ 9) :: rat)" using safe_window_error(2) [OF t] .
  also have "\<dots> < of_nat ttl * 10 ^ 9" using t by simp
  also have "\<dots> = of_nat (ttl * 10 ^ 9)" by simp
  finally show ?thesis by (simp only: of_nat_less_iff)
qed

section \<open>Paths\<close>

lemma encode_path_segment_concat: "encode_path_segment s = concat (map encode_segment_byte s)"
proof -
  have "foldl (\<lambda>out b. out @ encode_segment_byte b) out s = out @ concat (map encode_segment_byte s)" for out
    by (induction s arbitrary: out) auto
  then show ?thesis by (simp add: encode_path_segment_def)
qed

definition encode_path :: "string \<Rightarrow> string" where
  "encode_path s = concat (map (\<lambda>b. if b = CHR ''/'' then [b] else encode_segment_byte b) s)"

lemma split_on_not_Nil [simp]: "split_on sep s \<noteq> []"
  by (induction s) (auto split: list.splits)

lemma str_join_Cons: "ps \<noteq> [] \<Longrightarrow> str_join sep (p # ps) = p @ sep @ str_join sep ps"
  by (cases ps) auto

text \<open>Encoding the segments between the slashes is encoding every byte but the slashes.\<close>

lemma encode_segments_join: "str_join ''/'' (map encode_path_segment (split_on CHR ''/'' s)) = encode_path s"
proof (induction s)
  case Nil
  show ?case by (simp add: encode_path_def encode_path_segment_concat)
next
  case (Cons c s)
  obtain p ps where ps: "split_on CHR ''/'' s = p # ps" by (cases "split_on CHR ''/'' s") auto
  show ?case
  proof (cases "c = CHR ''/''")
    case True
    then show ?thesis using Cons by (simp add: str_join_Cons encode_path_def encode_path_segment_concat)
  next
    case False
    have "str_join ''/'' (encode_path_segment (c # p) # map encode_path_segment ps)
        = encode_segment_byte c @ str_join ''/'' (encode_path_segment p # map encode_path_segment ps)"
      by (cases ps) (simp_all add: encode_path_segment_concat)
    then show ?thesis using False Cons ps by (simp add: encode_path_def)
  qed
qed

lemma encode_path_append: "encode_path (s @ t) = encode_path s @ encode_path t"
  by (simp add: encode_path_def)

lemma storage_key_segment_char: "storage_key_char c \<Longrightarrow> segment_char c \<and> c \<noteq> CHR ''/''"
  by (auto simp: segment_char_def storage_key_char_defs)

lemma encode_path_id: "list_all segment_char s \<Longrightarrow> encode_path s = s"
  by (induction s) (simp_all add: encode_path_def encode_segment_byte_def)

text \<open>The part of the path before the key.\<close>

definition path_start :: "vault_client \<Rightarrow> string" where
  "path_start vc =
     encode_path (if vk_path_prefix vc = [] then [] else if ends_with ''/'' (vk_path_prefix vc) then vk_path_prefix vc
                  else vk_path_prefix vc @ ''/'')"

lemma qualify_key_eq:
  assumes "hex_digest sha256" shows "qualify_key sha256 vc key = path_start vc @ normalize_key sha256 key"
proof -
  have "list_all segment_char (normalize_key sha256 key)"
    using normalize_key_shape(1) [OF assms, of key] storage_key_segment_char by (auto simp: list_all_iff)
  then show ?thesis
    using encode_path_append [of "''/''" "normalize_key sha256 key"]
    by (simp add: qualify_key_def Let_def encode_segments_join path_start_def encode_path_append encode_path_id)
qed

section \<open>Token management leaves the secrets alone\<close>

lemma on_world_Step [simp]: "on_world (Step f) =
    Step (\<lambda>s. (on_world (fst (f (tm_world s))), s\<lparr>tm_world := snd (f (tm_world s))\<rparr>))"
  by (simp add: case_prod_beta map_prod_def)

declare on_world.simps(2) [simp del]

lemma run_on_world [simp]: "run (on_world p) s = (case run p (tm_world s) of (r, w) \<Rightarrow> (r, s\<lparr>tm_world := w\<rparr>))"
proof (induction p arbitrary: s)
  case (Step f)
  show ?case by (simp add: Step.IH [of "f (tm_world s)" "fst (f (tm_world s))"] fsts.simps split: prod.splits)
qed simp

text \<open>\<open>keeps I p\<close>: whatever its result, \<open>p\<close> keeps \<open>I\<close>.\<close>

definition keeps :: "('s \<Rightarrow> bool) \<Rightarrow> ('s, 'a) proc \<Rightarrow> bool" where
  "keeps I p \<longleftrightarrow> triple I p (\<lambda>_. I)"

named_theorems keeps_rules \<open>invariants of token management\<close>

lemma keepsD: "keeps I p \<Longrightarrow> I s \<Longrightarrow> run p s = (r, s') \<Longrightarrow> I s'"
  unfolding keeps_def by (rule tripleD)

lemma keeps_Ret [keeps_rules]: "keeps I (Ret x)"
  by (simp add: keeps_def triple_Ret)

lemma keeps_pbind [keeps_rules]: "keeps I p \<Longrightarrow> (\<And>x. keeps I (k x)) \<Longrightarrow> keeps I (pbind p k)"
  unfolding keeps_def by (rule triple_pbind)

lemma keeps_call [keeps_rules]: "(\<And>s. I s \<Longrightarrow> I (snd (f s))) \<Longrightarrow> keeps I (call f)"
  unfolding keeps_def by (rule triple_call) (metis snd_conv)

lemma keeps_on_world [keeps_rules]: "keeps I p \<Longrightarrow> keeps (\<lambda>s. I (tm_world s)) (on_world p)"
  unfolding keeps_def by (rule tripleI) (auto split: prod.splits dest: tripleD)

lemma keeps_case_sum [keeps_rules]:
  "(\<And>e. r = Inl e \<Longrightarrow> keeps I (f e)) \<Longrightarrow> (\<And>x. r = Inr x \<Longrightarrow> keeps I (g x)) \<Longrightarrow>
   keeps I (case r of Inl e \<Rightarrow> f e | Inr x \<Rightarrow> g x)"
  by (cases r) auto

lemma keeps_if [keeps_rules]: "(b \<Longrightarrow> keeps I p) \<Longrightarrow> (\<not> b \<Longrightarrow> keeps I q) \<Longrightarrow> keeps I (if b then p else q)"
  by simp

text \<open>
  An invariant of the world that logging in, renewing a token and reading the token file keep is
  kept by \<open>ensure_valid\<close>.
\<close>

definition auth_keeps :: "'w vault_http \<Rightarrow> ('w \<Rightarrow> bool) \<Rightarrow> bool" where
  "auth_keeps http I \<longleftrightarrow>
     (\<forall>q w. I w \<longrightarrow> vq_method q = VaultPost \<longrightarrow> vq_body q \<notin> range KvEnvelope \<longrightarrow> I (snd (vh_send http q w)))
     \<and> (\<forall>path w. I w \<longrightarrow> I (snd (vh_read_to_string http path w)))"

lemma auth_keeps_send: "auth_keeps http I \<Longrightarrow> vq_method q = VaultPost \<Longrightarrow> vq_body q \<notin> range KvEnvelope \<Longrightarrow>
    keeps I (call (vh_send http q))"
  by (rule keeps_call) (auto simp: auth_keeps_def)

lemma login_keeps: "auth_keeps http I \<Longrightarrow> keeps I (backend_login http addr namespace backend)"
proof -
  assume I: "auth_keeps http I"
  have body: "triple I (login_body http backend) (\<lambda>r w. (\<forall>b. r = Inr b \<longrightarrow> b \<notin> range KvEnvelope) \<and> I w)"
    using I by (cases backend) (auto simp: login_body_def triple_def auth_keeps_def Let_def case_prod_beta split: sum.splits)
  have "keeps I (perform_login http url body namespace m)" if "body \<notin> range KvEnvelope" for url body m
    unfolding perform_login_def using that by (intro keeps_rules auth_keeps_send [OF I]) auto
  then show ?thesis
    unfolding backend_login_def Let_def stry_def keeps_def
    by (intro triple_pbind [OF body]) (auto simp: keeps_def intro!: triple_pure triple_Ret split: sum.splits)
qed

lemma install_token_keeps: "keeps (\<lambda>s. I (tm_world s)) (install_token http g)"
  unfolding install_token_def read_now_def by (cases g) (auto intro!: keeps_rules)

lemma try_renew_keeps: "auth_keeps http I \<Longrightarrow> keeps (\<lambda>s. I (tm_world s)) (try_renew http addr namespace)"
  unfolding try_renew_def by (intro keeps_rules auth_keeps_send install_token_keeps) auto

lemma login_again_keeps: "auth_keeps http I \<Longrightarrow> keeps (\<lambda>s. I (tm_world s)) (login_again http addr namespace backend)"
  unfolding login_again_def re_login_def stry_def set_last_failure_def read_now_def
  by (intro keeps_rules login_keeps install_token_keeps) auto

lemma ensure_valid_keeps:
  assumes "auth_keeps http I" shows "keeps (\<lambda>s. I (tm_world s)) (ensure_valid http addr namespace backend)"
  unfolding ensure_valid_def unless_safe_def with_renewal_lock_def unless_cooling_def renew_token_def read_elapsed_def
    set_last_failure_def
  by (intro keeps_rules try_renew_keeps login_again_keeps assms) auto

section \<open>The contract of the storage\<close>

text \<open>
  The documented behaviour of a key-value engine, by path below its mount: the value of the latest
  version. A successful write stores the value, a read answers 404 exactly for a path without a value
  and otherwise, with 200, the value; a successful deletion of the metadata removes the path. Other
  answers to a write leave open whether it was done, unless failures are \<open>definite\<close>. Authentication
  does not touch the secrets.
\<close>

definition vault_root :: "vault_client \<Rightarrow> string" where
  "vault_root vc = vk_addr vc @ ''/v1/'' @ encode_path_segment (vk_mount vc)"

definition kv_write_ok :: "bool \<Rightarrow> 'w vault_http \<Rightarrow> vault_client \<Rightarrow> ('w \<Rightarrow> (string \<rightharpoonup> string)) \<Rightarrow> ('w \<Rightarrow> bool) \<Rightarrow> bool" where
  "kv_write_ok definite http vc view rok \<longleftrightarrow>
     (\<forall>q p v w r w'. rok w \<longrightarrow> vq_method q = VaultPost \<longrightarrow> vq_url q = vault_root vc @ ''/data/'' @ p \<longrightarrow>
        vq_body q = KvEnvelope v \<longrightarrow> vh_send http q w = (r, w') \<longrightarrow> rok w' \<and>
        (case r of
           Inr resp \<Rightarrow>
             if is_success (vr_status resp) then view w' = (view w)(p \<mapsto> v)
             else view w' = view w \<or> \<not> definite \<and> view w' = (view w)(p \<mapsto> v)
         | Inl _ \<Rightarrow> view w' = view w \<or> \<not> definite \<and> view w' = (view w)(p \<mapsto> v)))"

definition kv_read_ok :: "'w vault_http \<Rightarrow> vault_client \<Rightarrow> ('w \<Rightarrow> (string \<rightharpoonup> string)) \<Rightarrow> ('w \<Rightarrow> bool) \<Rightarrow> bool" where
  "kv_read_ok http vc view rok \<longleftrightarrow>
     (\<forall>q p w r w'. rok w \<longrightarrow> vq_method q = VaultGet \<longrightarrow> vq_url q = vault_root vc @ ''/data/'' @ p \<longrightarrow>
        vh_send http q w = (r, w') \<longrightarrow> rok w' \<and> view w' = view w \<and>
        (\<forall>resp. r = Inr resp \<longrightarrow>
           (vr_status resp = 404 \<longrightarrow> view w p = None)
           \<and> (\<forall>v. vr_status resp = 200 \<longrightarrow> vr_kv resp = Inr v \<longrightarrow> view w p = Some v)))"

definition kv_delete_ok :: "bool \<Rightarrow> 'w vault_http \<Rightarrow> vault_client \<Rightarrow> ('w \<Rightarrow> (string \<rightharpoonup> string)) \<Rightarrow> ('w \<Rightarrow> bool) \<Rightarrow> bool" where
  "kv_delete_ok definite http vc view rok \<longleftrightarrow>
     (\<forall>q p w r w'. rok w \<longrightarrow> vq_method q = VaultDelete \<longrightarrow> vq_url q = vault_root vc @ ''/metadata/'' @ p \<longrightarrow>
        vh_send http q w = (r, w') \<longrightarrow> rok w' \<and>
        (case r of
           Inr resp \<Rightarrow>
             if is_success (vr_status resp) then view w' = (view w)(p := None)
             else if vr_status resp = 404 then view w p = None \<and> view w' = view w
             else view w' = view w \<or> \<not> definite \<and> view w' = (view w)(p := None)
         | Inl _ \<Rightarrow> view w' = view w \<or> \<not> definite \<and> view w' = (view w)(p := None)))"

definition vault_service_ok :: "bool \<Rightarrow> 'w vault_http \<Rightarrow> vault_client \<Rightarrow> ('w \<Rightarrow> (string \<rightharpoonup> string)) \<Rightarrow> ('w \<Rightarrow> bool) \<Rightarrow> bool" where
  "vault_service_ok definite http vc view rok \<longleftrightarrow>
     kv_write_ok definite http vc view rok \<and> kv_read_ok http vc view rok \<and> kv_delete_ok definite http vc view rok
     \<and> (\<forall>m. auth_keeps http (\<lambda>w. rok w \<and> view w = m))"

text \<open>What the adapter keeps under a key.\<close>

definition vault_secrets ::
  "(string \<Rightarrow> string) \<Rightarrow> vault_client \<Rightarrow> ('w \<Rightarrow> (string \<rightharpoonup> string)) \<Rightarrow> 'w vault_tokens \<Rightarrow> (string \<rightharpoonup> string)" where
  "vault_secrets sha256 vc view s k = (if normal_key sha256 k then view (tm_world s) (path_start vc @ k) else None)"

lemma vault_secrets_upd:
  "normal_key sha256 k \<Longrightarrow> view (tm_world s') = (view (tm_world s))(path_start vc @ k := u) \<Longrightarrow>
   vault_secrets sha256 vc view s' = (vault_secrets sha256 vc view s)(k := u)"
  by (auto simp: vault_secrets_def fun_eq_iff)

lemma vault_secrets_cong:
  "view (tm_world s') = view (tm_world s) \<Longrightarrow> vault_secrets sha256 vc view s' = vault_secrets sha256 vc view s"
  by (simp add: vault_secrets_def fun_eq_iff)

lemma vault_urls:
  assumes "hex_digest sha256" "normal_key sha256 key"
  shows "data_url sha256 vc key = vault_root vc @ ''/data/'' @ path_start vc @ key"
    and "metadata_url sha256 vc key = vault_root vc @ ''/metadata/'' @ path_start vc @ key"
  using assms by (simp_all add: data_url_def metadata_url_def vault_root_def qualify_key_eq normal_key_def)

text \<open>
  An authorized request: either the authentication failed and nothing was sent, or the request was
  sent, with the current token, to a world with the same secrets.
\<close>

lemma send_authorizedE:
  assumes "\<forall>m. auth_keeps http (\<lambda>w. rok w \<and> view w = m)" and "rok (tm_world (sw_remote w))"
    and "send_authorized http vc backend m url body w = (r, w')"
  obtains e where "r = Inl e" "rok (tm_world (sw_remote w'))"
      "view (tm_world (sw_remote w')) = view (tm_world (sw_remote w))" "sw_cache w' = sw_cache w"
  | s q a x where "rok (tm_world s)" "view (tm_world s) = view (tm_world (sw_remote w))"
      "vq_method q = m" "vq_url q = url" "vq_body q = body" "vh_send http q (tm_world s) = (a, x)"
      "r = map_sum StorageBackend id a" "w' = w\<lparr>sw_remote := s\<lparr>tm_world := x\<rparr>\<rparr>"
proof -
  obtain v s where v: "run (ensure_valid http (vk_addr vc) (vk_namespace vc) backend) (sw_remote w) = (v, s)" by fastforce
  have s: "rok (tm_world s) \<and> view (tm_world s) = view (tm_world (sw_remote w))"
    by (rule keepsD [OF ensure_valid_keeps, OF assms(1) [THEN spec] _ v]) (simp add: assms(2))
  show thesis
  proof (cases v)
    case (Inl e)
    then show ?thesis using assms(3) v s that(1) by (auto simp: send_authorized_def wtry_def remote_def)
  next
    case (Inr u)
    define q where "q = \<lparr>vq_method = m, vq_url = url, vq_token = Some (tm_token s), vq_namespace = vk_namespace vc, vq_body = body\<rparr>"
    obtain a x where a: "vh_send http q (tm_world s) = (a, x)" by fastforce
    have "r = map_sum StorageBackend id a" "w' = w\<lparr>sw_remote := s\<lparr>tm_world := x\<rparr>\<rparr>"
      using assms(3) v Inr a by (auto simp: send_authorized_def wtry_def wmap_err_def remote_def q_def)
    then show ?thesis using that(2) [of s q a x] s a by (simp add: q_def)
  qed
qed

lemma vault_store_law:
  assumes svc: "vault_service_ok definite http vc view rok" and hex: "hex_digest sha256"
    and w: "rok (tm_world (sw_remote w))" and n: "normal_key sha256 key"
    and run: "vault_store sha256 http vc backend cache key v w = (r, w')"
  shows "rok (tm_world (sw_remote w'))
    \<and> written definite r (vault_secrets sha256 vc view (sw_remote w)) key (Some v) (vault_secrets sha256 vc view (sw_remote w'))
    \<and> sw_cache w' = (if cache \<noteq> None \<and> \<not> isl r then (sw_cache w)(key \<mapsto> v) else sw_cache w)"
proof -
  let ?S = "vault_secrets sha256 vc view"
  note ok = svc [unfolded vault_service_ok_def]
  obtain r0 w0 where r0: "send_authorized http vc backend VaultPost (data_url sha256 vc key) (KvEnvelope v) w = (r0, w0)" by fastforce
  from ok w r0 show ?thesis
  proof (rule send_authorizedE [OF conjunct2 [OF conjunct2 [OF conjunct2]]])
    fix e assume "r0 = Inl e" "rok (tm_world (sw_remote w0))" "view (tm_world (sw_remote w0)) = view (tm_world (sw_remote w))"
      "sw_cache w0 = sw_cache w"
    then show ?thesis
      using run r0 vault_secrets_cong [of view "sw_remote w0" "sw_remote w" sha256 vc] by (auto simp: vault_store_def wtry_def written_def)
  next
    fix s q a x
    assume s: "rok (tm_world s)" "view (tm_world s) = view (tm_world (sw_remote w))"
      and q: "vq_method q = VaultPost" "vq_url q = data_url sha256 vc key" "vq_body q = KvEnvelope v" "vh_send http q (tm_world s) = (a, x)"
      and a: "r0 = map_sum StorageBackend id a" "w0 = w\<lparr>sw_remote := s\<lparr>tm_world := x\<rparr>\<rparr>"
    have law: "rok x \<and> (case a of
           Inr resp \<Rightarrow>
             if is_success (vr_status resp) then view x = (view (tm_world s))(path_start vc @ key \<mapsto> v)
             else view x = view (tm_world s) \<or> \<not> definite \<and> view x = (view (tm_world s))(path_start vc @ key \<mapsto> v)
         | Inl _ \<Rightarrow> view x = view (tm_world s) \<or> \<not> definite \<and> view x = (view (tm_world s))(path_start vc @ key \<mapsto> v))"
      using ok s(1) q by (auto simp: kv_write_ok_def vault_urls(1) [OF hex n])
    note upd = vault_secrets_upd [OF n, of view "sw_remote w0" "sw_remote w" vc "Some v"]
      vault_secrets_cong [of view "sw_remote w0" "sw_remote w" sha256 vc]
    show ?thesis using run r0 a law s(2) upd
      by (cases a) (auto simp: vault_store_def wtry_def written_def Let_def cache_secret_def split: if_splits option.splits)
  qed
qed

lemma vault_delete_law:
  assumes svc: "vault_service_ok definite http vc view rok" and hex: "hex_digest sha256"
    and w: "rok (tm_world (sw_remote w))" and n: "normal_key sha256 key"
    and run: "vault_delete sha256 http vc backend cache key w = (r, w')"
  shows "rok (tm_world (sw_remote w'))
    \<and> written definite r (vault_secrets sha256 vc view (sw_remote w)) key None (vault_secrets sha256 vc view (sw_remote w'))
    \<and> sw_cache w' = (if cache \<noteq> None \<and> \<not> isl r then (sw_cache w)(key := None) else sw_cache w)"
proof -
  note ok = svc [unfolded vault_service_ok_def]
  obtain r0 w0 where r0: "send_authorized http vc backend VaultDelete (metadata_url sha256 vc key) NoBody w = (r0, w0)" by fastforce
  from ok w r0 show ?thesis
  proof (rule send_authorizedE [OF conjunct2 [OF conjunct2 [OF conjunct2]]])
    fix e assume "r0 = Inl e" "rok (tm_world (sw_remote w0))" "view (tm_world (sw_remote w0)) = view (tm_world (sw_remote w))"
      "sw_cache w0 = sw_cache w"
    then show ?thesis
      using run r0 vault_secrets_cong [of view "sw_remote w0" "sw_remote w" sha256 vc] by (auto simp: vault_delete_def wtry_def written_def)
  next
    fix s q a x
    assume s: "rok (tm_world s)" "view (tm_world s) = view (tm_world (sw_remote w))"
      and q: "vq_method q = VaultDelete" "vq_url q = metadata_url sha256 vc key" "vq_body q = NoBody" "vh_send http q (tm_world s) = (a, x)"
      and a: "r0 = map_sum StorageBackend id a" "w0 = w\<lparr>sw_remote := s\<lparr>tm_world := x\<rparr>\<rparr>"
    have law: "rok x \<and> (case a of
           Inr resp \<Rightarrow>
             if is_success (vr_status resp) then view x = (view (tm_world s))(path_start vc @ key := None)
             else if vr_status resp = 404 then view (tm_world s) (path_start vc @ key) = None \<and> view x = view (tm_world s)
             else view x = view (tm_world s) \<or> \<not> definite \<and> view x = (view (tm_world s))(path_start vc @ key := None)
         | Inl _ \<Rightarrow> view x = view (tm_world s) \<or> \<not> definite \<and> view x = (view (tm_world s))(path_start vc @ key := None))"
      using ok s(1) q by (auto simp: kv_delete_ok_def vault_urls(2) [OF hex n])
    have gone: "(vault_secrets sha256 vc view (sw_remote w))(key := None) = vault_secrets sha256 vc view (sw_remote w)"
      if "view (tm_world s) (path_start vc @ key) = None"
      using that s(2) by (auto simp: vault_secrets_def fun_eq_iff)
    note upd = vault_secrets_upd [OF n, of view "sw_remote w0" "sw_remote w" vc None]
      vault_secrets_cong [of view "sw_remote w0" "sw_remote w" sha256 vc]
    show ?thesis using run r0 a law s(2) upd gone
      by (cases a) (auto simp: vault_delete_def wtry_def written_def Let_def uncache_secret_def split: if_splits option.splits)
  qed
qed

lemma vault_load_law:
  assumes svc: "vault_service_ok definite http vc view rok" and hex: "hex_digest sha256"
    and w: "rok (tm_world (sw_remote w))" and n: "normal_key sha256 key"
    and run: "vault_load sha256 http vc backend cache key w = (r, w')" and miss: "cached_secret cache key w = None"
  shows "rok (tm_world (sw_remote w')) \<and> vault_secrets sha256 vc view (sw_remote w') = vault_secrets sha256 vc view (sw_remote w)
    \<and> (\<forall>x. r = Inr x \<longrightarrow> x = vault_secrets sha256 vc view (sw_remote w) key)
    \<and> sw_cache w' = (case r of Inr (Some v) \<Rightarrow> if cache \<noteq> None then (sw_cache w)(key \<mapsto> v) else sw_cache w | _ \<Rightarrow> sw_cache w)"
proof -
  note ok = svc [unfolded vault_service_ok_def]
  obtain r0 w0 where r0: "send_authorized http vc backend VaultGet (data_url sha256 vc key) NoBody w = (r0, w0)" by fastforce
  from ok w r0 show ?thesis
  proof (rule send_authorizedE [OF conjunct2 [OF conjunct2 [OF conjunct2]]])
    fix e assume "r0 = Inl e" "rok (tm_world (sw_remote w0))" "view (tm_world (sw_remote w0)) = view (tm_world (sw_remote w))"
      "sw_cache w0 = sw_cache w"
    then show ?thesis
      using run r0 miss vault_secrets_cong [of view "sw_remote w0" "sw_remote w" sha256 vc] by (auto simp: vault_load_def wtry_def)
  next
    fix s q a x
    assume s: "rok (tm_world s)" "view (tm_world s) = view (tm_world (sw_remote w))"
      and q: "vq_method q = VaultGet" "vq_url q = data_url sha256 vc key" "vq_body q = NoBody" "vh_send http q (tm_world s) = (a, x)"
      and a: "r0 = map_sum StorageBackend id a" "w0 = w\<lparr>sw_remote := s\<lparr>tm_world := x\<rparr>\<rparr>"
    have law: "rok x \<and> view x = view (tm_world s) \<and> (\<forall>resp. a = Inr resp \<longrightarrow>
           (vr_status resp = 404 \<longrightarrow> view (tm_world s) (path_start vc @ key) = None)
           \<and> (\<forall>v. vr_status resp = 200 \<longrightarrow> vr_kv resp = Inr v \<longrightarrow> view (tm_world s) (path_start vc @ key) = Some v))"
      using ok s(1) q by (auto simp: kv_read_ok_def vault_urls(1) [OF hex n])
    have key: "vault_secrets sha256 vc view (sw_remote w) key = view (tm_world s) (path_start vc @ key)"
      using n s(2) by (simp add: vault_secrets_def)
    show ?thesis using run r0 a law s(2) key miss vault_secrets_cong [of view "sw_remote w0" "sw_remote w" sha256 vc]
      by (cases a) (auto simp: vault_load_def wtry_def Let_def cache_secret_def split: if_splits option.splits sum.splits)
  qed
qed

lemma vault_adapter_laws:
  fixes http :: "'w vault_http"
  assumes svc: "vault_service_ok definite http vc view rok" and hex: "hex_digest sha256" and c: "cache = None \<or> definite"
  shows "adapter_laws (vault_storage sha256 http vc backend cache) (normal_key sha256)
    (vault_secrets sha256 vc view) (\<lambda>s. rok (tm_world s)) cache definite"
proof unfold_locales
  show "cache = None \<or> definite" by (fact c)
next
  fix key v and r :: "storage_error + unit" and w w' :: "'w vault_tokens secret_world"
  assume w: "rok (tm_world (sw_remote w))" and n: "normal_key sha256 key"
  let ?st = "vault_storage sha256 http vc backend cache" and ?S = "vault_secrets sha256 vc view"
  show "st_store ?st key v w = (r, w') \<Longrightarrow>
      rok (tm_world (sw_remote w')) \<and> written definite r (?S (sw_remote w)) key (Some v) (?S (sw_remote w'))
      \<and> sw_cache w' = (if cache \<noteq> None \<and> \<not> isl r then (sw_cache w)(key \<mapsto> v) else sw_cache w)"
    using vault_store_law [OF svc hex w n] by (simp add: vault_storage_def)
  show "st_update ?st key v w = (r, w') \<Longrightarrow>
      rok (tm_world (sw_remote w')) \<and> written definite r (?S (sw_remote w)) key (Some v) (?S (sw_remote w'))
      \<and> sw_cache w' = (if cache \<noteq> None \<and> \<not> isl r then (sw_cache w)(key \<mapsto> v) else sw_cache w)"
    using vault_store_law [OF svc hex w n] by (simp add: vault_storage_def default_update_def)
  show "st_delete ?st key w = (r, w') \<Longrightarrow>
      rok (tm_world (sw_remote w')) \<and> written definite r (?S (sw_remote w)) key None (?S (sw_remote w'))
      \<and> sw_cache w' = (if cache \<noteq> None \<and> \<not> isl r then (sw_cache w)(key := None) else sw_cache w)"
    using vault_delete_law [OF svc hex w n] by (simp add: vault_storage_def)
next
  fix key and r :: "storage_error + string option" and w w' :: "'w vault_tokens secret_world"
  assume w: "rok (tm_world (sw_remote w))" and n: "normal_key sha256 key"
    and l: "st_load (vault_storage sha256 http vc backend cache) key w = (r, w')"
  have l': "vault_load sha256 http vc backend cache key w = (r, w')" using l by (simp add: vault_storage_def)
  let ?S = "vault_secrets sha256 vc view"
  show "case cached_secret cache key w of
         Some v \<Rightarrow> r = Inr (Some v) \<and> w' = w
       | None \<Rightarrow> rok (tm_world (sw_remote w')) \<and> ?S (sw_remote w') = ?S (sw_remote w)
           \<and> (\<forall>x. r = Inr x \<longrightarrow> x = ?S (sw_remote w) key)
           \<and> sw_cache w' = (case r of Inr (Some v) \<Rightarrow> if cache \<noteq> None then (sw_cache w)(key \<mapsto> v) else sw_cache w
                             | _ \<Rightarrow> sw_cache w)"
  proof (cases "cached_secret cache key w")
    case None
    then show ?thesis using vault_load_law [OF svc hex w n l' None] by simp
  next
    case (Some v)
    then show ?thesis using l' by (simp add: vault_load_def)
  qed
qed

text \<open>A small server: the values by path, and the number of authentications it has answered.\<close>

definition below :: "string \<Rightarrow> string \<Rightarrow> string" where
  "below start url = drop (length start) url"

definition vault_answer :: "nat \<Rightarrow> string \<Rightarrow> vault_response" where
  "vault_answer status v = \<lparr>vr_status = status, vr_auth = Inl [], vr_kv = Inr v, vr_text = []\<rparr>"

definition vault_table :: "vault_client \<Rightarrow> ((string \<rightharpoonup> string) \<times> nat) vault_http" where
  "vault_table vc =
     \<lparr>vh_send = (\<lambda>q (m, n).
        case vq_body q of
          KvEnvelope v \<Rightarrow>
            if vq_method q = VaultPost then (Inr (vault_answer 200 []), m(below (vault_root vc @ ''/data/'') (vq_url q) \<mapsto> v), n)
            else (Inr (vault_answer 405 []), m, n)
        | _ \<Rightarrow>
            (case vq_method q of
               VaultGet \<Rightarrow>
                 (case m (below (vault_root vc @ ''/data/'') (vq_url q)) of
                    Some v \<Rightarrow> (Inr (vault_answer 200 v), m, n) | None \<Rightarrow> (Inr (vault_answer 404 []), m, n))
             | VaultDelete \<Rightarrow> (Inr (vault_answer 204 []), m(below (vault_root vc @ ''/metadata/'') (vq_url q) := None), n)
             | VaultPost \<Rightarrow>
                 (Inr \<lparr>vr_status = 200, vr_auth = Inr \<lparr>ad_client_token = ''token'', ad_lease_duration = 60, ad_renewable = True\<rparr>,
                       vr_kv = Inl [], vr_text = []\<rparr>, m, n + 1))),
      vh_read_to_string = (\<lambda>path w. (Inr ''jwt'', w)), vh_now = (\<lambda>_. 100 * 10 ^ 9), vh_status_text = (\<lambda>_. []), vh_fmt_debug = id\<rparr>"

lemma vault_table_ok: "vault_service_ok definite (vault_table vc) vc fst (\<lambda>_. True)"
proof -
  have "kv_write_ok definite (vault_table vc) vc fst (\<lambda>_. True)"
    by (auto simp: kv_write_ok_def vault_table_def vault_answer_def is_success_def below_def)
  moreover have "kv_read_ok (vault_table vc) vc fst (\<lambda>_. True)"
    by (auto simp: kv_read_ok_def vault_table_def vault_answer_def below_def split: vault_body.splits option.splits)
  moreover have "kv_delete_ok definite (vault_table vc) vc fst (\<lambda>_. True)"
    by (auto simp: kv_delete_ok_def vault_table_def vault_answer_def is_success_def below_def split: vault_body.splits)
  moreover have "auth_keeps (vault_table vc) (\<lambda>w. True \<and> fst w = m)" for m
    by (auto simp: auth_keeps_def vault_table_def split: vault_body.splits)
  ultimately show ?thesis by (simp add: vault_service_ok_def)
qed

interpretation vault_backend: adapter_laws "vault_storage zero_digest (vault_table vc) vc backend cache" "normal_key zero_digest"
  "vault_secrets zero_digest vc fst" "\<lambda>s. True" cache True
  for vc backend cache
  using vault_adapter_laws [OF vault_table_ok zero_digest_hex, of cache True vc backend] by simp

text \<open>
  C8. The adapters of Google Secret Manager and of Vault implement the storage trait on every service
  that behaves as documented, with or without their cache (with it, if a failed write is known not
  to have been done): a reported success is a write or deletion of exactly that key, a failure did the
  write or nothing, a lookup tells the truth and changes nothing. Renewing tokens, creating the
  secret of a first write and retrying do not show.
\<close>

theorem secret_adapters_meet_contract:
  assumes "gcp_service_ok definite client view rok" and "vault_service_ok definite http vc view' rok'"
    and "hex_digest sha256" and "gcp_cache = None \<or> definite" and "vault_cache = None \<or> definite"
  shows "storage_contract (gcp_storage sha256 utf8_text client project_id gcp_cache) (normal_key sha256)
      (\<lambda>w. gcp_secrets sha256 project_id view (sw_remote w))
      (adapter_ok (normal_key sha256) (gcp_secrets sha256 project_id view) rok gcp_cache)
    \<and> storage_contract (vault_storage sha256 http vc backend vault_cache) (normal_key sha256)
      (\<lambda>w. vault_secrets sha256 vc view' (sw_remote w))
      (adapter_ok (normal_key sha256) (vault_secrets sha256 vc view') (\<lambda>s. rok' (tm_world s)) vault_cache)"
  using adapter_laws.adapter_meets_contract [OF gcp_adapter_laws [OF assms(1,4)]]
    adapter_laws.adapter_meets_contract [OF vault_adapter_laws [OF assms(2,3,5)]] by blast

theorem secret_adapters_meet_contract_witness:
  "storage_contract (gcp_storage zero_digest id gcp_table ''p'' (Some (\<lambda>_ _. True))) (normal_key zero_digest)
      (\<lambda>w. gcp_secrets zero_digest ''p'' id (sw_remote w))
      (adapter_ok (normal_key zero_digest) (gcp_secrets zero_digest ''p'' id) (\<lambda>_. True) (Some (\<lambda>_ _. True)))
    \<and> storage_contract (vault_storage zero_digest (vault_table \<lparr>vk_addr = ''http://v'', vk_mount = ''kv'', vk_path_prefix = ''a b'', vk_namespace = None\<rparr>)
          \<lparr>vk_addr = ''http://v'', vk_mount = ''kv'', vk_path_prefix = ''a b'', vk_namespace = None\<rparr>
          (AppRoleBackend ''r'' ''s'' ''approle'') (Some (\<lambda>_ _. True))) (normal_key zero_digest)
      (\<lambda>w. vault_secrets zero_digest \<lparr>vk_addr = ''http://v'', vk_mount = ''kv'', vk_path_prefix = ''a b'', vk_namespace = None\<rparr> fst (sw_remote w))
      (adapter_ok (normal_key zero_digest)
        (vault_secrets zero_digest \<lparr>vk_addr = ''http://v'', vk_mount = ''kv'', vk_path_prefix = ''a b'', vk_namespace = None\<rparr> fst)
        (\<lambda>_. True) (Some (\<lambda>_ _. True)))"
  by (rule secret_adapters_meet_contract [OF gcp_table_ok [of True] vault_table_ok zero_digest_hex]) simp_all

end
