(* ===== verification/Mutex.thy ===== *)
theory Mutex
  imports Processes
begin

text \<open>
  Processes that share a mutex, and what a critical section may rely on. \<open>held\<close> reads the mutex off
  the state, \<open>env\<close> is what the surroundings may do at any time, \<open>within\<close> bounds the states (taking a
  mutex that is held would leave them, so it is not a possible step). The data under the mutex are
  described by \<open>free\<close>, which holds whenever no process is inside; \<open>inv\<close> holds all the time.
\<close>

text \<open>A pool of processes and its surroundings take turns.\<close>

inductive pool_step ::
  "('s \<Rightarrow> 's \<Rightarrow> bool) \<Rightarrow> ('s \<Rightarrow> bool) \<Rightarrow> 's \<times> ('s, 'a) proc list \<Rightarrow> 's \<times> ('s, 'a) proc list \<Rightarrow> bool"
  for env within where
  pool_process: "interleave within c c' \<Longrightarrow> pool_step env within c c'"
| pool_env: "env s t \<Longrightarrow> within t \<Longrightarrow> pool_step env within (s, ps) (t, ps)"

locale mutex =
  fixes held :: "'s \<Rightarrow> bool" and env :: "'s \<Rightarrow> 's \<Rightarrow> bool" and within :: "'s \<Rightarrow> bool"
    and free :: "'s \<Rightarrow> bool" and inv :: "'s \<Rightarrow> bool"
  assumes env_refl: "env s s"
    and env_trans: "env s t \<Longrightarrow> env t u \<Longrightarrow> env s u"
    and env_held: "env s t \<Longrightarrow> held t \<longleftrightarrow> held s"
    and env_free: "env s t \<Longrightarrow> \<not> held s \<Longrightarrow> free s \<Longrightarrow> free t"
    and free_inv: "free s \<Longrightarrow> inv s"
begin

text \<open>
  \<open>outer p\<close>: outside its critical sections the process only reads. \<open>inner p s\<close>: inside, starting in
  \<open>s\<close>, whatever the surroundings do, it keeps \<open>inv\<close> and does not let go of the mutex before \<open>free\<close> is
  restored.
\<close>

inductive outer :: "('s, 'a) proc \<Rightarrow> bool" and inner :: "('s, 'a) proc \<Rightarrow> 's \<Rightarrow> bool" where
  outer_Ret: "outer (Ret x)"
| outer_Step:
    "(\<And>s. (\<not> held s \<longrightarrow> free s) \<Longrightarrow> within (snd (f s)) \<Longrightarrow>
        snd (f s) = s \<and> outer (fst (f s))
        \<or> \<not> held s \<and> held (snd (f s)) \<and> inner (fst (f s)) (snd (f s)))
     \<Longrightarrow> outer (Step f)"
| inner_Step:
    "(\<And>t. env s t \<Longrightarrow> inv t
        \<and> (within (snd (f t)) \<longrightarrow>
             held (snd (f t)) \<and> inner (fst (f t)) (snd (f t))
             \<or> \<not> held (snd (f t)) \<and> free (snd (f t)) \<and> outer (fst (f t))))
     \<Longrightarrow> inner (Step f) s"

inductive_cases outer_StepE: "outer (Step f)"
inductive_cases inner_StepE: "inner (Step f) s"
inductive_cases inner_RetE: "inner (Ret x) s"

lemma inner_env: "inner p s \<Longrightarrow> env s t \<Longrightarrow> inner p t"
  by (erule inner.cases) (auto intro!: inner_Step dest: env_trans)

lemma inner_inv: "inner p s \<Longrightarrow> inv s"
  by (erule inner.cases) (use env_refl in blast)

definition pool_ok :: "'s \<times> ('s, 'a) proc list \<Rightarrow> bool" where
  "pool_ok c \<longleftrightarrow>
     (case c of (s, ps) \<Rightarrow>
        \<not> held s \<and> free s \<and> (\<forall>i < length ps. outer (ps ! i))
        \<or> held s \<and> (\<exists>i < length ps. inner (ps ! i) s \<and> (\<forall>j < length ps. j \<noteq> i \<longrightarrow> outer (ps ! j))))"

lemma pool_ok_step:
  assumes "pool_step env within c c'" and "pool_ok c" shows "pool_ok c'"
  using assms
proof (cases rule: pool_step.cases)
  case (pool_env s t ps)
  have "held t \<longleftrightarrow> held s" "\<not> held s \<Longrightarrow> free s \<Longrightarrow> free t" "\<And>p. inner p s \<Longrightarrow> inner p t"
    using env_held env_free inner_env pool_env(3) by blast+
  then show ?thesis using assms(2) unfolding pool_env(1,2) pool_ok_def by fastforce
next
  case pool_process
  then obtain s ps i f p s' where c: "c = (s, ps)" "c' = (s', ps[i := p])"
    and i: "i < length ps" "ps ! i = Step f" "f s = (p, s')" "within s'"
    by (cases c) (auto elim: interleaveE)
  have outside: "s' = s \<and> outer p \<or> \<not> held s \<and> held s' \<and> inner p s'" if "outer (ps ! i)" "\<not> held s \<longrightarrow> free s"
    using that i by (auto elim!: outer_StepE)
  consider (nobody) "\<not> held s" "free s" "\<forall>j < length ps. outer (ps ! j)"
    | (self) "held s" "inner (ps ! i) s" "\<forall>j < length ps. j \<noteq> i \<longrightarrow> outer (ps ! j)"
    | (other) k where "held s" "k < length ps" "k \<noteq> i" "inner (ps ! k) s" "\<forall>j < length ps. j \<noteq> k \<longrightarrow> outer (ps ! j)"
    using assms(2) unfolding c pool_ok_def by (simp only: prod.case) metis
  then show ?thesis
  proof cases
    case nobody
    then show ?thesis using outside i(1) unfolding c pool_ok_def by (auto simp: nth_list_update)
  next
    case self
    then have "held s' \<and> inner p s' \<or> \<not> held s' \<and> free s' \<and> outer p"
      using i env_refl [of s] by (auto elim!: inner_StepE)
    then show ?thesis using self i(1) unfolding c pool_ok_def by (auto simp: nth_list_update)
  next
    case (other k)
    then have "s' = s \<and> outer p" using outside i(1) by auto
    then show ?thesis using other i(1) unfolding c pool_ok_def by (auto simp: nth_list_update intro!: exI [of _ k])
  qed
qed

lemma pool_ok_inv: "pool_ok (s, ps) \<Longrightarrow> inv s"
  using free_inv inner_inv by (auto simp: pool_ok_def)

theorem pool_keeps_inv:
  assumes "(pool_step env within)\<^sup>*\<^sup>* (s, ps) (s', ps')" and "\<not> held s" "free s" and "\<And>p. p \<in> set ps \<Longrightarrow> outer p"
  shows "inv s' \<and> (\<not> held s' \<longrightarrow> free s')"
proof -
  have "pool_ok (s, ps)" using assms(2-4) by (simp add: pool_ok_def)
  with assms(1) have ok: "pool_ok (s', ps')"
    by (induction rule: rtranclp_induct) (auto dest: pool_ok_step)
  then show ?thesis using pool_ok_inv by (auto simp: pool_ok_def)
qed

text \<open>
  Reasoning about critical sections: from \<open>P\<close> the part \<open>p\<close> of a section ends with \<open>Q\<close>, and it is safe
  to go on from there.
\<close>

definition part :: "('s \<Rightarrow> bool) \<Rightarrow> ('s, 'b) proc \<Rightarrow> ('b \<Rightarrow> 's \<Rightarrow> bool) \<Rightarrow> 'a itself \<Rightarrow> bool" where
  "part P p Q (ty :: 'a itself) \<longleftrightarrow>
     (\<forall>(k :: 'b \<Rightarrow> ('s, 'a) proc) s. P s \<longrightarrow> (\<forall>x t. Q x t \<longrightarrow> inner (k x) t) \<longrightarrow> inner (pbind p k) s)"

lemma part_Ret: "(\<And>s. P s \<Longrightarrow> Q x s) \<Longrightarrow> part P (Ret x) Q ty"
  by (simp add: part_def)

lemma part_call:
  assumes "\<And>s t. P s \<Longrightarrow> env s t \<Longrightarrow> inv t \<and> (within (snd (f t)) \<longrightarrow> held (snd (f t)) \<and> Q (fst (f t)) (snd (f t)))"
  shows "part P (call f) Q ty"
  unfolding part_def by (auto simp: call_def intro!: inner_Step dest: assms)

lemma part_pbind: "part P p R ty \<Longrightarrow> (\<And>x. part (R x) (q x) Q ty) \<Longrightarrow> part P (pbind p q) Q ty"
  by (simp add: part_def pbind_assoc)

lemma part_weaken: "part P p Q ty \<Longrightarrow> (\<And>s. P' s \<Longrightarrow> P s) \<Longrightarrow> (\<And>x s. Q x s \<Longrightarrow> Q' x s) \<Longrightarrow> part P' p Q' ty"
  by (simp add: part_def)

lemma partD: "part P p Q TYPE('a) \<Longrightarrow> P s \<Longrightarrow> (\<And>x t. Q x t \<Longrightarrow> inner (k x) t) \<Longrightarrow> inner (pbind p (k :: 'b \<Rightarrow> ('s, 'a) proc)) s"
  by (simp add: part_def)

lemma outer_read: "(\<And>x. outer (k x)) \<Longrightarrow> outer (pbind (call (\<lambda>s. (g s, s))) k)"
  by (auto simp: call_def intro!: outer_Step)

end

end
