(* ===== verification/Vault_Tokens.thy ===== *)
theory Vault_Tokens
  imports Vault_Spec Mutex
begin

text \<open>
  Concurrent use of the token manager. Any number of requests that find the token due for renewal
  share one round of authentication: the mutex serialises them, and the checks after taking it let
  all but the first go on with its result.
\<close>

section \<open>Server and surroundings\<close>

text \<open>
  \<open>auths\<close> counts the logins and renewals a server has been asked for, the clock does not run
  backwards, and \<open>T\<close> is a period that lies in the safe window of every lease the server grants.
\<close>

definition counts_auths :: "'w vault_http \<Rightarrow> ('w \<Rightarrow> nat) \<Rightarrow> bool" where
  "counts_auths http auths \<longleftrightarrow>
     (\<forall>q w r w'. vq_method q = VaultPost \<longrightarrow> vq_body q \<notin> range KvEnvelope \<longrightarrow> vh_send http q w = (r, w') \<longrightarrow>
        auths w' = auths w + 1 \<and> vh_now http w \<le> vh_now http w')
     \<and> (\<forall>path w r w'. vh_read_to_string http path w = (r, w') \<longrightarrow> auths w' = auths w \<and> vh_now http w \<le> vh_now http w')"

definition leases_last :: "'w vault_http \<Rightarrow> nat \<Rightarrow> bool" where
  "leases_last http T \<longleftrightarrow>
     (\<forall>q w resp w' a. vh_send http q w = (Inr resp, w') \<longrightarrow> vr_auth resp = Inr a \<longrightarrow>
        ad_lease_duration a = 0 \<or> T \<le> safe_window (ad_lease_duration a))"

text \<open>Time passes and the world changes, but nobody else authenticates.\<close>

definition time_passes :: "'w vault_http \<Rightarrow> ('w \<Rightarrow> nat) \<Rightarrow> 'w vault_tokens \<Rightarrow> 'w vault_tokens \<Rightarrow> bool" where
  "time_passes http auths s s' \<longleftrightarrow>
     (\<exists>w'. s' = s\<lparr>tm_world := w'\<rparr> \<and> vh_now http (tm_world s) \<le> vh_now http w' \<and> auths w' = auths (tm_world s))"

lemma time_passes_refl: "time_passes http auths s s"
  unfolding time_passes_def by (intro exI [of _ "tm_world s"]) simp

definition in_period :: "'w vault_http \<Rightarrow> nat \<Rightarrow> nat \<Rightarrow> 'w vault_tokens \<Rightarrow> bool" where
  "in_period http t0 T s \<longleftrightarrow> one_holder s \<and> vh_now http (tm_world s) < t0 + T"

section \<open>One round of authentication\<close>

text \<open>The token, or the failure, dates from the period.\<close>

definition token_fresh :: "nat \<Rightarrow> nat \<Rightarrow> 'w vault_tokens \<Rightarrow> bool" where
  "token_fresh t0 T s \<longleftrightarrow> tm_lease_duration s = 0 \<or> t0 \<le> tm_issued_at s \<and> T \<le> safe_window (tm_lease_duration s)"

definition failure_fresh :: "nat \<Rightarrow> 'w vault_tokens \<Rightarrow> bool" where
  "failure_fresh t0 s \<longleftrightarrow> (\<exists>f. tm_last_failure s = Some f \<and> t0 \<le> f)"

definition settled :: "'w vault_http \<Rightarrow> ('w \<Rightarrow> nat) \<Rightarrow> nat \<Rightarrow> nat \<Rightarrow> nat \<Rightarrow> 'w vault_tokens \<Rightarrow> bool" where
  "settled http auths t0 T a0 s \<longleftrightarrow>
     t0 \<le> vh_now http (tm_world s)
     \<and> (auths (tm_world s) = a0 \<or> auths (tm_world s) \<le> a0 + 2 \<and> (token_fresh t0 T s \<or> failure_fresh t0 s))"

definition lock_held :: "'w vault_tokens \<Rightarrow> bool" where
  "lock_held s \<longleftrightarrow> tm_renewal_lock s = 1"

definition round_free :: "'w vault_http \<Rightarrow> ('w \<Rightarrow> nat) \<Rightarrow> nat \<Rightarrow> nat \<Rightarrow> nat \<Rightarrow> 'w vault_tokens \<Rightarrow> bool" where
  "round_free http auths t0 T a0 s \<longleftrightarrow> tm_renewal_lock s = 0 \<and> settled http auths t0 T a0 s"

definition one_round :: "('w \<Rightarrow> nat) \<Rightarrow> nat \<Rightarrow> 'w vault_tokens \<Rightarrow> bool" where
  "one_round auths a0 s \<longleftrightarrow> auths (tm_world s) \<le> a0 + 2"

locale token_period =
  fixes http :: "'w vault_http" and auths :: "'w \<Rightarrow> nat" and t0 T a0 :: nat
  assumes counts: "counts_auths http auths" and leases: "leases_last http T" and T: "T \<le> FAILURE_COOLDOWN"
begin

sublocale mutex lock_held "time_passes http auths" "in_period http t0 T" "round_free http auths t0 T a0" "one_round auths a0"
proof unfold_locales
  show "time_passes http auths s s" for s by (rule time_passes_refl)
qed (auto simp: time_passes_def settled_def token_fresh_def failure_fresh_def lock_held_def round_free_def one_round_def)

text \<open>Assertions of the critical section: it holds the mutex in the period, and \<open>n\<close> requests at most were sent.\<close>

definition at_most :: "nat \<Rightarrow> 'w vault_tokens \<Rightarrow> bool" where
  "at_most n s \<longleftrightarrow> lock_held s \<and> t0 \<le> vh_now http (tm_world s) \<and> auths (tm_world s) \<le> n"

text \<open>The requests so far are accounted for; \<open>open_round\<close> is also what the section must restore.\<close>

definition open_round :: "'w vault_tokens \<Rightarrow> bool" where
  "open_round s \<longleftrightarrow> lock_held s \<and> settled http auths t0 T a0 s"

lemma passes_fields:
  "time_passes http auths s t \<Longrightarrow>
     (lock_held t \<longleftrightarrow> lock_held s) \<and> tm_issued_at t = tm_issued_at s \<and> tm_lease_duration t = tm_lease_duration s
     \<and> tm_last_failure t = tm_last_failure s
     \<and> vh_now http (tm_world s) \<le> vh_now http (tm_world t) \<and> auths (tm_world t) = auths (tm_world s)"
  by (auto simp: time_passes_def lock_held_def)

lemma passes_at_most: "time_passes http auths s t \<Longrightarrow> at_most n s \<Longrightarrow> at_most n t"
  using passes_fields [of s t] by (auto simp: at_most_def)

lemma passes_open_round: "time_passes http auths s t \<Longrightarrow> open_round s \<Longrightarrow> open_round t"
  using passes_fields [of s t] by (auto simp: open_round_def settled_def token_fresh_def failure_fresh_def)

lemma passes_fresh:
  "time_passes http auths s t \<Longrightarrow> token_fresh t0 T t \<longleftrightarrow> token_fresh t0 T s"
  "time_passes http auths s t \<Longrightarrow> failure_fresh t0 t \<longleftrightarrow> failure_fresh t0 s"
  using passes_fields [of s t] by (auto simp: token_fresh_def failure_fresh_def)

lemma open_round_inv: "open_round s \<Longrightarrow> lock_held s \<and> one_round auths a0 s"
  by (auto simp: open_round_def settled_def one_round_def)

lemma closes_round: "at_most (a0 + 2) s \<Longrightarrow> token_fresh t0 T s \<or> failure_fresh t0 s \<Longrightarrow> open_round s"
  by (auto simp: at_most_def open_round_def settled_def)

lemma part_if:
  "(b \<Longrightarrow> part P p Q ty) \<Longrightarrow> (\<not> b \<Longrightarrow> part P q Q ty) \<Longrightarrow> part P (if b then p else q) Q ty"
  by simp

lemma unless_safe_part:
  assumes "part (\<lambda>s. open_round s \<and> \<not> token_fresh t0 T s) k (\<lambda>_. open_round) ty"
  shows "part open_round (unless_safe http k) (\<lambda>_. open_round) ty"
  unfolding unless_safe_def
proof (rule part_pbind [OF _ part_pbind])
  show "part open_round (read_elapsed http)
      (\<lambda>e s. open_round s \<and> (token_fresh t0 T s \<longrightarrow> tm_lease_duration s = 0 \<or> e < safe_window (tm_lease_duration s))) ty"
    unfolding read_elapsed_def
  proof (rule part_call, safe)
    fix s t assume s: "open_round s" "time_passes http auths s t"
    then have t: "open_round t" by (rule passes_open_round [rotated])
    then show "one_round auths a0 t" using open_round_inv by blast
    assume p: "in_period http t0 T (snd (vh_now http (tm_world t) - tm_issued_at t, t))"
    show "lock_held (snd (vh_now http (tm_world t) - tm_issued_at t, t))" using t by (simp add: open_round_def)
    show "open_round (snd (vh_now http (tm_world t) - tm_issued_at t, t))" using t by simp
    assume "token_fresh t0 T (snd (vh_now http (tm_world t) - tm_issued_at t, t))"
    then show "\<not> fst (vh_now http (tm_world t) - tm_issued_at t, t)
        < safe_window (tm_lease_duration (snd (vh_now http (tm_world t) - tm_issued_at t, t)))
      \<Longrightarrow> tm_lease_duration (snd (vh_now http (tm_world t) - tm_issued_at t, t)) = 0"
      using p t by (auto simp: token_fresh_def in_period_def open_round_def settled_def)
  qed
  fix e
  show "part (\<lambda>s. open_round s \<and> (token_fresh t0 T s \<longrightarrow> tm_lease_duration s = 0 \<or> e < safe_window (tm_lease_duration s)))
      (call (\<lambda>s. (tm_lease_duration s, s))) (\<lambda>ttl s. open_round s \<and> (token_fresh t0 T s \<longrightarrow> ttl = 0 \<or> e < safe_window ttl)) ty"
    by (rule part_call)
      (use passes_fields passes_open_round passes_fresh open_round_inv in \<open>force simp: open_round_def\<close>)
  fix ttl
  show "part (\<lambda>s. open_round s \<and> (token_fresh t0 T s \<longrightarrow> ttl = 0 \<or> e < safe_window ttl))
      (if ttl = 0 \<or> e < safe_window ttl then Ret (Inr ()) else k) (\<lambda>_. open_round) ty"
    by (rule part_if) (auto intro: part_Ret part_weaken [OF assms])
qed

lemma unless_cooling_part:
  assumes "part (at_most a0) k (\<lambda>_. open_round) ty"
  shows "part (\<lambda>s. open_round s \<and> \<not> token_fresh t0 T s) (unless_cooling http k) (\<lambda>_. open_round) ty"
  unfolding unless_cooling_def
proof (rule part_pbind)
  let ?f = "\<lambda>s. (case tm_last_failure s of None \<Rightarrow> False | Some f \<Rightarrow> vh_now http (tm_world s) - f < FAILURE_COOLDOWN, s)"
  show "part (\<lambda>s. open_round s \<and> \<not> token_fresh t0 T s) (call ?f)
      (\<lambda>cooling s. open_round s \<and> \<not> token_fresh t0 T s \<and> (failure_fresh t0 s \<longrightarrow> cooling)) ty"
  proof (rule part_call)
    fix s t assume s: "open_round s \<and> \<not> token_fresh t0 T s" "time_passes http auths s t"
    then have t: "open_round t" "\<not> token_fresh t0 T t" using passes_open_round passes_fresh by blast+
    have "failure_fresh t0 t \<longrightarrow> fst (?f t)" if "in_period http t0 T t"
      using that T by (auto simp: failure_fresh_def in_period_def FAILURE_COOLDOWN_def)
    then show "one_round auths a0 t \<and> (in_period http t0 T (snd (?f t)) \<longrightarrow> lock_held (snd (?f t))
        \<and> open_round (snd (?f t)) \<and> \<not> token_fresh t0 T (snd (?f t)) \<and> (failure_fresh t0 (snd (?f t)) \<longrightarrow> fst (?f t)))"
      using t open_round_inv by simp
  qed
  fix cooling
  show "part (\<lambda>s. open_round s \<and> \<not> token_fresh t0 T s \<and> (failure_fresh t0 s \<longrightarrow> cooling))
     (if cooling then Ret (Inl (StorageBackend ''vault authentication in cooldown backoff after recent failure'')) else k)
     (\<lambda>_. open_round) ty"
    by (rule part_if; (rule part_Ret | rule part_weaken [OF assms])) (auto simp: at_most_def open_round_def settled_def)
qed

text \<open>Reads and writes of the fields of the manager.\<close>

lemma at_most_inv: "at_most n s \<Longrightarrow> n \<le> a0 + 2 \<Longrightarrow> lock_held s \<and> one_round auths a0 s"
  by (auto simp: at_most_def one_round_def)

lemma read_part:
  assumes "n \<le> a0 + 2" shows "part (at_most n) (call (\<lambda>s. (g s, s))) (\<lambda>_. at_most n) ty"
  by (rule part_call) (use assms passes_at_most at_most_inv in force)

lemma set_part:
  assumes "n \<le> a0 + 2" and "\<And>s t. at_most n s \<and> P s \<Longrightarrow> time_passes http auths s t \<Longrightarrow> at_most n t \<Longrightarrow> at_most n (h t) \<and> Q (h t)"
  shows "part (\<lambda>s. at_most n s \<and> P s) (call (\<lambda>s. ((), h s))) (\<lambda>_ s. at_most n s \<and> Q s) ty"
  by (rule part_call) (use assms passes_at_most at_most_inv in force)

definition granted :: "grant \<Rightarrow> bool" where
  "granted g \<longleftrightarrow> fst (snd g) = 0 \<or> T \<le> safe_window (fst (snd g))"

lemma at_most_upd [simp]:
  "at_most n (s\<lparr>tm_token := a\<rparr>) = at_most n s" "at_most n (s\<lparr>tm_issued_at := b\<rparr>) = at_most n s"
  "at_most n (s\<lparr>tm_lease_duration := c\<rparr>) = at_most n s" "at_most n (s\<lparr>tm_renewable := d\<rparr>) = at_most n s"
  "at_most n (s\<lparr>tm_last_failure := e\<rparr>) = at_most n s"
  by (simp_all add: at_most_def lock_held_def)

lemma read_now_part:
  assumes "n \<le> a0 + 2" shows "part (at_most n) (read_now http) (\<lambda>now s. at_most n s \<and> t0 \<le> now) ty"
  unfolding read_now_def by (rule part_call) (use assms passes_at_most at_most_inv in \<open>force simp: at_most_def\<close>)

lemma install_part:
  assumes n: "n \<le> a0 + 2" and g: "granted g"
  shows "part (at_most n) (install_token http g) (\<lambda>r s. r = Inr () \<and> at_most n s \<and> token_fresh t0 T s) ty"
proof -
  obtain token lease renewable where gs: "g = (token, lease, renewable)" by (cases g) auto
  have t: "part (at_most n) (call (\<lambda>s. ((), s\<lparr>tm_token := token\<rparr>))) (\<lambda>_. at_most n) ty"
    using set_part [OF n, of "\<lambda>_. True" "\<lambda>s. s\<lparr>tm_token := token\<rparr>" "\<lambda>_. True" ty] by simp
  have i: "part (\<lambda>s. at_most n s \<and> t0 \<le> now) (call (\<lambda>s. ((), s\<lparr>tm_issued_at := now\<rparr>)))
      (\<lambda>_ s. at_most n s \<and> t0 \<le> tm_issued_at s) ty" for now
    by (rule set_part [OF n]) simp
  have l: "part (\<lambda>s. at_most n s \<and> t0 \<le> tm_issued_at s) (call (\<lambda>s. ((), s\<lparr>tm_lease_duration := lease\<rparr>)))
      (\<lambda>_ s. at_most n s \<and> token_fresh t0 T s) ty"
    by (rule set_part [OF n]) (use g passes_fields in \<open>force simp: token_fresh_def granted_def gs\<close>)
  have r: "part (\<lambda>s. at_most n s \<and> token_fresh t0 T s) (call (\<lambda>s. ((), s\<lparr>tm_renewable := renewable\<rparr>)))
      (\<lambda>_ s. at_most n s \<and> token_fresh t0 T s) ty"
    by (rule set_part [OF n]) (use passes_fresh in \<open>force simp: token_fresh_def\<close>)
  show ?thesis
    unfolding install_token_def gs prod.case
    by (rule part_pbind [OF t part_pbind [OF read_now_part [OF n] part_pbind [OF i part_pbind [OF l part_pbind [OF r]]]]])
      (auto intro: part_Ret)
qed

lemma on_world_call: "on_world (call f) = call (\<lambda>s. case f (tm_world s) of (r, w) \<Rightarrow> (r, s\<lparr>tm_world := w\<rparr>))"
  by (simp add: call_def fun_eq_iff split: prod.splits)

lemma send_part:
  assumes "Suc n \<le> a0 + 2" and "vq_method q = VaultPost" "vq_body q \<notin> range KvEnvelope"
  shows "part (at_most n) (on_world (call (vh_send http q)))
    (\<lambda>r s. at_most (Suc n) s \<and> (\<forall>resp a. r = Inr resp \<longrightarrow> vr_auth resp = Inr a \<longrightarrow>
        granted (ad_client_token a, ad_lease_duration a, ad_renewable a))) ty"
  unfolding on_world_call
proof (rule part_call)
  fix s t assume s: "at_most n s" "time_passes http auths s t"
  then have t: "at_most n t" using passes_at_most by blast
  obtain r w where r: "vh_send http q (tm_world t) = (r, w)" by fastforce
  then have w: "auths w = auths (tm_world t) + 1" "vh_now http (tm_world t) \<le> vh_now http w"
    using counts assms(2,3) unfolding counts_auths_def by blast+
  show "one_round auths a0 t \<and> (in_period http t0 T (snd (case vh_send http q (tm_world t) of (r, w) \<Rightarrow> (r, t\<lparr>tm_world := w\<rparr>)))
      \<longrightarrow> lock_held (snd (case vh_send http q (tm_world t) of (r, w) \<Rightarrow> (r, t\<lparr>tm_world := w\<rparr>)))
        \<and> at_most (Suc n) (snd (case vh_send http q (tm_world t) of (r, w) \<Rightarrow> (r, t\<lparr>tm_world := w\<rparr>)))
        \<and> (\<forall>resp a. fst (case vh_send http q (tm_world t) of (r, w) \<Rightarrow> (r, t\<lparr>tm_world := w\<rparr>)) = Inr resp \<longrightarrow> vr_auth resp = Inr a \<longrightarrow>
             granted (ad_client_token a, ad_lease_duration a, ad_renewable a)))"
    using t w r assms(1) leases at_most_inv [OF t] by (auto simp: at_most_def lock_held_def leases_last_def granted_def)
qed

lemma on_world_pbind: "on_world (pbind p k) = pbind (on_world p) (\<lambda>x. on_world (k x))"
proof (induction p)
  case (Step f)
  have "on_world (pbind (fst (f w)) k) = pbind (on_world (fst (f w))) (\<lambda>x. on_world (k x))" for w
    by (rule Step.IH [of "f w"]) (auto simp: fsts.simps)
  then show ?case by simp
qed simp

lemma read_file_part:
  assumes "n \<le> a0 + 2" shows "part (at_most n) (on_world (call (vh_read_to_string http path))) (\<lambda>_. at_most n) ty"
  unfolding on_world_call
proof (rule part_call)
  fix s t assume s: "at_most n s" "time_passes http auths s t"
  then have t: "at_most n t" using passes_at_most by blast
  obtain r w where r: "vh_read_to_string http path (tm_world t) = (r, w)" by fastforce
  then have "auths w = auths (tm_world t)" "vh_now http (tm_world t) \<le> vh_now http w"
    using counts unfolding counts_auths_def by blast+
  then show "one_round auths a0 t
      \<and> (in_period http t0 T (snd (case vh_read_to_string http path (tm_world t) of (r, w) \<Rightarrow> (r, t\<lparr>tm_world := w\<rparr>)))
      \<longrightarrow> lock_held (snd (case vh_read_to_string http path (tm_world t) of (r, w) \<Rightarrow> (r, t\<lparr>tm_world := w\<rparr>)))
        \<and> at_most n (snd (case vh_read_to_string http path (tm_world t) of (r, w) \<Rightarrow> (r, t\<lparr>tm_world := w\<rparr>))))"
    using t r assms at_most_inv [OF t] by (auto simp: at_most_def lock_held_def)
qed

lemma part_case_sum:
  "(\<And>e. r = Inl e \<Longrightarrow> part P (f e) Q ty) \<Longrightarrow> (\<And>x. r = Inr x \<Longrightarrow> part P (g x) Q ty) \<Longrightarrow>
   part P (case r of Inl e \<Rightarrow> f e | Inr x \<Rightarrow> g x) Q ty"
  by (cases r) auto

lemma login_body_part:
  assumes "n \<le> a0 + 2"
  shows "part (at_most n) (on_world (login_body http backend)) (\<lambda>r s. at_most n s \<and> (\<forall>b. r = Inr b \<longrightarrow> b \<notin> range KvEnvelope)) ty"
  by (cases backend)
    (auto simp: login_body_def on_world_pbind Let_def
      intro!: part_Ret part_pbind [OF read_file_part [OF assms]] split: sum.splits if_splits)

lemma login_part:
  assumes "Suc n \<le> a0 + 2"
  shows "part (at_most n) (on_world (backend_login http addr namespace backend))
    (\<lambda>r s. at_most (Suc n) s \<and> (\<forall>g. r = Inr g \<longrightarrow> granted g)) ty"
proof -
  have "part (\<lambda>s. at_most n s \<and> (\<forall>b. r = Inr b \<longrightarrow> b \<notin> range KvEnvelope))
     (on_world (case r of Inl e \<Rightarrow> Ret (Inl e) | Inr body \<Rightarrow> perform_login http url body namespace m))
     (\<lambda>r s. at_most (Suc n) s \<and> (\<forall>g. r = Inr g \<longrightarrow> granted g)) ty" for r url m
  proof (cases r)
    case (Inl e)
    then show ?thesis by (auto intro!: part_Ret simp: at_most_def)
  next
    case (Inr body)
    show ?thesis
    proof (cases "body \<in> range KvEnvelope")
      case True
      then show ?thesis using Inr by (auto simp: part_def)
    next
      case False
      then show ?thesis
        unfolding Inr sum.case perform_login_def on_world_pbind
        by (intro part_weaken [OF part_pbind [OF send_part [OF assms]]] allI)
          (auto intro!: part_Ret simp: Let_def split: sum.splits if_splits)
    qed
  qed
  then show ?thesis
    unfolding backend_login_def Let_def stry_def on_world_pbind
    by (intro part_pbind [OF login_body_part]) (use assms in auto)
qed

lemma login_again_part:
  assumes "Suc n \<le> a0 + 2"
  shows "part (at_most n) (login_again http addr namespace backend) (\<lambda>_. open_round) ty"
proof -
  have le: "Suc n \<le> a0 + 2" using assms .
  have grow: "at_most (Suc n) s \<Longrightarrow> at_most (a0 + 2) s" for s using le by (auto simp: at_most_def)
  have relog: "part (at_most n) (re_login http addr namespace backend)
      (\<lambda>r s. at_most (Suc n) s \<and> (r = Inr () \<longrightarrow> token_fresh t0 T s)) ty"
    unfolding re_login_def stry_def
    by (rule part_pbind [OF login_part [OF assms]])
      (auto simp: part_def intro: part_Ret partD [OF install_part [OF le]] split: sum.splits)
  have ok: "part (\<lambda>s. at_most (Suc n) s \<and> token_fresh t0 T s) (set_last_failure None)
      (\<lambda>_ s. at_most (Suc n) s \<and> token_fresh t0 T s) ty"
    unfolding set_last_failure_def by (rule set_part [OF le]) (use passes_fresh in \<open>force simp: token_fresh_def\<close>)
  have err: "part (\<lambda>s. at_most (Suc n) s \<and> t0 \<le> now) (set_last_failure (Some now))
      (\<lambda>_ s. at_most (Suc n) s \<and> failure_fresh t0 s) ty" for now
    unfolding set_last_failure_def by (rule set_part [OF le]) (simp add: failure_fresh_def)
  show ?thesis
    unfolding login_again_def
  proof (rule part_pbind [OF relog part_case_sum])
    fix r e assume "r = (Inl e :: storage_error + unit)"
    then show "part (\<lambda>s. at_most (Suc n) s \<and> (r = Inr () \<longrightarrow> token_fresh t0 T s))
        (pbind (read_now http) (\<lambda>now. pbind (set_last_failure (Some now)) (\<lambda>_. Ret (Inl e)))) (\<lambda>_. open_round) ty"
      by (intro part_weaken [OF part_pbind [OF read_now_part [OF le] part_pbind [OF err]]])
        (auto intro: part_Ret closes_round grow)
  next
    fix r x assume "r = (Inr x :: storage_error + unit)"
    then show "part (\<lambda>s. at_most (Suc n) s \<and> (r = Inr () \<longrightarrow> token_fresh t0 T s))
        (pbind (set_last_failure None) (\<lambda>_. Ret (Inr ()))) (\<lambda>_. open_round) ty"
      by (intro part_weaken [OF part_pbind [OF ok]]) (auto intro: part_Ret closes_round grow)
  qed
qed

lemma try_renew_part:
  "part (at_most a0) (try_renew http addr namespace)
    (\<lambda>r s. at_most (Suc a0) s \<and> (r = Inr () \<longrightarrow> token_fresh t0 T s)) ty"
  unfolding try_renew_def
proof (rule part_pbind [OF read_part part_pbind [OF send_part part_case_sum]])
  fix sent resp
  show "part (\<lambda>s. at_most (Suc a0) s \<and> (\<forall>resp a. sent = Inr resp \<longrightarrow> vr_auth resp = Inr a \<longrightarrow>
        granted (ad_client_token a, ad_lease_duration a, ad_renewable a)))
     (if is_success (vr_status resp)
      then case vr_auth resp of Inl e \<Rightarrow> Ret (Inl (StorageBackend e))
           | Inr auth \<Rightarrow> install_token http (ad_client_token auth, ad_lease_duration auth, ad_renewable auth)
      else Ret (Inl (StorageBackend (''token renewal failed: HTTP '' @ vh_status_text http (vr_status resp) @ '': '' @ vr_text resp))))
     (\<lambda>r s. at_most (Suc a0) s \<and> (r = Inr () \<longrightarrow> token_fresh t0 T s)) ty" if "sent = Inr resp"
  proof (rule part_if [OF part_case_sum])
    fix auth assume a: "vr_auth resp = Inr auth"
    show "part (\<lambda>s. at_most (Suc a0) s \<and> (\<forall>resp a. sent = Inr resp \<longrightarrow> vr_auth resp = Inr a \<longrightarrow>
        granted (ad_client_token a, ad_lease_duration a, ad_renewable a)))
      (install_token http (ad_client_token auth, ad_lease_duration auth, ad_renewable auth))
      (\<lambda>r s. at_most (Suc a0) s \<and> (r = Inr () \<longrightarrow> token_fresh t0 T s)) ty"
    proof (cases "granted (ad_client_token auth, ad_lease_duration auth, ad_renewable auth)")
      case True
      then show ?thesis by (intro part_weaken [OF install_part [OF _ True, of "Suc a0"]]) auto
    next
      case False
      then show ?thesis using a that by (auto simp: part_def)
    qed
  qed (auto intro: part_Ret)
qed (auto intro: part_Ret)

lemma renew_token_part: "part (at_most a0) (renew_token http addr namespace backend) (\<lambda>_. open_round) ty"
proof -
  have ok: "part (\<lambda>s. at_most (Suc a0) s \<and> token_fresh t0 T s) (set_last_failure None)
      (\<lambda>_ s. at_most (Suc a0) s \<and> token_fresh t0 T s) ty"
    unfolding set_last_failure_def by (rule set_part) (use passes_fresh in \<open>auto simp: token_fresh_def\<close>)
  have again: "part (at_most n) (login_again http addr namespace backend) (\<lambda>_. open_round) ty" if "n \<le> Suc a0" for n
    using login_again_part [of n addr namespace backend ty] that by simp
  have renewed: "part (\<lambda>s. at_most (Suc a0) s \<and> (r = Inr () \<longrightarrow> token_fresh t0 T s))
      (case r of Inr _ \<Rightarrow> pbind (set_last_failure None) (\<lambda>_. Ret (Inr ())) | Inl _ \<Rightarrow> login_again http addr namespace backend)
      (\<lambda>_. open_round) ty" for r :: "storage_error + unit"
  proof (rule part_case_sum)
    show "part (\<lambda>s. at_most (Suc a0) s \<and> (r = Inr () \<longrightarrow> token_fresh t0 T s)) (login_again http addr namespace backend)
        (\<lambda>_. open_round) ty"
      by (rule part_weaken [OF again [of "Suc a0"]]) auto
    show "part (\<lambda>s. at_most (Suc a0) s \<and> (r = Inr () \<longrightarrow> token_fresh t0 T s)) (pbind (set_last_failure None) (\<lambda>_. Ret (Inr ())))
        (\<lambda>_. open_round) ty" if "r = Inr x" for x
      using that by (intro part_weaken [OF part_pbind [OF ok part_Ret]]) (auto intro!: closes_round simp: at_most_def)
  qed
  show ?thesis
    unfolding renew_token_def
    by (rule part_pbind [OF read_part part_if [OF part_pbind [OF try_renew_part renewed] again]]) simp_all
qed

lemma ensure_valid_outer: "outer (ensure_valid http addr namespace backend)"
proof -
  let ?section = "unless_safe http (unless_cooling http (renew_token http addr namespace backend))"
  have body: "part open_round ?section (\<lambda>_. open_round) ty" for ty
    by (rule unless_safe_part [OF unless_cooling_part [OF renew_token_part]])
  have unlock: "inner (pbind (call (\<lambda>s. ((), s\<lparr>tm_renewal_lock := tm_renewal_lock s - 1\<rparr>))) (\<lambda>_. Ret r)) s"
    if "open_round s" for r :: "storage_error + unit" and s
    unfolding call_def
  proof (simp, rule inner_Step, intro conjI impI disjI2)
    fix t assume "time_passes http auths s t"
    with that have t: "open_round t" by (rule passes_open_round [rotated])
    then show "one_round auths a0 t" using open_round_inv by blast
    show "\<not> lock_held (snd (Ret r, t\<lparr>tm_renewal_lock := tm_renewal_lock t - Suc 0\<rparr>))"
      "round_free http auths t0 T a0 (snd (Ret r, t\<lparr>tm_renewal_lock := tm_renewal_lock t - Suc 0\<rparr>))"
      using t by (simp_all add: round_free_def open_round_def settled_def lock_held_def token_fresh_def failure_fresh_def)
    show "outer (fst (Ret r, t\<lparr>tm_renewal_lock := tm_renewal_lock t - Suc 0\<rparr>))" by (simp add: outer_Ret)
  qed
  have "outer (with_renewal_lock ?section)"
    unfolding with_renewal_lock_def call_def
  proof (simp, rule outer_Step, simp)
    fix s assume s: "\<not> lock_held s \<longrightarrow> round_free http auths t0 T a0 s"
      and within: "in_period http t0 T (s\<lparr>tm_renewal_lock := Suc (tm_renewal_lock s)\<rparr>)"
    then have "tm_renewal_lock s = 0" by (simp add: in_period_def one_holder_def)
    then have r: "open_round (s\<lparr>tm_renewal_lock := Suc (tm_renewal_lock s)\<rparr>)" "\<not> lock_held s"
      using s by (auto simp: open_round_def round_free_def settled_def lock_held_def token_fresh_def failure_fresh_def)
    have "inner (pbind ?section (\<lambda>r. Step (\<lambda>s. (Ret r, s\<lparr>tm_renewal_lock := tm_renewal_lock s - Suc 0\<rparr>))))
        (s\<lparr>tm_renewal_lock := Suc (tm_renewal_lock s)\<rparr>)"
      by (rule partD [OF body r(1)]) (use unlock in \<open>simp add: call_def\<close>)
    then show "s\<lparr>tm_renewal_lock := Suc (tm_renewal_lock s)\<rparr> = s
        \<and> outer (pbind ?section (\<lambda>r. Step (\<lambda>s. (Ret r, s\<lparr>tm_renewal_lock := tm_renewal_lock s - Suc 0\<rparr>))))
      \<or> \<not> lock_held s \<and> lock_held (s\<lparr>tm_renewal_lock := Suc (tm_renewal_lock s)\<rparr>)
        \<and> inner (pbind ?section (\<lambda>r. Step (\<lambda>s. (Ret r, s\<lparr>tm_renewal_lock := tm_renewal_lock s - Suc 0\<rparr>))))
            (s\<lparr>tm_renewal_lock := Suc (tm_renewal_lock s)\<rparr>)"
      using r by (simp add: open_round_def)
  qed
  then show ?thesis
    unfolding ensure_valid_def unless_safe_def [of http "with_renewal_lock p" for p] read_elapsed_def
    by (intro outer_read) (simp add: outer_Ret)
qed

lemma one_round_only:
  assumes "(pool_step (time_passes http auths) (in_period http t0 T))\<^sup>*\<^sup>* (s, replicate n (ensure_valid http addr namespace backend)) (s', ps')"
    and "tm_renewal_lock s = 0" "t0 \<le> vh_now http (tm_world s)" "auths (tm_world s) = a0"
  shows "auths (tm_world s') \<le> a0 + 2
    \<and> (tm_renewal_lock s' = 0 \<longrightarrow> auths (tm_world s') = a0 \<or> token_fresh t0 T s' \<or> failure_fresh t0 s')"
  using pool_keeps_inv [OF assms(1)] assms(2-4) ensure_valid_outer
  by (auto simp: lock_held_def round_free_def settled_def one_round_def)

end

section \<open>No stampede\<close>

text \<open>
  C7. Renewal without a stampede. Let any number of requests ask for a valid token, interleaved in any
  way with each other and with whatever else happens, within a period no longer than the cool-down
  after a failure and than the safe window of the leases the server grants. Then together they send
  at most two authentication requests, one renewal and one login, and once the mutex is free again
  after any was sent, the token or the recorded failure dates from the period.
\<close>

theorem one_authentication_round:
  assumes "counts_auths http auths" and "leases_last http T" and "T \<le> FAILURE_COOLDOWN" and "tm_renewal_lock s = 0"
    and "(pool_step (time_passes http auths) (in_period http (vh_now http (tm_world s)) T))\<^sup>*\<^sup>*
           (s, replicate n (ensure_valid http addr namespace backend)) (s', ps')"
  shows "auths (tm_world s') \<le> auths (tm_world s) + 2
    \<and> (tm_renewal_lock s' = 0 \<longrightarrow> auths (tm_world s') = auths (tm_world s)
         \<or> token_fresh (vh_now http (tm_world s)) T s' \<or> failure_fresh (vh_now http (tm_world s)) s')"
  by (rule token_period.one_round_only [OF _ assms(5,4)]) (use assms(1-3) in \<open>auto simp: token_period_def\<close>)

lemma safe_window_60: "safe_window 60 = 48000000000"
proof -
  have "round_half_even (float_round 53 (float_round 53 60 * RENEW_MARGIN) * 10 ^ 9) = 48000000000" by code_simp
  then show ?thesis by (simp add: safe_window_def)
qed

lemma vault_table_counts: "counts_auths (vault_table vc) snd"
  by (auto simp: counts_auths_def vault_table_def split: vault_body.splits)

lemma vault_table_leases: "leases_last (vault_table vc) FAILURE_COOLDOWN"
  by (auto simp: leases_last_def vault_table_def vault_answer_def safe_window_60 FAILURE_COOLDOWN_def
      split: vault_body.splits vault_method.splits option.splits if_splits)

interpretation sample_period: token_period "vault_table vc" snd t0 FAILURE_COOLDOWN a0 for vc t0 a0
  by unfold_locales (simp_all add: vault_table_counts vault_table_leases)

text \<open>Two requests that both find the token due: both read first, the first renews, the second goes on.\<close>

definition sample_vault :: vault_client where
  "sample_vault = \<lparr>vk_addr = ''http://v'', vk_mount = ''kv'', vk_path_prefix = [], vk_namespace = None\<rparr>"

definition due_token :: "((string \<rightharpoonup> string) \<times> nat) vault_tokens" where
  "due_token = \<lparr>tm_world = (Map.empty, 0), tm_token = ''old'', tm_issued_at = 0, tm_lease_duration = 60, tm_renewable = True,
     tm_renewal_lock = 0, tm_last_failure = None\<rparr>"

definition sample_request :: "(((string \<rightharpoonup> string) \<times> nat) vault_tokens, storage_error + unit) proc" where
  "sample_request = ensure_valid (vault_table sample_vault) ''http://v'' None (AppRoleBackend ''r'' ''s'' ''approle'')"

definition sample_turns :: "nat list" where
  "sample_turns = [0, 0, 1, 1, 0, 0, 0, 0, 0, 0, 0, 0, 0, 0, 0, 0, 0, 0, 1, 1, 1, 1]"

lemma vault_table_now: "vh_now (vault_table vc) w = 100000000000"
  by (simp add: vault_table_def)

lemma vault_table_login:
  "vh_send (vault_table vc) \<lparr>vq_method = VaultPost, vq_url = u, vq_token = t, vq_namespace = ns, vq_body = NoBody\<rparr> (m, k) =
     (Inr \<lparr>vr_status = 200, vr_auth = Inr \<lparr>ad_client_token = ''token'', ad_lease_duration = 60, ad_renewable = True\<rparr>,
           vr_kv = Inl [], vr_text = []\<rparr>, m, Suc k)"
  by (simp add: vault_table_def)

lemmas request_steps =
  sample_request_def ensure_valid_def unless_safe_def read_elapsed_def with_renewal_lock_def unless_cooling_def
  renew_token_def try_renew_def install_token_def read_now_def set_last_failure_def call_def

lemma two_requests_run:
  "schedule_within (in_period (vault_table sample_vault) 100000000000 FAILURE_COOLDOWN) sample_turns (due_token, [sample_request, sample_request])"
  by (simp add: request_steps sample_turns_def due_token_def vault_table_now vault_table_login safe_window_60
      in_period_def one_holder_def FAILURE_COOLDOWN_def is_success_def)

lemma two_requests_end:
  "schedule sample_turns (due_token, [sample_request, sample_request]) =
     (due_token\<lparr>tm_world := (Map.empty, 1), tm_token := ''token'', tm_issued_at := 100000000000\<rparr>, [Ret (Inr ()), Ret (Inr ())])"
  by (simp add: request_steps sample_turns_def due_token_def vault_table_now vault_table_login safe_window_60 is_success_def)

lemma interleave_pool:
  "(interleave bound)\<^sup>*\<^sup>* c c' \<Longrightarrow> (pool_step env bound)\<^sup>*\<^sup>* c c'"
  by (induction rule: rtranclp_induct) (auto intro: pool_process rtranclp.rtrancl_into_rtrancl)

theorem one_authentication_round_witness:
  "schedule sample_turns (due_token, replicate 2 sample_request) =
     (due_token\<lparr>tm_world := (Map.empty, 1), tm_token := ''token'', tm_issued_at := 100000000000\<rparr>, [Ret (Inr ()), Ret (Inr ())])
   \<and> snd (tm_world (due_token\<lparr>tm_world := (Map.empty, 1), tm_token := ''token'', tm_issued_at := 100000000000\<rparr>))
       \<le> snd (tm_world due_token) + 2
   \<and> token_fresh 100000000000 FAILURE_COOLDOWN
       (due_token\<lparr>tm_world := (Map.empty, 1), tm_token := ''token'', tm_issued_at := 100000000000\<rparr>)"
proof -
  let ?s = "due_token\<lparr>tm_world := (Map.empty, 1), tm_token := ''token'', tm_issued_at := 100000000000\<rparr>"
  have two: "replicate 2 sample_request = [sample_request, sample_request]" by (simp add: numeral_2_eq_2)
  have run: "(pool_step (time_passes (vault_table sample_vault) snd)
      (in_period (vault_table sample_vault) (vh_now (vault_table sample_vault) (tm_world due_token)) FAILURE_COOLDOWN))\<^sup>*\<^sup>*
      (due_token, replicate 2 sample_request) (?s, [Ret (Inr ()), Ret (Inr ())])"
    using interleave_pool [OF schedule_interleave [OF two_requests_run]] by (simp add: two_requests_end two vault_table_now)
  have "snd (tm_world ?s) \<le> snd (tm_world due_token) + 2
    \<and> (tm_renewal_lock ?s = 0 \<longrightarrow> snd (tm_world ?s) = snd (tm_world due_token)
         \<or> token_fresh (vh_now (vault_table sample_vault) (tm_world due_token)) FAILURE_COOLDOWN ?s
         \<or> failure_fresh (vh_now (vault_table sample_vault) (tm_world due_token)) ?s)"
    by (rule one_authentication_round [OF vault_table_counts vault_table_leases _ _ run [unfolded sample_request_def]])
      (simp_all add: due_token_def)
  then show ?thesis using two_requests_end two
    by (simp add: due_token_def failure_fresh_def vault_table_now)
qed

section \<open>One request alone\<close>

definition in_window :: "'w vault_http \<Rightarrow> 'w vault_tokens \<Rightarrow> bool" where
  "in_window http s \<longleftrightarrow>
     tm_lease_duration s = 0 \<or> vh_now http (tm_world s) - tm_issued_at s < safe_window (tm_lease_duration s)"

definition cooling_down :: "'w vault_http \<Rightarrow> 'w vault_tokens \<Rightarrow> bool" where
  "cooling_down http s \<longleftrightarrow>
     (case tm_last_failure s of None \<Rightarrow> False | Some f \<Rightarrow> vh_now http (tm_world s) - f < FAILURE_COOLDOWN)"

text \<open>The server granted this token just now.\<close>

definition grants :: "'w vault_http \<Rightarrow> grant \<Rightarrow> bool" where
  "grants http g \<longleftrightarrow>
     (\<exists>q w resp w' a. vh_send http q w = (Inr resp, w') \<and> is_success (vr_status resp) \<and> vr_auth resp = Inr a
        \<and> g = (ad_client_token a, ad_lease_duration a, ad_renewable a))"

definition new_grant :: "'w vault_http \<Rightarrow> 'w vault_tokens \<Rightarrow> bool" where
  "new_grant http s \<longleftrightarrow>
     grants http (tm_token s, tm_lease_duration s, tm_renewable s) \<and> tm_issued_at s = vh_now http (tm_world s)"

definition same_token :: "'w vault_tokens \<Rightarrow> 'w vault_tokens \<Rightarrow> bool" where
  "same_token s s' \<longleftrightarrow>
     tm_token s' = tm_token s \<and> tm_issued_at s' = tm_issued_at s \<and> tm_lease_duration s' = tm_lease_duration s
     \<and> tm_renewable s' = tm_renewable s"

lemma run_stry [simp]:
  "run (stry p k) s = (case run p s of (Inl e, s') \<Rightarrow> (Inl e, s') | (Inr x, s') \<Rightarrow> run (k x) s')"
  by (simp add: stry_def split: prod.splits sum.splits)

lemma run_install_token:
  "run (install_token http (token, lease, renewable)) s =
     (Inr (), s\<lparr>tm_token := token, tm_issued_at := vh_now http (tm_world s), tm_lease_duration := lease, tm_renewable := renewable\<rparr>)"
  by (simp add: install_token_def read_now_def)

lemma login_granted:
  "run (backend_login http addr namespace backend) w = (Inr g, w') \<Longrightarrow> grants http g"
  unfolding grants_def
  by (force simp: backend_login_def perform_login_def Let_def split: prod.splits sum.splits if_splits)

definition renewed :: "'w vault_http \<Rightarrow> 'w vault_tokens \<Rightarrow> storage_error + unit \<Rightarrow> 'w vault_tokens \<Rightarrow> bool" where
  "renewed http s r s' \<longleftrightarrow>
     tm_renewal_lock s' = tm_renewal_lock s \<and> (case r of Inr _ \<Rightarrow> new_grant http s' | Inl _ \<Rightarrow> same_token s s')"

lemma install_renewed:
  "grants http g \<Longrightarrow> run (install_token http g) s = (r, s') \<Longrightarrow> tm_renewal_lock s' = tm_renewal_lock s \<and> r = Inr () \<and> new_grant http s'"
  by (cases g) (auto simp: run_install_token new_grant_def)

lemma re_login_result:
  assumes "run (re_login http addr namespace backend) s = (r, s')" shows "renewed http s r s'"
proof -
  obtain r0 w where l: "run (backend_login http addr namespace backend) (tm_world s) = (r0, w)" by fastforce
  show ?thesis
  proof (cases r0)
    case (Inr g)
    show ?thesis using assms l Inr install_renewed [OF login_granted [OF l [unfolded Inr]]]
      by (fastforce simp: re_login_def renewed_def)
  qed (use assms l in \<open>auto simp: re_login_def same_token_def renewed_def\<close>)
qed

lemma try_renew_result:
  assumes "run (try_renew http addr namespace) s = (r, s')" shows "renewed http s r s'"
proof -
  define q where "q = \<lparr>vq_method = VaultPost, vq_url = addr @ ''/v1/auth/token/renew-self'', vq_token = Some (tm_token s),
        vq_namespace = namespace, vq_body = NoBody\<rparr>"
  obtain sent w where w: "vh_send http q (tm_world s) = (sent, w)" by fastforce
  show ?thesis
  proof (cases "\<exists>resp a. sent = Inr resp \<and> is_success (vr_status resp) \<and> vr_auth resp = Inr a")
    case True
    then obtain resp a where a: "sent = Inr resp" "is_success (vr_status resp)" "vr_auth resp = Inr a" by blast
    then have "grants http (ad_client_token a, ad_lease_duration a, ad_renewable a)"
      using w unfolding grants_def by blast
    from install_renewed [OF this] show ?thesis
      using assms w a by (fastforce simp: try_renew_def q_def renewed_def)
  next
    case False
    then show ?thesis using assms w
      by (auto simp: try_renew_def q_def renewed_def same_token_def split: sum.splits if_splits)
  qed
qed

text \<open>Renewal and login end with the outcome recorded.\<close>

definition recorded_round :: "'w vault_http \<Rightarrow> 'w vault_tokens \<Rightarrow> storage_error + unit \<Rightarrow> 'w vault_tokens \<Rightarrow> bool" where
  "recorded_round http s r s' \<longleftrightarrow>
     renewed http s r s'
     \<and> tm_last_failure s' = (case r of Inr _ \<Rightarrow> None | Inl _ \<Rightarrow> Some (vh_now http (tm_world s')))"

lemma login_again_result:
  assumes "run (login_again http addr namespace backend) s = (r, s')" shows "recorded_round http s r s'"
proof -
  obtain r0 v where v: "run (re_login http addr namespace backend) s = (r0, v)" by fastforce
  show ?thesis using assms v re_login_result [OF v]
    by (cases r0) (auto simp: login_again_def set_last_failure_def read_now_def new_grant_def same_token_def renewed_def
        recorded_round_def)
qed

lemma renew_token_result:
  assumes "run (renew_token http addr namespace backend) s = (r, s')" shows "recorded_round http s r s'"
proof (cases "tm_renewable s")
  case True
  obtain r0 v where v: "run (try_renew http addr namespace) s = (r0, v)" by fastforce
  note res = try_renew_result [OF v]
  show ?thesis
  proof (cases r0)
    case (Inl e)
    then have "run (login_again http addr namespace backend) v = (r, s')" using assms v True by (simp add: renew_token_def)
    from login_again_result [OF this] show ?thesis using res Inl
      by (cases r) (auto simp: recorded_round_def renewed_def same_token_def)
  next
    case (Inr u)
    then show ?thesis using assms v True res
      by (auto simp: renew_token_def set_last_failure_def recorded_round_def renewed_def new_grant_def)
  qed
next
  case False
  then show ?thesis using assms login_again_result by (auto simp: renew_token_def)
qed

text \<open>
  What a request for a valid token gets. Within the safe window, which ends before the lease does,
  the token in use is kept and nothing is sent. Otherwise, if the last failure is less than five
  seconds old, the request is refused and nothing is sent; else the token is renewed or a new one
  obtained, with the data of the server's answer and the time of its arrival, or, if the server
  refuses both, the old token stays and the failure is recorded with its time.
\<close>

lemma ensure_valid_spec:
  "safe_window (Suc n) < Suc n * 10 ^ 9
   \<and> (case run (ensure_valid http addr namespace backend) s of (r, s') \<Rightarrow>
        if in_window http s then r = Inr () \<and> s' = s
        else if cooling_down http s then isl r \<and> s' = s
        else tm_renewal_lock s' = tm_renewal_lock s
          \<and> (case r of
               Inr _ \<Rightarrow> new_grant http s' \<and> tm_last_failure s' = None
             | Inl _ \<Rightarrow> same_token s s' \<and> tm_last_failure s' = Some (vh_now http (tm_world s'))))"
proof -
  define t where "t = s\<lparr>tm_renewal_lock := tm_renewal_lock s + 1\<rparr>"
  have lock: "t\<lparr>tm_renewal_lock := tm_renewal_lock t - 1\<rparr> = s" by (simp add: t_def)
  obtain r u where u: "run (renew_token http addr namespace backend) t = (r, u)" by fastforce
  have ev: "run (ensure_valid http addr namespace backend) s =
      (if in_window http s then (Inr (), s)
       else if cooling_down http s
       then (Inl (StorageBackend ''vault authentication in cooldown backoff after recent failure''), s)
       else (r, u\<lparr>tm_renewal_lock := tm_renewal_lock u - 1\<rparr>))"
    using u lock
    by (auto simp: ensure_valid_def unless_safe_def read_elapsed_def with_renewal_lock_def unless_cooling_def in_window_def
        cooling_down_def t_def split: option.splits)
  show ?thesis using renew_token_result [OF u] safe_window_before_expiry [of "Suc n"]
    by (cases r) (auto simp: ev t_def new_grant_def same_token_def recorded_round_def renewed_def)
qed

end
