(* ===== verification/Migrations.thy ===== *)
theory Migrations
  imports Sql_Store Handlers Text
begin

text \<open>
  Model of \<open>src/src/outbound/sql/migrations.rs\<close>: the schema changes and the two start-up checks of a
  MySQL server. The database is the record \<open>schema_db\<close>; what its statements mean is \<open>apply_ddl\<close>, on a
  schema with the rows of its tables.
\<close>

section \<open>Schemas\<close>

datatype column_type = StringColumn | JsonColumn | BigIntegerColumn

record column_def =
  co_name :: string
  co_type :: column_type
  co_not_null :: bool
  co_primary_key :: bool
  co_default :: "int option"

record foreign_key =
  fk_name :: string
  fk_from :: "string \<times> string"
  fk_to :: "string \<times> string"
  fk_on_delete_cascade :: bool
  fk_on_update_cascade :: bool

datatype cell = IntCell int | TextCell string

record table_schema =
  ts_columns :: "column_def list"
  ts_foreign_keys :: "foreign_key list"
  ts_engine :: "string option"
  ts_rows :: "(string \<rightharpoonup> cell) list"

record schema =
  sc_tables :: "string \<rightharpoonup> table_schema"
  sc_indexes :: "string \<rightharpoonup> string \<times> string list"

datatype ddl =
    CreateTable string "column_def list" "foreign_key list" "string option"
  | CreateIndex string string "string list"
  | DropIndex string string
  | DropTable string
  | AddColumn string column_def
  | DropColumn string string
  | UpdateAll string string int

text \<open>Tables and indexes are created if they do not exist and dropped if they exist.\<close>

definition change_table :: "string \<Rightarrow> (table_schema \<Rightarrow> table_schema) \<Rightarrow> schema \<Rightarrow> schema" where
  "change_table t f sc =
     (case sc_tables sc t of
        Some ts \<Rightarrow> sc\<lparr>sc_tables := (sc_tables sc)(t \<mapsto> f ts)\<rparr>
      | None \<Rightarrow> sc)"

fun apply_ddl :: "ddl \<Rightarrow> schema \<Rightarrow> schema" where
  "apply_ddl (CreateTable t cols fks engine) sc =
     (case sc_tables sc t of
        Some _ \<Rightarrow> sc
      | None \<Rightarrow> sc\<lparr>sc_tables := (sc_tables sc)(t \<mapsto>
          \<lparr>ts_columns = cols, ts_foreign_keys = fks, ts_engine = engine, ts_rows = []\<rparr>)\<rparr>)"
| "apply_ddl (CreateIndex i t cols) sc =
     (case sc_indexes sc i of
        Some _ \<Rightarrow> sc
      | None \<Rightarrow> sc\<lparr>sc_indexes := (sc_indexes sc)(i \<mapsto> (t, cols))\<rparr>)"
| "apply_ddl (DropIndex i t) sc = sc\<lparr>sc_indexes := (sc_indexes sc)(i := None)\<rparr>"
| "apply_ddl (DropTable t) sc =
     sc\<lparr>sc_tables := (sc_tables sc)(t := None),
        sc_indexes := (\<lambda>i. case sc_indexes sc i of Some (u, cols) \<Rightarrow> if u = t then None else Some (u, cols) | None \<Rightarrow> None)\<rparr>"
| "apply_ddl (AddColumn t c) sc =
     change_table t (\<lambda>ts. ts\<lparr>ts_columns := ts_columns ts @ [c],
       ts_rows := map (\<lambda>row. row(co_name c := map_option IntCell (co_default c))) (ts_rows ts)\<rparr>) sc"
| "apply_ddl (DropColumn t c) sc =
     change_table t (\<lambda>ts. ts\<lparr>ts_columns := filter (\<lambda>d. co_name d \<noteq> c) (ts_columns ts),
       ts_rows := map (\<lambda>row. row(c := None)) (ts_rows ts)\<rparr>) sc"
| "apply_ddl (UpdateAll t c v) sc =
     change_table t (\<lambda>ts. ts\<lparr>ts_rows := map (\<lambda>row. row(c \<mapsto> IntCell v)) (ts_rows ts)\<rparr>) sc"

record 's schema_db =
  sd_backend :: database_backend
  sd_exec :: "ddl \<Rightarrow> 's \<Rightarrow> (string + unit) \<times> 's"
  sd_now :: "'s \<Rightarrow> int"
  sd_engines :: "string list \<Rightarrow> 's \<Rightarrow> (string + (string \<times> string) list) \<times> 's"
  sd_binlog_format :: "'s \<Rightarrow> (string + string option) \<times> 's"

text \<open>The statements of a migration, until one fails.\<close>

fun exec_all :: "'s schema_db \<Rightarrow> ddl list \<Rightarrow> 's \<Rightarrow> (string + unit) \<times> 's" where
  "exec_all db [] s = (Inr (), s)"
| "exec_all db (d # ds) s = wtry (sd_exec db d) (\<lambda>_. exec_all db ds) s"

section \<open>The migrations\<close>

definition plain_column :: "string \<Rightarrow> column_type \<Rightarrow> column_def" where
  "plain_column n t = \<lparr>co_name = n, co_type = t, co_not_null = True, co_primary_key = False, co_default = None\<rparr>"

definition key_column :: "string \<Rightarrow> column_def" where
  "key_column n = (plain_column n StringColumn)\<lparr>co_primary_key := True\<rparr>"

definition pin_innodb_on_mysql :: "database_backend \<Rightarrow> string option" where
  "pin_innodb_on_mysql backend = (if backend = MySql then Some ''InnoDB'' else None)"

definition tables_up :: "'s schema_db \<Rightarrow> 's \<Rightarrow> (string + unit) \<times> 's" where
  "tables_up db = exec_all db
     [CreateTable ''credentials'' [key_column ''issuer'', plain_column ''public_key'' JsonColumn] [] (pin_innodb_on_mysql (sd_backend db)),
      CreateTable ''status_lists''
        [key_column ''list_id'', plain_column ''issuer'' StringColumn, plain_column ''status_list'' JsonColumn, plain_column ''sub'' StringColumn]
        [\<lparr>fk_name = ''fk_status_lists_issuer'', fk_from = (''status_lists'', ''issuer''), fk_to = (''credentials'', ''issuer''), fk_on_delete_cascade = True, fk_on_update_cascade = True\<rparr>]
        (pin_innodb_on_mysql (sd_backend db)),
      CreateIndex ''idx_status_lists_list_id'' ''status_lists'' [''list_id''],
      CreateIndex ''idx_status_lists_issuer'' ''status_lists'' [''issuer''],
      CreateIndex ''idx_status_lists_sub'' ''status_lists'' [''sub'']]"

definition tables_down :: "'s schema_db \<Rightarrow> 's \<Rightarrow> (string + unit) \<times> 's" where
  "tables_down db = exec_all db
     [DropIndex ''idx_status_lists_list_id'' ''status_lists'', DropIndex ''idx_status_lists_sub'' ''status_lists'',
      DropIndex ''idx_status_lists_issuer'' ''status_lists'', DropTable ''status_lists'', DropTable ''credentials'']"

definition add_updated_at_up :: "'s schema_db \<Rightarrow> 's \<Rightarrow> (string + unit) \<times> 's" where
  "add_updated_at_up db =
     wtry (sd_exec db (AddColumn ''status_lists'' ((plain_column ''updated_at'' BigIntegerColumn)\<lparr>co_default := Some 0\<rparr>)))
       (\<lambda>_ s. let now_secs = sd_now db s in sd_exec db (UpdateAll ''status_lists'' ''updated_at'' now_secs) s)"

definition add_updated_at_down :: "'s schema_db \<Rightarrow> 's \<Rightarrow> (string + unit) \<times> 's" where
  "add_updated_at_down db = sd_exec db (DropColumn ''status_lists'' ''updated_at'')"

definition history_up :: "'s schema_db \<Rightarrow> 's \<Rightarrow> (string + unit) \<times> 's" where
  "history_up db = exec_all db
     [CreateTable ''status_list_history''
        [key_column ''snapshot_id'', plain_column ''list_id'' StringColumn, plain_column ''issuer'' StringColumn,
         plain_column ''status_list'' JsonColumn, plain_column ''sub'' StringColumn, plain_column ''iat'' BigIntegerColumn,
         plain_column ''exp'' BigIntegerColumn] [] (pin_innodb_on_mysql (sd_backend db)),
      CreateIndex ''idx_status_list_history_resolution'' ''status_list_history'' [''list_id'', ''iat'', ''exp'']]"

definition history_down :: "'s schema_db \<Rightarrow> 's \<Rightarrow> (string + unit) \<times> 's" where
  "history_down db = exec_all db
     [DropIndex ''idx_status_list_history_resolution'' ''status_list_history'', DropTable ''status_list_history'']"

definition history_exp_index_up :: "'s schema_db \<Rightarrow> 's \<Rightarrow> (string + unit) \<times> 's" where
  "history_exp_index_up db = sd_exec db (CreateIndex ''idx_status_list_history_exp'' ''status_list_history'' [''exp''])"

definition history_exp_index_down :: "'s schema_db \<Rightarrow> 's \<Rightarrow> (string + unit) \<times> 's" where
  "history_exp_index_down db = sd_exec db (DropIndex ''idx_status_list_history_exp'' ''status_list_history'')"

record 's migration =
  mi_name :: string
  mi_up :: "'s \<Rightarrow> (string + unit) \<times> 's"
  mi_down :: "'s \<Rightarrow> (string + unit) \<times> 's"

definition migrations :: "'s schema_db \<Rightarrow> 's migration list" where
  "migrations db =
     [\<lparr>mi_name = ''mod'', mi_up = tables_up db, mi_down = tables_down db\<rparr>,
      \<lparr>mi_name = ''add_updated_at'', mi_up = add_updated_at_up db, mi_down = add_updated_at_down db\<rparr>,
      \<lparr>mi_name = ''m20250101_000003_status_list_history'', mi_up = history_up db, mi_down = history_down db\<rparr>,
      \<lparr>mi_name = ''m20260727_000001_status_list_history_exp_index'', mi_up = history_exp_index_up db,
        mi_down = history_exp_index_down db\<rparr>]"

section \<open>Start-up checks\<close>

definition INNODB_REQUIRED_TABLES :: "string list" where
  "INNODB_REQUIRED_TABLES = [''credentials'', ''status_lists'', ''status_list_history'']"

definition evaluate_table_engines :: "(string \<times> string) list \<Rightarrow> string + unit" where
  "evaluate_table_engines rows =
     (let non_innodb = filter (\<lambda>(table_name, engine). \<not> eq_ignore_ascii_case engine ''InnoDB'') rows in
      if non_innodb = [] then Inr ()
      else Inl (''Non-InnoDB tables detected: '' @ str_join '', '' (map (\<lambda>(t, e). t @ ''('' @ e @ '')'') non_innodb)
             @ ''. The server requires InnoDB for transactional guarantees. To fix, run in a maintenance window: ''
             @ str_join '' '' (map (\<lambda>(t, _). ''ALTER TABLE `'' @ t @ ''` ENGINE=InnoDB;'') non_innodb)))"

definition verify_innodb_engines :: "'s schema_db \<Rightarrow> 's \<Rightarrow> (string + unit) \<times> 's" where
  "verify_innodb_engines db =
     (if sd_backend db \<noteq> MySql then Pair (Inr ())
      else wtry (sd_engines db INNODB_REQUIRED_TABLES) (\<lambda>rows s. (evaluate_table_engines rows, s)))"

definition evaluate_binlog_format :: "string \<Rightarrow> string + unit" where
  "evaluate_binlog_format format =
     (if \<not> eq_ignore_ascii_case format ''STATEMENT'' then Inr ()
      else Inl (''MySQL binlog_format is '' @ quoted format @ ''; InnoDB at READ COMMITTED requires ROW or MIXED binary logging''))"

definition verify_binlog_format :: "'s schema_db \<Rightarrow> 's \<Rightarrow> (string + unit) \<times> 's" where
  "verify_binlog_format db =
     (if sd_backend db \<noteq> MySql then Pair (Inr ())
      else wtry (sd_binlog_format db) (\<lambda>row s. (case row of None \<Rightarrow> Inr () | Some format \<Rightarrow> evaluate_binlog_format format, s)))"

section \<open>Up and down\<close>

text \<open>
  The documented meaning of the statements: a successful one changes the schema accordingly, a failed
  one does not change it. The query for the engines reports the tables that exist, with the engine
  they were created with, or the default engine of the server.
\<close>

definition schema_db_ok :: "'s schema_db \<Rightarrow> ('s \<Rightarrow> schema) \<Rightarrow> bool" where
  "schema_db_ok db view \<longleftrightarrow>
     (\<forall>d s r s'. sd_exec db d s = (r, s') \<longrightarrow> view s' = (case r of Inr _ \<Rightarrow> apply_ddl d (view s) | Inl _ \<Rightarrow> view s))
     \<and> (\<forall>ts s r s'. sd_engines db ts s = (r, s') \<longrightarrow> view s' = view s
          \<and> (\<forall>rows. r = Inr rows \<longrightarrow> (\<forall>t e. (t, e) \<in> set rows \<longrightarrow>
               t \<in> set ts \<and> (\<exists>tab. sc_tables (view s) t = Some tab \<and> (case ts_engine tab of Some f \<Rightarrow> e = f | None \<Rightarrow> True)))))"

text \<open>All migrations up in order, or down in reverse order.\<close>

fun in_turn :: "('s \<Rightarrow> (string + unit) \<times> 's) list \<Rightarrow> 's \<Rightarrow> (string + unit) \<times> 's" where
  "in_turn [] s = (Inr (), s)"
| "in_turn (f # fs) s = wtry f (\<lambda>_. in_turn fs) s"

lemma in_turn_total: "(\<And>f s. f \<in> set fs \<Longrightarrow> \<exists>s'. f s = (Inr (), s')) \<Longrightarrow> \<exists>s'. in_turn fs s = (Inr (), s')"
proof (induction fs arbitrary: s)
  case (Cons f fs)
  obtain t where "f s = (Inr (), t)" using Cons.prems [of f s] by auto
  then show ?case using Cons.IH [of t] Cons.prems by (simp add: wtry_def)
qed simp

definition migrate_up :: "'s schema_db \<Rightarrow> 's \<Rightarrow> (string + unit) \<times> 's" where
  "migrate_up db = in_turn (map mi_up (migrations db))"

definition migrate_down :: "'s schema_db \<Rightarrow> 's \<Rightarrow> (string + unit) \<times> 's" where
  "migrate_down db = in_turn (map mi_down (rev (migrations db)))"

lemma wtry_Inr: "wtry f k s = (Inr y, s') \<longleftrightarrow> (\<exists>x t. f s = (Inr x, t) \<and> k x t = (Inr y, s'))"
  by (auto simp: wtry_def split: prod.splits sum.splits)

lemma exec_Inr: "schema_db_ok db view \<Longrightarrow> sd_exec db d s = (Inr (), s') \<Longrightarrow> view s' = apply_ddl d (view s)"
  unfolding schema_db_ok_def by fastforce

lemma engines_Inr:
  "schema_db_ok db view \<Longrightarrow> sd_engines db ts s = (Inr rows, s') \<Longrightarrow> (t, e) \<in> set rows \<Longrightarrow>
     t \<in> set ts \<and> (\<exists>tab. sc_tables (view s) t = Some tab \<and> (case ts_engine tab of Some f \<Rightarrow> e = f | None \<Rightarrow> True))"
  unfolding schema_db_ok_def by (drule conjunct2, elim allE [where x = ts] allE [where x = s]) auto

lemma exec_all_Inr:
  "schema_db_ok db view \<Longrightarrow> exec_all db ds s = (Inr (), s') \<Longrightarrow> view s' = fold apply_ddl ds (view s)"
  by (induction ds arbitrary: s) (auto simp: wtry_Inr dest: exec_Inr)

definition server_tables :: "string set" where
  "server_tables = {''credentials'', ''status_lists'', ''status_list_history''}"

definition server_indexes :: "string set" where
  "server_indexes = {''idx_status_lists_list_id'', ''idx_status_lists_issuer'', ''idx_status_lists_sub'',
     ''idx_status_list_history_resolution'', ''idx_status_list_history_exp''}"

definition fresh_schema :: "schema \<Rightarrow> bool" where
  "fresh_schema sc \<longleftrightarrow>
     (\<forall>t \<in> server_tables. sc_tables sc t = None) \<and> (\<forall>i \<in> server_indexes. sc_indexes sc i = None)
     \<and> (\<forall>i t cols. sc_indexes sc i = Some (t, cols) \<longrightarrow> t \<notin> server_tables)"

text \<open>The tables the migrations leave in a fresh database.\<close>

definition server_table :: "database_backend \<Rightarrow> column_def list \<Rightarrow> foreign_key list \<Rightarrow> table_schema" where
  "server_table backend cols fks =
     \<lparr>ts_columns = cols, ts_foreign_keys = fks, ts_engine = pin_innodb_on_mysql backend, ts_rows = []\<rparr>"

definition migrated :: "database_backend \<Rightarrow> schema \<Rightarrow> schema" where
  "migrated backend sc =
     sc\<lparr>sc_tables := (sc_tables sc)(
          ''credentials'' \<mapsto> server_table backend [key_column ''issuer'', plain_column ''public_key'' JsonColumn] [],
          ''status_lists'' \<mapsto> server_table backend
            [key_column ''list_id'', plain_column ''issuer'' StringColumn, plain_column ''status_list'' JsonColumn,
             plain_column ''sub'' StringColumn, (plain_column ''updated_at'' BigIntegerColumn)\<lparr>co_default := Some 0\<rparr>]
            [\<lparr>fk_name = ''fk_status_lists_issuer'', fk_from = (''status_lists'', ''issuer''),
              fk_to = (''credentials'', ''issuer''), fk_on_delete_cascade = True, fk_on_update_cascade = True\<rparr>],
          ''status_list_history'' \<mapsto> server_table backend
            [key_column ''snapshot_id'', plain_column ''list_id'' StringColumn, plain_column ''issuer'' StringColumn,
             plain_column ''status_list'' JsonColumn, plain_column ''sub'' StringColumn, plain_column ''iat'' BigIntegerColumn,
             plain_column ''exp'' BigIntegerColumn] []),
        sc_indexes := (sc_indexes sc)(
          ''idx_status_lists_list_id'' \<mapsto> (''status_lists'', [''list_id'']),
          ''idx_status_lists_issuer'' \<mapsto> (''status_lists'', [''issuer'']),
          ''idx_status_lists_sub'' \<mapsto> (''status_lists'', [''sub'']),
          ''idx_status_list_history_resolution'' \<mapsto> (''status_list_history'', [''list_id'', ''iat'', ''exp'']),
          ''idx_status_list_history_exp'' \<mapsto> (''status_list_history'', [''exp'']))\<rparr>"

lemma migrate_up_schema:
  assumes ok: "schema_db_ok db view" and up: "migrate_up db s = (Inr (), s')" and fresh: "fresh_schema (view s)"
  shows "view s' = migrated (sd_backend db) (view s)"
proof -
  obtain s1 s2 s3 where steps: "tables_up db s = (Inr (), s1)" "add_updated_at_up db s1 = (Inr (), s2)"
    "history_up db s2 = (Inr (), s3)" "history_exp_index_up db s3 = (Inr (), s')"
    using up by (auto simp: migrate_up_def migrations_def wtry_Inr)
  obtain t where t: "sd_exec db (AddColumn ''status_lists'' ((plain_column ''updated_at'' BigIntegerColumn)\<lparr>co_default := Some 0\<rparr>)) s1 = (Inr (), t)"
    "sd_exec db (UpdateAll ''status_lists'' ''updated_at'' (sd_now db t)) t = (Inr (), s2)"
    using steps(2) by (auto simp: add_updated_at_up_def wtry_Inr Let_def)
  note v = exec_all_Inr [OF ok steps(1) [unfolded tables_up_def]] exec_Inr [OF ok t(1)] exec_Inr [OF ok t(2)]
    exec_all_Inr [OF ok steps(3) [unfolded history_up_def]] exec_Inr [OF ok steps(4) [unfolded history_exp_index_up_def]]
  show ?thesis
    using fresh unfolding v fresh_schema_def server_tables_def server_indexes_def
    by (simp add: migrated_def server_table_def change_table_def fun_upd_twist)
qed

lemma migrate_down_schema:
  assumes ok: "schema_db_ok db view" and down: "migrate_down db s = (Inr (), s')"
  shows "view s' = fold apply_ddl
    [DropIndex ''idx_status_list_history_exp'' ''status_list_history'',
     DropIndex ''idx_status_list_history_resolution'' ''status_list_history'', DropTable ''status_list_history'',
     DropColumn ''status_lists'' ''updated_at'',
     DropIndex ''idx_status_lists_list_id'' ''status_lists'', DropIndex ''idx_status_lists_sub'' ''status_lists'',
     DropIndex ''idx_status_lists_issuer'' ''status_lists'', DropTable ''status_lists'', DropTable ''credentials''] (view s)"
proof -
  obtain s1 s2 s3 where steps: "history_exp_index_down db s = (Inr (), s1)" "history_down db s1 = (Inr (), s2)"
    "add_updated_at_down db s2 = (Inr (), s3)" "tables_down db s3 = (Inr (), s')"
    using down by (auto simp: migrate_down_def migrations_def wtry_Inr)
  note v = exec_Inr [OF ok steps(1) [unfolded history_exp_index_down_def]] exec_all_Inr [OF ok steps(2) [unfolded history_down_def]]
    exec_Inr [OF ok steps(3) [unfolded add_updated_at_down_def]] exec_all_Inr [OF ok steps(4) [unfolded tables_down_def]]
  show ?thesis unfolding v by simp
qed

lemma down_undoes_up:
  assumes "fresh_schema sc"
  shows "fold apply_ddl
    [DropIndex ''idx_status_list_history_exp'' ''status_list_history'',
     DropIndex ''idx_status_list_history_resolution'' ''status_list_history'', DropTable ''status_list_history'',
     DropColumn ''status_lists'' ''updated_at'',
     DropIndex ''idx_status_lists_list_id'' ''status_lists'', DropIndex ''idx_status_lists_sub'' ''status_lists'',
     DropIndex ''idx_status_lists_issuer'' ''status_lists'', DropTable ''status_lists'', DropTable ''credentials'']
    (migrated backend sc) = sc"
proof (rule schema.equality)
  let ?sc = "fold apply_ddl
    [DropIndex ''idx_status_list_history_exp'' ''status_list_history'',
     DropIndex ''idx_status_list_history_resolution'' ''status_list_history'', DropTable ''status_list_history'',
     DropColumn ''status_lists'' ''updated_at'',
     DropIndex ''idx_status_lists_list_id'' ''status_lists'', DropIndex ''idx_status_lists_sub'' ''status_lists'',
     DropIndex ''idx_status_lists_issuer'' ''status_lists'', DropTable ''status_lists'', DropTable ''credentials'']
    (migrated backend sc)"
  show "sc_tables ?sc = sc_tables sc"
    using assms by (auto simp: fresh_schema_def server_tables_def migrated_def change_table_def fun_eq_iff)
  show "sc_indexes ?sc = sc_indexes sc"
  proof
    fix i
    show "sc_indexes ?sc i = sc_indexes sc i"
    proof (cases "sc_indexes sc i")
      case None
      then show ?thesis by (simp add: migrated_def change_table_def)
    next
      case (Some x)
      obtain t cols where x: "x = (t, cols)" by (cases x)
      have t: "t \<notin> server_tables" using assms Some x unfolding fresh_schema_def by blast
      have "i \<notin> server_indexes" using assms Some unfolding fresh_schema_def by force
      then show ?thesis using Some x t
        by (simp add: migrated_def change_table_def server_indexes_def server_tables_def)
    qed
  qed
qed simp

lemma evaluate_table_engines_iff:
  "evaluate_table_engines rows = Inr () \<longleftrightarrow> list_all (\<lambda>(t, e). eq_ignore_ascii_case e ''InnoDB'') rows"
  by (auto simp: evaluate_table_engines_def Let_def filter_empty_conv list_all_iff)

lemma migrated_engine:
  "t \<in> server_tables \<Longrightarrow> \<exists>tab. sc_tables (migrated MySql sc) t = Some tab \<and> ts_engine tab = Some ''InnoDB''"
  by (auto simp: server_tables_def migrated_def server_table_def pin_innodb_on_mysql_def)


text \<open>A database that follows the documentation: its state is the schema.\<close>

definition schema_table :: "schema schema_db" where
  "schema_table =
     \<lparr>sd_backend = MySql, sd_exec = (\<lambda>d sc. (Inr (), apply_ddl d sc)), sd_now = (\<lambda>_. 1700000000),
      sd_engines = (\<lambda>ts sc. (Inr (List.map_filter (\<lambda>t. case sc_tables sc t of
          Some tab \<Rightarrow> Some (t, case ts_engine tab of Some f \<Rightarrow> f | None \<Rightarrow> ''MyISAM'') | None \<Rightarrow> None) ts), sc)),
      sd_binlog_format = (\<lambda>sc. (Inr (Some ''ROW''), sc))\<rparr>"

definition empty_schema :: schema where
  "empty_schema = \<lparr>sc_tables = Map.empty, sc_indexes = Map.empty\<rparr>"

lemma schema_table_ok: "schema_db_ok schema_table id"
  by (auto simp: schema_db_ok_def schema_table_def List.map_filter_def split: option.splits)


text \<open>
  On a database that already has the tables with another engine, the migrations leave the engine as it
  is (tables are only created if they do not exist); the check then names exactly these tables.
\<close>

lemma create_keeps_engine:
  "sc_tables sc t = Some tab \<Longrightarrow> apply_ddl (CreateTable t cols fks engine) sc = sc"
  by simp

lemma other_engine_refused:
  "(t, e) \<in> set rows \<Longrightarrow> \<not> eq_ignore_ascii_case e ''InnoDB'' \<Longrightarrow> isl (evaluate_table_engines rows)"
  using evaluate_table_engines_iff [of rows] by (cases "evaluate_table_engines rows") (auto simp: list_all_iff)

text \<open>Rows that exist when the column is added get the time of the migration, never the default.\<close>

lemma updated_at_backfilled:
  assumes "schema_db_ok db view" and "add_updated_at_up db s = (Inr (), s')" and "sc_tables (view s) ''status_lists'' = Some tab"
  shows "\<exists>now tab'. sc_tables (view s') ''status_lists'' = Some tab' \<and> length (ts_rows tab') = length (ts_rows tab)
    \<and> (\<forall>row \<in> set (ts_rows tab'). row ''updated_at'' = Some (IntCell now))"
proof -
  obtain t where "sd_exec db (AddColumn ''status_lists'' ((plain_column ''updated_at'' BigIntegerColumn)\<lparr>co_default := Some 0\<rparr>)) s = (Inr (), t)"
    "sd_exec db (UpdateAll ''status_lists'' ''updated_at'' (sd_now db t)) t = (Inr (), s')"
    using assms(2) by (auto simp: add_updated_at_up_def wtry_Inr Let_def)
  note v = exec_Inr [OF assms(1) this(1)] exec_Inr [OF assms(1) this(2)]
  show ?thesis using assms(3) unfolding v by (auto simp: change_table_def)
qed

end
