(* ===== verification/Dns_Providers.thy ===== *)
theory Dns_Providers
  imports Vault "HOL-Library.AList"
begin

text \<open>
  Model of the DNS providers under \<open>src/src/utils/cert_manager/challenge/dns01/\<close>: \<open>acme_dns.rs\<close>,
  \<open>cloudflare.rs\<close>, \<open>route53.rs\<close>, \<open>azure.rs\<close> with \<open>token.rs\<close>, \<open>gcloud.rs\<close> and \<open>pebble.rs\<close>. The HTTP
  client is the record \<open>dns_http\<close>: a request is sent as a whole and answered with a status and a body
  \<open>'b\<close>, which the decoders read; the AWS client is a record of calls. \<open>'r\<close> is the state of the
  world, the clock included; times are in nanoseconds. A provider keeps the zones and the token it has
  cached. Loops that follow what a service answers may run forever: \<open>None\<close> is a call that never
  returns.
\<close>

section \<open>Calls\<close>

text \<open>\<open>?\<close> on a call that may not return, and a call that does.\<close>

definition otry :: "('w \<Rightarrow> (('e + 'a) \<times> 'w) option) \<Rightarrow> ('a \<Rightarrow> 'w \<Rightarrow> (('e + 'b) \<times> 'w) option) \<Rightarrow> 'w \<Rightarrow> (('e + 'b) \<times> 'w) option" where
  "otry f k w = Option.bind (f w) (\<lambda>(r, w'). case r of Inl e \<Rightarrow> Some (Inl e, w') | Inr x \<Rightarrow> k x w')"

definition returns :: "('w \<Rightarrow> 'a \<times> 'w) \<Rightarrow> 'w \<Rightarrow> ('a \<times> 'w) option" where
  "returns f w = Some (f w)"

datatype dns_method = DnsGet | DnsPost | DnsPut | DnsDelete

type_synonym txt_record = "string list"

record record_set =
  rs_etag :: "string option"
  rs_ttl :: nat
  rs_txt_records :: "txt_record list"

record rr_set =
  rr_name :: string
  rr_kind :: string
  rr_ttl :: nat
  rr_rrdatas :: "string list"

datatype dns_body =
    NoDnsBody
  | AcmeDnsUpdate string string
  | CloudflareTxt string string nat
  | AzureRecordSet record_set
  | GcloudChange "rr_set option" "rr_set option"
  | PebbleSetTxt string string
  | PebbleClearTxt string

record dns_request =
  dq_method :: dns_method
  dq_url :: string
  dq_query :: "(string \<times> string) list"
  dq_headers :: "(string \<times> string) list"
  dq_body :: dns_body

record 'b dns_response =
  dr_status :: nat
  dr_body :: 'b

record ('b, 'r) dns_http =
  dh_send :: "dns_request \<Rightarrow> 'r \<Rightarrow> (string + 'b dns_response) \<times> 'r"
  dh_text :: "'b \<Rightarrow> string"
  dh_status_text :: "nat \<Rightarrow> string"
  dh_status_error :: "nat \<Rightarrow> string \<Rightarrow> string"
  dh_now :: "'r \<Rightarrow> nat"
  dh_utc_now :: "'r \<Rightarrow> int"
  dh_sleep :: "nat \<Rightarrow> 'r \<Rightarrow> 'r"

record 'r dns_world =
  dw_remote :: 'r
  dw_zones :: "zone_info list option"
  dw_token :: "(string \<times> nat) option"

definition dns_remote :: "('r \<Rightarrow> 'a \<times> 'r) \<Rightarrow> 'r dns_world \<Rightarrow> 'a \<times> 'r dns_world" where
  "dns_remote f w = (case f (dw_remote w) of (x, r) \<Rightarrow> (x, w\<lparr>dw_remote := r\<rparr>))"

definition bearer_auth :: "string \<Rightarrow> string \<times> string" where
  "bearer_auth token = (''authorization'', ''Bearer '' @ token)"

definition send :: "string \<Rightarrow> ('b, 'r) dns_http \<Rightarrow> dns_request \<Rightarrow> 'r dns_world \<Rightarrow> (challenge_error + 'b dns_response) \<times> 'r dns_world" where
  "send provider http req = wmap_err (ChallengeDns provider) (dns_remote (dh_send http req))"

text \<open>The answer of the Azure and Google services: a success with a body that can be read.\<close>

definition parse_response ::
  "string \<Rightarrow> ('b, 'r) dns_http \<Rightarrow> ('b \<Rightarrow> string + 'a) \<Rightarrow> 'b dns_response \<Rightarrow> challenge_error + 'a" where
  "parse_response provider http decode response =
     (let status = dr_status response in
      if \<not> is_success status
      then Inl (ChallengeDns provider (''API request failed (status '' @ dh_status_text http status @ ''): '' @ dh_text http (dr_body response)))
      else map_sum (\<lambda>e. ChallengeDns provider (''Invalid API response (status '' @ dh_status_text http status @ ''): '' @ e)) id
             (decode (dr_body response)))"

section \<open>Zones\<close>

text \<open>
  The listing of all zones, page by page: \<open>fetch\<close> gets the page \<open>p\<close>, its zones and which page comes
  next, if any.
\<close>

partial_function (option) list_zones ::
  "('p \<Rightarrow> 'w \<Rightarrow> ('e + zone_info list \<times> 'p option) \<times> 'w) \<Rightarrow> 'p \<Rightarrow> zone_info list \<Rightarrow> 'w \<Rightarrow> (('e + zone_info list) \<times> 'w) option" where
  "list_zones fetch p all_zones w =
     (case fetch p w of
        (Inl e, w) \<Rightarrow> Some (Inl e, w)
      | (Inr (zones, next_page), w) \<Rightarrow>
          (case next_page of
             None \<Rightarrow> Some (Inr (all_zones @ zones), w)
           | Some p \<Rightarrow> list_zones fetch p (all_zones @ zones) w))"

definition cache_zones ::
  "('r dns_world \<Rightarrow> ((challenge_error + zone_info list) \<times> 'r dns_world) option) \<Rightarrow> 'r dns_world
   \<Rightarrow> ((challenge_error + unit) \<times> 'r dns_world) option" where
  "cache_zones list_all_zones w =
     (case dw_zones w of
        Some _ \<Rightarrow> Some (Inr (), w)
      | None \<Rightarrow> otry list_all_zones (\<lambda>all_zones w. Some (Inr (), w\<lparr>dw_zones := Some all_zones\<rparr>)) w)"

text \<open>The zone of a domain among the cached ones; the cache is filled when this is called.\<close>

definition zone_of :: "string \<Rightarrow> 'r dns_world \<Rightarrow> challenge_error + string \<times> string" where
  "zone_of domain w =
     (let domain = trim_end_matches CHR ''.'' domain in
      case find_best_match domain (case dw_zones w of Some zones \<Rightarrow> zones | None \<Rightarrow> []) of
        Some zone \<Rightarrow> Inr zone
      | None \<Rightarrow> Inl (ZoneNotFound domain))"

text \<open>The delay after a number of attempts, doubled each time, and the limit of the wait.\<close>

definition PROPAGATION_TIMEOUT :: nat where "PROPAGATION_TIMEOUT = 300 * 10 ^ 9"

definition propagation_wait :: "nat \<Rightarrow> nat" where
  "propagation_wait retries = (if retries < 32 then 2 * 10 ^ 9 * 2 ^ retries else PROPAGATION_TIMEOUT)"

definition propagation_timed_out :: "string \<Rightarrow> challenge_error" where
  "propagation_timed_out provider = ChallengeDns provider ''DNS propagation timed out after 300s''"

text \<open>The retries after a conflict: an attempt fails, finds a conflict, with the error to report when no retry is left, or is done.\<close>

fun retry_conflicts :: "('w \<Rightarrow> ('e + ('e + 'd)) \<times> 'w) \<Rightarrow> nat \<Rightarrow> 'w \<Rightarrow> ('e + 'd) \<times> 'w" where
  "retry_conflicts attempt left w =
     (case attempt w of
        (Inl e, w) \<Rightarrow> (Inl e, w)
      | (Inr (Inr d), w) \<Rightarrow> (Inr d, w)
      | (Inr (Inl e), w) \<Rightarrow> (case left of 0 \<Rightarrow> (Inl e, w) | Suc left \<Rightarrow> retry_conflicts attempt left w))"

declare retry_conflicts.simps [simp del]

definition CONFLICT_RETRIES :: nat where "CONFLICT_RETRIES = 3"

definition TXT_TTL :: nat where "TXT_TTL = 60"

section \<open>ACME-DNS\<close>

record acme_dns_credentials =
  ac_username :: string
  ac_password :: string
  ac_subdomain :: string

record acme_dns_provider =
  ap_server_url :: string
  ap_default_account :: "acme_dns_credentials option"
  ap_accounts :: "(string \<times> acme_dns_credentials) list"

definition normalize_domain :: "string \<Rightarrow> string" where
  "normalize_domain domain =
     (let domain = trim_end_matches CHR ''.'' (str_trim domain) in
      to_ascii_lowercase (case strip_prefix ''*.'' domain of Some d \<Rightarrow> d | None \<Rightarrow> domain))"

definition same_account :: "acme_dns_credentials \<Rightarrow> acme_dns_credentials \<Rightarrow> bool" where
  "same_account a b \<longleftrightarrow> ac_username a = ac_username b \<and> ac_subdomain a = ac_subdomain b \<and> ac_password a = ac_password b"

definition conflicting_accounts :: "string \<Rightarrow> string \<Rightarrow> string \<Rightarrow> challenge_error" where
  "conflicting_accounts other domain key = ChallengeDns ''acmedns''
     (''Conflicting ACME-DNS accounts: entries '' @ other @ '' and '' @ domain @ '' both normalize to '' @ key
      @ '' but hold different credentials'')"

text \<open>The map of normalised domains, built in the iteration order of the given one.\<close>

fun normalize_accounts ::
  "(string \<times> acme_dns_credentials) list \<Rightarrow> (string \<times> string \<times> acme_dns_credentials) list
   \<Rightarrow> challenge_error + (string \<times> string \<times> acme_dns_credentials) list" where
  "normalize_accounts [] normalized = Inr normalized"
| "normalize_accounts ((domain, account) # accounts) normalized =
     (let key = normalize_domain domain in
      case map_of normalized key of
        Some (other, existing) \<Rightarrow>
          if \<not> same_account existing account then Inl (conflicting_accounts other domain key)
          else normalize_accounts accounts normalized
      | None \<Rightarrow> normalize_accounts accounts ((key, domain, account) # normalized))"

definition acme_dns_new ::
  "string \<Rightarrow> acme_dns_credentials option \<Rightarrow> (string \<times> acme_dns_credentials) list \<Rightarrow> challenge_error + acme_dns_provider" where
  "acme_dns_new server_url default_acc accounts =
     map_sum id (\<lambda>normalized.
       \<lparr>ap_server_url = trim_end_matches CHR ''/'' server_url, ap_default_account = default_acc,
        ap_accounts = map (\<lambda>(key, _, account). (key, account)) normalized\<rparr>) (normalize_accounts accounts [])"

definition credentials_for :: "acme_dns_provider \<Rightarrow> string \<Rightarrow> challenge_error + acme_dns_credentials" where
  "credentials_for self domain =
     (case map_of (ap_accounts self) (normalize_domain domain) of
        Some account \<Rightarrow> Inr account
      | None \<Rightarrow>
          (case ap_default_account self of
             Some account \<Rightarrow> Inr account
           | None \<Rightarrow> Inl (ChallengeDns ''acmedns''
               (''No ACME-DNS account configured for '' @ domain @ '' and no default account is set''))))"

definition has_credentials_for :: "acme_dns_provider \<Rightarrow> string \<Rightarrow> bool" where
  "has_credentials_for self domain \<longleftrightarrow> \<not> isl (credentials_for self domain)"

text \<open>The domains by the subdomain of their account; \<open>hash_order\<close> is the iteration order of the map.\<close>

fun domains_by_account ::
  "acme_dns_provider \<Rightarrow> string list \<Rightarrow> (string \<times> string list) list \<Rightarrow> challenge_error + (string \<times> string list) list" where
  "domains_by_account self [] by_account = Inr by_account"
| "domains_by_account self (domain # domains) by_account =
     (case credentials_for self domain of
        Inl e \<Rightarrow> Inl e
      | Inr account \<Rightarrow>
          domains_by_account self domains
            (AList.update (ac_subdomain account)
               ((case map_of by_account (ac_subdomain account) of Some ds \<Rightarrow> ds | None \<Rightarrow> []) @ [domain]) by_account))"

definition check_order_domains ::
  "((string \<times> string list) list \<Rightarrow> (string \<times> string list) list) \<Rightarrow> acme_dns_provider \<Rightarrow> string list \<Rightarrow> challenge_error + unit" where
  "check_order_domains hash_order self domains =
     (case domains_by_account self domains [] of
        Inl e \<Rightarrow> Inl e
      | Inr by_account \<Rightarrow>
          (case find (\<lambda>(_, d). length d > 2) (hash_order by_account) of
             Some (subdomain, domains) \<Rightarrow> Inl (ChallengeDns ''acmedns''
               (''The ACME-DNS account with subdomain '' @ subdomain @ '' would serve '' @ show_nat (length domains)
                @ '' identifiers ('' @ str_join '', '' domains
                @ ''), but ACME-DNS keeps only the two most recent TXT values; register a separate account per domain in the accounts map''))
           | None \<Rightarrow> Inr ()))"

definition acme_dns_update :: "acme_dns_provider \<Rightarrow> acme_dns_credentials \<Rightarrow> string \<Rightarrow> dns_request" where
  "acme_dns_update self account v =
     \<lparr>dq_method = DnsPost, dq_url = ap_server_url self @ ''/update'', dq_query = [],
      dq_headers = [(''X-Api-User'', ac_username account), (''X-Api-Key'', ac_password account)],
      dq_body = AcmeDnsUpdate (ac_subdomain account) v\<rparr>"

definition acme_dns_create_txt_record ::
  "('b, 'r) dns_http \<Rightarrow> acme_dns_provider \<Rightarrow> string \<Rightarrow> string \<Rightarrow> 'r dns_world \<Rightarrow> (challenge_error + unit) \<times> 'r dns_world" where
  "acme_dns_create_txt_record http self domain v =
     wtry (Pair (credentials_for self domain)) (\<lambda>account.
     wtry (send ''acmedns'' http (acme_dns_update self account v)) (\<lambda>response w.
       let status = dr_status response in
       (if \<not> is_success status
        then Inl (ChallengeDns ''acmedns'' (''Failed to update TXT record (status '' @ dh_status_text http status @ ''): ''
               @ dh_text http (dr_body response)))
        else Inr (), w)))"

definition acme_dns_delete_txt_record :: "string \<Rightarrow> string \<Rightarrow> 'r dns_world \<Rightarrow> (challenge_error + unit) \<times> 'r dns_world" where
  "acme_dns_delete_txt_record domain v w = (Inr (), w)"

section \<open>Pebble\<close>

text \<open>\<open>Response::error_for_status\<close> of the HTTP library, whose errors name the status and the URL.\<close>

definition error_for_status :: "('b, 'r) dns_http \<Rightarrow> string \<Rightarrow> 'b dns_response \<Rightarrow> string + 'b dns_response" where
  "error_for_status http url response =
     (if 400 \<le> dr_status response \<and> dr_status response < 600 then Inl (dh_status_error http (dr_status response) url)
      else Inr response)"

definition pebble_post ::
  "('b, 'r) dns_http \<Rightarrow> string \<Rightarrow> dns_body \<Rightarrow> string \<Rightarrow> 'r dns_world \<Rightarrow> (challenge_error + unit) \<times> 'r dns_world" where
  "pebble_post http url body failure =
     wtry (wmap_err (\<lambda>e. ChallengeOther (''Failed to send request: '' @ e))
       (dns_remote (dh_send http \<lparr>dq_method = DnsPost, dq_url = url, dq_query = [], dq_headers = [], dq_body = body\<rparr>)))
     (\<lambda>response. wtry (wmap_err (\<lambda>e. ChallengeOther (failure @ e)) (Pair (error_for_status http url response)))
     (\<lambda>_ w. (Inr (), w)))"

definition pebble_new :: "string \<Rightarrow> string" where
  "pebble_new addr = trim_end_matches CHR ''/'' addr"

definition pebble_create_txt_record ::
  "('b, 'r) dns_http \<Rightarrow> string \<Rightarrow> string \<Rightarrow> string \<Rightarrow> 'r dns_world \<Rightarrow> (challenge_error + unit) \<times> 'r dns_world" where
  "pebble_create_txt_record http addr domain v =
     (let record_name = ''_acme-challenge.'' @ domain @ ''.'' in
      pebble_post http (addr @ ''/set-txt'') (PebbleSetTxt record_name v) ''Failed to set TXT record: '')"

definition pebble_delete_txt_record ::
  "('b, 'r) dns_http \<Rightarrow> string \<Rightarrow> string \<Rightarrow> string \<Rightarrow> 'r dns_world \<Rightarrow> (challenge_error + unit) \<times> 'r dns_world" where
  "pebble_delete_txt_record http addr domain v =
     (let record_name = ''_acme-challenge.'' @ domain @ ''.'' in
      pebble_post http (addr @ ''/clear-txt'') (PebbleClearTxt record_name) ''Failed to clear TXT record: '')"

section \<open>Cloudflare\<close>

record cloudflare_provider =
  cf_api_token :: string
  cf_api_base :: string

definition cloudflare_new :: "string \<Rightarrow> cloudflare_provider" where
  "cloudflare_new api_token = \<lparr>cf_api_token = api_token, cf_api_base = ''https://api.cloudflare.com/client/v4''\<rparr>"

record 'a api_response =
  ar_success :: bool
  ar_errors :: "(int \<times> string) list"
  ar_result :: "'a option"
  ar_result_info :: "(nat \<times> nat) option"

text \<open>The decoders of the bodies: zones as pairs of identifier and name, records as identifiers.\<close>

record 'b cloudflare_json =
  cj_zones :: "'b \<Rightarrow> string + (string \<times> string) list api_response"
  cj_records :: "'b \<Rightarrow> string + string list api_response"
  cj_record :: "'b \<Rightarrow> string + string api_response"

definition cf_parse_response ::
  "('b, 'r) dns_http \<Rightarrow> ('b \<Rightarrow> string + 'a api_response) \<Rightarrow> 'b dns_response \<Rightarrow> challenge_error + 'a api_response" where
  "cf_parse_response http decode response =
     (let status = dr_status response in
      case decode (dr_body response) of
        Inl e \<Rightarrow> Inl (ChallengeDns ''cloudflare'' (''Invalid API response (status '' @ dh_status_text http status @ ''): '' @ e))
      | Inr body \<Rightarrow>
          if \<not> ar_success body
          then Inl (ChallengeDns ''cloudflare'' (''API request failed (status '' @ dh_status_text http status @ ''): ''
                 @ str_join ''; '' (map (\<lambda>(code, message). message @ '' (code '' @ show_int code @ '')'') (ar_errors body))))
          else Inr body)"

definition cf_request ::
  "cloudflare_provider \<Rightarrow> dns_method \<Rightarrow> string \<Rightarrow> (string \<times> string) list \<Rightarrow> dns_body \<Rightarrow> dns_request" where
  "cf_request self m url query body =
     \<lparr>dq_method = m, dq_url = url, dq_query = query, dq_headers = [bearer_auth (cf_api_token self)], dq_body = body\<rparr>"

definition cf_get_json ::
  "('b, 'r) dns_http \<Rightarrow> cloudflare_provider \<Rightarrow> ('b \<Rightarrow> string + 'a api_response) \<Rightarrow> string \<Rightarrow> (string \<times> string) list \<Rightarrow> 'r dns_world
   \<Rightarrow> (challenge_error + 'a api_response) \<times> 'r dns_world" where
  "cf_get_json http self decode url query =
     wtry (send ''cloudflare'' http (cf_request self DnsGet url query NoDnsBody))
       (\<lambda>response. Pair (cf_parse_response http decode response))"

definition unwrap_or_nil :: "'a list option \<Rightarrow> 'a list" where
  "unwrap_or_nil x = (case x of Some xs \<Rightarrow> xs | None \<Rightarrow> [])"

definition cf_zone_page ::
  "('b, 'r) dns_http \<Rightarrow> 'b cloudflare_json \<Rightarrow> cloudflare_provider \<Rightarrow> nat \<Rightarrow> 'r dns_world
   \<Rightarrow> (challenge_error + zone_info list \<times> nat option) \<times> 'r dns_world" where
  "cf_zone_page http json self page =
     wtry (cf_get_json http self (cj_zones json) (cf_api_base self @ ''/zones'') [(''page'', show_nat page), (''per_page'', ''50'')])
       (\<lambda>body. Pair (Inr (map (\<lambda>(ident, name). zone_info_new name ident) (unwrap_or_nil (ar_result body)),
          case ar_result_info body of
            Some (page, total_pages) \<Rightarrow> if page < total_pages then Some (page + 1) else None
          | None \<Rightarrow> None)))"

definition cf_try_cache_zones where
  "cf_try_cache_zones http json self = cache_zones (list_zones (cf_zone_page http json self) 1 [])"

definition cf_find_zone ::
  "('b, 'r) dns_http \<Rightarrow> 'b cloudflare_json \<Rightarrow> cloudflare_provider \<Rightarrow> string \<Rightarrow> 'r dns_world
   \<Rightarrow> ((challenge_error + string) \<times> 'r dns_world) option" where
  "cf_find_zone http json self domain =
     otry (cf_try_cache_zones http json self) (\<lambda>_ w. Some (map_sum id fst (zone_of domain w), w))"

definition cf_find_txt_records ::
  "('b, 'r) dns_http \<Rightarrow> 'b cloudflare_json \<Rightarrow> cloudflare_provider \<Rightarrow> string \<Rightarrow> string \<Rightarrow> string \<Rightarrow> 'r dns_world
   \<Rightarrow> (challenge_error + string list) \<times> 'r dns_world" where
  "cf_find_txt_records http json self zone_id record_name v =
     wtry (cf_get_json http self (cj_records json) (cf_api_base self @ ''/zones/'' @ zone_id @ ''/dns_records'')
       [(''type'', ''TXT''), (''name'', record_name), (''content'', v)])
     (\<lambda>body. Pair (Inr (unwrap_or_nil (ar_result body))))"

definition cf_create_txt_record ::
  "('b, 'r) dns_http \<Rightarrow> 'b cloudflare_json \<Rightarrow> cloudflare_provider \<Rightarrow> string \<Rightarrow> string \<Rightarrow> 'r dns_world
   \<Rightarrow> ((challenge_error + unit) \<times> 'r dns_world) option" where
  "cf_create_txt_record http json self domain v =
     (let record_name = ''_acme-challenge.'' @ domain in
      otry (cf_find_zone http json self domain) (\<lambda>zone_id.
      returns (wtry (send ''cloudflare'' http (cf_request self DnsPost (cf_api_base self @ ''/zones/'' @ zone_id @ ''/dns_records'') []
          (CloudflareTxt record_name v TXT_TTL)))
      (\<lambda>response. wtry (Pair (cf_parse_response http (cj_record json) response)) (\<lambda>_ w. (Inr (), w))))))"

primrec cf_delete_records ::
  "('b, 'r) dns_http \<Rightarrow> 'b cloudflare_json \<Rightarrow> cloudflare_provider \<Rightarrow> string \<Rightarrow> string list \<Rightarrow> 'r dns_world
   \<Rightarrow> (challenge_error + unit) \<times> 'r dns_world" where
  "cf_delete_records http json self zone_id [] w = (Inr (), w)"
| "cf_delete_records http json self zone_id (record_id # ids) w =
     wtry (send ''cloudflare'' http
       (cf_request self DnsDelete (cf_api_base self @ ''/zones/'' @ zone_id @ ''/dns_records/'' @ record_id) [] NoDnsBody))
     (\<lambda>response. wtry (Pair (cf_parse_response http (cj_record json) response))
     (\<lambda>_. cf_delete_records http json self zone_id ids)) w"

definition cf_delete_txt_record ::
  "('b, 'r) dns_http \<Rightarrow> 'b cloudflare_json \<Rightarrow> cloudflare_provider \<Rightarrow> string \<Rightarrow> string \<Rightarrow> 'r dns_world
   \<Rightarrow> ((challenge_error + unit) \<times> 'r dns_world) option" where
  "cf_delete_txt_record http json self domain v =
     (let record_name = ''_acme-challenge.'' @ domain in
      otry (cf_find_zone http json self domain) (\<lambda>zone_id.
      returns (wtry (cf_find_txt_records http json self zone_id record_name v)
        (\<lambda>ids. cf_delete_records http json self zone_id ids))))"

section \<open>Route 53\<close>

datatype change_action = Upsert | DeleteRecord

datatype change_status = Insync | PendingChange | OtherChangeStatus string

record hosted_zones_page =
  hz_zones :: "(string \<times> string) list"
  hz_is_truncated :: bool
  hz_next_marker :: "string option"

record resource_record_set =
  rrs_name :: string
  rrs_ttl :: nat
  rrs_value :: string

record 'r route53_client =
  r5_list_hosted_zones :: "string option \<Rightarrow> 'r \<Rightarrow> (string + hosted_zones_page) \<times> 'r"
  r5_change_resource_record_sets :: "string \<Rightarrow> change_action \<Rightarrow> resource_record_set \<Rightarrow> 'r \<Rightarrow> (string + string option) \<times> 'r"
  r5_get_change :: "string \<Rightarrow> 'r \<Rightarrow> (string + change_status option) \<times> 'r"
  r5_status_debug :: "change_status option \<Rightarrow> string"
  r5_now :: "'r \<Rightarrow> nat"
  r5_sleep :: "nat \<Rightarrow> 'r \<Rightarrow> 'r"

definition aws_call :: "('r \<Rightarrow> (string + 'a) \<times> 'r) \<Rightarrow> 'r dns_world \<Rightarrow> (challenge_error + 'a) \<times> 'r dns_world" where
  "aws_call f = wmap_err (ChallengeDns ''route53'') (dns_remote f)"

text \<open>A truncated page without a marker starts the listing again.\<close>

definition r5_zone_page ::
  "'r route53_client \<Rightarrow> string option \<Rightarrow> 'r dns_world \<Rightarrow> (challenge_error + zone_info list \<times> string option option) \<times> 'r dns_world" where
  "r5_zone_page client next_marker =
     wtry (aws_call (r5_list_hosted_zones client next_marker)) (\<lambda>resp.
       Pair (Inr (map (\<lambda>(name, ident). zone_info_new name ident) (hz_zones resp),
         if hz_is_truncated resp then Some (hz_next_marker resp) else None)))"

definition r5_try_cache_zones where
  "r5_try_cache_zones client = cache_zones (list_zones (r5_zone_page client) None [])"

definition find_hosted_zone ::
  "'r route53_client \<Rightarrow> string \<Rightarrow> 'r dns_world \<Rightarrow> ((challenge_error + string) \<times> 'r dns_world) option" where
  "find_hosted_zone client domain =
     otry (r5_try_cache_zones client) (\<lambda>_ w. Some (map_sum id fst (zone_of domain w), w))"

definition double_quoted :: "string \<Rightarrow> string" where
  "double_quoted v = CHR 0x22 # v @ [CHR 0x22]"

definition change_records ::
  "'r route53_client \<Rightarrow> string \<Rightarrow> change_action \<Rightarrow> string \<Rightarrow> 'r dns_world
   \<Rightarrow> ((challenge_error + string \<times> string) \<times> 'r dns_world) option" where
  "change_records client domain action v =
     (let record_name = ''_acme-challenge.'' @ domain in
      otry (find_hosted_zone client domain) (\<lambda>hosted_zone_id.
      returns (wtry (aws_call (r5_change_resource_record_sets client hosted_zone_id action
          \<lparr>rrs_name = record_name, rrs_ttl = TXT_TTL, rrs_value = double_quoted v\<rparr>))
      (\<lambda>output. Pair (case output of
           Some change_id \<Rightarrow> Inr (record_name, change_id)
         | None \<Rightarrow> Inl (ChallengeDns ''route53'' ''Missing Change ID from AWS ChangeResourceRecordSets response''))))))"

text \<open>
  The poll of the change under the timeout that began at \<open>start\<close>: a call or a sleep that is not over
  when the time is up is abandoned.
\<close>

partial_function (option) r5_poll ::
  "'r route53_client \<Rightarrow> string \<Rightarrow> nat \<Rightarrow> nat \<Rightarrow> 'r \<Rightarrow> ((challenge_error + unit) \<times> 'r) option" where
  "r5_poll client change_id start retries r =
     (case r5_get_change client change_id r of
        (output, r) \<Rightarrow>
          (let elapsed = r5_now client r - start; delay = propagation_wait retries in
           if elapsed > PROPAGATION_TIMEOUT then Some (Inl (propagation_timed_out ''route53''), r)
           else case output of
             Inl e \<Rightarrow> Some (Inl (ChallengeDns ''route53'' e), r)
           | Inr status \<Rightarrow>
               if status = Some Insync then Some (Inr (), r)
               else if status \<noteq> Some PendingChange
               then Some (Inl (ChallengeDns ''route53''
                      (''Unexpected status for change '' @ change_id @ '': '' @ r5_status_debug client status)), r)
               else if elapsed + delay > PROPAGATION_TIMEOUT
               then Some (Inl (propagation_timed_out ''route53''), r5_sleep client (PROPAGATION_TIMEOUT - elapsed) r)
               else r5_poll client change_id start (retries + 1) (r5_sleep client delay r)))"

definition wait_for_propagation ::
  "'r route53_client \<Rightarrow> string \<Rightarrow> 'r dns_world \<Rightarrow> ((challenge_error + unit) \<times> 'r dns_world) option" where
  "wait_for_propagation client change_id w =
     map_option (\<lambda>(x, r). (x, w\<lparr>dw_remote := r\<rparr>)) (r5_poll client change_id (r5_now client (dw_remote w)) 0 (dw_remote w))"

definition r5_create_txt_record ::
  "'r route53_client \<Rightarrow> string \<Rightarrow> string \<Rightarrow> 'r dns_world \<Rightarrow> ((challenge_error + unit) \<times> 'r dns_world) option" where
  "r5_create_txt_record client domain v =
     otry (change_records client domain Upsert v) (\<lambda>(record_name, change_id). wait_for_propagation client change_id)"

definition r5_delete_txt_record ::
  "'r route53_client \<Rightarrow> string \<Rightarrow> string \<Rightarrow> 'r dns_world \<Rightarrow> ((challenge_error + unit) \<times> 'r dns_world) option" where
  "r5_delete_txt_record client domain v = otry (change_records client domain DeleteRecord v) (\<lambda>_ w. Some (Inr (), w))"

section \<open>The token cache\<close>

definition EXPIRY_SKEW :: nat where "EXPIRY_SKEW = 60 * 10 ^ 9"

definition get_or_mint ::
  "('b, 'r) dns_http \<Rightarrow> ('r dns_world \<Rightarrow> (challenge_error + string \<times> nat) \<times> 'r dns_world) \<Rightarrow> 'r dns_world
   \<Rightarrow> (challenge_error + string) \<times> 'r dns_world" where
  "get_or_mint http mint w =
     (case Option.bind (dw_token w) (\<lambda>(token, expires_at).
        if dh_now http (dw_remote w) < expires_at then Some token else None) of
        Some token \<Rightarrow> (Inr token, w)
      | None \<Rightarrow>
          wtry mint (\<lambda>(token, ttl) w.
            (Inr token, w\<lparr>dw_token := Some (token, dh_now http (dw_remote w) + (ttl - EXPIRY_SKEW))\<rparr>)) w)"

section \<open>Azure DNS\<close>

record azure_provider =
  az_subscription_id :: string
  az_resource_group :: string
  az_api_base :: string
  az_propagation_delay :: nat

definition azure_from_token_provider :: "string \<Rightarrow> string \<Rightarrow> azure_provider" where
  "azure_from_token_provider subscription_id resource_group =
     \<lparr>az_subscription_id = subscription_id, az_resource_group = resource_group,
      az_api_base = ''https://management.azure.com'', az_propagation_delay = 60 * 10 ^ 9\<rparr>"

text \<open>\<open>default_credential\<close> is the chain of credentials, which may fail to be built.\<close>

definition azure_dns_new :: "string + 'c \<Rightarrow> string \<Rightarrow> string \<Rightarrow> challenge_error + 'c \<times> azure_provider" where
  "azure_dns_new default_credential subscription_id resource_group =
     (case default_credential of
        Inl e \<Rightarrow> Inl (ChallengeDns ''azure'' (''Failed to initialize Azure DNS credential chain. ''
          @ ''Configure AZURE_TENANT_ID/AZURE_CLIENT_ID/AZURE_CLIENT_SECRET, AKS Workload Identity, managed identity, ''
          @ ''or Azure CLI auth. Details: '' @ e))
      | Inr credential \<Rightarrow> Inr (credential, azure_from_token_provider subscription_id resource_group))"

text \<open>A credential gives a token for a scope with its time of expiry on the wall clock.\<close>

type_synonym 'r token_credential = "string \<Rightarrow> 'r \<Rightarrow> (string + string \<times> int) \<times> 'r"

definition azure_access_token ::
  "('b, 'r) dns_http \<Rightarrow> 'r token_credential \<Rightarrow> azure_provider \<Rightarrow> 'r dns_world \<Rightarrow> (challenge_error + string) \<times> 'r dns_world" where
  "azure_access_token http credential self =
     get_or_mint http
       (wtry (wmap_err (\<lambda>e. ChallengeDns ''azure'' (''Failed to acquire Azure DNS access token. Verify AZURE_* environment credentials, ''
            @ ''AKS Workload Identity, managed identity endpoint, or Azure CLI login. Details: '' @ e))
          (dns_remote (credential (az_api_base self @ ''/.default''))))
        (\<lambda>(token, expires_on) w. (Inr (token, nat (expires_on - dh_utc_now http (dw_remote w))), w)))"

datatype precondition = IfMatch string | IfNoneMatch | NoPrecondition

record zone_list =
  zl_value :: "string list"
  zl_next_link :: "string option"

record 'b azure_json =
  aj_zone_list :: "'b \<Rightarrow> string + zone_list"
  aj_record_set :: "'b \<Rightarrow> string + record_set"
  aj_value :: "'b \<Rightarrow> string + unit"

definition API_VERSION :: string where "API_VERSION = ''2018-05-01''"

definition zones_url :: "azure_provider \<Rightarrow> string" where
  "zones_url self = az_api_base self @ ''/subscriptions/'' @ az_subscription_id self @ ''/resourceGroups/'' @ az_resource_group self
     @ ''/providers/Microsoft.Network/dnsZones''"

definition record_set_url :: "azure_provider \<Rightarrow> string \<Rightarrow> string \<Rightarrow> string" where
  "record_set_url self zone relative_name =
     zones_url self @ ''/'' @ zone @ ''/TXT/'' @ relative_name @ ''?api-version='' @ API_VERSION"

definition azure_request :: "dns_method \<Rightarrow> string \<Rightarrow> string \<Rightarrow> (string \<times> string) list \<Rightarrow> dns_body \<Rightarrow> dns_request" where
  "azure_request m url token headers body =
     \<lparr>dq_method = m, dq_url = url, dq_query = [], dq_headers = bearer_auth token # headers, dq_body = body\<rparr>"

definition azure_zone_page ::
  "('b, 'r) dns_http \<Rightarrow> 'b azure_json \<Rightarrow> string \<Rightarrow> string \<Rightarrow> 'r dns_world
   \<Rightarrow> (challenge_error + zone_info list \<times> string option) \<times> 'r dns_world" where
  "azure_zone_page http json token url =
     wtry (send ''azure'' http (azure_request DnsGet url token [] NoDnsBody)) (\<lambda>response.
     wtry (Pair (parse_response ''azure'' http (aj_zone_list json) response)) (\<lambda>body.
       Pair (Inr (map (\<lambda>name. zone_info_new name name) (zl_value body), zl_next_link body))))"

definition azure_try_cache_zones ::
  "('b, 'r) dns_http \<Rightarrow> 'b azure_json \<Rightarrow> 'r token_credential \<Rightarrow> azure_provider \<Rightarrow> 'r dns_world
   \<Rightarrow> ((challenge_error + unit) \<times> 'r dns_world) option" where
  "azure_try_cache_zones http json credential self =
     cache_zones (otry (returns (azure_access_token http credential self)) (\<lambda>token.
       list_zones (azure_zone_page http json token) (zones_url self @ ''?api-version='' @ API_VERSION) []))"

definition find_zone_and_relative_name ::
  "('b, 'r) dns_http \<Rightarrow> 'b azure_json \<Rightarrow> 'r token_credential \<Rightarrow> azure_provider \<Rightarrow> string \<Rightarrow> string \<Rightarrow> 'r dns_world
   \<Rightarrow> ((challenge_error + string \<times> string) \<times> 'r dns_world) option" where
  "find_zone_and_relative_name http json credential self domain record_name =
     otry (azure_try_cache_zones http json credential self) (\<lambda>_ w.
       Some (map_sum id (\<lambda>(_, zone_name).
         (zone_name, case strip_suffix (CHR ''.'' # zone_name) record_name of Some n \<Rightarrow> n | None \<Rightarrow> record_name)) (zone_of domain w), w))"

definition get_record_set ::
  "('b, 'r) dns_http \<Rightarrow> 'b azure_json \<Rightarrow> string \<Rightarrow> string \<Rightarrow> 'r dns_world \<Rightarrow> (challenge_error + record_set option) \<times> 'r dns_world" where
  "get_record_set http json url token =
     wtry (send ''azure'' http (azure_request DnsGet url token [] NoDnsBody)) (\<lambda>response.
       Pair (if dr_status response = 404 then Inr None
             else map_sum id Some (parse_response ''azure'' http (aj_record_set json) response)))"

text \<open>\<open>False\<close> is a precondition that failed.\<close>

definition put_record_set ::
  "('b, 'r) dns_http \<Rightarrow> 'b azure_json \<Rightarrow> string \<Rightarrow> txt_record list \<Rightarrow> precondition \<Rightarrow> string \<Rightarrow> 'r dns_world
   \<Rightarrow> (challenge_error + bool) \<times> 'r dns_world" where
  "put_record_set http json url records precondition token =
     wtry (send ''azure'' http (azure_request DnsPut url token
         (case precondition of
            IfMatch etag \<Rightarrow> [(''if-match'', etag)] | IfNoneMatch \<Rightarrow> [(''if-none-match'', ''*'')] | NoPrecondition \<Rightarrow> [])
         (AzureRecordSet \<lparr>rs_etag = None, rs_ttl = TXT_TTL, rs_txt_records = records\<rparr>)))
     (\<lambda>response.
       if dr_status response = 412 then Pair (Inr False)
       else wtry (Pair (parse_response ''azure'' http (aj_value json) response)) (\<lambda>_. Pair (Inr True)))"

definition delete_record_set ::
  "('b, 'r) dns_http \<Rightarrow> string \<Rightarrow> precondition \<Rightarrow> string \<Rightarrow> 'r dns_world \<Rightarrow> (challenge_error + bool) \<times> 'r dns_world" where
  "delete_record_set http url precondition token =
     wtry (send ''azure'' http (azure_request DnsDelete url token
         (case precondition of IfMatch etag \<Rightarrow> [(''if-match'', etag)] | _ \<Rightarrow> []) NoDnsBody))
     (\<lambda>response. let status = dr_status response in
       Pair (if status = 412 then Inr False
             else if \<not> is_success status \<and> status \<noteq> 404
             then Inl (ChallengeDns ''azure'' (''Failed to delete record set (status '' @ dh_status_text http status @ ''): ''
                    @ dh_text http (dr_body response)))
             else Inr True))"

definition kept_being_modified :: "string \<Rightarrow> challenge_error" where
  "kept_being_modified record_name =
     ChallengeDns ''azure'' (''Record set '' @ record_name @ '' kept being modified concurrently'')"

definition applied_or_conflict :: "string \<Rightarrow> bool \<Rightarrow> challenge_error + unit" where
  "applied_or_conflict record_name applied = (if applied then Inr () else Inl (kept_being_modified record_name))"

text \<open>One round of the loop that adds a value, and of the loop that removes it.\<close>

definition azure_create_attempt ::
  "('b, 'r) dns_http \<Rightarrow> 'b azure_json \<Rightarrow> string \<Rightarrow> string \<Rightarrow> string \<Rightarrow> string \<Rightarrow> 'r dns_world
   \<Rightarrow> (challenge_error + (challenge_error + unit)) \<times> 'r dns_world" where
  "azure_create_attempt http json url token record_name v =
     wtry (get_record_set http json url token) (\<lambda>existing.
       let etag = Option.bind existing rs_etag;
           precondition = (case (existing, etag) of
               (Some _, Some etag) \<Rightarrow> IfMatch etag | (Some _, None) \<Rightarrow> NoPrecondition | (None, _) \<Rightarrow> IfNoneMatch);
           records = (case existing of Some r \<Rightarrow> rs_txt_records r | None \<Rightarrow> []);
           records = (if [v] \<in> set records then records else records @ [[v]])
       in wtry (put_record_set http json url records precondition token) (\<lambda>applied. Pair (Inr (applied_or_conflict record_name applied))))"

definition azure_delete_attempt ::
  "('b, 'r) dns_http \<Rightarrow> 'b azure_json \<Rightarrow> string \<Rightarrow> string \<Rightarrow> string \<Rightarrow> string \<Rightarrow> 'r dns_world
   \<Rightarrow> (challenge_error + (challenge_error + unit)) \<times> 'r dns_world" where
  "azure_delete_attempt http json url token record_name v =
     wtry (get_record_set http json url token) (\<lambda>existing.
       case existing of
         None \<Rightarrow> Pair (Inr (Inr ()))
       | Some existing \<Rightarrow>
           let precondition = (case rs_etag existing of Some etag \<Rightarrow> IfMatch etag | None \<Rightarrow> NoPrecondition);
               records = filter (\<lambda>r. r \<noteq> [v]) (rs_txt_records existing)
           in wtry (if records = [] then delete_record_set http url precondition token
                    else put_record_set http json url records precondition token)
              (\<lambda>applied. Pair (Inr (applied_or_conflict record_name applied))))"

definition azure_create_txt_record ::
  "('b, 'r) dns_http \<Rightarrow> 'b azure_json \<Rightarrow> 'r token_credential \<Rightarrow> azure_provider \<Rightarrow> string \<Rightarrow> string \<Rightarrow> 'r dns_world
   \<Rightarrow> ((challenge_error + unit) \<times> 'r dns_world) option" where
  "azure_create_txt_record http json credential self domain v =
     (let record_name = ''_acme-challenge.'' @ trim_end_matches CHR ''.'' domain in
      otry (find_zone_and_relative_name http json credential self domain record_name) (\<lambda>(zone, relative_name).
      returns (wtry (azure_access_token http credential self) (\<lambda>token.
      wtry (retry_conflicts (azure_create_attempt http json (record_set_url self zone relative_name) token record_name v) CONFLICT_RETRIES)
        (\<lambda>_. dns_remote (\<lambda>r. (Inr (), dh_sleep http (az_propagation_delay self) r)))))))"

definition azure_delete_txt_record ::
  "('b, 'r) dns_http \<Rightarrow> 'b azure_json \<Rightarrow> 'r token_credential \<Rightarrow> azure_provider \<Rightarrow> string \<Rightarrow> string \<Rightarrow> 'r dns_world
   \<Rightarrow> ((challenge_error + unit) \<times> 'r dns_world) option" where
  "azure_delete_txt_record http json credential self domain v =
     (let record_name = ''_acme-challenge.'' @ trim_end_matches CHR ''.'' domain in
      otry (find_zone_and_relative_name http json credential self domain record_name) (\<lambda>(zone, relative_name).
      returns (wtry (azure_access_token http credential self) (\<lambda>token.
      retry_conflicts (azure_delete_attempt http json (record_set_url self zone relative_name) token record_name v) CONFLICT_RETRIES))))"

section \<open>Google Cloud DNS\<close>

record gcloud_provider =
  gp_project_id :: string
  gp_api_base :: string

text \<open>\<open>build_credentials\<close> gives the application default credentials of the environment.\<close>

definition gcloud_new :: "string + 'c \<Rightarrow> string \<Rightarrow> challenge_error + 'c \<times> gcloud_provider" where
  "gcloud_new build_credentials project_id =
     (if str_trim project_id = [] then Inl (ChallengeDns ''gcloud'' ''Google Cloud DNS requires a non-empty project_id'')
      else case build_credentials of
        Inl e \<Rightarrow> Inl (ChallengeDns ''gcloud'' (''Failed to initialize Google Cloud Application Default Credentials for DNS provider. ''
          @ ''Configure GKE Workload Identity or set GOOGLE_APPLICATION_CREDENTIALS to a valid ADC file. Details: '' @ e))
      | Inr credentials \<Rightarrow> Inr (credentials, \<lparr>gp_project_id = project_id, gp_api_base = ''https://dns.googleapis.com/dns/v1''\<rparr>))"

definition gcloud_access_token :: "('r \<Rightarrow> (string + string) \<times> 'r) \<Rightarrow> 'r dns_world \<Rightarrow> (challenge_error + string) \<times> 'r dns_world" where
  "gcloud_access_token credentials =
     wmap_err (\<lambda>e. ChallengeDns ''gcloud'' (''Failed to acquire Google Cloud DNS ambient access token via Application Default Credentials. ''
       @ ''Verify GKE Workload Identity, metadata server access, or GOOGLE_APPLICATION_CREDENTIALS. Details: '' @ e)) (dns_remote credentials)"

definition project_url :: "gcloud_provider \<Rightarrow> string" where
  "project_url self = gp_api_base self @ ''/projects/'' @ gp_project_id self"

record managed_zone_list =
  mz_managed_zones :: "(string \<times> string) list"
  mz_next_page_token :: "string option"

record dns_change =
  dc_id :: string
  dc_status :: string

record 'b gcloud_json =
  gj_zones :: "'b \<Rightarrow> string + managed_zone_list"
  gj_rrsets :: "'b \<Rightarrow> string + rr_set list"
  gj_change :: "'b \<Rightarrow> string + dns_change"

definition gcloud_request :: "dns_method \<Rightarrow> string \<Rightarrow> (string \<times> string) list \<Rightarrow> string \<Rightarrow> dns_body \<Rightarrow> dns_request" where
  "gcloud_request m url query token body =
     \<lparr>dq_method = m, dq_url = url, dq_query = query, dq_headers = [bearer_auth token], dq_body = body\<rparr>"

definition gcloud_zone_page ::
  "('b, 'r) dns_http \<Rightarrow> 'b gcloud_json \<Rightarrow> gcloud_provider \<Rightarrow> string \<Rightarrow> string option \<Rightarrow> 'r dns_world
   \<Rightarrow> (challenge_error + zone_info list \<times> string option option) \<times> 'r dns_world" where
  "gcloud_zone_page http json self token page_token =
     wtry (send ''gcloud'' http (gcloud_request DnsGet (project_url self @ ''/managedZones'')
       (case page_token of Some t \<Rightarrow> [(''pageToken'', t)] | None \<Rightarrow> []) token NoDnsBody)) (\<lambda>response.
     wtry (Pair (parse_response ''gcloud'' http (gj_zones json) response)) (\<lambda>body.
       Pair (Inr (map (\<lambda>(name, dns_name). zone_info_new dns_name name) (mz_managed_zones body),
         map_option Some (mz_next_page_token body)))))"

definition gcloud_try_cache_zones ::
  "('b, 'r) dns_http \<Rightarrow> 'b gcloud_json \<Rightarrow> ('r \<Rightarrow> (string + string) \<times> 'r) \<Rightarrow> gcloud_provider \<Rightarrow> 'r dns_world
   \<Rightarrow> ((challenge_error + unit) \<times> 'r dns_world) option" where
  "gcloud_try_cache_zones http json credentials self =
     cache_zones (otry (returns (gcloud_access_token credentials)) (\<lambda>token.
       list_zones (gcloud_zone_page http json self token) None []))"

definition gcloud_find_zone ::
  "('b, 'r) dns_http \<Rightarrow> 'b gcloud_json \<Rightarrow> ('r \<Rightarrow> (string + string) \<times> 'r) \<Rightarrow> gcloud_provider \<Rightarrow> string \<Rightarrow> 'r dns_world
   \<Rightarrow> ((challenge_error + string) \<times> 'r dns_world) option" where
  "gcloud_find_zone http json credentials self domain =
     otry (gcloud_try_cache_zones http json credentials self) (\<lambda>_ w. Some (map_sum id fst (zone_of domain w), w))"

definition get_rrset ::
  "('b, 'r) dns_http \<Rightarrow> 'b gcloud_json \<Rightarrow> gcloud_provider \<Rightarrow> string \<Rightarrow> string \<Rightarrow> string \<Rightarrow> 'r dns_world
   \<Rightarrow> (challenge_error + rr_set option) \<times> 'r dns_world" where
  "get_rrset http json self zone record_name token =
     wtry (send ''gcloud'' http (gcloud_request DnsGet (project_url self @ ''/managedZones/'' @ zone @ ''/rrsets'')
       [(''name'', record_name), (''type'', ''TXT'')] token NoDnsBody)) (\<lambda>response.
     wtry (Pair (parse_response ''gcloud'' http (gj_rrsets json) response)) (\<lambda>rrsets.
       Pair (Inr (case rrsets of [] \<Rightarrow> None | r # _ \<Rightarrow> Some r))))"

text \<open>One round of the loop; it is done without a change, or with one whose propagation is awaited.\<close>

definition change_attempt ::
  "('b, 'r) dns_http \<Rightarrow> 'b gcloud_json \<Rightarrow> gcloud_provider \<Rightarrow> string \<Rightarrow> string \<Rightarrow> (string list \<Rightarrow> string list) \<Rightarrow> string
   \<Rightarrow> 'r dns_world \<Rightarrow> (challenge_error + (challenge_error + dns_change option)) \<times> 'r dns_world" where
  "change_attempt http json self zone record_name merge token =
     wtry (get_rrset http json self zone record_name token) (\<lambda>existing.
       let old_rrdatas = (case existing of Some r \<Rightarrow> rr_rrdatas r | None \<Rightarrow> []);
           new_rrdatas = merge old_rrdatas
       in if map_option rr_rrdatas existing = Some new_rrdatas \<or> (existing = None \<and> new_rrdatas = [])
          then Pair (Inr (Inr None))
          else wtry (send ''gcloud'' http (gcloud_request DnsPost (project_url self @ ''/managedZones/'' @ zone @ ''/changes'') [] token
                 (GcloudChange existing
                   (if new_rrdatas \<noteq> []
                    then Some \<lparr>rr_name = record_name, rr_kind = ''TXT'', rr_ttl = TXT_TTL, rr_rrdatas = new_rrdatas\<rparr> else None))))
               (\<lambda>response. Pair
                 (case parse_response ''gcloud'' http (gj_change json) response of
                    Inl e \<Rightarrow> if dr_status response = 409 then Inr (Inl e) else Inl e
                  | Inr change \<Rightarrow> Inr (Inr (Some change)))))"

partial_function (option) gcloud_poll ::
  "('b, 'r) dns_http \<Rightarrow> 'b gcloud_json \<Rightarrow> gcloud_provider \<Rightarrow> string \<Rightarrow> string \<Rightarrow> string \<Rightarrow> nat \<Rightarrow> nat \<Rightarrow> 'r
   \<Rightarrow> ((challenge_error + unit) \<times> 'r) option" where
  "gcloud_poll http json self zone change_id token start retries r =
     (let elapsed = dh_now http r - start; delay = propagation_wait retries in
      if elapsed + delay > PROPAGATION_TIMEOUT
      then Some (Inl (propagation_timed_out ''gcloud''), dh_sleep http (PROPAGATION_TIMEOUT - elapsed) r)
      else
        (case dh_send http (gcloud_request DnsGet (project_url self @ ''/managedZones/'' @ zone @ ''/changes/'' @ change_id) [] token NoDnsBody)
                (dh_sleep http delay r) of
           (sent, r) \<Rightarrow>
             if dh_now http r - start > PROPAGATION_TIMEOUT then Some (Inl (propagation_timed_out ''gcloud''), r)
             else case sent of
               Inl e \<Rightarrow> Some (Inl (ChallengeDns ''gcloud'' e), r)
             | Inr response \<Rightarrow>
                 (case parse_response ''gcloud'' http (gj_change json) response of
                    Inl e \<Rightarrow> Some (Inl e, r)
                  | Inr change \<Rightarrow>
                      if dc_status change = ''done'' then Some (Inr (), r)
                      else gcloud_poll http json self zone change_id token start (retries + 1) r)))"

definition wait_for_change ::
  "('b, 'r) dns_http \<Rightarrow> 'b gcloud_json \<Rightarrow> gcloud_provider \<Rightarrow> string \<Rightarrow> dns_change \<Rightarrow> string \<Rightarrow> 'r dns_world
   \<Rightarrow> ((challenge_error + unit) \<times> 'r dns_world) option" where
  "wait_for_change http json self zone change token w =
     (if dc_status change = ''done'' then Some (Inr (), w)
      else map_option (\<lambda>(x, r). (x, w\<lparr>dw_remote := r\<rparr>))
             (gcloud_poll http json self zone (dc_id change) token (dh_now http (dw_remote w)) 0 (dw_remote w)))"

definition change_rrset ::
  "('b, 'r) dns_http \<Rightarrow> 'b gcloud_json \<Rightarrow> ('r \<Rightarrow> (string + string) \<times> 'r) \<Rightarrow> gcloud_provider \<Rightarrow> string \<Rightarrow> string
   \<Rightarrow> (string list \<Rightarrow> string list) \<Rightarrow> 'r dns_world \<Rightarrow> ((challenge_error + unit) \<times> 'r dns_world) option" where
  "change_rrset http json credentials self zone record_name merge =
     otry (returns (gcloud_access_token credentials)) (\<lambda>token.
     otry (returns (retry_conflicts (change_attempt http json self zone record_name merge token) CONFLICT_RETRIES)) (\<lambda>change.
       case change of
         None \<Rightarrow> (\<lambda>w. Some (Inr (), w))
       | Some change \<Rightarrow> wait_for_change http json self zone change token))"

definition gcloud_create_txt_record ::
  "('b, 'r) dns_http \<Rightarrow> 'b gcloud_json \<Rightarrow> ('r \<Rightarrow> (string + string) \<times> 'r) \<Rightarrow> gcloud_provider \<Rightarrow> string \<Rightarrow> string \<Rightarrow> 'r dns_world
   \<Rightarrow> ((challenge_error + unit) \<times> 'r dns_world) option" where
  "gcloud_create_txt_record http json credentials self domain v =
     (let record_name = ''_acme-challenge.'' @ trim_end_matches CHR ''.'' domain @ ''.'' in
      otry (gcloud_find_zone http json credentials self domain) (\<lambda>zone.
        let quoted_value = double_quoted v in
        change_rrset http json credentials self zone record_name
          (\<lambda>rrdatas. if quoted_value \<in> set rrdatas then rrdatas else rrdatas @ [quoted_value])))"

definition gcloud_delete_txt_record ::
  "('b, 'r) dns_http \<Rightarrow> 'b gcloud_json \<Rightarrow> ('r \<Rightarrow> (string + string) \<times> 'r) \<Rightarrow> gcloud_provider \<Rightarrow> string \<Rightarrow> string \<Rightarrow> 'r dns_world
   \<Rightarrow> ((challenge_error + unit) \<times> 'r dns_world) option" where
  "gcloud_delete_txt_record http json credentials self domain v =
     (let record_name = ''_acme-challenge.'' @ trim_end_matches CHR ''.'' domain @ ''.'' in
      otry (gcloud_find_zone http json credentials self domain) (\<lambda>zone.
        let quoted_value = double_quoted v in
        change_rrset http json credentials self zone record_name (filter (\<lambda>v. v \<noteq> quoted_value))))"

end
