(* ===== verification/Dns_Interference.thy ===== *)
theory Dns_Interference
  imports Dns_Providers
begin

text \<open>
  Reasoning about operations on records that others change at the same time. \<open>env\<close> is what others may
  do; an operation is described by the changes it applies, each to the values of that moment. The locale
  \<open>optimistic_update\<close> is the contract of a read followed by a conditional write; the rules for \<open>quiet\<close>,
  \<open>updates\<close> and \<open>lossless\<close> follow the composition of the code.
\<close>

section \<open>Listing zones and waiting\<close>

text \<open>A listing whose pages come to an end gives the zones of all pages, in their order.\<close>

inductive zone_pages :: "('p \<Rightarrow> 'w \<Rightarrow> ('e + zone_info list \<times> 'p option) \<times> 'w) \<Rightarrow> 'p \<Rightarrow> 'w \<Rightarrow> zone_info list \<Rightarrow> 'w \<Rightarrow> bool"
  for fetch where
  last_page: "fetch p w = (Inr (zones, None), w') \<Longrightarrow> zone_pages fetch p w zones w'"
| next_page: "fetch p w = (Inr (zones, Some q), w') \<Longrightarrow> zone_pages fetch q w' rest w'' \<Longrightarrow> zone_pages fetch p w (zones @ rest) w''"

lemma list_zones_all:
  "zone_pages fetch p w zones w' \<Longrightarrow> list_zones fetch p all_zones w = Some (Inr (all_zones @ zones), w')"
proof (induction arbitrary: all_zones rule: zone_pages.induct)
  case (last_page p w zones w')
  then show ?case by (subst list_zones.simps) simp
next
  case (next_page p w zones q w' rest w'')
  then show ?case by (subst list_zones.simps) simp
qed

text \<open>From the ninth delay on, a delay is longer than the whole wait.\<close>

lemma propagation_wait_8: "PROPAGATION_TIMEOUT < propagation_wait 8"
  by (simp add: PROPAGATION_TIMEOUT_def propagation_wait_def)

lemma r5_poll_returns: "retries \<le> 8 \<Longrightarrow> r5_poll client change_id start retries r \<noteq> None"
proof (induction "8 - retries" arbitrary: retries r)
  case 0
  then have "retries = 8" by simp
  then show ?case using propagation_wait_8
    by (subst r5_poll.simps) (simp add: Let_def split: prod.splits sum.splits)
next
  case (Suc d)
  then have "r5_poll client change_id start (retries + 1) r' \<noteq> None" for r' by (intro Suc.hyps(1)) auto
  then show ?case by (subst r5_poll.simps) (simp add: Let_def split: prod.splits sum.splits)
qed

lemma gcloud_poll_returns: "retries \<le> 8 \<Longrightarrow> gcloud_poll http json self zone change_id token start retries r \<noteq> None"
proof (induction "8 - retries" arbitrary: retries r)
  case 0
  then have "retries = 8" by simp
  then show ?case using propagation_wait_8 by (subst gcloud_poll.simps) (simp add: Let_def)
next
  case (Suc d)
  then have "gcloud_poll http json self zone change_id token start (retries + 1) r' \<noteq> None" for r'
    by (intro Suc.hyps(1)) auto
  then show ?case by (subst gcloud_poll.simps) (simp add: Let_def split: prod.splits sum.splits)
qed

lemma parse_response_Inr:
  "parse_response provider http decode response = Inr x \<longleftrightarrow> is_success (dr_status response) \<and> decode (dr_body response) = Inr x"
  by (cases "decode (dr_body response)") (auto simp: parse_response_def Let_def)

section \<open>Interference\<close>

text \<open>
  A state evolves by changes of others, steps that do not touch the records, and changes of one's own.
\<close>

definition evolves :: "('w \<Rightarrow> 'w \<Rightarrow> bool) \<Rightarrow> ('w \<Rightarrow> 'v) \<Rightarrow> ('w \<Rightarrow> 'w \<Rightarrow> bool) \<Rightarrow> 'w \<Rightarrow> 'w \<Rightarrow> bool" where
  "evolves env view own = (\<lambda>a b. env a b \<or> view b = view a \<or> own a b)\<^sup>*\<^sup>*"

text \<open>The change of the values under one key, whatever they are at that moment.\<close>

definition applies :: "('w \<Rightarrow> 'k \<Rightarrow> 'v) \<Rightarrow> 'k \<Rightarrow> ('v \<Rightarrow> 'v) \<Rightarrow> 'w \<Rightarrow> 'w \<Rightarrow> bool" where
  "applies view k f a b \<longleftrightarrow> view b = (view a)(k := f (view a k))"

definition performs :: "('w \<Rightarrow> 'w \<Rightarrow> bool) \<Rightarrow> ('w \<Rightarrow> 'k \<Rightarrow> 'v) \<Rightarrow> 'k \<Rightarrow> ('v \<Rightarrow> 'v) \<Rightarrow> 'w \<Rightarrow> 'w \<Rightarrow> bool" where
  "performs env view k f w w' \<longleftrightarrow>
     (\<exists>a b. evolves env view (applies view k f) w a \<and> applies view k f a b \<and> evolves env view (applies view k f) b w')"

lemma interfered_refl: "evolves env view own w w"
  by (simp add: evolves_def)

lemma interfered_trans [trans]: "evolves env view own a b \<Longrightarrow> evolves env view own b c \<Longrightarrow> evolves env view own a c"
  unfolding evolves_def by (rule rtranclp_trans)

lemma evolves_own: "own a b \<Longrightarrow> evolves env view own a b"
  unfolding evolves_def by (rule r_into_rtranclp) simp

lemma evolves_same: "view b = view a \<Longrightarrow> evolves env view own a b"
  unfolding evolves_def by (rule r_into_rtranclp) simp

lemma evolves_env: "env\<^sup>*\<^sup>* a b \<Longrightarrow> evolves env view own a b"
  unfolding evolves_def by (erule rtranclp_mono [THEN predicate2D, rotated]) auto

lemma evolves_quiet: "env\<^sup>*\<^sup>* w a \<Longrightarrow> view w' = view a \<Longrightarrow> evolves env view own w w'"
  by (rule interfered_trans [OF evolves_env evolves_same])

lemma evolves_mono: "(\<And>a b. own a b \<Longrightarrow> own' a b) \<Longrightarrow> evolves env view own w w' \<Longrightarrow> evolves env view own' w w'"
  unfolding evolves_def by (erule rtranclp_mono [THEN predicate2D, rotated]) auto

lemma performs_evolves: "performs env view k f w w' \<Longrightarrow> evolves env view (applies view k f) w w'"
  unfolding performs_def by (blast intro: interfered_trans evolves_own)

lemma performs_between:
  "evolves env view (applies view k f) w a \<Longrightarrow> performs env view k f a b \<Longrightarrow>
   evolves env view (applies view k f) b w' \<Longrightarrow> performs env view k f w w'"
  unfolding performs_def by (blast intro: interfered_trans)

section \<open>Optimistic updates\<close>

text \<open>
  A record set is read and changed under the condition that it is still the one that was read:
  \<open>good\<close> are the readings a condition can be made of, \<open>seen\<close> the values read. A change is applied to
  the values of that moment, or not at all; it may also be left out when the values read need none.
\<close>

locale optimistic_update =
  fixes env :: "'w \<Rightarrow> 'w \<Rightarrow> bool" and view :: "'w \<Rightarrow> 'k \<Rightarrow> 'v" and k :: 'k and f :: "'v \<Rightarrow> 'v"
    and get :: "'w \<Rightarrow> ('e + 't) \<times> 'w" and change :: "'t \<Rightarrow> 'w \<Rightarrow> ('e + ('e + 'd)) \<times> 'w"
    and good :: "'t \<Rightarrow> bool" and seen :: "'t \<Rightarrow> 'v"
  assumes get_law: "get w = (x, w') \<Longrightarrow>
      \<exists>a. env\<^sup>*\<^sup>* w a \<and> view w' = view a \<and> (\<forall>t. x = Inr t \<longrightarrow> good t \<and> seen t = view a k)"
    and change_law: "good t \<Longrightarrow> change t w = (y, w') \<Longrightarrow>
      (view w' = view w \<and> (f (seen t) = seen t \<or> (\<forall>d. y \<noteq> Inr (Inr d))))
      \<or> (\<exists>a. env\<^sup>*\<^sup>* w a \<and> (view w' = view a \<and> (\<forall>d. y \<noteq> Inr (Inr d)) \<or> applies view k f a w'))"
begin

lemma attempt_law:
  assumes "wtry get change w = (x, w')"
  shows "evolves env view (applies view k f) w w' \<and> (\<forall>d. x = Inr (Inr d) \<longrightarrow> performs env view k f w w')"
proof -
  obtain y v where g: "get w = (y, v)" by fastforce
  obtain a where a: "env\<^sup>*\<^sup>* w a" "view v = view a" "\<And>t. y = Inr t \<Longrightarrow> good t \<and> seen t = view a k"
    using get_law [OF g] by blast
  have wv: "evolves env view (applies view k f) w v" by (rule evolves_quiet [OF a(1,2)])
  show ?thesis
  proof (cases y)
    case (Inl e)
    then show ?thesis using assms g wv by (auto simp: wtry_def)
  next
    case (Inr t)
    then have c: "change t v = (x, w')" "good t" "seen t = view v k" using assms g a by (auto simp: wtry_def)
    from change_law [OF c(2,1)] show ?thesis
    proof (elim disjE exE conjE)
      assume same: "view w' = view v" and "f (seen t) = seen t"
      then have "applies view k f v w'" using c(3) by (simp add: applies_def)
      then show ?thesis using wv unfolding performs_def by (blast intro: interfered_refl evolves_own interfered_trans)
    next
      fix b assume "env\<^sup>*\<^sup>* v b" "applies view k f b w'"
      then have "evolves env view (applies view k f) w b" "applies view k f b w'"
        using wv by (blast intro: evolves_env interfered_trans)+
      then show ?thesis unfolding performs_def by (blast intro: interfered_refl evolves_own interfered_trans)
    qed (use wv in \<open>blast intro: evolves_quiet evolves_same interfered_trans\<close>)+
  qed
qed

lemma retry_law:
  "retry_conflicts (wtry get change) left w = (x, w') \<Longrightarrow>
   evolves env view (applies view k f) w w' \<and> (\<forall>d. x = Inr d \<longrightarrow> performs env view k f w w')"
proof (induction left arbitrary: w)
  case 0
  then show ?case using attempt_law [of w]
    by (subst (asm) retry_conflicts.simps) (fastforce split: prod.splits sum.splits)
next
  case (Suc left)
  obtain y v where a: "wtry get change w = (y, v)" by fastforce
  note l = attempt_law [OF a]
  show ?case
  proof (cases "\<exists>e. y = Inr (Inl e)")
    case True
    then have "retry_conflicts (wtry get change) left v = (x, w')"
      using Suc.prems a by (subst (asm) retry_conflicts.simps) auto
    from Suc.IH [OF this] l show ?thesis by (blast intro: interfered_trans performs_between interfered_refl)
  next
    case False
    then show ?thesis using Suc.prems a l
      by (subst (asm) retry_conflicts.simps) (auto split: prod.splits sum.splits)
  qed
qed

end

section \<open>Records of a provider\<close>

definition set_values :: "('a \<times> 'v list) option \<Rightarrow> 'v list" where
  "set_values s = (case s of Some (_, vs) \<Rightarrow> vs | None \<Rightarrow> [])"

text \<open>The values of every record set, and the changes of others, on the state of a provider.\<close>

definition dns_values :: "('r \<Rightarrow> 'k \<Rightarrow> ('a \<times> 'v list) option) \<Rightarrow> 'r dns_world \<Rightarrow> 'k \<Rightarrow> 'v list" where
  "dns_values sets w k = set_values (sets (dw_remote w) k)"

definition on_remote :: "('r \<Rightarrow> 'r \<Rightarrow> bool) \<Rightarrow> 'r dns_world \<Rightarrow> 'r dns_world \<Rightarrow> bool" where
  "on_remote env a b \<longleftrightarrow> env (dw_remote a) (dw_remote b)"

definition add_value :: "'v \<Rightarrow> 'v list \<Rightarrow> 'v list" where
  "add_value v vs = (if v \<in> set vs then vs else vs @ [v])"

definition remove_value :: "'v \<Rightarrow> 'v list \<Rightarrow> 'v list" where
  "remove_value v vs = filter (\<lambda>u. u \<noteq> v) vs"

lemma on_remote_star: "env\<^sup>*\<^sup>* (dw_remote w) r \<Longrightarrow> (on_remote env)\<^sup>*\<^sup>* w (w\<lparr>dw_remote := r\<rparr>)"
proof (induction rule: rtranclp_induct)
  case (step y z)
  then have "on_remote env (w\<lparr>dw_remote := y\<rparr>) (w\<lparr>dw_remote := z\<rparr>)" by (simp add: on_remote_def)
  with step.IH show ?case by (rule rtranclp.rtrancl_into_rtrancl)
qed simp

lemma dns_values_eq: "sets (dw_remote w') = sets r \<Longrightarrow> dns_values sets w' = dns_values sets (w\<lparr>dw_remote := r\<rparr>)"
  by (simp add: dns_values_def fun_eq_iff)

section \<open>Whole operations\<close>

text \<open>Calls that leave the records alone, and calls that leave the cached zones alone.\<close>

definition quiet :: "('w \<Rightarrow> 'w \<Rightarrow> bool) \<Rightarrow> ('w \<Rightarrow> 'v) \<Rightarrow> ('w \<Rightarrow> ('a \<times> 'w) option) \<Rightarrow> bool" where
  "quiet env view f \<longleftrightarrow> (\<forall>w x w' own. f w = Some (x, w') \<longrightarrow> evolves env view own w w')"

definition keeps_zones :: "('r dns_world \<Rightarrow> 'a \<times> 'r dns_world) \<Rightarrow> bool" where
  "keeps_zones f \<longleftrightarrow> (\<forall>w. dw_zones (snd (f w)) = dw_zones w)"

named_theorems quiet_rules \<open>calls that leave the records or the zones alone\<close>

lemma quiet_Some [quiet_rules]: "quiet env view (\<lambda>w. Some (f w, w))"
  by (auto simp: quiet_def intro: interfered_refl)

lemma quiet_otry [quiet_rules]: "quiet env view f \<Longrightarrow> (\<And>x. quiet env view (k x)) \<Longrightarrow> quiet env view (otry f k)"
  unfolding quiet_def
proof (intro allI impI)
  fix w x w' own
  assume f: "\<forall>w x w' own. f w = Some (x, w') \<longrightarrow> evolves env view own w w'"
    and k: "\<And>x. \<forall>w y w' own. k x w = Some (y, w') \<longrightarrow> evolves env view own w w'"
    and "otry f k w = Some (x, w')"
  then obtain y v where y: "f w = Some (y, v)" "(case y of Inl e \<Rightarrow> Some (Inl e, v) | Inr x \<Rightarrow> k x v) = Some (x, w')"
    by (auto simp: otry_def bind_eq_Some_conv)
  then have "evolves env view own w v" using f by blast
  moreover have "evolves env view own v w'" using y(2) k interfered_refl [of env view own] by (cases y) auto
  ultimately show "evolves env view own w w'" by (rule interfered_trans)
qed

lemma quiet_wtry [quiet_rules]:
  "quiet env view (returns f) \<Longrightarrow> (\<And>x. quiet env view (returns (k x))) \<Longrightarrow> quiet env view (returns (wtry f k))"
  unfolding quiet_def returns_def wtry_def by (fastforce intro: interfered_trans split: prod.splits sum.splits)

lemma quiet_wmap_err [quiet_rules]: "quiet env view (returns f) \<Longrightarrow> quiet env view (returns (wmap_err g f))"
  unfolding quiet_def returns_def wmap_err_def by (auto split: prod.splits)

lemma quiet_Pair [quiet_rules]: "quiet env view (returns (Pair x))"
  by (auto simp: quiet_def returns_def intro: interfered_refl)

lemma quiet_list_zones [quiet_rules]:
  fixes fetch :: "'p \<Rightarrow> 'w \<Rightarrow> ('e + zone_info list \<times> 'p option) \<times> 'w"
  assumes "\<And>p. quiet env view (returns (fetch p))"
  shows "quiet env view (list_zones fetch p all_zones)"
proof -
  have "(\<forall>p. quiet env view (returns (fetch p))) \<longrightarrow> evolves env view own w (snd y)"
    if "list_zones fetch p all_zones w = Some y" for w y own
    using that
  proof (rule list_zones.raw_induct [rotated, where P = "\<lambda>fetch p all_zones w y.
      (\<forall>p. quiet env view (returns (fetch p))) \<longrightarrow> evolves env view own w (snd y)"], intro impI)
    fix rec and fetch :: "'p \<Rightarrow> 'w \<Rightarrow> ('e + zone_info list \<times> 'p option) \<times> 'w" and p all_zones w y
    assume IH: "\<And>fetch p all_zones w y. rec fetch p all_zones w = Some y \<Longrightarrow>
        (\<forall>p. quiet env view (returns (fetch p))) \<longrightarrow> evolves env view own w (snd y)"
      and body: "(case fetch p w of (Inl e, w) \<Rightarrow> Some (Inl e, w)
        | (Inr (zones, None), w) \<Rightarrow> Some (Inr (all_zones @ zones), w)
        | (Inr (zones, Some p), w) \<Rightarrow> rec fetch p (all_zones @ zones) w) = Some y"
      and q: "\<forall>p. quiet env view (returns (fetch p))"
    obtain z v where z: "fetch p w = (z, v)" by fastforce
    then have wv: "evolves env view own w v" using q by (auto simp: quiet_def returns_def)
    have "evolves env view own w (snd y)" if "rec fetch p' zones v = Some y" for p' zones
      using interfered_trans [OF wv] IH [OF that] q by blast
    then show "evolves env view own w (snd y)" using body z wv by (auto split: sum.splits option.splits)
  qed
  then show ?thesis using assms unfolding quiet_def by fastforce
qed

lemma quiet_cache_zones [quiet_rules]:
  assumes "quiet (on_remote env) (dns_values sets) f"
  shows "quiet (on_remote env) (dns_values sets) (cache_zones f)"
proof -
  have "quiet (on_remote env) (dns_values sets)
      (otry f (\<lambda>all_zones w. Some (Inr (), w\<lparr>dw_zones := Some all_zones\<rparr>)))"
  proof (rule quiet_otry [OF assms])
    fix z show "quiet (on_remote env) (dns_values sets) (\<lambda>w. Some (Inr (), w\<lparr>dw_zones := Some z\<rparr>))"
      by (auto simp: quiet_def dns_values_def fun_eq_iff intro!: evolves_same)
  qed
  then show ?thesis unfolding quiet_def cache_zones_def by (auto intro: interfered_refl split: option.splits)
qed

lemma quiet_remote:
  assumes "\<And>r x r'. f r = (x, r') \<Longrightarrow> \<exists>a. env\<^sup>*\<^sup>* r a \<and> sets r' = sets a"
  shows "quiet (on_remote env) (dns_values sets) (returns (dns_remote f))"
  unfolding quiet_def
proof (intro allI impI)
  fix w x w' own
  assume "returns (dns_remote f) w = Some (x, w')"
  then obtain r where r: "f (dw_remote w) = (x, r)" "w' = w\<lparr>dw_remote := r\<rparr>"
    by (auto simp: returns_def dns_remote_def split: prod.splits)
  from assms [OF r(1)] obtain a where a: "env\<^sup>*\<^sup>* (dw_remote w) a" "sets r = sets a" by blast
  then have "dns_values sets w' = dns_values sets (w\<lparr>dw_remote := a\<rparr>)" using r(2) by (intro dns_values_eq) simp
  with on_remote_star [OF a(1)] show "evolves (on_remote env) (dns_values sets) own w w'" by (rule evolves_quiet)
qed

lemma quiet_get_or_mint [quiet_rules]:
  assumes "quiet (on_remote env) (dns_values sets) (returns mint)"
  shows "quiet (on_remote env) (dns_values sets) (returns (get_or_mint http mint))"
proof -
  have "quiet (on_remote env) (dns_values sets) (returns (wtry mint (\<lambda>(token, ttl) w.
      (Inr token, w\<lparr>dw_token := Some (token, dh_now http (dw_remote w) + (ttl - EXPIRY_SKEW))\<rparr>))))"
  proof (rule quiet_wtry [OF assms])
    fix z :: "string \<times> nat"
    show "quiet (on_remote env) (dns_values sets) (returns ((\<lambda>(token, ttl) w.
      (Inr token, w\<lparr>dw_token := Some (token, dh_now http (dw_remote w) + (ttl - EXPIRY_SKEW))\<rparr>)) z))"
      by (cases z) (auto simp: quiet_def returns_def dns_values_def fun_eq_iff intro!: evolves_same)
  qed
  then show ?thesis unfolding quiet_def returns_def get_or_mint_def
    by (auto intro: interfered_refl split: option.splits)
qed

lemma keeps_zones_wtry [quiet_rules]: "keeps_zones f \<Longrightarrow> (\<And>x. keeps_zones (k x)) \<Longrightarrow> keeps_zones (wtry f k)"
  unfolding keeps_zones_def wtry_def by (auto split: prod.splits sum.splits) (metis snd_conv)+

lemma keeps_zones_simple [quiet_rules]:
  "keeps_zones (Pair x)" "keeps_zones (dns_remote g)" "keeps_zones f \<Longrightarrow> keeps_zones (wmap_err h f)"
  by (auto simp: keeps_zones_def dns_remote_def wmap_err_def case_prod_beta)

lemma keeps_zones_send [quiet_rules]: "keeps_zones (send provider http req)"
  unfolding send_def by (intro quiet_rules)

lemma keeps_zones_retry [quiet_rules]: "keeps_zones f \<Longrightarrow> keeps_zones (retry_conflicts f left)"
  unfolding keeps_zones_def
proof (intro allI)
  fix w assume *: "\<forall>w. dw_zones (snd (f w)) = dw_zones w"
  then show "dw_zones (snd (retry_conflicts f left w)) = dw_zones w"
  proof (induction left arbitrary: w)
    case 0
    then have "dw_zones (snd (f w)) = dw_zones w" by blast
    then show ?case by (subst retry_conflicts.simps) (auto split: prod.splits sum.splits)
  next
    case (Suc left)
    then have "dw_zones (snd (f w)) = dw_zones w" "\<And>w. dw_zones (snd (retry_conflicts f left w)) = dw_zones w" by blast+
    then show ?case by (subst retry_conflicts.simps) (auto split: prod.splits sum.splits)
  qed
qed

lemma keeps_zones_get_or_mint [quiet_rules]: "keeps_zones mint \<Longrightarrow> keeps_zones (get_or_mint http mint)"
  unfolding keeps_zones_def get_or_mint_def wtry_def by (auto split: prod.splits sum.splits option.splits) (metis snd_conv)+

text \<open>Calls that apply a change to the values under a key, and on success have done so.\<close>

definition updates :: "('w \<Rightarrow> 'w \<Rightarrow> bool) \<Rightarrow> ('w \<Rightarrow> 'k \<Rightarrow> 'v) \<Rightarrow> 'k \<Rightarrow> ('v \<Rightarrow> 'v) \<Rightarrow> ('w \<Rightarrow> (('e + 'a) \<times> 'w) option) \<Rightarrow> bool" where
  "updates env view k f g \<longleftrightarrow>
     (\<forall>w x w'. g w = Some (x, w') \<longrightarrow>
        evolves env view (applies view k f) w w' \<and> (\<forall>d. x = Inr d \<longrightarrow> performs env view k f w w'))"

lemma otry_Some:
  "otry f k w = Some (x, w') \<longleftrightarrow>
     (\<exists>e. f w = Some (Inl e, w') \<and> x = Inl e) \<or> (\<exists>y v. f w = Some (Inr y, v) \<and> k y v = Some (x, w'))"
proof (cases "f w")
  case (Some p)
  then show ?thesis by (cases p; cases "fst p") (auto simp: otry_def)
qed (simp add: otry_def)

lemma returns_wtry: "returns (wtry f k) = otry (returns f) (\<lambda>x. returns (k x))"
  by (auto simp: returns_def otry_def wtry_def fun_eq_iff split: prod.splits sum.splits)

lemma updates_after_quiet:
  assumes "quiet env view q" and "\<And>x. updates env view k f (g x)"
  shows "updates env view k f (otry q g)"
  unfolding updates_def
proof (intro allI impI)
  fix w x w'
  assume "otry q g w = Some (x, w')"
  then consider e where "q w = Some (Inl e, w')" "x = Inl e" | y v where "q w = Some (Inr y, v)" "g y v = Some (x, w')"
    by (auto simp: otry_Some)
  then show "evolves env view (applies view k f) w w' \<and> (\<forall>d. x = Inr d \<longrightarrow> performs env view k f w w')"
  proof cases
    case 1
    then show ?thesis using assms(1) by (auto simp: quiet_def)
  next
    case 2
    then have "evolves env view (applies view k f) w v" using assms(1) by (auto simp: quiet_def)
    moreover have "evolves env view (applies view k f) v w' \<and> (\<forall>d. x = Inr d \<longrightarrow> performs env view k f v w')"
      using assms(2) [of y] 2(2) by (simp add: updates_def)
    ultimately show ?thesis by (blast intro: interfered_trans performs_between interfered_refl)
  qed
qed

lemma updates_before_quiet:
  assumes "updates env view k f g" and "\<And>x. quiet env view (q x)"
  shows "updates env view k f (otry g q)"
  unfolding updates_def
proof (intro allI impI)
  fix w x w'
  assume "otry g q w = Some (x, w')"
  then consider e where "g w = Some (Inl e, w')" "x = Inl e" | y v where "g w = Some (Inr y, v)" "q y v = Some (x, w')"
    by (auto simp: otry_Some)
  then show "evolves env view (applies view k f) w w' \<and> (\<forall>d. x = Inr d \<longrightarrow> performs env view k f w w')"
  proof cases
    case 1
    then show ?thesis using assms(1) by (auto simp: updates_def)
  next
    case 2
    then have "evolves env view (applies view k f) v w'" using assms(2) [of y] by (auto simp: quiet_def)
    moreover have "performs env view k f w v" using assms(1) 2(1) by (auto simp: updates_def)
    ultimately show ?thesis by (blast intro: performs_between performs_evolves interfered_trans interfered_refl)
  qed
qed

lemma updates_retry:
  assumes "optimistic_update env view k f get change good seen"
  shows "updates env view k f (returns (retry_conflicts (wtry get change) left))"
  using optimistic_update.retry_law [OF assms] by (auto simp: updates_def returns_def)

text \<open>
  An operation on the records of a domain loses nothing: whatever it does to the zone is the change \<open>f\<close>
  of the values that the one record set has at that moment, and success means that this was done, to
  the record set that the cached zones give for the domain. It returns once the zones are cached.
\<close>

definition lossless ::
  "('r \<Rightarrow> 'r \<Rightarrow> bool) \<Rightarrow> ('r \<Rightarrow> 'k \<Rightarrow> ('a \<times> 'v list) option) \<Rightarrow> ('r dns_world \<Rightarrow> 'k option) \<Rightarrow> ('v list \<Rightarrow> 'v list)
   \<Rightarrow> ('r dns_world \<Rightarrow> (('e + unit) \<times> 'r dns_world) option) \<Rightarrow> bool" where
  "lossless env sets key f op \<longleftrightarrow>
     (\<forall>w x w'. op w = Some (x, w') \<longrightarrow>
        (\<exists>k. evolves (on_remote env) (dns_values sets) (applies (dns_values sets) k f) w w'
           \<and> (x = Inr () \<longrightarrow> key w' = Some k \<and> performs (on_remote env) (dns_values sets) k f w w')))
     \<and> (\<forall>w. dw_zones w \<noteq> None \<longrightarrow> op w \<noteq> None)"

lemma lossless_otry:
  fixes env :: "'r \<Rightarrow> 'r \<Rightarrow> bool" and find_key :: "'r dns_world \<Rightarrow> (('e + 'z) \<times> 'r dns_world) option"
  assumes find: "quiet (on_remote env) (dns_values sets) find_key" "\<And>w z v. find_key w = Some (Inr z, v) \<Longrightarrow> key v = Some (K z)"
      "\<And>w. dw_zones w \<noteq> None \<Longrightarrow> find_key w \<noteq> None"
    and key: "\<And>v v'. dw_zones v' = dw_zones v \<Longrightarrow> key v' = key v"
    and body: "\<And>z. updates (on_remote env) (dns_values sets) (K z) f (body z)"
      "\<And>z v x v'. body z v = Some (x, v') \<Longrightarrow> dw_zones v' = dw_zones v" "\<And>z v. body z v \<noteq> None"
  shows "lossless env sets key f (otry find_key body)"
  unfolding lossless_def
proof (intro conjI allI impI)
  fix w x w'
  assume op: "otry find_key body w = Some (x, w')"
  then consider e where "find_key w = Some (Inl e, w')" "x = Inl e" | z v where "find_key w = Some (Inr z, v)" "body z v = Some (x, w')"
    by (auto simp: otry_Some)
  then show "\<exists>k. evolves (on_remote env) (dns_values sets) (applies (dns_values sets) k f) w w'
      \<and> (x = Inr () \<longrightarrow> key w' = Some k \<and> performs (on_remote env) (dns_values sets) k f w w')"
  proof cases
    case 1
    then show ?thesis using find(1) by (auto simp: quiet_def)
  next
    case 2
    then have "key w' = Some (K z)" using find(2) key body(2) by metis
    moreover have "updates (on_remote env) (dns_values sets) (K z) f (otry find_key (\<lambda>_. body z))"
      by (rule updates_after_quiet [OF find(1) body(1)])
    moreover have "otry find_key (\<lambda>_. body z) w = Some (x, w')" using 2 by (auto simp: otry_Some)
    ultimately show ?thesis unfolding updates_def by blast
  qed
next
  fix w :: "'r dns_world"
  assume "dw_zones w \<noteq> None"
  then obtain y v where "find_key w = Some (y, v)" using find(3) by fastforce
  then show "otry find_key body w \<noteq> None" using body(3) by (cases y) (auto simp: otry_def)
qed

lemma cache_zones_keeps: "dw_zones w \<noteq> None \<Longrightarrow> cache_zones f w = Some (Inr (), w)"
  by (auto simp: cache_zones_def)

lemma zone_of_cong: "dw_zones v' = dw_zones v \<Longrightarrow> zone_of domain v' = zone_of domain v"
  by (simp add: zone_of_def)

lemma returns_keeps: "keeps_zones g \<Longrightarrow> returns g v = Some (x, v') \<Longrightarrow> dw_zones v' = dw_zones v"
  unfolding keeps_zones_def returns_def by (metis option.inject snd_conv)

end
