(* ===== verification/Dns_Spec.thy ===== *)
theory Dns_Spec
  imports Dns_Interference
begin

text \<open>
  What the Azure and the Google provider do to the records of a zone, on services that behave as
  documented while other writers change the zone, and a table service with such a second writer.
\<close>

section \<open>Azure\<close>

text \<open>
  The documented behaviour of Azure DNS with other writers around. A tag names one version of a record
  set; a conditional request is applied to a record set with that tag, or not at all. A request whose
  answer is lost may have been applied.
\<close>

definition precondition_holds :: "(string \<times> string) list \<Rightarrow> (string \<times> 'a) option \<Rightarrow> bool" where
  "precondition_holds headers cur \<longleftrightarrow>
     (\<forall>e. (''if-match'', e) \<in> set headers \<longrightarrow> (\<exists>vs. cur = Some (e, vs)))
     \<and> ((''if-none-match'', ''*'') \<in> set headers \<longrightarrow> cur = None)"

fun azure_written :: "dns_body \<Rightarrow> txt_record list" where
  "azure_written (AzureRecordSet rs) = rs_txt_records rs"
| "azure_written _ = []"

definition azure_answer ::
  "'b azure_json \<Rightarrow> (string \<Rightarrow> (string \<times> txt_record list) option) \<Rightarrow> (string \<Rightarrow> (string \<times> txt_record list) option)
   \<Rightarrow> dns_request \<Rightarrow> string + 'b dns_response \<Rightarrow> bool" where
  "azure_answer json before after req x \<longleftrightarrow>
     (let url = dq_url req; answered = (\<lambda>P. \<forall>resp. x = Inr resp \<longrightarrow> P (dr_status resp)) in
      case dq_method req of
        DnsGet \<Rightarrow> after = before \<and> answered (\<lambda>st. st = 404 \<longrightarrow> before url = None)
          \<and> (\<forall>resp rs. x = Inr resp \<longrightarrow> is_success (dr_status resp) \<longrightarrow> aj_record_set json (dr_body resp) = Inr rs \<longrightarrow>
               (\<exists>e. before url = Some (e, rs_txt_records rs) \<and> rs_etag rs = Some e))
      | DnsPut \<Rightarrow>
          (after = before \<and> answered (\<lambda>st. \<not> is_success st))
          \<or> (\<exists>e. precondition_holds (dq_headers req) (before url) \<and> after = before(url \<mapsto> (e, azure_written (dq_body req)))
               \<and> answered (\<lambda>st. st \<noteq> 412))
      | DnsDelete \<Rightarrow>
          (after = before \<and> answered (\<lambda>st. is_success st \<or> st = 404 \<longrightarrow> before url = None))
          \<or> (precondition_holds (dq_headers req) (before url) \<and> after = before(url := None) \<and> answered (\<lambda>st. st \<noteq> 412))
      | DnsPost \<Rightarrow> after = before)"

definition azure_dns_ok ::
  "('b, 'r) dns_http \<Rightarrow> 'b azure_json \<Rightarrow> 'r token_credential \<Rightarrow> ('r \<Rightarrow> 'r \<Rightarrow> bool)
   \<Rightarrow> ('r \<Rightarrow> string \<Rightarrow> (string \<times> txt_record list) option) \<Rightarrow> (string \<Rightarrow> string \<Rightarrow> txt_record list) \<Rightarrow> bool" where
  "azure_dns_ok http json credential env sets version \<longleftrightarrow>
     (\<forall>r url e vs. sets r url = Some (e, vs) \<longrightarrow> vs = version url e)
     \<and> (\<forall>req r x r'. dh_send http req r = (x, r') \<longrightarrow> (\<exists>a. env\<^sup>*\<^sup>* r a \<and> azure_answer json (sets a) (sets r') req x))
     \<and> (\<forall>scope r x r'. credential scope r = (x, r') \<longrightarrow> (\<exists>a. env\<^sup>*\<^sup>* r a \<and> sets r' = sets a))
     \<and> (\<forall>d r. \<exists>a. env\<^sup>*\<^sup>* r a \<and> sets (dh_sleep http d r) = sets a)"

lemma azure_send:
  assumes "azure_dns_ok http json credential env sets version" and "send ''azure'' http req w = (x, w')"
  obtains r y where "env\<^sup>*\<^sup>* (dw_remote w) r" "azure_answer json (sets r) (sets (dw_remote w')) req y"
    "x = map_sum (ChallengeDns ''azure'') id y"
proof -
  obtain y r' where s: "dh_send http req (dw_remote w) = (y, r')" by fastforce
  then have x: "x = map_sum (ChallengeDns ''azure'') id y" "dw_remote w' = r'"
    using assms(2) by (auto simp: send_def wmap_err_def dns_remote_def)
  from assms(1) s obtain r where "env\<^sup>*\<^sup>* (dw_remote w) r" "azure_answer json (sets r) (sets r') req y"
    unfolding azure_dns_ok_def by blast
  with x show thesis by (intro that) auto
qed

text \<open>What a reading of a record set is: none, or a version with its tag.\<close>

definition azure_reading :: "(string \<Rightarrow> string \<Rightarrow> txt_record list) \<Rightarrow> string \<Rightarrow> record_set option \<Rightarrow> bool" where
  "azure_reading version url t \<longleftrightarrow> (\<forall>rs. t = Some rs \<longrightarrow> (\<exists>e. rs_etag rs = Some e \<and> rs_txt_records rs = version url e))"

definition reading_values :: "record_set option \<Rightarrow> txt_record list" where
  "reading_values t = (case t of Some rs \<Rightarrow> rs_txt_records rs | None \<Rightarrow> [])"

lemma azure_get_law:
  assumes ok: "azure_dns_ok http json credential env sets version" and g: "get_record_set http json url token w = (x, w')"
  shows "\<exists>a. (on_remote env)\<^sup>*\<^sup>* w a \<and> dns_values sets w' = dns_values sets a
    \<and> (\<forall>t. x = Inr t \<longrightarrow> azure_reading version url t \<and> reading_values t = dns_values sets a url)"
proof -
  obtain s v where s: "send ''azure'' http (azure_request DnsGet url token [] NoDnsBody) w = (s, v)" by fastforce
  from azure_send [OF ok s] obtain r y where r: "env\<^sup>*\<^sup>* (dw_remote w) r"
    "azure_answer json (sets r) (sets (dw_remote v)) (azure_request DnsGet url token [] NoDnsBody) y"
    "s = map_sum (ChallengeDns ''azure'') id y" .
  have w': "w' = v" using g s by (auto simp: get_record_set_def wtry_def split: sum.splits)
  have same: "sets (dw_remote w') = sets r" using r(2) w' by (simp add: azure_answer_def azure_request_def Let_def)
  have "azure_reading version url t \<and> reading_values t = set_values (sets r url)" if "x = Inr t" for t
  proof -
    from that g s obtain resp where resp: "y = Inr resp"
      "(if dr_status resp = 404 then Inr None else map_sum id Some (parse_response ''azure'' http (aj_record_set json) resp)) = Inr t"
      using r(3) by (cases y) (auto simp: get_record_set_def wtry_def)
    show ?thesis
    proof (cases "dr_status resp = 404")
      case True
      then show ?thesis using resp r(2)
        by (auto simp: azure_answer_def azure_request_def Let_def azure_reading_def reading_values_def set_values_def)
    next
      case False
      then obtain rs where rs: "t = Some rs" "is_success (dr_status resp)" "aj_record_set json (dr_body resp) = Inr rs"
        using resp(2) by (cases "parse_response ''azure'' http (aj_record_set json) resp") (auto simp: parse_response_Inr)
      then obtain e where e: "sets r url = Some (e, rs_txt_records rs)" "rs_etag rs = Some e"
        using resp r(2) by (auto simp: azure_answer_def azure_request_def Let_def)
      moreover have "rs_txt_records rs = version url e" using e(1) ok unfolding azure_dns_ok_def by blast
      ultimately show ?thesis using rs(1) by (auto simp: azure_reading_def reading_values_def set_values_def)
    qed
  qed
  then show ?thesis
    using on_remote_star [OF r(1)] dns_values_eq [of sets w' r w, OF same] by (auto simp: dns_values_def intro!: exI [where x = "w\<lparr>dw_remote := r\<rparr>"])
qed

text \<open>A conditional write after a reading changes the values that were read, if it is applied.\<close>

definition condition_of :: "record_set option \<Rightarrow> precondition" where
  "condition_of t = (case t of
     Some rs \<Rightarrow> (case rs_etag rs of Some e \<Rightarrow> IfMatch e | None \<Rightarrow> NoPrecondition) | None \<Rightarrow> IfNoneMatch)"

lemma azure_put_law:
  assumes ok: "azure_dns_ok http json credential env sets version" and t: "azure_reading version url t"
    and p: "put_record_set http json url (f (reading_values t)) (condition_of t) token w = (x, w')"
  shows "\<exists>a. (on_remote env)\<^sup>*\<^sup>* w a
    \<and> (dns_values sets w' = dns_values sets a \<and> x \<noteq> Inr True \<or> applies (dns_values sets) url f a w')"
proof -
  define req where "req = azure_request DnsPut url token
    (case condition_of t of IfMatch etag \<Rightarrow> [(''if-match'', etag)] | IfNoneMatch \<Rightarrow> [(''if-none-match'', ''*'')] | NoPrecondition \<Rightarrow> [])
    (AzureRecordSet \<lparr>rs_etag = None, rs_ttl = TXT_TTL, rs_txt_records = f (reading_values t)\<rparr>)"
  obtain s v where s: "send ''azure'' http req w = (s, v)" by fastforce
  from azure_send [OF ok s] obtain r y where r: "env\<^sup>*\<^sup>* (dw_remote w) r"
    "azure_answer json (sets r) (sets (dw_remote v)) req y" "s = map_sum (ChallengeDns ''azure'') id y" .
  have w': "w' = v" and succ: "x = Inr True \<Longrightarrow> \<exists>resp. y = Inr resp \<and> is_success (dr_status resp)"
    using p s r(3) unfolding put_record_set_def req_def [symmetric]
    by (auto simp: wtry_def parse_response_Inr split: sum.splits if_splits)
  have parts: "dq_method req = DnsPut" "dq_url req = url" "azure_written (dq_body req) = f (reading_values t)"
    by (simp_all add: req_def azure_request_def)
  have cond: "reading_values t = set_values (sets r url)" if pre: "precondition_holds (dq_headers req) (sets r url)"
  proof (cases t)
    case None
    then show ?thesis using pre
      by (simp add: req_def azure_request_def condition_of_def precondition_holds_def reading_values_def set_values_def)
  next
    case (Some rs)
    then obtain e where e: "rs_etag rs = Some e" "rs_txt_records rs = version url e" using t by (auto simp: azure_reading_def)
    then obtain vs where "sets r url = Some (e, vs)"
      using pre Some by (auto simp: req_def azure_request_def condition_of_def precondition_holds_def)
    moreover from this have "vs = version url e" using ok unfolding azure_dns_ok_def by blast
    ultimately show ?thesis using e Some by (simp add: reading_values_def set_values_def)
  qed
  from r(2) parts have "sets (dw_remote v) = sets r \<and> (\<forall>resp. y = Inr resp \<longrightarrow> \<not> is_success (dr_status resp))
      \<or> (\<exists>e. precondition_holds (dq_headers req) (sets r url) \<and> sets (dw_remote v) = (sets r)(url \<mapsto> (e, f (reading_values t))))"
    by (auto simp: azure_answer_def Let_def)
  then have "dns_values sets w' = dns_values sets (w\<lparr>dw_remote := r\<rparr>) \<and> x \<noteq> Inr True
      \<or> applies (dns_values sets) url f (w\<lparr>dw_remote := r\<rparr>) w'"
    using cond succ w' dns_values_eq [of sets w' r w]
    by (auto simp: applies_def dns_values_def fun_eq_iff set_values_def)
  then show ?thesis using on_remote_star [OF r(1)] by blast
qed

lemma azure_delete_law:
  assumes ok: "azure_dns_ok http json credential env sets version" and t: "azure_reading version url (Some rs)"
    and none: "f (rs_txt_records rs) = []" "f [] = []"
    and p: "delete_record_set http url (condition_of (Some rs)) token w = (x, w')"
  shows "\<exists>a. (on_remote env)\<^sup>*\<^sup>* w a
    \<and> (dns_values sets w' = dns_values sets a \<and> x \<noteq> Inr True \<or> applies (dns_values sets) url f a w')"
proof -
  define req where "req = azure_request DnsDelete url token
    (case condition_of (Some rs) of IfMatch etag \<Rightarrow> [(''if-match'', etag)] | _ \<Rightarrow> []) NoDnsBody"
  obtain s v where s: "send ''azure'' http req w = (s, v)" by fastforce
  from azure_send [OF ok s] obtain r y where r: "env\<^sup>*\<^sup>* (dw_remote w) r"
    "azure_answer json (sets r) (sets (dw_remote v)) req y" "s = map_sum (ChallengeDns ''azure'') id y" .
  have w': "w' = v" and succ: "x = Inr True \<Longrightarrow> \<exists>resp. y = Inr resp \<and> (is_success (dr_status resp) \<or> dr_status resp = 404)"
    using p s r(3) unfolding delete_record_set_def req_def [symmetric]
    by (auto simp: wtry_def Let_def split: sum.splits if_splits)
  obtain e where e: "rs_etag rs = Some e" "rs_txt_records rs = version url e" using t by (auto simp: azure_reading_def)
  have parts: "dq_method req = DnsDelete" "dq_url req = url" "dq_headers req = [bearer_auth token, (''if-match'', e)]"
    using e by (simp_all add: req_def azure_request_def condition_of_def)
  have "set_values (sets r url) = rs_txt_records rs" if pre: "precondition_holds (dq_headers req) (sets r url)"
  proof -
    from pre obtain vs where "sets r url = Some (e, vs)" by (auto simp: parts precondition_holds_def)
    moreover from this have "vs = version url e" using ok unfolding azure_dns_ok_def by blast
    ultimately show ?thesis using e by (simp add: set_values_def)
  qed
  moreover from r(2) parts have "sets (dw_remote v) = sets r
        \<and> (\<forall>resp. y = Inr resp \<longrightarrow> is_success (dr_status resp) \<or> dr_status resp = 404 \<longrightarrow> sets r url = None)
      \<or> precondition_holds (dq_headers req) (sets r url) \<and> sets (dw_remote v) = (sets r)(url := None)"
    by (auto simp: azure_answer_def Let_def)
  ultimately have "dns_values sets w' = dns_values sets (w\<lparr>dw_remote := r\<rparr>) \<and> x \<noteq> Inr True
      \<or> applies (dns_values sets) url f (w\<lparr>dw_remote := r\<rparr>) w'"
    using succ w' none dns_values_eq [of sets w' r w]
    by (cases "x = Inr True") (auto simp: applies_def dns_values_def fun_eq_iff set_values_def)
  then show ?thesis using on_remote_star [OF r(1)] by blast
qed

lemma azure_create_attempt_eq:
  "azure_create_attempt http json url token record_name v =
     wtry (get_record_set http json url token) (\<lambda>t.
       wtry (put_record_set http json url (add_value [v] (reading_values t)) (condition_of t) token)
         (\<lambda>applied. Pair (Inr (applied_or_conflict record_name applied))))"
  unfolding azure_create_attempt_def
  by (intro arg_cong [where f = "wtry (get_record_set http json url token)"] ext)
     (auto simp: Let_def condition_of_def reading_values_def add_value_def split: option.splits)

lemma azure_delete_attempt_eq:
  "azure_delete_attempt http json url token record_name v =
     wtry (get_record_set http json url token) (\<lambda>t. case t of
         None \<Rightarrow> Pair (Inr (Inr ()))
       | Some rs \<Rightarrow>
           wtry (if remove_value [v] (rs_txt_records rs) = [] then delete_record_set http url (condition_of t) token
                 else put_record_set http json url (remove_value [v] (reading_values t)) (condition_of t) token)
             (\<lambda>applied. Pair (Inr (applied_or_conflict record_name applied))))"
  unfolding azure_delete_attempt_def
  by (intro arg_cong [where f = "wtry (get_record_set http json url token)"] ext)
     (auto simp: Let_def condition_of_def reading_values_def remove_value_def split: option.splits)

lemma wtry_applied:
  assumes "wtry g (\<lambda>applied. Pair (Inr (applied_or_conflict record_name applied))) w = (x, w')"
  obtains y where "g w = (y, w')" "x = Inr (Inr ()) \<longrightarrow> y = Inr True"
  using assms by (cases "g w") (auto simp: wtry_def applied_or_conflict_def split: sum.splits if_splits)

lemma azure_create_optimistic:
  assumes ok: "azure_dns_ok http json credential env sets version"
  shows "optimistic_update (on_remote env) (dns_values sets) url (add_value [v]) (get_record_set http json url token)
    (\<lambda>t. wtry (put_record_set http json url (add_value [v] (reading_values t)) (condition_of t) token)
       (\<lambda>applied. Pair (Inr (applied_or_conflict record_name applied)))) (azure_reading version url) reading_values"
proof
  fix t w w' and x :: "challenge_error + (challenge_error + unit)"
  assume t: "azure_reading version url t"
    and "wtry (put_record_set http json url (add_value [v] (reading_values t)) (condition_of t) token)
       (\<lambda>applied. Pair (Inr (applied_or_conflict record_name applied))) w = (x, w')"
  from this(2) obtain y where y: "put_record_set http json url (add_value [v] (reading_values t)) (condition_of t) token w = (y, w')"
    "x = Inr (Inr ()) \<longrightarrow> y = Inr True" by (rule wtry_applied)
  from azure_put_law [where f = "add_value [v]", OF ok t y(1)] y(2)
  show "dns_values sets w' = dns_values sets w \<and> (add_value [v] (reading_values t) = reading_values t \<or> (\<forall>d. x \<noteq> Inr (Inr d)))
    \<or> (\<exists>a. (on_remote env)\<^sup>*\<^sup>* w a \<and> (dns_values sets w' = dns_values sets a \<and> (\<forall>d. x \<noteq> Inr (Inr d))
           \<or> applies (dns_values sets) url (add_value [v]) a w'))"
    by auto
qed (rule azure_get_law [OF ok])

lemma azure_delete_optimistic:
  assumes ok: "azure_dns_ok http json credential env sets version"
  shows "optimistic_update (on_remote env) (dns_values sets) url (remove_value [v]) (get_record_set http json url token)
    (\<lambda>t. case t of
         None \<Rightarrow> Pair (Inr (Inr ()))
       | Some rs \<Rightarrow>
           wtry (if remove_value [v] (rs_txt_records rs) = [] then delete_record_set http url (condition_of t) token
                 else put_record_set http json url (remove_value [v] (reading_values t)) (condition_of t) token)
             (\<lambda>applied. Pair (Inr (applied_or_conflict record_name applied)))) (azure_reading version url) reading_values"
    (is "optimistic_update _ _ _ _ _ ?change _ _")
proof
  fix t w w' and x :: "challenge_error + (challenge_error + unit)"
  assume t: "azure_reading version url t" and c: "?change t w = (x, w')"
  show "dns_values sets w' = dns_values sets w \<and> (remove_value [v] (reading_values t) = reading_values t \<or> (\<forall>d. x \<noteq> Inr (Inr d)))
    \<or> (\<exists>a. (on_remote env)\<^sup>*\<^sup>* w a \<and> (dns_values sets w' = dns_values sets a \<and> (\<forall>d. x \<noteq> Inr (Inr d))
           \<or> applies (dns_values sets) url (remove_value [v]) a w'))"
  proof (cases t)
    case None
    then show ?thesis using c by (auto simp: reading_values_def remove_value_def)
  next
    case (Some rs)
    with c have "wtry (if remove_value [v] (rs_txt_records rs) = [] then delete_record_set http url (condition_of t) token
        else put_record_set http json url (remove_value [v] (reading_values t)) (condition_of t) token)
        (\<lambda>applied. Pair (Inr (applied_or_conflict record_name applied))) w = (x, w')" by simp
    then obtain y where y: "(if remove_value [v] (rs_txt_records rs) = [] then delete_record_set http url (condition_of t) token
        else put_record_set http json url (remove_value [v] (reading_values t)) (condition_of t) token) w = (y, w')"
      "x = Inr (Inr ()) \<longrightarrow> y = Inr True" by (rule wtry_applied)
    have "\<exists>a. (on_remote env)\<^sup>*\<^sup>* w a
        \<and> (dns_values sets w' = dns_values sets a \<and> y \<noteq> Inr True \<or> applies (dns_values sets) url (remove_value [v]) a w')"
    proof (cases "remove_value [v] (rs_txt_records rs) = []")
      case True
      then show ?thesis using azure_delete_law [where f = "remove_value [v]", OF ok t [unfolded Some] True] y(1) Some by (simp add: remove_value_def)
    next
      case False
      then show ?thesis using azure_put_law [where f = "remove_value [v]", OF ok t] y(1) by simp
    qed
    with y(2) show ?thesis by auto
  qed
qed (rule azure_get_law [OF ok])

section \<open>Operations at Azure\<close>

text \<open>The record set of a domain at Azure, given the cached zones.\<close>

definition azure_key :: "azure_provider \<Rightarrow> string \<Rightarrow> 'r dns_world \<Rightarrow> string option" where
  "azure_key self domain w =
     (let record_name = ''_acme-challenge.'' @ trim_end_matches CHR ''.'' domain in
      case zone_of domain w of
        Inr (_, zone) \<Rightarrow> Some (record_set_url self zone
          (case strip_suffix (CHR ''.'' # zone) record_name of Some n \<Rightarrow> n | None \<Rightarrow> record_name))
      | Inl _ \<Rightarrow> None)"

lemma azure_quiet_token:
  assumes ok: "azure_dns_ok http json credential env sets version"
  shows "quiet (on_remote env) (dns_values sets) (returns (azure_access_token http credential self))"
proof -
  have "quiet (on_remote env) (dns_values sets) (returns (dns_remote (credential scope)))" for scope
    by (rule quiet_remote) (use ok in \<open>auto simp: azure_dns_ok_def\<close>)
  moreover have "quiet (on_remote env) (dns_values sets) (returns ((\<lambda>(token, expires_on) w.
      (Inr (token, nat (expires_on - dh_utc_now http (dw_remote w))), w)) z))" for z :: "string \<times> int"
    by (cases z) (auto simp: quiet_def returns_def intro: interfered_refl)
  ultimately show ?thesis unfolding azure_access_token_def by (intro quiet_rules)
qed

lemma azure_quiet_zones:
  assumes ok: "azure_dns_ok http json credential env sets version"
  shows "quiet (on_remote env) (dns_values sets) (azure_try_cache_zones http json credential self)"
proof -
  have "quiet (on_remote env) (dns_values sets) (returns (dns_remote (dh_send http (azure_request DnsGet url token [] NoDnsBody))))"
    for url token
  proof (rule quiet_remote)
    fix r x r' assume "dh_send http (azure_request DnsGet url token [] NoDnsBody) r = (x, r')"
    then obtain a where "env\<^sup>*\<^sup>* r a" "azure_answer json (sets a) (sets r') (azure_request DnsGet url token [] NoDnsBody) x"
      using ok unfolding azure_dns_ok_def by blast
    then show "\<exists>a. env\<^sup>*\<^sup>* r a \<and> sets r' = sets a" by (auto simp: azure_answer_def azure_request_def Let_def)
  qed
  then show ?thesis unfolding azure_try_cache_zones_def azure_zone_page_def send_def
    by (intro quiet_rules azure_quiet_token [OF ok])
qed

lemma azure_find_lossless:
  assumes ok: "azure_dns_ok http json credential env sets version"
    and upd: "\<And>zone relative. updates (on_remote env) (dns_values sets) (record_set_url self zone relative) f (returns (g zone relative))"
    and keeps: "\<And>zone relative. keeps_zones (g zone relative)"
    and name: "record_name = ''_acme-challenge.'' @ trim_end_matches CHR ''.'' domain"
  shows "lossless env sets (azure_key self domain) f
    (otry (find_zone_and_relative_name http json credential self domain record_name) (\<lambda>(zone, relative). returns (g zone relative)))"
proof (rule lossless_otry [where K = "\<lambda>(zone, relative). record_set_url self zone relative"])
  let ?find = "find_zone_and_relative_name http json credential self domain record_name"
  show "quiet (on_remote env) (dns_values sets) ?find"
    unfolding find_zone_and_relative_name_def by (intro quiet_rules azure_quiet_zones [OF ok])
  show "azure_key self domain v = Some (case z of (zone, relative) \<Rightarrow> record_set_url self zone relative)"
    if "?find w = Some (Inr z, v)" for w z v
    using that unfolding find_zone_and_relative_name_def azure_key_def Let_def name [symmetric]
    by (cases "zone_of domain v") (auto simp: otry_Some)
  show "?find w \<noteq> None" if "dw_zones w \<noteq> None" for w
    using that by (simp add: find_zone_and_relative_name_def azure_try_cache_zones_def otry_def cache_zones_keeps)
  show "azure_key self domain v' = azure_key self domain v" if "dw_zones v' = dw_zones v" for v v' :: "'b dns_world"
    using zone_of_cong [OF that] by (simp add: azure_key_def)
qed (use upd returns_keeps [OF keeps] in \<open>auto simp: returns_def split: prod.splits\<close>)

lemma azure_keeps_zones:
  "keeps_zones (azure_access_token http credential self)" "keeps_zones (azure_create_attempt http json url token record_name v)"
  "keeps_zones (azure_delete_attempt http json url token record_name v)"
proof -
  have *: "keeps_zones ((\<lambda>(token, expires_on) w. (Inr (token, nat (expires_on - dh_utc_now http (dw_remote w))), w)) z)"
    for z :: "string \<times> int" by (cases z) (simp add: keeps_zones_def)
  show "keeps_zones (azure_access_token http credential self)"
    unfolding azure_access_token_def by (intro quiet_rules *)
  have get: "keeps_zones (get_record_set http json url token)" unfolding get_record_set_def by (intro quiet_rules)
  have put: "keeps_zones (put_record_set http json url records pre token)" for records pre
    unfolding put_record_set_def by (intro quiet_rules) (auto intro: quiet_rules)
  have del: "keeps_zones (delete_record_set http url pre token)" for pre
    unfolding delete_record_set_def Let_def by (intro quiet_rules)
  show "keeps_zones (azure_create_attempt http json url token record_name v)"
    unfolding azure_create_attempt_eq by (intro quiet_rules get put)
  show "keeps_zones (azure_delete_attempt http json url token record_name v)"
    unfolding azure_delete_attempt_eq
    by (intro keeps_zones_wtry get) (auto intro!: quiet_rules put del split: option.split)
qed

lemma azure_create_lossless:
  assumes ok: "azure_dns_ok http json credential env sets version"
  shows "lossless env sets (azure_key self domain) (add_value [v]) (azure_create_txt_record http json credential self domain v)"
proof -
  have sleep: "quiet (on_remote env) (dns_values sets) (returns (dns_remote (\<lambda>r. (Inr (), dh_sleep http d r))))" for d
    by (rule quiet_remote) (use ok in \<open>auto simp: azure_dns_ok_def\<close>)
  show ?thesis unfolding azure_create_txt_record_def Let_def
    by (rule azure_find_lossless [OF ok _ _ refl], unfold returns_wtry azure_create_attempt_eq)
       (rule updates_after_quiet [OF azure_quiet_token [OF ok] updates_before_quiet [OF updates_retry [OF azure_create_optimistic [OF ok]] sleep]],
        intro quiet_rules azure_keeps_zones [unfolded azure_create_attempt_eq])
qed

lemma azure_delete_lossless:
  assumes ok: "azure_dns_ok http json credential env sets version"
  shows "lossless env sets (azure_key self domain) (remove_value [v]) (azure_delete_txt_record http json credential self domain v)"
  unfolding azure_delete_txt_record_def Let_def
  by (rule azure_find_lossless [OF ok _ _ refl], unfold returns_wtry azure_delete_attempt_eq)
     (rule updates_after_quiet [OF azure_quiet_token [OF ok] updates_retry [OF azure_delete_optimistic [OF ok]]],
      intro quiet_rules azure_keeps_zones [unfolded azure_delete_attempt_eq])

section \<open>Google\<close>

text \<open>
  The documented behaviour of Google Cloud DNS: a change is applied as a whole, and only if the record
  set it deletes is exactly the one that exists. A change whose answer is lost may have been applied.
\<close>

type_synonym rrset_key = "string \<times> string"

definition gcloud_applied ::
  "string \<Rightarrow> rr_set option \<Rightarrow> rr_set option \<Rightarrow> (rrset_key \<Rightarrow> rr_set option) \<Rightarrow> (rrset_key \<Rightarrow> rr_set option) \<Rightarrow> bool" where
  "gcloud_applied zone deletion addition before after \<longleftrightarrow>
     (\<exists>name. (\<forall>s. deletion = Some s \<or> addition = Some s \<longrightarrow> rr_name s = name)
        \<and> before (zone, name) = deletion \<and> after = before((zone, name) := addition))"

definition gcloud_answer ::
  "'b gcloud_json \<Rightarrow> gcloud_provider \<Rightarrow> (rrset_key \<Rightarrow> rr_set option) \<Rightarrow> (rrset_key \<Rightarrow> rr_set option)
   \<Rightarrow> dns_request \<Rightarrow> string + 'b dns_response \<Rightarrow> bool" where
  "gcloud_answer json self before after req x \<longleftrightarrow>
     (case dq_method req of
        DnsGet \<Rightarrow> after = before
          \<and> (\<forall>zone name resp rrsets.
               dq_url req = project_url self @ ''/managedZones/'' @ zone @ ''/rrsets'' \<longrightarrow> dq_query req = [(''name'', name), (''type'', ''TXT'')] \<longrightarrow>
               x = Inr resp \<longrightarrow> is_success (dr_status resp) \<longrightarrow> gj_rrsets json (dr_body resp) = Inr rrsets \<longrightarrow>
               (case rrsets of [] \<Rightarrow> None | s # _ \<Rightarrow> Some s) = before (zone, name))
      | DnsPost \<Rightarrow>
          (\<forall>zone deletion addition.
             dq_url req = project_url self @ ''/managedZones/'' @ zone @ ''/changes'' \<longrightarrow> dq_body req = GcloudChange deletion addition \<longrightarrow>
             gcloud_applied zone deletion addition before after
             \<or> after = before \<and> (\<forall>resp. x = Inr resp \<longrightarrow> \<not> is_success (dr_status resp)))
      | _ \<Rightarrow> True)"

definition gcloud_dns_ok ::
  "('b, 'r) dns_http \<Rightarrow> 'b gcloud_json \<Rightarrow> gcloud_provider \<Rightarrow> ('r \<Rightarrow> (string + string) \<times> 'r) \<Rightarrow> ('r \<Rightarrow> 'r \<Rightarrow> bool)
   \<Rightarrow> ('r \<Rightarrow> rrset_key \<Rightarrow> rr_set option) \<Rightarrow> bool" where
  "gcloud_dns_ok http json self credentials env rrsets \<longleftrightarrow>
     (\<forall>r zone name s. rrsets r (zone, name) = Some s \<longrightarrow> rr_name s = name)
     \<and> (\<forall>req r x r'. dh_send http req r = (x, r') \<longrightarrow> (\<exists>a. env\<^sup>*\<^sup>* r a \<and> gcloud_answer json self (rrsets a) (rrsets r') req x))
     \<and> (\<forall>r x r'. credentials r = (x, r') \<longrightarrow> (\<exists>a. env\<^sup>*\<^sup>* r a \<and> rrsets r' = rrsets a))
     \<and> (\<forall>d r. \<exists>a. env\<^sup>*\<^sup>* r a \<and> rrsets (dh_sleep http d r) = rrsets a)"

definition rrset_data :: "('r \<Rightarrow> rrset_key \<Rightarrow> rr_set option) \<Rightarrow> 'r \<Rightarrow> rrset_key \<Rightarrow> (nat \<times> string list) option" where
  "rrset_data rrsets r k = map_option (\<lambda>s. (rr_ttl s, rr_rrdatas s)) (rrsets r k)"

definition rrset_values :: "rr_set option \<Rightarrow> string list" where
  "rrset_values t = (case t of Some s \<Rightarrow> rr_rrdatas s | None \<Rightarrow> [])"

lemma set_values_rrset [simp]: "set_values (rrset_data rrsets r k) = rrset_values (rrsets r k)"
  by (cases "rrsets r k") (simp_all add: rrset_data_def set_values_def rrset_values_def)

lemma rrset_data_eq: "rrsets r' = rrsets r \<Longrightarrow> rrset_data rrsets r' = rrset_data rrsets r"
  by (simp add: rrset_data_def fun_eq_iff)

definition gcloud_reading :: "string \<Rightarrow> rr_set option \<Rightarrow> bool" where
  "gcloud_reading record_name t \<longleftrightarrow> (\<forall>s. t = Some s \<longrightarrow> rr_name s = record_name)"

lemma gcloud_send:
  assumes "gcloud_dns_ok http json self credentials env rrsets" and "send ''gcloud'' http req w = (x, w')"
  obtains r y where "env\<^sup>*\<^sup>* (dw_remote w) r" "gcloud_answer json self (rrsets r) (rrsets (dw_remote w')) req y"
    "x = map_sum (ChallengeDns ''gcloud'') id y"
proof -
  obtain y r' where s: "dh_send http req (dw_remote w) = (y, r')" by fastforce
  then have x: "x = map_sum (ChallengeDns ''gcloud'') id y" "dw_remote w' = r'"
    using assms(2) by (auto simp: send_def wmap_err_def dns_remote_def)
  from assms(1) s obtain r where "env\<^sup>*\<^sup>* (dw_remote w) r" "gcloud_answer json self (rrsets r) (rrsets r') req y"
    unfolding gcloud_dns_ok_def by blast
  with x show thesis by (intro that) auto
qed

lemma gcloud_get_law:
  assumes ok: "gcloud_dns_ok http json self credentials env rrsets"
    and g: "get_rrset http json self zone record_name token w = (x, w')"
  shows "\<exists>a. (on_remote env)\<^sup>*\<^sup>* w a \<and> dns_values (rrset_data rrsets) w' = dns_values (rrset_data rrsets) a
    \<and> (\<forall>t. x = Inr t \<longrightarrow> gcloud_reading record_name t \<and> rrset_values t = dns_values (rrset_data rrsets) a (zone, record_name))"
proof -
  define req where "req = gcloud_request DnsGet (project_url self @ ''/managedZones/'' @ zone @ ''/rrsets'')
    [(''name'', record_name), (''type'', ''TXT'')] token NoDnsBody"
  have fields: "dq_method req = DnsGet" "dq_url req = project_url self @ ''/managedZones/'' @ zone @ ''/rrsets''"
    "dq_query req = [(''name'', record_name), (''type'', ''TXT'')]" by (simp_all add: req_def gcloud_request_def)
  obtain s v where s: "send ''gcloud'' http req w = (s, v)" by fastforce
  from gcloud_send [OF ok s] obtain r y where r: "env\<^sup>*\<^sup>* (dw_remote w) r"
    "gcloud_answer json self (rrsets r) (rrsets (dw_remote v)) req y" "s = map_sum (ChallengeDns ''gcloud'') id y" .
  have w': "w' = v" and read: "\<And>t. x = Inr t \<Longrightarrow> \<exists>resp l. y = Inr resp \<and> is_success (dr_status resp)
      \<and> gj_rrsets json (dr_body resp) = Inr l \<and> t = (case l of [] \<Rightarrow> None | s # _ \<Rightarrow> Some s)"
    using g s r(3) unfolding get_rrset_def req_def [symmetric]
    by (auto simp: wtry_def parse_response_Inr split: sum.splits)
  have same: "rrsets (dw_remote w') = rrsets r" using r(2) w' fields by (simp add: gcloud_answer_def)
  have "t = rrsets r (zone, record_name)" if "x = Inr t" for t
    using read [OF that] r(2) fields by (auto simp: gcloud_answer_def)
  moreover have "gcloud_reading record_name (rrsets r (zone, record_name))"
    using ok unfolding gcloud_dns_ok_def gcloud_reading_def by blast
  ultimately show ?thesis
    using on_remote_star [OF r(1)] dns_values_eq [of "rrset_data rrsets" w' r w, OF rrset_data_eq [of rrsets, OF same]]
    by (auto simp: dns_values_def intro!: exI [where x = "w\<lparr>dw_remote := r\<rparr>"])
qed

text \<open>What follows the reading in a round.\<close>

definition gcloud_change where
  "gcloud_change http json self zone record_name merge token existing =
     (let new_rrdatas = merge (rrset_values existing) in
      if map_option rr_rrdatas existing = Some new_rrdatas \<or> (existing = None \<and> new_rrdatas = [])
      then Pair (Inr (Inr None))
      else wtry (send ''gcloud'' http (gcloud_request DnsPost (project_url self @ ''/managedZones/'' @ zone @ ''/changes'') [] token
             (GcloudChange existing
               (if new_rrdatas \<noteq> []
                then Some \<lparr>rr_name = record_name, rr_kind = ''TXT'', rr_ttl = TXT_TTL, rr_rrdatas = new_rrdatas\<rparr> else None))))
           (\<lambda>response. Pair
             (case parse_response ''gcloud'' http (gj_change json) response of
                Inl e \<Rightarrow> if dr_status response = 409 then Inr (Inl e) else Inl e
              | Inr change \<Rightarrow> Inr (Inr (Some change)))))"

lemma change_attempt_eq:
  "change_attempt http json self zone record_name merge token =
     wtry (get_rrset http json self zone record_name token) (gcloud_change http json self zone record_name merge token)"
  unfolding change_attempt_def gcloud_change_def rrset_values_def Let_def ..

lemma gcloud_change_law:
  assumes ok: "gcloud_dns_ok http json self credentials env rrsets" and t: "gcloud_reading record_name t"
    and c: "gcloud_change http json self zone record_name merge token t w = (x, w')"
  shows "dns_values (rrset_data rrsets) w' = dns_values (rrset_data rrsets) w
      \<and> (merge (rrset_values t) = rrset_values t \<or> (\<forall>d. x \<noteq> Inr (Inr d)))
    \<or> (\<exists>a. (on_remote env)\<^sup>*\<^sup>* w a \<and> (dns_values (rrset_data rrsets) w' = dns_values (rrset_data rrsets) a \<and> (\<forall>d. x \<noteq> Inr (Inr d))
           \<or> applies (dns_values (rrset_data rrsets)) (zone, record_name) merge a w'))"
proof (cases "map_option rr_rrdatas t = Some (merge (rrset_values t)) \<or> (t = None \<and> merge (rrset_values t) = [])")
  case True
  then show ?thesis using c by (cases t) (auto simp: gcloud_change_def rrset_values_def)
next
  case False
  define new where "new = (if merge (rrset_values t) \<noteq> []
    then Some \<lparr>rr_name = record_name, rr_kind = ''TXT'', rr_ttl = TXT_TTL, rr_rrdatas = merge (rrset_values t)\<rparr> else None)"
  define req where "req = gcloud_request DnsPost (project_url self @ ''/managedZones/'' @ zone @ ''/changes'') [] token (GcloudChange t new)"
  have fields: "dq_method req = DnsPost" "dq_url req = project_url self @ ''/managedZones/'' @ zone @ ''/changes''"
    "dq_body req = GcloudChange t new" by (simp_all add: req_def gcloud_request_def)
  have new: "rrset_values new = merge (rrset_values t)" "\<And>s. new = Some s \<Longrightarrow> rr_name s = record_name" "t = None \<Longrightarrow> new \<noteq> None"
    using False by (auto simp: new_def rrset_values_def split: if_splits)
  obtain s v where s: "send ''gcloud'' http req w = (s, v)" by fastforce
  from gcloud_send [OF ok s] obtain r y where r: "env\<^sup>*\<^sup>* (dw_remote w) r"
    "gcloud_answer json self (rrsets r) (rrsets (dw_remote v)) req y" "s = map_sum (ChallengeDns ''gcloud'') id y" .
  have w': "w' = v" and succ: "\<And>d. x = Inr (Inr d) \<Longrightarrow> \<exists>resp. y = Inr resp \<and> is_success (dr_status resp)"
    using c s r(3) False unfolding gcloud_change_def Let_def new_def [symmetric] req_def [symmetric]
    by (auto simp: wtry_def parse_response_Inr split: sum.splits if_splits)
  let ?a = "w\<lparr>dw_remote := r\<rparr>"
  from r(2) fields have "gcloud_applied zone t new (rrsets r) (rrsets (dw_remote v))
      \<or> rrsets (dw_remote v) = rrsets r \<and> (\<forall>resp. y = Inr resp \<longrightarrow> \<not> is_success (dr_status resp))"
    by (simp add: gcloud_answer_def)
  then show ?thesis
  proof
    assume "gcloud_applied zone t new (rrsets r) (rrsets (dw_remote v))"
    then obtain name where name: "\<And>s. t = Some s \<or> new = Some s \<Longrightarrow> rr_name s = name" "rrsets r (zone, name) = t"
      "rrsets (dw_remote v) = (rrsets r)((zone, name) := new)" by (auto simp: gcloud_applied_def)
    have "name = record_name"
    proof (cases t)
      case None
      then obtain s where s: "new = Some s" using new(3) by blast
      then show ?thesis using name(1) [of s] new(2) [OF s] by simp
    next
      case (Some s)
      then show ?thesis using name(1) [of s] t by (simp add: gcloud_reading_def)
    qed
    then have "dns_values (rrset_data rrsets) w' k
        = ((dns_values (rrset_data rrsets) ?a)((zone, record_name) := merge (dns_values (rrset_data rrsets) ?a (zone, record_name)))) k" for k
      using name(2,3) w' new(1) by (cases "k = (zone, record_name)") (simp_all add: dns_values_def)
    then have "applies (dns_values (rrset_data rrsets)) (zone, record_name) merge ?a w'" unfolding applies_def by (rule ext)
    then show ?thesis using on_remote_star [OF r(1)] by blast
  next
    assume "rrsets (dw_remote v) = rrsets r \<and> (\<forall>resp. y = Inr resp \<longrightarrow> \<not> is_success (dr_status resp))"
    then have "dns_values (rrset_data rrsets) w' = dns_values (rrset_data rrsets) ?a" "\<forall>d. x \<noteq> Inr (Inr d)"
      using w' succ dns_values_eq [of "rrset_data rrsets" w' r w] rrset_data_eq [of rrsets "dw_remote w'" r] by auto
    then show ?thesis using on_remote_star [OF r(1)] by blast
  qed
qed

lemma gcloud_optimistic:
  assumes ok: "gcloud_dns_ok http json self credentials env rrsets"
  shows "optimistic_update (on_remote env) (dns_values (rrset_data rrsets)) (zone, record_name) merge
    (get_rrset http json self zone record_name token) (gcloud_change http json self zone record_name merge token)
    (gcloud_reading record_name) rrset_values"
  by unfold_locales (rule gcloud_get_law [OF ok], assumption, rule gcloud_change_law [OF ok])

definition gcloud_key :: "string \<Rightarrow> 'r dns_world \<Rightarrow> rrset_key option" where
  "gcloud_key domain w =
     (case zone_of domain w of
        Inr (zone, _) \<Rightarrow> Some (zone, ''_acme-challenge.'' @ trim_end_matches CHR ''.'' domain @ ''.'')
      | Inl _ \<Rightarrow> None)"

lemma gcloud_quiet_token:
  assumes ok: "gcloud_dns_ok http json self credentials env rrsets"
  shows "quiet (on_remote env) (dns_values (rrset_data rrsets)) (returns (gcloud_access_token credentials))"
proof -
  have "quiet (on_remote env) (dns_values (rrset_data rrsets)) (returns (dns_remote credentials))"
  proof (rule quiet_remote)
    fix r x r' assume "credentials r = (x, r')"
    then obtain a where "env\<^sup>*\<^sup>* r a" "rrsets r' = rrsets a" using ok unfolding gcloud_dns_ok_def by blast
    then show "\<exists>a. env\<^sup>*\<^sup>* r a \<and> rrset_data rrsets r' = rrset_data rrsets a"
      using rrset_data_eq [of rrsets r' a] by blast
  qed
  then show ?thesis unfolding gcloud_access_token_def by (intro quiet_rules)
qed

lemma gcloud_quiet_get:
  assumes ok: "gcloud_dns_ok http json self credentials env rrsets"
  shows "quiet (on_remote env) (dns_values (rrset_data rrsets)) (returns (dns_remote (dh_send http (gcloud_request DnsGet url query token body))))"
proof (rule quiet_remote)
  fix r x r' assume "dh_send http (gcloud_request DnsGet url query token body) r = (x, r')"
  then obtain a where "env\<^sup>*\<^sup>* r a" "gcloud_answer json self (rrsets a) (rrsets r') (gcloud_request DnsGet url query token body) x"
    using ok unfolding gcloud_dns_ok_def by blast
  then show "\<exists>a. env\<^sup>*\<^sup>* r a \<and> rrset_data rrsets r' = rrset_data rrsets a"
    using rrset_data_eq [of rrsets r'] by (auto simp: gcloud_answer_def gcloud_request_def)
qed

lemma gcloud_quiet_sleep:
  assumes ok: "gcloud_dns_ok http json self credentials env rrsets"
  shows "quiet (on_remote env) (dns_values (rrset_data rrsets)) (returns (dns_remote (\<lambda>r. ((), dh_sleep http d r))))"
proof (rule quiet_remote)
  fix r x r' assume "((), dh_sleep http d r) = (x, r')"
  then show "\<exists>a. env\<^sup>*\<^sup>* r a \<and> rrset_data rrsets r' = rrset_data rrsets a"
    using ok rrset_data_eq [of rrsets r'] unfolding gcloud_dns_ok_def by blast
qed

lemma gcloud_quiet_zones:
  assumes ok: "gcloud_dns_ok http json self credentials env rrsets"
  shows "quiet (on_remote env) (dns_values (rrset_data rrsets)) (gcloud_try_cache_zones http json credentials self)"
  unfolding gcloud_try_cache_zones_def gcloud_zone_page_def send_def
  by (intro quiet_rules gcloud_quiet_token [OF ok] gcloud_quiet_get [OF ok])

lemma quiet_remoteD:
  "quiet E V (returns (dns_remote f)) \<Longrightarrow> f (dw_remote w) = (x, r) \<Longrightarrow> evolves E V own w (w\<lparr>dw_remote := r\<rparr>)"
  by (auto simp: quiet_def returns_def dns_remote_def)

lemma gcloud_poll_quiet:
  fixes http :: "('b, 'r) dns_http"
  assumes ok: "gcloud_dns_ok http json self credentials env rrsets"
    and p: "gcloud_poll http json self zone change_id token start retries r = Some y" and w: "dw_remote w = r"
  shows "evolves (on_remote env) (dns_values (rrset_data rrsets)) own w (w\<lparr>dw_remote := snd y\<rparr>)" (is "evolves ?E ?V own _ _")
proof -
  have "gcloud_dns_ok http json self credentials env rrsets \<longrightarrow>
      (\<forall>w. dw_remote w = r \<longrightarrow> evolves ?E ?V own w (w\<lparr>dw_remote := snd y\<rparr>))"
    using p
  proof (rule gcloud_poll.raw_induct [rotated, where P = "\<lambda>http json self zone change_id token start retries r y.
      gcloud_dns_ok http json self credentials env rrsets \<longrightarrow>
      (\<forall>w. dw_remote w = r \<longrightarrow> evolves ?E ?V own w (w\<lparr>dw_remote := snd y\<rparr>))"], intro impI allI)
    fix rec and http :: "('b, 'r) dns_http" and json self zone change_id token start retries r y and w :: "'r dns_world"
    assume IH: "\<And>http json self zone change_id token start retries r y.
        rec http json self zone change_id token start retries r = Some y \<Longrightarrow>
        gcloud_dns_ok http json self credentials env rrsets \<longrightarrow>
        (\<forall>w. dw_remote w = r \<longrightarrow> evolves ?E ?V own w (w\<lparr>dw_remote := snd y\<rparr>))"
      and body: "(let elapsed = dh_now http r - start; delay = propagation_wait retries in
        if elapsed + delay > PROPAGATION_TIMEOUT
        then Some (Inl (propagation_timed_out ''gcloud''), dh_sleep http (PROPAGATION_TIMEOUT - elapsed) r)
        else case dh_send http (gcloud_request DnsGet (project_url self @ ''/managedZones/'' @ zone @ ''/changes/'' @ change_id) [] token NoDnsBody)
                (dh_sleep http delay r) of
           (sent, r) \<Rightarrow>
             if dh_now http r - start > PROPAGATION_TIMEOUT then Some (Inl (propagation_timed_out ''gcloud''), r)
             else case sent of
               Inl e \<Rightarrow> Some (Inl (ChallengeDns ''gcloud'' e), r)
             | Inr response \<Rightarrow>
                 (case parse_response ''gcloud'' http (gj_change json) response of
                    Inl e \<Rightarrow> Some (Inl e, r)
                  | Inr change \<Rightarrow>
                      if dc_status change = ''done'' then Some (Inr (), r)
                      else rec http json self zone change_id token start (retries + 1) r)) = Some y"
      and ok: "gcloud_dns_ok http json self credentials env rrsets" and w: "dw_remote w = r"
    have sleep: "evolves ?E ?V own w (w\<lparr>dw_remote := dh_sleep http d r\<rparr>)" for d
      by (rule quiet_remoteD [OF gcloud_quiet_sleep [OF ok]]) (simp add: w)
    obtain sent r' where sent: "dh_send http (gcloud_request DnsGet (project_url self @ ''/managedZones/'' @ zone @ ''/changes/'' @ change_id) [] token NoDnsBody)
        (dh_sleep http (propagation_wait retries) r) = (sent, r')" by fastforce
    have "evolves ?E ?V own (w\<lparr>dw_remote := dh_sleep http (propagation_wait retries) r\<rparr>) (w\<lparr>dw_remote := r'\<rparr>)"
      using quiet_remoteD [OF gcloud_quiet_get [OF ok], where w = "w\<lparr>dw_remote := dh_sleep http (propagation_wait retries) r\<rparr>"] sent
      by fastforce
    from interfered_trans [OF sleep this] have r': "evolves ?E ?V own w (w\<lparr>dw_remote := r'\<rparr>)" .
    have "evolves ?E ?V own w (w\<lparr>dw_remote := snd y\<rparr>)"
      if "rec http json self zone change_id token start (retries + 1) r' = Some y"
    proof -
      have "evolves ?E ?V own (w\<lparr>dw_remote := r'\<rparr>) (w\<lparr>dw_remote := r', dw_remote := snd y\<rparr>)"
        using IH [OF that, rule_format, OF ok, of "w\<lparr>dw_remote := r'\<rparr>"] by simp
      with r' show ?thesis by (auto intro: interfered_trans)
    qed
    then show "evolves ?E ?V own w (w\<lparr>dw_remote := snd y\<rparr>)"
      using body [unfolded Let_def sent prod.case] sleep r' by (auto split: if_splits sum.splits)
  qed
  then show ?thesis using ok w by blast
qed

lemma gcloud_quiet_wait:
  assumes ok: "gcloud_dns_ok http json self credentials env rrsets"
  shows "quiet (on_remote env) (dns_values (rrset_data rrsets)) (wait_for_change http json self zone change token)"
  unfolding quiet_def wait_for_change_def
  by (auto intro: interfered_refl dest: gcloud_poll_quiet [OF ok _ refl] split: if_splits)

lemma wait_for_change_returns:
  "wait_for_change http json self zone change token v \<noteq> None"
  "wait_for_change http json self zone change token v = Some (x, v') \<Longrightarrow> dw_zones v' = dw_zones v"
  using gcloud_poll_returns [of 0] by (auto simp: wait_for_change_def split: if_splits)

lemma gcloud_keeps_zones:
  "keeps_zones (gcloud_access_token credentials)" "keeps_zones (change_attempt http json self zone record_name merge token)"
proof -
  show "keeps_zones (gcloud_access_token credentials)" unfolding gcloud_access_token_def by (intro quiet_rules)
  have "keeps_zones (get_rrset http json self zone record_name token)" unfolding get_rrset_def by (intro quiet_rules)
  moreover have "keeps_zones (gcloud_change http json self zone record_name merge token t)" for t
    unfolding gcloud_change_def Let_def by (auto intro: quiet_rules)
  ultimately show "keeps_zones (change_attempt http json self zone record_name merge token)"
    unfolding change_attempt_eq by (rule keeps_zones_wtry)
qed

lemma gcloud_change_lossless:
  assumes ok: "gcloud_dns_ok http json self credentials env rrsets"
    and name: "record_name = ''_acme-challenge.'' @ trim_end_matches CHR ''.'' domain @ ''.''"
  shows "lossless env (rrset_data rrsets) (gcloud_key domain) merge
    (otry (gcloud_find_zone http json credentials self domain) (\<lambda>zone. change_rrset http json credentials self zone record_name merge))"
proof (rule lossless_otry [where K = "\<lambda>zone. (zone, record_name)"])
  let ?E = "on_remote env" and ?V = "dns_values (rrset_data rrsets)" and ?find = "gcloud_find_zone http json credentials self domain"
  show "quiet ?E ?V ?find" unfolding gcloud_find_zone_def by (intro quiet_rules gcloud_quiet_zones [OF ok])
  show "gcloud_key domain v = Some (z, record_name)" if "?find w = Some (Inr z, v)" for w z v
    using that unfolding gcloud_find_zone_def gcloud_key_def name [symmetric] by (cases "zone_of domain v") (auto simp: otry_Some)
  show "?find w \<noteq> None" if "dw_zones w \<noteq> None" for w
    using that by (simp add: gcloud_find_zone_def gcloud_try_cache_zones_def otry_def cache_zones_keeps)
  show "gcloud_key domain v' = gcloud_key domain v" if "dw_zones v' = dw_zones v" for v v' :: "'b dns_world"
    using zone_of_cong [OF that] by (simp add: gcloud_key_def)
  have "quiet ?E ?V (case c of None \<Rightarrow> \<lambda>w. Some (Inr (), w) | Some change \<Rightarrow> wait_for_change http json self z change token)"
    for c z token using gcloud_quiet_wait [OF ok] by (auto intro: quiet_Some [of _ _ "\<lambda>_. Inr ()"] split: option.split)
  then show "updates ?E ?V (z, record_name) merge (change_rrset http json credentials self z record_name merge)" for z
    unfolding change_rrset_def change_attempt_eq
    by (intro updates_after_quiet [OF gcloud_quiet_token [OF ok]] updates_before_quiet updates_retry [OF gcloud_optimistic [OF ok]])
  show "dw_zones v' = dw_zones v" if "change_rrset http json credentials self z record_name merge v = Some (x, v')" for z v x v'
    using that unfolding change_rrset_def
    by (auto simp: otry_Some dest!: returns_keeps [OF gcloud_keeps_zones(1)] returns_keeps [OF keeps_zones_retry [OF gcloud_keeps_zones(2)]]
        wait_for_change_returns(2) split: option.splits)
  show "change_rrset http json credentials self z record_name merge v \<noteq> None" for z v
    unfolding change_rrset_def otry_def returns_def using wait_for_change_returns(1)
    by (auto split: prod.splits sum.splits option.splits)
qed

lemma gcloud_create_lossless:
  assumes "gcloud_dns_ok http json self credentials env rrsets"
  shows "lossless env (rrset_data rrsets) (gcloud_key domain) (add_value (double_quoted v))
    (gcloud_create_txt_record http json credentials self domain v)"
  using gcloud_change_lossless [OF assms refl, of domain "add_value (double_quoted v)"]
  by (simp add: gcloud_create_txt_record_def add_value_def [abs_def] Let_def)

lemma gcloud_delete_lossless:
  assumes "gcloud_dns_ok http json self credentials env rrsets"
  shows "lossless env (rrset_data rrsets) (gcloud_key domain) (remove_value (double_quoted v))
    (gcloud_delete_txt_record http json credentials self domain v)"
  using gcloud_change_lossless [OF assms refl, of domain "remove_value (double_quoted v)"]
  by (simp add: gcloud_delete_txt_record_def remove_value_def [abs_def] Let_def)

text \<open>
  C9. Challenges that share a record set never lose each other's values. However other writers change
  the zone between the requests of an operation, everything that creating a record at Azure or at Google
  does to the zone is to add the digest to the values that the record set of the domain has at that
  moment, and deleting is to remove only the digest from them; an operation that reports success has done
  so. Once the zones are known the operations return: after at most four conflicts, and after a bounded
  wait for the change to be served.
\<close>

theorem dns_changes_lose_nothing:
  assumes "azure_dns_ok http json credential env sets version"
    and "gcloud_dns_ok ghttp gjson gself gcredentials genv rrsets"
  shows "lossless env sets (azure_key self domain) (add_value [v]) (azure_create_txt_record http json credential self domain v)
    \<and> lossless env sets (azure_key self domain) (remove_value [v]) (azure_delete_txt_record http json credential self domain v)
    \<and> lossless genv (rrset_data rrsets) (gcloud_key domain) (add_value (double_quoted v))
        (gcloud_create_txt_record ghttp gjson gcredentials gself domain v)
    \<and> lossless genv (rrset_data rrsets) (gcloud_key domain) (remove_value (double_quoted v))
        (gcloud_delete_txt_record ghttp gjson gcredentials gself domain v)"
  by (intro conjI azure_create_lossless [OF assms(1)] azure_delete_lossless [OF assms(1)]
      gcloud_create_lossless [OF assms(2)] gcloud_delete_lossless [OF assms(2)])

section \<open>A service with a second writer\<close>

text \<open>
  Both services as tables, with a second writer that adds its own value to a record set just before it is
  changed. The tag of a record set at Azure is an encoding of its values.
\<close>

definition encode_list :: "('a \<Rightarrow> string) \<Rightarrow> 'a list \<Rightarrow> string" where
  "encode_list f xs = concat (map (\<lambda>x. CHR ''x'' # f x) xs) @ ''e''"

definition prefix_free :: "('a \<Rightarrow> string) \<Rightarrow> bool" where
  "prefix_free f \<longleftrightarrow> (\<forall>x y r s. f x @ r = f y @ s \<longrightarrow> x = y \<and> r = s)"

lemma prefix_free_encode_list:
  assumes "prefix_free f"
  shows "prefix_free (encode_list f)"
proof -
  have "xs = ys \<and> r = s" if "encode_list f xs @ r = encode_list f ys @ s" for xs ys r s
    using that
  proof (induction xs arbitrary: ys)
    case Nil
    then show ?case by (cases ys) (auto simp: encode_list_def)
  next
    case (Cons x xs)
    then obtain y zs where ys: "ys = y # zs" by (cases ys) (auto simp: encode_list_def)
    then have "f x @ (encode_list f xs @ r) = f y @ (encode_list f zs @ s)" using Cons.prems by (simp add: encode_list_def)
    then have "x = y \<and> encode_list f xs @ r = encode_list f zs @ s" using assms unfolding prefix_free_def by blast
    then show ?case using Cons.IH [of zs] ys by simp
  qed
  then show ?thesis unfolding prefix_free_def by blast
qed

definition table_etag :: "txt_record list \<Rightarrow> string" where
  "table_etag = encode_list (encode_list (encode_list (\<lambda>c. [c])))"

lemma inj_table_etag: "inj table_etag"
proof -
  have "prefix_free table_etag" unfolding table_etag_def by (intro prefix_free_encode_list) (simp add: prefix_free_def)
  then show ?thesis unfolding prefix_free_def by (metis append.right_neutral injI)
qed

datatype sample_body = EmptyBody | SetBody record_set | RrsetsBody "rr_set list" | ChangeBody dns_change

type_synonym azure_table = "string \<rightharpoonup> txt_record list"

definition second_writer :: "'v \<Rightarrow> 'k \<Rightarrow> ('k \<rightharpoonup> 'v list) \<Rightarrow> 'k \<rightharpoonup> 'v list" where
  "second_writer v k r = r(k \<mapsto> add_value v (case r k of Some vs \<Rightarrow> vs | None \<Rightarrow> []))"

definition azure_table_sets :: "azure_table \<Rightarrow> string \<Rightarrow> (string \<times> txt_record list) option" where
  "azure_table_sets r url = map_option (\<lambda>vs. (table_etag vs, vs)) (r url)"

lemma azure_table_upd:
  "azure_table_sets (r(url := x)) = (azure_table_sets r)(url := map_option (\<lambda>vs. (table_etag vs, vs)) x)"
  by (simp add: azure_table_sets_def fun_eq_iff)

definition table_condition :: "(string \<times> string) list \<Rightarrow> (string \<times> 'a) option \<Rightarrow> bool" where
  "table_condition headers cur \<longleftrightarrow>
     list_all (\<lambda>(h, e). (h = ''if-match'' \<longrightarrow> map_option fst cur = Some e) \<and> (h = ''if-none-match'' \<longrightarrow> cur = None)) headers"

definition answer :: "nat \<Rightarrow> 'b \<Rightarrow> string + 'b dns_response" where
  "answer status body = Inr \<lparr>dr_status = status, dr_body = body\<rparr>"

definition azure_table_send :: "dns_request \<Rightarrow> azure_table \<Rightarrow> (string + sample_body dns_response) \<times> azure_table" where
  "azure_table_send req r =
     (let url = dq_url req in
      case dq_method req of
        DnsGet \<Rightarrow> (case r url of
            None \<Rightarrow> answer 404 EmptyBody
          | Some vs \<Rightarrow> answer 200 (SetBody \<lparr>rs_etag = Some (table_etag vs), rs_ttl = TXT_TTL, rs_txt_records = vs\<rparr>), r)
      | DnsPut \<Rightarrow>
          (let a = second_writer [''other''] url r in
           if table_condition (dq_headers req) (azure_table_sets a url)
           then (answer 200 EmptyBody, a(url \<mapsto> azure_written (dq_body req))) else (answer 412 EmptyBody, a))
      | DnsDelete \<Rightarrow>
          if table_condition (dq_headers req) (azure_table_sets r url)
          then (answer 200 EmptyBody, r(url := None)) else (answer 412 EmptyBody, r)
      | DnsPost \<Rightarrow> (answer 400 EmptyBody, r))"

definition table_http :: "(dns_request \<Rightarrow> 'r \<Rightarrow> (string + sample_body dns_response) \<times> 'r) \<Rightarrow> (sample_body, 'r) dns_http" where
  "table_http f =
     \<lparr>dh_send = f, dh_text = (\<lambda>_. []), dh_status_text = show_nat, dh_status_error = (\<lambda>status url. show_nat status), dh_now = (\<lambda>_. 0),
      dh_utc_now = (\<lambda>_. 0), dh_sleep = (\<lambda>_ r. r)\<rparr>"

definition azure_table_json :: "sample_body azure_json" where
  "azure_table_json =
     \<lparr>aj_zone_list = (\<lambda>_. Inl ''no zones''), aj_record_set = (\<lambda>b. case b of SetBody rs \<Rightarrow> Inr rs | _ \<Rightarrow> Inl ''no record set''),
      aj_value = (\<lambda>_. Inr ())\<rparr>"

definition table_token :: "string \<Rightarrow> 'r \<Rightarrow> (string + string \<times> int) \<times> 'r" where
  "table_token scope r = (Inr (''token'', 0), r)"

lemma table_condition_holds: "table_condition headers cur \<Longrightarrow> precondition_holds headers cur"
  by (auto simp: table_condition_def precondition_holds_def list_all_iff)

lemma azure_table_ok:
  "azure_dns_ok (table_http azure_table_send) azure_table_json table_token (\<lambda>a b. \<exists>url. b = second_writer [''other''] url a)
     azure_table_sets (\<lambda>url. inv table_etag)"
  unfolding azure_dns_ok_def
proof (intro conjI allI impI)
  fix req r x r'
  assume s: "dh_send (table_http azure_table_send) req r = (x, r')"
  let ?env = "\<lambda>a b. \<exists>url. b = second_writer [''other''] url a"
  show "\<exists>a. ?env\<^sup>*\<^sup>* r a \<and> azure_answer azure_table_json (azure_table_sets a) (azure_table_sets r') req x"
  proof (cases "dq_method req = DnsPut")
    case True
    let ?a = "second_writer [''other''] (dq_url req) r"
    have "?env\<^sup>*\<^sup>* r ?a" by blast
    moreover have "azure_answer azure_table_json (azure_table_sets ?a) (azure_table_sets r') req x"
      using s True table_condition_holds [of "dq_headers req" "azure_table_sets ?a (dq_url req)"]
      by (auto simp: table_http_def azure_table_send_def Let_def azure_answer_def answer_def is_success_def azure_table_upd split: if_splits)
    ultimately show ?thesis by blast
  next
    case False
    then have "azure_answer azure_table_json (azure_table_sets r) (azure_table_sets r') req x"
      using s table_condition_holds [of "dq_headers req" "azure_table_sets r (dq_url req)"]
      by (cases "dq_method req") (auto simp: table_http_def azure_table_send_def Let_def azure_answer_def answer_def is_success_def
          azure_table_upd azure_table_sets_def [of _ "dq_url req"] azure_table_json_def split: if_splits option.splits)
    then show ?thesis by blast
  qed
qed (auto simp: azure_table_sets_def inj_table_etag table_token_def table_http_def)

interpretation azure_table: optimistic_update "on_remote (\<lambda>a b. \<exists>url. b = second_writer [''other''] url a)"
  "dns_values azure_table_sets" url "add_value [v]" "get_record_set (table_http azure_table_send) azure_table_json url token"
  "\<lambda>t. wtry (put_record_set (table_http azure_table_send) azure_table_json url (add_value [v] (reading_values t)) (condition_of t) token)
     (\<lambda>applied. Pair (Inr (applied_or_conflict record_name applied)))" "azure_reading (\<lambda>url. inv table_etag) url" reading_values
  for url v token record_name
  by (rule azure_create_optimistic [OF azure_table_ok])

type_synonym gcloud_table = "rrset_key \<rightharpoonup> string list"

definition gcloud_table_sets :: "gcloud_table \<Rightarrow> rrset_key \<Rightarrow> rr_set option" where
  "gcloud_table_sets r k =
     map_option (\<lambda>vs. \<lparr>rr_name = snd k, rr_kind = ''TXT'', rr_ttl = TXT_TTL, rr_rrdatas = vs\<rparr>) (r k)"

definition sample_project :: gcloud_provider where
  "sample_project = \<lparr>gp_project_id = ''p'', gp_api_base = ''g''\<rparr>"

definition zone_in :: "string \<Rightarrow> string \<Rightarrow> string" where
  "zone_in rest url = (let start = length (project_url sample_project @ ''/managedZones/'') in take (length url - start - length rest) (drop start url))"

lemma zone_in: "zone_in rest (project_url sample_project @ ''/managedZones/'' @ zone @ rest) = zone"
  by (simp add: zone_in_def Let_def)

definition gcloud_table_change ::
  "string \<Rightarrow> rr_set option \<Rightarrow> rr_set option \<Rightarrow> gcloud_table \<Rightarrow> (string + sample_body dns_response) \<times> gcloud_table" where
  "gcloud_table_change zone deletion addition r =
     (case (deletion, addition) of
        (None, None) \<Rightarrow> (answer 400 EmptyBody, r)
      | (Some d, _) \<Rightarrow>
          let a = second_writer ''other'' (zone, rr_name d) r in
          if gcloud_table_sets a (zone, rr_name d) = Some d
             \<and> (case addition of Some s \<Rightarrow> s = \<lparr>rr_name = rr_name d, rr_kind = ''TXT'', rr_ttl = TXT_TTL, rr_rrdatas = rr_rrdatas s\<rparr> | None \<Rightarrow> True)
          then (answer 200 (ChangeBody \<lparr>dc_id = ''1'', dc_status = ''done''\<rparr>), a((zone, rr_name d) := map_option rr_rrdatas addition))
          else (answer 409 EmptyBody, a)
      | (None, Some s) \<Rightarrow>
          if r (zone, rr_name s) = None \<and> s = \<lparr>rr_name = rr_name s, rr_kind = ''TXT'', rr_ttl = TXT_TTL, rr_rrdatas = rr_rrdatas s\<rparr>
          then (answer 200 (ChangeBody \<lparr>dc_id = ''1'', dc_status = ''done''\<rparr>), r((zone, rr_name s) := Some (rr_rrdatas s)))
          else (answer 409 EmptyBody, r))"

definition gcloud_table_send :: "dns_request \<Rightarrow> gcloud_table \<Rightarrow> (string + sample_body dns_response) \<times> gcloud_table" where
  "gcloud_table_send req r =
     (case (dq_method req, dq_query req, dq_body req) of
        (DnsGet, (_, name) # _, _) \<Rightarrow>
          (answer 200 (RrsetsBody (case gcloud_table_sets r (zone_in ''/rrsets'' (dq_url req), name) of None \<Rightarrow> [] | Some s \<Rightarrow> [s])), r)
      | (DnsPost, _, GcloudChange deletion addition) \<Rightarrow>
          gcloud_table_change (zone_in ''/changes'' (dq_url req)) deletion addition r
      | _ \<Rightarrow> (answer 400 EmptyBody, r))"

definition gcloud_table_json :: "sample_body gcloud_json" where
  "gcloud_table_json =
     \<lparr>gj_zones = (\<lambda>_. Inl ''no zones''), gj_rrsets = (\<lambda>b. case b of RrsetsBody l \<Rightarrow> Inr l | _ \<Rightarrow> Inl ''no records''),
      gj_change = (\<lambda>b. case b of ChangeBody c \<Rightarrow> Inr c | _ \<Rightarrow> Inl ''no change'')\<rparr>"

lemma gcloud_table_upd:
  "gcloud_table_sets (r(k := x)) =
     (gcloud_table_sets r)(k := map_option (\<lambda>vs. \<lparr>rr_name = snd k, rr_kind = ''TXT'', rr_ttl = TXT_TTL, rr_rrdatas = vs\<rparr>) x)"
  by (rule ext) (simp add: gcloud_table_sets_def)

lemma gcloud_table_change_ok:
  assumes "gcloud_table_change zone deletion addition r = (x, r')"
  shows "\<exists>a. (a = r \<or> (\<exists>k. a = second_writer ''other'' k r))
    \<and> (gcloud_applied zone deletion addition (gcloud_table_sets a) (gcloud_table_sets r')
       \<or> gcloud_table_sets r' = gcloud_table_sets a \<and> (\<forall>resp. x = Inr resp \<longrightarrow> \<not> is_success (dr_status resp)))"
proof (cases deletion)
  case (Some d)
  let ?a = "second_writer ''other'' (zone, rr_name d) r"
  have "gcloud_applied zone deletion addition (gcloud_table_sets ?a) (gcloud_table_sets r')
       \<or> gcloud_table_sets r' = gcloud_table_sets ?a \<and> (\<forall>resp. x = Inr resp \<longrightarrow> \<not> is_success (dr_status resp))"
  proof (cases "gcloud_table_sets ?a (zone, rr_name d) = Some d
      \<and> (case addition of Some s \<Rightarrow> s = \<lparr>rr_name = rr_name d, rr_kind = ''TXT'', rr_ttl = TXT_TTL, rr_rrdatas = rr_rrdatas s\<rparr> | None \<Rightarrow> True)")
    case True
    then have "r' = ?a((zone, rr_name d) := map_option rr_rrdatas addition)"
      using assms Some by (auto simp: gcloud_table_change_def Let_def split: option.splits)
    then have "gcloud_applied zone deletion addition (gcloud_table_sets ?a) (gcloud_table_sets r')"
      using True Some unfolding gcloud_applied_def
      by (intro exI [where x = "rr_name d"]) (cases addition; auto simp: gcloud_table_upd dest: arg_cong [where f = rr_name])
    then show ?thesis by blast
  qed (use assms Some in \<open>auto simp: gcloud_table_change_def Let_def answer_def is_success_def split: option.splits\<close>)
  then show ?thesis by blast
next
  case None
  then show ?thesis
    using assms by (cases addition) (auto simp: gcloud_table_change_def gcloud_applied_def gcloud_table_upd answer_def is_success_def
        gcloud_table_sets_def [of r] split: if_splits)
qed

lemma gcloud_table_ok:
  "gcloud_dns_ok (table_http gcloud_table_send) gcloud_table_json sample_project (\<lambda>r. (Inr ''token'', r))
     (\<lambda>a b. \<exists>k. b = second_writer ''other'' k a) gcloud_table_sets"
  unfolding gcloud_dns_ok_def
proof (intro conjI allI impI)
  fix req r x r'
  let ?env = "\<lambda>a b. \<exists>k. b = second_writer ''other'' k a"
  assume "dh_send (table_http gcloud_table_send) req r = (x, r')"
  then have s: "gcloud_table_send req r = (x, r')" by (simp add: table_http_def)
  show "\<exists>a. ?env\<^sup>*\<^sup>* r a \<and> gcloud_answer gcloud_table_json sample_project (gcloud_table_sets a) (gcloud_table_sets r') req x"
  proof (cases "\<exists>deletion addition. dq_method req = DnsPost \<and> dq_body req = GcloudChange deletion addition")
    case True
    then obtain deletion addition where req: "dq_method req = DnsPost" "dq_body req = GcloudChange deletion addition" by blast
    with s have "gcloud_table_change (zone_in ''/changes'' (dq_url req)) deletion addition r = (x, r')"
      by (simp add: gcloud_table_send_def)
    from gcloud_table_change_ok [OF this] obtain a where a: "?env\<^sup>*\<^sup>* r a"
      "gcloud_applied (zone_in ''/changes'' (dq_url req)) deletion addition (gcloud_table_sets a) (gcloud_table_sets r')
       \<or> gcloud_table_sets r' = gcloud_table_sets a \<and> (\<forall>resp. x = Inr resp \<longrightarrow> \<not> is_success (dr_status resp))" by blast
    have "gcloud_answer gcloud_table_json sample_project (gcloud_table_sets a) (gcloud_table_sets r') req x"
      unfolding gcloud_answer_def req(1) dns_method.case
    proof (intro allI impI)
      fix zone deletion' addition'
      assume url: "dq_url req = project_url sample_project @ ''/managedZones/'' @ zone @ ''/changes''" and "dq_body req = GcloudChange deletion' addition'"
      then have "deletion' = deletion" "addition' = addition" using req(2) by simp_all
      then show "gcloud_applied zone deletion' addition' (gcloud_table_sets a) (gcloud_table_sets r')
          \<or> gcloud_table_sets r' = gcloud_table_sets a \<and> (\<forall>resp. x = Inr resp \<longrightarrow> \<not> is_success (dr_status resp))"
        using a(2) unfolding url zone_in by simp
    qed
    with a(1) show ?thesis by blast
  next
    case False
    have "r' = r" using s False
      by (cases "dq_method req"; cases "dq_query req"; cases "dq_body req") (auto simp: gcloud_table_send_def)
    moreover have "(case rrsets of [] \<Rightarrow> None | s # _ \<Rightarrow> Some s) = gcloud_table_sets r (zone, name)"
      if "dq_method req = DnsGet" "dq_url req = project_url sample_project @ ''/managedZones/'' @ zone @ ''/rrsets''"
        "dq_query req = [(''name'', name), (''type'', ''TXT'')]" "x = Inr resp" "gj_rrsets gcloud_table_json (dr_body resp) = Inr rrsets"
      for zone name resp rrsets
    proof -
      have "x = answer 200 (RrsetsBody (case gcloud_table_sets r (zone_in ''/rrsets'' (dq_url req), name) of None \<Rightarrow> [] | Some s \<Rightarrow> [s]))"
        using s that(1,3) by (auto simp: gcloud_table_send_def)
      then have "rrsets = (case gcloud_table_sets r (zone, name) of None \<Rightarrow> [] | Some s \<Rightarrow> [s])"
        using that(4,5) unfolding that(2) zone_in by (auto simp: answer_def gcloud_table_json_def)
      then show ?thesis by (simp split: option.splits)
    qed
    ultimately have "gcloud_answer gcloud_table_json sample_project (gcloud_table_sets r) (gcloud_table_sets r') req x"
      using False unfolding gcloud_answer_def by (cases "dq_method req") auto
    then show ?thesis by blast
  qed
qed (auto simp: gcloud_table_sets_def table_http_def)

interpretation gcloud_table: optimistic_update "on_remote (\<lambda>a b. \<exists>k. b = second_writer ''other'' k a)"
  "dns_values (rrset_data gcloud_table_sets)" "(zone, record_name)" merge
  "get_rrset (table_http gcloud_table_send) gcloud_table_json sample_project zone record_name token"
  "gcloud_change (table_http gcloud_table_send) gcloud_table_json sample_project zone record_name merge token"
  "gcloud_reading record_name" rrset_values for zone record_name merge token
  by (rule gcloud_optimistic [OF gcloud_table_ok])

definition sample_azure :: azure_provider where
  "sample_azure = \<lparr>az_subscription_id = ''s'', az_resource_group = ''g'', az_api_base = ''a'', az_propagation_delay = 1\<rparr>"

definition sample_world :: "'r \<Rightarrow> 'r dns_world" where
  "sample_world r = \<lparr>dw_remote = r, dw_zones = Some [zone_info_new ''e.org'' ''z''], dw_token = None\<rparr>"

theorem dns_changes_lose_nothing_witness:
  "lossless (\<lambda>a b. \<exists>url. b = second_writer [''other''] url a) azure_table_sets (azure_key sample_azure ''s.e.org'') (add_value [''d''])
     (azure_create_txt_record (table_http azure_table_send) azure_table_json table_token sample_azure ''s.e.org'' ''d'')
   \<and> lossless (\<lambda>a b. \<exists>k. b = second_writer ''other'' k a) (rrset_data gcloud_table_sets) (gcloud_key ''s.e.org'')
       (remove_value (double_quoted ''d''))
       (gcloud_delete_txt_record (table_http gcloud_table_send) gcloud_table_json (\<lambda>r. (Inr ''token'', r)) sample_project ''s.e.org'' ''d'')
   \<and> azure_create_txt_record (table_http azure_table_send) azure_table_json table_token sample_azure ''s.e.org'' ''d''
       (sample_world Map.empty) \<noteq> None"
proof -
  note l = dns_changes_lose_nothing [OF azure_table_ok gcloud_table_ok, of sample_azure "''s.e.org''" "''d''"]
  have "dw_zones (sample_world Map.empty) \<noteq> None" by (simp add: sample_world_def)
  with l show ?thesis unfolding lossless_def by blast
qed

end
