(* ===== verification/Acme_Dns_Spec.thy ===== *)
theory Acme_Dns_Spec
  imports Dns_Providers "HOL-Library.Multiset"
begin

text \<open>
  The provider for ACME-DNS servers: what its account map selects, and what the check of the domains of
  an order at start-up is good for. An ACME-DNS server keeps the two most recent values of a subdomain.
\<close>

section \<open>Accounts\<close>

definition subdomain_of :: "acme_dns_provider \<Rightarrow> string \<Rightarrow> string option" where
  "subdomain_of self domain = (case credentials_for self domain of Inr account \<Rightarrow> Some (ac_subdomain account) | Inl _ \<Rightarrow> None)"

definition looked_up :: "(string \<times> 'a list) list \<Rightarrow> string \<Rightarrow> 'a list" where
  "looked_up m k = (case map_of m k of Some xs \<Rightarrow> xs | None \<Rightarrow> [])"

lemma domains_by_account_spec:
  "domains_by_account self domains acc = Inr by_account \<Longrightarrow>
     (\<forall>d \<in> set domains. subdomain_of self d \<noteq> None)
     \<and> looked_up by_account sub = looked_up acc sub @ filter (\<lambda>d. subdomain_of self d = Some sub) domains"
proof (induction domains arbitrary: acc)
  case (Cons d ds)
  then obtain account where a: "credentials_for self d = Inr account"
    "domains_by_account self ds (AList.update (ac_subdomain account) (looked_up acc (ac_subdomain account) @ [d]) acc) = Inr by_account"
    by (auto simp: looked_up_def split: sum.splits)
  have "looked_up (AList.update (ac_subdomain account) (looked_up acc (ac_subdomain account) @ [d]) acc) sub
      = looked_up acc sub @ (if ac_subdomain account = sub then [d] else [])"
    by (simp add: looked_up_def update_conv')
  with Cons.IH [OF a(2)] a(1) show ?case by (auto simp: subdomain_of_def)
qed simp

lemma domains_by_account_total:
  "(\<forall>d \<in> set domains. subdomain_of self d \<noteq> None) \<Longrightarrow> \<exists>by_account. domains_by_account self domains acc = Inr by_account"
  by (induction domains arbitrary: acc) (auto simp: subdomain_of_def split: sum.splits)

lemma domains_by_account_distinct:
  "domains_by_account self domains acc = Inr by_account \<Longrightarrow> distinct (map fst acc) \<Longrightarrow> distinct (map fst by_account)"
  by (induction domains arbitrary: acc) (auto simp: distinct_update split: sum.splits)

text \<open>The check passes exactly for the orders that give no account more than two domains, in whatever order the map is walked.\<close>

lemma check_order_domains_iff:
  assumes "\<And>xs. set (hash_order xs) = set xs"
  shows "check_order_domains hash_order self domains = Inr () \<longleftrightarrow>
    (\<forall>d \<in> set domains. subdomain_of self d \<noteq> None)
    \<and> (\<forall>sub. length (filter (\<lambda>d. subdomain_of self d = Some sub) domains) \<le> 2)"
proof (cases "domains_by_account self domains []")
  case (Inl e)
  then show ?thesis using domains_by_account_total [of domains self "[]"] by (auto simp: check_order_domains_def)
next
  case (Inr m)
  have l: "looked_up m sub = filter (\<lambda>d. subdomain_of self d = Some sub) domains" for sub
    using domains_by_account_spec [OF Inr, of sub] by (simp add: looked_up_def)
  have "distinct (map fst m)" using domains_by_account_distinct [OF Inr] by simp
  then have mem: "(sub, ds) \<in> set m \<Longrightarrow> looked_up m sub = ds" for sub ds by (simp add: looked_up_def)
  have "check_order_domains hash_order self domains = Inr () \<longleftrightarrow> (\<forall>(sub, ds) \<in> set m. length ds \<le> 2)"
  proof (cases "find (\<lambda>(_, d). length d > 2) (hash_order m)")
    case None
    then have "\<forall>(sub, ds) \<in> set m. length ds \<le> 2" using assms [of m] by (auto simp: find_None_iff not_less)
    then show ?thesis using Inr None by (simp add: check_order_domains_def)
  next
    case (Some p)
    then have "p \<in> set (hash_order m)" "length (snd p) > 2" by (auto simp: find_Some_iff case_prod_beta)
    then have "p \<in> set m" "length (snd p) > 2" using assms [of m] by auto
    moreover from this have "\<not> (\<forall>(sub, ds) \<in> set m. length ds \<le> 2)" by (auto simp: case_prod_beta not_le intro!: bexI [of _ p])
    ultimately show ?thesis using Inr Some by (auto simp: check_order_domains_def split: prod.splits)
  qed
  also have "\<dots> \<longleftrightarrow> (\<forall>sub. length (looked_up m sub) \<le> 2)"
  proof
    assume "\<forall>(sub, ds) \<in> set m. length ds \<le> 2"
    then show "\<forall>sub. length (looked_up m sub) \<le> 2"
      unfolding looked_up_def by (auto split: option.splits dest!: map_of_SomeD)
  next
    assume "\<forall>sub. length (looked_up m sub) \<le> 2"
    then show "\<forall>(sub, ds) \<in> set m. length ds \<le> 2" using mem by fastforce
  qed
  finally show ?thesis using domains_by_account_spec [OF Inr] l by auto
qed

section \<open>Orders\<close>

text \<open>A successful update puts the value before the others of its subdomain, of which two are kept.\<close>

definition acme_dns_ok :: "('b, 'r) dns_http \<Rightarrow> acme_dns_provider \<Rightarrow> ('r \<Rightarrow> string \<Rightarrow> string list) \<Rightarrow> bool" where
  "acme_dns_ok http self window \<longleftrightarrow>
     (\<forall>account v r resp r'. dh_send http (acme_dns_update self account v) r = (Inr resp, r') \<longrightarrow> is_success (dr_status resp) \<longrightarrow>
        window r' = (window r)(ac_subdomain account := take 2 (v # window r (ac_subdomain account))))"

text \<open>The challenges of an order are answered one after the other.\<close>

fun create_all :: "(string \<Rightarrow> string \<Rightarrow> 'w \<Rightarrow> ('e + unit) \<times> 'w) \<Rightarrow> (string \<times> string) list \<Rightarrow> 'w \<Rightarrow> ('e + unit) \<times> 'w" where
  "create_all f [] w = (Inr (), w)"
| "create_all f ((domain, digest) # order) w = wtry (f domain digest) (\<lambda>_. create_all f order) w"

definition digests_for :: "acme_dns_provider \<Rightarrow> (string \<times> string) list \<Rightarrow> string \<Rightarrow> string list" where
  "digests_for self order sub = map snd (filter (\<lambda>(d, _). subdomain_of self d = Some sub) order)"

lemma acme_dns_create_ok:
  assumes "acme_dns_ok http self window" and "acme_dns_create_txt_record http self domain v w = (Inr (), w')"
  shows "\<exists>sub. subdomain_of self domain = Some sub
    \<and> window (dw_remote w') = (window (dw_remote w))(sub := take 2 (v # window (dw_remote w) sub))"
proof -
  obtain account resp r' where a: "credentials_for self domain = Inr account"
    "dh_send http (acme_dns_update self account v) (dw_remote w) = (Inr resp, r')" "is_success (dr_status resp)" "w' = w\<lparr>dw_remote := r'\<rparr>"
    using assms(2) by (auto simp: acme_dns_create_txt_record_def wtry_def send_def wmap_err_def dns_remote_def Let_def
        split: sum.splits prod.splits if_splits)
  then show ?thesis using assms(1) by (auto simp: acme_dns_ok_def subdomain_of_def)
qed

lemma create_all_window:
  assumes ok: "acme_dns_ok http self window"
  shows "create_all (acme_dns_create_txt_record http self) order w = (Inr (), w') \<Longrightarrow>
    (\<forall>(d, _) \<in> set order. subdomain_of self d \<noteq> None)
    \<and> window (dw_remote w') sub =
        (if digests_for self order sub = [] then window (dw_remote w) sub
         else take 2 (rev (digests_for self order sub) @ window (dw_remote w) sub))"
proof (induction order arbitrary: w)
  case (Cons dv order)
  obtain d v where dv: "dv = (d, v)" by (cases dv)
  obtain w1 where w1: "acme_dns_create_txt_record http self d v w = (Inr (), w1)"
    "create_all (acme_dns_create_txt_record http self) order w1 = (Inr (), w')"
    using Cons.prems dv by (auto simp: wtry_def split: prod.splits sum.splits)
  from acme_dns_create_ok [OF ok w1(1)] obtain sub0 where sub0: "subdomain_of self d = Some sub0"
    "window (dw_remote w1) = (window (dw_remote w))(sub0 := take 2 (v # window (dw_remote w) sub0))" by blast
  have t: "take 2 (xs @ take 2 (v # ys)) = take 2 (xs @ v # ys)" for xs ys by (simp add: take_Cons' diff_Suc split: nat.splits)
  show ?case
  proof (cases "sub = sub0")
    case True
    then have "digests_for self (dv # order) sub = v # digests_for self order sub" using sub0(1) dv by (simp add: digests_for_def)
    then show ?thesis using Cons.IH [OF w1(2)] sub0 dv True t [of "rev (digests_for self order sub)"] by (auto simp del: take_append)
  next
    case False
    then have "digests_for self (dv # order) sub = digests_for self order sub" using sub0(1) dv by (simp add: digests_for_def)
    then show ?thesis using Cons.IH [OF w1(2)] sub0 dv False by auto
  qed
qed (simp add: digests_for_def)

lemma length_digests_for:
  "length (digests_for self order sub) = length (filter (\<lambda>d. subdomain_of self d = Some sub) (map fst order))"
  by (induction order) (auto simp: digests_for_def)

lemma rotated_out: "distinct xs \<Longrightarrow> length xs > 2 \<Longrightarrow> hd xs \<notin> set (take 2 (rev xs @ ys))"
proof -
  assume d: "distinct xs" "length xs > 2"
  have "xs \<noteq> []" using d(2) by auto
  then have "hd xs = last (drop 2 (rev xs))" using d(2) by (simp add: last_drop last_rev)
  moreover have "drop 2 (rev xs) \<noteq> []" using d(2) by simp
  ultimately have "hd xs \<in> set (drop 2 (rev xs))" using last_in_set by metis
  moreover have "distinct (take 2 (rev xs) @ drop 2 (rev xs))" using d(1) by simp
  ultimately have "hd xs \<notin> set (take 2 (rev xs))" by (auto simp del: append_take_drop_id)
  then show ?thesis using d(2) by simp
qed

text \<open>An account serves all its digests of an order if and only if there are at most two.\<close>

lemma window_serves_all_iff:
  assumes "acme_dns_ok http self window" "distinct (map snd order)"
    and "create_all (acme_dns_create_txt_record http self) order w = (Inr (), w')"
  shows "set (digests_for self order sub) \<subseteq> set (window (dw_remote w') sub) \<longleftrightarrow> length (digests_for self order sub) \<le> 2"
proof -
  let ?ds = "digests_for self order sub"
  have win: "window (dw_remote w') sub = take 2 (rev ?ds @ window (dw_remote w) sub)" if "?ds \<noteq> []"
    using create_all_window [OF assms(1,3), of sub] that by simp
  show ?thesis
  proof
    assume sub: "set ?ds \<subseteq> set (window (dw_remote w') sub)"
    show "length ?ds \<le> 2"
    proof (rule ccontr)
      assume long: "\<not> length ?ds \<le> 2"
      then have "?ds \<noteq> []" by auto
      moreover have "distinct ?ds" using assms(2) unfolding digests_for_def by (rule distinct_map_filter)
      ultimately have "hd ?ds \<notin> set (window (dw_remote w') sub)" using rotated_out [of ?ds] long win by simp
      then show False using sub hd_in_set [OF \<open>?ds \<noteq> []\<close>] by blast
    qed
  next
    assume "length ?ds \<le> 2"
    then show "set ?ds \<subseteq> set (window (dw_remote w') sub)" using win by (cases "?ds = []") auto
  qed
qed

text \<open>
  C10. The start-up check of an order is exact. On an ACME-DNS server that keeps the two most recent
  values of a subdomain, once every challenge of an order has been answered, in whatever sequence, each
  domain's digest is still served at the subdomain of its account if and only if the check passes for
  the domains of the order; and that does not depend on how the hash map of the check is walked.
\<close>

theorem acme_dns_order_check_exact:
  assumes "acme_dns_ok http self window" and "\<And>xs. set (hash_order xs) = set xs"
    and "mset (map fst order) = mset domains" and "distinct (map snd order)"
    and "create_all (acme_dns_create_txt_record http self) order w = (Inr (), w')"
  shows "check_order_domains hash_order self domains = Inr () \<longleftrightarrow>
    (\<forall>(domain, digest) \<in> set order. \<exists>account. credentials_for self domain = Inr account
       \<and> digest \<in> set (window (dw_remote w') (ac_subdomain account)))"
proof -
  let ?ds = "digests_for self order"
  have known: "subdomain_of self d \<noteq> None" if "(d, v) \<in> set order" for d v
    using create_all_window [OF assms(1,5)] that by fastforce
  have doms: "set domains = fst ` set order" using arg_cong [OF assms(3), of set_mset] by simp
  have all: "\<forall>d \<in> set domains. subdomain_of self d \<noteq> None" unfolding doms using known by fastforce
  have "length (filter (\<lambda>d. subdomain_of self d = Some sub) domains) = length (?ds sub)" for sub
    unfolding length_digests_for using assms(3) by (metis mset_filter size_mset)
  then have "check_order_domains hash_order self domains = Inr () \<longleftrightarrow> (\<forall>sub. length (?ds sub) \<le> 2)"
    using check_order_domains_iff [OF assms(2)] all by simp
  also have "\<dots> \<longleftrightarrow> (\<forall>sub. set (?ds sub) \<subseteq> set (window (dw_remote w') sub))"
    using window_serves_all_iff [OF assms(1,4,5)] by blast
  also have "\<dots> \<longleftrightarrow> (\<forall>(domain, digest) \<in> set order. \<forall>sub. subdomain_of self domain = Some sub \<longrightarrow> digest \<in> set (window (dw_remote w') sub))"
    by (force simp: digests_for_def)
  also have "\<dots> \<longleftrightarrow> (\<forall>(domain, digest) \<in> set order. \<exists>account. credentials_for self domain = Inr account
       \<and> digest \<in> set (window (dw_remote w') (ac_subdomain account)))"
    using known by (fastforce simp: subdomain_of_def split: sum.splits)
  finally show ?thesis .
qed

text \<open>A server that keeps two values per subdomain, with one account for two domains.\<close>

definition window_send :: "dns_request \<Rightarrow> (string \<Rightarrow> string list) \<Rightarrow> (string + unit dns_response) \<times> (string \<Rightarrow> string list)" where
  "window_send req r =
     (case dq_body req of
        AcmeDnsUpdate sub v \<Rightarrow> (Inr \<lparr>dr_status = 200, dr_body = ()\<rparr>, r(sub := take 2 (v # r sub)))
      | _ \<Rightarrow> (Inr \<lparr>dr_status = 400, dr_body = ()\<rparr>, r))"

definition window_http :: "(unit, string \<Rightarrow> string list) dns_http" where
  "window_http =
     \<lparr>dh_send = window_send, dh_text = (\<lambda>_. []), dh_status_text = show_nat, dh_status_error = (\<lambda>status url. []), dh_now = (\<lambda>_. 0),
      dh_utc_now = (\<lambda>_. 0), dh_sleep = (\<lambda>_ r. r)\<rparr>"

definition one_account :: acme_dns_provider where
  "one_account = \<lparr>ap_server_url = ''u'', ap_default_account = Some \<lparr>ac_username = ''n'', ac_password = ''k'', ac_subdomain = ''s''\<rparr>, ap_accounts = []\<rparr>"

lemma window_http_ok: "acme_dns_ok window_http self id"
  by (auto simp: acme_dns_ok_def window_http_def window_send_def acme_dns_update_def)

theorem acme_dns_order_check_exact_witness:
  "check_order_domains rev one_account [''a'', ''b''] = Inr ()
   \<and> (\<exists>w'. create_all (acme_dns_create_txt_record window_http one_account) [(''b'', ''2''), (''a'', ''1'')]
          \<lparr>dw_remote = (\<lambda>_. [''x'', ''y'']), dw_zones = None, dw_token = None\<rparr> = (Inr (), w')
        \<and> ''1'' \<in> set (dw_remote w' ''s'') \<and> ''2'' \<in> set (dw_remote w' ''s''))"
proof -
  let ?w = "\<lparr>dw_remote = (\<lambda>_. [''x'', ''y'']), dw_zones = None, dw_token = None\<rparr> :: (string \<Rightarrow> string list) dns_world"
  have cred: "credentials_for one_account d = Inr \<lparr>ac_username = ''n'', ac_password = ''k'', ac_subdomain = ''s''\<rparr>" for d
    by (simp add: credentials_for_def one_account_def)
  obtain w' where run: "create_all (acme_dns_create_txt_record window_http one_account) [(''b'', ''2''), (''a'', ''1'')] ?w = (Inr (), w')"
    by (simp add: acme_dns_create_txt_record_def wtry_def cred send_def wmap_err_def dns_remote_def window_http_def window_send_def
        acme_dns_update_def is_success_def Let_def)
  have check: "check_order_domains rev one_account [''a'', ''b''] = Inr ()"
    by (simp add: check_order_domains_def cred)
  from acme_dns_order_check_exact [OF window_http_ok, of rev "[(''b'', ''2''), (''a'', ''1'')]" "[''a'', ''b'']" one_account ?w w'] run check
  show ?thesis by (auto simp: cred)
qed

section \<open>The account map\<close>

text \<open>
  Whether the accounts are accepted depends on their entries alone, not on the order in which the hash
  map yields them: no two entries of the same domain, up to case, a trailing dot and a wildcard label,
  may differ. The lookup then finds the account of the entry.
\<close>

definition accounts_agree :: "(string \<times> acme_dns_credentials) list \<Rightarrow> bool" where
  "accounts_agree accounts \<longleftrightarrow>
     (\<forall>(d, a) \<in> set accounts. \<forall>(e, b) \<in> set accounts. normalize_domain d = normalize_domain e \<longrightarrow> a = b)"

lemma same_account_eq: "same_account a b \<longleftrightarrow> a = b"
  by (cases a; cases b) (auto simp: same_account_def)

definition known_accounts :: "(string \<times> string \<times> acme_dns_credentials) list \<Rightarrow> string \<rightharpoonup> acme_dns_credentials" where
  "known_accounts normalized k = map_option snd (map_of normalized k)"

definition fits :: "(string \<times> acme_dns_credentials) list \<Rightarrow> (string \<rightharpoonup> acme_dns_credentials) \<Rightarrow> bool" where
  "fits accounts m \<longleftrightarrow> (\<forall>(d, a) \<in> set accounts. \<forall>b. m (normalize_domain d) = Some b \<longrightarrow> a = b)"

lemma known_accounts_Cons [simp]:
  "known_accounts ((k, d, a) # normalized) = (known_accounts normalized)(k \<mapsto> a)" "known_accounts [] = Map.empty"
  by (simp_all add: known_accounts_def fun_eq_iff)

lemma fits_Cons:
  assumes agree: "accounts_agree ((d, a) # accounts)" and fit: "fits ((d, a) # accounts) m"
  shows "accounts_agree accounts \<and> fits accounts m \<and> fits accounts (m(normalize_domain d \<mapsto> a))"
proof (intro conjI)
  show "accounts_agree accounts" using agree unfolding accounts_agree_def by auto
  show fits: "fits accounts m" using fit unfolding fits_def by auto
  have "b = a" if "(e, b) \<in> set accounts" "normalize_domain e = normalize_domain d" for e b
    using agree that unfolding accounts_agree_def by auto
  with fits show "fits accounts (m(normalize_domain d \<mapsto> a))" unfolding fits_def by (auto split: if_splits)
qed

lemma normalize_accounts_accepts:
  "accounts_agree accounts \<Longrightarrow> fits accounts (known_accounts normalized) \<Longrightarrow> \<exists>m. normalize_accounts accounts normalized = Inr m"
proof (induction accounts arbitrary: normalized)
  case (Cons x accounts)
  obtain domain account where x: "x = (domain, account)" by (cases x)
  note f = fits_Cons [OF Cons.prems [unfolded x]]
  show ?case
  proof (cases "map_of normalized (normalize_domain domain)")
    case None
    then show ?thesis using Cons.IH f x by simp
  next
    case (Some p)
    then have "snd p = account" using Cons.prems(2) x by (cases p) (auto simp: fits_def known_accounts_def)
    then show ?thesis using Cons.IH f x Some by (cases p) (simp add: same_account_eq)
  qed
qed simp

lemma normalize_accounts_keeps:
  "normalize_accounts accounts normalized = Inr m \<Longrightarrow>
     known_accounts normalized \<subseteq>\<^sub>m known_accounts m \<and> (\<forall>(d, a) \<in> set accounts. known_accounts m (normalize_domain d) = Some a)
     \<and> dom (known_accounts m) = dom (known_accounts normalized) \<union> (normalize_domain \<circ> fst) ` set accounts"
proof (induction accounts arbitrary: normalized)
  case (Cons x accounts)
  obtain domain account where x: "x = (domain, account)" by (cases x)
  show ?case
  proof (cases "map_of normalized (normalize_domain domain)")
    case None
    then have "known_accounts normalized (normalize_domain domain) = None" by (simp add: known_accounts_def)
    moreover have "normalize_accounts accounts ((normalize_domain domain, domain, account) # normalized) = Inr m"
      using Cons.prems x None by simp
    moreover note Cons.IH [OF this]
    ultimately show ?thesis using x map_le_trans [OF map_le_upd] by (auto simp: map_le_def dom_def)
  next
    case (Some p)
    then have "normalize_accounts accounts normalized = Inr m" "known_accounts normalized (normalize_domain domain) = Some account"
      using Cons.prems x by (auto simp: same_account_eq known_accounts_def split: if_splits prod.splits)
    with Cons.IH [OF this(1)] show ?thesis using x by (auto simp: map_le_def dom_def)
  qed
qed simp

lemma acme_dns_new_spec:
  "(\<exists>self. acme_dns_new server_url default_acc accounts = Inr self) \<longleftrightarrow> accounts_agree accounts"
proof
  assume "\<exists>self. acme_dns_new server_url default_acc accounts = Inr self"
  then obtain m where "normalize_accounts accounts [] = Inr m"
    by (cases "normalize_accounts accounts []") (auto simp: acme_dns_new_def)
  then have "\<forall>p \<in> set accounts. known_accounts m (normalize_domain (fst p)) = Some (snd p)"
    using normalize_accounts_keeps by (simp add: case_prod_beta)
  then show "accounts_agree accounts" unfolding accounts_agree_def case_prod_beta by (metis option.inject)
next
  assume "accounts_agree accounts"
  then obtain m where "normalize_accounts accounts [] = Inr m"
    using normalize_accounts_accepts [of accounts "[]"] by (auto simp: fits_def)
  then show "\<exists>self. acme_dns_new server_url default_acc accounts = Inr self" by (simp add: acme_dns_new_def)
qed

lemma acme_dns_new_lookup:
  assumes "acme_dns_new server_url default_acc accounts = Inr self"
  shows "credentials_for self domain =
    (case find (\<lambda>(d, _). normalize_domain d = normalize_domain domain) accounts of
       Some (_, account) \<Rightarrow> Inr account
     | None \<Rightarrow> (case default_acc of Some account \<Rightarrow> Inr account 
         | None \<Rightarrow> Inl (ChallengeDns ''acmedns'' (''No ACME-DNS account configured for '' @ domain @ '' and no default account is set''))))"
proof -
  obtain m where m: "normalize_accounts accounts [] = Inr m"
    "ap_accounts self = map (\<lambda>(key, _, account). (key, account)) m" "ap_default_account self = default_acc"
    using assms by (cases "normalize_accounts accounts []") (auto simp: acme_dns_new_def)
  have l: "map_of (ap_accounts self) k = known_accounts m k" for k
    unfolding m(2) known_accounts_def by (induction m) auto
  show ?thesis
  proof (cases "find (\<lambda>(d, _). normalize_domain d = normalize_domain domain) accounts")
    case None
    then have "normalize_domain domain \<notin> dom (known_accounts m)"
      using normalize_accounts_keeps [OF m(1)] by (auto simp: find_None_iff)
    then show ?thesis using None l m(3) by (cases default_acc) (auto simp: credentials_for_def domIff)
  next
    case (Some p)
    then have "p \<in> set accounts" "normalize_domain (fst p) = normalize_domain domain"
      by (auto simp: find_Some_iff case_prod_beta)
    then have "known_accounts m (normalize_domain domain) = Some (snd p)"
      using normalize_accounts_keeps [OF m(1)] by fastforce
    then show ?thesis using Some l by (simp add: credentials_for_def case_prod_beta)
  qed
qed

end
