(* ===== verification/Composition.thy ===== *)
theory Composition
  imports Setup Cert_Manager Dns_Providers Migrations
begin

text \<open>
  Model of the rest of the composition root \<open>src/src/setup.rs\<close> and of the loading of the configuration
  in \<open>src/src/config.rs\<close>: the choice and the construction of the secret store and of the DNS provider,
  the certificate manager of a build with ACME, the opening of the database with its migrations and
  checks, the rotations, and the defaults. Which features were compiled in is the record \<open>features\<close>;
  opening a service gives the adapter of the respective theory. A report is the context on top of the
  cause.
\<close>

section \<open>Configuration\<close>

record features =
  ft_memory :: bool
  ft_sqlite :: bool
  ft_postgres :: bool
  ft_mysql :: bool
  ft_vault :: bool
  ft_gcp :: bool
  ft_azure :: bool
  ft_aws :: bool

record gcp_secret_manager_config =
  gs_project_id :: string
  gs_service_account_key :: "string option"
  gs_service_account_key_path :: "string option"
  gs_endpoint :: "string option"
  gs_allow_anonymous_credentials :: bool
  gs_secrets_cache_ttl :: nat

record azure_keyvault_config =
  kv_vault_url :: "string option"
  kv_tenant_id :: "string option"
  kv_client_id :: "string option"
  kv_client_secret :: "string option"
  kv_secrets_cache_ttl :: nat

record cloud_config =
  cl_aws_region :: string
  cl_gcp_secret_manager :: gcp_secret_manager_config
  cl_azure_keyvault :: azure_keyvault_config

datatype config_value = CStr string | CInt int | CBool bool | CFloat nat nat | CNone | CList "config_value list"

definition default_db_backend :: "features \<Rightarrow> string" where
  "default_db_backend ft =
     (if ft_postgres ft then ''postgres'' else if ft_sqlite ft then ''sqlite'' else if ft_mysql ft then ''mysql'' else ''memory'')"

text \<open>\<open>app_env\<close> is the value of the environment variable, empty if it is not set.\<close>

definition default_telemetry_environment :: "string \<Rightarrow> string" where
  "default_telemetry_environment app_env =
     (if to_ascii_lowercase (str_trim app_env) \<in> {''production'', ''prod''} then ENV_PRODUCTION else ENV_DEVELOPMENT)"

definition base_builder :: "features \<Rightarrow> string \<Rightarrow> (string \<times> config_value) list" where
  "base_builder ft app_env =
     [(''server.host'', CStr ''localhost''), (''server.domain'', CStr ''localhost''), (''server.port'', CInt 8000),
      (''server.enable_metrics'', CBool False), (''server.aggregation_uri'', CNone), (''database.url'', CNone),
      (''database.password_file'', CNone), (''database.backend'', CStr (default_db_backend ft)),
      (''database.pool.max_connections'', CInt 5), (''database.pool.min_connections'', CInt 1),
      (''database.pool.acquire_timeout_secs'', CInt 5), (''database.pool.connect_timeout_secs'', CInt 10),
      (''database.pool.idle_timeout_secs'', CInt 600), (''database.pool.max_lifetime_secs'', CInt 1800),
      (''server.cert.email'', CStr ''admin@example.com''), (''server.cert.eku'', CList (map CInt [1, 3, 6, 1, 5, 5, 7, 3, 30])),
      (''server.cert.organization'', CStr ''adorsys GmbH & CO KG''),
      (''server.cert.acme_directory_url'', CStr ''https://acme-v02.api.letsencrypt.org/directory''),
      (''server.cert.signing_key_cache_ttl'', CInt 0), (''server.cert.renewal_cron_schedule'', CStr ''0 0 0 * * *''),
      (''server.cert.store.certificate_path'', CNone), (''server.cert.store.signing_key_path'', CNone),
      (''server.cert.store.certificate'', CNone), (''server.cert.store.signing_key'', CNone), (''aws.region'', CStr ''us-east-1''),
      (''vault.auth_method'', CStr ''approle''), (''vault.addr'', CStr ''http://localhost:8200''), (''vault.role_id'', CStr []),
      (''vault.secret_id'', CNone), (''vault.secret_id_path'', CNone), (''vault.auth_mount'', CStr ''approle''),
      (''vault.k8s_role'', CNone), (''vault.k8s_token_path'', CStr ''/var/run/secrets/kubernetes.io/serviceaccount/token''),
      (''vault.k8s_auth_mount'', CStr ''kubernetes''), (''vault.mount'', CStr ''secret''), (''vault.path_prefix'', CStr []),
      (''vault.namespace'', CNone), (''vault.timeout_secs'', CInt 30), (''gcp_secret_manager.project_id'', CStr []),
      (''gcp_secret_manager.allow_anonymous_credentials'', CBool False), (''gcp_secret_manager.secrets_cache_ttl'', CInt 300),
      (''azure_keyvault.vault_url'', CNone), (''azure_keyvault.secrets_cache_ttl'', CInt 300), (''cache.ttl'', CInt (5 * 60)),
      (''cache.max_capacity'', CInt 100), (''status_list.token_exp_secs'', CInt 900), (''status_list.token_ttl_secs'', CInt 300),
      (''status_list.snapshot_retention_secs'', CInt 7776000), (''management_auth.leeway_secs'', CInt 60),
      (''management_auth.max_token_lifetime_secs'', CInt 3600), (''management_auth.audiences'', CList []),
      (''rate_limit.strict_burst_size'', CInt 10), (''rate_limit.strict_period_secs'', CInt 60),
      (''rate_limit.permissive_burst_size'', CInt 100), (''rate_limit.permissive_period_secs'', CInt 60),
      (''limits.max_body_size_bytes'', CInt 2097152), (''limits.max_status_index'', CInt 100000),
      (''limits.max_statuses_per_request'', CInt 5000), (''limits.max_serialized_list_size'', CInt 1048576),
      (''telemetry.environment'', CStr (default_telemetry_environment app_env)),
      (''telemetry.otlp_endpoint'', CStr ''http://localhost:4317''), (''telemetry.sampler_ratio'', CFloat 1 1),
      (''telemetry.enabled'', CBool True), (''watcher.poll_interval_secs'', CInt 30)]"

fun replace_double_underscore :: "string \<Rightarrow> string" where
  "replace_double_underscore (a # b # s) =
     (if a = CHR ''_'' \<and> b = CHR ''_'' then CHR ''.'' # replace_double_underscore s else a # replace_double_underscore (b # s))"
| "replace_double_underscore s = s"

text \<open>\<open>to_lowercase\<close> is the Unicode mapping.\<close>

definition normalize_override_key :: "(string \<Rightarrow> string) \<Rightarrow> string \<Rightarrow> string" where
  "normalize_override_key to_lowercase key =
     to_lowercase (replace_double_underscore
       (case strip_prefix ''APP_'' key of Some k \<Rightarrow> k
        | None \<Rightarrow> (case strip_prefix ''app_'' key of Some k \<Rightarrow> k | None \<Rightarrow> key)))"

text \<open>\<open>build\<close> is the configuration library: defaults, the environment, overrides, deserialisation.\<close>

definition load_from_overrides ::
  "((string \<times> config_value) list \<Rightarrow> (string \<times> string) list \<Rightarrow> string + app_config \<times> cloud_config) \<Rightarrow> (string \<Rightarrow> string)
   \<Rightarrow> (string \<Rightarrow> string list) \<Rightarrow> features \<Rightarrow> string \<Rightarrow> (string \<times> string) list \<Rightarrow> (app_config \<times> cloud_config) config_result" where
  "load_from_overrides build to_lowercase form_keys ft app_env overrides =
     obind (from_sum (build (base_builder ft app_env) (map (\<lambda>(key, val). (normalize_override_key to_lowercase key, val)) overrides)))
       (\<lambda>(config, clouds). obind (validate_loaded form_keys config) (\<lambda>_. Ok (config, clouds)))"

section \<open>The secret store\<close>

definition secs :: "nat \<Rightarrow> nat" where "secs s = s * 10 ^ 9"

record 'w secret_backends =
  sb_vault :: "vault_builder \<Rightarrow> 'w \<Rightarrow> (storage_error + 'w storage) \<times> 'w"
  sb_gcp :: "gcp_builder \<Rightarrow> 'w \<Rightarrow> (storage_error + 'w storage) \<times> 'w"
  sb_azure :: "unit azure_builder \<Rightarrow> 'w \<Rightarrow> (storage_error + 'w storage) \<times> 'w"
  sb_aws :: "string \<Rightarrow> nat \<Rightarrow> 'w \<Rightarrow> (storage_error + 'w storage) \<times> 'w"
  sb_memory :: "'w storage"

definition vault_builder_from ::
  "(string \<Rightarrow> string) \<Rightarrow> (string \<Rightarrow> string + string) \<Rightarrow> vault_config \<Rightarrow> nat \<Rightarrow> (vault_builder, string) outcome" where
  "vault_builder_from fmt_debug read_to_string vault signing_key_cache_ttl =
     omap (\<lambda>builder. builder\<lparr>vb_mount := vc_mount vault, vb_path_prefix := vc_path_prefix vault, vb_namespace := vc_namespace vault,
         vb_secrets_cache_ttl := secs signing_key_cache_ttl, vb_timeout := secs (vc_timeout_secs vault)\<rparr>)
       (case vc_auth_method vault of
          Approle \<Rightarrow>
            if str_trim (vc_role_id vault) = []
            then Err (''Vault auth_method=approle requires '' @ quoted ''role_id'' @ '' to be configured'')
            else obind (resolve_secret_id fmt_debug read_to_string vault) (\<lambda>secret_id.
              Ok ((vault_builder_approle (vc_addr vault) (vc_role_id vault) secret_id)\<lparr>vb_auth_mount := Some (vc_auth_mount vault)\<rparr>))
        | Kubernetes \<Rightarrow>
            obind (ok_or (vc_k8s_role vault) (''Vault auth_method=kubernetes requires '' @ quoted ''k8s_role'' @ '' to be configured'')) (\<lambda>k8s_role.
              Ok ((vault_builder_kubernetes (vc_addr vault) k8s_role (vc_k8s_token_path vault))\<lparr>vb_auth_mount := Some (vc_k8s_auth_mount vault)\<rparr>)))"

definition build_crypto_storage ::
  "features \<Rightarrow> 'w secret_backends \<Rightarrow> (string \<Rightarrow> string) \<Rightarrow> (string \<Rightarrow> string + string) \<Rightarrow> app_config \<Rightarrow> cloud_config
   \<Rightarrow> 'w \<Rightarrow> (string list + 'w storage) \<times> 'w" where
  "build_crypto_storage ft sb fmt_debug read_to_string config clouds w =
     (let cache_ttl = cc_signing_key_cache_ttl (sc_cert (ac_server config)); report = (\<lambda>e. [storage_error_text e]) in
      if ft_vault ft then
        (case vault_builder_from fmt_debug read_to_string (ac_vault config) cache_ttl of
           Ok builder \<Rightarrow> wmap_err report (sb_vault sb builder) w
         | Err e \<Rightarrow> (Inl [e], w)
         | Panic \<Rightarrow> (Inl [], w))
      else if ft_gcp ft then
        (let gcp = cl_gcp_secret_manager clouds in
         wmap_err report (sb_gcp sb
           \<lparr>gb_project_id = gs_project_id gcp, gb_service_account_key = gs_service_account_key gcp,
            gb_service_account_key_path = gs_service_account_key_path gcp, gb_endpoint = gs_endpoint gcp,
            gb_allow_anonymous_credentials = gs_allow_anonymous_credentials gcp, gb_secrets_cache_ttl = secs cache_ttl\<rparr>) w)
      else if ft_azure ft then
        (let azure = cl_azure_keyvault clouds in
         case kv_vault_url azure of
           None \<Rightarrow> (Inl [''Azure Key Vault configuration error: azure_keyvault.vault_url is required when azure is enabled''], w)
         | Some vault_url \<Rightarrow>
             wmap_err report (sb_azure sb ((azure_builder_new vault_url)
               \<lparr>ab_tenant_id := kv_tenant_id azure, ab_client_id := kv_client_id azure, ab_client_secret := kv_client_secret azure,
                ab_secrets_cache_ttl := secs cache_ttl\<rparr>)) w)
      else if ft_aws ft then wmap_err report (sb_aws sb (cl_aws_region clouds) (secs cache_ttl)) w
      else (Inr (sb_memory sb), w))"

section \<open>The DNS challenge handler\<close>

record ('c, 'w) dns_backends =
  nb_route53 :: "string \<Rightarrow> 'w dns_provider"
  nb_cloudflare :: "cloudflare_provider \<Rightarrow> 'w dns_provider"
  nb_google_credentials :: "string + 'c"
  nb_gcloud :: "'c \<Rightarrow> gcloud_provider \<Rightarrow> 'w dns_provider"
  nb_azure_credential :: "string + 'c"
  nb_azure :: "'c \<Rightarrow> azure_provider \<Rightarrow> 'w dns_provider"
  nb_acme_dns :: "acme_dns_provider \<Rightarrow> 'w dns_provider"
  nb_pebble :: "string \<Rightarrow> 'w dns_provider"

definition acme_dns_credentials_of :: "acme_dns_account \<Rightarrow> acme_dns_credentials" where
  "acme_dns_credentials_of account =
     \<lparr>ac_username = aa_username account, ac_password = aa_password account, ac_subdomain = aa_subdomain account\<rparr>"

definition feature_disabled :: "string \<Rightarrow> string \<Rightarrow> string list" where
  "feature_disabled provider flag = [provider @ '' DNS provider requested, but '' @ quoted flag @ '' feature is disabled at compile time.'']"

definition acme_dns_checked ::
  "((string \<times> string list) list \<Rightarrow> (string \<times> string list) list) \<Rightarrow> acme_dns_config \<Rightarrow> string list \<Rightarrow> challenge_error + acme_dns_provider" where
  "acme_dns_checked hash_order cfg cert_domains =
     (case acme_dns_new (adc_server_url cfg) (map_option acme_dns_credentials_of (default_account cfg))
             (map (\<lambda>(domain, account). (domain, acme_dns_credentials_of account)) (adc_accounts cfg)) of
        Inl e \<Rightarrow> Inl e
      | Inr provider \<Rightarrow> map_sum id (\<lambda>_. provider) (check_order_domains hash_order provider cert_domains))"

definition build_dns_provider ::
  "features \<Rightarrow> ('c, 'w) dns_backends \<Rightarrow> ((string \<times> string list) list \<Rightarrow> (string \<times> string list) list) \<Rightarrow> resolved_dns_provider
   \<Rightarrow> app_config \<Rightarrow> cloud_config \<Rightarrow> string list \<Rightarrow> string list + 'w dns_provider" where
  "build_dns_provider ft nb hash_order provider config clouds cert_domains =
     (let report = (\<lambda>e. [challenge_error_text e]) in
      case provider of
        RRoute53 \<Rightarrow> if ft_aws ft then Inr (nb_route53 nb (cl_aws_region clouds)) else Inl (feature_disabled ''Route53'' ''aws'')
      | RCloudflare cfg \<Rightarrow> Inr (nb_cloudflare nb (cloudflare_new (cd_api_token cfg)))
      | RGcloud cfg \<Rightarrow>
          if ft_gcp ft
          then map_sum report (\<lambda>(credentials, p). nb_gcloud nb credentials p) (gcloud_new (nb_google_credentials nb) (gd_project_id cfg))
          else Inl (feature_disabled ''Google Cloud'' ''gcp'')
      | RAzure cfg \<Rightarrow>
          if ft_azure ft
          then map_sum (\<lambda>e. ''Invalid Azure DNS credential configuration'' # report e) (\<lambda>(credential, p). nb_azure nb credential p)
                 (azure_dns_new (nb_azure_credential nb) (ad_subscription_id cfg) (ad_resource_group cfg))
          else Inl (feature_disabled ''Azure'' ''azure'')
      | RAcmedns cfg \<Rightarrow> map_sum report (nb_acme_dns nb) (acme_dns_checked hash_order cfg cert_domains)
      | RPebble \<Rightarrow> Inr (nb_pebble nb (pebble_new
          (case cc_dns_challenge_server_url (sc_cert (ac_server config)) of Some u \<Rightarrow> u | None \<Rightarrow> ''http://challtestsrv:8055''))))"

definition build_dns_challenge_handler ::
  "features \<Rightarrow> ('c, 'w) dns_backends \<Rightarrow> ((string \<times> string list) list \<Rightarrow> (string \<times> string list) list)
   \<Rightarrow> (string \<Rightarrow> 'w \<Rightarrow> (string + unit) \<times> 'w) \<Rightarrow> resolved_dns_provider \<Rightarrow> app_config \<Rightarrow> cloud_config \<Rightarrow> string list
   \<Rightarrow> string list + 'w challenge_handler" where
  "build_dns_challenge_handler ft nb hash_order set_ready provider config clouds cert_domains =
     map_sum id (dns01_handle_authorization set_ready) (build_dns_provider ft nb hash_order provider config clouds cert_domains)"

section \<open>The certificate manager\<close>

definition acme_manager_builder :: "app_config \<Rightarrow> 'w storage \<Rightarrow> 'w challenge_handler \<Rightarrow> 'w manager_builder" where
  "acme_manager_builder config material_storage challenge_handler =
     (let cert = sc_cert (ac_server config) in
      builder_default
        \<lparr>bl_domains := [sc_domain (ac_server config)], bl_email := Some (cc_email cert), bl_organization := cc_organization cert,
         bl_acme_directory_url := Some (cc_acme_directory_url cert),
         bl_cache_policy := \<lparr>cp_signing_key_ttl = secs (cc_signing_key_cache_ttl cert)\<rparr>,
         bl_crypto_storage := Some material_storage, bl_eku := Some (cc_eku cert),
         bl_challenge_handler := Some challenge_handler, bl_provisioning_strategy := Some AcmeProvisioning\<rparr>)"

text \<open>\<open>new_client\<close> makes the HTTP client, with the root certificate of the test server or without.\<close>

definition build_cert_manager ::
  "features \<Rightarrow> 'w secret_backends \<Rightarrow> ('c, 'w) dns_backends \<Rightarrow> ((string \<times> string list) list \<Rightarrow> (string \<times> string list) list)
   \<Rightarrow> (string \<Rightarrow> 'w \<Rightarrow> (string + unit) \<times> 'w) \<Rightarrow> (bool \<Rightarrow> (http_client, cert_error) outcome) \<Rightarrow> (nat \<Rightarrow> nat option \<Rightarrow> 'w kept)
   \<Rightarrow> (string \<Rightarrow> string) \<Rightarrow> (string \<Rightarrow> string + string) \<Rightarrow> string \<Rightarrow> app_config \<Rightarrow> cloud_config
   \<Rightarrow> 'w \<Rightarrow> ('w cert_manager, string list) outcome \<times> 'w" where
  "build_cert_manager ft sb nb hash_order set_ready new_client moka fmt_debug read_to_string app_env config clouds w =
     (case build_crypto_storage ft sb fmt_debug read_to_string config clouds w of
        (Inl e, w) \<Rightarrow> (Err e, w)
      | (Inr material_storage, w) \<Rightarrow>
          (obind (map_err (\<lambda>e. [''Invalid DNS provider configuration'', e]) (resolve fmt_debug (cc_dns (sc_cert (ac_server config))) app_env)) (\<lambda>dns_provider.
           obind (from_sum (build_dns_challenge_handler ft nb hash_order set_ready dns_provider config clouds [sc_domain (ac_server config)])) (\<lambda>handler.
           let builder = acme_manager_builder config material_storage handler in
           obind (if app_env = ENV_DEVELOPMENT
                  then omap (\<lambda>client. builder\<lparr>bl_acme_http_client := Some client\<rparr>) (map_err (\<lambda>e. [cert_error_text e]) (new_client True))
                  else Ok builder) (\<lambda>builder.
             map_err (\<lambda>e. [cert_error_text e]) (builder_build moka (new_client False) builder)))), w))"

section \<open>The database\<close>

datatype 'conn opened_store = MemoryBackend | SqlBackend 'conn

text \<open>
  \<open>migrator_up\<close> is the migration library, which runs the migrations that a database has not seen yet;
  \<open>schema\<close> gives the schema operations of a connection.
\<close>

definition open_database ::
  "features \<Rightarrow> (string \<Rightarrow> string list) \<Rightarrow> (string \<Rightarrow> string + string) \<Rightarrow> (connect_options \<Rightarrow> connect_error + 'conn)
   \<Rightarrow> ('conn \<Rightarrow> 's schema_db) \<Rightarrow> ('s migration list \<Rightarrow> 's \<Rightarrow> (string + unit) \<times> 's) \<Rightarrow> database_config
   \<Rightarrow> 's \<Rightarrow> (string list + 'conn opened_store) \<times> 's" where
  "open_database ft form_keys read_to_string connect schema migrator_up cfg s =
     (if db_kind cfg = Memory
      then if ft_memory ft then (Inr MemoryBackend, s)
           else (Inl [''Database backend '' @ quoted ''memory'' @ '' configured, but '' @ quoted ''memory'' @ '' feature flag was not compiled in.''], s)
      else if \<not> (ft_sqlite ft \<or> ft_postgres ft \<or> ft_mysql ft)
      then (Inl [''Database backend '' @ quoted (as_str (db_kind cfg)) @ '' configured, but feature flag for it was not compiled in.''], s)
      else case connect_database_pool form_keys read_to_string connect cfg of
        Err e \<Rightarrow> (Inl e, s)
      | Panic \<Rightarrow> (Inl [], s)
      | Ok conn \<Rightarrow>
          wtry (wmap_err (\<lambda>e. [''Failed to run database migrations'', e]) (migrator_up (migrations (schema conn)))) (\<lambda>_.
          wtry (wmap_err (\<lambda>e. [''Startup aborted: one or more tables are not using the InnoDB storage engine. ''
              @ ''See the logged error(s) above for the table name(s) and the ALTER TABLE runbook command to fix the issue.'', e])
              (verify_innodb_engines (schema conn))) (\<lambda>_.
          wtry (wmap_err (\<lambda>e. [''Startup aborted: MySQL binary logging is incompatible with the READ COMMITTED isolation level ''
              @ ''this server pins on every write. See the logged error above for the fix.'', e])
              (verify_binlog_format (schema conn))) (\<lambda>_ s. (Inr (SqlBackend conn), s)))) s)"

section \<open>Rotations\<close>

text \<open>The files watched for a new password and for new signing material; \<open>to_path\<close> reads a path.\<close>

definition database_watcher :: "(string \<Rightarrow> path) \<Rightarrow> path \<Rightarrow> app_config \<Rightarrow> file_watcher option" where
  "database_watcher to_path cwd config =
     map_option (\<lambda>password_file. file_watcher_new cwd [to_path password_file] (wc_poll_interval_secs (ac_watcher config) * 1000))
       (db_password_file (ac_database config))"

definition cert_watcher :: "(string \<Rightarrow> path) \<Rightarrow> path \<Rightarrow> app_config \<Rightarrow> file_watcher option" where
  "cert_watcher to_path cwd config =
     (case (cs_certificate_path (cc_store (sc_cert (ac_server config))), cs_signing_key_path (cc_store (sc_cert (ac_server config)))) of
        (Some certificate_path, Some signing_key_path) \<Rightarrow>
          Some (file_watcher_new cwd [to_path certificate_path, to_path signing_key_path] (wc_poll_interval_secs (ac_watcher config) * 1000))
      | _ \<Rightarrow> None)"

text \<open>The callback of the second: the material in use afterwards, and whether it was replaced.\<close>

definition rotate_signing_material ::
  "('sk, 'ek) crypto \<Rightarrow> 'sk x509_lib \<Rightarrow> (string \<Rightarrow> string + string) \<Rightarrow> app_config \<Rightarrow> signing_material \<Rightarrow> signing_material \<times> bool" where
  "rotate_signing_material cr xl read_to_string config material =
     (case (cs_certificate_path (cc_store (sc_cert (ac_server config))), cs_signing_key_path (cc_store (sc_cert (ac_server config)))) of
        (Some certificate_path, Some signing_key_path) \<Rightarrow>
          (case reload_from_files cr xl read_to_string certificate_path signing_key_path material of
             (r, material') \<Rightarrow> (material', is_ok r))
      | _ \<Rightarrow> (material, False))"

text \<open>A replaced pool is closed when the last user has let go of it, which is looked at every second.\<close>

partial_function (option) drain_and_close_database ::
  "('s \<Rightarrow> bool) \<Rightarrow> ('s \<Rightarrow> (string + unit) \<times> 's) \<Rightarrow> ('s \<Rightarrow> 's) \<Rightarrow> 's \<Rightarrow> 's option" where
  "drain_and_close_database shared close sleep_a_second s =
     (if shared s then drain_and_close_database shared close sleep_a_second (sleep_a_second s) else Some (snd (close s)))"

section \<open>Keys of the configuration\<close>

text \<open>Every default is set once, so that the order of the settings does not matter.\<close>

lemma base_builder_keys_distinct: "distinct (map fst (base_builder ft app_env))"
  by (simp add: base_builder_def)

lemma replace_double_underscore_first:
  "replace_double_underscore s = CHR ''_'' # t \<Longrightarrow> \<exists>u. s = CHR ''_'' # u \<and> (u = [] \<or> hd u \<noteq> CHR ''_'')"
  by (induction s rule: replace_double_underscore.induct) (auto split: if_splits)

text \<open>Nothing is left to replace, and an environment name is the path of its setting.\<close>

lemma replace_double_underscore_complete: "\<not> sublist ''__'' (replace_double_underscore s)"
proof (induction s rule: replace_double_underscore.induct)
  case (1 a b s)
  show ?case
  proof (cases "a = CHR ''_'' \<and> b = CHR ''_''")
    case True
    then show ?thesis using 1(1) by (auto simp: sublist_Cons_right)
  next
    case False
    have "\<not> prefix ''__'' (a # replace_double_underscore (b # s))"
      using False replace_double_underscore_first[of "b # s"] by (auto simp: prefix_def)
    then show ?thesis using 1(2)[OF False] False by (auto simp: sublist_Cons_right)
  qed
qed (auto simp: sublist_Cons_right)

lemma replace_double_underscore_id: "\<not> sublist ''__'' s \<Longrightarrow> replace_double_underscore s = s"
  by (induction s rule: replace_double_underscore.induct) (auto simp: sublist_Cons_right)

lemma normalize_override_key_path:
  assumes "\<not> sublist ''__'' section" "\<not> sublist ''__'' key" "last section \<noteq> CHR ''_''" "section \<noteq> []" "hd key \<noteq> CHR ''_''" "key \<noteq> []"
  shows "normalize_override_key to_lowercase (''APP_'' @ section @ ''__'' @ key) = to_lowercase (section @ ''.'' @ key)"
proof -
  have step: "replace_double_underscore (section @ ''__'' @ key) = section @ CHR ''.'' # replace_double_underscore key"
    using assms(1,3,4) by (induction "section" rule: replace_double_underscore.induct) (auto simp: sublist_Cons_right)
  show ?thesis
    using step replace_double_underscore_id[OF assms(2)] by (simp add: normalize_override_key_def strip_prefix_def)
qed

section \<open>What a successful start-up has checked\<close>

lemma vault_builder_from_no_panic [simp]: "vault_builder_from fmt_debug read_to_string v ttl \<noteq> Panic"
  by (auto simp: vault_builder_from_def resolve_secret_id_def Let_def outcome_simps split: vault_auth_method.splits option.splits sum.splits)

text \<open>The lifetime of cached secrets is that of \<open>server.cert\<close>; those of the two services are not read.\<close>

lemma secrets_cache_ttl_unused:
  "build_crypto_storage ft sb fmt_debug read_to_string config
     (clouds\<lparr>cl_gcp_secret_manager := (cl_gcp_secret_manager clouds)\<lparr>gs_secrets_cache_ttl := a\<rparr>,
             cl_azure_keyvault := (cl_azure_keyvault clouds)\<lparr>kv_secrets_cache_ttl := b\<rparr>\<rparr>)
   = build_crypto_storage ft sb fmt_debug read_to_string config clouds"
  by (rule ext) (simp add: build_crypto_storage_def Let_def split: option.split)

text \<open>A store is only used on a migrated schema that passed both checks, in this order.\<close>

lemma open_database_checked:
  assumes "open_database ft form_keys read_to_string connect schema migrator_up cfg s = (Inr (SqlBackend conn), s')"
  shows "\<exists>s1 s2. migrator_up (migrations (schema conn)) s = (Inr (), s1)
    \<and> verify_innodb_engines (schema conn) s1 = (Inr (), s2) \<and> verify_binlog_format (schema conn) s2 = (Inr (), s')
    \<and> connect_database_pool form_keys read_to_string connect cfg = Ok conn"
  using assms
  by (auto simp: open_database_def wtry_def wmap_err_def split: if_splits outcome.splits prod.splits sum.splits)

text \<open>A replaced pool is closed as soon as a look finds it unshared, and the task never ends before.\<close>

lemma drain_and_close_database_returns:
  assumes "\<forall>i<n. shared ((sleep ^^ i) s)" "\<not> shared ((sleep ^^ n) s)"
  shows "drain_and_close_database shared close sleep s = Some (snd (close ((sleep ^^ n) s)))"
  using assms
proof (induction n arbitrary: s)
  case 0
  then show ?case by (subst drain_and_close_database.simps) simp
next
  case (Suc n)
  have "shared s" using Suc.prems(1) by (metis funpow_0 zero_less_Suc)
  moreover have "\<forall>i<n. shared ((sleep ^^ i) (sleep s))" using Suc.prems(1) by (metis Suc_mono funpow_Suc_right comp_apply)
  ultimately show ?case using Suc.IH[of "sleep s"] Suc.prems(2)
    by (subst drain_and_close_database.simps) (simp add: funpow_swap1)
qed

lemma drain_and_close_database_only_unshared:
  assumes "drain_and_close_database shared close sleep s = Some s'"
  shows "\<exists>n. \<not> shared ((sleep ^^ n) s) \<and> s' = snd (close ((sleep ^^ n) s))"
proof (rule drain_and_close_database.raw_induct [OF _ assms, where P = "\<lambda>shared close sleep s s'.
    \<exists>n. \<not> shared ((sleep ^^ n) s) \<and> s' = snd (close ((sleep ^^ n) s))"])
  fix drain and shared :: "'b \<Rightarrow> bool" and close :: "'b \<Rightarrow> (string + unit) \<times> 'b" and sleep s s'
  assume IH: "\<And>shared close sleep s s'. drain shared close sleep s = Some s' \<Longrightarrow>
      \<exists>n. \<not> shared ((sleep ^^ n) s) \<and> s' = snd (close ((sleep ^^ n) s))"
    and body: "(if shared s then drain shared close sleep (sleep s) else Some (snd (close s))) = Some s'"
  show "\<exists>n. \<not> shared ((sleep ^^ n) s) \<and> s' = snd (close ((sleep ^^ n) s))"
  proof (cases "shared s")
    case True
    then have "drain shared close sleep (sleep s) = Some s'" using body by simp
    from IH [OF this] obtain n where "\<not> shared ((sleep ^^ n) (sleep s))" "s' = snd (close ((sleep ^^ n) (sleep s)))" by blast
    then show ?thesis by (intro exI[of _ "Suc n"]) (simp add: funpow_swap1)
  next
    case False
    then show ?thesis using body by (intro exI[of _ 0]) simp
  qed
qed

text \<open>What a build with ACME starts with: a manager for the configured domain over the chosen store.\<close>

lemma builder_build_acme:
  assumes "builder_build moka default_client b = Ok m" "bl_provisioning_strategy b = Some AcmeProvisioning"
  shows "mg_domains m = bl_domains b" "mg_challenge_handler m = bl_challenge_handler b" "mg_acme_http_client m \<noteq> None"
    "mg_crypto_storage m = map_option (\<lambda>backend. with_cache_policy moka backend (bl_cache_policy b)) (bl_crypto_storage b)"
  using assms by (auto simp: builder_build_def Let_def outcome_simps split: if_splits option.splits)

lemma build_cert_manager_complete:
  assumes "build_cert_manager ft sb nb hash_order set_ready new_client moka fmt_debug read_to_string app_env config clouds w = (Ok m, w')"
  obtains material_storage dns_provider handler where
    "build_crypto_storage ft sb fmt_debug read_to_string config clouds w = (Inr material_storage, w')"
    "resolve fmt_debug (cc_dns (sc_cert (ac_server config))) app_env = Ok dns_provider"
    "build_dns_challenge_handler ft nb hash_order set_ready dns_provider config clouds [sc_domain (ac_server config)] = Inr handler"
    "mg_domains m = [sc_domain (ac_server config)]" "mg_challenge_handler m = Some handler" "mg_acme_http_client m \<noteq> None"
    "mg_crypto_storage m = Some (with_cache_policy moka material_storage \<lparr>cp_signing_key_ttl = secs (cc_signing_key_cache_ttl (sc_cert (ac_server config)))\<rparr>)"
proof -
  obtain material_storage where st: "build_crypto_storage ft sb fmt_debug read_to_string config clouds w = (Inr material_storage, w')"
    using assms by (auto simp: build_cert_manager_def split: prod.splits sum.splits)
  let ?b = "\<lambda>handler. acme_manager_builder config material_storage handler"
  obtain dns_provider handler b default_client where built:
    "resolve fmt_debug (cc_dns (sc_cert (ac_server config))) app_env = Ok dns_provider"
    "build_dns_challenge_handler ft nb hash_order set_ready dns_provider config clouds [sc_domain (ac_server config)] = Inr handler"
    "builder_build moka default_client b = Ok m"
    "b = ?b handler \<or> (\<exists>client. b = (?b handler)\<lparr>bl_acme_http_client := Some client\<rparr>)"
  proof (cases "app_env = ENV_DEVELOPMENT")
    case True
    then show ?thesis using assms st that by (fastforce simp: build_cert_manager_def Let_def outcome_simps)
  next
    case False
    then show ?thesis using assms st that by (fastforce simp: build_cert_manager_def Let_def outcome_simps)
  qed
  have "bl_provisioning_strategy b = Some AcmeProvisioning" "bl_domains b = [sc_domain (ac_server config)]"
    "bl_challenge_handler b = Some handler" "bl_crypto_storage b = Some material_storage"
    "bl_cache_policy b = \<lparr>cp_signing_key_ttl = secs (cc_signing_key_cache_ttl (sc_cert (ac_server config)))\<rparr>"
    using built(4) by (auto simp: acme_manager_builder_def Let_def)
  then show thesis using that [OF st built(1,2)] builder_build_acme[OF built(3)] by simp
qed

end
