(* ===== verification/Telemetry.thy ===== *)
theory Telemetry
  imports Config Router
begin

text \<open>
  Model of what the server decides itself in its telemetry: \<open>src/src/utils/metrics.rs\<close>,
  \<open>metrics_http.rs\<close>, \<open>metrics_db.rs\<close> and \<open>telemetry.rs\<close>, the middleware and the construction of the server in
  \<open>src/src/startup.rs\<close>. Meters, exporters and subscribers are those of the OpenTelemetry, Prometheus and
  tracing libraries: an installed meter provider is a number, and what it is told is kept per
  provider. Floating point seconds are values of a type \<open>'f\<close>.
\<close>

section \<open>Configuration\<close>

datatype telemetry_environment = Development | Production

fun is_production :: "telemetry_environment \<Rightarrow> bool" where
  "is_production Production = True"
| "is_production Development = False"

text \<open>The error is the unknown variant.\<close>

definition telemetry_environment_deserialize :: "string \<Rightarrow> string + telemetry_environment" where
  "telemetry_environment_deserialize raw =
     (let other = to_ascii_lowercase (str_trim raw) in
      if other \<in> {''development'', ''dev''} then Inr Development
      else if other \<in> {''production'', ''prod''} then Inr Production
      else Inl other)"

record 'f telemetry_config =
  tc_environment :: telemetry_environment
  tc_otlp_endpoint :: string
  tc_sampler_ratio :: 'f
  tc_enabled :: bool

section \<open>Instruments\<close>

datatype 'f observation =
    RotationTotal string string
  | RotationLastSuccess string 'f
  | HttpDuration string string string 'f
  | HttpRequests string string string
  | DbQueryDuration string string 'f

text \<open>
  The process-wide state: the global provider, its generation, and for every kind of instruments the
  handles in use, with the generation they were made in. A handle writes to the provider that was
  global when it was made.
\<close>

record 'f telemetry_state =
  ts_provider :: nat
  ts_generation :: nat
  ts_rotation_slot :: "(nat \<times> nat) option"
  ts_http_slot :: "(nat \<times> nat) option"
  ts_db_slot :: "(nat \<times> nat) option"
  ts_observed :: "nat \<Rightarrow> 'f observation list"

definition cached_instruments :: "nat \<Rightarrow> (unit \<Rightarrow> 'i) \<Rightarrow> (nat \<times> 'i) option \<Rightarrow> 'i \<times> (nat \<times> 'i) option" where
  "cached_instruments generation build slot =
     (case slot of
        Some (g, value) \<Rightarrow> if g = generation then (value, slot) else (build (), Some (generation, build ()))
      | None \<Rightarrow> (build (), Some (generation, build ())))"

definition observe :: "nat \<Rightarrow> 'f observation list \<Rightarrow> 'f telemetry_state \<Rightarrow> 'f telemetry_state" where
  "observe provider obs st = st\<lparr>ts_observed := (ts_observed st)(provider := ts_observed st provider @ obs)\<rparr>"

text \<open>\<open>now\<close> is the time since the epoch, which is zero on a clock before it.\<close>

definition record_rotation :: "'f \<Rightarrow> string \<Rightarrow> bool \<Rightarrow> 'f telemetry_state \<Rightarrow> 'f telemetry_state" where
  "record_rotation now target success st =
     (let (instruments, slot) = cached_instruments (ts_generation st) (\<lambda>_. ts_provider st) (ts_rotation_slot st);
          outcome = (if success then ''success'' else ''failure'')
      in observe instruments (RotationTotal target outcome # (if success then [RotationLastSuccess target now] else []))
           (st\<lparr>ts_rotation_slot := slot\<rparr>))"

definition record_request :: "string \<Rightarrow> string \<Rightarrow> string \<Rightarrow> 'f \<Rightarrow> 'f telemetry_state \<Rightarrow> 'f telemetry_state" where
  "record_request meth route status_class seconds st =
     (let (instruments, slot) = cached_instruments (ts_generation st) (\<lambda>_. ts_provider st) (ts_http_slot st)
      in observe instruments [HttpDuration meth route status_class seconds, HttpRequests meth route status_class]
           (st\<lparr>ts_http_slot := slot\<rparr>))"

definition record_db_query :: "string \<Rightarrow> string \<Rightarrow> 'f \<Rightarrow> 'f telemetry_state \<Rightarrow> 'f telemetry_state" where
  "record_db_query operation resource seconds st =
     (let (instruments, slot) = cached_instruments (ts_generation st) (\<lambda>_. ts_provider st) (ts_db_slot st)
      in observe instruments [DbQueryDuration operation resource seconds] (st\<lparr>ts_db_slot := slot\<rparr>))"

text \<open>
  The exporters are built by the libraries, or not; \<open>try_init\<close> installs the subscriber. Where metrics
  go besides the Prometheus registry is whether the second exporter was asked for.
\<close>

record exporters =
  ex_prometheus :: "string + unit"
  ex_otlp_metrics :: "string \<Rightarrow> string + unit"
  ex_otlp_spans :: "string \<Rightarrow> string + unit"
  ex_otlp_logs :: "string \<Rightarrow> string + unit"

definition setup_metrics ::
  "exporters \<Rightarrow> 'f telemetry_config \<Rightarrow> 'f telemetry_state \<Rightarrow> (bool, string list) outcome \<times> 'f telemetry_state" where
  "setup_metrics ex config st =
     (let pushes = tc_enabled config \<and> is_production (tc_environment config) in
      case obind (map_err (\<lambda>e. [''Failed to build Prometheus exporter'', e]) (from_sum (ex_prometheus ex))) (\<lambda>_.
           if pushes then map_err (\<lambda>e. [''Failed to build OTLP metric exporter'', e]) (from_sum (ex_otlp_metrics ex (tc_otlp_endpoint config)))
           else Ok ()) of
        Ok _ \<Rightarrow> (Ok pushes, st\<lparr>ts_provider := Suc (ts_provider st), ts_generation := Suc (ts_generation st)\<rparr>)
      | Err e \<Rightarrow> (Err e, st)
      | Panic \<Rightarrow> (Panic, st))"

datatype log_layer = EnvFilterLayer | JsonFormat | TextFormat | OtelTraceLayer | OtelLogLayer

record telemetry_guard =
  tg_tracer :: bool
  tg_logger :: bool
  tg_metrics_pushed :: bool

definition init_telemetry ::
  "exporters \<Rightarrow> (log_layer list \<Rightarrow> string + unit) \<Rightarrow> 'f telemetry_config \<Rightarrow> 'f telemetry_state
   \<Rightarrow> (telemetry_guard, string list) outcome \<times> 'f telemetry_state" where
  "init_telemetry ex try_init config st =
     (case setup_metrics ex config st of
        (Ok pushes, st) \<Rightarrow>
          (let fmt_layer = (if is_production (tc_environment config) then JsonFormat else TextFormat);
               endpoint = tc_otlp_endpoint config;
               init = (\<lambda>layers. map_err (\<lambda>e. [e]) (from_sum (try_init layers))) in
           (if tc_enabled config then
              obind (map_err (\<lambda>e. [''failed to build OTLP span exporter'', e]) (from_sum (ex_otlp_spans ex endpoint))) (\<lambda>_.
              obind (map_err (\<lambda>e. [''failed to build OTLP log exporter'', e]) (from_sum (ex_otlp_logs ex endpoint))) (\<lambda>_.
              obind (init [EnvFilterLayer, fmt_layer, OtelTraceLayer, OtelLogLayer]) (\<lambda>_.
                Ok \<lparr>tg_tracer = True, tg_logger = True, tg_metrics_pushed = pushes\<rparr>)))
            else obind (init [EnvFilterLayer, fmt_layer]) (\<lambda>_.
                Ok \<lparr>tg_tracer = False, tg_logger = False, tg_metrics_pushed = pushes\<rparr>), st))
      | (Err e, st) \<Rightarrow> (Err e, st)
      | (Panic, st) \<Rightarrow> (Panic, st))"

section \<open>Metrics of the process\<close>

record 'f process_metrics =
  pm_cpu_seconds_total :: "'f option"
  pm_open_fds :: "nat option"
  pm_max_fds :: "nat option"
  pm_virtual_memory_bytes :: "nat option"
  pm_virtual_memory_max_bytes :: "nat option"
  pm_resident_memory_bytes :: "nat option"
  pm_start_time_seconds :: "nat option"
  pm_threads :: "nat option"

text \<open>Times in milliseconds; \<open>collect_now\<close> asks the operating system.\<close>

definition get_process_snapshot :: "nat \<Rightarrow> 'm \<Rightarrow> (nat \<times> 'm) option \<Rightarrow> 'm \<times> (nat \<times> 'm) option" where
  "get_process_snapshot now collect_now cache =
     (case cache of
        Some (last_updated, snapshot) \<Rightarrow>
          if now - last_updated < 500 then (snapshot, cache) else (collect_now, Some (now, collect_now))
      | None \<Rightarrow> (collect_now, Some (now, collect_now)))"

datatype 'f process_value = FloatValue 'f | IntValue nat

definition process_observers :: "(string \<times> ('f process_metrics \<Rightarrow> 'f process_value option)) list" where
  "process_observers =
     [(''process_cpu'', \<lambda>m. map_option FloatValue (pm_cpu_seconds_total m)),
      (''process_open_fds'', \<lambda>m. map_option IntValue (pm_open_fds m)),
      (''process_max_fds'', \<lambda>m. map_option IntValue (pm_max_fds m)),
      (''process_virtual_memory'', \<lambda>m. map_option IntValue (pm_virtual_memory_bytes m)),
      (''process_virtual_memory_max'', \<lambda>m. map_option IntValue (pm_virtual_memory_max_bytes m)),
      (''process_resident_memory'', \<lambda>m. map_option IntValue (pm_resident_memory_bytes m)),
      (''process_start_time'', \<lambda>m. map_option IntValue (pm_start_time_seconds m)),
      (''process_threads'', \<lambda>m. map_option IntValue (pm_threads m))]"

text \<open>The page of the metrics: empty if they cannot be encoded, or not as UTF-8.\<close>

definition metrics_handler :: "('r \<Rightarrow> string + u8 list) \<Rightarrow> (u8 list \<Rightarrow> string option) \<Rightarrow> 'r \<Rightarrow> string" where
  "metrics_handler encode from_utf8 registry =
     (case encode registry of Inl e \<Rightarrow> [] | Inr buffer \<Rightarrow> (case from_utf8 buffer of Some s \<Rightarrow> s | None \<Rightarrow> []))"

section \<open>Timing\<close>

text \<open>What is timed, and what is recorded of it in addition.\<close>

definition time_query :: "string \<Rightarrow> string \<Rightarrow> ('s, 'a) proc \<Rightarrow> ('s, 'a \<times> string \<times> string) proc" where
  "time_query operation resource fut = pbind fut (\<lambda>result. Ret (result, operation, resource))"

definition status_class :: "nat \<Rightarrow> string" where
  "status_class status =
     (let k = status div 100 in
      if k = 1 then ''1xx'' else if k = 2 then ''2xx'' else if k = 3 then ''3xx'' else if k = 4 then ''4xx''
      else if k = 5 then ''5xx'' else ''unknown'')"

text \<open>\<open>matched\<close> is the pattern of the route, if one matched.\<close>

definition track_http_metrics ::
  "string \<Rightarrow> string option \<Rightarrow> ('s, response) proc \<Rightarrow> ('s, response \<times> (string \<times> string \<times> string) option) proc" where
  "track_http_metrics meth matched next_run =
     (let route = (case matched of Some p \<Rightarrow> p | None \<Rightarrow> ''unmatched'') in
      if route \<in> {''/health'', ''/health/live'', ''/health/ready'', ''/metrics''} then pbind next_run (\<lambda>response. Ret (response, None))
      else pbind next_run (\<lambda>response. Ret (response, Some (meth, route, status_class (rs_status response)))))"

section \<open>The server\<close>

text \<open>\<open>bind\<close> opens the listening socket; whether the metrics have a route is the second component.\<close>

definition http_server_new ::
  "(nat \<Rightarrow> nat \<Rightarrow> 'g option) \<Rightarrow> (string \<Rightarrow> string + string) \<Rightarrow> (string \<Rightarrow> string + 'l) \<Rightarrow> app_config \<Rightarrow> rate_limit_config
   \<Rightarrow> (('g \<times> 'g \<times> 'g) \<times> bool \<times> 'l, string list) outcome" where
  "http_server_new finish url_path bind config rate_limit =
     (let server = ac_server config in
      obind (map_err (\<lambda>e. [e]) (build_governor_configs finish rate_limit)) (\<lambda>governors.
      obind (map_err (\<lambda>e. [e]) (validate_aggregation_uri url_path (sc_aggregation_uri server))) (\<lambda>_.
      obind (map_err (\<lambda>e. [''Failed to bind to port '' @ show_nat (sc_port server), e])
               (from_sum (bind (sc_host server @ '':'' @ show_nat (sc_port server))))) (\<lambda>listener.
        Ok (governors, sc_enable_metrics server, listener)))))"

section \<open>Properties\<close>

text \<open>
  Handles are never stale: every slot filled in the current generation holds handles of the global
  provider, so that what is recorded reaches the provider in use.
\<close>

definition fresh_slot :: "'f telemetry_state \<Rightarrow> (nat \<times> nat) option \<Rightarrow> bool" where
  "fresh_slot st slot \<longleftrightarrow> (case slot of Some (g, p) \<Rightarrow> g \<le> ts_generation st \<and> (g = ts_generation st \<longrightarrow> p = ts_provider st) | None \<Rightarrow> True)"

definition handles_ok :: "'f telemetry_state \<Rightarrow> bool" where
  "handles_ok st \<longleftrightarrow> fresh_slot st (ts_rotation_slot st) \<and> fresh_slot st (ts_http_slot st) \<and> fresh_slot st (ts_db_slot st)"

lemma cached_instruments_fresh:
  "fresh_slot st slot \<Longrightarrow>
   cached_instruments (ts_generation st) (\<lambda>_. ts_provider st) slot = (ts_provider st, Some (ts_generation st, ts_provider st))"
  by (auto simp: cached_instruments_def fresh_slot_def split: option.splits)

lemmas recorders = record_rotation_def record_request_def record_db_query_def observe_def

lemma fresh_slot_simps [simp]:
  "fresh_slot st (Some (ts_generation st, ts_provider st))"
  "fresh_slot (st\<lparr>ts_rotation_slot := a\<rparr>) = fresh_slot st" "fresh_slot (st\<lparr>ts_http_slot := a\<rparr>) = fresh_slot st"
  "fresh_slot (st\<lparr>ts_db_slot := a\<rparr>) = fresh_slot st" "fresh_slot (st\<lparr>ts_observed := f\<rparr>) = fresh_slot st"
  by (simp_all add: fresh_slot_def fun_eq_iff split: option.split)

lemma records_keep_handles:
  assumes "handles_ok st"
  shows "handles_ok (record_rotation now target success st)" "handles_ok (record_request m r c secs st)"
    "handles_ok (record_db_query op res secs st)"
  using assms by (simp_all add: handles_ok_def recorders cached_instruments_fresh Let_def)

lemma case_outcome_state:
  "snd (case r of Ok x \<Rightarrow> (a, s1) | Err e \<Rightarrow> (b e, s0) | Panic \<Rightarrow> (c, s0)) = s0 \<or> snd (case r of Ok x \<Rightarrow> (a, s1) | Err e \<Rightarrow> (b e, s0) | Panic \<Rightarrow> (c, s0)) = s1"
  by (cases r) simp_all

lemma setup_metrics_state:
  "snd (setup_metrics ex config st) = st
   \<or> snd (setup_metrics ex config st) = st\<lparr>ts_provider := Suc (ts_provider st), ts_generation := Suc (ts_generation st)\<rparr>"
  unfolding setup_metrics_def Let_def by (rule case_outcome_state)

lemma setup_metrics_keeps_handles: "handles_ok st \<Longrightarrow> handles_ok (snd (setup_metrics ex config st))"
proof -
  assume ok: "handles_ok st"
  consider "snd (setup_metrics ex config st) = st"
    | "snd (setup_metrics ex config st) = st\<lparr>ts_provider := Suc (ts_provider st), ts_generation := Suc (ts_generation st)\<rparr>"
    using setup_metrics_state by blast
  then show ?thesis
  proof cases
    case 2
    have "fresh_slot (st\<lparr>ts_provider := Suc (ts_provider st), ts_generation := Suc (ts_generation st)\<rparr>) slot" if "fresh_slot st slot" for slot
      using that by (cases slot) (auto simp: fresh_slot_def)
    then show ?thesis unfolding 2 using ok by (simp add: handles_ok_def)
  qed (simp add: ok)
qed

lemma records_reach_the_provider:
  assumes "handles_ok st"
  shows "ts_observed (record_rotation now target success st) = (ts_observed st)(ts_provider st := ts_observed st (ts_provider st)
      @ RotationTotal target (if success then ''success'' else ''failure'') # (if success then [RotationLastSuccess target now] else []))"
    "ts_observed (record_request m r c secs st) = (ts_observed st)(ts_provider st := ts_observed st (ts_provider st)
      @ [HttpDuration m r c secs, HttpRequests m r c])"
    "ts_observed (record_db_query op res secs st) = (ts_observed st)(ts_provider st := ts_observed st (ts_provider st) @ [DbQueryDuration op res secs])"
  using assms by (simp_all add: handles_ok_def recorders cached_instruments_fresh Let_def)

text \<open>Without telemetry no exporter of the collector is built, and the outcome does not depend on them.\<close>

lemma init_telemetry_disabled:
  assumes "\<not> tc_enabled config"
  shows "init_telemetry (ex\<lparr>ex_otlp_metrics := a, ex_otlp_spans := b, ex_otlp_logs := c\<rparr>) try_init config st = init_telemetry ex try_init config st"
proof -
  have "setup_metrics (ex\<lparr>ex_otlp_metrics := a, ex_otlp_spans := b, ex_otlp_logs := c\<rparr>) config st = setup_metrics ex config st"
    using assms by (simp add: setup_metrics_def)
  then show ?thesis using assms by (simp add: init_telemetry_def Let_def cong: prod.case_cong outcome.case_cong)
qed

text \<open>A snapshot that is given out was taken less than half a second ago.\<close>

lemma process_snapshot_recent:
  assumes "get_process_snapshot now collected cache = (m, cache')"
  shows "\<exists>t. cache' = Some (t, m) \<and> (t = now \<or> cache = Some (t, m) \<and> now - t < 500)"
  using assms by (auto simp: get_process_snapshot_def split: option.splits if_splits)

text \<open>Measuring a request or a query does not change it.\<close>

lemma track_http_metrics_transparent: "pbind (track_http_metrics meth matched p) (\<lambda>(response, _). Ret response) = p"
  by (simp add: track_http_metrics_def Let_def pbind_assoc pbind_Ret_right)

lemma time_query_transparent: "pbind (time_query operation resource p) (\<lambda>(result, _). Ret result) = p"
  by (simp add: time_query_def pbind_assoc pbind_Ret_right)

end
