(* ===== verification/Bit_Flag.thy ===== *)
theory Bit_Flag
  imports Status_List_Spec
begin

text \<open>
  Model of \<open>src/src/utils/bits_validation.rs\<close>: the type of the widths 1, 2, 4 and 8. The code that
  chooses the width of a list does not use it; the lemmas say when the two agree.
\<close>

datatype bit_flag = BitFlag (bit_flag_value: u8)

definition bit_flag_new :: "u8 \<Rightarrow> bit_flag option" where
  "bit_flag_new value = (if value \<in> {1, 2, 4, 8} then Some (BitFlag value) else None)"

lemma bit_flag_value_new: "bit_flag_new v = Some f \<Longrightarrow> bit_flag_value f = v"
  by (auto simp: bit_flag_new_def split: if_splits)

lemma bit_flag_of_width:
  assumes "n < 256"
  shows "bit_flag_new (of_nat n) \<noteq> None \<longleftrightarrow> n \<in> {1, 2, 4, 8}"
proof -
  have "unat (of_nat n :: u8) = n" using assms by (simp add: unat_of_nat)
  then have "of_nat n = (k :: u8) \<longleftrightarrow> n = unat k" for k by (metis word_unat_eq_iff)
  then show ?thesis by (simp add: bit_flag_new_def)
qed

lemma width_of_wide:
  assumes "256 \<le> v"
  shows "9 \<le> width_of v"
proof -
  have "256 \<le> unat v" using assms by (simp add: word_le_nat_alt)
  then obtain k where "trailing_zeros (next_power_of_two (unat v + 1)) = k" "9 \<le> k" by (rule wide_value_width)
  then show ?thesis using assms by (auto simp: width_of_def word_le_nat_alt)
qed

text \<open>A new list has such a width exactly if it has no application-specific status.\<close>

lemma bit_flag_of_new_list:
  assumes "us \<noteq> []" and legal: "\<And>u. u \<in> set us \<Longrightarrow> legal_status (se_status u)" and "determine_bits us None = Ok bits"
  shows "bit_flag_new (of_nat bits) \<noteq> None \<longleftrightarrow> (\<forall>u \<in> set us. \<forall>v. se_status u \<noteq> ApplicationSpecific v)"
proof -
  have bits: "bits = width_of (max_value us)" using determine_bits_legal [OF assms(1) legal, of None] assms(3) by simp
  then have flag: "bit_flag_new (of_nat bits) \<noteq> None \<longleftrightarrow> bits \<in> {1, 2, 4, 8}"
    using bit_flag_of_width [of bits] width_of_bounds(3) [of "max_value us"] by simp
  have in_max: "max_value us \<in> value_of ` se_status ` set us"
    using Max_in [of "set (map (\<lambda>u. value_of (se_status u)) us)"] assms(1) by (auto simp: max_value_def image_image)
  show ?thesis
  proof (cases "\<exists>u v. u \<in> set us \<and> se_status u = ApplicationSpecific v")
    case True
    then obtain u v where u: "u \<in> set us" "se_status u = ApplicationSpecific v" by blast
    then have "256 \<le> v" using legal [of u] by simp
    moreover have "v \<le> max_value us" unfolding max_value_def using u by (intro Max_ge) force+
    ultimately have "9 \<le> bits" using bits width_of_wide by force
    then show ?thesis using flag u by auto
  next
    case False
    have small: "value_of (se_status u) \<le> 2" if "u \<in> set us" for u using that False by (cases "se_status u") auto
    obtain u where "u \<in> set us" "max_value us = value_of (se_status u)" using in_max by blast
    then have "max_value us \<le> 2" using small by simp
    then have "bits \<in> {1, 2}" unfolding bits by (simp add: width_of_def word_le_nat_alt)
    then show ?thesis using flag False by auto
  qed
qed

end
