(* ===== verification/Spec2Isabelle.thy ===== *)
theory Spec2Isabelle
  imports Handler_Spec Setup_Spec File_Watcher Signing_Keys_Spec Vault_Tokens Migrations Dns_Spec Acme_Dns_Spec
    Composition Telemetry Bit_Flag
begin

text \<open>
  A model of the status list server and the theorems that make it correct. The server keeps
  Token Status Lists for issuers: an issuer registers a public key, publishes a list of credential
  statuses, updates it, and anyone may fetch the list as a signed token, now or as it was at an
  earlier time.

  \<^bold>\<open>The parts of the program and their theories.\<close> The order is that of the imports.

  \<^item> \<open>Prelude\<close>: results of Rust functions as the type \<open>outcome\<close> (\<open>Ok\<close>, \<open>Err\<close>, \<open>Panic\<close>), the
    question mark operator \<open>obind\<close>, fixed-width arithmetic with its wrap-around, decimal text.
    \<open>Text\<close>: the string operations of the standard library on UTF-8 bytes, with the parser of
    IPv6 addresses.
  \<^item> \<open>Bit_Arrays\<close>, \<open>Status_List\<close>, \<open>Bit_Packing\<close>, \<open>Status_List_Spec\<close>:
    \<open>domain/models/status_list.rs\<close>. Lists of 1 to 32 bit values in a byte array, compressed and
    in base64url; zlib and base64 are the record \<open>codec\<close>. The specification sees a list as a
    function from indices to statuses; creation and update refine it at every width, through every
    growth of the array and of the width.
  \<^item> \<open>Processes\<close>, \<open>Ports\<close>: the asynchronous calls as trees of atomic steps on a state
    (\<open>proc\<close>), run alone (\<open>run\<close>) or interleaved; the port traits of \<open>domain/ports.rs\<close> as records
    of operations, the abstract store they speak about, and their contracts as locales
    (\<open>list_repo_contract\<close>, \<open>snapshot_repo_contract\<close>, \<open>credential_repo_contract\<close>,
    \<open>cache_contract\<close>).
  \<^item> \<open>Service\<close>, \<open>Service_Spec\<close>: \<open>domain/service.rs\<close>, every operation over the ports, and what
    each does to the abstract store (locale \<open>service_contract\<close>).
  \<^item> \<open>Memory_Store\<close>, \<open>Concurrency\<close>: \<open>outbound/memory.rs\<close>, whose operations under a mutex are
    one step each, interpreted in the contracts; interleavings of publications and updates are
    linearizable and lose no update.
  \<^item> \<open>Sql_Store\<close>, \<open>Sql_Spec\<close>: \<open>outbound/sql\<close>, statements, transactions, error classification,
    batch deletion. The database is the record \<open>database\<close> with the laws \<open>database_ok\<close>; a small
    relational store shows that the laws can hold.
  \<^item> \<open>Api_Error\<close>, \<open>Http_Conditional\<close>, \<open>Token\<close>, \<open>Handlers\<close>: \<open>server/error.rs\<close> and
    \<open>server/handlers\<close>, from the decoded request to the response, with entity tags, conditional
    requests, content negotiation and the claims of the issued tokens. Signing, hashing, CBOR,
    gzip and date formats are records of functions.
  \<^item> \<open>Auth\<close>, \<open>Health\<close>, \<open>Router\<close>, \<open>Certificates\<close>: \<open>server/auth\<close>, \<open>server/rate_limit.rs\<close>,
    \<open>server/health.rs\<close>, \<open>startup.rs\<close> and \<open>outbound/cert.rs\<close>.
  \<^item> \<open>Server_Spec\<close>, \<open>Handler_Spec\<close>: the whole request path. The locale \<open>server_contract\<close>
    extends \<open>service_contract\<close> by the certificate provider; it shows who may change a list and
    that the store stays sound, for every backend. The exact responses are shown for the in-memory
    backend.
  \<^item> \<open>Config\<close>, \<open>Config_Spec\<close>: \<open>config.rs\<close>, the validation of the settings, the assembly of the
    database URL and the choice of the DNS provider.
  \<^item> \<open>File_Watcher\<close>: \<open>utils/file_watcher.rs\<close>, the tasks that reload rotated secrets, as a
    step relation.
  \<^item> \<open>Setup\<close>, \<open>Setup_Spec\<close>: \<open>setup.rs\<close> and \<open>outbound/cache.rs\<close>, the composition root. The
    SQL deployment is shown to meet \<open>server_contract\<close>, so the theorems of the request path hold of
    it too.

  \<^item> \<open>Crypto_Storage\<close>, \<open>Floats\<close>, \<open>Acme_Challenge\<close>, \<open>Cert_Manager\<close>: \<open>utils/cert_manager\<close>. Secret names and
    typed storage of certificates and keys, the single-precision arithmetic of the renewal threshold,
    the HTTP-01 and DNS-01 handlers, and the manager: provisioning over ACME or from a store, renewal,
    chain cache, counters, builder. \<open>Process_Logic\<close> is a logic of partial correctness for the calls,
    \<open>Cert_Manager_Spec\<close> and \<open>Cert_Manager_Laws\<close> have the laws of the manager, and \<open>Signing_Keys\<close>,
    \<open>Signing_Keys_Spec\<close> its guarantees: a signing key stays what it is, an issuance takes effect as a
    whole or not at all, certificates are renewed in time.
  \<^item> \<open>Secret_Stores\<close>, \<open>Secret_Stores_Spec\<close>, \<open>Vault\<close>, \<open>Vault_Spec\<close>: the adapters of
    \<open>outbound/aws.rs\<close>, \<open>azure_kv.rs\<close>, \<open>azure_identity.rs\<close>, \<open>gcp_secret.rs\<close> and \<open>vault.rs\<close>; those of Google
    and Vault are shown to implement the storage trait. \<open>Mutex\<close>, \<open>Vault_Tokens\<close>: any number of
    concurrent users of a Vault token share one round of authentication.
  \<^item> \<open>Migrations\<close>: \<open>outbound/sql/migrations.rs\<close>, the schema it leaves and its reversal, and the
    checks of a MySQL server.
  \<^item> \<open>Dns_Providers\<close>: \<open>utils/cert_manager/challenge/dns01\<close>, the six providers with their token
    cache, zone listing, retries and polls. \<open>Dns_Interference\<close>, \<open>Dns_Spec\<close>: read-modify-write of a
    record set while others write too (locale \<open>optimistic_update\<close>, interpreted for Azure and Google):
    no digest is lost. \<open>Acme_Dns_Spec\<close>: what the start-up check of ACME-DNS accounts decides.
  \<^item> \<open>Composition\<close>: the rest of \<open>setup.rs\<close> (choice of the secret store and of the DNS provider, the
    certificate manager, opening of the database, rotations) and the defaults and overrides of
    \<open>config.rs\<close>. \<open>Telemetry\<close>: \<open>utils/metrics*.rs\<close>, \<open>utils/telemetry.rs\<close>, the metrics middleware and the
    construction of the server. \<open>Bit_Flag\<close>: \<open>utils/bits_validation.rs\<close>.

  \<^bold>\<open>Reading the model.\<close> Record fields carry a prefix for their record; operations keep the names
  of the code, with the module's name in front where HOL or another module uses the name. Strings
  are bytes. \<open>u8\<close> and \<open>u32\<close> are words, \<open>i32\<close>, \<open>i64\<close> and \<open>u64\<close> are \<open>int\<close> and \<open>nat\<close> with the
  wrap-around written out where the code can leave the range. Durations are in nanoseconds, or in the
  unit named at the definition. Log output is left out throughout, and so are metrics outside \<open>Telemetry\<close>
  and the manager's own counters. The clock, fresh identifiers and everything outside the repository are parameters;
  where a theorem relies on them, what it relies on is a named hypothesis, and its witness gives an
  instance: \<open>codec_ok\<close> (compression and base64), \<open>database_ok\<close> and \<open>schema_db_ok\<close> (the database),
  \<open>moka_ok\<close> (the cache), \<open>jwt_checks_issuer\<close> (the JWT library), \<open>hex_digest\<close> (SHA-256 in hexadecimal),
  \<open>manager_world\<close> and \<open>storage_contract\<close> (what a certificate manager works with), \<open>gcp_service_ok\<close>,
  \<open>vault_service_ok\<close>, \<open>leases_last\<close> and \<open>counts_auths\<close> (the secret services), \<open>azure_dns_ok\<close>, \<open>gcloud_dns_ok\<close>
  and \<open>acme_dns_ok\<close> (the DNS services).

  \<^bold>\<open>Interfaces.\<close> The contracts of the ports, of the service and of the server are locales,
  interpreted on the in-memory adapters and shown of the SQL adapters on every database with
  \<open>database_ok\<close>. The contracts of the certificate providers, of the storage trait (\<open>storage_contract\<close>), of
  a manager's surroundings (\<open>manager_world\<close>), of a mutex and of the updates of DNS record sets
  (\<open>optimistic_update\<close>) are locales too, interpreted on the adapters that provide them.

  \<^bold>\<open>Bounds.\<close> The batch deletion of \<open>sql/store.rs\<close> has fuel for one statement more than the history
  table has rows, running out is \<open>Panic\<close>, and the contract shows that it does not happen. The
  retries are those of the code: ten attempts at Azure Key Vault, three at a signing key that another
  instance stored, three at a record set that others changed, and polls of a DNS change until 300
  seconds have passed. The reader of a DER chain terminates because it stops when the
  parser makes no progress. A listing of zones, a poll and the wait for a replaced database pool may run for
  ever if the other side keeps them waiting; they are partial functions, and \<open>None\<close> means that they
  do not return. All other recursion is structural or has a termination proof.

  \<^bold>\<open>Not modelled.\<close> The entry point \<open>main.rs\<close>, which calls the parts in turn; the serving of sockets,
  CORS, the shutdown signal and trace propagation, which are calls of libraries; test support. The
  deserialisation of requests, responses and settings by the libraries enters as its result.
\<close>

end
